(* ===== verification/Prelude.thy ===== *)
theory Prelude
  imports Main
begin

text \<open>
  Shared vocabulary of the development.

  \<^item> The effect type \<open>io\<close>: a computation over a state that returns a value or an
    error \<^emph>\<open>and\<close> the state it left behind. The state survives an error, as it does in the
    code, where a failed handler has already issued its earlier writes.
  \<^item> The operators the translated code is written with: \<open>ret\<close> is \<open>Ok\<close>, \<open>fail\<close> is
    \<open>return Err\<close>, \<open>bnd\<close> is the \<open>?\<close> operator, \<open>map_err\<close> is \<open>Result::map_err\<close>,
    \<open>or_default\<close> is \<open>Result::unwrap_or\<close>, \<open>for_each\<close> and \<open>collect\<close> are loops with
    \<open>?\<close> in the body.
  \<^item> A weakest-precondition calculus \<open>wp m Q E s\<close> with a postcondition \<open>Q\<close> for the
    normal result and \<open>E\<close> for the error result; its rules are collected in \<open>wp_intro\<close>.
  \<^item> Association lists as the model of \<open>HashMap\<close>: the list is one of the orders in which
    the map may be iterated, \<open>map_of\<close> is the map.
\<close>

named_theorems wp_intro \<open>weakest-precondition rules\<close>
named_theorems run \<open>definitions unfolded to run a handler on a concrete state\<close>
named_theorems pure_io \<open>computations that leave the state alone\<close>

section \<open>Computations with errors\<close>

type_synonym ('s, 'e, 'a) io = "'s \<Rightarrow> ('e + 'a) \<times> 's"

definition ret :: "'a \<Rightarrow> ('s, 'e, 'a) io" where
  "ret x = (\<lambda>s. (Inr x, s))"

definition fail :: "'e \<Rightarrow> ('s, 'e, 'a) io" where
  "fail e = (\<lambda>s. (Inl e, s))"

definition bnd :: "('s, 'e, 'a) io \<Rightarrow> ('a \<Rightarrow> ('s, 'e, 'b) io) \<Rightarrow> ('s, 'e, 'b) io" where
  "bnd m f = (\<lambda>s. case m s of (Inl e, s') \<Rightarrow> (Inl e, s') | (Inr x, s') \<Rightarrow> f x s')"

definition map_err :: "('e \<Rightarrow> 'f) \<Rightarrow> ('s, 'e, 'a) io \<Rightarrow> ('s, 'f, 'a) io" where
  "map_err g m = (\<lambda>s. case m s of (Inl e, s') \<Rightarrow> (Inl (g e), s') | (Inr x, s') \<Rightarrow> (Inr x, s'))"

definition or_default :: "'a \<Rightarrow> ('s, 'e, 'a) io \<Rightarrow> ('s, 'f, 'a) io" where
  "or_default d m = (\<lambda>s. case m s of (Inl e, s') \<Rightarrow> (Inr d, s') | (Inr x, s') \<Rightarrow> (Inr x, s'))"

text \<open>A pure fallible step: the sum is returned, the state is untouched.\<close>

definition lift :: "('e + 'a) \<Rightarrow> ('s, 'e, 'a) io" where
  "lift r = (\<lambda>s. (r, s))"

definition guard :: "bool \<Rightarrow> 'e \<Rightarrow> ('s, 'e, unit) io" where
  "guard b e = (if b then ret () else fail e)"

primrec for_each :: "('a \<Rightarrow> ('s, 'e, unit) io) \<Rightarrow> 'a list \<Rightarrow> ('s, 'e, unit) io" where
  "for_each f [] = ret ()"
| "for_each f (x # xs) = bnd (f x) (\<lambda>_. for_each f xs)"

primrec collect :: "('a \<Rightarrow> ('s, 'e, 'b) io) \<Rightarrow> 'a list \<Rightarrow> ('s, 'e, 'b list) io" where
  "collect f [] = ret []"
| "collect f (x # xs) = bnd (f x) (\<lambda>y. bnd (collect f xs) (\<lambda>ys. ret (y # ys)))"

text \<open>Sums without a state: validators return \<open>Result<T, String>\<close>.\<close>

definition sbind :: "('e + 'a) \<Rightarrow> ('a \<Rightarrow> 'e + 'b) \<Rightarrow> 'e + 'b" where
  "sbind r f = (case r of Inl e \<Rightarrow> Inl e | Inr x \<Rightarrow> f x)"

definition smap_err :: "('e \<Rightarrow> 'f) \<Rightarrow> ('e + 'a) \<Rightarrow> 'f + 'a" where
  "smap_err g r = (case r of Inl e \<Rightarrow> Inl (g e) | Inr x \<Rightarrow> Inr x)"

definition ok_or :: "'a option \<Rightarrow> 'e \<Rightarrow> 'e + 'a" where
  "ok_or m e = (case m of None \<Rightarrow> Inl e | Some x \<Rightarrow> Inr x)"

definition check :: "bool \<Rightarrow> 'e \<Rightarrow> 'e + unit" where
  "check b e = (if b then Inr () else Inl e)"

primrec check_all :: "('a \<Rightarrow> 'e + unit) \<Rightarrow> 'a list \<Rightarrow> 'e + unit" where
  "check_all f [] = Inr ()"
| "check_all f (x # xs) = sbind (f x) (\<lambda>_. check_all f xs)"

definition check_opt :: "('a \<Rightarrow> string + unit) \<Rightarrow> 'a option \<Rightarrow> string + unit" where
  "check_opt f v = (case v of None \<Rightarrow> Inr () | Some x \<Rightarrow> f x)"

lemma check_opt_simps [simp]: "check_opt f None = Inr ()" "check_opt f (Some x) = f x"
  by (simp_all add: check_opt_def)

lemma sbind_simps [simp]: "sbind (Inl e) f = Inl e" "sbind (Inr x) f = f x"
  by (simp_all add: sbind_def)

lemma sbind_Inr [simp]: "sbind r f = Inr y \<longleftrightarrow> (\<exists>x. r = Inr x \<and> f x = Inr y)"
  by (cases r) auto

lemma sbind_Inl: "sbind r f = Inl e \<longleftrightarrow> r = Inl e \<or> (\<exists>x. r = Inr x \<and> f x = Inl e)"
  by (cases r) auto

lemma smap_err_simps [simp]: "smap_err g (Inl e) = Inl (g e)" "smap_err g (Inr x) = Inr x"
  by (simp_all add: smap_err_def)

lemma smap_err_Inr [simp]: "smap_err g r = Inr x \<longleftrightarrow> r = Inr x"
  by (cases r) auto

lemma smap_err_Inl: "smap_err g r = Inl e \<longleftrightarrow> (\<exists>e'. r = Inl e' \<and> e = g e')"
  by (cases r) auto

lemma ok_or_simps [simp]: "ok_or (Some x) e = Inr x" "ok_or None e = Inl e"
  by (simp_all add: ok_or_def)

lemma ok_or_Inr [simp]: "ok_or m e = Inr x \<longleftrightarrow> m = Some x"
  by (cases m) auto

lemma check_Inr [simp]: "check b e = Inr u \<longleftrightarrow> b"
  by (simp add: check_def)

lemma check_Inl [simp]: "check b e = Inl e' \<longleftrightarrow> \<not> b \<and> e' = e"
  by (auto simp: check_def)

lemma check_simps [simp]: "check True e = Inr ()" "check False e = Inl e"
  by (simp_all add: check_def)

lemma check_all_Inr [simp]: "check_all f xs = Inr u \<longleftrightarrow> (\<forall>x\<in>set xs. f x = Inr ())"
  by (induction xs) auto

lemma check_all_Inl: "check_all f xs = Inl e \<Longrightarrow> \<exists>x\<in>set xs. f x = Inl e"
  by (induction xs) (auto simp: sbind_Inl)

section \<open>Evaluation of computations\<close>

lemma ret_apply: "ret x s = (Inr x, s)"
  by (simp add: ret_def)

lemma fail_apply: "fail e s = (Inl e, s)"
  by (simp add: fail_def)

lemma lift_apply: "lift r s = (r, s)"
  by (simp add: lift_def)

lemmas io_run [run] = ret_def fail_def bnd_def map_err_def or_default_def lift_def guard_def Let_def

lemmas io_apply = ret_apply fail_apply lift_apply

lemma bnd_ret [simp]: "bnd (ret x) f = f x"
  by (simp add: bnd_def ret_def)

lemma bnd_fail [simp]: "bnd (fail e) f = fail e"
  by (simp add: bnd_def fail_def)

lemma bnd_ret_right [simp]: "bnd m ret = m"
  by (rule ext) (simp add: bnd_def ret_def split: prod.splits sum.splits)

lemma bnd_assoc: "bnd (bnd m f) g = bnd m (\<lambda>x. bnd (f x) g)"
  by (rule ext) (simp add: bnd_def split: prod.splits sum.splits)

lemma for_each_append: "for_each f (xs @ ys) = bnd (for_each f xs) (\<lambda>_. for_each f ys)"
  by (induction xs) (simp_all add: bnd_assoc)

section \<open>Weakest preconditions\<close>

definition wp :: "('s, 'e, 'a) io \<Rightarrow> ('a \<Rightarrow> 's \<Rightarrow> bool) \<Rightarrow> ('e \<Rightarrow> 's \<Rightarrow> bool) \<Rightarrow> 's \<Rightarrow> bool" where
  "wp m Q E s = (case m s of (Inl e, s') \<Rightarrow> E e s' | (Inr x, s') \<Rightarrow> Q x s')"

lemma wpI:
  assumes "\<And>x s'. m s = (Inr x, s') \<Longrightarrow> Q x s'"
    and "\<And>e s'. m s = (Inl e, s') \<Longrightarrow> E e s'"
  shows "wp m Q E s"
  using assms by (auto simp: wp_def split: prod.splits sum.splits)

lemma wp_okD: "wp m Q E s \<Longrightarrow> m s = (Inr x, s') \<Longrightarrow> Q x s'"
  by (simp add: wp_def)

lemma wp_errD: "wp m Q E s \<Longrightarrow> m s = (Inl e, s') \<Longrightarrow> E e s'"
  by (simp add: wp_def)

lemma wp_result: "wp m Q E s \<Longrightarrow> m s = (r, s') \<Longrightarrow> case r of Inl e \<Rightarrow> E e s' | Inr x \<Rightarrow> Q x s'"
  by (cases r) (simp_all add: wp_def)

lemma wp_conseq:
  assumes "wp m Q E s" and "\<And>x s. Q x s \<Longrightarrow> Q' x s" and "\<And>e s. E e s \<Longrightarrow> E' e s"
  shows "wp m Q' E' s"
  using assms by (auto simp: wp_def split: prod.splits sum.splits)

lemma wp_conj: "wp m Q E s \<Longrightarrow> wp m Q' E' s \<Longrightarrow> wp m (\<lambda>x s. Q x s \<and> Q' x s) (\<lambda>e s. E e s \<and> E' e s) s"
  by (auto simp: wp_def split: prod.splits sum.splits)

lemma wp_ret [wp_intro]: "Q x s \<Longrightarrow> wp (ret x) Q E s"
  by (simp add: wp_def ret_def)

lemma wp_fail [wp_intro]: "E e s \<Longrightarrow> wp (fail e) Q E s"
  by (simp add: wp_def fail_def)

lemma wp_lift [wp_intro]:
  "(\<And>x. r = Inr x \<Longrightarrow> Q x s) \<Longrightarrow> (\<And>e. r = Inl e \<Longrightarrow> E e s) \<Longrightarrow> wp (lift r) Q E s"
  by (cases r) (simp_all add: wp_def lift_def)

lemma wp_bnd_eq: "wp (bnd m f) Q E s = wp m (\<lambda>x. wp (f x) Q E) E s"
  by (simp add: wp_def bnd_def split: prod.splits sum.splits)

lemma wp_bnd [wp_intro]: "wp m (\<lambda>x. wp (f x) Q E) E s \<Longrightarrow> wp (bnd m f) Q E s"
  by (simp add: wp_bnd_eq)

lemma wp_map_err [wp_intro]: "wp m Q (\<lambda>e. E (g e)) s \<Longrightarrow> wp (map_err g m) Q E s"
  by (simp add: wp_def map_err_def split: prod.splits sum.splits)

lemma wp_or_default [wp_intro]: "wp m Q (\<lambda>e. Q d) s \<Longrightarrow> wp (or_default d m) Q E s"
  by (simp add: wp_def or_default_def split: prod.splits sum.splits)

lemma wp_guard [wp_intro]: "(b \<Longrightarrow> Q () s) \<Longrightarrow> (\<not> b \<Longrightarrow> E e s) \<Longrightarrow> wp (guard b e) Q E s"
  by (simp add: guard_def wp_def ret_def fail_def)

lemma wp_if [wp_intro]:
  "(b \<Longrightarrow> wp m Q E s) \<Longrightarrow> (\<not> b \<Longrightarrow> wp n Q E s) \<Longrightarrow> wp (if b then m else n) Q E s"
  by simp

lemma wp_case_option [wp_intro]:
  "(x = None \<Longrightarrow> wp m Q E s) \<Longrightarrow> (\<And>y. x = Some y \<Longrightarrow> wp (f y) Q E s) \<Longrightarrow>
   wp (case x of None \<Rightarrow> m | Some y \<Rightarrow> f y) Q E s"
  by (cases x) simp_all

lemma wp_let [wp_intro]: "(\<And>y. y = x \<Longrightarrow> wp (f y) Q E s) \<Longrightarrow> wp (Let x f) Q E s"
  by simp

text \<open>The loop rule: an invariant over the processed prefix.\<close>

lemma wp_for_each:
  assumes "I [] s"
    and "\<And>ys z zs s. xs = ys @ z # zs \<Longrightarrow> I ys s \<Longrightarrow> wp (f z) (\<lambda>_. I (ys @ [z])) E s"
    and "\<And>s. I xs s \<Longrightarrow> Q () s"
  shows "wp (for_each f xs) Q E s"
proof -
  have "wp (for_each f zs) (\<lambda>_. I xs) E s" if "xs = ys @ zs" "I ys s" for ys zs s
    using that
  proof (induction zs arbitrary: ys s)
    case Nil
    then show ?case by (simp add: wp_def ret_def)
  next
    case (Cons z zs)
    have "wp (f z) (\<lambda>_. I (ys @ [z])) E s"
      using assms(2) [of ys z zs s] Cons.prems by simp
    then have "wp (f z) (\<lambda>_. wp (for_each f zs) (\<lambda>_. I xs) E) E s"
      by (rule wp_conseq) (use Cons.IH [of "ys @ [z]"] Cons.prems(1) in auto)
    then show ?case by (simp add: wp_bnd_eq)
  qed
  from this [of "[]" xs s] assms(1,3) show ?thesis
    by (auto elim: wp_conseq)
qed

section \<open>Association lists\<close>

text \<open>Insert or overwrite, keeping the position of an existing key.\<close>

fun al_put :: "'k \<Rightarrow> 'v \<Rightarrow> ('k \<times> 'v) list \<Rightarrow> ('k \<times> 'v) list" where
  "al_put k v [] = [(k, v)]"
| "al_put k v ((k', v') # xs) = (if k' = k then (k, v) # xs else (k', v') # al_put k v xs)"

definition al_del :: "'k \<Rightarrow> ('k \<times> 'v) list \<Rightarrow> ('k \<times> 'v) list" where
  "al_del k xs = filter (\<lambda>(k', _). k' \<noteq> k) xs"

definition al_puts :: "('k \<times> 'v) list \<Rightarrow> ('k \<times> 'v) list \<Rightarrow> ('k \<times> 'v) list" where
  "al_puts fs xs = foldl (\<lambda>acc (k, v). al_put k v acc) xs fs"

definition al_dels :: "'k list \<Rightarrow> ('k \<times> 'v) list \<Rightarrow> ('k \<times> 'v) list" where
  "al_dels ks xs = foldl (\<lambda>acc k. al_del k acc) xs ks"

lemma map_of_al_put [simp]: "map_of (al_put k v xs) = (map_of xs)(k \<mapsto> v)"
  by (induction k v xs rule: al_put.induct) auto

lemma map_of_al_del [simp]: "map_of (al_del k xs) = (map_of xs)(k := None)"
  by (induction xs) (auto simp: al_del_def fun_eq_iff)

lemma set_keys_al_put [simp]: "fst ` set (al_put k v xs) = insert k (fst ` set xs)"
  by (induction k v xs rule: al_put.induct) auto

lemma set_keys_al_del [simp]: "fst ` set (al_del k xs) = fst ` set xs - {k}"
  by (auto simp: al_del_def)

lemma distinct_al_put [simp]: "distinct (map fst (al_put k v xs)) = distinct (map fst xs)"
  by (induction k v xs rule: al_put.induct) auto

lemma distinct_al_del [intro]: "distinct (map fst xs) \<Longrightarrow> distinct (map fst (al_del k xs))"
  by (induction xs) (auto simp: al_del_def)

lemma al_put_nonempty [simp]: "al_put k v xs \<noteq> []"
  by (cases xs) (auto split: if_splits)

lemma al_puts_simps [simp]:
  "al_puts [] xs = xs" "al_puts ((k, v) # fs) xs = al_puts fs (al_put k v xs)"
  by (simp_all add: al_puts_def)

lemma al_dels_simps [simp]:
  "al_dels [] xs = xs" "al_dels (k # ks) xs = al_dels ks (al_del k xs)"
  by (simp_all add: al_dels_def)

lemma map_of_al_puts: "map_of (al_puts fs xs) = map_of xs ++ map_of (rev fs)"
  by (induction fs arbitrary: xs) (auto simp: map_add_def fun_eq_iff split: option.splits)

lemma map_of_al_dels: "map_of (al_dels ks xs) = map_of xs |` (- set ks)"
  by (induction ks arbitrary: xs) (auto simp: restrict_map_def fun_eq_iff)

lemma distinct_al_puts [simp]: "distinct (map fst (al_puts fs xs)) = distinct (map fst xs)"
proof (induction fs arbitrary: xs)
  case (Cons f fs)
  then show ?case by (cases f) simp
qed simp

lemma distinct_al_dels [intro]: "distinct (map fst xs) \<Longrightarrow> distinct (map fst (al_dels ks xs))"
  by (induction ks arbitrary: xs) auto

lemma al_puts_nonempty: "fs \<noteq> [] \<Longrightarrow> al_puts fs xs \<noteq> []"
proof (induction fs arbitrary: xs)
  case (Cons f fs)
  then show ?case by (cases f; cases fs) auto
qed simp

lemma map_of_empty_iff [simp]: "map_of xs = Map.empty \<longleftrightarrow> xs = []"
  by (cases xs) (auto simp: fun_eq_iff)

lemma map_of_rev_distinct: "distinct (map fst xs) \<Longrightarrow> map_of (rev xs) = map_of xs"
  by (simp add: map_of_inject_set rev_map [symmetric])

lemma set_map_filter_iff: "set (List.map_filter f xs) = {y. \<exists>x\<in>set xs. f x = Some y}"
  by (force simp: List.map_filter_def)

lemma map_of_functional:
  assumes "\<And>k v. (k, v) \<in> set xs \<longleftrightarrow> f k = Some v"
  shows "map_of xs = f"
proof
  fix k
  show "map_of xs k = f k"
  proof (cases "map_of xs k")
    case None
    then have "(k, v) \<notin> set xs" for v by (auto simp: map_of_eq_None_iff image_iff)
    with assms None show ?thesis by (metis not_None_eq)
  next
    case (Some v)
    then have "(k, v) \<in> set xs" by (rule map_of_SomeD)
    with assms Some show ?thesis by simp
  qed
qed

end
