(* ===== verification/Store.thy ===== *)
theory Store
  imports RustStd
begin

text \<open>
  Platform access, \<^verbatim>\<open>src/src/sonic/store.rs\<close>.

  \<^item> \<open>platform\<close> is the trait \<open>Platform\<close>: a trait object \<open>&mut dyn Platform\<close> is a table
    of operations together with the state they act on, here a record of operations over a
    state type \<open>'s\<close> that is passed explicitly. Handlers take the record as their first
    argument and run over any state type.
  \<^item> the degrading readers \<open>row\<close>, \<open>keys\<close>, \<open>field\<close> and the key splitters.
  \<^item> \<open>Batch\<close>: multi-row writes that snapshot each key before first touching it, and
    \<open>apply\<close>, which rolls back on an error.
  \<^item> the locale \<open>redis_store\<close> states what handlers rely on of a platform's database
    operations (documented redis semantics: one command is atomic, a hash with no fields does
    not exist, a failed command changes nothing); \<open>one_fault_store\<close> adds that after one
    failed command the server answers again. The main result is proved in the second: a
    batch that fails leaves every database as it was.
\<close>

section \<open>The platform trait\<close>

type_synonym row = "(string \<times> string) list"

record cmd_output =
  co_ok :: bool
  co_stdout :: string
  co_stderr :: string

record 's platform =
  hgetall :: "int \<Rightarrow> string \<Rightarrow> ('s, string, row) io"
  scan :: "int \<Rightarrow> string \<Rightarrow> ('s, string, string list) io"
  hset :: "int \<Rightarrow> string \<Rightarrow> row \<Rightarrow> ('s, string, unit) io"
  hdel :: "int \<Rightarrow> string \<Rightarrow> string list \<Rightarrow> ('s, string, unit) io"
  del :: "int \<Rightarrow> string \<Rightarrow> ('s, string, unit) io"
  exists :: "int \<Rightarrow> string \<Rightarrow> ('s, string, bool) io"
  run_cmd :: "string \<Rightarrow> string list \<Rightarrow> ('s, string, cmd_output) io"
  run_input :: "string \<Rightarrow> string list \<Rightarrow> string \<Rightarrow> ('s, string, cmd_output) io"
  spawn :: "string \<Rightarrow> string list \<Rightarrow> ('s, string, unit) io"
  read_file :: "string \<Rightarrow> 's \<Rightarrow> string option \<times> 's"
  write_file :: "string \<Rightarrow> string \<Rightarrow> ('s, string, unit) io"

text \<open>The database numbers of \<^verbatim>\<open>src/src/sonic/mod.rs\<close>.\<close>

definition APPL_DB :: int where "APPL_DB = 0"
definition ASIC_DB :: int where "ASIC_DB = 1"
definition COUNTERS_DB :: int where "COUNTERS_DB = 2"
definition CONFIG_DB :: int where "CONFIG_DB = 4"
definition STATE_DB :: int where "STATE_DB = 6"

section \<open>Degrading read helpers\<close>

definition row_of :: "'s platform \<Rightarrow> int \<Rightarrow> string \<Rightarrow> ('s, 'e, row) io" where
  "row_of P db key = or_default [] (hgetall P db key)"

definition keys_of :: "'s platform \<Rightarrow> int \<Rightarrow> string \<Rightarrow> ('s, 'e, string list) io" where
  "keys_of P db pattern = or_default [] (scan P db pattern)"

definition field :: "row \<Rightarrow> string \<Rightarrow> string option" where
  "field h key = (case map_of h key of
       None \<Rightarrow> None
     | Some v \<Rightarrow> if trim v = [] then None else Some (trim v))"

text \<open>\<open>field\<close> only depends on the map.\<close>

definition mfield :: "(string \<rightharpoonup> string) \<Rightarrow> string \<Rightarrow> string option" where
  "mfield m key = (case m key of None \<Rightarrow> None | Some v \<Rightarrow> if trim v = [] then None else Some (trim v))"

lemma field_map: "field h = mfield (map_of h)"
  by (simp add: field_def mfield_def fun_eq_iff)

definition key_suffix :: "string \<Rightarrow> string \<Rightarrow> string option" where
  "key_suffix key prefix = (case strip_prefix prefix key of
       None \<Rightarrow> None
     | Some s \<Rightarrow> if s = [] then None else Some s)"

definition two_parts :: "string \<Rightarrow> string \<Rightarrow> (string \<times> string) option" where
  "two_parts key prefix =
     Option.bind (strip_prefix prefix key) (\<lambda>rest.
     Option.bind (split_once (CHR ''|'') rest) (\<lambda>(a, b).
     if a \<noteq> [] \<and> b \<noteq> [] then Some (a, b) else None))"

definition three_parts :: "string \<Rightarrow> string \<Rightarrow> (string \<times> string \<times> string) option" where
  "three_parts key prefix =
     Option.bind (strip_prefix prefix key) (\<lambda>rest0.
     Option.bind (split_once (CHR ''|'') rest0) (\<lambda>(a, rest).
     Option.bind (split_once (CHR ''|'') rest) (\<lambda>(b, c).
     if a \<noteq> [] \<and> b \<noteq> [] \<and> c \<noteq> [] then Some (a, b, c) else None)))"

lemma field_Some: "field h k = Some v \<longleftrightarrow> (\<exists>w. map_of h k = Some w \<and> v = trim w \<and> v \<noteq> [])"
  by (auto simp: field_def split: option.splits)

lemma field_nonempty: "field h k = Some v \<Longrightarrow> v \<noteq> []"
  by (auto simp: field_Some)

lemma field_cong: "map_of h = map_of h' \<Longrightarrow> field h = field h'"
  by (simp add: field_def fun_eq_iff)

lemma key_suffix_Some: "key_suffix key p = Some s \<longleftrightarrow> key = p @ s \<and> s \<noteq> []"
  by (auto simp: key_suffix_def strip_prefix_None split: option.splits)

lemma two_parts_Some:
  "two_parts key p = Some (a, b) \<longleftrightarrow>
     key = p @ a @ CHR ''|'' # b \<and> a \<noteq> [] \<and> b \<noteq> [] \<and> CHR ''|'' \<notin> set a"
  by (auto simp: two_parts_def Option.bind_eq_Some_conv split_once_Some split: if_splits)

lemma three_parts_Some:
  "three_parts key p = Some (a, b, c) \<longleftrightarrow>
     key = p @ a @ CHR ''|'' # b @ CHR ''|'' # c \<and> a \<noteq> [] \<and> b \<noteq> [] \<and> c \<noteq> []
     \<and> CHR ''|'' \<notin> set a \<and> CHR ''|'' \<notin> set b" (is "?l = ?r")
proof
  assume ?l
  then show ?r
    by (auto simp: three_parts_def Option.bind_eq_Some_conv split_once_Some split: if_splits)
next
  assume ?r
  then show ?l by (clarsimp simp: three_parts_def)
qed

section \<open>Rollback batches\<close>

record 's batch =
  b_plat :: 's
  b_snaps :: "(int \<times> string \<times> row) list"

definition new_batch :: "'s \<Rightarrow> 's batch" where
  "new_batch s = \<lparr>b_plat = s, b_snaps = []\<rparr>"

definition on_plat :: "('s, 'e, 'a) io \<Rightarrow> ('s batch, 'e, 'a) io" where
  "on_plat m = (\<lambda>b. case m (b_plat b) of (r, s') \<Rightarrow> (r, b\<lparr>b_plat := s'\<rparr>))"

definition add_snap :: "int \<Rightarrow> string \<Rightarrow> row \<Rightarrow> ('s batch, 'e, unit) io" where
  "add_snap db key prior = (\<lambda>b. (Inr (), b\<lparr>b_snaps := b_snaps b @ [(db, key, prior)]\<rparr>))"

definition snapped :: "int \<Rightarrow> string \<Rightarrow> 's batch \<Rightarrow> bool" where
  "snapped db key b \<longleftrightarrow> list_ex (\<lambda>(d, k, _). d = db \<and> k = key) (b_snaps b)"

definition b_snapshot :: "'s platform \<Rightarrow> int \<Rightarrow> string \<Rightarrow> ('s batch, string, unit) io" where
  "b_snapshot P db key = (\<lambda>b.
     if snapped db key b then ret () b
     else bnd (on_plat (hgetall P db key)) (\<lambda>prior. add_snap db key prior) b)"

definition b_hset :: "'s platform \<Rightarrow> int \<Rightarrow> string \<Rightarrow> row \<Rightarrow> ('s batch, string, unit) io" where
  "b_hset P db key fs = bnd (b_snapshot P db key) (\<lambda>_. on_plat (hset P db key fs))"

definition b_hdel :: "'s platform \<Rightarrow> int \<Rightarrow> string \<Rightarrow> string list \<Rightarrow> ('s batch, string, unit) io" where
  "b_hdel P db key fs = bnd (b_snapshot P db key) (\<lambda>_. on_plat (hdel P db key fs))"

definition b_del :: "'s platform \<Rightarrow> int \<Rightarrow> string \<Rightarrow> ('s batch, string, unit) io" where
  "b_del P db key = bnd (b_snapshot P db key) (\<lambda>_. on_plat (del P db key))"

text \<open>\<open>let _ = \<dots>\<close>: the result of a restoring write is ignored.\<close>

definition restore_row :: "'s platform \<Rightarrow> int \<times> string \<times> row \<Rightarrow> 's \<Rightarrow> 's" where
  "restore_row P snap s =
     (case snap of (db, key, prior) \<Rightarrow>
        (let s1 = snd (del P db key s)
         in if prior = [] then s1 else snd (hset P db key prior s1)))"

definition rollback :: "'s platform \<Rightarrow> 's batch \<Rightarrow> 's" where
  "rollback P b = foldl (\<lambda>s snap. restore_row P snap s) (b_plat b) (rev (b_snaps b))"

definition apply_batch :: "'s platform \<Rightarrow> ('s batch, string, unit) io \<Rightarrow> ('s, string, unit) io" where
  "apply_batch P op = (\<lambda>s.
     case op (new_batch s) of
       (Inr _, b) \<Rightarrow> (Inr (), b_plat b)
     | (Inl e, b) \<Rightarrow> (Inl e, rollback P b))"

section \<open>The database view\<close>

text \<open>
  What a state says of the databases: for a database number and a key the fields of the
  hash. An absent key has no fields.
\<close>

type_synonym dbs = "int \<Rightarrow> string \<Rightarrow> (string \<rightharpoonup> string)"

definition v_hset :: "int \<Rightarrow> string \<Rightarrow> row \<Rightarrow> dbs \<Rightarrow> dbs" where
  "v_hset db key fs v = v(db := (v db)(key := v db key ++ map_of (rev fs)))"

definition v_hdel :: "int \<Rightarrow> string \<Rightarrow> string list \<Rightarrow> dbs \<Rightarrow> dbs" where
  "v_hdel db key fs v = v(db := (v db)(key := v db key |` (- set fs)))"

definition v_del :: "int \<Rightarrow> string \<Rightarrow> dbs \<Rightarrow> dbs" where
  "v_del db key v = v(db := (v db)(key := Map.empty))"

lemma v_hset_same [simp]: "v_hset db k fs v db k = v db k ++ map_of (rev fs)"
  by (simp add: v_hset_def)

lemma v_hset_other [simp]: "(d, k') \<noteq> (db, k) \<Longrightarrow> v_hset db k fs v d k' = v d k'"
  by (auto simp: v_hset_def)

lemma v_hdel_same [simp]: "v_hdel db k fs v db k = v db k |` (- set fs)"
  by (simp add: v_hdel_def)

lemma v_hdel_other [simp]: "(d, k') \<noteq> (db, k) \<Longrightarrow> v_hdel db k fs v d k' = v d k'"
  by (auto simp: v_hdel_def)

lemma v_del_same [simp]: "v_del db k v db k = Map.empty"
  by (simp add: v_del_def)

lemma v_del_other [simp]: "(d, k') \<noteq> (db, k) \<Longrightarrow> v_del db k v d k' = v d k'"
  by (auto simp: v_del_def)

text \<open>Removing every key of a database that satisfies a predicate.\<close>

definition v_drop :: "int \<Rightarrow> (string \<Rightarrow> bool) \<Rightarrow> dbs \<Rightarrow> dbs" where
  "v_drop db p v = v(db := (\<lambda>k. if p k then Map.empty else v db k))"

lemma v_drop_apply [simp]: "v_drop db p v d k = (if d = db \<and> p k then Map.empty else v d k)"
  by (simp add: v_drop_def)

lemma v_drop_drop [simp]: "v_drop db p (v_drop db q v) = v_drop db (\<lambda>k. p k \<or> q k) v"
  by (auto simp: v_drop_def fun_eq_iff)

lemma v_drop_none [simp]: "v_drop db (\<lambda>k. False) v = v"
  by (simp add: v_drop_def)

lemma v_del_drop: "v_del db key v = v_drop db (\<lambda>k. k = key) v"
  by (auto simp: v_drop_def v_del_def fun_eq_iff)

lemma v_drop_cong:
  assumes "\<And>k. v db k \<noteq> Map.empty \<Longrightarrow> p k \<longleftrightarrow> q k"
  shows "v_drop db p v = v_drop db q v"
proof (intro ext)
  fix d k x
  show "v_drop db p v d k x = v_drop db q v d k x"
    using assms [of k] by (cases "v db k = Map.empty") auto
qed

text \<open>Writing the same fields to every key that satisfies a predicate.\<close>

definition v_put :: "int \<Rightarrow> (string \<Rightarrow> bool) \<Rightarrow> row \<Rightarrow> dbs \<Rightarrow> dbs" where
  "v_put db p fs v = v(db := (\<lambda>k. if p k then v db k ++ map_of (rev fs) else v db k))"

lemma v_put_apply [simp]:
  "v_put db p fs v d k = (if d = db \<and> p k then v d k ++ map_of (rev fs) else v d k)"
  by (simp add: v_put_def)

lemma v_put_put [simp]: "v_put db p fs (v_put db q fs v) = v_put db (\<lambda>k. p k \<or> q k) fs v"
  by (auto simp: v_put_def fun_eq_iff map_add_def split: option.splits)

lemma v_put_none [simp]: "v_put db (\<lambda>k. False) fs v = v"
  by (simp add: v_put_def)

lemma v_hset_put: "v_hset db key fs v = v_put db (\<lambda>k. k = key) fs v"
  by (auto simp: v_put_def v_hset_def fun_eq_iff)

lemma v_put_cong: "(\<And>k. p k \<longleftrightarrow> q k) \<Longrightarrow> v_put db p fs v = v_put db q fs v"
  by presburger

text \<open>
  Redis glob patterns as the modules use them: \<open>*\<close> is the only wildcard. The definition is
  the one of the in-memory platform; \<open>plain_glob\<close> excludes the characters that the real
  server reads as further wildcards.
\<close>

primrec glob_match :: "string \<Rightarrow> string \<Rightarrow> bool" where
  "glob_match [] s = (s = [])"
| "glob_match (c # p) s =
     (if c = CHR ''*'' then list_ex (\<lambda>i. glob_match p (drop i s)) [0..<Suc (length s)]
      else (case s of [] \<Rightarrow> False | x # xs \<Rightarrow> x = c \<and> glob_match p xs))"

definition plain_glob :: "string \<Rightarrow> bool" where
  "plain_glob p \<longleftrightarrow> CHR ''?'' \<notin> set p \<and> CHR ''['' \<notin> set p \<and> CHR 0x5C \<notin> set p"

lemma plain_glob_append [simp]: "plain_glob (a @ b) \<longleftrightarrow> plain_glob a \<and> plain_glob b"
  by (auto simp: plain_glob_def)

lemma plain_glob_Cons [simp]:
  "plain_glob (c # s) \<longleftrightarrow> c \<notin> {CHR ''?'', CHR ''['', CHR 0x5C} \<and> plain_glob s"
  by (auto simp: plain_glob_def)

lemma plain_glob_Nil [simp]: "plain_glob []"
  by (simp add: plain_glob_def)

lemma glob_match_literal [simp]: "CHR ''*'' \<notin> set p \<Longrightarrow> glob_match p s \<longleftrightarrow> s = p"
  by (induction p arbitrary: s) (auto split: list.splits)

lemma glob_match_star [simp]: "glob_match [CHR ''*''] s"
  by (auto simp: list_ex_iff intro!: bexI [of _ "length s"])

lemma glob_match_prefix [simp]:
  "CHR ''*'' \<notin> set p \<Longrightarrow> glob_match (p @ [CHR ''*'']) s \<longleftrightarrow> (\<exists>r. s = p @ r)"
proof (induction p arbitrary: s)
  case Nil
  then show ?case by (simp del: glob_match.simps)
next
  case (Cons c p)
  then show ?case by (cases s) auto
qed

end
