(* ===== verification/StoreLaws.thy ===== *)
theory StoreLaws
  imports Store
begin

text \<open>
  What the handlers rely on of a platform, as locales, and what follows from it.

  \<^item> \<open>row_writer\<close>: three write operations \<open>hset\<close>, \<open>hdel\<close>, \<open>del\<close> over some state with a
    database view; a write that succeeds has the redis effect, one that fails has none. Both
    a platform and a batch on a platform are row writers.
  \<^item> \<open>redis_store\<close>: a platform whose writes are a row writer and whose reads tell the view.
  \<^item> \<open>one_fault_store\<close>: after a failed command the server answers again. This is a condition on a run, not a promise of redis:
    the rollback is best-effort, and what a failed batch leaves is stated under this locale only.
  \<^item> \<open>live_store\<close>: in addition, reading a row never fails; some guarantees of handlers
    that use the degrading readers hold only then.

  Each gives \<open>wp\<close> rules for the operations. The last section proves the rollback theorem.
\<close>

section \<open>Row writers\<close>

locale row_writer =
  fixes w_hset :: "int \<Rightarrow> string \<Rightarrow> row \<Rightarrow> ('s, string, unit) io"
    and w_hdel :: "int \<Rightarrow> string \<Rightarrow> string list \<Rightarrow> ('s, string, unit) io"
    and w_del :: "int \<Rightarrow> string \<Rightarrow> ('s, string, unit) io"
    and view :: "'s \<Rightarrow> dbs"
    and ok :: "'s \<Rightarrow> bool"
  assumes hset_ok: "ok s \<Longrightarrow> w_hset db key fs s = (Inr u, s') \<Longrightarrow>
      ok s' \<and> view s' = v_hset db key fs (view s)"
    and hset_err: "ok s \<Longrightarrow> w_hset db key fs s = (Inl e, s') \<Longrightarrow> ok s' \<and> view s' = view s"
    and hdel_ok: "ok s \<Longrightarrow> w_hdel db key ks s = (Inr u, s') \<Longrightarrow>
      ok s' \<and> view s' = v_hdel db key ks (view s)"
    and hdel_err: "ok s \<Longrightarrow> w_hdel db key ks s = (Inl e, s') \<Longrightarrow> ok s' \<and> view s' = view s"
    and del_ok: "ok s \<Longrightarrow> w_del db key s = (Inr u, s') \<Longrightarrow> ok s' \<and> view s' = v_del db key (view s)"
    and del_err: "ok s \<Longrightarrow> w_del db key s = (Inl e, s') \<Longrightarrow> ok s' \<and> view s' = view s"
begin

lemma wp_hset:
  assumes "ok s"
    and "\<And>s'. ok s' \<Longrightarrow> view s' = v_hset db key fs (view s) \<Longrightarrow> Q () s'"
    and "\<And>e s'. ok s' \<Longrightarrow> view s' = view s \<Longrightarrow> E e s'"
  shows "wp (w_hset db key fs) Q E s"
  using assms by (intro wpI) (auto dest: hset_ok hset_err)

lemma wp_hdel:
  assumes "ok s"
    and "\<And>s'. ok s' \<Longrightarrow> view s' = v_hdel db key ks (view s) \<Longrightarrow> Q () s'"
    and "\<And>e s'. ok s' \<Longrightarrow> view s' = view s \<Longrightarrow> E e s'"
  shows "wp (w_hdel db key ks) Q E s"
  using assms by (intro wpI) (auto dest: hdel_ok hdel_err)

lemma wp_del:
  assumes "ok s"
    and "\<And>s'. ok s' \<Longrightarrow> view s' = v_del db key (view s) \<Longrightarrow> Q () s'"
    and "\<And>e s'. ok s' \<Longrightarrow> view s' = view s \<Longrightarrow> E e s'"
  shows "wp (w_del db key) Q E s"
  using assms by (intro wpI) (auto dest: del_ok del_err)

lemmas writer_wp = wp_hset wp_hdel wp_del

end

section \<open>Redis-backed platforms\<close>

locale redis_store =
  row_writer "hset P" "hdel P" "del P" view ok
  for P :: "'s platform" and view :: "'s \<Rightarrow> dbs" and ok :: "'s \<Rightarrow> bool" +
  assumes hgetall_ok: "ok s \<Longrightarrow> hgetall P db key s = (Inr r, s') \<Longrightarrow>
      ok s' \<and> view s' = view s \<and> map_of r = view s db key \<and> distinct (map fst r)"
    and hgetall_err: "ok s \<Longrightarrow> hgetall P db key s = (Inl e, s') \<Longrightarrow> ok s' \<and> view s' = view s"
    and exists_ok: "ok s \<Longrightarrow> exists P db key s = (Inr b, s') \<Longrightarrow>
      ok s' \<and> view s' = view s \<and> (b \<longleftrightarrow> view s db key \<noteq> Map.empty)"
    and exists_err: "ok s \<Longrightarrow> exists P db key s = (Inl e, s') \<Longrightarrow> ok s' \<and> view s' = view s"
    and scan_ok: "ok s \<Longrightarrow> scan P db pat s = (Inr ks, s') \<Longrightarrow> ok s' \<and> view s' = view s \<and>
      (plain_glob pat \<longrightarrow> set ks = {k. view s db k \<noteq> Map.empty \<and> glob_match pat k})"
    and scan_err: "ok s \<Longrightarrow> scan P db pat s = (Inl e, s') \<Longrightarrow> ok s' \<and> view s' = view s"
begin

lemma wp_hgetall:
  assumes "ok s"
    and "\<And>r s'. ok s' \<Longrightarrow> view s' = view s \<Longrightarrow> map_of r = view s db key \<Longrightarrow>
           distinct (map fst r) \<Longrightarrow> Q r s'"
    and "\<And>e s'. ok s' \<Longrightarrow> view s' = view s \<Longrightarrow> E e s'"
  shows "wp (hgetall P db key) Q E s"
  using assms by (intro wpI) (auto dest: hgetall_ok hgetall_err)

lemma wp_exists:
  assumes "ok s"
    and "\<And>b s'. ok s' \<Longrightarrow> view s' = view s \<Longrightarrow> b \<longleftrightarrow> view s db key \<noteq> Map.empty \<Longrightarrow> Q b s'"
    and "\<And>e s'. ok s' \<Longrightarrow> view s' = view s \<Longrightarrow> E e s'"
  shows "wp (exists P db key) Q E s"
  using assms by (intro wpI) (auto dest: exists_ok exists_err)

lemma wp_scan:
  assumes "ok s"
    and "\<And>ks s'. ok s' \<Longrightarrow> view s' = view s \<Longrightarrow>
           (plain_glob pat \<Longrightarrow> set ks = {k. view s db k \<noteq> Map.empty \<and> glob_match pat k}) \<Longrightarrow> Q ks s'"
    and "\<And>e s'. ok s' \<Longrightarrow> view s' = view s \<Longrightarrow> E e s'"
  shows "wp (scan P db pat) Q E s"
  using assms by (intro wpI) (auto dest: scan_ok scan_err)

lemmas store_wp = wp_hgetall wp_exists wp_scan writer_wp

text \<open>Reading computations: whatever the outcome, the databases are as before.\<close>

definition reads :: "('s, 'e, 'a) io \<Rightarrow> bool" where
  "reads m \<longleftrightarrow> (\<forall>s. ok s \<longrightarrow> ok (snd (m s)) \<and> view (snd (m s)) = view s)"

lemma readsD: "reads m \<Longrightarrow> ok s \<Longrightarrow> m s = (r, s') \<Longrightarrow> ok s' \<and> view s' = view s"
  by (metis reads_def snd_conv)

lemma readsI: "(\<And>s r s'. ok s \<Longrightarrow> m s = (r, s') \<Longrightarrow> ok s' \<and> view s' = view s) \<Longrightarrow> reads m"
  unfolding reads_def by (metis prod.collapse)

lemma reads_hgetall [pure_io]: "reads (hgetall P db key)"
proof (rule readsI)
  fix s r s' assume "ok s" "hgetall P db key s = (r, s')"
  then show "ok s' \<and> view s' = view s"
    by (cases r) (auto dest: hgetall_ok hgetall_err)
qed

lemma reads_exists [pure_io]: "reads (exists P db key)"
proof (rule readsI)
  fix s r s' assume "ok s" "exists P db key s = (r, s')"
  then show "ok s' \<and> view s' = view s"
    by (cases r) (auto dest: exists_ok exists_err)
qed

lemma reads_scan [pure_io]: "reads (scan P db pat)"
proof (rule readsI)
  fix s r s' assume "ok s" "scan P db pat s = (r, s')"
  then show "ok s' \<and> view s' = view s"
    by (cases r) (auto dest: scan_ok scan_err)
qed

lemma reads_ret [pure_io]: "reads (ret x)"
  by (simp add: reads_def ret_def)

lemma reads_fail [pure_io]: "reads (fail e)"
  by (simp add: reads_def fail_def)

lemma reads_lift [pure_io]: "reads (lift r)"
  by (simp add: reads_def lift_def)

lemma reads_guard [pure_io]: "reads (guard b e)"
  by (simp add: guard_def pure_io)

lemma reads_bnd [pure_io]: "reads m \<Longrightarrow> (\<And>x. reads (f x)) \<Longrightarrow> reads (bnd m f)"
proof (rule readsI)
  fix s r s'
  assume m: "reads m" and f: "\<And>x. reads (f x)" and s: "ok s" and eq: "bnd m f s = (r, s')"
  obtain r1 s1 where m1: "m s = (r1, s1)" by (cases "m s")
  with readsD [OF m s] have s1: "ok s1" "view s1 = view s" by auto
  show "ok s' \<and> view s' = view s"
  proof (cases r1)
    case (Inl e)
    with eq m1 s1 show ?thesis by (auto simp: bnd_def)
  next
    case (Inr x)
    with eq m1 have "f x s1 = (r, s')" by (simp add: bnd_def)
    with readsD [OF f s1(1)] s1 show ?thesis by auto
  qed
qed

lemma reads_map_err [pure_io]: "reads m \<Longrightarrow> reads (map_err g m)"
  by (rule readsI) (auto simp: map_err_def dest: readsD split: prod.splits sum.splits)

lemma reads_or_default [pure_io]: "reads m \<Longrightarrow> reads (or_default d m)"
  by (rule readsI) (auto simp: or_default_def dest: readsD split: prod.splits sum.splits)

lemma reads_row_of [pure_io]: "reads (row_of P db key)"
  by (simp add: row_of_def pure_io)

lemma reads_keys_of [pure_io]: "reads (keys_of P db pat)"
  by (simp add: keys_of_def pure_io)

lemma reads_for_each [pure_io]: "(\<And>x. reads (f x)) \<Longrightarrow> reads (for_each f xs)"
  by (induction xs) (auto intro: pure_io)

lemma reads_collect [pure_io]: "(\<And>x. reads (f x)) \<Longrightarrow> reads (collect f xs)"
  by (induction xs) (auto intro: pure_io)

lemma reads_if [pure_io]: "reads m \<Longrightarrow> reads n \<Longrightarrow> reads (if b then m else n)"
  by simp

lemma reads_case_option [pure_io]:
  "reads m \<Longrightarrow> (\<And>x. reads (f x)) \<Longrightarrow> reads (case v of None \<Rightarrow> m | Some x \<Rightarrow> f x)"
  by (cases v) simp_all

lemma reads_case_prod [pure_io]: "(\<And>a b. reads (f a b)) \<Longrightarrow> reads (case p of (a, b) \<Rightarrow> f a b)"
  by (cases p) simp

lemma reads_let [pure_io]: "(\<And>x. reads (f x)) \<Longrightarrow> reads (Let y f)"
  by simp

lemma wp_reads:
  assumes "reads m" and "ok s"
    and "\<And>x s'. ok s' \<Longrightarrow> view s' = view s \<Longrightarrow> Q x s'"
    and "\<And>e s'. ok s' \<Longrightarrow> view s' = view s \<Longrightarrow> E e s'"
  shows "wp m Q E s"
  using assms by (intro wpI) (auto dest: readsD)

text \<open>A scan for a prefix.\<close>

lemma wp_scan_prefix:
  assumes "ok s" "CHR ''*'' \<notin> set pre" "plain_glob pre"
    and "\<And>ks s'. ok s' \<Longrightarrow> view s' = view s \<Longrightarrow>
           set ks = {k. view s db k \<noteq> Map.empty \<and> starts_with pre k} \<Longrightarrow> Q ks s'"
    and "\<And>e s'. ok s' \<Longrightarrow> view s' = view s \<Longrightarrow> E e s'"
  shows "wp (scan P db (pre @ ''*'')) Q E s"
proof (rule wp_scan)
  fix ks s' assume s': "ok s'" "view s' = view s"
    and ks: "plain_glob (pre @ ''*'') \<Longrightarrow> set ks = {k. view s db k \<noteq> Map.empty \<and> glob_match (pre @ ''*'') k}"
  have "plain_glob (pre @ ''*'')" using assms(3) by simp
  with ks assms(2) show "Q ks s'"
    by (intro assms(4) [OF s']) (simp add: starts_with_iff)
qed (use assms in auto)

text \<open>A loop of deletions: each key of the list is gone; on an error some of them.\<close>

lemma wp_delete_keys:
  assumes "ok s"
    and "\<And>s'. ok s' \<Longrightarrow> view s' = v_drop db (\<lambda>k. k \<in> set ks) (view s) \<Longrightarrow> Q () s'"
    and "\<And>e s'. ok s' \<Longrightarrow> \<exists>K\<subseteq>set ks. view s' = v_drop db (\<lambda>k. k \<in> K) (view s) \<Longrightarrow> E e s'"
  shows "wp (for_each (\<lambda>key. map_err g (del P db key)) ks) Q E s"
proof (rule wp_for_each [where I = "\<lambda>ys t. ok t \<and> view t = v_drop db (\<lambda>k. k \<in> set ys) (view s)"])
  show "ok s \<and> view s = v_drop db (\<lambda>k. k \<in> set []) (view s)"
    using assms(1) by (simp add: v_drop_def)
next
  fix ys z zs t
  assume ks: "ks = ys @ z # zs" and I: "ok t \<and> view t = v_drop db (\<lambda>k. k \<in> set ys) (view s)"
  show "wp (map_err g (del P db z)) (\<lambda>_ t. ok t \<and> view t = v_drop db (\<lambda>k. k \<in> set (ys @ [z])) (view s)) E t"
  proof (intro wp_map_err wp_del)
    show "ok t" using I by simp
  next
    fix s' assume "ok s'" "view s' = v_del db z (view t)"
    with I show "ok s' \<and> view s' = v_drop db (\<lambda>k. k \<in> set (ys @ [z])) (view s)"
      by (auto simp: v_del_drop)
  next
    fix e s' assume "ok s'" "view s' = view t"
    with I ks show "E (g e) s'" by (intro assms(3) exI [of _ "set ys"]) auto
  qed
next
  fix t
  assume "ok t \<and> view t = v_drop db (\<lambda>k. k \<in> set ks) (view s)"
  then show "Q () t" using assms(2) by blast
qed

end

text \<open>
  After a failed command the server answers again: \<open>up s\<close> says that writes succeed from
  now on.
\<close>

locale one_fault_store = redis_store P view ok
  for P :: "'s platform" and view :: "'s \<Rightarrow> dbs" and ok :: "'s \<Rightarrow> bool" +
  fixes up :: "'s \<Rightarrow> bool"
  assumes hset_up: "ok s \<Longrightarrow> hset P db key fs s = (Inl e, s') \<Longrightarrow> up s'"
    and hdel_up: "ok s \<Longrightarrow> hdel P db key ks s = (Inl e, s') \<Longrightarrow> up s'"
    and del_up: "ok s \<Longrightarrow> del P db key s = (Inl e, s') \<Longrightarrow> up s'"
    and hgetall_up: "ok s \<Longrightarrow> hgetall P db key s = (Inl e, s') \<Longrightarrow> up s'"
    and up_hset: "ok s \<Longrightarrow> up s \<Longrightarrow> \<exists>s'. hset P db key fs s = (Inr (), s') \<and> up s'"
    and up_del: "ok s \<Longrightarrow> up s \<Longrightarrow> \<exists>s'. del P db key s = (Inr (), s') \<and> up s'"

section \<open>Batches\<close>

lemma wp_on_plat:
  "wp m (\<lambda>x s'. Q x (b\<lparr>b_plat := s'\<rparr>)) (\<lambda>e s'. E e (b\<lparr>b_plat := s'\<rparr>)) (b_plat b) \<Longrightarrow>
   wp (on_plat m) Q E b"
  by (auto simp: wp_def on_plat_def split: prod.splits sum.splits)

lemma wp_add_snap: "Q () (b\<lparr>b_snaps := b_snaps b @ [(db, key, prior)]\<rparr>) \<Longrightarrow> wp (add_snap db key prior) Q E b"
  by (simp add: wp_def add_snap_def)

lemma snapped_iff: "snapped db key b \<longleftrightarrow> (\<exists>prior. (db, key, prior) \<in> set (b_snaps b))"
  by (force simp: snapped_def list_ex_iff)

lemma wp_b_snapshot:
  assumes "snapped db key b \<Longrightarrow> Q () b"
    and "\<not> snapped db key b \<Longrightarrow> wp (bnd (on_plat (hgetall P db key)) (add_snap db key)) Q E b"
  shows "wp (b_snapshot P db key) Q E b"
  using assms by (simp add: b_snapshot_def wp_def ret_def)

text \<open>
  A batch program: built from the batch writes by sequencing. Every closure the modules pass
  to \<open>store::apply\<close> is one; branches and loops over captured data are covered because they
  only choose which writes are sequenced.
\<close>

inductive batch_prog :: "'s platform \<Rightarrow> ('s batch, string, unit) io \<Rightarrow> bool" for P where
  bp_ret: "batch_prog P (ret ())"
| bp_hset: "batch_prog P (b_hset P db key fs)"
| bp_hdel: "batch_prog P (b_hdel P db key ks)"
| bp_del: "batch_prog P (b_del P db key)"
| bp_bnd: "batch_prog P m \<Longrightarrow> (\<And>u. batch_prog P (f u)) \<Longrightarrow> batch_prog P (bnd m f)"

lemma bp_for_each: "(\<And>x. batch_prog P (f x)) \<Longrightarrow> batch_prog P (for_each f xs)"
  by (induction xs) (auto intro: batch_prog.intros)

lemma bp_if: "batch_prog P m \<Longrightarrow> batch_prog P n \<Longrightarrow> batch_prog P (if b then m else n)"
  by simp

lemma bp_case_option:
  "batch_prog P m \<Longrightarrow> (\<And>x. batch_prog P (f x)) \<Longrightarrow> batch_prog P (case v of None \<Rightarrow> m | Some x \<Rightarrow> f x)"
  by (cases v) simp_all

lemma bp_case_prod: "(\<And>x y. batch_prog P (f x y)) \<Longrightarrow> batch_prog P (case p of (x, y) \<Rightarrow> f x y)"
  by (cases p) simp

lemmas bp_intros = batch_prog.intros bp_for_each bp_if bp_case_option bp_case_prod

context redis_store
begin

text \<open>A batch is a row writer over the platform under it.\<close>

lemma wp_b_snapshot_view:
  assumes "ok (b_plat b)"
    and "\<And>b'. ok (b_plat b') \<Longrightarrow> view (b_plat b') = view (b_plat b) \<Longrightarrow> Q () b'"
    and "\<And>e b'. ok (b_plat b') \<Longrightarrow> view (b_plat b') = view (b_plat b) \<Longrightarrow> E e b'"
  shows "wp (b_snapshot P db key) Q E b"
  using assms
  by (auto intro!: wp_b_snapshot wp_bnd wp_on_plat wp_hgetall wp_add_snap)

lemma wp_b_hset:
  assumes "ok (b_plat b)"
    and "\<And>b'. ok (b_plat b') \<Longrightarrow> view (b_plat b') = v_hset db key fs (view (b_plat b)) \<Longrightarrow> Q () b'"
    and "\<And>e b'. ok (b_plat b') \<Longrightarrow> view (b_plat b') = view (b_plat b) \<Longrightarrow> E e b'"
  shows "wp (b_hset P db key fs) Q E b"
  unfolding b_hset_def using assms
  by (auto intro!: wp_bnd wp_b_snapshot_view wp_on_plat wp_hset)

lemma wp_b_hdel:
  assumes "ok (b_plat b)"
    and "\<And>b'. ok (b_plat b') \<Longrightarrow> view (b_plat b') = v_hdel db key ks (view (b_plat b)) \<Longrightarrow> Q () b'"
    and "\<And>e b'. ok (b_plat b') \<Longrightarrow> view (b_plat b') = view (b_plat b) \<Longrightarrow> E e b'"
  shows "wp (b_hdel P db key ks) Q E b"
  unfolding b_hdel_def using assms
  by (auto intro!: wp_bnd wp_b_snapshot_view wp_on_plat wp_hdel)

lemma wp_b_del:
  assumes "ok (b_plat b)"
    and "\<And>b'. ok (b_plat b') \<Longrightarrow> view (b_plat b') = v_del db key (view (b_plat b)) \<Longrightarrow> Q () b'"
    and "\<And>e b'. ok (b_plat b') \<Longrightarrow> view (b_plat b') = view (b_plat b) \<Longrightarrow> E e b'"
  shows "wp (b_del P db key) Q E b"
  unfolding b_del_def using assms
  by (auto intro!: wp_bnd wp_b_snapshot_view wp_on_plat wp_del)

text \<open>Loops of one kind of write over a list of keys.\<close>

lemma wp_b_del_each:
  assumes "ok (b_plat b)"
    and "\<And>b'. ok (b_plat b') \<Longrightarrow> view (b_plat b') = v_drop db (\<lambda>k. \<exists>x\<in>set xs. c x \<and> k = f x) (view (b_plat b))
      \<Longrightarrow> Q () b'"
    and "\<And>e b'. E e b'"
  shows "wp (for_each (\<lambda>x. if c x then b_del P db (f x) else ret ()) xs) Q E b"
proof (rule wp_for_each [where I = "\<lambda>ys b'. ok (b_plat b') \<and>
    view (b_plat b') = v_drop db (\<lambda>k. \<exists>x\<in>set ys. c x \<and> k = f x) (view (b_plat b))"])
  fix ys z zs and b' :: "'s batch"
  assume "ok (b_plat b') \<and> view (b_plat b') = v_drop db (\<lambda>k. \<exists>x\<in>set ys. c x \<and> k = f x) (view (b_plat b))"
  then show "wp (if c z then b_del P db (f z) else ret ()) (\<lambda>_ b'. ok (b_plat b') \<and>
      view (b_plat b') = v_drop db (\<lambda>k. \<exists>x\<in>set (ys @ [z]). c x \<and> k = f x) (view (b_plat b))) E b'"
    by (intro wp_if wp_b_del wp_ret) (auto simp: v_del_drop assms(3) intro!: v_drop_cong)
qed (use assms in auto)

lemma wp_b_hset_each:
  assumes "ok (b_plat b)"
    and "\<And>b'. ok (b_plat b') \<Longrightarrow> view (b_plat b') = v_put db (\<lambda>k. \<exists>x\<in>set xs. c x \<and> k = f x) fs (view (b_plat b))
      \<Longrightarrow> Q () b'"
    and "\<And>e b'. E e b'"
  shows "wp (for_each (\<lambda>x. if c x then b_hset P db (f x) fs else ret ()) xs) Q E b"
proof (rule wp_for_each [where I = "\<lambda>ys b'. ok (b_plat b') \<and>
    view (b_plat b') = v_put db (\<lambda>k. \<exists>x\<in>set ys. c x \<and> k = f x) fs (view (b_plat b))"])
  fix ys z zs and b' :: "'s batch"
  assume "ok (b_plat b') \<and> view (b_plat b') = v_put db (\<lambda>k. \<exists>x\<in>set ys. c x \<and> k = f x) fs (view (b_plat b))"
  then show "wp (if c z then b_hset P db (f z) fs else ret ()) (\<lambda>_ b'. ok (b_plat b') \<and>
      view (b_plat b') = v_put db (\<lambda>k. \<exists>x\<in>set (ys @ [z]). c x \<and> k = f x) fs (view (b_plat b))) E b'"
    by (intro wp_if wp_b_hset wp_ret)
      (auto simp: v_hset_put assms(3) intro!: v_put_cong)
qed (use assms in auto)
end

sublocale redis_store \<subseteq> batch: row_writer "b_hset P" "b_hdel P" "b_del P"
  "\<lambda>b. view (b_plat b)" "\<lambda>b. ok (b_plat b)"
proof
  fix s :: "'s batch" and db key fs ks e s' and u :: unit
  assume s: "ok (b_plat s)"
  show "b_hset P db key fs s = (Inr u, s') \<Longrightarrow>
      ok (b_plat s') \<and> view (b_plat s') = v_hset db key fs (view (b_plat s))"
    by (rule wp_okD [OF wp_b_hset]) (use s in auto)
  show "b_hset P db key fs s = (Inl e, s') \<Longrightarrow> ok (b_plat s') \<and> view (b_plat s') = view (b_plat s)"
    by (rule wp_errD [OF wp_b_hset]) (use s in auto)
  show "b_hdel P db key ks s = (Inr u, s') \<Longrightarrow>
      ok (b_plat s') \<and> view (b_plat s') = v_hdel db key ks (view (b_plat s))"
    by (rule wp_okD [OF wp_b_hdel]) (use s in auto)
  show "b_hdel P db key ks s = (Inl e, s') \<Longrightarrow> ok (b_plat s') \<and> view (b_plat s') = view (b_plat s)"
    by (rule wp_errD [OF wp_b_hdel]) (use s in auto)
  show "b_del P db key s = (Inr u, s') \<Longrightarrow>
      ok (b_plat s') \<and> view (b_plat s') = v_del db key (view (b_plat s))"
    by (rule wp_okD [OF wp_b_del]) (use s in auto)
  show "b_del P db key s = (Inl e, s') \<Longrightarrow> ok (b_plat s') \<and> view (b_plat s') = view (b_plat s)"
    by (rule wp_errD [OF wp_b_del]) (use s in auto)
qed

section \<open>A failed batch leaves no trace\<close>

text \<open>
  The batch invariant against the view \<open>v0\<close> at the start: every row that differs from
  \<open>v0\<close> has a snapshot, and every snapshot is the row of \<open>v0\<close>.
\<close>

definition snap_ok :: "dbs \<Rightarrow> int \<times> string \<times> row \<Rightarrow> bool" where
  "snap_ok v0 x = (case x of (d, k, prior) \<Rightarrow> map_of prior = v0 d k \<and> distinct (map fst prior))"

context one_fault_store
begin

definition tracks :: "dbs \<Rightarrow> 's batch \<Rightarrow> bool" where
  "tracks v0 b \<longleftrightarrow> ok (b_plat b) \<and> (\<forall>x\<in>set (b_snaps b). snap_ok v0 x) \<and>
     (\<forall>d k. \<not> snapped d k b \<longrightarrow> view (b_plat b) d k = v0 d k)"

lemma tracks_new: "ok s \<Longrightarrow> tracks (view s) (new_batch s)"
  by (simp add: tracks_def new_batch_def)

lemma tracks_okD: "tracks v0 b \<Longrightarrow> ok (b_plat b)"
  by (simp add: tracks_def)

lemma tracks_snapshot:
  assumes "tracks v0 b"
  shows "wp (b_snapshot P db key) (\<lambda>_ b'. tracks v0 b' \<and> snapped db key b')
           (\<lambda>e b'. tracks v0 b' \<and> up (b_plat b')) b"
proof (rule wp_b_snapshot)
  assume "snapped db key b"
  with assms show "tracks v0 b \<and> snapped db key b" by simp
next
  assume new: "\<not> snapped db key b"
  have b: "ok (b_plat b)" and snaps: "\<forall>x\<in>set (b_snaps b). snap_ok v0 x"
    and rest: "\<And>d k. \<not> snapped d k b \<Longrightarrow> view (b_plat b) d k = v0 d k"
    using assms by (auto simp: tracks_def)
  show "wp (bnd (on_plat (hgetall P db key)) (add_snap db key))
          (\<lambda>_ b'. tracks v0 b' \<and> snapped db key b') (\<lambda>e b'. tracks v0 b' \<and> up (b_plat b')) b"
  proof (rule wp_bnd, rule wp_on_plat, rule wpI)
    fix r s' assume "hgetall P db key (b_plat b) = (Inr r, s')"
    from hgetall_ok [OF b this] rest [OF new] snaps rest
    show "wp (add_snap db key r) (\<lambda>_ b'. tracks v0 b' \<and> snapped db key b')
            (\<lambda>e b'. tracks v0 b' \<and> up (b_plat b')) (b\<lparr>b_plat := s'\<rparr>)"
      by (intro wp_add_snap) (auto simp: tracks_def snapped_iff snap_ok_def)
  next
    fix e s' assume e: "hgetall P db key (b_plat b) = (Inl e, s')"
    from hgetall_err [OF b e] hgetall_up [OF b e] snaps rest
    show "tracks v0 (b\<lparr>b_plat := s'\<rparr>) \<and> up (b_plat (b\<lparr>b_plat := s'\<rparr>))"
      by (auto simp: tracks_def snapped_iff)
  qed
qed

lemma tracks_write:
  assumes "tracks v0 b" "snapped db key b"
    and w_ok: "\<And>s' u. m (b_plat b) = (Inr u, s') \<Longrightarrow>
      ok s' \<and> (\<exists>r. view s' = (view (b_plat b))(db := (view (b_plat b) db)(key := r)))"
    and w_err: "\<And>e s'. m (b_plat b) = (Inl e, s') \<Longrightarrow> ok s' \<and> view s' = view (b_plat b) \<and> up s'"
  shows "wp (on_plat m) (\<lambda>_. tracks v0) (\<lambda>e b'. tracks v0 b' \<and> up (b_plat b')) b"
proof (intro wp_on_plat wpI)
  fix u s' assume "m (b_plat b) = (Inr u, s')"
  from w_ok [OF this] have s': "ok s'"
    and other: "\<And>d k. (d, k) \<noteq> (db, key) \<Longrightarrow> view s' d k = view (b_plat b) d k"
    by (auto split: if_splits)
  have "view s' d k = v0 d k" if "\<not> snapped d k b" for d k
    using other [of d k] that assms(1,2) by (cases "(d, k) = (db, key)") (auto simp: tracks_def)
  with s' assms(1) show "tracks v0 (b\<lparr>b_plat := s'\<rparr>)"
    by (auto simp: tracks_def snapped_def)
next
  fix e s' assume "m (b_plat b) = (Inl e, s')"
  from w_err [OF this] assms(1) show "tracks v0 (b\<lparr>b_plat := s'\<rparr>) \<and> up (b_plat (b\<lparr>b_plat := s'\<rparr>))"
    by (auto simp: tracks_def snapped_iff)
qed

lemma tracks_batch_write:
  assumes "tracks v0 b"
    and w_ok: "\<And>s s' u. ok s \<Longrightarrow> m s = (Inr u, s') \<Longrightarrow>
      ok s' \<and> (\<exists>r. view s' = (view s)(db := (view s db)(key := r)))"
    and w_err: "\<And>s e s'. ok s \<Longrightarrow> m s = (Inl e, s') \<Longrightarrow> ok s' \<and> view s' = view s \<and> up s'"
  shows "wp (bnd (b_snapshot P db key) (\<lambda>_. on_plat m)) (\<lambda>_. tracks v0)
           (\<lambda>e b'. tracks v0 b' \<and> up (b_plat b')) b"
proof (rule wp_bnd, rule wp_conseq [OF tracks_snapshot [OF assms(1)]])
  fix u b assume b: "tracks v0 b \<and> snapped db key b"
  then have "ok (b_plat b)" using tracks_okD by blast
  with b show "wp (on_plat m) (\<lambda>_. tracks v0) (\<lambda>e b'. tracks v0 b' \<and> up (b_plat b')) b"
    by (intro tracks_write) (use w_ok w_err in blast)+
qed simp

lemma tracks_b_hset:
  "tracks v0 b \<Longrightarrow> wp (b_hset P db key fs) (\<lambda>_. tracks v0) (\<lambda>e b'. tracks v0 b' \<and> up (b_plat b')) b"
  unfolding b_hset_def
  by (rule tracks_batch_write) (use hset_ok [unfolded v_hset_def] hset_err hset_up in blast)+

lemma tracks_b_hdel:
  "tracks v0 b \<Longrightarrow> wp (b_hdel P db key ks) (\<lambda>_. tracks v0) (\<lambda>e b'. tracks v0 b' \<and> up (b_plat b')) b"
  unfolding b_hdel_def
  by (rule tracks_batch_write) (use hdel_ok [unfolded v_hdel_def] hdel_err hdel_up in blast)+

lemma tracks_b_del:
  "tracks v0 b \<Longrightarrow> wp (b_del P db key) (\<lambda>_. tracks v0) (\<lambda>e b'. tracks v0 b' \<and> up (b_plat b')) b"
  unfolding b_del_def
  by (rule tracks_batch_write) (use del_ok [unfolded v_del_def] del_err del_up in blast)+

lemma tracks_prog:
  "batch_prog P op \<Longrightarrow> tracks v0 b \<Longrightarrow>
   wp op (\<lambda>_. tracks v0) (\<lambda>e b'. tracks v0 b' \<and> up (b_plat b')) b"
proof (induction arbitrary: b rule: batch_prog.induct)
  case bp_ret
  then show ?case by (rule wp_ret)
next
  case (bp_bnd m f)
  show ?case
    by (rule wp_bnd, rule wp_conseq [OF bp_bnd.IH(1) [OF bp_bnd.prems]]) (auto intro: bp_bnd.IH(2))
qed (simp_all add: tracks_b_hset tracks_b_hdel tracks_b_del)

lemma restore_row_view:
  assumes "ok s" "up s" "distinct (map fst prior)"
  shows "ok (restore_row P (d, k, prior) s) \<and> up (restore_row P (d, k, prior) s) \<and>
    view (restore_row P (d, k, prior) s) = (view s)(d := (view s d)(k := map_of prior))"
proof -
  obtain s1 where del: "del P d k s = (Inr (), s1)" "up s1"
    using up_del [OF assms(1,2)] by blast
  note s1 = del_ok [OF assms(1) del(1)]
  show ?thesis
  proof (cases "prior = []")
    case True
    with del s1 show ?thesis by (simp add: restore_row_def v_del_def)
  next
    case False
    obtain s2 where set: "hset P d k prior s1 = (Inr (), s2)" "up s2"
      using up_hset [of s1] s1 del(2) by blast
    from hset_ok [OF conjunct1 [OF s1] set(1)] s1 False del(1) set assms(3)
    show ?thesis
      by (simp add: restore_row_def v_del_def v_hset_def map_of_rev_distinct)
  qed
qed

lemma restore_rows_view:
  assumes "ok s" "up s" "\<forall>x\<in>set xs. snap_ok v0 x"
    and "\<And>d k. \<nexists>prior. (d, k, prior) \<in> set xs \<Longrightarrow> view s d k = v0 d k"
  shows "ok (foldl (\<lambda>s x. restore_row P x s) s xs) \<and> view (foldl (\<lambda>s x. restore_row P x s) s xs) = v0"
  using assms
proof (induction xs arbitrary: s)
  case Nil
  then show ?case by (auto simp: fun_eq_iff)
next
  case (Cons x xs)
  obtain d k prior where x: "x = (d, k, prior)" by (cases x)
  have p: "map_of prior = v0 d k" "distinct (map fst prior)"
    using Cons.prems(3) by (auto simp: x snap_ok_def)
  note r = restore_row_view [OF Cons.prems(1,2) p(2), of d k]
  have "view (restore_row P x s) d' k' = v0 d' k'" if "\<nexists>q. (d', k', q) \<in> set xs" for d' k'
    using r p(1) that Cons.prems(4) [of d' k'] by (cases "(d', k') = (d, k)") (auto simp: x)
  with r Cons.IH [of "restore_row P x s"] Cons.prems(3) show ?case
    by (simp add: x)
qed

lemma rollback_view:
  assumes "tracks v0 b" "up (b_plat b)"
  shows "ok (rollback P b) \<and> view (rollback P b) = v0"
  unfolding rollback_def using assms
  by (intro restore_rows_view) (auto simp: tracks_def snapped_iff)

text \<open>The rule for a batch: on success the program's own postcondition, on failure no change.\<close>

lemma wp_apply_batch:
  assumes "batch_prog P op" "ok s"
    and "wp op (\<lambda>_ b. Q () (b_plat b)) (\<lambda>_ _. True) (new_batch s)"
    and "\<And>e s'. ok s' \<Longrightarrow> view s' = view s \<Longrightarrow> E e s'"
  shows "wp (apply_batch P op) Q E s"
proof -
  have tr: "wp op (\<lambda>_. tracks (view s)) (\<lambda>e b'. tracks (view s) b' \<and> up (b_plat b')) (new_batch s)"
    by (rule tracks_prog [OF assms(1) tracks_new [OF assms(2)]])
  show ?thesis
    unfolding apply_batch_def
  proof (rule wpI)
    fix u s' assume "(case op (new_batch s) of (Inr x, b) \<Rightarrow> (Inr (), b_plat b)
      | (Inl e, b) \<Rightarrow> (Inl e, rollback P b)) = (Inr u, s')"
    with assms(3) show "Q u s'"
      by (auto simp: wp_def split: prod.splits sum.splits)
  next
    fix e s' assume "(case op (new_batch s) of (Inr x, b) \<Rightarrow> (Inr (), b_plat b)
      | (Inl e, b) \<Rightarrow> (Inl e, rollback P b)) = (Inl e, s')"
    then obtain b where b: "op (new_batch s) = (Inl e, b)" "s' = rollback P b"
      by (auto split: prod.splits sum.splits)
    with wp_errD [OF tr b(1)] rollback_view [of "view s" b] assms(4) show "E e s'"
      by simp
  qed
qed

lemma apply_batch_error:
  assumes "batch_prog P op" "ok s" "apply_batch P op s = (Inl e, s')"
  shows "ok s' \<and> view s' = view s"
  by (rule wp_errD [OF wp_apply_batch [OF assms(1,2), of "\<lambda>_ _. True"] assms(3)])
    (auto simp: wp_def split: prod.splits sum.splits)

end

context redis_store
begin

lemma batch_prog_ok: "batch_prog P op \<Longrightarrow> ok (b_plat b) \<Longrightarrow> wp op (\<lambda>_ b'. ok (b_plat b')) (\<lambda>_ b'. ok (b_plat b')) b"
proof (induction arbitrary: b rule: batch_prog.induct)
  case bp_ret
  then show ?case by (rule wp_ret)
next
  case (bp_bnd m f)
  show ?case
    by (rule wp_bnd, rule wp_conseq [OF bp_bnd.IH(1) [OF bp_bnd.prems]]) (auto intro: bp_bnd.IH(2))
qed (auto intro: wp_b_hset wp_b_hdel wp_b_del)

lemma restore_row_ok: "ok s \<Longrightarrow> ok (restore_row P x s)"
proof -
  assume s: "ok s"
  obtain d k prior where x: "x = (d, k, prior)" by (cases x)
  have del: "ok (snd (del P d k s))"
    using del_ok [OF s] del_err [OF s] by (cases "del P d k s"; cases "fst (del P d k s)") auto
  have "ok (snd (hset P d k prior s1))" if "ok s1" for s1
    using hset_ok [OF that] hset_err [OF that] by (cases "hset P d k prior s1"; cases "fst (hset P d k prior s1)") auto
  with del show ?thesis by (simp add: x restore_row_def Let_def)
qed

lemma rollback_ok: "ok (b_plat b) \<Longrightarrow> ok (rollback P b)"
proof -
  have "ok s \<Longrightarrow> ok (foldl (\<lambda>s x. restore_row P x s) s xs)" for s xs
    by (induction xs arbitrary: s) (auto intro: restore_row_ok)
  then show "ok (b_plat b) \<Longrightarrow> ok (rollback P b)" by (simp add: rollback_def)
qed

text \<open>
  The rule for a batch on any store: success needs nothing of the server after a failure; that a failed batch is undone does, as the
  rollback is best-effort.
\<close>

lemma wp_apply_batch_any:
  assumes "batch_prog P op" "ok s"
    and "wp op (\<lambda>_ b. Q () (b_plat b)) (\<lambda>_ _. True) (new_batch s)"
    and "\<And>e s'. ok s' \<Longrightarrow> (\<And>up. one_fault_store P view ok up \<Longrightarrow> view s' = view s) \<Longrightarrow> E e s'"
  shows "wp (apply_batch P op) Q E s"
proof (rule wpI)
  fix u s' assume "apply_batch P op s = (Inr u, s')"
  with assms(3) show "Q u s'" by (auto simp: apply_batch_def wp_def split: prod.splits sum.splits)
next
  fix e s' assume e: "apply_batch P op s = (Inl e, s')"
  then obtain b where b: "op (new_batch s) = (Inl e, b)" "s' = rollback P b"
    by (auto simp: apply_batch_def split: prod.splits sum.splits)
  have "ok (b_plat b)" using wp_errD [OF batch_prog_ok [OF assms(1)] b(1)] assms(2) by (simp add: new_batch_def)
  then have "ok s'" using b(2) by (simp add: rollback_ok)
  moreover have "view s' = view s" if "one_fault_store P view ok up" for up
    using one_fault_store.apply_batch_error [OF that assms(1,2) e] by simp
  ultimately show "E e s'" using assms(4) by blast
qed

text \<open>How a handler fails: a refusal changes nothing; nor does a failed command, where the server answers after it.\<close>

definition failed_clean :: "dbs \<Rightarrow> bool \<Rightarrow> 's \<Rightarrow> bool" where
  "failed_clean v command s' \<longleftrightarrow> ok s' \<and> (\<not> command \<or> (\<exists>up. one_fault_store P view ok up) \<longrightarrow> view s' = v)"

lemma failed_cleanI: "ok s' \<Longrightarrow> view s' = v \<Longrightarrow> failed_clean v command s'"
  by (simp add: failed_clean_def)

lemma failed_clean_batch: "ok s' \<Longrightarrow> (\<And>up. one_fault_store P view ok up \<Longrightarrow> view s' = v) \<Longrightarrow> failed_clean v True s'"
  by (auto simp: failed_clean_def)

end

text \<open>A store whose rows can always be read.\<close>

locale live_store = one_fault_store +
  assumes hgetall_live: "ok s \<Longrightarrow> \<exists>r s'. hgetall P db key s = (Inr r, s')"
begin

lemma wp_row_of_live:
  assumes "ok s"
    and "\<And>r s'. ok s' \<Longrightarrow> view s' = view s \<Longrightarrow> map_of r = view s db key \<Longrightarrow> Q r s'"
  shows "wp (row_of P db key) Q E s"
proof -
  obtain r s' where r: "hgetall P db key s = (Inr r, s')" using hgetall_live [OF assms(1)] by blast
  with hgetall_ok [OF assms(1) r] assms(2) show ?thesis
    by (simp add: row_of_def or_default_def wp_def)
qed

end

locale readable_store = live_store +
  assumes scan_live: "ok s \<Longrightarrow> \<exists>ks s'. scan P db pat s = (Inr ks, s')"
begin

lemma wp_keys_of_prefix:
  assumes "ok s" "CHR ''*'' \<notin> set pre" "plain_glob pre"
    and "\<And>ks s'. ok s' \<Longrightarrow> view s' = view s \<Longrightarrow>
           set ks = {k. view s db k \<noteq> Map.empty \<and> starts_with pre k} \<Longrightarrow> Q ks s'"
  shows "wp (keys_of P db (pre @ ''*'')) Q E s"
proof -
  obtain ks s' where r: "scan P db (pre @ ''*'') s = (Inr ks, s')" using scan_live [OF assms(1)] by blast
  have "plain_glob (pre @ ''*'')" using assms(3) by simp
  with scan_ok [OF assms(1) r] assms(2) have "ok s'" "view s' = view s"
    "set ks = {k. view s db k \<noteq> Map.empty \<and> starts_with pre k}"
    by (auto simp: starts_with_iff)
  with assms(4) r show ?thesis by (simp add: keys_of_def or_default_def wp_def)
qed

text \<open>Reading each element of a list by a reader whose result the view determines.\<close>

lemma wp_collect_view:
  assumes "ok s"
    and "\<And>x t R. x \<in> set xs \<Longrightarrow> ok t \<Longrightarrow> view t = view s \<Longrightarrow> (\<And>t'. ok t' \<Longrightarrow> view t' = view s \<Longrightarrow> R (g x) t') \<Longrightarrow> wp (f x) R E t"
    and "\<And>t. ok t \<Longrightarrow> view t = view s \<Longrightarrow> Q (map g xs) t"
  shows "wp (collect f xs) Q E s"
proof -
  have "ok t \<Longrightarrow> view t = view s \<Longrightarrow> set ys \<subseteq> set xs \<Longrightarrow>
     (\<And>t'. ok t' \<Longrightarrow> view t' = view s \<Longrightarrow> R (map g ys) t') \<Longrightarrow> wp (collect f ys) R E t" for ys t R
  proof (induction ys arbitrary: t R)
    case Nil
    then show ?case by (simp add: wp_ret)
  next
    case (Cons y ys)
    show ?case
      unfolding collect.simps
      by (rule wp_bnd, rule assms(2)) (use Cons in \<open>auto intro!: wp_bnd Cons.IH wp_ret\<close>)
  qed
  from this [of s xs Q] assms(1,3) show ?thesis by simp
qed

end

end
