(* ===== verification/Probe.thy ===== *)
theory Probe
  imports StoreLaws
begin

text \<open>
  The capability probe, \<^verbatim>\<open>src/src/sonic/probe.rs\<close>, with the version parser of
  \<^verbatim>\<open>src/src/sonic/mod.rs\<close>: the record of findings, the gates the features ask, the
  gathering over a platform and the time-limited cache.

  \<open>current\<close> is the variant the code compiles under \<open>cfg(test)\<close>, which probes on every call;
  \<open>current_cached\<close> is the production variant, with the cache and the clock explicit.
\<close>

section \<open>Capability and probe\<close>

record capability =
  supported :: bool
  read_only :: bool
  reason :: "string option"

definition cap_yes :: capability where
  "cap_yes = \<lparr>supported = True, read_only = False, reason = None\<rparr>"

definition cap_yes_with_reason :: "string \<Rightarrow> capability" where
  "cap_yes_with_reason r = \<lparr>supported = True, read_only = False, reason = Some r\<rparr>"

definition cap_no :: "string \<Rightarrow> capability" where
  "cap_no r = \<lparr>supported = False, read_only = False, reason = Some r\<rparr>"

datatype bgp_mode = Frrcfgd | Legacy | Unavailable

definition bgp_mode_str :: "bgp_mode \<Rightarrow> string" where
  "bgp_mode_str m = (case m of Frrcfgd \<Rightarrow> ''frrcfgd'' | Legacy \<Rightarrow> ''legacy'' | Unavailable \<Rightarrow> ''unavailable'')"

record probe =
  enterprise :: bool
  build_version :: "string option"
  release :: "nat option"
  features :: row
  dockers :: "string list"
  routing_mode :: string
  frr_mgmt :: bool
  bgp_asn :: "nat option"
  frr_daemons :: "string list"

definition has_feature :: "probe \<Rightarrow> string \<Rightarrow> bool" where
  "has_feature p name \<longleftrightarrow> map_of (features p) name \<noteq> None"

definition feature_enabled :: "probe \<Rightarrow> string \<Rightarrow> bool" where
  "feature_enabled p name \<longleftrightarrow>
     map_of (features p) name = Some ''enabled'' \<or> map_of (features p) name = Some ''always_enabled''"

definition docker_running :: "probe \<Rightarrow> string \<Rightarrow> bool" where
  "docker_running p name \<longleftrightarrow> List.member (dockers p) name"

definition frr_daemon :: "probe \<Rightarrow> string \<Rightarrow> bool" where
  "frr_daemon p name \<longleftrightarrow> List.member (frr_daemons p) name"

text \<open>\<open>Option::is_none_or\<close>.\<close>

definition is_none_or :: "('a \<Rightarrow> bool) \<Rightarrow> 'a option \<Rightarrow> bool" where
  "is_none_or f v = (case v of None \<Rightarrow> True | Some x \<Rightarrow> f x)"

definition stp_supported :: "probe \<Rightarrow> bool" where
  "stp_supported p \<longleftrightarrow> enterprise p \<or> has_feature p ''stp'' \<or> docker_running p ''stp''"

definition stp_modes :: "probe \<Rightarrow> string list" where
  "stp_modes p = (if \<not> stp_supported p then []
     else if enterprise p \<or> release p = None then [''pvst'', ''mst''] else [''pvst''])"

definition lldp_supported :: "probe \<Rightarrow> bool" where
  "lldp_supported p \<longleftrightarrow> has_feature p ''lldp'' \<or> docker_running p ''lldp''"

definition lldp_timers_supported :: "probe \<Rightarrow> bool" where
  "lldp_timers_supported p \<longleftrightarrow> enterprise p"

definition igmp_snooping_supported :: "probe \<Rightarrow> bool" where
  "igmp_snooping_supported p \<longleftrightarrow> enterprise p"

definition bgp_available :: "probe \<Rightarrow> bool" where
  "bgp_available p \<longleftrightarrow> has_feature p ''bgp'' \<or> docker_running p ''bgp''"

definition bgp_mode_of :: "probe \<Rightarrow> bgp_mode" where
  "bgp_mode_of p = (if \<not> bgp_available p then Unavailable else if frr_mgmt p then Frrcfgd else Legacy)"

definition ospf_supported :: "probe \<Rightarrow> bool" where
  "ospf_supported p \<longleftrightarrow> (frr_mgmt p \<and> bgp_available p)
     \<or> (enterprise p \<and> (frr_daemon p ''ospfd'' \<or> bgp_available p))"

definition isis_supported :: "probe \<Rightarrow> bool" where
  "isis_supported p \<longleftrightarrow> frr_daemon p ''isisd''"

definition span_mirror_supported :: "probe \<Rightarrow> bool" where
  "span_mirror_supported p \<longleftrightarrow> enterprise p \<or> is_none_or (\<lambda>r. r \<ge> 202012) (release p)"

definition storm_control_supported :: "probe \<Rightarrow> bool" where
  "storm_control_supported p \<longleftrightarrow> enterprise p \<or> is_none_or (\<lambda>r. r \<ge> 202205) (release p)"

definition fdb_config_writable :: "probe \<Rightarrow> bool" where
  "fdb_config_writable p \<longleftrightarrow> enterprise p \<or> is_none_or (\<lambda>r. r \<ge> 202205) (release p)"

definition dhcp_relay_supported :: "probe \<Rightarrow> bool" where
  "dhcp_relay_supported p \<longleftrightarrow> has_feature p ''dhcp_relay'' \<or> docker_running p ''dhcp_relay''"

definition sflow_present :: "probe \<Rightarrow> bool" where
  "sflow_present p \<longleftrightarrow> has_feature p ''sflow'' \<or> docker_running p ''sflow''"

definition mclag_supported :: "probe \<Rightarrow> bool" where
  "mclag_supported p \<longleftrightarrow> enterprise p \<or> has_feature p ''mclag'' \<or> has_feature p ''iccpd''
     \<or> docker_running p ''iccpd'' \<or> docker_running p ''mclag''"

definition vrrp_supported :: "probe \<Rightarrow> bool" where
  "vrrp_supported p \<longleftrightarrow> enterprise p \<or> has_feature p ''vrrp'' \<or> docker_running p ''vrrp''"

definition bfd_supported :: "probe \<Rightarrow> bool" where
  "bfd_supported p \<longleftrightarrow> bgp_available p \<and> frr_daemon p ''bfdd''"

definition vxlan_supported :: "probe \<Rightarrow> bool" where
  "vxlan_supported p \<longleftrightarrow> enterprise p \<or> is_none_or (\<lambda>r. r \<ge> 202012) (release p)"

definition frr_write_memory_needed :: "probe \<Rightarrow> bool" where
  "frr_write_memory_needed p \<longleftrightarrow> routing_mode p = ''split'' \<or> routing_mode p = ''split-unified''"

section \<open>Versions\<close>

text \<open>\<open>trim_matches\<close> for the two quote characters.\<close>

definition trim_quotes :: "string \<Rightarrow> string" where
  "trim_quotes s =
     (let q = (\<lambda>c. byte c = 39 \<or> byte c = 34)
      in rev (dropWhile q (rev (dropWhile q s))))"

primrec first_some :: "('a \<Rightarrow> 'b option) \<Rightarrow> 'a list \<Rightarrow> 'b option" where
  "first_some f [] = None"
| "first_some f (x # xs) = (case f x of None \<Rightarrow> first_some f xs | Some y \<Rightarrow> Some y)"

definition version_line :: "string \<Rightarrow> string option" where
  "version_line l = Option.bind (strip_prefix ''build_version:'' l) (\<lambda>rest.
     let v = trim (trim_quotes (trim rest)) in if v = [] then None else Some v)"

definition parse_sonic_version :: "string \<Rightarrow> string option" where
  "parse_sonic_version txt = first_some version_line (lines txt)"

fun contains_str :: "string \<Rightarrow> string \<Rightarrow> bool" where
  "contains_str p [] = (p = [])"
| "contains_str p (c # s) = (starts_with p (c # s) \<or> contains_str p s)"

definition is_enterprise :: "string \<Rightarrow> string option \<Rightarrow> bool" where
  "is_enterprise version_yml bv =
     (if contains_str ''enterprise'' (to_lower version_yml) then True
      else (case bv of None \<Rightarrow> False
      | Some v \<Rightarrow>
          (case split_on (CHR ''.'') v of
             [] \<Rightarrow> False
           | p # parts \<Rightarrow>
               (case parse_uint 32 p of
                  None \<Rightarrow> False
                | Some major \<Rightarrow> major < 2000 \<and>
                    (case parts of [] \<Rightarrow> False | q # _ \<Rightarrow> list_all is_digit q)))))"

text \<open>One position of the scan: six digits that are not part of a longer run, in range.\<close>

definition release_at :: "string \<Rightarrow> nat \<Rightarrow> nat option" where
  "release_at v i =
     (if list_all is_digit (take 6 (drop i v))
        \<and> (i = 0 \<or> \<not> is_digit (v ! (i - 1)))
        \<and> (i + 6 = length v \<or> \<not> is_digit (v ! (i + 6)))
      then (let n = digits_val (take 6 (drop i v))
            in if 201700 \<le> n \<and> n \<le> 209912 then Some n else None)
      else None)"

definition release_of :: "string \<Rightarrow> nat option" where
  "release_of v = first_some (release_at v) [0..<length v - 5]"

section \<open>Gathering\<close>

definition eq_ignore_case :: "string \<Rightarrow> string \<Rightarrow> bool" where
  "eq_ignore_case a b \<longleftrightarrow> to_lower a = to_lower b"

definition assemble :: "string \<Rightarrow> row \<Rightarrow> string list \<Rightarrow> row \<Rightarrow> string list \<Rightarrow> probe" where
  "assemble version_yml feats docks meta daemons =
     (let bv = parse_sonic_version version_yml
      in \<lparr>enterprise = is_enterprise version_yml bv,
          build_version = bv,
          release = Option.bind bv release_of,
          features = feats,
          dockers = docks,
          routing_mode = (case field meta ''docker_routing_config_mode'' of None \<Rightarrow> ''separated'' | Some m \<Rightarrow> m),
          frr_mgmt = (case field meta ''frr_mgmt_framework_config'' of
              None \<Rightarrow> False | Some v \<Rightarrow> eq_ignore_case v ''true''),
          bgp_asn = Option.bind (field meta ''bgp_asn'') (parse_uint 64),
          frr_daemons = daemons\<rparr>)"

text \<open>A state reader without an error, as a computation.\<close>

definition io_of :: "('s \<Rightarrow> 'a \<times> 's) \<Rightarrow> ('s, 'e, 'a) io" where
  "io_of f = (\<lambda>s. case f s of (r, s') \<Rightarrow> (Inr r, s'))"

definition feature_entry :: "'s platform \<Rightarrow> string \<Rightarrow> ('s, 'e, (string \<times> string) option) io" where
  "feature_entry P key =
     (case key_suffix key ''FEATURE|'' of
        None \<Rightarrow> ret None
      | Some name \<Rightarrow> bnd (row_of P CONFIG_DB key) (\<lambda>r.
          ret (Some (name, case field r ''state'' of None \<Rightarrow> [] | Some st \<Rightarrow> st))))"

text \<open>\<open>ok().filter(|o| o.ok).map(f).unwrap_or_default()\<close>.\<close>

definition command_lines :: "(string \<Rightarrow> string list) \<Rightarrow> ('s, string, cmd_output) io \<Rightarrow> ('s, 'e, string list) io" where
  "command_lines f m =
     or_default [] (bnd m (\<lambda>out. ret (if co_ok out then f (co_stdout out) else [])))"

definition gather :: "'s platform \<Rightarrow> ('s, 'e, probe) io" where
  "gather P =
     bnd (io_of (read_file P ''/etc/sonic/sonic_version.yml'')) (\<lambda>yml.
     bnd (keys_of P CONFIG_DB ''FEATURE|*'') (\<lambda>ks.
     bnd (collect (feature_entry P) ks) (\<lambda>entries.
     bnd (row_of P CONFIG_DB ''DEVICE_METADATA|localhost'') (\<lambda>meta.
     bnd (command_lines (\<lambda>out. filter (\<lambda>l. l \<noteq> []) (map trim (lines out)))
            (run_cmd P ''docker'' [''ps'', ''--format'', ''{{.Names}}''])) (\<lambda>docks.
     bnd (command_lines words (run_cmd P ''vtysh'' [''-c'', ''show daemons''])) (\<lambda>daemons.
     ret (assemble (case yml of None \<Rightarrow> [] | Some t \<Rightarrow> t)
            (al_puts (List.map_filter id entries) []) docks meta daemons)))))))"

definition current :: "'s platform \<Rightarrow> ('s, 'e, probe) io" where
  "current P = gather P"

section \<open>The cache\<close>

text \<open>Times are milliseconds of a monotonic clock.\<close>

definition CACHE_TTL :: nat where
  "CACHE_TTL = 15000"

type_synonym probe_cache = "(nat \<times> probe) option"

text \<open>
  \<open>current_cached\<close> at time \<open>now\<close>; \<open>fetched\<close> is the reading of the clock after a
  gathering, which is what the cache stores.
\<close>

definition current_cached ::
  "'s platform \<Rightarrow> nat \<Rightarrow> nat \<Rightarrow> ('s \<times> probe_cache, 'e, probe) io" where
  "current_cached P now fetched = (\<lambda>(s, cache).
     (case cache of
        Some (at, p) \<Rightarrow>
          if now - at < CACHE_TTL then (Inr p, (s, cache))
          else (case gather P s of
              (Inr q, s') \<Rightarrow> (Inr q, (s', Some (fetched, q))) | (Inl e, s') \<Rightarrow> (Inl e, (s', cache)))
      | None \<Rightarrow>
          (case gather P s of
              (Inr q, s') \<Rightarrow> (Inr q, (s', Some (fetched, q))) | (Inl e, s') \<Rightarrow> (Inl e, (s', cache)))))"

definition invalidate :: "'s \<times> probe_cache \<Rightarrow> 's \<times> probe_cache" where
  "invalidate = (\<lambda>(s, _). (s, None))"

section \<open>Lemmas\<close>

lemma first_some_Some: "first_some f xs = Some y \<Longrightarrow> \<exists>x\<in>set xs. f x = Some y"
  by (induction xs) (auto split: option.splits)

lemma release_of_range:
  assumes "release_of v = Some n"
  shows "201700 \<le> n \<and> n \<le> 209912 \<and> (\<exists>a b ds. v = a @ ds @ b \<and> list_all is_digit ds \<and>
    length ds = 6 \<and> digits_val ds = n \<and> (a = [] \<or> \<not> is_digit (last a)) \<and> (b = [] \<or> \<not> is_digit (hd b)))"
proof -
  obtain i where i: "i < length v - 5" "release_at v i = Some n"
    using first_some_Some [OF assms [unfolded release_of_def]] by auto
  let ?ds = "take 6 (drop i v)"
  have ds: "list_all is_digit ?ds" "i = 0 \<or> \<not> is_digit (v ! (i - 1))"
    "i + 6 = length v \<or> \<not> is_digit (v ! (i + 6))" "digits_val ?ds = n" "201700 \<le> n" "n \<le> 209912"
    using i(2) by (auto simp: release_at_def Let_def split: if_splits)
  have "v = take i v @ ?ds @ drop (i + 6) v"
    by (metis add.commute append_take_drop_id drop_drop)
  moreover have "take i v = [] \<or> \<not> is_digit (last (take i v))"
    using ds(2) i(1) by (auto simp: last_conv_nth)
  moreover have "drop (i + 6) v = [] \<or> \<not> is_digit (hd (drop (i + 6) v))"
    using ds(3) i(1) by (auto simp: hd_drop_conv_nth)
  moreover have "length ?ds = 6" using i(1) by simp
  ultimately show ?thesis using ds by blast
qed

text \<open>Gathering always produces a probe.\<close>

definition total :: "('s, 'e, 'a) io \<Rightarrow> bool" where
  "total m \<longleftrightarrow> (\<forall>s. \<exists>x s'. m s = (Inr x, s'))"

lemma total_io_of: "total (io_of f)"
  unfolding total_def io_of_def by (metis case_prod_conv surj_pair)

lemma total_or_default: "total (or_default d m)"
  unfolding total_def
proof
  fix s
  obtain r s' where "m s = (r, s')" by (cases "m s")
  then show "\<exists>x s'. or_default d m s = (Inr x, s')"
    by (cases r) (auto simp: or_default_def)
qed

lemma total_bnd:
  assumes "total m" "\<And>x. total (f x)"
  shows "total (bnd m f)"
  unfolding total_def
proof
  fix s
  obtain x s1 where m: "m s = (Inr x, s1)" using assms(1) unfolding total_def by blast
  obtain y s2 where "f x s1 = (Inr y, s2)" using assms(2) unfolding total_def by blast
  with m show "\<exists>y s'. bnd m f s = (Inr y, s')" by (auto simp: bnd_def)
qed

lemma total_ret: "total (ret x)"
  by (simp add: total_def ret_def)

lemma total_collect: "(\<And>x. total (f x)) \<Longrightarrow> total (collect f xs)"
  by (induction xs) (auto intro!: total_bnd total_ret)

lemma total_case_option: "total m \<Longrightarrow> (\<And>x. total (f x)) \<Longrightarrow> total (case v of None \<Rightarrow> m | Some x \<Rightarrow> f x)"
  by (cases v) simp_all

lemmas total_intros = total_io_of total_or_default total_bnd total_ret total_collect total_case_option

lemma total_gather: "total (gather P)"
  unfolding gather_def keys_of_def row_of_def command_lines_def feature_entry_def
  by (intro total_intros)

lemma wp_total: "total m \<Longrightarrow> (\<And>x s'. m s = (Inr x, s') \<Longrightarrow> Q x s') \<Longrightarrow> wp m Q E s"
  unfolding total_def wp_def by (metis (no_types, lifting) case_prod_conv sum.simps(6))

section \<open>Queries\<close>

text \<open>The commands the probe runs, which only report.\<close>

definition is_query :: "string \<Rightarrow> string list \<Rightarrow> bool" where
  "is_query prog args \<longleftrightarrow> prog = ''docker'' \<and> args \<noteq> [] \<and> hd args = ''ps'' \<or>
     prog = ''vtysh'' \<and> (\<exists>c. args = [''-c'', ''show '' @ c])"

locale query_store = one_fault_store +
  assumes query_view: "ok s \<Longrightarrow> is_query prog args \<Longrightarrow> run_cmd P prog args s = (r1, s') \<Longrightarrow> ok s' \<and> view s' = view s"
    and read_file_view: "ok s \<Longrightarrow> read_file P path s = (r2, s') \<Longrightarrow> ok s' \<and> view s' = view s"
begin

lemma reads_query [pure_io]: "is_query prog args \<Longrightarrow> reads (run_cmd P prog args)"
  by (rule readsI) (rule query_view)

lemma reads_read_file [pure_io]: "reads (io_of (read_file P path))"
  by (rule readsI) (auto simp: io_of_def split: prod.splits dest: read_file_view)

lemma reads_gather [pure_io]: "reads (gather P)"
  unfolding gather_def feature_entry_def command_lines_def
  by (intro pure_io) (auto simp: is_query_def)

lemma reads_current [pure_io]: "reads (current P)"
  by (simp add: current_def reads_gather)

lemma wp_current:
  assumes "ok s" and "\<And>p s'. ok s' \<Longrightarrow> view s' = view s \<Longrightarrow> Q p s'"
  shows "wp (current P) Q E s"
  unfolding current_def
  by (rule wp_total [OF total_gather], drule readsD [OF reads_gather assms(1)]) (simp_all add: assms(2))

end

text \<open>A server that answers every read, with the queries of the probe: what the feature pages run on.\<close>

locale full_store = query_store P view ok up + readable_store P view ok up
  for P :: "'s platform" and view :: "'s \<Rightarrow> dbs" and ok :: "'s \<Rightarrow> bool" and up :: "'s \<Rightarrow> bool"

end
