(* ===== verification/SwitchBase.thy ===== *)
theory SwitchBase
  imports Store "HOL-Library.Product_Lexorder"
begin

text \<open>
  The helpers of \<^verbatim>\<open>src/src/sonic/switching.rs\<close> that the other feature modules share: the
  natural order on interface names, the numeric and boolean field parsers, the error type of
  write operations and the address check.

  The natural order is proved to be the lexicographic order on a key (runs of digits by value,
  other bytes by themselves), hence a total preorder, through the locale \<open>preorder_key\<close>
  that also carries the lemmas about sorting with it.
\<close>

section \<open>Orderings and stable sorting\<close>

datatype ordering = Less | Equal | Greater

definition cmp :: "'a::linorder \<Rightarrow> 'a \<Rightarrow> ordering" where
  "cmp x y = (if x < y then Less else if x = y then Equal else Greater)"

lemma cmp_iff [simp]:
  "cmp x y = Less \<longleftrightarrow> x < y" "cmp x y = Equal \<longleftrightarrow> x = y" "cmp x y = Greater \<longleftrightarrow> y < x"
  by (auto simp: cmp_def)

definition then_cmp :: "ordering \<Rightarrow> ordering \<Rightarrow> ordering" where
  "then_cmp a b = (case a of Equal \<Rightarrow> b | r \<Rightarrow> r)"

text \<open>\<open>slice::sort_by\<close>: the stable sort for a comparison function.\<close>

fun insert_by :: "('a \<Rightarrow> 'a \<Rightarrow> ordering) \<Rightarrow> 'a \<Rightarrow> 'a list \<Rightarrow> 'a list" where
  "insert_by c x [] = [x]"
| "insert_by c x (y # ys) = (if c x y = Greater then y # insert_by c x ys else x # y # ys)"

definition sort_by :: "('a \<Rightarrow> 'a \<Rightarrow> ordering) \<Rightarrow> 'a list \<Rightarrow> 'a list" where
  "sort_by c xs = foldr (insert_by c) xs []"

lemma sort_by_simps [simp]:
  "sort_by c [] = []" "sort_by c (x # xs) = insert_by c x (sort_by c xs)"
  by (simp_all add: sort_by_def)

lemma set_insert_by [simp]: "set (insert_by c x xs) = insert x (set xs)"
  by (induction c x xs rule: insert_by.induct) auto

lemma set_sort_by [simp]: "set (sort_by c xs) = set xs"
  by (induction xs) auto

lemma distinct_insert_by: "distinct (insert_by c x xs) \<longleftrightarrow> x \<notin> set xs \<and> distinct xs"
  by (induction c x xs rule: insert_by.induct) auto

lemma distinct_sort_by [simp]: "distinct (sort_by c xs) = distinct xs"
  by (induction xs) (auto simp: distinct_insert_by)

lemma length_insert_by [simp]: "length (insert_by c x xs) = Suc (length xs)"
  by (induction c x xs rule: insert_by.induct) auto

lemma length_sort_by [simp]: "length (sort_by c xs) = length xs"
  by (induction xs) auto

locale preorder_key =
  fixes c :: "'a \<Rightarrow> 'a \<Rightarrow> ordering" and key :: "'a \<Rightarrow> 'k::linorder"
  assumes c_key: "c x y = cmp (key x) (key y)"
begin

lemma insert_by_sorted: "sorted (map key xs) \<Longrightarrow> sorted (map key (insert_by c x xs))"
  by (induction xs) (auto simp: c_key)

lemma sort_by_sorted: "sorted (map key (sort_by c xs))"
  by (induction xs) (simp_all add: insert_by_sorted)

lemma c_refl: "c x x = Equal"
  by (simp add: c_key)

lemma c_trans: "c x y \<noteq> Greater \<Longrightarrow> c y z \<noteq> Greater \<Longrightarrow> c x z \<noteq> Greater"
  by (auto simp: c_key)

lemma c_swap: "c x y = Greater \<longleftrightarrow> c y x = Less"
  by (simp add: c_key)

lemma c_total: "c x y \<noteq> Greater \<or> c y x \<noteq> Greater"
  by (auto simp: c_key)

end

section \<open>The natural order on interface names\<close>

definition u64_max :: nat where
  "u64_max = 2 ^ 64 - 1"

definition sat64 :: "nat \<Rightarrow> nat" where
  "sat64 n = min n u64_max"

text \<open>A leading run of digits as its saturating value, and the rest.\<close>

definition take_number :: "string \<Rightarrow> nat \<times> string" where
  "take_number s =
     (foldl (\<lambda>acc d. sat64 (sat64 (acc * 10) + digit_val d)) 0 (takeWhile is_digit s),
      dropWhile is_digit s)"

function natural_cmp :: "string \<Rightarrow> string \<Rightarrow> ordering" where
  "natural_cmp [] [] = Equal"
| "natural_cmp [] (y # ys) = Less"
| "natural_cmp (x # xs) [] = Greater"
| "natural_cmp (x # xs) (y # ys) =
     (if is_digit x \<and> is_digit y then
        (case (take_number (x # xs), take_number (y # ys)) of
           ((na, rest_a), (nb, rest_b)) \<Rightarrow>
             (case cmp na nb of Equal \<Rightarrow> natural_cmp rest_a rest_b | other \<Rightarrow> other))
      else (case cmp (byte x) (byte y) of Equal \<Rightarrow> natural_cmp xs ys | other \<Rightarrow> other))"
  by pat_completeness auto
termination
proof (relation "measure (\<lambda>(a, b). length a + length b)", goal_cases)
  case (2 x xs y ys p q na ra nb rb)
  then show ?case
    using length_dropWhile_le [of is_digit xs] length_dropWhile_le [of is_digit ys]
    by (auto simp: take_number_def split: if_splits)
qed auto

text \<open>
  The reference: a name as a list of keys. A run of digits is keyed by the byte of \<open>0\<close>
  and its value, any other byte by itself; digits are contiguous, so every digit compares with a
  non-digit as \<open>0\<close> does.
\<close>

function natural_key :: "string \<Rightarrow> (nat \<times> nat) list" where
  "natural_key [] = []"
| "natural_key (x # xs) =
     (if is_digit x then (48, fst (take_number (x # xs))) # natural_key (snd (take_number (x # xs)))
      else (byte x, 0) # natural_key xs)"
  by pat_completeness auto
termination
proof (relation "measure length", goal_cases)
  case (2 x xs)
  then show ?case
    using length_dropWhile_le [of is_digit xs] by (simp add: take_number_def)
qed auto

lemma cmp_Nil [simp]: "cmp [] [] = Equal" "cmp [] (y # ys) = Less" "cmp (x # xs) [] = Greater"
  by (simp_all add: cmp_def)

lemma cmp_Cons: "cmp (x # xs) (y # ys) = (case cmp x y of Equal \<Rightarrow> cmp xs ys | r \<Rightarrow> r)"
  by (auto simp: cmp_def split: ordering.splits)

lemma cmp_Pair: "cmp (a, b) (c, d) = (case cmp a c of Equal \<Rightarrow> cmp b d | r \<Rightarrow> r)"
  by (auto simp: cmp_def split: ordering.splits)

lemma cmp_refl [simp]: "cmp x x = Equal"
  by simp

lemma byte_inject [simp]: "byte x = byte y \<longleftrightarrow> x = y"
  by (simp add: byte_def)

lemma cmp_digit_other:
  assumes "is_digit x" "\<not> is_digit y"
  shows "cmp (byte x) (byte y) = cmp 48 (byte y) \<and> byte y \<noteq> 48 \<and>
    cmp (byte y) (byte x) = cmp (byte y) 48"
  using assms by (auto simp: cmp_def is_digit_def)

lemma natural_cmp_key: "natural_cmp a b = cmp (natural_key a) (natural_key b)"
proof (induction a b rule: natural_cmp.induct)
  case (4 x xs y ys)
  obtain na ra where a: "take_number (x # xs) = (na, ra)" by (cases "take_number (x # xs)")
  obtain nb rb where b: "take_number (y # ys) = (nb, rb)" by (cases "take_number (y # ys)")
  consider "is_digit x" "is_digit y" | "is_digit x" "\<not> is_digit y" | "\<not> is_digit x" "is_digit y"
    | "\<not> is_digit x" "\<not> is_digit y" by blast
  then show ?case
  proof cases
    case 1
    with 4 a b show ?thesis by (simp add: cmp_Cons cmp_Pair split: ordering.splits)
  next
    case 2
    with cmp_digit_other [of x y] a show ?thesis
      by (auto simp: cmp_Cons cmp_Pair split: ordering.splits)
  next
    case 3
    with cmp_digit_other [of y x] b show ?thesis
      by (auto simp: cmp_Cons cmp_Pair split: ordering.splits)
  next
    case 4
    with "4.IH" show ?thesis by (simp add: cmp_Cons cmp_Pair split: ordering.splits)
  qed
qed simp_all

interpretation natural: preorder_key natural_cmp natural_key
  by unfold_locales (rule natural_cmp_key)

section \<open>Field parsers\<close>

definition parse_num :: "string option \<Rightarrow> nat option" where
  "parse_num v = Option.bind v (parse_uint 64)"

definition parse_supported_speeds :: "string option \<Rightarrow> nat list option" where
  "parse_supported_speeds v = Option.bind v (\<lambda>v.
     let speeds = filter (\<lambda>n. n > 0) (List.map_filter (\<lambda>s. parse_uint 64 (trim s)) (split_on (CHR '','') v))
     in if speeds = [] then None else Some (sort_dedup speeds))"

definition parse_bool :: "string option \<Rightarrow> bool option" where
  "parse_bool v = Option.bind v (\<lambda>v.
     if to_lower v = ''true'' then Some True else if to_lower v = ''false'' then Some False else None)"

section \<open>Write errors\<close>

datatype write_error =
    BadRequest string
  | NotFound string
  | Unprocessable string
  | Conflict string
  | Internal string
  | Redis string

type_synonym ('s, 'a) handler = "('s, write_error, 'a) io"

text \<open>\<open>parse::<u32>()\<close> after the prefix.\<close>

definition vlan_id_from_name :: "string \<Rightarrow> nat option" where
  "vlan_id_from_name name = Option.bind (strip_prefix ''Vlan'' name) (parse_uint 32)"

definition check_cidr :: "string \<Rightarrow> string + unit" where
  "check_cidr a =
     (let shape = (case split_once (CHR ''/'') a of
            None \<Rightarrow> False
          | Some (ip, len) \<Rightarrow> ip \<noteq> [] \<and> len \<noteq> [] \<and> list_all is_digit len)
      in check (shape \<and> CHR ''|'' \<notin> set a \<and> \<not> list_ex is_space a)
           (''invalid CIDR address '' @ dbg a))"

definition check_cidrs :: "string list \<Rightarrow> string + unit" where
  "check_cidrs addrs = check_all check_cidr addrs"

lemma parse_supported_speeds_sound:
  assumes "parse_supported_speeds v = Some xs"
  shows "xs \<noteq> [] \<and> sorted xs \<and> distinct xs \<and> (\<forall>x\<in>set xs. 0 < x \<and> x < 2 ^ 64)"
proof -
  from assms obtain w where w: "v = Some w" and ne: "xs \<noteq> []"
    and xs: "xs = sort_dedup (filter (\<lambda>n. n > 0)
       (List.map_filter (\<lambda>s. parse_uint 64 (trim s)) (split_on (CHR '','') w)))"
    by (auto simp: parse_supported_speeds_def Let_def Option.bind_eq_Some_conv split: if_splits)
  then show ?thesis
    using parse_uint_bound [of 64]
    by (auto simp: sorted_sort_dedup distinct_sort_dedup List.map_filter_def)
qed

lemma vlan_id_from_name_show: "n < 2 ^ 32 \<Longrightarrow> vlan_id_from_name (''Vlan'' @ show_nat n) = Some n"
  by (simp add: vlan_id_from_name_def)

lemma check_cidrs_no_bar: "check_cidrs xs = Inr u \<Longrightarrow> x \<in> set xs \<Longrightarrow> x \<noteq> [] \<and> CHR ''|'' \<notin> set x"
  by (auto simp: check_cidrs_def check_cidr_def Let_def split: option.splits)

end
