(* ===== verification/Json.thy ===== *)
theory Json
  imports Probe SwitchBase
begin

text \<open>
  JSON documents as \<open>serde_json\<close> builds them: objects keep the order the code gives.
\<close>

datatype json =
    JNull
  | JBool bool
  | JNum nat
  | JStr string
  | JArr "json list"
  | JObj "(string \<times> json) list"

definition jopt :: "('a \<Rightarrow> json) \<Rightarrow> 'a option \<Rightarrow> json" where
  "jopt f v = (case v of None \<Rightarrow> JNull | Some x \<Rightarrow> f x)"

definition jstrs :: "string list \<Rightarrow> json" where
  "jstrs xs = JArr (map JStr xs)"

definition cap_json :: "capability \<Rightarrow> json" where
  "cap_json c = JObj [(''supported'', JBool (supported c)), (''read_only'', JBool (read_only c)),
                      (''reason'', jopt JStr (reason c))]"

text \<open>\<open>Option::unwrap_or\<close>.\<close>

definition opt_or :: "'a option \<Rightarrow> 'a \<Rightarrow> 'a" where
  "opt_or v d = (case v of None \<Rightarrow> d | Some x \<Rightarrow> x)"

text \<open>\<open>entry(k).or_default().push(v)\<close>.\<close>

definition group_push :: "'k \<Rightarrow> 'v \<Rightarrow> ('k \<times> 'v list) list \<Rightarrow> ('k \<times> 'v list) list" where
  "group_push k v m = al_put k (opt_or (map_of m k) [] @ [v]) m"

lemma jopt_simps [simp]: "jopt f None = JNull" "jopt f (Some x) = f x"
  by (simp_all add: jopt_def)

lemma opt_or_simps [simp]: "opt_or None d = d" "opt_or (Some x) d = x"
  by (simp_all add: opt_or_def)

lemma map_of_group_push:
  "map_of (group_push k v m) k' = (if k' = k then Some (opt_or (map_of m k) [] @ [v]) else map_of m k')"
  by (simp add: group_push_def)

section \<open>Reading documents\<close>

text \<open>Indexing a JSON value: null where there is no such member.\<close>

definition jget :: "json \<Rightarrow> string \<Rightarrow> json" where
  "jget v k = (case v of JObj fs \<Rightarrow> opt_or (map_of fs k) JNull | _ \<Rightarrow> JNull)"

definition as_str :: "json \<Rightarrow> string option" where
  "as_str v = (case v of JStr s \<Rightarrow> Some s | _ \<Rightarrow> None)"

definition as_u64 :: "json \<Rightarrow> nat option" where
  "as_u64 v = (case v of JNum n \<Rightarrow> Some n | _ \<Rightarrow> None)"

definition as_array :: "json \<Rightarrow> json list option" where
  "as_array v = (case v of JArr xs \<Rightarrow> Some xs | _ \<Rightarrow> None)"

definition as_object :: "json \<Rightarrow> (string \<times> json) list option" where
  "as_object v = (case v of JObj fs \<Rightarrow> Some fs | _ \<Rightarrow> None)"

end
