(* ===== verification/Ip.thy ===== *)
theory Ip
  imports RustStd
begin

text \<open>
  \<open>std::net::IpAddr::from_str\<close>: the address parser the validators call. It follows the
  standard library's parser: readers consume a prefix of the text and the whole text must be
  consumed. An IPv4 address is four decimal octets without leading zeros; an IPv6 address is eight
  groups of one to four hexadecimal digits, with at most one \<open>::\<close> and an optional trailing
  dotted quad.
\<close>

section \<open>Readers\<close>

type_synonym 'a reader = "string \<Rightarrow> ('a \<times> string) option"

definition is_radix_digit :: "nat \<Rightarrow> char \<Rightarrow> bool" where
  "is_radix_digit radix c \<longleftrightarrow> (if radix = 16 then is_hexdigit c else is_digit c)"

text \<open>\<open>read_number(radix, Some(max_digits), allow_zero_prefix)\<close> with its overflow bound.\<close>

definition rd_num :: "nat \<Rightarrow> nat \<Rightarrow> bool \<Rightarrow> nat \<Rightarrow> nat reader" where
  "rd_num radix max_digits zero_prefix bound s =
     (let ds = takeWhile (is_radix_digit radix) s;
          n = foldl (\<lambda>acc d. radix * acc + hex_val d) 0 ds
      in if ds = [] \<or> max_digits < length ds \<or> bound \<le> n
            \<or> (\<not> zero_prefix \<and> hd ds = CHR ''0'' \<and> 1 < length ds)
         then None else Some (n, drop (length ds) s))"

fun rd_char :: "char \<Rightarrow> unit reader" where
  "rd_char c [] = None"
| "rd_char c (x # xs) = (if x = c then Some ((), xs) else None)"

definition rd_octet :: "nat reader" where
  "rd_octet = rd_num 10 3 False 256"

definition rd_dot_octet :: "nat reader" where
  "rd_dot_octet s = Option.bind (rd_char (CHR ''.'') s) (\<lambda>(_, s). rd_octet s)"

type_synonym quad = "nat \<times> nat \<times> nat \<times> nat"

definition rd_ipv4 :: "quad reader" where
  "rd_ipv4 s =
     Option.bind (rd_octet s) (\<lambda>(a, s).
     Option.bind (rd_dot_octet s) (\<lambda>(b, s).
     Option.bind (rd_dot_octet s) (\<lambda>(c, s).
     Option.bind (rd_dot_octet s) (\<lambda>(d, s). Some ((a, b, c, d), s)))))"

text \<open>\<open>read_separator(':', i, inner)\<close>: no separator before the first element.\<close>

definition rd_sep :: "nat \<Rightarrow> 'a reader \<Rightarrow> 'a reader" where
  "rd_sep i inner s = (if i = 0 then inner s
     else Option.bind (rd_char (CHR '':'') s) (\<lambda>(_, s). inner s))"

definition rd_group :: "nat reader" where
  "rd_group = rd_num 16 4 True 65536"

text \<open>
  \<open>read_groups\<close>: up to \<open>limit\<close> groups from index \<open>i\<close>; returns the groups, whether a
  dotted quad ended them, and the rest.
\<close>

function rd_groups :: "nat \<Rightarrow> nat \<Rightarrow> string \<Rightarrow> nat list \<times> bool \<times> string" where
  "rd_groups limit i s =
     (if limit \<le> i then ([], False, s)
      else (case (if i < limit - 1 then rd_sep i rd_ipv4 s else None) of
          Some ((a, b, c, d), s') \<Rightarrow> ([256 * a + b, 256 * c + d], True, s')
        | None \<Rightarrow> (case rd_sep i rd_group s of
              None \<Rightarrow> ([], False, s)
            | Some (g, s') \<Rightarrow>
                (case rd_groups limit (Suc i) s' of (gs, v4, rest) \<Rightarrow> (g # gs, v4, rest)))))"
  by pat_completeness auto
termination
  by (relation "measure (\<lambda>(limit, i, s). limit - i)") auto

declare rd_groups.simps [simp del]

definition rd_ipv6 :: "(nat list) reader" where
  "rd_ipv6 s =
     (case rd_groups 8 0 s of (head, head_v4, s) \<Rightarrow>
        if length head = 8 then Some (head, s)
        else if head_v4 then None
        else Option.bind (rd_char (CHR '':'') s) (\<lambda>(_, s).
             Option.bind (rd_char (CHR '':'') s) (\<lambda>(_, s).
               (case rd_groups (8 - (length head + 1)) 0 s of (tail, _, s) \<Rightarrow>
                  Some (head @ replicate (8 - length head - length tail) 0 @ tail, s)))))"

datatype ip = V4 quad | V6 "nat list"

definition is_ipv4 :: "ip \<Rightarrow> bool" where
  "is_ipv4 a = (case a of V4 _ \<Rightarrow> True | V6 _ \<Rightarrow> False)"

definition rd_ip :: "ip reader" where
  "rd_ip s = (case rd_ipv4 s of
       Some (os, s') \<Rightarrow> Some (V4 os, s')
     | None \<Rightarrow> map_option (\<lambda>(gs, s'). (V6 gs, s')) (rd_ipv6 s))"

definition parse_ip :: "string \<Rightarrow> ip option" where
  "parse_ip s = (case rd_ip s of Some (a, []) \<Rightarrow> Some a | _ \<Rightarrow> None)"

definition parse_ipv4 :: "string \<Rightarrow> quad option" where
  "parse_ipv4 s = (case rd_ipv4 s of Some (os, []) \<Rightarrow> Some os | _ \<Rightarrow> None)"

section \<open>What an address may contain\<close>

definition ip_char :: "char \<Rightarrow> bool" where
  "ip_char c \<longleftrightarrow> is_hexdigit c \<or> c = CHR ''.'' \<or> c = CHR '':''"

text \<open>A reader that consumed address characters only.\<close>

definition ip_reader :: "'a reader \<Rightarrow> bool" where
  "ip_reader f \<longleftrightarrow> (\<forall>s a s'. f s = Some (a, s') \<longrightarrow> (\<exists>p. s = p @ s' \<and> list_all ip_char p))"

lemma ip_readerD: "ip_reader f \<Longrightarrow> f s = Some (a, s') \<Longrightarrow> \<exists>p. s = p @ s' \<and> list_all ip_char p"
  by (simp add: ip_reader_def)

lemma ip_readerI:
  "(\<And>s a s'. f s = Some (a, s') \<Longrightarrow> \<exists>p. s = p @ s' \<and> list_all ip_char p) \<Longrightarrow> ip_reader f"
  by (simp add: ip_reader_def)

lemma ip_reader_bind:
  assumes "ip_reader f" "\<And>a. ip_reader (g a)"
  shows "ip_reader (\<lambda>s. Option.bind (f s) (\<lambda>(a, s). g a s))"
proof (rule ip_readerI)
  fix s b s'' assume "Option.bind (f s) (\<lambda>(a, s). g a s) = Some (b, s'')"
  then obtain a s' where "f s = Some (a, s')" "g a s' = Some (b, s'')"
    by (auto simp: Option.bind_eq_Some_conv)
  with ip_readerD [OF assms(1)] ip_readerD [OF assms(2)]
  obtain p q where "s = p @ s'" "list_all ip_char p" "s' = q @ s''" "list_all ip_char q" by metis
  then show "\<exists>p. s = p @ s'' \<and> list_all ip_char p"
    by (intro exI [of _ "p @ q"]) simp
qed

lemma ip_reader_ret: "ip_reader (\<lambda>s. Some (a, s))"
  by (simp add: ip_reader_def)

lemma ip_reader_num: "ip_reader (rd_num radix m z b)"
proof (rule ip_readerI)
  fix s a s' assume "rd_num radix m z b s = Some (a, s')"
  then have "s' = drop (length (takeWhile (is_radix_digit radix) s)) s"
    by (auto simp: rd_num_def Let_def split: if_splits)
  then have "s = takeWhile (is_radix_digit radix) s @ s'"
    by (metis append_take_drop_id takeWhile_eq_take)
  moreover have "list_all ip_char (takeWhile (is_radix_digit radix) s)"
    by (auto simp: list_all_iff ip_char_def is_radix_digit_def is_hexdigit_def
        dest!: set_takeWhileD split: if_splits)
  ultimately show "\<exists>p. s = p @ s' \<and> list_all ip_char p" by blast
qed

lemma ip_reader_char: "ip_char c \<Longrightarrow> ip_reader (rd_char c)"
proof (rule ip_readerI)
  fix s a s' assume "ip_char c" "rd_char c s = Some (a, s')"
  then show "\<exists>p. s = p @ s' \<and> list_all ip_char p"
    by (cases s) (auto split: if_splits intro: exI [of _ "[c]"])
qed

lemma ip_char_punct [simp]: "ip_char (CHR ''.'')" "ip_char (CHR '':'')"
  by (simp_all add: ip_char_def)

lemma ip_reader_ipv4: "ip_reader rd_ipv4"
  unfolding rd_ipv4_def [abs_def] rd_dot_octet_def [abs_def] rd_octet_def
  by (intro ip_reader_bind ip_reader_num ip_reader_char ip_reader_ret ip_char_punct)

lemma ip_reader_sep: "ip_reader f \<Longrightarrow> ip_reader (rd_sep i f)"
  unfolding rd_sep_def [abs_def]
  by (cases "i = 0") (auto intro!: ip_reader_bind ip_reader_char)

lemma rd_groups_prefix:
  "rd_groups limit i s = (gs, v4, s') \<Longrightarrow> \<exists>p. s = p @ s' \<and> list_all ip_char p"
proof (induction limit i s arbitrary: gs v4 s' rule: rd_groups.induct)
  case (1 limit i s)
  have sep4: "ip_reader (rd_sep i rd_ipv4)" and sepg: "ip_reader (rd_sep i rd_group)"
    by (simp_all add: ip_reader_sep ip_reader_ipv4 rd_group_def ip_reader_num)
  show ?case
  proof (cases "limit \<le> i")
    case True
    with "1.prems" show ?thesis by (simp add: rd_groups.simps)
  next
    case False
    note lim = this
    show ?thesis
    proof (cases "if i < limit - 1 then rd_sep i rd_ipv4 s else None")
      case (Some r)
      obtain a b c d s1 where r: "r = ((a, b, c, d), s1)" by (cases r) auto
      with Some have os: "rd_sep i rd_ipv4 s = Some ((a, b, c, d), s1)" by (simp split: if_splits)
      from Some r lim "1.prems" have "s' = s1" by (subst (asm) rd_groups.simps) simp
      with ip_readerD [OF sep4 os] show ?thesis by simp
    next
      case None
      show ?thesis
      proof (cases "rd_sep i rd_group s")
        case None': None
        with None lim "1.prems" show ?thesis by (subst (asm) rd_groups.simps) simp
      next
        case g: (Some r)
        obtain g0 s1 where r: "r = (g0, s1)" by (cases r)
        obtain gs1 v1 s2 where rec: "rd_groups limit (Suc i) s1 = (gs1, v1, s2)"
          by (cases "rd_groups limit (Suc i) s1")
        with None g r lim "1.prems" have "s' = s2" by (subst (asm) rd_groups.simps) simp
        moreover obtain q where "s1 = q @ s2" "list_all ip_char q"
          using "1.IH" [OF lim None g [unfolded r] refl rec] by blast
        moreover obtain p where "s = p @ s1" "list_all ip_char p"
          using ip_readerD [OF sepg g [unfolded r]] by blast
        ultimately show ?thesis by (intro exI [of _ "p @ q"]) simp
      qed
    qed
  qed
qed

lemma ip_reader_ipv6: "ip_reader rd_ipv6"
proof (rule ip_readerI)
  fix s gs s' assume a: "rd_ipv6 s = Some (gs, s')"
  obtain head v4 s1 where h: "rd_groups 8 0 s = (head, v4, s1)" by (cases "rd_groups 8 0 s")
  obtain p where p: "s = p @ s1" "list_all ip_char p" using rd_groups_prefix [OF h] by blast
  show "\<exists>p. s = p @ s' \<and> list_all ip_char p"
  proof (cases "length head = 8")
    case True
    with a h p show ?thesis by (auto simp: rd_ipv6_def)
  next
    case False
    with a h obtain s2 s3 where t: "rd_char (CHR '':'') s1 = Some ((), s2)"
      "rd_char (CHR '':'') s2 = Some ((), s3)"
      and g: "(case rd_groups (8 - (length head + 1)) 0 s3 of (tail, _, s) \<Rightarrow>
         Some (head @ replicate (8 - length head - length tail) 0 @ tail, s)) = Some (gs, s')"
      by (auto simp: rd_ipv6_def Option.bind_eq_Some_conv simp del: diff_diff_left split: if_splits)
    then obtain tail v where t3: "rd_groups (8 - (length head + 1)) 0 s3 = (tail, v, s')"
      by (cases "rd_groups (8 - (length head + 1)) 0 s3") auto
    obtain q r u where "s1 = q @ s2" "list_all ip_char q" "s2 = r @ s3" "list_all ip_char r"
      "s3 = u @ s'" "list_all ip_char u"
      using ip_readerD [OF ip_reader_char t(1)] ip_readerD [OF ip_reader_char t(2)]
        rd_groups_prefix [OF t3] by (metis ip_char_punct(2))
    with p show ?thesis by (intro exI [of _ "p @ q @ r @ u"]) simp
  qed
qed

text \<open>An address that parses consists of hexadecimal digits, dots and colons.\<close>

lemma parse_ip_chars:
  assumes "parse_ip s = Some a"
  shows "s \<noteq> [] \<and> list_all ip_char s"
proof -
  have "ip_reader rd_ip"
  proof (rule ip_readerI)
    fix s a s' assume "rd_ip s = Some (a, s')"
    then show "\<exists>p. s = p @ s' \<and> list_all ip_char p"
      by (auto simp: rd_ip_def split: option.splits dest: ip_readerD [OF ip_reader_ipv4]
          ip_readerD [OF ip_reader_ipv6])
  qed
  moreover have "rd_ip s = Some (a, [])"
    using assms by (auto simp: parse_ip_def split: option.splits prod.splits list.splits)
  ultimately have "list_all ip_char s" by (auto dest!: ip_readerD)
  moreover have "parse_ip [] = None"
    by (simp add: parse_ip_def rd_ip_def rd_ipv4_def rd_octet_def rd_num_def rd_ipv6_def
        rd_groups.simps rd_sep_def rd_group_def)
  ultimately show ?thesis using assms by auto
qed

lemma ip_char_not:
  "ip_char c \<Longrightarrow> c \<noteq> CHR '','' \<and> c \<noteq> CHR ''|'' \<and> c \<noteq> CHR ''/'' \<and> c \<noteq> CHR ''*'' \<and> \<not> is_space c"
  by (auto simp: ip_char_def char_class_defs)

lemma not_space [simp]:
  "is_digit c \<Longrightarrow> \<not> is_space c" "is_hexdigit c \<Longrightarrow> \<not> is_space c" "ip_char c \<Longrightarrow> \<not> is_space c"
  by (auto simp: char_class_defs ip_char_def)

lemmas ip_run = parse_ip_def rd_ip_def rd_ipv4_def rd_octet_def rd_num_def rd_dot_octet_def is_radix_digit_def
  hex_val_def is_ipv4_def

end
