(* ===== verification/Acl.thy ===== *)
theory Acl
  imports Json Ip "HOL-Library.Sublist"
begin

text \<open>
  ACL tables and rules, \<^verbatim>\<open>src/src/sonic/acl.rs\<close>: the rule compiler and its inverse (the
  rule document), the validators, and the handlers that read and write \<open>ACL_TABLE\<close>,
  \<open>ACL_RULE\<close> and the description table of the agent.
\<close>

section \<open>Reading\<close>

definition DESC_TABLE :: string where
  "DESC_TABLE = ''QUARTZ_ACL_RULE_DESC''"

definition MANAGED_TYPES :: "string list" where
  "MANAGED_TYPES = [''L3'', ''L3V6'', ''MAC'']"

definition comma_list :: "string \<Rightarrow> string list" where
  "comma_list v = filter (\<lambda>s. s \<noteq> []) (map trim (split_on (CHR '','') v))"

definition ports_of :: "row \<Rightarrow> string list" where
  "ports_of r = (case field r ''ports@'' of
       Some v \<Rightarrow> comma_list v
     | None \<Rightarrow> (case field r ''ports'' of Some v \<Rightarrow> comma_list v | None \<Rightarrow> []))"

definition protocol_name :: "string \<Rightarrow> bool \<Rightarrow> string" where
  "protocol_name num v6 =
     (if num = ''6'' then ''tcp''
      else if num = ''17'' then ''udp''
      else if num = ''1'' \<and> \<not> v6 \<or> num = ''58'' \<and> v6 then ''icmp''
      else num)"

text \<open>\<open>v.replace("..", "-")\<close>.\<close>

fun replace_dotdot :: "string \<Rightarrow> string" where
  "replace_dotdot (a # b # s) =
     (if a = CHR ''.'' \<and> b = CHR ''.'' then CHR ''-'' # replace_dotdot s
      else a # replace_dotdot (b # s))"
| "replace_dotdot s = s"

definition addr_fields :: "string \<Rightarrow> string \<times> string" where
  "addr_fields kind =
     (if kind = ''L3V6'' then (''SRC_IPV6'', ''DST_IPV6'')
      else if kind = ''MAC'' then (''SRC_MAC'', ''DST_MAC'')
      else (''SRC_IP'', ''DST_IP''))"

definition port_doc :: "row \<Rightarrow> string \<Rightarrow> string option" where
  "port_doc r f = (case field r (f @ ''_RANGE'') of
       Some v \<Rightarrow> Some (replace_dotdot v)
     | None \<Rightarrow> field r f)"

definition rule_doc :: "string \<Rightarrow> nat \<Rightarrow> row \<Rightarrow> string option \<Rightarrow> json" where
  "rule_doc kind priority r description =
     (let v6 = (kind = ''L3V6'');
          (src_f, dst_f) = addr_fields kind
      in JObj
        [(''priority'', JNum priority),
         (''action'', JStr (case map_option to_upper (field r ''PACKET_ACTION'') of
             None \<Rightarrow> ''forward''
           | Some a \<Rightarrow> if a = ''DROP'' \<or> a = ''DENY'' then ''drop'' else ''forward'')),
         (''description'', jopt JStr description),
         (''src'', jopt JStr (field r src_f)),
         (''dst'', jopt JStr (field r dst_f)),
         (''protocol'', jopt JStr (map_option (\<lambda>p. protocol_name p v6) (field r ''IP_PROTOCOL''))),
         (''src_port'', jopt JStr (port_doc r ''L4_SRC_PORT'')),
         (''dst_port'', jopt JStr (port_doc r ''L4_DST_PORT''))])"

definition rule_priority :: "string \<Rightarrow> row \<Rightarrow> nat option" where
  "rule_priority rule r = (case Option.bind (field r ''PRIORITY'') (parse_uint 32) of
       Some p \<Rightarrow> Some p
     | None \<Rightarrow> Option.bind (strip_prefix ''RULE_'' rule) (parse_uint 32))"

definition rule_entry :: "'s platform \<Rightarrow> string \<Rightarrow> ('s, string, (string \<times> nat \<times> row) option) io" where
  "rule_entry P key = (case two_parts key ''ACL_RULE|'' of
       None \<Rightarrow> ret None
     | Some (tbl, rule) \<Rightarrow> bnd (row_of P CONFIG_DB key) (\<lambda>r.
         ret (map_option (\<lambda>p. (tbl, p, r)) (rule_priority rule r))))"

definition rule_desc :: "'s platform \<Rightarrow> string \<Rightarrow> string \<Rightarrow> nat \<times> row \<Rightarrow> ('s, string, json) io" where
  "rule_desc P kind name = (\<lambda>(priority, rule).
     bnd (row_of P CONFIG_DB (DESC_TABLE @ ''|'' @ name @ ''|RULE_'' @ show_nat priority)) (\<lambda>d.
       ret (rule_doc kind priority rule (field d ''description''))))"

definition table_kind :: "row \<Rightarrow> string" where
  "table_kind r = to_upper (opt_or (field r ''type'') [])"

definition table_doc :: "string \<Rightarrow> string \<Rightarrow> row \<Rightarrow> json list \<Rightarrow> json" where
  "table_doc name kind r rules = JObj
     [(''name'', JStr name), (''type'', JStr kind),
      (''stage'', JStr (if map_option to_lower (field r ''stage'') = Some ''egress'' then ''egress'' else ''ingress'')),
      (''description'', jopt JStr (field r ''policy_desc'')),
      (''ports'', jstrs (ports_of r)),
      (''rules'', JArr rules)]"

primrec acl_tables ::
  "'s platform \<Rightarrow> (string \<times> (nat \<times> row) list) list \<Rightarrow> string list \<Rightarrow> ('s, string, (string \<times> json) list) io" where
  "acl_tables P m [] = ret []"
| "acl_tables P m (key # ks) =
     (case key_suffix key ''ACL_TABLE|'' of
        None \<Rightarrow> acl_tables P m ks
      | Some name \<Rightarrow>
          bnd (row_of P CONFIG_DB key) (\<lambda>r.
            if table_kind r \<notin> set MANAGED_TYPES then acl_tables P m ks
            else
              bnd (collect (rule_desc P (table_kind r) name)
                     (sort_by (\<lambda>a b. cmp (fst b) (fst a)) (opt_or (map_of m name) []))) (\<lambda>rules.
              bnd (acl_tables P (al_del name m) ks) (\<lambda>rest.
                ret ((name, table_doc name (table_kind r) r rules) # rest)))))"

definition acl_get :: "'s platform \<Rightarrow> ('s, string, json) io" where
  "acl_get P =
     bnd (scan P CONFIG_DB ''ACL_RULE|*'') (\<lambda>rkeys.
     bnd (collect (rule_entry P) rkeys) (\<lambda>entries.
     let by_table = foldl (\<lambda>m (tbl, e). group_push tbl e m) [] (List.map_filter id entries) in
     bnd (scan P CONFIG_DB ''ACL_TABLE|*'') (\<lambda>tkeys.
     bnd (acl_tables P by_table tkeys) (\<lambda>tables.
       ret (JObj [(''capability'', cap_json cap_yes),
                  (''tables'', JArr (map snd (sort_by (\<lambda>a b. natural_cmp (fst a) (fst b)) tables)))])))))"

section \<open>Table validation\<close>

record table_input =
  ti_kind :: string
  ti_stage :: string
  ti_description :: "string option"
  ti_ports :: "string list"

record table_create =
  tc_name :: string
  tc_input :: table_input

definition valid_table_name :: "string \<Rightarrow> bool" where
  "valid_table_name name \<longleftrightarrow> name \<noteq> [] \<and> length name \<le> 64 \<and>
     list_all (\<lambda>b. is_alnum b \<or> b = CHR ''-'' \<or> b = CHR ''_'') name"

definition bad_description :: "string \<Rightarrow> bool" where
  "bad_description d \<longleftrightarrow> length d > 255 \<or> list_ex (\<lambda>b. \<not> is_printable b) d"

definition port_table :: "string \<Rightarrow> string" where
  "port_table p = (if starts_with ''PortChannel'' p then ''PORTCHANNEL''
     else if starts_with ''Vlan'' p then ''VLAN'' else ''PORT'')"

fun check_ports :: "'s platform \<Rightarrow> string list \<Rightarrow> string list \<Rightarrow> ('s, unit) handler" where
  "check_ports P seen [] = ret ()"
| "check_ports P seen (p # ps) =
     (if p \<in> set seen then fail (BadRequest (''duplicate port '' @ p))
      else bnd (map_err Redis (exists P CONFIG_DB (port_table p @ ''|'' @ p))) (\<lambda>e.
        if \<not> e then fail (BadRequest (''no such interface '' @ p))
        else check_ports P (p # seen) ps))"

definition check_table_input :: "'s platform \<Rightarrow> table_input \<Rightarrow> ('s, unit) handler" where
  "check_table_input P i =
     (if ti_kind i \<notin> set MANAGED_TYPES then
        fail (BadRequest (''invalid type '' @ dbg (ti_kind i) @ '' (L3, L3V6, or MAC)''))
      else if ti_stage i \<noteq> ''ingress'' \<and> ti_stage i \<noteq> ''egress'' then
        fail (BadRequest (''invalid stage '' @ dbg (ti_stage i) @ '' (ingress or egress)''))
      else if (case ti_description i of Some d \<Rightarrow> bad_description d | None \<Rightarrow> False) then
        fail (BadRequest ''invalid description: printable ASCII, 255 chars max'')
      else check_ports P [] (ti_ports i))"

definition managed_table :: "'s platform \<Rightarrow> string \<Rightarrow> ('s, row) handler" where
  "managed_table P name =
     bnd (map_err Redis (hgetall P CONFIG_DB (''ACL_TABLE|'' @ name))) (\<lambda>r.
       if r = [] then fail (NotFound (''no such ACL table '' @ name))
       else if table_kind r \<notin> set MANAGED_TYPES then
         fail (Conflict (''ACL table '' @ name @ '' (type '' @ table_kind r @ '') is not managed by this API''))
       else ret r)"

definition table_fields :: "table_input \<Rightarrow> string \<Rightarrow> row" where
  "table_fields i ports =
     [(''type'', ti_kind i), (''stage'', ti_stage i), (''ports@'', ports)]
     @ (case ti_description i of Some d \<Rightarrow> [(''policy_desc'', d)] | None \<Rightarrow> [])"

section \<open>Table writes\<close>

definition create_table :: "'s platform \<Rightarrow> table_create \<Rightarrow> ('s, unit) handler" where
  "create_table P c =
     (if \<not> valid_table_name (tc_name c) then
        fail (BadRequest (''invalid ACL table name '' @ dbg (tc_name c)
                          @ '' (letters, digits, - and _; 64 chars max)''))
      else bnd (map_err Redis (exists P CONFIG_DB (''ACL_TABLE|'' @ tc_name c))) (\<lambda>e.
        if e then fail (Conflict (''ACL table '' @ tc_name c @ '' already exists''))
        else bnd (check_table_input P (tc_input c)) (\<lambda>_.
          map_err Redis (hset P CONFIG_DB (''ACL_TABLE|'' @ tc_name c)
            (table_fields (tc_input c) (join '','' (ti_ports (tc_input c))))))))"

definition update_table :: "'s platform \<Rightarrow> string \<Rightarrow> table_input \<Rightarrow> ('s, unit) handler" where
  "update_table P name i =
     bnd (managed_table P name) (\<lambda>cur.
       if table_kind cur \<noteq> ti_kind i then
         fail (Conflict (''ACL table type is immutable in SONiC ('' @ table_kind cur @ '' '' @ arrow @ '' ''
                         @ ti_kind i @ ''); delete and re-create the table''))
       else bnd (check_table_input P i) (\<lambda>_.
         map_err Redis (apply_batch P
           (bnd (b_hset P CONFIG_DB (''ACL_TABLE|'' @ name) (table_fields i (join '','' (ti_ports i)))) (\<lambda>_.
            bnd (if ti_description i = None then b_hdel P CONFIG_DB (''ACL_TABLE|'' @ name) [''policy_desc'']
                 else ret ()) (\<lambda>_.
            b_hdel P CONFIG_DB (''ACL_TABLE|'' @ name) [''ports'']))))))"

definition delete_matching :: "'s platform \<Rightarrow> string \<Rightarrow> ('s, unit) handler" where
  "delete_matching P pattern =
     bnd (map_err Redis (scan P CONFIG_DB pattern)) (\<lambda>ks.
       for_each (\<lambda>key. map_err Redis (del P CONFIG_DB key)) ks)"

definition delete_table :: "'s platform \<Rightarrow> string \<Rightarrow> ('s, unit) handler" where
  "delete_table P name =
     bnd (managed_table P name) (\<lambda>_.
     bnd (for_each (delete_matching P)
            [''ACL_RULE|'' @ name @ ''|*'', DESC_TABLE @ ''|'' @ name @ ''|*'']) (\<lambda>_.
     map_err Redis (del P CONFIG_DB (''ACL_TABLE|'' @ name))))"

section \<open>Rule validation\<close>

record rule_input =
  ri_action :: string
  ri_description :: "string option"
  ri_src :: "string option"
  ri_dst :: "string option"
  ri_protocol :: "string option"
  ri_src_port :: "string option"
  ri_dst_port :: "string option"

definition check_match_addr :: "string \<Rightarrow> string \<Rightarrow> string \<Rightarrow> string + unit" where
  "check_match_addr kind what v =
     (let err = ''invalid '' @ what @ '' '' @ dbg v @ '' for a '' @ kind @ '' table''
      in if kind = ''MAC'' then
           (let parts = split_on (CHR '':'') v
            in check (length parts = 6 \<and> list_all (\<lambda>p. length p = 2 \<and> list_all is_hexdigit p) parts) err)
         else
           (let v6 = (kind = ''L3V6'');
                (ip, len) = (case split_once (CHR ''/'') v of
                    Some (ip, len) \<Rightarrow> (ip, Some len) | None \<Rightarrow> (v, None))
            in sbind (ok_or (parse_ip ip) err) (\<lambda>a.
               if is_ipv4 a = v6 then Inl err
               else (case len of
                   None \<Rightarrow> Inr ()
                 | Some l \<Rightarrow> sbind (ok_or (parse_uint 8 l) err) (\<lambda>n.
                     if n > (if v6 then 128 else 32) then Inl err else Inr ())))))"

definition port_field :: "string \<Rightarrow> string \<Rightarrow> string \<Rightarrow> string + (string \<times> string)" where
  "port_field what base v =
     (let err = ''invalid '' @ what @ '' '' @ dbg v @ '' (a port or lo-hi range)''
      in case split_once (CHR ''-'') v of
           Some (lo, hi) \<Rightarrow>
             sbind (ok_or (parse_uint 16 lo) err) (\<lambda>lo.
             sbind (ok_or (parse_uint 16 hi) err) (\<lambda>hi.
               if lo \<ge> hi then Inl err
               else Inr (base @ ''_RANGE'', show_nat lo @ ''-'' @ show_nat hi)))
         | None \<Rightarrow> sbind (ok_or (parse_uint 16 v) err) (\<lambda>p. Inr (base, show_nat p)))"

definition protocol_number :: "string \<Rightarrow> string \<Rightarrow> string + string" where
  "protocol_number kind v =
     (if v = ''tcp'' then Inr ''6''
      else if v = ''udp'' then Inr ''17''
      else if v = ''icmp'' then Inr (if kind = ''L3V6'' then ''58'' else ''1'')
      else (case parse_uint 16 v of
          Some n \<Rightarrow> if n \<le> 255 then Inr (show_nat n)
                    else Inl (''invalid protocol '' @ dbg v @ '' (tcp, udp, icmp, or 0-255)'')
        | None \<Rightarrow> Inl (''invalid protocol '' @ dbg v @ '' (tcp, udp, icmp, or 0-255)'')))"

definition action_field :: "string \<Rightarrow> string + row" where
  "action_field a =
     (if a = ''forward'' then Inr [(''PACKET_ACTION'', ''FORWARD'')]
      else if a = ''drop'' then Inr [(''PACKET_ACTION'', ''DROP'')]
      else Inl (''invalid action '' @ dbg a @ '' (forward or drop)''))"

definition addr_field :: "string \<Rightarrow> string \<Rightarrow> string \<Rightarrow> string option \<Rightarrow> string + row" where
  "addr_field kind what f v = (case v of
       None \<Rightarrow> Inr []
     | Some v \<Rightarrow> sbind (check_match_addr kind what v) (\<lambda>_. Inr [(f, v)]))"

definition protocol_field :: "string \<Rightarrow> string option \<Rightarrow> string + string option" where
  "protocol_field kind v = (case v of
       None \<Rightarrow> Inr None
     | Some v \<Rightarrow>
         if kind = ''MAC'' then Inl (''protocol '' @ dbg v @ '' does not apply to a MAC table'')
         else sbind (protocol_number kind v) (\<lambda>num. Inr (Some num)))"

definition l4_field :: "bool \<Rightarrow> string \<Rightarrow> string \<Rightarrow> string option \<Rightarrow> string + row" where
  "l4_field l4_ok what base v = (case v of
       None \<Rightarrow> Inr []
     | Some v \<Rightarrow>
         if \<not> l4_ok then Inl (what @ '' requires protocol tcp or udp'')
         else sbind (port_field what base v) (\<lambda>fv. Inr [fv]))"

text \<open>The fields in the order they are pushed; the first failing check returns.\<close>

definition rule_fields :: "string \<Rightarrow> nat \<Rightarrow> rule_input \<Rightarrow> string + row" where
  "rule_fields kind priority i =
     sbind (action_field (ri_action i)) (\<lambda>action.
     (let (src_f, dst_f) = addr_fields kind in
     sbind (addr_field kind ''src'' src_f (ri_src i)) (\<lambda>src.
     sbind (addr_field kind ''dst'' dst_f (ri_dst i)) (\<lambda>dst.
     sbind (protocol_field kind (ri_protocol i)) (\<lambda>protocol.
     (let l4_ok = (protocol = Some ''6'' \<or> protocol = Some ''17'') in
     sbind (l4_field l4_ok ''src_port'' ''L4_SRC_PORT'' (ri_src_port i)) (\<lambda>sport.
     sbind (l4_field l4_ok ''dst_port'' ''L4_DST_PORT'' (ri_dst_port i)) (\<lambda>dport.
       Inr ([(''PRIORITY'', show_nat priority)] @ action @ src @ dst
            @ (case protocol of None \<Rightarrow> [] | Some n \<Rightarrow> [(''IP_PROTOCOL'', n)]) @ sport @ dport)))))))))"

definition check_priority :: "nat \<Rightarrow> string + unit" where
  "check_priority p = check (1 \<le> p \<and> p \<le> 65535) (''invalid priority '' @ show_nat p @ '' (must be 1-65535)'')"

section \<open>Rule writes\<close>

definition rule_key :: "string \<Rightarrow> nat \<Rightarrow> string" where
  "rule_key tbl priority = ''ACL_RULE|'' @ tbl @ ''|RULE_'' @ show_nat priority"

definition desc_key :: "string \<Rightarrow> nat \<Rightarrow> string" where
  "desc_key tbl priority = DESC_TABLE @ ''|'' @ tbl @ ''|RULE_'' @ show_nat priority"

definition put_rule :: "'s platform \<Rightarrow> string \<Rightarrow> nat \<Rightarrow> rule_input \<Rightarrow> ('s, unit) handler" where
  "put_rule P tbl priority i =
     bnd (lift (smap_err BadRequest (check_priority priority))) (\<lambda>_.
     bnd (managed_table P tbl) (\<lambda>t.
       if (case ri_description i of Some d \<Rightarrow> bad_description d | None \<Rightarrow> False) then
         fail (BadRequest ''invalid description: printable ASCII, 255 chars max'')
       else
     bnd (lift (smap_err BadRequest (rule_fields (table_kind t) priority i))) (\<lambda>fs.
     map_err Redis (apply_batch P
       (bnd (b_del P CONFIG_DB (rule_key tbl priority)) (\<lambda>_.
        bnd (b_hset P CONFIG_DB (rule_key tbl priority) fs) (\<lambda>_.
        (case ri_description i of
           Some d \<Rightarrow> b_hset P CONFIG_DB (desc_key tbl priority) [(''description'', d)]
         | None \<Rightarrow> b_del P CONFIG_DB (desc_key tbl priority)))))))))"

definition delete_rule :: "'s platform \<Rightarrow> string \<Rightarrow> nat \<Rightarrow> ('s, unit) handler" where
  "delete_rule P tbl priority =
     bnd (managed_table P tbl) (\<lambda>_.
     bnd (map_err Redis (exists P CONFIG_DB (rule_key tbl priority))) (\<lambda>e.
       if \<not> e then
         fail (NotFound (''no rule with priority '' @ show_nat priority @ '' in ACL table '' @ tbl))
       else
     bnd (map_err Redis (del P CONFIG_DB (rule_key tbl priority))) (\<lambda>_.
     map_err Redis (del P CONFIG_DB (desc_key tbl priority)))))"

section \<open>The rule compiler\<close>

definition m_kind :: "(string \<rightharpoonup> string) \<Rightarrow> string" where
  "m_kind m = to_upper (opt_or (mfield m ''type'') [])"

lemma table_kind_map: "table_kind r = m_kind (map_of r)"
  by (simp add: table_kind_def m_kind_def field_map)

lemma rule_desc_key_neq [simp]: "rule_key t p \<noteq> desc_key t' p'" "desc_key t' p' \<noteq> rule_key t p"
  by (simp_all add: rule_key_def desc_key_def DESC_TABLE_def)

text \<open>The shape of the compiled row: one segment per input field, in push order.\<close>

definition opt_field :: "string \<Rightarrow> string option \<Rightarrow> row" where
  "opt_field f v = (case v of None \<Rightarrow> [] | Some x \<Rightarrow> [(f, x)])"

definition rule_row :: "string \<Rightarrow> nat \<Rightarrow> string \<Rightarrow> string option \<Rightarrow> string option \<Rightarrow> string option \<Rightarrow> row \<Rightarrow> row \<Rightarrow> row" where
  "rule_row kind p act src dst proto sp dp =
     [(''PRIORITY'', show_nat p), (''PACKET_ACTION'', act)] @ opt_field (fst (addr_fields kind)) src
     @ opt_field (snd (addr_fields kind)) dst @ opt_field ''IP_PROTOCOL'' proto @ sp @ dp"

definition addr_ok :: "string \<Rightarrow> string \<Rightarrow> string option \<Rightarrow> bool" where
  "addr_ok kind what v \<longleftrightarrow> (\<forall>a. v = Some a \<longrightarrow> check_match_addr kind what a = Inr ())"

definition is_l4 :: "string option \<Rightarrow> bool" where
  "is_l4 proto \<longleftrightarrow> proto = Some ''6'' \<or> proto = Some ''17''"

lemma opt_field_simps [simp]: "opt_field f None = []" "opt_field f (Some x) = [(f, x)]"
  by (simp_all add: opt_field_def)

lemma addr_field_Inr: "addr_field kind what f v = Inr fs \<longleftrightarrow> fs = opt_field f v \<and> addr_ok kind what v"
  by (auto simp: addr_field_def addr_ok_def split: option.splits)

lemma rule_fields_Inr:
  "rule_fields kind p i = Inr fs \<longleftrightarrow> (\<exists>act proto sp dp.
     fs = rule_row kind p act (ri_src i) (ri_dst i) proto sp dp \<and>
     action_field (ri_action i) = Inr [(''PACKET_ACTION'', act)] \<and>
     addr_ok kind ''src'' (ri_src i) \<and> addr_ok kind ''dst'' (ri_dst i) \<and>
     protocol_field kind (ri_protocol i) = Inr proto \<and>
     l4_field (is_l4 proto) ''src_port'' ''L4_SRC_PORT'' (ri_src_port i) = Inr sp \<and>
     l4_field (is_l4 proto) ''dst_port'' ''L4_DST_PORT'' (ri_dst_port i) = Inr dp)"
proof -
  have act: "action_field a = Inr r \<longleftrightarrow> (\<exists>x. r = [(''PACKET_ACTION'', x)] \<and>
      action_field a = Inr [(''PACKET_ACTION'', x)])" for a r
    by (auto simp: action_field_def)
  show ?thesis
    unfolding rule_fields_def Let_def case_prod_beta sbind_Inr addr_field_Inr
    by (subst act) (auto simp: rule_row_def is_l4_def opt_field_def)
qed

lemma port_field_name: "port_field what base v = Inr (f, w) \<Longrightarrow> f = base \<or> f = base @ ''_RANGE''"
  by (auto simp: port_field_def Let_def split: option.splits if_splits)

lemma l4_field_names: "l4_field l4 what base v = Inr fs \<Longrightarrow> subseq (map fst fs) [base, base @ ''_RANGE'']"
  by (auto simp: l4_field_def split: option.splits if_splits dest!: port_field_name)

lemma opt_field_names: "subseq (map fst (opt_field f v)) [f]"
  by (cases v) simp_all

lemma addr_fields_cases:
  "addr_fields kind \<in> {(''SRC_IPV6'', ''DST_IPV6''), (''SRC_MAC'', ''DST_MAC''), (''SRC_IP'', ''DST_IP'')}"
  by (simp add: addr_fields_def)

lemma rule_fields_names:
  assumes "rule_fields kind p i = Inr fs"
  shows "subseq (map fst fs) ([''PRIORITY'', ''PACKET_ACTION''] @ [fst (addr_fields kind)] @ [snd (addr_fields kind)]
    @ [''IP_PROTOCOL''] @ [''L4_SRC_PORT'', ''L4_SRC_PORT_RANGE''] @ [''L4_DST_PORT'', ''L4_DST_PORT_RANGE''])"
proof -
  obtain act proto sp dp where fs: "fs = rule_row kind p act (ri_src i) (ri_dst i) proto sp dp"
    and sp: "l4_field (is_l4 proto) ''src_port'' ''L4_SRC_PORT'' (ri_src_port i) = Inr sp"
    and dp: "l4_field (is_l4 proto) ''dst_port'' ''L4_DST_PORT'' (ri_dst_port i) = Inr dp"
    using assms unfolding rule_fields_Inr by blast
  show ?thesis
    unfolding fs rule_row_def map_append
    using l4_field_names [OF sp] l4_field_names [OF dp]
    by (intro list_emb_append_mono opt_field_names) simp_all
qed

lemma subseq_distinct: "subseq xs ys \<Longrightarrow> distinct ys \<Longrightarrow> distinct xs"
  by (induction rule: list_emb.induct) (auto elim: list_emb_set)

lemma rule_fields_distinct: "rule_fields kind p i = Inr fs \<Longrightarrow> distinct (map fst fs)"
  using addr_fields_cases [of kind] by (auto dest!: rule_fields_names elim!: subseq_distinct)

text \<open>The document a rule input is: what a client that sends \<open>i\<close> would read back.\<close>

definition input_doc :: "nat \<Rightarrow> rule_input \<Rightarrow> json" where
  "input_doc p i = JObj
     [(''priority'', JNum p), (''action'', JStr (ri_action i)),
      (''description'', jopt JStr (ri_description i)),
      (''src'', jopt JStr (ri_src i)), (''dst'', jopt JStr (ri_dst i)),
      (''protocol'', jopt JStr (ri_protocol i)),
      (''src_port'', jopt JStr (ri_src_port i)), (''dst_port'', jopt JStr (ri_dst_port i))]"

lemma map_of_opt_field [simp]:
  "map_of (opt_field f v) k = (if k = f then v else None)"
  by (cases v) auto

lemma check_match_addr_ip:
  assumes "check_match_addr kind what v = Inr ()" "kind \<noteq> ''MAC''"
  shows "\<exists>ip a. parse_ip ip = Some a \<and> (v = ip \<or> (\<exists>l n. v = ip @ CHR ''/'' # l \<and> parse_uint 8 l = Some n \<and>
    n \<le> (if kind = ''L3V6'' then 128 else 32))) \<and> is_ipv4 a = (kind \<noteq> ''L3V6'')"
proof (cases "split_once (CHR ''/'') v")
  case None
  with assms show ?thesis by (auto simp: check_match_addr_def Let_def split: if_splits)
next
  case (Some x)
  then obtain ip l where x: "split_once (CHR ''/'') v = Some (ip, l)" by (cases x) auto
  then have v: "v = ip @ CHR ''/'' # l" by (simp add: split_once_Some)
  from assms x obtain a n where "parse_ip ip = Some a" "is_ipv4 a = (kind \<noteq> ''L3V6'')"
    "parse_uint 8 l = Some n" "n \<le> (if kind = ''L3V6'' then 128 else 32)"
    by (auto simp: check_match_addr_def Let_def not_less split: if_splits)
  with v show ?thesis by blast
qed

lemma check_match_addr_chars:
  assumes "check_match_addr kind what v = Inr ()"
  shows "\<forall>c\<in>set v. \<not> is_space c" "v \<noteq> []"
proof -
  have "v \<noteq> [] \<and> (\<forall>c\<in>set v. \<not> is_space c)"
  proof (cases "kind = ''MAC''")
    case True
    with assms have parts: "length (split_on (CHR '':'') v) = 6"
      "\<forall>p\<in>set (split_on (CHR '':'') v). list_all is_hexdigit p"
      by (auto simp: check_match_addr_def Let_def list_all_iff)
    have colon: "\<not> is_space (CHR '':'')" by (simp add: char_class_defs)
    have "\<not> is_space c" if "c \<in> set v" for c
      using split_on_chars [OF that, of "CHR '':''"] parts(2) colon
      by (auto simp: list_all_iff)
    with parts(1) show ?thesis by auto
  next
    case False
    obtain ip a where ip: "parse_ip ip = Some a"
      and v: "v = ip \<or> (\<exists>l n. v = ip @ CHR ''/'' # l \<and> parse_uint 8 l = Some n)"
      using check_match_addr_ip [OF assms False] by blast
    have sep: "\<not> is_space (CHR ''/'')" by (simp add: char_class_defs)
    from v show ?thesis
      using parse_ip_chars [OF ip] sep not_space
      by (auto simp: list_all_iff dest: parse_uint_no_space)
  qed
  then show "\<forall>c\<in>set v. \<not> is_space c" "v \<noteq> []" by auto
qed

lemma field_addr: "addr_ok kind what v \<Longrightarrow> v = Some a \<Longrightarrow> trim a = a \<and> a \<noteq> []"
  by (simp add: addr_ok_def check_match_addr_chars trim_id)

text \<open>The stored form of a port is a fixed point of the port parser.\<close>

lemma replace_dotdot_id: "CHR ''.'' \<notin> set s \<Longrightarrow> replace_dotdot s = s"
  by (induction s rule: replace_dotdot.induct) auto

lemma show_nat_not: "CHR ''.'' \<notin> set (show_nat n)" "CHR ''-'' \<notin> set (show_nat n)"
  by (simp_all add: show_nat_no_char char_class_defs)

lemma port_field_Inr:
  assumes "port_field what base v = Inr (f, x)"
  shows "(\<exists>p<2 ^ 16. f = base \<and> x = show_nat p) \<or>
    (\<exists>lo hi. lo < hi \<and> hi < 2 ^ 16 \<and> f = base @ ''_RANGE'' \<and> x = show_nat lo @ CHR ''-'' # show_nat hi)"
  using assms parse_uint_bound [of 16]
  by (auto simp: port_field_def Let_def not_le split: option.splits if_splits) (metis not_le)+

lemma port_field_idem:
  assumes "port_field what base v = Inr (f, x)"
  shows "port_field what base x = Inr (f, x) \<and> trim x = x \<and> x \<noteq> [] \<and> replace_dotdot x = x"
  using port_field_Inr [OF assms]
proof (elim disjE exE conjE)
  fix p :: nat
  assume p: "p < 2 ^ 16" "f = base" "x = show_nat p"
  then have "split_once (CHR ''-'') x = None"
    by (simp add: split_once_None show_nat_not)
  with p show ?thesis
    by (simp add: port_field_def replace_dotdot_id show_nat_not)
next
  fix lo hi :: nat
  assume r: "lo < hi" "hi < 2 ^ 16" "f = base @ ''_RANGE''" "x = show_nat lo @ CHR ''-'' # show_nat hi"
  then have "split_once (CHR ''-'') x = Some (show_nat lo, show_nat hi)"
    by (simp add: show_nat_not)
  moreover have "trim x = x"
    using show_nat_digits not_space(1) r(4) by (intro trim_id) (auto, simp add: char_class_defs)
  moreover have "replace_dotdot x = x"
    using r(4) by (intro replace_dotdot_id) (simp add: show_nat_not)
  ultimately show ?thesis using r by (simp add: port_field_def Let_def)
qed

lemma protocol_number_show:
  assumes "protocol_number kind v = Inr num"
  shows "\<exists>n\<le>255. num = show_nat n"
proof -
  have s: "''6'' = show_nat 6" "''17'' = show_nat 17" "''58'' = show_nat 58" "''1'' = show_nat 1"
    by code_simp+
  from assms consider "num = ''6''" | "num = ''17''" | "num = ''58''" | "num = ''1''" | n where "n \<le> 255" "num = show_nat n"
    by (auto simp: protocol_number_def split: if_splits option.splits)
  then show ?thesis
  proof cases
    case 1 then show ?thesis using s(1) by (intro exI [of _ 6]) simp
  next
    case 2 then show ?thesis using s(2) by (intro exI [of _ 17]) simp
  next
    case 3 then show ?thesis using s(3) by (intro exI [of _ 58]) simp
  next
    case 4 then show ?thesis using s(4) by (intro exI [of _ 1]) simp
  qed blast
qed

lemma show_nat_words: "show_nat n \<noteq> ''tcp''" "show_nat n \<noteq> ''udp''" "show_nat n \<noteq> ''icmp''"
proof -
  have "\<not> is_digit (CHR ''p'')" by (simp add: char_class_defs)
  then have "CHR ''p'' \<notin> set (show_nat n)" by (rule show_nat_no_char)
  then show "show_nat n \<noteq> ''tcp''" "show_nat n \<noteq> ''udp''" "show_nat n \<noteq> ''icmp''" by auto
qed

lemma protocol_number_idem:
  assumes "protocol_number kind v = Inr num"
  shows "protocol_number kind (protocol_name num (kind = ''L3V6'')) = Inr num"
proof -
  obtain n where "n \<le> 255" "num = show_nat n" using protocol_number_show [OF assms] by blast
  then show ?thesis
    by (auto simp: protocol_name_def protocol_number_def show_nat_words)
qed


lemma protocol_field_idem:
  assumes "protocol_field kind v = Inr proto"
  shows "protocol_field kind (map_option (\<lambda>n. protocol_name n (kind = ''L3V6'')) proto) = Inr proto"
  using assms protocol_number_idem [of kind]
  by (auto simp: protocol_field_def split: option.splits if_splits)

lemma l4_field_Inr:
  "l4_field l4 what base v = Inr fs \<longleftrightarrow> v = None \<and> fs = [] \<or>
     (\<exists>w f x. v = Some w \<and> l4 \<and> port_field what base w = Inr (f, x) \<and> fs = [(f, x)])"
  by (auto simp: l4_field_def split: option.splits)

text \<open>Reading the compiled row back, segment by segment.\<close>

lemma l4_field_idem:
  assumes "l4_field l4 what base v = Inr fs"
    and "\<And>f. f \<in> {base, base @ ''_RANGE''} \<Longrightarrow> map_of r f = map_of fs f"
  shows "l4_field l4 what base (port_doc r base) = Inr fs"
proof (cases v)
  case None
  with assms have "port_doc r base = None" by (simp add: l4_field_Inr port_doc_def field_def)
  with None assms show ?thesis by (simp add: l4_field_Inr)
next
  case (Some w)
  with assms(1) obtain f x where l4: l4 and pf: "port_field what base w = Inr (f, x)" and fs: "fs = [(f, x)]"
    by (auto simp: l4_field_Inr)
  note idem = port_field_idem [OF pf]
  have "port_doc r base = Some x"
    using port_field_name [OF pf] idem assms(2) fs by (auto simp: port_doc_def field_def)
  with l4 fs idem show ?thesis by (simp add: l4_field_Inr)
qed

lemma addr_fields_neq:
  "fst (addr_fields kind) \<noteq> snd (addr_fields kind)"
  "fst (addr_fields kind) \<noteq> ''PRIORITY''" "snd (addr_fields kind) \<noteq> ''PRIORITY''"
  "fst (addr_fields kind) \<noteq> ''PACKET_ACTION''" "snd (addr_fields kind) \<noteq> ''PACKET_ACTION''"
  "fst (addr_fields kind) \<noteq> ''IP_PROTOCOL''" "snd (addr_fields kind) \<noteq> ''IP_PROTOCOL''"
  "fst (addr_fields kind) \<noteq> ''L4_SRC_PORT''" "snd (addr_fields kind) \<noteq> ''L4_SRC_PORT''"
  "fst (addr_fields kind) \<noteq> ''L4_DST_PORT''" "snd (addr_fields kind) \<noteq> ''L4_DST_PORT''"
  "fst (addr_fields kind) \<noteq> ''L4_SRC_PORT_RANGE''" "snd (addr_fields kind) \<noteq> ''L4_SRC_PORT_RANGE''"
  "fst (addr_fields kind) \<noteq> ''L4_DST_PORT_RANGE''" "snd (addr_fields kind) \<noteq> ''L4_DST_PORT_RANGE''"
  by (simp_all add: addr_fields_def)

lemma l4_field_map:
  "l4_field l4 what base v = Inr fs \<Longrightarrow> k \<noteq> base \<Longrightarrow> k \<noteq> base @ ''_RANGE'' \<Longrightarrow> map_of fs k = None"
  by (auto simp: l4_field_Inr dest!: port_field_name)

lemma rule_row_map:
  assumes "l4_field l4 ''src_port'' ''L4_SRC_PORT'' v = Inr sp" "l4_field l4 ''dst_port'' ''L4_DST_PORT'' w = Inr dp"
  shows "map_of (rule_row kind p act src dst proto sp dp) ''PACKET_ACTION'' = Some act"
    "map_of (rule_row kind p act src dst proto sp dp) (fst (addr_fields kind)) = src"
    "map_of (rule_row kind p act src dst proto sp dp) (snd (addr_fields kind)) = dst"
    "map_of (rule_row kind p act src dst proto sp dp) ''IP_PROTOCOL'' = proto"
    "f \<in> {''L4_SRC_PORT'', ''L4_SRC_PORT_RANGE''} \<Longrightarrow>
       map_of (rule_row kind p act src dst proto sp dp) f = map_of sp f"
    "f \<in> {''L4_DST_PORT'', ''L4_DST_PORT_RANGE''} \<Longrightarrow>
       map_of (rule_row kind p act src dst proto sp dp) f = map_of dp f"
proof -
  note neq = addr_fields_neq [of kind] addr_fields_neq [of kind, symmetric]
  note l4 = l4_field_map [OF assms(1)] l4_field_map [OF assms(2)]
  show "map_of (rule_row kind p act src dst proto sp dp) ''PACKET_ACTION'' = Some act"
    by (simp add: rule_row_def)
  show "map_of (rule_row kind p act src dst proto sp dp) (fst (addr_fields kind)) = src"
    by (simp add: rule_row_def neq l4 map_add_def split: option.splits)
  show "map_of (rule_row kind p act src dst proto sp dp) (snd (addr_fields kind)) = dst"
    by (simp add: rule_row_def neq l4 map_add_def split: option.splits)
  show "map_of (rule_row kind p act src dst proto sp dp) ''IP_PROTOCOL'' = proto"
    by (simp add: rule_row_def neq l4 map_add_def split: option.splits)
  show "f \<in> {''L4_SRC_PORT'', ''L4_SRC_PORT_RANGE''} \<Longrightarrow>
       map_of (rule_row kind p act src dst proto sp dp) f = map_of sp f"
    by (elim insertE emptyE; simp add: rule_row_def neq l4 map_add_def split: option.splits)
  show "f \<in> {''L4_DST_PORT'', ''L4_DST_PORT_RANGE''} \<Longrightarrow>
       map_of (rule_row kind p act src dst proto sp dp) f = map_of dp f"
    by (elim insertE emptyE; simp add: rule_row_def neq l4 map_add_def split: option.splits)
qed


lemma action_field_doc:
  "action_field a = Inr [(''PACKET_ACTION'', act)] \<Longrightarrow>
   trim act = act \<and> act \<noteq> [] \<and> (if to_upper act = ''DROP'' \<or> to_upper act = ''DENY'' then ''drop'' else ''forward'') = a"
proof -
  have s: "to_upper ''DROP'' = ''DROP''" "to_upper ''FORWARD'' = ''FORWARD''" "trim ''DROP'' = ''DROP''"
    "trim ''FORWARD'' = ''FORWARD''" by code_simp+
  assume "action_field a = Inr [(''PACKET_ACTION'', act)]"
  then show ?thesis by (auto simp: action_field_def s split: if_splits)
qed

lemma mfield_id: "m k = v \<Longrightarrow> (\<And>w. v = Some w \<Longrightarrow> trim w = w \<and> w \<noteq> []) \<Longrightarrow> mfield m k = v"
  by (cases v) (auto simp: mfield_def)

text \<open>
  The document of a stored rule is itself a rule input that compiles to the same row. The row
  is given as any listing of the stored hash.
\<close>

lemma rule_doc_input:
  assumes "rule_fields kind p i = Inr fs" "map_of r = map_of fs"
  shows "\<exists>j. rule_doc kind p r (ri_description i) = input_doc p j \<and> rule_fields kind p j = Inr fs \<and>
    ri_action j = ri_action i \<and> ri_src j = ri_src i \<and> ri_dst j = ri_dst i \<and> ri_description j = ri_description i"
proof -
  obtain act proto sp dp where fs: "fs = rule_row kind p act (ri_src i) (ri_dst i) proto sp dp"
    and act: "action_field (ri_action i) = Inr [(''PACKET_ACTION'', act)]"
    and src: "addr_ok kind ''src'' (ri_src i)" and dst: "addr_ok kind ''dst'' (ri_dst i)"
    and proto: "protocol_field kind (ri_protocol i) = Inr proto"
    and sp: "l4_field (is_l4 proto) ''src_port'' ''L4_SRC_PORT'' (ri_src_port i) = Inr sp"
    and dp: "l4_field (is_l4 proto) ''dst_port'' ''L4_DST_PORT'' (ri_dst_port i) = Inr dp"
    using assms(1) unfolding rule_fields_Inr by blast
  note map = rule_row_map [OF sp dp, where kind = kind and p = p and act = act and src = "ri_src i" and dst = "ri_dst i" and proto = proto, folded fs assms(2)]
  let ?q = "map_option (\<lambda>n. protocol_name n (kind = ''L3V6'')) proto"
  let ?j = "i\<lparr>ri_protocol := ?q, ri_src_port := port_doc r ''L4_SRC_PORT'', ri_dst_port := port_doc r ''L4_DST_PORT''\<rparr>"
  have "trim n = n \<and> n \<noteq> []" if "proto = Some n" for n
    using proto that by (auto simp: protocol_field_def split: option.splits if_splits dest!: protocol_number_show)
  then have f: "field r ''PACKET_ACTION'' = Some act" "field r (fst (addr_fields kind)) = ri_src i"
    "field r (snd (addr_fields kind)) = ri_dst i" "field r ''IP_PROTOCOL'' = proto"
    unfolding field_map using map action_field_doc [OF act] field_addr [OF src] field_addr [OF dst]
    by (auto intro!: mfield_id)
  have doc: "rule_doc kind p r (ri_description i) = input_doc p ?j"
    using action_field_doc [OF act] by (simp add: rule_doc_def input_doc_def f case_prod_beta Let_def)
  moreover have "l4_field (is_l4 proto) ''src_port'' ''L4_SRC_PORT'' (port_doc r ''L4_SRC_PORT'') = Inr sp"
    by (rule l4_field_idem [OF sp]) (use map(5) in auto)
  moreover have "l4_field (is_l4 proto) ''dst_port'' ''L4_DST_PORT'' (port_doc r ''L4_DST_PORT'') = Inr dp"
    by (rule l4_field_idem [OF dp]) (use map(6) in auto)
  ultimately have "rule_fields kind p ?j = Inr fs"
    unfolding rule_fields_Inr using protocol_field_idem [OF proto] act src dst
    by (intro exI [of _ act] exI [of _ proto] exI [of _ sp] exI [of _ dp]) (simp add: fs)
  with doc show ?thesis by (intro exI [of _ ?j]) simp
qed

section \<open>Handlers against the databases\<close>

text \<open>What a table body has to satisfy against the databases.\<close>

definition valid_table_input :: "dbs \<Rightarrow> table_input \<Rightarrow> bool" where
  "valid_table_input v i \<longleftrightarrow> ti_kind i \<in> set MANAGED_TYPES \<and> ti_stage i \<in> {''ingress'', ''egress''} \<and>
     (\<forall>d. ti_description i = Some d \<longrightarrow> \<not> bad_description d) \<and> distinct (ti_ports i) \<and>
     (\<forall>p\<in>set (ti_ports i). v CONFIG_DB (port_table p @ ''|'' @ p) \<noteq> Map.empty)"

text \<open>The rows that belong to the rules of a table.\<close>

definition rule_rows :: "string \<Rightarrow> string \<Rightarrow> bool" where
  "rule_rows name k \<longleftrightarrow> starts_with (''ACL_RULE|'' @ name @ ''|'') k
     \<or> starts_with (DESC_TABLE @ ''|'' @ name @ ''|'') k"

context redis_store
begin

lemma wp_delete_matching:
  assumes "ok s" "CHR ''*'' \<notin> set pre" "plain_glob pre"
    and "\<And>s'. ok s' \<Longrightarrow> view s' = v_drop CONFIG_DB (starts_with pre) (view s) \<Longrightarrow> Q () s'"
    and "\<And>e s' q. ok s' \<Longrightarrow> (\<And>k. q k \<Longrightarrow> starts_with pre k) \<Longrightarrow> view s' = v_drop CONFIG_DB q (view s)
      \<Longrightarrow> E e s'"
  shows "wp (delete_matching P (pre @ ''*'')) Q E s"
  unfolding delete_matching_def
proof (intro wp_bnd wp_map_err wp_scan wp_delete_keys)
  show "ok s" by fact
  fix e s' assume "ok s'" "view s' = view s"
  with assms(5) [of s' "\<lambda>_. False"] show "E (Redis e) s'" by (simp add: v_drop_def)
next
  fix ks s1
  assume s1: "ok s1" "view s1 = view s"
    and "plain_glob (pre @ ''*'') \<Longrightarrow> set ks = {k. view s CONFIG_DB k \<noteq> Map.empty \<and> glob_match (pre @ ''*'') k}"
  then have ks: "set ks = {k. view s CONFIG_DB k \<noteq> Map.empty \<and> starts_with pre k}"
    using assms(2,3) by (auto simp: plain_glob_def starts_with_iff)
  show "ok s1" by fact
  fix s2 assume s2: "ok s2" "view s2 = v_drop CONFIG_DB (\<lambda>k. k \<in> set ks) (view s1)"
  then have "view s2 = v_drop CONFIG_DB (starts_with pre) (view s)"
    using s1 ks by (auto intro!: v_drop_cong)
  with s2 assms(4) show "Q () s2" by blast
next
  fix ks s1 e s2
  assume s1: "ok s1" "view s1 = view s"
    and "plain_glob (pre @ ''*'') \<Longrightarrow> set ks = {k. view s CONFIG_DB k \<noteq> Map.empty \<and> glob_match (pre @ ''*'') k}"
    and s2: "ok s2" "\<exists>K\<subseteq>set ks. view s2 = v_drop CONFIG_DB (\<lambda>k. k \<in> K) (view s1)"
  then have ks: "set ks = {k. view s CONFIG_DB k \<noteq> Map.empty \<and> starts_with pre k}"
    using assms(2,3) by (auto simp: plain_glob_def starts_with_iff)
  obtain K where K: "K \<subseteq> set ks" "view s2 = v_drop CONFIG_DB (\<lambda>k. k \<in> K) (view s)"
    using s2(2) s1(2) by metis
  then have "starts_with pre k" if "k \<in> K" for k
    using that ks by blast
  then show "E e s2"
    by (rule assms(5) [OF s2(1) _ K(2)])
qed

lemma wp_managed_table:
  assumes "ok s"
    and "\<And>r s'. ok s' \<Longrightarrow> view s' = view s \<Longrightarrow> map_of r = view s CONFIG_DB (''ACL_TABLE|'' @ name) \<Longrightarrow>
           r \<noteq> [] \<Longrightarrow> table_kind r \<in> set MANAGED_TYPES \<Longrightarrow> Q r s'"
    and "\<And>e s'. ok s' \<Longrightarrow> view s' = view s \<Longrightarrow> E e s'"
  shows "wp (managed_table P name) Q E s"
  unfolding managed_table_def using assms by (auto intro!: wp_intro wp_hgetall)

lemma put_rule_wp:
  assumes "ok s"
  shows "wp (put_rule P tbl p i)
    (\<lambda>_ s'. ok s' \<and> (let kind = m_kind (view s CONFIG_DB (''ACL_TABLE|'' @ tbl)) in
       1 \<le> p \<and> p \<le> 65535 \<and> kind \<in> set MANAGED_TYPES \<and>
       (\<exists>fs. rule_fields kind p i = Inr fs \<and>
         view s' = (case ri_description i of
             Some d \<Rightarrow> v_hset CONFIG_DB (desc_key tbl p) [(''description'', d)]
           | None \<Rightarrow> v_del CONFIG_DB (desc_key tbl p))
           (v_hset CONFIG_DB (rule_key tbl p) fs (v_del CONFIG_DB (rule_key tbl p) (view s))))))
    (\<lambda>e. failed_clean (view s) (\<exists>x. e = Redis x)) s"
  unfolding put_rule_def check_priority_def using assms
  apply (intro wp_intro wp_managed_table wp_apply_batch_any bp_intros wp_b_hset wp_b_del)
  apply (simp_all add: new_batch_def table_kind_map Let_def failed_cleanI failed_clean_batch)
  done

end

context one_fault_store
begin

lemma wp_check_ports:
  assumes "ok s"
    and "\<And>s'. ok s' \<Longrightarrow> view s' = view s \<Longrightarrow> distinct ps \<Longrightarrow> set ps \<inter> set seen = {} \<Longrightarrow>
       \<forall>p\<in>set ps. view s CONFIG_DB (port_table p @ ''|'' @ p) \<noteq> Map.empty \<Longrightarrow> Q () s'"
    and "\<And>e s'. ok s' \<Longrightarrow> view s' = view s \<Longrightarrow> E e s'"
  shows "wp (check_ports P seen ps) Q E s"
  using assms
proof (induction ps arbitrary: seen s)
  case Nil
  then show ?case by (auto intro: wp_ret)
next
  case (Cons p ps)
  note hyps = Cons.prems(2) [simplified] and err = Cons.prems(3)
  show ?case
    unfolding check_ports.simps
    apply (intro wp_intro wp_exists Cons.IH Cons.prems(1))
    using Cons.prems(1) hyps err by auto
qed

lemma wp_check_table_input:
  assumes "ok s"
    and "\<And>s'. ok s' \<Longrightarrow> view s' = view s \<Longrightarrow> valid_table_input (view s) i \<Longrightarrow> Q () s'"
    and "\<And>e s'. ok s' \<Longrightarrow> view s' = view s \<Longrightarrow> E e s'"
  shows "wp (check_table_input P i) Q E s"
  unfolding check_table_input_def using assms
  by (intro wp_intro wp_check_ports) (auto simp: valid_table_input_def split: option.splits)

lemma update_table_wp:
  assumes "ok s"
  shows "wp (update_table P name i)
    (\<lambda>_ s'. ok s' \<and> m_kind (view s CONFIG_DB (''ACL_TABLE|'' @ name)) = ti_kind i \<and>
       valid_table_input (view s) i \<and>
       view s' = v_hdel CONFIG_DB (''ACL_TABLE|'' @ name) [''ports'']
         ((if ti_description i = None then v_hdel CONFIG_DB (''ACL_TABLE|'' @ name) [''policy_desc''] else id)
         (v_hset CONFIG_DB (''ACL_TABLE|'' @ name) (table_fields i (join '','' (ti_ports i))) (view s))))
    (\<lambda>e s'. ok s' \<and> view s' = view s) s"
  unfolding update_table_def using assms
  by (intro wp_intro wp_managed_table wp_check_table_input wp_apply_batch bp_intros wp_b_hset wp_b_hdel)
    (auto simp: new_batch_def table_kind_map)

lemma create_table_wp:
  assumes "ok s"
  shows "wp (create_table P c)
    (\<lambda>_ s'. ok s' \<and> valid_table_name (tc_name c) \<and> view s CONFIG_DB (''ACL_TABLE|'' @ tc_name c) = Map.empty \<and>
       valid_table_input (view s) (tc_input c) \<and>
       view s' = v_hset CONFIG_DB (''ACL_TABLE|'' @ tc_name c)
         (table_fields (tc_input c) (join '','' (ti_ports (tc_input c)))) (view s))
    (\<lambda>e s'. ok s' \<and> view s' = view s) s"
  unfolding create_table_def using assms
  by (intro wp_intro wp_exists wp_check_table_input wp_hset) simp_all

lemma delete_table_wp:
  assumes "ok s" "CHR ''*'' \<notin> set name" "plain_glob name"
  shows "wp (delete_table P name)
    (\<lambda>_ s'. ok s' \<and> m_kind (view s CONFIG_DB (''ACL_TABLE|'' @ name)) \<in> set MANAGED_TYPES \<and>
       view s' = v_drop CONFIG_DB (\<lambda>k. k = ''ACL_TABLE|'' @ name \<or> rule_rows name k) (view s))
    (\<lambda>e s'. ok s' \<and> (\<exists>q. (\<forall>k. q k \<longrightarrow> rule_rows name k) \<and> view s' = v_drop CONFIG_DB q (view s))) s"
proof -
  have pats: "[''ACL_RULE|'' @ name @ ''|*'', DESC_TABLE @ ''|'' @ name @ ''|*''] =
     [(''ACL_RULE|'' @ name @ ''|'') @ ''*'', (DESC_TABLE @ ''|'' @ name @ ''|'') @ ''*'']" by simp
  have d: "CHR ''*'' \<notin> set DESC_TABLE" "plain_glob DESC_TABLE" by (simp_all add: DESC_TABLE_def)
  have drop: "v_drop CONFIG_DB q (view s) = v_drop CONFIG_DB q' (view s)" if "\<And>k. q k = q' k" for q q'
    using that by presburger
  have ex: "\<exists>q. (\<forall>k. q k \<longrightarrow> rule_rows name k) \<and> v = v_drop CONFIG_DB q (view s)"
    if "v = v_drop CONFIG_DB q (view s)" "\<And>k. q k \<Longrightarrow> rule_rows name k" for q v
    using that by blast
  have id: "view s = v_drop CONFIG_DB (\<lambda>_. False) (view s)" by simp
  show ?thesis
    unfolding delete_table_def pats for_each.simps bnd_ret_right
    apply (intro wp_intro wp_managed_table wp_delete_matching wp_del)
    using assms d
             apply (simp_all add: table_kind_map v_del_drop)
        apply (rule drop; auto simp: rule_rows_def)
       apply (rule ex, rule refl, auto simp: rule_rows_def) []
      apply (rule ex, rule refl, auto simp: rule_rows_def) []
     apply (rule ex, rule refl, auto simp: rule_rows_def) []
    apply (rule ex, rule id, simp)
    done
qed
text \<open>Every operation on an existing table first refuses tables of other types.\<close>

lemma wp_unmanaged:
  assumes "ok s" "m_kind (view s CONFIG_DB (''ACL_TABLE|'' @ name)) \<notin> set MANAGED_TYPES"
  shows "wp (bnd (managed_table P name) f) (\<lambda>_ _. False) (\<lambda>e s'. ok s' \<and> view s' = view s) s"
  using assms by (intro wp_bnd wp_managed_table) (auto simp: table_kind_map)

lemma reads_check_ports: "reads (check_ports P seen ps)"
  by (induction ps arbitrary: seen) (auto intro!: pure_io)

lemma reads_acl_tables: "reads (acl_tables P m ks)"
  by (induction ks arbitrary: m) (auto intro!: pure_io simp: rule_desc_def)

lemma reads_acl_get: "reads (acl_get P)"
  unfolding acl_get_def rule_entry_def by (intro pure_io reads_acl_tables)

end

end
