(* ===== verification/MemPlatform.thy ===== *)
theory MemPlatform
  imports Probe
begin

text \<open>
  The in-memory platform of the test suite, module \<open>mem\<close> of
  \<^verbatim>\<open>src/src/sonic/store.rs\<close>: seeded redis content, canned command output and files, an
  ordered log of every mutation, and the injection of one write failure.

  It is the executable instance of the platform contract: the interpretation at the end shows
  that it satisfies every law of \<open>live_store\<close>, so each theorem proved against the
  contract applies to it, and witnesses run on it.

  \<open>BTreeMap\<close> is an association list whose iteration (in \<open>scan\<close>) is in key order.
\<close>

section \<open>State and operations\<close>

record mem =
  m_dbs :: "int \<Rightarrow> (string \<times> row) list"
  m_files :: "(string \<times> string) list"
  m_outputs :: "(string list \<times> cmd_output) list"
  m_log :: "string list"
  m_stdins :: "string list"
  m_fail_at :: "nat option"
  m_writes :: nat

definition mem_new :: mem where
  "mem_new = \<lparr>m_dbs = (\<lambda>_. []), m_files = [], m_outputs = [], m_log = [], m_stdins = [],
              m_fail_at = None, m_writes = 0\<rparr>"

definition table_row :: "(string \<times> row) list \<Rightarrow> string \<Rightarrow> row" where
  "table_row t key = (case map_of t key of None \<Rightarrow> [] | Some r \<Rightarrow> r)"

definition mem_row :: "mem \<Rightarrow> int \<Rightarrow> string \<Rightarrow> row" where
  "mem_row m db key = table_row (m_dbs m db) key"

definition mem_has_key :: "mem \<Rightarrow> int \<Rightarrow> string \<Rightarrow> bool" where
  "mem_has_key m db key \<longleftrightarrow> map_of (m_dbs m db) key \<noteq> None"

definition mem_seed :: "int \<Rightarrow> string \<Rightarrow> row \<Rightarrow> mem \<Rightarrow> mem" where
  "mem_seed db key fs m =
     m\<lparr>m_dbs := (m_dbs m)(db := al_put key (al_puts fs (mem_row m db key)) (m_dbs m db))\<rparr>"

definition mem_seed_file :: "string \<Rightarrow> string \<Rightarrow> mem \<Rightarrow> mem" where
  "mem_seed_file path content m = m\<lparr>m_files := al_put path content (m_files m)\<rparr>"

definition mem_on_cmd :: "string list \<Rightarrow> cmd_output \<Rightarrow> mem \<Rightarrow> mem" where
  "mem_on_cmd prefix out m = m\<lparr>m_outputs := m_outputs m @ [(prefix, out)]\<rparr>"

definition mem_logs :: "string list \<Rightarrow> mem \<Rightarrow> mem" where
  "mem_logs ls m = m\<lparr>m_log := m_log m @ ls\<rparr>"

text \<open>Count the mutation; fail exactly the one the test asked for.\<close>

definition write_gate :: "(mem, string, unit) io" where
  "write_gate = (\<lambda>m. let m' = m\<lparr>m_writes := m_writes m + 1\<rparr>
     in if m_fail_at m' = Some (m_writes m') then (Inl ''injected write failure'', m')
        else (Inr (), m'))"

definition mem_upd :: "(mem \<Rightarrow> mem) \<Rightarrow> (mem, string, unit) io" where
  "mem_upd f = (\<lambda>m. (Inr (), f m))"

definition mem_hgetall :: "int \<Rightarrow> string \<Rightarrow> (mem, string, row) io" where
  "mem_hgetall db key = (\<lambda>m. (Inr (mem_row m db key), m))"

definition mem_scan :: "int \<Rightarrow> string \<Rightarrow> (mem, string, string list) io" where
  "mem_scan db pattern = (\<lambda>m. (Inr (filter (glob_match pattern) (sort (map fst (m_dbs m db)))), m))"

definition mem_hset :: "int \<Rightarrow> string \<Rightarrow> row \<Rightarrow> (mem, string, unit) io" where
  "mem_hset db key fs =
     (if fs = [] then ret ()
      else bnd write_gate (\<lambda>_. mem_upd (\<lambda>m.
        mem_seed db key fs
          (mem_logs (map (\<lambda>(f, v). ''HSET '' @ show_int db @ '' '' @ key @ '' '' @ f @ ''='' @ v) fs) m))))"

definition mem_remove_fields :: "int \<Rightarrow> string \<Rightarrow> string list \<Rightarrow> mem \<Rightarrow> mem" where
  "mem_remove_fields db key ks m =
     (case map_of (m_dbs m db) key of
        None \<Rightarrow> m
      | Some r \<Rightarrow>
          (let r' = al_dels ks r
           in if r' = [] then m\<lparr>m_dbs := (m_dbs m)(db := al_del key (m_dbs m db))\<rparr>
              else m\<lparr>m_dbs := (m_dbs m)(db := al_put key r' (m_dbs m db))\<rparr>))"

definition mem_hdel :: "int \<Rightarrow> string \<Rightarrow> string list \<Rightarrow> (mem, string, unit) io" where
  "mem_hdel db key ks =
     (if ks = [] then ret ()
      else bnd write_gate (\<lambda>_. mem_upd (\<lambda>m.
        mem_remove_fields db key ks
          (mem_logs (map (\<lambda>f. ''HDEL '' @ show_int db @ '' '' @ key @ '' '' @ f) ks) m))))"

definition mem_del :: "int \<Rightarrow> string \<Rightarrow> (mem, string, unit) io" where
  "mem_del db key =
     bnd write_gate (\<lambda>_. mem_upd (\<lambda>m.
       (mem_logs [''DEL '' @ show_int db @ '' '' @ key] m)
         \<lparr>m_dbs := (m_dbs m)(db := al_del key (m_dbs m db))\<rparr>))"

definition mem_exists :: "int \<Rightarrow> string \<Rightarrow> (mem, string, bool) io" where
  "mem_exists db key = (\<lambda>m. (Inr (mem_has_key m db key), m))"

definition ok_output :: cmd_output where
  "ok_output = \<lparr>co_ok = True, co_stdout = [], co_stderr = []\<rparr>"

text \<open>The first canned output whose prefix matches; unmatched commands succeed silently.\<close>

fun canned :: "(string list \<times> cmd_output) list \<Rightarrow> string list \<Rightarrow> cmd_output" where
  "canned [] full = ok_output"
| "canned ((prefix, out) # rest) full =
     (if length prefix \<le> length full \<and> take (length prefix) full = prefix then out
      else canned rest full)"

definition mem_run :: "string \<Rightarrow> string list \<Rightarrow> (mem, string, cmd_output) io" where
  "mem_run program args = (\<lambda>m.
     let full = program # args; m' = mem_logs [''RUN '' @ join '' '' full] m
     in (Inr (canned (m_outputs m') full), m'))"

definition mem_run_input :: "string \<Rightarrow> string list \<Rightarrow> string \<Rightarrow> (mem, string, cmd_output) io" where
  "mem_run_input program args input = (\<lambda>m.
     let full = program # args;
         m' = mem_logs [''RUN-INPUT '' @ join '' '' full] (m\<lparr>m_stdins := m_stdins m @ [input]\<rparr>)
     in (Inr (canned (m_outputs m') full), m'))"

definition mem_spawn :: "string \<Rightarrow> string list \<Rightarrow> (mem, string, unit) io" where
  "mem_spawn program args = mem_upd (mem_logs [''SPAWN '' @ program @ '' '' @ join '' '' args])"

definition mem_read_file :: "string \<Rightarrow> mem \<Rightarrow> string option \<times> mem" where
  "mem_read_file path m = (map_of (m_files m) path, m)"

definition mem_write_file :: "string \<Rightarrow> string \<Rightarrow> (mem, string, unit) io" where
  "mem_write_file path content =
     mem_upd (\<lambda>m. mem_seed_file path content (mem_logs [''WRITE-FILE '' @ path] m))"

definition mem_platform :: "mem platform" where
  "mem_platform = \<lparr>hgetall = mem_hgetall, scan = mem_scan, hset = mem_hset, hdel = mem_hdel,
     del = mem_del, exists = mem_exists, run_cmd = mem_run, run_input = mem_run_input,
     spawn = mem_spawn, read_file = mem_read_file, write_file = mem_write_file\<rparr>"

lemma mem_platform_sel [simp]:
  "hgetall mem_platform = mem_hgetall" "scan mem_platform = mem_scan"
  "hset mem_platform = mem_hset" "hdel mem_platform = mem_hdel" "del mem_platform = mem_del"
  "exists mem_platform = mem_exists" "run_cmd mem_platform = mem_run"
  "run_input mem_platform = mem_run_input" "spawn mem_platform = mem_spawn"
  "read_file mem_platform = mem_read_file" "write_file mem_platform = mem_write_file"
  by (simp_all add: mem_platform_def)

section \<open>The view and the invariant\<close>

definition mem_view :: "mem \<Rightarrow> dbs" where
  "mem_view m db key = map_of (mem_row m db key)"

definition table_ok :: "(string \<times> row) list \<Rightarrow> bool" where
  "table_ok t \<longleftrightarrow> distinct (map fst t) \<and> list_all (\<lambda>(k, r). r \<noteq> [] \<and> distinct (map fst r)) t"

definition mem_ok :: "mem \<Rightarrow> bool" where
  "mem_ok m \<longleftrightarrow> (\<forall>db. table_ok (m_dbs m db))"

text \<open>No injected failure is left ahead.\<close>

definition mem_up :: "mem \<Rightarrow> bool" where
  "mem_up m \<longleftrightarrow> (case m_fail_at m of None \<Rightarrow> True | Some n \<Rightarrow> n \<le> m_writes m)"

lemma mem_ok_new [simp]: "mem_ok mem_new"
  by (simp add: mem_ok_def mem_new_def table_ok_def)

lemma table_ok_row:
  "table_ok t \<Longrightarrow> map_of t k = Some r \<Longrightarrow> r \<noteq> [] \<and> distinct (map fst r)"
  by (auto simp: table_ok_def list_all_iff dest!: map_of_SomeD)

lemma table_ok_distinct_row: "table_ok t \<Longrightarrow> distinct (map fst (table_row t k))"
  by (auto simp: table_row_def dest: table_ok_row split: option.splits)

lemma set_al_put: "set (al_put k v xs) \<subseteq> insert (k, v) (set xs)"
  by (induction k v xs rule: al_put.induct) auto

lemma table_ok_put: "table_ok t \<Longrightarrow> r \<noteq> [] \<Longrightarrow> distinct (map fst r) \<Longrightarrow> table_ok (al_put k r t)"
  using set_al_put [of k r t] by (auto simp: table_ok_def list_all_iff)

lemma table_ok_del: "table_ok t \<Longrightarrow> table_ok (al_del k t)"
  by (auto simp: table_ok_def list_all_iff al_del_def distinct_map inj_on_def)

lemma table_row_put [simp]: "table_row (al_put k r t) k' = (if k' = k then r else table_row t k')"
  by (simp add: table_row_def)

lemma table_row_del [simp]: "table_row (al_del k t) k' = (if k' = k then [] else table_row t k')"
  by (simp add: table_row_def)

lemma table_row_nonempty:
  assumes "table_ok t"
  shows "table_row t k \<noteq> [] \<longleftrightarrow> k \<in> fst ` set t"
proof (cases "map_of t k")
  case None
  moreover from None have "k \<notin> fst ` set t" by (simp add: map_of_eq_None_iff)
  ultimately show ?thesis by (simp add: table_row_def)
next
  case (Some r)
  with assms have "r \<noteq> []" by (blast dest: table_ok_row)
  moreover from Some have "k \<in> fst ` set t" by (metis map_of_eq_None_iff option.distinct(1))
  ultimately show ?thesis using Some by (simp add: table_row_def)
qed

lemma mem_logs_sel [simp]:
  "m_dbs (mem_logs ls m) = m_dbs m" "m_fail_at (mem_logs ls m) = m_fail_at m"
  "m_writes (mem_logs ls m) = m_writes m"
  by (simp_all add: mem_logs_def)

lemma mem_seed_sel [simp]:
  "m_fail_at (mem_seed db k fs m) = m_fail_at m" "m_writes (mem_seed db k fs m) = m_writes m"
  by (simp_all add: mem_seed_def)

lemma mem_remove_sel [simp]:
  "m_fail_at (mem_remove_fields db k ks m) = m_fail_at m"
  "m_writes (mem_remove_fields db k ks m) = m_writes m"
  by (auto simp: mem_remove_fields_def Let_def split: option.splits)

lemma mem_ok_upd: "mem_ok m \<Longrightarrow> m_dbs m' = (m_dbs m)(db := t) \<Longrightarrow> table_ok t \<Longrightarrow> mem_ok m'"
  by (simp add: mem_ok_def)

lemma mem_view_upd:
  "m_dbs m' = (m_dbs m)(db := t) \<Longrightarrow>
   mem_view m' = (mem_view m)(db := (\<lambda>k. map_of (table_row t k)))"
  by (rule ext) (simp add: mem_view_def mem_row_def fun_eq_iff)

text \<open>Seeding a row is an \<open>HSET\<close>.\<close>

lemma mem_seed_ok: "mem_ok m \<Longrightarrow> fs \<noteq> [] \<Longrightarrow> mem_ok (mem_seed db k fs m)"
  by (rule mem_ok_upd [where db = db and m = m])
    (auto simp: mem_seed_def mem_ok_def mem_row_def al_puts_nonempty table_ok_distinct_row
      intro!: table_ok_put)

lemma mem_seed_view: "mem_view (mem_seed db k fs m) = v_hset db k fs (mem_view m)"
  by (subst mem_view_upd [where m = m and db = db
        and t = "al_put k (al_puts fs (mem_row m db k)) (m_dbs m db)"])
    (auto simp: mem_seed_def v_hset_def mem_view_def mem_row_def fun_eq_iff map_of_al_puts)

lemma mem_remove_ok: "mem_ok m \<Longrightarrow> mem_ok (mem_remove_fields db k ks m)"
  by (auto simp: mem_remove_fields_def Let_def mem_ok_def split: option.splits
      intro!: table_ok_put table_ok_del dest: table_ok_row)

lemma mem_remove_view: "mem_view (mem_remove_fields db k ks m) = v_hdel db k ks (mem_view m)"
proof (cases "map_of (m_dbs m db) k")
  case None
  then have "mem_view m db k = Map.empty"
    by (simp add: mem_view_def mem_row_def table_row_def)
  with None show ?thesis
    by (auto simp: mem_remove_fields_def v_hdel_def fun_eq_iff restrict_map_def)
next
  case (Some r)
  then have r: "mem_row m db k = r" by (simp add: mem_row_def table_row_def)
  have e: "al_dels ks r = [] \<Longrightarrow> map_of r |` (- set ks) = Map.empty"
    by (metis map_of_al_dels map_of.simps(1))
  show ?thesis
    by (cases "al_dels ks r = []"; rule ext; rule ext)
      (use Some r e in \<open>auto simp: mem_remove_fields_def v_hdel_def mem_view_def mem_row_def map_of_al_dels\<close>)
qed

lemma v_hset_Nil [simp]: "v_hset db k [] v = v"
  by (simp add: v_hset_def)

lemma v_hdel_Nil [simp]: "v_hdel db k [] v = v"
  by (auto simp: v_hdel_def fun_eq_iff restrict_map_def)

lemma mem_del_ok:
  "mem_ok m \<Longrightarrow> m_dbs m' = m_dbs m \<Longrightarrow> mem_ok (m'\<lparr>m_dbs := (m_dbs m)(db := al_del k (m_dbs m db))\<rparr>)"
  by (auto simp: mem_ok_def intro: table_ok_del)

lemma mem_del_view:
  "mem_view (m'\<lparr>m_dbs := (m_dbs m)(db := al_del k (m_dbs m db))\<rparr>) = v_del db k (mem_view m)"
  by (auto simp: mem_view_def mem_row_def v_del_def fun_eq_iff)

lemma mem_view_nonempty: "mem_ok m \<Longrightarrow> mem_view m db k \<noteq> Map.empty \<longleftrightarrow> k \<in> fst ` set (m_dbs m db)"
  by (simp add: mem_view_def mem_row_def mem_ok_def table_row_nonempty)

lemma mem_logs_view [simp]: "mem_view (mem_logs ls m) = mem_view m" "mem_ok (mem_logs ls m) = mem_ok m"
  by (simp_all add: mem_view_def [abs_def] mem_row_def mem_ok_def)

lemma mem_up_mono: "mem_up m \<Longrightarrow> m_fail_at m' = m_fail_at m \<Longrightarrow> m_writes m \<le> m_writes m' \<Longrightarrow> mem_up m'"
  by (auto simp: mem_up_def split: option.splits)

section \<open>The platform contract holds\<close>

lemma write_gate_cases:
  "write_gate m = (r, m') \<Longrightarrow>
   m' = m\<lparr>m_writes := Suc (m_writes m)\<rparr> \<and>
   (r = Inr () \<and> m_fail_at m \<noteq> Some (Suc (m_writes m)) \<or>
    r = Inl ''injected write failure'' \<and> m_fail_at m = Some (Suc (m_writes m)))"
  by (auto simp: write_gate_def Let_def split: if_splits)

lemma writes_sel [simp]:
  "mem_view (m\<lparr>m_writes := n\<rparr>) = mem_view m" "mem_ok (m\<lparr>m_writes := n\<rparr>) = mem_ok m"
  by (simp_all add: mem_view_def [abs_def] mem_row_def mem_ok_def)

text \<open>
  A gated write: it has its effect or it fails, and then the gate is open for good.
\<close>

lemma gated_ok: "bnd write_gate (\<lambda>_. mem_upd f) m = (Inr u, m') \<Longrightarrow>
    m' = f (m\<lparr>m_writes := Suc (m_writes m)\<rparr>)"
  by (auto simp: bnd_def mem_upd_def dest: write_gate_cases split: prod.splits sum.splits)

lemma gated_err: "bnd write_gate (\<lambda>_. mem_upd f) m = (Inl e, m') \<Longrightarrow>
    m' = m\<lparr>m_writes := Suc (m_writes m)\<rparr> \<and> mem_up m'"
  by (auto simp: bnd_def mem_upd_def mem_up_def dest!: write_gate_cases split: prod.splits sum.splits)

lemma gated_up: "mem_up m \<Longrightarrow>
    bnd write_gate (\<lambda>_. mem_upd f) m = (Inr (), f (m\<lparr>m_writes := Suc (m_writes m)\<rparr>))"
  by (auto simp: bnd_def mem_upd_def mem_up_def write_gate_def Let_def split: option.splits)

interpretation mem: live_store mem_platform mem_view mem_ok mem_up
proof
  fix s s' :: mem and db key fs ks r b pat e and u :: unit
  assume ok: "mem_ok s"
  show "hset mem_platform db key fs s = (Inr u, s') \<Longrightarrow>
      mem_ok s' \<and> mem_view s' = v_hset db key fs (mem_view s)"
    using ok by (auto simp: mem_hset_def ret_def v_hset_Nil mem_seed_view mem_seed_ok
        split: if_splits dest!: gated_ok)
  show "hset mem_platform db key fs s = (Inl e, s') \<Longrightarrow> mem_ok s' \<and> mem_view s' = mem_view s"
    using ok by (auto simp: mem_hset_def ret_def split: if_splits dest!: gated_err)
  show "hdel mem_platform db key ks s = (Inr u, s') \<Longrightarrow>
      mem_ok s' \<and> mem_view s' = v_hdel db key ks (mem_view s)"
    using ok by (auto simp: mem_hdel_def ret_def v_hdel_Nil mem_remove_view mem_remove_ok
        split: if_splits dest!: gated_ok)
  show "hdel mem_platform db key ks s = (Inl e, s') \<Longrightarrow> mem_ok s' \<and> mem_view s' = mem_view s"
    using ok by (auto simp: mem_hdel_def ret_def split: if_splits dest!: gated_err)
  show "del mem_platform db key s = (Inr u, s') \<Longrightarrow>
      mem_ok s' \<and> mem_view s' = v_del db key (mem_view s)"
    using ok by (auto simp: mem_del_def dest!: gated_ok intro: mem_del_ok mem_del_view)
  show "del mem_platform db key s = (Inl e, s') \<Longrightarrow> mem_ok s' \<and> mem_view s' = mem_view s"
    using ok by (auto simp: mem_del_def dest!: gated_err)
  show "hgetall mem_platform db key s = (Inr r, s') \<Longrightarrow>
      mem_ok s' \<and> mem_view s' = mem_view s \<and> map_of r = mem_view s db key \<and> distinct (map fst r)"
    using ok by (auto simp: mem_hgetall_def mem_view_def mem_row_def mem_ok_def table_ok_distinct_row)
  show "exists mem_platform db key s = (Inr b, s') \<Longrightarrow>
      mem_ok s' \<and> mem_view s' = mem_view s \<and> b = (mem_view s db key \<noteq> Map.empty)"
    using ok by (auto simp: mem_exists_def mem_has_key_def mem_view_nonempty map_of_eq_None_iff)
  show "scan mem_platform db pat s = (Inr ks, s') \<Longrightarrow> mem_ok s' \<and> mem_view s' = mem_view s \<and>
      (plain_glob pat \<longrightarrow> set ks = {k. mem_view s db k \<noteq> Map.empty \<and> glob_match pat k})"
    using ok by (auto simp: mem_scan_def mem_view_nonempty) (force simp: image_iff)+
  show "hset mem_platform db key fs s = (Inl e, s') \<Longrightarrow> mem_up s'"
    by (auto simp: mem_hset_def ret_def split: if_splits dest!: gated_err)
  show "hdel mem_platform db key ks s = (Inl e, s') \<Longrightarrow> mem_up s'"
    by (auto simp: mem_hdel_def ret_def split: if_splits dest!: gated_err)
  show "del mem_platform db key s = (Inl e, s') \<Longrightarrow> mem_up s'"
    by (auto simp: mem_del_def dest!: gated_err)
  show "mem_up s \<Longrightarrow> \<exists>s'. hset mem_platform db key fs s = (Inr (), s') \<and> mem_up s'"
    by (auto simp: mem_hset_def ret_def gated_up mem_up_mono)
  show "mem_up s \<Longrightarrow> \<exists>s'. del mem_platform db key s = (Inr (), s') \<and> mem_up s'"
    by (auto simp: mem_del_def gated_up mem_up_mono)
qed (auto simp: mem_hgetall_def mem_exists_def mem_scan_def)

lemma mem_view_new [simp]: "mem_view mem_new = (\<lambda>_ _. Map.empty)"
  by (simp add: mem_view_def mem_new_def mem_row_def table_row_def fun_eq_iff)

interpretation mem_query: query_store mem_platform mem_view mem_ok mem_up
  by unfold_locales (auto simp: mem_run_def mem_read_file_def Let_def)

interpretation mem_readable: readable_store mem_platform mem_view mem_ok mem_up
  by unfold_locales (simp add: mem_scan_def)

interpretation mem_full: full_store mem_platform mem_view mem_ok mem_up
  unfolding full_store_def by (simp add: mem_query.query_store_axioms mem_readable.readable_store_axioms)

section \<open>Running handlers\<close>

lemmas batch_run [run] = apply_batch_def new_batch_def on_plat_def b_hset_def b_hdel_def b_del_def
  b_snapshot_def snapped_def add_snap_def rollback_def restore_row_def row_of_def keys_of_def field_def
  key_suffix_def two_parts_def three_parts_def

lemmas mem_run_defs [run] = mem_new_def mem_seed_def mem_row_def table_row_def mem_logs_def write_gate_def
  mem_upd_def mem_hgetall_def mem_scan_def mem_hset_def mem_hdel_def mem_del_def mem_exists_def
  mem_has_key_def mem_remove_fields_def al_del_def APPL_DB_def CONFIG_DB_def STATE_DB_def COUNTERS_DB_def

end
