(* ===== verification/AclProps.thy ===== *)
theory AclProps
  imports Acl MemPlatform
begin

text \<open>
  The properties of the ACL handlers and of the rule compiler, each for every platform that keeps
  the store contract, with a run on the in-memory platform as the instance.
\<close>

text \<open>A table with one rule, and a rule to put in its place.\<close>

definition demo_acl :: mem where
  "demo_acl = mem_seed CONFIG_DB ''ACL_TABLE|T'' [(''type'', ''L3''), (''stage'', ''ingress'')]
     (mem_seed CONFIG_DB ''ACL_RULE|T|RULE_10'' [(''PRIORITY'', ''10''), (''L4_DST_PORT'', ''22'')] mem_new)"

definition demo_rule :: rule_input where
  "demo_rule = \<lparr>ri_action = ''drop'', ri_description = Some ''no telnet'', ri_src = Some ''10.0.0.0/8'',
     ri_dst = None, ri_protocol = Some ''tcp'', ri_src_port = None, ri_dst_port = Some ''20-23''\<rparr>"

lemma demo_fields: "rule_fields ''L3'' 10 demo_rule = Inr [(''PRIORITY'', ''10''),
  (''PACKET_ACTION'', ''DROP''), (''SRC_IP'', ''10.0.0.0/8''), (''IP_PROTOCOL'', ''6''), (''L4_DST_PORT_RANGE'', ''20-23'')]"
  by (simp add: rule_fields_def demo_rule_def action_field_def addr_fields_def addr_field_def
      check_match_addr_def ip_run protocol_field_def protocol_number_def l4_field_def port_field_def run)

lemma demo_acl_ok: "mem_ok demo_acl"
  by (simp add: demo_acl_def mem_seed_ok)

lemma demo_put_rule: "\<exists>s'. put_rule mem_platform ''T'' 10 demo_rule demo_acl = (Inr (), s')"
proof -
  have d: "ri_description demo_rule = Some ''no telnet''" by (simp add: demo_rule_def)
  show ?thesis
    by (simp add: put_rule_def check_priority_def managed_table_def demo_acl_def table_kind_def
        MANAGED_TYPES_def rule_key_def desc_key_def DESC_TABLE_def demo_fields d bad_description_def run)
qed

text \<open>
  C6. Putting an ACL rule. On success the stored hash of the rule is exactly the compiled row (no field of an earlier rule with
  that priority survives), the description row holds the description and is gone without one, and nothing else changes. A refused
  rule changes nothing. A failed redis command changes nothing either where every command after it succeeds; otherwise no more is
  promised, as the rollback is best-effort.
\<close>

theorem acl_put_rule_spec:
  assumes "redis_store P view ok" and "ok s" and "put_rule P tbl p i s = (r, s')"
  shows "ok s' \<and> (case r of
      Inl e \<Rightarrow> (\<forall>x. e \<noteq> Redis x) \<or> (\<exists>up. one_fault_store P view ok up) \<longrightarrow> view s' = view s
    | Inr _ \<Rightarrow> (\<exists>fs. rule_fields (m_kind (view s CONFIG_DB (''ACL_TABLE|'' @ tbl))) p i = Inr fs \<and>
        m_kind (view s CONFIG_DB (''ACL_TABLE|'' @ tbl)) \<in> set MANAGED_TYPES \<and> 1 \<le> p \<and> p \<le> 65535 \<and>
        view s' CONFIG_DB (rule_key tbl p) = map_of fs \<and>
        view s' CONFIG_DB (desc_key tbl p) ''description'' = ri_description i \<and>
        (\<forall>d k. (d, k) \<notin> {(CONFIG_DB, rule_key tbl p), (CONFIG_DB, desc_key tbl p)} \<longrightarrow> view s' d k = view s d k)))"
proof -
  note res = wp_result [OF redis_store.put_rule_wp [OF assms(1,2), of tbl p i] assms(3)]
  show ?thesis
  proof (cases r)
    case (Inl e)
    with res show ?thesis by (auto simp: redis_store.failed_clean_def [OF assms(1)])
  next
    case (Inr u)
    with res obtain fs where fs: "rule_fields (m_kind (view s CONFIG_DB (''ACL_TABLE|'' @ tbl))) p i = Inr fs"
      and v: "view s' = (case ri_description i of
             Some d \<Rightarrow> v_hset CONFIG_DB (desc_key tbl p) [(''description'', d)]
           | None \<Rightarrow> v_del CONFIG_DB (desc_key tbl p))
           (v_hset CONFIG_DB (rule_key tbl p) fs (v_del CONFIG_DB (rule_key tbl p) (view s)))"
      by (auto simp: Let_def)
    have "view s' CONFIG_DB (rule_key tbl p) = map_of fs"
      using map_of_rev_distinct [OF rule_fields_distinct [OF fs]] by (simp add: v split: option.split)
    moreover have "view s' CONFIG_DB (desc_key tbl p) ''description'' = ri_description i"
      by (simp add: v split: option.split)
    moreover have "view s' d k = view s d k"
      if "(d, k) \<notin> {(CONFIG_DB, rule_key tbl p), (CONFIG_DB, desc_key tbl p)}" for d k
      using that by (auto simp: v split: option.split)
    ultimately show ?thesis using Inr res fs by (auto simp: Let_def)
  qed
qed

theorem acl_put_rule_spec_witness:
  "\<exists>s' fs. put_rule mem_platform ''T'' 10 demo_rule demo_acl = (Inr (), s') \<and>
     rule_fields (m_kind (mem_view demo_acl CONFIG_DB (''ACL_TABLE|'' @ ''T''))) 10 demo_rule = Inr fs \<and>
     mem_view s' CONFIG_DB (rule_key ''T'' 10) = map_of fs \<and>
     mem_view s' CONFIG_DB (desc_key ''T'' 10) ''description'' = Some ''no telnet''"
proof -
  obtain s' where exec: "put_rule mem_platform ''T'' 10 demo_rule demo_acl = (Inr (), s')"
    using demo_put_rule by blast
  have d: "ri_description demo_rule = Some ''no telnet''" by (simp add: demo_rule_def)
  from acl_put_rule_spec [OF mem.redis_store_axioms demo_acl_ok exec] exec d
  show ?thesis by auto
qed

text \<open>
  C12. A rule that was put reads back as a rule that means the same. The document built from the
  stored row, in whatever order the fields are listed, is the document of a rule input that
  compiles to the very same row; action, addresses and description are the ones put, protocol
  and ports are in normal form.
\<close>

theorem acl_rule_readback:
  assumes "one_fault_store P view ok up" "ok s" and "put_rule P tbl p i s = (Inr u, s')"
    and "hgetall P CONFIG_DB (rule_key tbl p) s' = (Inr r, s'')"
    and "kind = m_kind (view s CONFIG_DB (''ACL_TABLE|'' @ tbl))"
  shows "\<exists>j. rule_doc kind p r (ri_description i) = input_doc p j \<and>
    rule_fields kind p j = rule_fields kind p i \<and>
    ri_action j = ri_action i \<and> ri_src j = ri_src i \<and> ri_dst j = ri_dst i \<and> ri_description j = ri_description i"
proof -
  note st = one_fault_store.axioms(1) [OF assms(1)]
  from wp_okD [OF redis_store.put_rule_wp [OF st assms(2)] assms(3)] assms(5) obtain fs where
    s': "ok s'" and fs: "rule_fields kind p i = Inr fs"
    and v: "view s' CONFIG_DB (rule_key tbl p) = map_of (rev fs)"
    by (auto simp: Let_def split: option.splits)
  have "map_of r = map_of fs"
    using redis_store.hgetall_ok [OF st s' assms(4)] v map_of_rev_distinct [OF rule_fields_distinct [OF fs]] by simp
  from rule_doc_input [OF fs this] fs show ?thesis by simp
qed

theorem acl_rule_readback_witness:
  "\<exists>s' r s'' j. put_rule mem_platform ''T'' 10 demo_rule demo_acl = (Inr (), s') \<and>
     hgetall mem_platform CONFIG_DB (rule_key ''T'' 10) s' = (Inr r, s'') \<and>
     rule_doc ''L3'' 10 r (ri_description demo_rule) = input_doc 10 j \<and> rule_fields ''L3'' 10 j = rule_fields ''L3'' 10 demo_rule"
proof -
  obtain s' where exec: "put_rule mem_platform ''T'' 10 demo_rule demo_acl = (Inr (), s')"
    using demo_put_rule by blast
  have get: "hgetall mem_platform CONFIG_DB (rule_key ''T'' 10) s' = (Inr (mem_row s' CONFIG_DB (rule_key ''T'' 10)), s')"
    by (simp add: mem_hgetall_def)
  have "''L3'' = m_kind (mem_view demo_acl CONFIG_DB (''ACL_TABLE|'' @ ''T''))"
    by (simp add: demo_acl_def m_kind_def mfield_def mem_view_def map_add_def run)
  from acl_rule_readback [OF mem.one_fault_store_axioms, OF demo_acl_ok, OF exec, OF get, OF this] obtain j where
    "rule_doc ''L3'' 10 (mem_row s' CONFIG_DB (rule_key ''T'' 10)) (ri_description demo_rule) = input_doc 10 j"
    "rule_fields ''L3'' 10 j = rule_fields ''L3'' 10 demo_rule" by blast
  with exec get show ?thesis
    by (intro exI [of _ s'] exI [of _ "mem_row s' CONFIG_DB (rule_key ''T'' 10)"] exI [of _ j] conjI)
qed

text \<open>
  C13. The rule compiler only emits rows the hardware accepts: an L4 port match needs protocol TCP or
  UDP, a MAC table has no protocol and no port match, a port is below 65536 and a range is
  ascending, addresses are the ones given and were validated for the family of the table.
\<close>

theorem acl_rule_fields_sound:
  assumes "rule_fields kind p i = Inr fs"
  shows "(\<forall>f\<in>{''L4_SRC_PORT'', ''L4_DST_PORT'', ''L4_SRC_PORT_RANGE'', ''L4_DST_PORT_RANGE''}. map_of fs f \<noteq> None \<longrightarrow>
      map_of fs ''IP_PROTOCOL'' \<in> {Some ''6'', Some ''17''} \<and>
      ((\<exists>q<65536. map_of fs f = Some (show_nat q)) \<or>
       (\<exists>lo hi. lo < hi \<and> hi < 65536 \<and> map_of fs f = Some (show_nat lo @ ''-'' @ show_nat hi))))
    \<and> (kind = ''MAC'' \<longrightarrow> map_of fs ''IP_PROTOCOL'' = None)
    \<and> (\<forall>n. map_of fs ''IP_PROTOCOL'' = Some n \<longrightarrow> (\<exists>k\<le>255. n = show_nat k))
    \<and> map_of fs (fst (addr_fields kind)) = ri_src i \<and> addr_ok kind ''src'' (ri_src i)
    \<and> map_of fs (snd (addr_fields kind)) = ri_dst i \<and> addr_ok kind ''dst'' (ri_dst i)
    \<and> map_of fs ''PACKET_ACTION'' \<in> {Some ''FORWARD'', Some ''DROP''}"
proof -
  obtain act proto sp dp where fs: "fs = rule_row kind p act (ri_src i) (ri_dst i) proto sp dp"
    and act: "action_field (ri_action i) = Inr [(''PACKET_ACTION'', act)]"
    and addr: "addr_ok kind ''src'' (ri_src i)" "addr_ok kind ''dst'' (ri_dst i)"
    and proto: "protocol_field kind (ri_protocol i) = Inr proto"
    and sp: "l4_field (is_l4 proto) ''src_port'' ''L4_SRC_PORT'' (ri_src_port i) = Inr sp"
    and dp: "l4_field (is_l4 proto) ''dst_port'' ''L4_DST_PORT'' (ri_dst_port i) = Inr dp"
    using assms unfolding rule_fields_Inr by blast
  note map = rule_row_map [OF sp dp, where kind = kind and p = p and act = act and src = "ri_src i"
    and dst = "ri_dst i" and proto = proto, folded fs]
  have seg: "is_l4 proto \<and> ((\<exists>q<65536. map_of seg f = Some (show_nat q)) \<or>
       (\<exists>lo hi. lo < hi \<and> hi < 65536 \<and> map_of seg f = Some (show_nat lo @ ''-'' @ show_nat hi)))"
    if "l4_field (is_l4 proto) what base v = Inr seg" "map_of seg f \<noteq> None" for what base v seg f
    using that by (auto simp: l4_field_Inr split: if_splits dest!: port_field_Inr) blast+
  have "kind = ''MAC'' \<Longrightarrow> proto = None" "proto = Some n \<Longrightarrow> \<exists>k\<le>255. n = show_nat k" for n
    using proto by (auto simp: protocol_field_def split: option.splits if_splits dest: protocol_number_show)
  moreover have "act = ''FORWARD'' \<or> act = ''DROP''"
    using act by (auto simp: action_field_def split: if_splits)
  moreover have "map_of fs f \<noteq> None \<Longrightarrow> is_l4 proto \<and> ((\<exists>q<65536. map_of fs f = Some (show_nat q)) \<or>
       (\<exists>lo hi. lo < hi \<and> hi < 65536 \<and> map_of fs f = Some (show_nat lo @ ''-'' @ show_nat hi)))" (is "_ \<Longrightarrow> ?goal f")
    if "f \<in> {''L4_SRC_PORT'', ''L4_DST_PORT'', ''L4_SRC_PORT_RANGE'', ''L4_DST_PORT_RANGE''}" for f
  proof -
    have "map_of fs f = map_of sp f \<or> map_of fs f = map_of dp f"
      using that map(5,6) [of f] by blast
    then show "map_of fs f \<noteq> None \<Longrightarrow> ?goal f"
      using seg [OF sp, of f] seg [OF dp, of f] by metis
  qed
  ultimately show ?thesis using map(1-4) addr by (auto simp: is_l4_def)
qed

theorem acl_rule_fields_sound_witness:
  "rule_fields ''L3'' 10 demo_rule = Inr [(''PRIORITY'', ''10''), (''PACKET_ACTION'', ''DROP''), (''SRC_IP'', ''10.0.0.0/8''),
     (''IP_PROTOCOL'', ''6''), (''L4_DST_PORT_RANGE'', ''20-23'')] \<and> addr_ok ''L3'' ''src'' (Some ''10.0.0.0/8'')"
  using demo_fields acl_rule_fields_sound [OF demo_fields] by (simp add: demo_rule_def)

text \<open>A table of a type this interface does not own, for the witnesses.\<close>

definition demo_ctrl :: mem where
  "demo_ctrl = mem_seed CONFIG_DB ''ACL_TABLE|SSH_ONLY'' [(''type'', ''CTRLPLANE''), (''services'', ''SSH'')] mem_new"

lemma demo_ctrl_ok: "mem_ok demo_ctrl"
  by (simp add: demo_ctrl_def mem_seed_ok)

text \<open>
  C14. Tables of other types, such as the control-plane ones the system ships, cannot be changed: every
  operation on an existing table fails and leaves the databases as they are.
\<close>

theorem acl_unmanaged_protected:
  assumes "one_fault_store P view ok up" "ok s"
    and "m_kind (view s CONFIG_DB (''ACL_TABLE|'' @ name)) \<notin> set MANAGED_TYPES"
    and "op \<in> {update_table P name t, delete_table P name, put_rule P name p i, delete_rule P name p}"
    and "op s = (r, s')"
  shows "(\<exists>e. r = Inl e) \<and> ok s' \<and> view s' = view s"
proof -
  note un = one_fault_store.wp_unmanaged [OF assms(1), OF assms(2), OF assms(3)]
  have "wp (put_rule P name p i) (\<lambda>_ _. False) (\<lambda>e s'. ok s' \<and> view s' = view s) s"
    unfolding put_rule_def by (intro un wp_bnd wp_lift) (simp add: assms(2))
  moreover have "wp (update_table P name t) (\<lambda>_ _. False) (\<lambda>e s'. ok s' \<and> view s' = view s) s"
    unfolding update_table_def by (rule un)
  moreover have "wp (delete_table P name) (\<lambda>_ _. False) (\<lambda>e s'. ok s' \<and> view s' = view s) s"
    unfolding delete_table_def by (rule un)
  moreover have "wp (delete_rule P name p) (\<lambda>_ _. False) (\<lambda>e s'. ok s' \<and> view s' = view s) s"
    unfolding delete_rule_def by (rule un)
  ultimately have "wp op (\<lambda>_ _. False) (\<lambda>e s'. ok s' \<and> view s' = view s) s"
    using assms(4) by (elim insertE emptyE) (simp_all only:)
  from wp_result [OF this assms(5)] show ?thesis by (cases r) auto
qed

theorem acl_unmanaged_protected_witness:
  "\<exists>e s'. delete_table mem_platform ''SSH_ONLY'' demo_ctrl = (Inl e, s') \<and> mem_view s' = mem_view demo_ctrl"
proof -
  obtain r s' where exec: "delete_table mem_platform ''SSH_ONLY'' demo_ctrl = (r, s')" by fastforce
  have "m_kind (mem_view demo_ctrl CONFIG_DB (''ACL_TABLE|'' @ ''SSH_ONLY'')) \<notin> set MANAGED_TYPES"
    by (simp add: demo_ctrl_def m_kind_def mfield_def mem_view_def map_add_def MANAGED_TYPES_def run)
  from acl_unmanaged_protected [where op = "delete_table mem_platform ''SSH_ONLY''" and p = 0 and i = demo_rule,
      OF mem.one_fault_store_axioms, OF demo_ctrl_ok, OF this, OF _ exec] exec show ?thesis by auto
qed

text \<open>
  Deleting an ACL table removes the table, all its rules and all their descriptions, and nothing
  else: a table whose name is a prefix of another one's name does not take the other along.
  When the deletion fails half-way only rows of its rules are gone, and the table itself is still
  there, so that the deletion can be repeated.
\<close>

lemma acl_delete_table_spec:
  assumes "one_fault_store P view ok up" "ok s"
    and "valid_table_name name" and "delete_table P name s = (r, s')"
  shows "ok s' \<and> (case r of
      Inr _ \<Rightarrow> m_kind (view s CONFIG_DB (''ACL_TABLE|'' @ name)) \<in> set MANAGED_TYPES \<and>
        view s' = v_drop CONFIG_DB (\<lambda>k. k = ''ACL_TABLE|'' @ name \<or> rule_rows name k) (view s)
    | Inl _ \<Rightarrow> view s' CONFIG_DB (''ACL_TABLE|'' @ name) = view s CONFIG_DB (''ACL_TABLE|'' @ name) \<and>
        (\<forall>d k. view s' d k = view s d k \<or> d = CONFIG_DB \<and> rule_rows name k \<and> view s' d k = Map.empty)) \<and>
    (\<forall>other q. CHR ''|'' \<notin> set other \<longrightarrow> other \<noteq> name \<longrightarrow>
       view s' CONFIG_DB (rule_key other q) = view s CONFIG_DB (rule_key other q))"
proof -
  have name: "CHR ''*'' \<notin> set name" "plain_glob name" "CHR ''|'' \<notin> set name"
    using assms(3) by (auto simp: valid_table_name_def plain_glob_def list_all_iff char_class_defs)
  have bar: "\<not> rule_rows name (rule_key other q)"
    if o: "CHR ''|'' \<notin> set other" "other \<noteq> name" for other q
  proof -
    have "other @ CHR ''|'' # x \<noteq> name @ CHR ''|'' # y" for x y
      using o name(3) by (metis split_once_append option.inject prod.inject)
    then show ?thesis by (auto simp: rule_rows_def rule_key_def starts_with_iff DESC_TABLE_def)
  qed
  have tbl: "\<not> rule_rows name (''ACL_TABLE|'' @ name)"
    by (auto simp: rule_rows_def starts_with_iff DESC_TABLE_def)
  note res = wp_result [OF one_fault_store.delete_table_wp [OF assms(1), OF assms(2), OF name(1,2)], OF assms(4)]
  show ?thesis
  proof (cases r)
    case (Inl e)
    with res obtain q where "ok s'" and q: "\<forall>k. q k \<longrightarrow> rule_rows name k" and v: "view s' = v_drop CONFIG_DB q (view s)"
      by auto
    then show ?thesis using Inl bar tbl by auto
  next
    case (Inr u)
    with res bar show ?thesis by (auto simp: rule_key_def)
  qed
qed

text \<open>
  An update of an ACL table keeps its type, validates the whole body before the first write, and is
  all or nothing. On success the row holds exactly the fields of the body; the legacy
  \<open>ports\<close> spelling is gone, so that it cannot shadow the list form; every other field of
  the row and every other row is as before.
\<close>

lemma acl_update_table_spec:
  assumes "one_fault_store P view ok up" "ok s" and "update_table P name i s = (r, s')"
  shows "ok s' \<and> (case r of
      Inl _ \<Rightarrow> view s' = view s
    | Inr _ \<Rightarrow> m_kind (view s CONFIG_DB (''ACL_TABLE|'' @ name)) = ti_kind i \<and> valid_table_input (view s) i \<and>
        (let row = view s CONFIG_DB (''ACL_TABLE|'' @ name); row' = view s' CONFIG_DB (''ACL_TABLE|'' @ name) in
           row' = row(''type'' \<mapsto> ti_kind i, ''stage'' \<mapsto> ti_stage i, ''ports@'' \<mapsto> join '','' (ti_ports i),
                      ''policy_desc'' := ti_description i, ''ports'' := None)) \<and>
        (\<forall>d k. (d, k) \<noteq> (CONFIG_DB, ''ACL_TABLE|'' @ name) \<longrightarrow> view s' d k = view s d k))"
proof -
  note res = wp_result [OF one_fault_store.update_table_wp [OF assms(1), OF assms(2)], OF assms(3)]
  show ?thesis
  proof (cases r)
    case (Inl e)
    with res show ?thesis by simp
  next
    case (Inr u)
    show ?thesis
    proof (cases "ti_description i")
      case None
      with res Inr show ?thesis
        by (auto simp: table_fields_def fun_eq_iff restrict_map_def map_add_def)
    next
      case (Some x)
      with res Inr show ?thesis
        by (auto simp: table_fields_def fun_eq_iff restrict_map_def map_add_def)
    qed
  qed
qed

definition demo_table :: table_input where
  "demo_table = \<lparr>ti_kind = ''L3'', ti_stage = ''egress'', ti_description = None, ti_ports = []\<rparr>"

end
