(* ===== verification/L3.thy ===== *)
theory L3
  imports Json
begin

text \<open>
  L3 interfaces and VRFs, \<^verbatim>\<open>src/src/sonic/l3.rs\<close>: the read documents, the
  convergence of an interface's attribute and address rows, loopback and VRF life cycles, and the
  management VRF switch.

  The three steps of \<open>converge\<close> are three batch programs, in the order the code runs them.
\<close>

section \<open>Interface kinds\<close>

datatype l3_kind = Port | PortChannel | Vlan | Loopback

definition l3_kind_str :: "l3_kind \<Rightarrow> string" where
  "l3_kind_str k = (case k of Port \<Rightarrow> ''port'' | PortChannel \<Rightarrow> ''port-channel'' | Vlan \<Rightarrow> ''vlan''
     | Loopback \<Rightarrow> ''loopback'')"

definition kind_of :: "string \<Rightarrow> l3_kind" where
  "kind_of name = (if starts_with ''PortChannel'' name then PortChannel
     else if starts_with ''Vlan'' name then Vlan
     else if starts_with ''Loopback'' name then Loopback else Port)"

definition l3_table :: "string \<Rightarrow> string" where
  "l3_table name = (case kind_of name of Port \<Rightarrow> ''INTERFACE'' | PortChannel \<Rightarrow> ''PORTCHANNEL_INTERFACE''
     | Vlan \<Rightarrow> ''VLAN_INTERFACE'' | Loopback \<Rightarrow> ''LOOPBACK_INTERFACE'')"

definition ALL_TABLES :: "string list" where
  "ALL_TABLES = [''INTERFACE'', ''PORTCHANNEL_INTERFACE'', ''VLAN_INTERFACE'', ''LOOPBACK_INTERFACE'']"

section \<open>Reading\<close>

type_synonym l3_acc = "(string \<times> row) list \<times> (string \<times> string list) list"

primrec l3_keys :: "'s platform \<Rightarrow> string \<Rightarrow> string list \<Rightarrow> l3_acc \<Rightarrow> ('s, string, l3_acc) io" where
  "l3_keys P prefix [] acc = ret acc"
| "l3_keys P prefix (key # ks) acc =
     (case acc of (attrs, ips) \<Rightarrow>
        (case two_parts key prefix of
           Some (name, cidr) \<Rightarrow> l3_keys P prefix ks (attrs, group_push name cidr ips)
         | None \<Rightarrow> (case key_suffix key prefix of
             Some name \<Rightarrow> bnd (row_of P CONFIG_DB key) (\<lambda>r. l3_keys P prefix ks (al_put name r attrs, ips))
           | None \<Rightarrow> l3_keys P prefix ks acc)))"

primrec l3_tables :: "'s platform \<Rightarrow> string list \<Rightarrow> l3_acc \<Rightarrow> ('s, string, l3_acc) io" where
  "l3_tables P [] acc = ret acc"
| "l3_tables P (tbl # tbls) acc =
     bnd (scan P CONFIG_DB (tbl @ ''|*'')) (\<lambda>ks.
     bnd (l3_keys P (tbl @ ''|'') ks acc) (l3_tables P tbls))"

definition l3_rows :: "'s platform \<Rightarrow> ('s, string, l3_acc) io" where
  "l3_rows P = bnd (l3_tables P ALL_TABLES ([], [])) (\<lambda>(attrs, ips).
     ret (attrs, map (\<lambda>(name, l). (name, sort l)) ips))"

definition named_keys :: "'s platform \<Rightarrow> string \<times> string \<Rightarrow> ('s, string, string list) io" where
  "named_keys P = (\<lambda>(pattern, prefix).
     bnd (scan P CONFIG_DB pattern) (\<lambda>ks. ret (List.map_filter (\<lambda>key. key_suffix key prefix) ks)))"

definition oper_of :: "row \<Rightarrow> string" where
  "oper_of appl = opt_or (field appl ''oper_status'') ''unknown''"

definition cfg_row :: "'s platform \<Rightarrow> string \<Rightarrow> ('s, string, row) io" where
  "cfg_row P name = (case kind_of name of
       Port \<Rightarrow> row_of P CONFIG_DB (''PORT|'' @ name)
     | PortChannel \<Rightarrow> row_of P CONFIG_DB (''PORTCHANNEL|'' @ name)
     | Vlan \<Rightarrow> row_of P CONFIG_DB (''VLAN|'' @ name)
     | Loopback \<Rightarrow> ret [])"

definition oper_state :: "'s platform \<Rightarrow> string \<Rightarrow> ('s, string, string) io" where
  "oper_state P name = (case kind_of name of
       Port \<Rightarrow> bnd (row_of P APPL_DB (''PORT_TABLE:'' @ name)) (\<lambda>r. ret (oper_of r))
     | PortChannel \<Rightarrow> bnd (row_of P APPL_DB (''LAG_TABLE:'' @ name)) (\<lambda>r. ret (oper_of r))
     | Vlan \<Rightarrow> bnd (row_of P APPL_DB (''VLAN_TABLE:'' @ name)) (\<lambda>r. ret (oper_of r))
     | Loopback \<Rightarrow> ret ''up'')"

definition admin_state :: "string \<Rightarrow> row \<Rightarrow> string" where
  "admin_state name cfg = (case kind_of name of
       Vlan \<Rightarrow> ''up'' | Loopback \<Rightarrow> ''up'' | _ \<Rightarrow> opt_or (field cfg ''admin_status'') ''down'')"

definition interface_doc :: "'s platform \<Rightarrow> l3_acc \<Rightarrow> string \<Rightarrow> ('s, string, json) io" where
  "interface_doc P acc name =
     bnd (cfg_row P name) (\<lambda>cfg.
     bnd (oper_state P name) (\<lambda>oper.
       ret (JObj
         [(''name'', JStr name), (''kind'', JStr (l3_kind_str (kind_of name))),
          (''vrf'', jopt JStr (Option.bind (map_of (fst acc) name) (\<lambda>a. field a ''vrf_name''))),
          (''ip_addresses'', jstrs (opt_or (map_of (snd acc) name) [])),
          (''admin_status'', JStr (admin_state name cfg)), (''oper_status'', JStr oper),
          (''description'', jopt JStr (field cfg ''description''))])))"

definition interface_names :: "string list \<Rightarrow> l3_acc \<Rightarrow> string list" where
  "interface_names names acc =
     remdups_adj (sort_by natural_cmp
       (names @ filter (\<lambda>n. kind_of n = Loopback) (map fst (fst acc) @ map fst (snd acc))))"

definition get_interfaces :: "'s platform \<Rightarrow> ('s, string, json) io" where
  "get_interfaces P =
     bnd (collect (named_keys P) [(''PORT|*'', ''PORT|''), (''PORTCHANNEL|*'', ''PORTCHANNEL|''),
                                  (''VLAN|*'', ''VLAN|'')]) (\<lambda>names.
     bnd (l3_rows P) (\<lambda>acc.
     bnd (collect (interface_doc P acc) (interface_names (concat names) acc)) (\<lambda>docs.
       ret (JObj [(''capability'', cap_json cap_yes), (''interfaces'', JArr docs)]))))"

section \<open>Interface writes\<close>

record interface_input =
  ii_vrf :: "string option"
  ii_ip_addresses :: "string list"

definition base_exists :: "'s platform \<Rightarrow> string \<Rightarrow> ('s, bool) handler" where
  "base_exists P name = (case kind_of name of
       Port \<Rightarrow> map_err Redis (exists P CONFIG_DB (''PORT|'' @ name))
     | PortChannel \<Rightarrow> map_err Redis (exists P CONFIG_DB (''PORTCHANNEL|'' @ name))
     | Vlan \<Rightarrow> map_err Redis (exists P CONFIG_DB (''VLAN|'' @ name))
     | Loopback \<Rightarrow>
         bnd (keys_of P CONFIG_DB (''LOOPBACK_INTERFACE|'' @ name)) (\<lambda>ks.
           if ks \<noteq> [] then ret True
           else bnd (keys_of P CONFIG_DB (''LOOPBACK_INTERFACE|'' @ name @ ''|*'')) (\<lambda>ks. ret (ks \<noteq> []))))"

text \<open>The UTF-8 bytes of the ellipsis in the message.\<close>

definition ellipsis :: string where
  "ellipsis = [char_of (226::nat), char_of (128::nat), char_of (166::nat)]"

fun check_distinct :: "string list \<Rightarrow> string list \<Rightarrow> string + unit" where
  "check_distinct seen [] = Inr ()"
| "check_distinct seen (a # as) =
     (if a \<in> set seen then Inl (''duplicate address '' @ a) else check_distinct (a # seen) as)"

definition check_input :: "'s platform \<Rightarrow> interface_input \<Rightarrow> ('s, unit) handler" where
  "check_input P i =
     bnd (case ii_vrf i of
            None \<Rightarrow> ret ()
          | Some vrf \<Rightarrow>
              if \<not> starts_with ''Vrf'' vrf then
                fail (BadRequest (''invalid VRF '' @ dbg vrf @ '' (data VRFs are named Vrf'' @ ellipsis
                  @ ''; the management VRF cannot bind front-panel interfaces)''))
              else bnd (map_err Redis (exists P CONFIG_DB (''VRF|'' @ vrf))) (\<lambda>e.
                if e then ret () else fail (BadRequest (''no such VRF '' @ vrf)))) (\<lambda>_.
     bnd (lift (smap_err BadRequest (check_cidrs (ii_ip_addresses i)))) (\<lambda>_.
     lift (smap_err BadRequest (check_distinct [] (ii_ip_addresses i)))))"

definition ip_key :: "string \<Rightarrow> string \<Rightarrow> string" where
  "ip_key name ip = l3_table name @ ''|'' @ name @ ''|'' @ ip"

definition attr_key :: "string \<Rightarrow> string" where
  "attr_key name = l3_table name @ ''|'' @ name"

definition NULL_ROW :: row where
  "NULL_ROW = [(''NULL'', ''NULL'')]"

text \<open>1. Remove the address rows: all of them on a VRF change, else the stale ones.\<close>

definition converge_remove ::
  "'s platform \<Rightarrow> string \<Rightarrow> string list \<Rightarrow> string list \<Rightarrow> bool \<Rightarrow> ('s batch, string, unit) io" where
  "converge_remove P name cur_ips desired vrf_changed =
     for_each (\<lambda>ip. if vrf_changed \<or> ip \<notin> set desired then b_del P CONFIG_DB (ip_key name ip) else ret ())
       cur_ips"

text \<open>2. The attribute row.\<close>

definition converge_attr ::
  "'s platform \<Rightarrow> string \<Rightarrow> string option \<Rightarrow> string list \<Rightarrow> ('s batch, string, unit) io" where
  "converge_attr P name vrf desired = (case vrf of
       Some v \<Rightarrow> bnd (b_hset P CONFIG_DB (attr_key name) [(''vrf_name'', v)]) (\<lambda>_.
                 b_hdel P CONFIG_DB (attr_key name) [''NULL''])
     | None \<Rightarrow>
         if desired \<noteq> [] then
           bnd (b_hdel P CONFIG_DB (attr_key name) [''vrf_name'']) (\<lambda>_.
                b_hset P CONFIG_DB (attr_key name) NULL_ROW)
         else b_del P CONFIG_DB (attr_key name))"

text \<open>3. The address rows again.\<close>

definition converge_add ::
  "'s platform \<Rightarrow> string \<Rightarrow> string list \<Rightarrow> string list \<Rightarrow> bool \<Rightarrow> ('s batch, string, unit) io" where
  "converge_add P name cur_ips desired vrf_changed =
     for_each (\<lambda>ip. if vrf_changed \<or> ip \<notin> set cur_ips then b_hset P CONFIG_DB (ip_key name ip) NULL_ROW
                    else ret ()) desired"

definition converge :: "'s platform \<Rightarrow> string \<Rightarrow> interface_input \<Rightarrow> ('s, string, unit) io" where
  "converge P name i =
     bnd (hgetall P CONFIG_DB (attr_key name)) (\<lambda>cur_attr.
     let cur_vrf = field cur_attr ''vrf_name'' in
     bnd (scan P CONFIG_DB (l3_table name @ ''|'' @ name @ ''|*'')) (\<lambda>ks.
     let cur_ips = List.map_filter (\<lambda>k. key_suffix k (l3_table name @ ''|'' @ name @ ''|'')) ks;
         desired = sort_dedup (ii_ip_addresses i);
         vrf_changed = (cur_vrf \<noteq> ii_vrf i)
     in apply_batch P
          (bnd (converge_remove P name cur_ips desired vrf_changed) (\<lambda>_.
           bnd (converge_attr P name (ii_vrf i) desired) (\<lambda>_.
           converge_add P name cur_ips desired vrf_changed)))))"

definition put_interface :: "'s platform \<Rightarrow> string \<Rightarrow> interface_input \<Rightarrow> ('s, unit) handler" where
  "put_interface P name i =
     bnd (base_exists P name) (\<lambda>e.
       if \<not> e then
         fail (NotFound (''no such interface '' @ name
           @ (if kind_of name = Loopback then '' (create loopbacks with POST /api/routing/l3-interfaces)'' else [])))
       else bnd (check_input P i) (\<lambda>_. map_err Redis (converge P name i)))"

record loopback_create =
  lc_name :: string
  lc_input :: interface_input

definition valid_loopback_name :: "string \<Rightarrow> bool" where
  "valid_loopback_name name = (case strip_prefix ''Loopback'' name of
       None \<Rightarrow> False
     | Some d \<Rightarrow> d \<noteq> [] \<and> length d \<le> 4 \<and> list_all is_digit d)"

definition create_loopback :: "'s platform \<Rightarrow> loopback_create \<Rightarrow> ('s, unit) handler" where
  "create_loopback P c =
     (if \<not> valid_loopback_name (lc_name c) then
        fail (BadRequest (''invalid loopback name '' @ dbg (lc_name c) @ '' (expected Loopback<0-9999>)''))
      else bnd (base_exists P (lc_name c)) (\<lambda>e.
        if e then fail (BadRequest (lc_name c @ '' already exists''))
        else bnd (check_input P (lc_input c)) (\<lambda>_. map_err Redis (converge P (lc_name c) (lc_input c)))))"

definition delete_interface :: "'s platform \<Rightarrow> string \<Rightarrow> ('s, unit) handler" where
  "delete_interface P name =
     (if kind_of name \<noteq> Loopback then
        fail (BadRequest (''only loopbacks can be deleted; clear '' @ name
                          @ '' with PUT (vrf null, no addresses) instead''))
      else bnd (base_exists P name) (\<lambda>e.
        if \<not> e then fail (NotFound (''no such loopback '' @ name))
        else bnd (map_err Redis (scan P CONFIG_DB (''LOOPBACK_INTERFACE|'' @ name @ ''|*''))) (\<lambda>ks.
          bnd (for_each (\<lambda>key. map_err Redis (del P CONFIG_DB key)) ks) (\<lambda>_.
          map_err Redis (del P CONFIG_DB (''LOOPBACK_INTERFACE|'' @ name))))))"

section \<open>VRFs\<close>

definition bound_to :: "(string \<times> row) list \<Rightarrow> string \<Rightarrow> string list" where
  "bound_to attrs name =
     sort_by natural_cmp (map fst (filter (\<lambda>(_, a). field a ''vrf_name'' = Some name) attrs))"

definition vrf_entry :: "'s platform \<Rightarrow> (string \<times> row) list \<Rightarrow> string \<Rightarrow> ('s, string, (string \<times> json) option) io" where
  "vrf_entry P attrs key = (case key_suffix key ''VRF|'' of
       None \<Rightarrow> ret None
     | Some name \<Rightarrow> bnd (row_of P CONFIG_DB key) (\<lambda>r.
         ret (Some (name, JObj
           [(''name'', JStr name), (''fallback'', JBool (opt_or (parse_bool (field r ''fallback'')) False)),
            (''vni'', jopt JNum (parse_num (field r ''vni''))), (''interfaces'', jstrs (bound_to attrs name))]))))"

definition mgmt_vrf_enabled :: "'s platform \<Rightarrow> ('s, 'e, bool) io" where
  "mgmt_vrf_enabled P = bnd (row_of P CONFIG_DB ''MGMT_VRF_CONFIG|vrf_global'') (\<lambda>r.
     ret (case field r ''mgmtVrfEnabled'' of None \<Rightarrow> False | Some v \<Rightarrow> eq_ignore_case v ''true''))"

definition get_vrfs :: "'s platform \<Rightarrow> ('s, string, json) io" where
  "get_vrfs P =
     bnd (l3_rows P) (\<lambda>acc.
     bnd (scan P CONFIG_DB ''VRF|*'') (\<lambda>ks.
     bnd (collect (vrf_entry P (fst acc)) ks) (\<lambda>entries.
     bnd (mgmt_vrf_enabled P) (\<lambda>mgmt.
       ret (JObj [(''capability'', cap_json cap_yes),
          (''vrfs'', JArr (map snd (sort_by (\<lambda>a b. natural_cmp (fst a) (fst b)) (List.map_filter id entries)))),
          (''mgmt_vrf_enabled'', JBool mgmt)])))))"

record vrf_input =
  vi_fallback :: bool
  vi_vni :: "nat option"

record vrf_create =
  vc_name :: string
  vc_input :: vrf_input

definition valid_vrf_name :: "string \<Rightarrow> bool" where
  "valid_vrf_name name \<longleftrightarrow> length name > 3 \<and> length name \<le> 15 \<and> starts_with ''Vrf'' name \<and>
     list_all (\<lambda>b. is_alnum b \<or> b = CHR ''_'' \<or> b = CHR ''-'') name"

definition check_vni :: "nat option \<Rightarrow> string + unit" where
  "check_vni vni = (case vni of
       Some v \<Rightarrow> if \<not> (1 \<le> v \<and> v \<le> 16777215) then Inl (''invalid vni '' @ show_nat v @ '' (must be 1-16777215)'')
                 else Inr ()
     | None \<Rightarrow> Inr ())"

definition write_vrf_fields :: "'s platform \<Rightarrow> string \<Rightarrow> vrf_input \<Rightarrow> ('s, unit) handler" where
  "write_vrf_fields P key i =
     bnd (map_err Redis (hset P CONFIG_DB key [(''fallback'', bool_str (vi_fallback i))])) (\<lambda>_.
     (case vi_vni i of
        Some v \<Rightarrow> map_err Redis (hset P CONFIG_DB key [(''vni'', show_nat v)])
      | None \<Rightarrow> map_err Redis (hdel P CONFIG_DB key [''vni''])))"

definition create_vrf :: "'s platform \<Rightarrow> vrf_create \<Rightarrow> ('s, unit) handler" where
  "create_vrf P c =
     (if \<not> valid_vrf_name (vc_name c) then
        fail (BadRequest (''invalid VRF name '' @ dbg (vc_name c) @ '' (must match Vrf<alnum>, at most 15 characters)''))
      else bnd (lift (smap_err BadRequest (check_vni (vi_vni (vc_input c))))) (\<lambda>_.
        bnd (map_err Redis (exists P CONFIG_DB (''VRF|'' @ vc_name c))) (\<lambda>e.
          if e then fail (BadRequest (vc_name c @ '' already exists''))
          else write_vrf_fields P (''VRF|'' @ vc_name c) (vc_input c))))"

definition update_vrf :: "'s platform \<Rightarrow> string \<Rightarrow> vrf_input \<Rightarrow> ('s, unit) handler" where
  "update_vrf P name i =
     bnd (lift (smap_err BadRequest (check_vni (vi_vni i)))) (\<lambda>_.
     bnd (map_err Redis (exists P CONFIG_DB (''VRF|'' @ name))) (\<lambda>e.
       if \<not> e then fail (NotFound (''no such VRF '' @ name))
       else write_vrf_fields P (''VRF|'' @ name) i))"

definition delete_vrf :: "'s platform \<Rightarrow> string \<Rightarrow> ('s, unit) handler" where
  "delete_vrf P name =
     bnd (map_err Redis (exists P CONFIG_DB (''VRF|'' @ name))) (\<lambda>e.
       if \<not> e then fail (NotFound (''no such VRF '' @ name))
       else bnd (map_err Redis (l3_rows P)) (\<lambda>acc.
         if bound_to (fst acc) name \<noteq> [] then
           fail (Conflict (''VRF '' @ name @ '' still has bound interfaces: '' @ join '', '' (bound_to (fst acc) name)))
         else map_err Redis (del P CONFIG_DB (''VRF|'' @ name))))"

text \<open>The detached \<open>config vrf add|del mgmt\<close>.\<close>

definition put_mgmt_vrf :: "'s platform \<Rightarrow> bool \<Rightarrow> ('s, unit) handler" where
  "put_mgmt_vrf P enabled =
     bnd (mgmt_vrf_enabled P) (\<lambda>current.
       if current = enabled then ret ()
       else (let action = (if enabled then ''add'' else ''del'')
             in map_err (\<lambda>e. Internal (''config vrf '' @ action @ '' mgmt: '' @ e))
                  (spawn P ''config'' [''vrf'', action, ''mgmt''])))"

section \<open>The convergence of an interface\<close>

text \<open>The desired state of an interface, as a function on the databases.\<close>

definition l3_after :: "string \<Rightarrow> interface_input \<Rightarrow> dbs \<Rightarrow> dbs" where
  "l3_after name i v =
     (let row = v CONFIG_DB (attr_key name);
          changed = (mfield row ''vrf_name'' \<noteq> ii_vrf i);
          row' = (case ii_vrf i of
              Some x \<Rightarrow> row(''vrf_name'' \<mapsto> x, ''NULL'' := None)
            | None \<Rightarrow> if ii_ip_addresses i = [] then Map.empty
                      else row(''vrf_name'' := None, ''NULL'' \<mapsto> ''NULL''))
      in v(CONFIG_DB := (\<lambda>k.
           if k = attr_key name then row'
           else if k \<in> ip_key name ` set (ii_ip_addresses i) then
             (if changed \<or> v CONFIG_DB k = Map.empty then [''NULL'' \<mapsto> ''NULL''] else v CONFIG_DB k)
           else if \<exists>ip. ip \<noteq> [] \<and> k = ip_key name ip then Map.empty
           else v CONFIG_DB k)))"

definition valid_interface_input :: "dbs \<Rightarrow> interface_input \<Rightarrow> bool" where
  "valid_interface_input v i \<longleftrightarrow>
     (\<forall>x. ii_vrf i = Some x \<longrightarrow> starts_with ''Vrf'' x \<and> v CONFIG_DB (''VRF|'' @ x) \<noteq> Map.empty) \<and>
     (\<forall>a\<in>set (ii_ip_addresses i). check_cidr a = Inr ()) \<and> distinct (ii_ip_addresses i)"

lemma ip_key_attr [simp]: "ip_key name ip \<noteq> attr_key name" "attr_key name \<noteq> ip_key name ip"
  by (simp_all add: ip_key_def attr_key_def)

lemma ip_key_inject [simp]: "ip_key name a = ip_key name b \<longleftrightarrow> a = b"
  by (simp add: ip_key_def)

lemma check_distinct_Inr: "check_distinct seen xs = Inr u \<longleftrightarrow> distinct xs \<and> set xs \<inter> set seen = {}"
  by (induction seen xs rule: check_distinct.induct) auto

lemma l3_table_plain [simp]: "CHR ''*'' \<notin> set (l3_table name)" "plain_glob (l3_table name)"
  by (simp_all add: l3_table_def split: l3_kind.split)

lemma NULL_ROW_map [simp]: "map_of (rev NULL_ROW) = [''NULL'' \<mapsto> ''NULL'']"
  by (simp add: NULL_ROW_def)

context redis_store
begin

lemma wp_check_input:
  assumes "ok s"
    and "\<And>s'. ok s' \<Longrightarrow> view s' = view s \<Longrightarrow> valid_interface_input (view s) i \<Longrightarrow> Q () s'"
    and "\<And>e s'. ok s' \<Longrightarrow> view s' = view s \<Longrightarrow> E e s'"
  shows "wp (check_input P i) Q E s"
  unfolding check_input_def using assms
  by (intro wp_intro wp_exists)
    (auto simp: valid_interface_input_def check_cidrs_def check_distinct_Inr)

lemma reads_base_exists: "reads (base_exists P name)"
  unfolding base_exists_def by (cases "kind_of name") (simp_all, (intro pure_io)+)

text \<open>The addresses the convergence starts from are those with a row.\<close>

lemma wp_cur_ips:
  assumes "ok s" "CHR ''*'' \<notin> set name" "plain_glob name"
    and "\<And>ks s'. ok s' \<Longrightarrow> view s' = view s \<Longrightarrow>
      set (List.map_filter (\<lambda>k. key_suffix k (l3_table name @ ''|'' @ name @ ''|'')) ks) =
        {ip. ip \<noteq> [] \<and> view s CONFIG_DB (ip_key name ip) \<noteq> Map.empty} \<Longrightarrow> Q ks s'"
    and "\<And>e s'. ok s' \<Longrightarrow> view s' = view s \<Longrightarrow> E e s'"
  shows "wp (scan P CONFIG_DB (l3_table name @ ''|'' @ name @ ''|*'')) Q E s"
proof -
  have pat: "l3_table name @ ''|'' @ name @ ''|*'' = (l3_table name @ ''|'' @ name @ ''|'') @ ''*''" by simp
  have "wp (scan P CONFIG_DB ((l3_table name @ ''|'' @ name @ ''|'') @ ''*'')) Q E s"
  proof (rule wp_scan_prefix)
    fix ks s' assume s': "ok s'" "view s' = view s"
      and "set ks = {k. view s CONFIG_DB k \<noteq> Map.empty \<and> starts_with (l3_table name @ ''|'' @ name @ ''|'') k}"
    then show "Q ks s'"
      by (intro assms(4) [OF s'])
        (auto simp: set_map_filter_iff key_suffix_Some ip_key_def starts_with_iff)
  qed (use assms in auto)
  then show ?thesis unfolding pat .
qed

lemma wp_converge_attr:
  assumes "ok (b_plat b)"
    and "\<And>b'. ok (b_plat b') \<Longrightarrow> view (b_plat b') = (view (b_plat b))(CONFIG_DB := (view (b_plat b) CONFIG_DB)
           (attr_key name := (case vrf of
              Some x \<Rightarrow> (view (b_plat b) CONFIG_DB (attr_key name))(''vrf_name'' \<mapsto> x, ''NULL'' := None)
            | None \<Rightarrow> if desired = [] then Map.empty
              else (view (b_plat b) CONFIG_DB (attr_key name))(''vrf_name'' := None, ''NULL'' \<mapsto> ''NULL'')))) \<Longrightarrow> Q () b'"
    and "\<And>e b'. E e b'"
  shows "wp (converge_attr P name vrf desired) Q E b"
  unfolding converge_attr_def using assms(1)
  apply (intro wp_intro wp_b_hset wp_b_hdel wp_b_del)
  apply (auto intro!: assms(2) assms(3) simp: v_hset_def v_hdel_def v_del_def fun_eq_iff restrict_map_def map_add_def)
  done

end

lemma batch_prog_converge:
  "batch_prog P (bnd (converge_remove P name cur desired ch) (\<lambda>_.
     bnd (converge_attr P name vrf desired) (\<lambda>_. converge_add P name cur desired ch)))"
  unfolding converge_remove_def converge_attr_def converge_add_def by (intro bp_intros)

lemma l3_after_eq:
  assumes "\<forall>a\<in>set (ii_ip_addresses i). a \<noteq> []"
    and "set cur = {ip. ip \<noteq> [] \<and> v CONFIG_DB (ip_key name ip) \<noteq> Map.empty}"
    and "ch \<longleftrightarrow> mfield (v CONFIG_DB (attr_key name)) ''vrf_name'' \<noteq> ii_vrf i"
    and des: "set desired = set (ii_ip_addresses i)"
    and "v1 = v_drop CONFIG_DB (\<lambda>k. \<exists>ip\<in>set cur. (ch \<or> ip \<notin> set desired) \<and> k = ip_key name ip) v"
    and "v2 = v1(CONFIG_DB := (v1 CONFIG_DB)(attr_key name := row'))"
    and "row' = (case ii_vrf i of
              Some x \<Rightarrow> (v1 CONFIG_DB (attr_key name))(''vrf_name'' \<mapsto> x, ''NULL'' := None)
            | None \<Rightarrow> if desired = [] then Map.empty
              else (v1 CONFIG_DB (attr_key name))(''vrf_name'' := None, ''NULL'' \<mapsto> ''NULL''))"
    and "v3 = v_put CONFIG_DB (\<lambda>k. \<exists>ip\<in>set desired. (ch \<or> ip \<notin> set cur) \<and> k = ip_key name ip) NULL_ROW v2"
  shows "v3 = l3_after name i v"
proof (intro ext)
  have desn: "desired = [] \<longleftrightarrow> ii_ip_addresses i = []"
    using des by (metis set_empty)
  fix d k x
  have attr: "v1 CONFIG_DB (attr_key name) = v CONFIG_DB (attr_key name)"
    by (auto simp: assms(5))
  show "v3 d k x = l3_after name i v d k x"
  proof (cases "d = CONFIG_DB")
    case False
    then show ?thesis by (simp add: assms(5,6,8) des l3_after_def Let_def)
  next
    case True
    consider "k = attr_key name" | ip where "k = ip_key name ip" "ip \<in> set (ii_ip_addresses i)"
      | ip where "k = ip_key name ip" "ip \<notin> set (ii_ip_addresses i)" "ip \<noteq> []"
      | "k \<noteq> attr_key name" "\<And>ip. k = ip_key name ip \<Longrightarrow> ip = [] \<and> ip \<notin> set (ii_ip_addresses i)" by blast
    then show ?thesis
    proof cases
      case 1
      then show ?thesis
        using True attr by (auto simp: assms(3,6-8) desn l3_after_def Let_def split: option.splits)
    next
      case (2 ip)
      with assms(1) have "ip \<noteq> []" by blast
      with 2 True show ?thesis
        by (auto simp: assms(2,3,5,6,8) des l3_after_def Let_def)
    next
      case (3 ip)
      with True show ?thesis by (auto simp: assms(2,3,5,6,8) des l3_after_def Let_def)
    next
      case 4
      with True assms(1,2) show ?thesis by (auto simp: assms(5,6,8) des l3_after_def Let_def)
    qed
  qed
qed

context redis_store
begin

lemma wp_converge_batch:
  assumes "ok (b_plat b)" "\<forall>a\<in>set (ii_ip_addresses i). a \<noteq> []"
    and "set cur = {ip. ip \<noteq> [] \<and> view (b_plat b) CONFIG_DB (ip_key name ip) \<noteq> Map.empty}"
    and "ch \<longleftrightarrow> mfield (view (b_plat b) CONFIG_DB (attr_key name)) ''vrf_name'' \<noteq> ii_vrf i"
    and "\<And>b'. ok (b_plat b') \<Longrightarrow> view (b_plat b') = l3_after name i (view (b_plat b)) \<Longrightarrow> Q () b'"
    and "\<And>e b'. E e b'"
  shows "wp (bnd (converge_remove P name cur (sort_dedup (ii_ip_addresses i)) ch) (\<lambda>_.
     bnd (converge_attr P name (ii_vrf i) (sort_dedup (ii_ip_addresses i))) (\<lambda>_.
     converge_add P name cur (sort_dedup (ii_ip_addresses i)) ch))) Q E b"
  unfolding converge_remove_def converge_add_def
  apply (intro wp_bnd wp_b_del_each wp_converge_attr wp_b_hset_each)
  apply (simp_all only: assms(1,6))
  apply (rule assms(5), assumption)
  apply (erule trans)+
  apply (rule l3_after_eq [where v = "view (b_plat b)", OF assms(2), OF assms(3), OF assms(4), OF set_sort_dedup, OF refl, OF refl, OF refl, OF refl])
  done

lemma wp_converge:
  assumes "ok s" "CHR ''*'' \<notin> set name" "plain_glob name" "\<forall>a\<in>set (ii_ip_addresses i). a \<noteq> []"
    and "\<And>s'. ok s' \<Longrightarrow> view s' = l3_after name i (view s) \<Longrightarrow> Q () s'"
    and "\<And>e s'. ok s' \<Longrightarrow> (\<And>up. one_fault_store P view ok up \<Longrightarrow> view s' = view s) \<Longrightarrow> E e s'"
  shows "wp (converge P name i) Q E s"
  unfolding converge_def
proof (rule wp_bnd, rule wp_hgetall, goal_cases)
  case (2 r s1)
  note s1 = this
  show ?case
    unfolding Let_def
  proof (rule wp_bnd, rule wp_cur_ips, goal_cases)
    case (4 ks s2)
    with s1 show ?case
      by (intro wp_apply_batch_any batch_prog_converge wp_converge_batch)
        (simp_all add: new_batch_def assms field_map)
  qed (use s1 assms in simp_all)
qed (use assms in simp_all)

end

section \<open>VRF bindings\<close>

text \<open>Each interface has its attribute row in the table of its kind only.\<close>

definition l3_wf :: "dbs \<Rightarrow> bool" where
  "l3_wf v \<longleftrightarrow> (\<forall>tbl\<in>set ALL_TABLES. \<forall>name. name \<noteq> [] \<longrightarrow> CHR ''|'' \<notin> set name \<longrightarrow>
     v CONFIG_DB (tbl @ ''|'' @ name) \<noteq> Map.empty \<longrightarrow> tbl = l3_table name)"

definition l3_knows :: "dbs \<Rightarrow> (string \<times> row) list \<Rightarrow> string \<Rightarrow> bool" where
  "l3_knows v attrs name \<longleftrightarrow> (\<exists>r. map_of attrs name = Some r \<and> map_of r = v CONFIG_DB (attr_key name))"

definition l3_known :: "dbs \<Rightarrow> string set \<Rightarrow> (string \<times> row) list \<Rightarrow> bool" where
  "l3_known v T attrs \<longleftrightarrow> (\<forall>name. name \<noteq> [] \<longrightarrow> CHR ''|'' \<notin> set name \<longrightarrow> l3_table name \<in> T \<longrightarrow>
     v CONFIG_DB (attr_key name) \<noteq> Map.empty \<longrightarrow> l3_knows v attrs name)"

lemma l3_table_all [simp]: "l3_table name \<in> set ALL_TABLES"
  by (simp add: l3_table_def ALL_TABLES_def split: l3_kind.split)

lemma bound_to_Nil:
  assumes "l3_known v (set ALL_TABLES) attrs" "bound_to attrs name = []" "ifname \<noteq> []" "CHR ''|'' \<notin> set ifname"
  shows "mfield (v CONFIG_DB (attr_key ifname)) ''vrf_name'' \<noteq> Some name"
proof (cases "v CONFIG_DB (attr_key ifname) = Map.empty")
  case True
  then show ?thesis by (simp add: mfield_def)
next
  case False
  with assms obtain r where r: "map_of attrs ifname = Some r" "map_of r = v CONFIG_DB (attr_key ifname)"
    by (auto simp: l3_knows_def l3_known_def)
  from assms(2) have "set (sort_by natural_cmp (map fst (filter (\<lambda>(_, a). field a ''vrf_name'' = Some name) attrs))) = {}"
    unfolding bound_to_def by simp
  with map_of_SomeD [OF r(1)] have "field r ''vrf_name'' \<noteq> Some name" by auto
  with r(2) show ?thesis by (simp add: field_map)
qed

context live_store
begin

lemma wp_l3_keys:
  assumes "ok s"
    and "\<And>acc' s'. ok s' \<Longrightarrow> view s' = view s \<Longrightarrow>
       (\<And>name. name \<noteq> [] \<Longrightarrow> CHR ''|'' \<notin> set name \<Longrightarrow>
          (if pre @ name \<in> set ks then \<exists>r. map_of (fst acc') name = Some r \<and> map_of r = view s CONFIG_DB (pre @ name)
           else map_of (fst acc') name = map_of (fst acc) name)) \<Longrightarrow> Q acc' s'"
  shows "wp (l3_keys P pre ks acc) Q E s"
  using assms
proof (induction ks arbitrary: acc s)
  case Nil
  then show ?case by (simp add: wp_ret)
next
  case (Cons key ks)
  obtain attrs ips where acc: "acc = (attrs, ips)" by (cases acc)
  show ?case
  proof (cases "two_parts key pre")
    case (Some x)
    then obtain a b where x: "two_parts key pre = Some (a, b)" by (cases x) auto
    then have "key \<noteq> pre @ name" if "CHR ''|'' \<notin> set name" for name
      using that by (auto simp: two_parts_Some)
    with x show ?thesis
      by (simp add: acc) (rule Cons.IH [OF Cons.prems(1)], rule Cons.prems(2), auto simp: acc)
  next
    case two: None
    show ?thesis
    proof (cases "key_suffix key pre")
      case None
      then have "key \<noteq> pre @ name" if "name \<noteq> []" for name
        using that by (auto simp: key_suffix_def)
      with None two show ?thesis
        by (simp add: acc) (rule Cons.IH [OF Cons.prems(1)], rule Cons.prems(2), auto simp: acc)
    next
      case (Some n)
      then have key: "key = pre @ n" "n \<noteq> []" by (auto simp: key_suffix_Some)
      have "wp (bnd (row_of P CONFIG_DB key) (\<lambda>r. l3_keys P pre ks (al_put n r attrs, ips))) Q E s"
      proof (rule wp_bnd, rule wp_row_of_live [OF Cons.prems(1)])
        fix r s1 assume s1: "ok s1" "view s1 = view s" and r: "map_of r = view s CONFIG_DB key"
        show "wp (l3_keys P pre ks (al_put n r attrs, ips)) Q E s1"
        proof (rule Cons.IH [OF s1(1)], rule Cons.prems(2))
          fix acc' s' name
          assume h: "\<And>name. name \<noteq> [] \<Longrightarrow> CHR ''|'' \<notin> set name \<Longrightarrow>
            (if pre @ name \<in> set ks then \<exists>r. map_of (fst acc') name = Some r \<and> map_of r = view s1 CONFIG_DB (pre @ name)
             else map_of (fst acc') name = map_of (fst (al_put n r attrs, ips)) name)"
            and name: "name \<noteq> []" "CHR ''|'' \<notin> set name"
          show "if pre @ name \<in> set (key # ks)
            then \<exists>r. map_of (fst acc') name = Some r \<and> map_of r = view s CONFIG_DB (pre @ name)
            else map_of (fst acc') name = map_of (fst acc) name"
            using h [OF name] r s1(2) by (auto simp: acc key(1) split: if_splits)
        qed (use s1 in auto)
      qed
      with Some two show ?thesis by (simp add: acc)
    qed
  qed
qed

lemma wp_l3_tables:
  assumes "ok s" "l3_wf (view s)" "set tbls \<subseteq> set ALL_TABLES" "l3_known (view s) T (fst acc)"
    and "\<And>acc' s'. ok s' \<Longrightarrow> view s' = view s \<Longrightarrow> l3_known (view s) (T \<union> set tbls) (fst acc') \<Longrightarrow> Q acc' s'"
    and "\<And>e s'. ok s' \<Longrightarrow> view s' = view s \<Longrightarrow> E e s'"
  shows "wp (l3_tables P tbls acc) Q E s"
  using assms
proof (induction tbls arbitrary: acc s T)
  case Nil
  then show ?case by (simp add: wp_ret)
next
  case (Cons tbl tbls)
  have plain: "CHR ''*'' \<notin> set (tbl @ ''|'')" "plain_glob (tbl @ ''|'')"
    using Cons.prems(3) by (auto simp: ALL_TABLES_def)
  have "wp (bnd (scan P CONFIG_DB ((tbl @ ''|'') @ ''*'')) (\<lambda>ks. bnd (l3_keys P (tbl @ ''|'') ks acc) (l3_tables P tbls))) Q E s"
  proof (intro wp_bnd wp_scan_prefix [OF Cons.prems(1) plain])
    fix ks s1 assume s1: "ok s1" "view s1 = view s"
      and ks: "set ks = {k. view s CONFIG_DB k \<noteq> Map.empty \<and> starts_with (tbl @ ''|'') k}"
    show "wp (l3_keys P (tbl @ ''|'') ks acc) (\<lambda>acc. wp (l3_tables P tbls acc) Q E) E s1"
    proof (rule wp_l3_keys [OF s1(1)])
      fix acc1 :: l3_acc and s2
      assume s2: "ok s2" "view s2 = view s1" and h: "\<And>name. name \<noteq> [] \<Longrightarrow> CHR ''|'' \<notin> set name \<Longrightarrow>
        (if (tbl @ ''|'') @ name \<in> set ks then \<exists>r. map_of (fst acc1) name = Some r \<and>
            map_of r = view s1 CONFIG_DB ((tbl @ ''|'') @ name)
         else map_of (fst acc1) name = map_of (fst acc) name)"
      have "l3_knows (view s) (fst acc1) name"
        if n: "name \<noteq> []" "CHR ''|'' \<notin> set name" "l3_table name \<in> insert tbl T"
          "view s CONFIG_DB (attr_key name) \<noteq> Map.empty" for name
      proof (cases "(tbl @ ''|'') @ name \<in> set ks")
        case True
        with ks Cons.prems(2,3) n have "tbl = l3_table name" by (auto simp: l3_wf_def)
        with True h [OF n(1,2)] s1 show ?thesis by (auto simp: l3_knows_def attr_key_def)
      next
        case False
        with ks n(4) have "l3_table name \<noteq> tbl" by (auto simp: attr_key_def starts_with_iff)
        with n Cons.prems(4) have "l3_knows (view s) (fst acc) name" by (auto simp: l3_known_def)
        with False h [OF n(1,2)] show ?thesis by (auto simp: l3_knows_def)
      qed
      then have "l3_known (view s) (insert tbl T) (fst acc1)" by (simp add: l3_known_def)
      moreover have "view s2 = view s" using s1 s2 by simp
      ultimately show "wp (l3_tables P tbls acc1) Q E s2"
        using Cons.prems(2,3)
        by (intro Cons.IH [of s2 "insert tbl T" acc1, OF s2(1)]) (simp_all add: Cons.prems(5,6))
    qed
  qed (use Cons.prems(6) in auto)
  then show ?case by simp
qed

lemma wp_l3_rows:
  assumes "ok s" "l3_wf (view s)"
    and "\<And>acc s'. ok s' \<Longrightarrow> view s' = view s \<Longrightarrow> l3_known (view s) (set ALL_TABLES) (fst acc) \<Longrightarrow> Q acc s'"
    and "\<And>e s'. ok s' \<Longrightarrow> view s' = view s \<Longrightarrow> E e s'"
  shows "wp (l3_rows P) Q E s"
  unfolding l3_rows_def
proof (rule wp_bnd, rule wp_l3_tables [where T = "{}", OF assms(1,2)])
  fix acc :: l3_acc and s' assume "ok s'" "view s' = view s" "l3_known (view s) ({} \<union> set ALL_TABLES) (fst acc)"
  then show "wp (case acc of (attrs, ips) \<Rightarrow> ret (attrs, map (\<lambda>(name, l). (name, sort l)) ips)) Q E s'"
    by (cases acc) (auto intro!: wp_ret assms(3))
qed (use assms in \<open>auto simp: l3_known_def\<close>)

text \<open>A VRF is only deleted when nothing is bound to it.\<close>

lemma delete_vrf_wp:
  assumes "ok s" "l3_wf (view s)"
  shows "wp (delete_vrf P name)
    (\<lambda>_ s'. ok s' \<and> view s' = v_del CONFIG_DB (''VRF|'' @ name) (view s) \<and>
      (\<forall>ifname. ifname \<noteq> [] \<longrightarrow> CHR ''|'' \<notin> set ifname \<longrightarrow>
         mfield (view s CONFIG_DB (attr_key ifname)) ''vrf_name'' \<noteq> Some name))
    (\<lambda>e s'. ok s' \<and> view s' = view s) s"
  unfolding delete_vrf_def using assms
  by (intro wp_intro wp_exists wp_l3_rows wp_del) (auto dest: bound_to_Nil)

end

end
