(* ===== verification/L3Props.thy ===== *)
theory L3Props
  imports L3 MemPlatform
begin

text \<open>
  The properties of the L3 interface and VRF handlers, for every platform that keeps the store
  contract, with runs on the in-memory platform.
\<close>

definition demo_l3 :: mem where
  "demo_l3 = mem_seed CONFIG_DB ''PORT|Ethernet0'' [(''admin_status'', ''up'')]
     (mem_seed CONFIG_DB ''INTERFACE|Ethernet0'' [(''vrf_name'', ''VrfOld'')]
     (mem_seed CONFIG_DB ''INTERFACE|Ethernet0|10.0.0.1/31'' [(''NULL'', ''NULL'')]
     (mem_seed CONFIG_DB ''VRF|VrfRed'' [(''fallback'', ''false'')] mem_new)))"

definition demo_move :: interface_input where
  "demo_move = \<lparr>ii_vrf = Some ''VrfRed'', ii_ip_addresses = [''10.0.0.1/31'', ''fc00::1/126'']\<rparr>"

lemma demo_l3_ok: "mem_ok demo_l3"
  by (simp add: demo_l3_def mem_seed_ok)

lemma demo_put_interface: "\<exists>s'. put_interface mem_platform ''Ethernet0'' demo_move demo_l3 = (Inr (), s')"
  by (simp add: put_interface_def base_exists_def kind_of_def check_input_def demo_l3_def demo_move_def
      check_cidrs_def check_cidr_def converge_def converge_remove_def converge_attr_def converge_add_def
      attr_key_def ip_key_def l3_table_def NULL_ROW_def sort_dedup_def run)

text \<open>
  C7. A PUT on an L3 interface, whose name is free of the glob characters of redis, converges the databases to the desired state.
  On success the attribute row carries exactly the requested VRF (with the placeholder field when there are addresses but
  no VRF, and no row at all without either), the address rows of the interface are exactly the
  requested ones, and no other key changes. A refused request changes nothing. A failed redis command changes nothing either where
  every command after it succeeds; otherwise no more is promised, as the rollback is best-effort.
\<close>

theorem l3_put_interface_spec:
  assumes "redis_store P view ok" "ok s" "CHR ''*'' \<notin> set name" "plain_glob name"
    and "put_interface P name i s = (r, s')"
  shows "ok s' \<and> (case r of
      Inl e \<Rightarrow> (\<forall>x. e \<noteq> Redis x) \<or> (\<exists>up. one_fault_store P view ok up) \<longrightarrow> view s' = view s
    | Inr _ \<Rightarrow> valid_interface_input (view s) i \<and> view s' = l3_after name i (view s))"
proof -
  let ?E = "\<lambda>e. redis_store.failed_clean P view ok (view s) (\<exists>x. e = Redis x)"
  note st = assms(1) and clean = redis_store.failed_cleanI [OF assms(1)] redis_store.failed_clean_batch [OF assms(1)]
  have "wp (put_interface P name i)
      (\<lambda>_ s'. ok s' \<and> valid_interface_input (view s) i \<and> view s' = l3_after name i (view s)) ?E s"
    unfolding put_interface_def
  proof (rule wp_bnd, rule redis_store.wp_reads [OF st])
    show "redis_store.reads view ok (base_exists P name)" using st by (rule redis_store.reads_base_exists)
    show "ok s" by fact
    fix b s1 assume s1: "ok s1" "view s1 = view s"
    show "wp (if \<not> b then fail (NotFound (''no such interface '' @ name @
        (if kind_of name = Loopback then '' (create loopbacks with POST /api/routing/l3-interfaces)'' else [])))
      else bnd (check_input P i) (\<lambda>_. map_err Redis (converge P name i)))
      (\<lambda>_ s'. ok s' \<and> valid_interface_input (view s) i \<and> view s' = l3_after name i (view s)) ?E s1"
      by (intro wp_intro redis_store.wp_check_input [OF st] redis_store.wp_converge [OF st])
        (use s1 assms(3,4) in \<open>auto simp: valid_interface_input_def check_cidr_def Let_def clean\<close>)
  qed (simp add: clean)
  from wp_result [OF this assms(5)] show ?thesis by (cases r) (auto simp: redis_store.failed_clean_def [OF st])
qed

theorem l3_put_interface_spec_witness:
  "\<exists>s'. put_interface mem_platform ''Ethernet0'' demo_move demo_l3 = (Inr (), s') \<and>
     mem_view s' = l3_after ''Ethernet0'' demo_move (mem_view demo_l3)"
proof -
  obtain s' where exec: "put_interface mem_platform ''Ethernet0'' demo_move demo_l3 = (Inr (), s')"
    using demo_put_interface by blast
  have "CHR ''*'' \<notin> set ''Ethernet0''" "plain_glob ''Ethernet0''" by simp_all
  from l3_put_interface_spec [OF mem.redis_store_axioms, OF demo_l3_ok, OF this, OF exec] exec show ?thesis by auto
qed

lemma demo_l3_keys: "mem_view demo_l3 CONFIG_DB k \<noteq> Map.empty \<longleftrightarrow>
    k \<in> {''PORT|Ethernet0'', ''INTERFACE|Ethernet0'', ''INTERFACE|Ethernet0|10.0.0.1/31'', ''VRF|VrfRed''}"
  by (simp add: demo_l3_def mem_seed_view v_hset_def)

text \<open>
  Repeating a PUT on an L3 interface changes nothing: the desired state is a fixed point of the
  convergence, so that a retried request is harmless. The VRF name is one without surrounding
  blanks and the addresses are not empty, as the validation of the addresses ensures.
\<close>

lemma l3_after_idempotent:
  assumes "\<And>x. ii_vrf i = Some x \<Longrightarrow> trim x = x \<and> x \<noteq> []" "\<forall>a\<in>set (ii_ip_addresses i). a \<noteq> []"
  shows "l3_after name i (l3_after name i v) = l3_after name i v"
proof (intro ext)
  fix d k x
  have "mfield (l3_after name i v CONFIG_DB (attr_key name)) ''vrf_name'' = ii_vrf i"
    using assms(1) by (auto simp: l3_after_def Let_def mfield_def split: option.splits)
  then show "l3_after name i (l3_after name i v) d k x = l3_after name i v d k x"
    by (subst (1) l3_after_def)
       (auto simp: l3_after_def Let_def split: option.splits)
qed

text \<open>
  The first step of the convergence, when the VRF changes: no address row of the interface is left, and the attribute row is as it
  was. \<open>converge\<close> writes the attribute row after it.
\<close>

lemma l3_rebind_order:
  assumes "redis_store P view ok" "ok (b_plat b)"
    and "set cur = {ip. ip \<noteq> [] \<and> view (b_plat b) CONFIG_DB (ip_key name ip) \<noteq> Map.empty}"
    and "converge_remove P name cur desired True b = (Inr u, b')"
  shows "(\<forall>ip. ip \<noteq> [] \<longrightarrow> view (b_plat b') CONFIG_DB (ip_key name ip) = Map.empty) \<and>
    view (b_plat b') CONFIG_DB (attr_key name) = view (b_plat b) CONFIG_DB (attr_key name)"
proof -
  have "wp (converge_remove P name cur desired True) (\<lambda>_ b'. ok (b_plat b') \<and>
     view (b_plat b') = v_drop CONFIG_DB (\<lambda>k. \<exists>x\<in>set cur. (True \<or> x \<notin> set desired) \<and> k = ip_key name x) (view (b_plat b)))
     (\<lambda>_ _. True) b"
    unfolding converge_remove_def
    by (rule redis_store.wp_b_del_each [OF assms(1), OF assms(2)]) auto
  from wp_okD [OF this assms(4)] assms(3) show ?thesis by auto
qed

text \<open>
  A VRF is deleted only when no interface is bound to it: after a successful deletion the VRF row
  is gone, no attribute row names the VRF and nothing else changed; otherwise nothing changed. The
  guarantee needs that rows can be read: the binding check uses the reader that takes a failed
  read for an empty row.
\<close>

lemma l3_delete_vrf_unbound:
  assumes "live_store P view ok up" "ok s" "l3_wf (view s)" "delete_vrf P name s = (r, s')"
  shows "ok s' \<and> (case r of
      Inl _ \<Rightarrow> view s' = view s
    | Inr _ \<Rightarrow> view s' = v_del CONFIG_DB (''VRF|'' @ name) (view s) \<and>
        (\<forall>ifname. ifname \<noteq> [] \<longrightarrow> CHR ''|'' \<notin> set ifname \<longrightarrow>
           mfield (view s' CONFIG_DB (attr_key ifname)) ''vrf_name'' \<noteq> Some name))"
proof -
  have "attr_key ifname \<noteq> ''VRF|'' @ name" for ifname
    by (simp add: attr_key_def l3_table_def split: l3_kind.split)
  with wp_result [OF live_store.delete_vrf_wp [OF assms(1), OF assms(2), OF assms(3)], OF assms(4)] show ?thesis
    by (cases r) auto
qed

section \<open>What the handlers do not guarantee\<close>

text \<open>
  A loopback name from the path is used as a redis pattern without a check. A request to delete the
  loopback named with a star passes the existence check and deletes the address rows of every
  loopback whose name matches.
\<close>

definition demo_lo :: mem where
  "demo_lo = mem_seed CONFIG_DB ''LOOPBACK_INTERFACE|Loopback0|1.1.1.1/32'' [(''NULL'', ''NULL'')]
     (mem_seed CONFIG_DB ''LOOPBACK_INTERFACE|Loopback0'' [(''NULL'', ''NULL'')] mem_new)"

lemma l3_delete_pattern_name:
  "\<exists>s'. delete_interface mem_platform ''Loopback*'' demo_lo = (Inr (), s') \<and>
     mem_row s' CONFIG_DB ''LOOPBACK_INTERFACE|Loopback0|1.1.1.1/32'' = [] \<and>
     mem_row demo_lo CONFIG_DB ''LOOPBACK_INTERFACE|Loopback0|1.1.1.1/32'' = [(''NULL'', ''NULL'')]"
  by (simp add: delete_interface_def base_exists_def kind_of_def demo_lo_def run)

text \<open>
  The binding check of a VRF deletion reads the attribute rows with the degrading reader: when the
  read of one row fails, the interface counts as unbound and the VRF is deleted under it.
\<close>

definition flaky :: "string \<Rightarrow> mem platform" where
  "flaky bad = mem_platform\<lparr>hgetall := (\<lambda>db key s. if key = bad then (Inl ''timed out'', s) else mem_hgetall db key s)\<rparr>"

lemma l3_delete_vrf_read_failure:
  "\<exists>s'. delete_vrf (flaky ''INTERFACE|Ethernet0'') ''VrfOld'' (mem_seed CONFIG_DB ''VRF|VrfOld'' [(''fallback'', ''false'')] demo_l3)
       = (Inr (), s') \<and>
     mem_row s' CONFIG_DB ''INTERFACE|Ethernet0'' = [(''vrf_name'', ''VrfOld'')] \<and>
     mem_row s' CONFIG_DB ''VRF|VrfOld'' = []"
  by (simp add: delete_vrf_def flaky_def demo_l3_def l3_rows_def ALL_TABLES_def bound_to_def group_push_def run)

end
