(* ===== verification/StaticRoutes.thy ===== *)
theory StaticRoutes
  imports Json Ip
begin

text \<open>
  Static routes, \<^verbatim>\<open>src/src/sonic/staticroutes.rs\<close>: the codec between hop lists and
  the parallel comma-separated fields of a row, the read document, the validators, the upsert that
  also removes the other spelling of a default-VRF key, and the deletion.
\<close>

section \<open>Capability\<close>

definition UNSUPPORTED :: string where
  "UNSUPPORTED = ''static routes require the bgp container (staticd), which is not running on this image''"

definition sr_capability :: "'s platform \<Rightarrow> ('s, 'e, capability) io" where
  "sr_capability P = bnd (current P) (\<lambda>p. ret (if bgp_available p then cap_yes else cap_no UNSUPPORTED))"

definition require_supported :: "'s platform \<Rightarrow> ('s, unit) handler" where
  "require_supported P = bnd (current P) (\<lambda>p.
     if \<not> bgp_available p then fail (Conflict UNSUPPORTED) else ret ())"

section \<open>The row codec\<close>

record next_hop =
  gateway :: "string option"
  nh_interface :: "string option"
  nexthop_vrf :: "string option"
  blackhole :: bool
  distance :: "nat option"

record route_input =
  ro_vrf :: "string option"
  ro_prefix :: string
  ro_next_hops :: "next_hop list"

record route_key =
  rk_vrf :: "string option"
  rk_prefix :: string

text \<open>\<open>split(',')\<close> with every part trimmed, padded with empty parts to \<open>n\<close>.\<close>

definition slots :: "string option \<Rightarrow> nat \<Rightarrow> string list" where
  "slots v n = (let out = map trim (split_on (CHR '','') (opt_or v []))
                in out @ replicate (max n (length out) - length out) [])"

definition non_empty :: "string \<Rightarrow> string option" where
  "non_empty v = (if v = [] then None else Some v)"

definition ROUTE_FIELDS :: "string list" where
  "ROUTE_FIELDS = [''nexthop'', ''ifname'', ''nexthop-vrf'', ''distance'', ''blackhole'']"

definition hop_count :: "row \<Rightarrow> nat" where
  "hop_count r = Max (insert 0 (set (map (\<lambda>v. length (split_on (CHR '','') v)) (List.map_filter (field r) ROUTE_FIELDS))))"

definition hops_from_row :: "row \<Rightarrow> next_hop list" where
  "hops_from_row r =
     (let count = hop_count r;
          gw = slots (field r ''nexthop'') count;
          ifname = slots (field r ''ifname'') count;
          nh_vrf = slots (field r ''nexthop-vrf'') count;
          dist = slots (field r ''distance'') count;
          bh = slots (field r ''blackhole'') count
      in map (\<lambda>i. \<lparr>gateway = non_empty (gw ! i), nh_interface = non_empty (ifname ! i),
                    nexthop_vrf = non_empty (nh_vrf ! i), blackhole = eq_ignore_case (bh ! i) ''true'',
                    distance = (case parse_uint 32 (dist ! i) of
                        Some d \<Rightarrow> if d > 0 then Some d else None | None \<Rightarrow> None)\<rparr>) [0..<count])"

definition join_hops :: "(next_hop \<Rightarrow> string) \<Rightarrow> next_hop list \<Rightarrow> string" where
  "join_hops f hops = join '','' (map f hops)"

definition row_from_hops :: "next_hop list \<Rightarrow> row" where
  "row_from_hops hops =
     [(''nexthop'', join_hops (\<lambda>h. opt_or (gateway h) []) hops),
      (''ifname'', join_hops (\<lambda>h. opt_or (nh_interface h) []) hops),
      (''nexthop-vrf'', join_hops (\<lambda>h. opt_or (nexthop_vrf h) []) hops),
      (''distance'', join_hops (\<lambda>h. show_nat (opt_or (distance h) 0)) hops),
      (''blackhole'', join_hops (\<lambda>h. bool_str (blackhole h)) hops)]"

section \<open>Reading\<close>

definition hop_doc :: "next_hop \<Rightarrow> json" where
  "hop_doc h = JObj
     [(''gateway'', jopt JStr (gateway h)), (''interface'', jopt JStr (nh_interface h)),
      (''nexthop_vrf'', jopt JStr (nexthop_vrf h)), (''blackhole'', JBool (blackhole h)),
      (''distance'', jopt JNum (distance h))]"

definition route_doc :: "route_input \<Rightarrow> json" where
  "route_doc r = JObj
     [(''vrf'', jopt JStr (ro_vrf r)), (''prefix'', JStr (ro_prefix r)),
      (''next_hops'', JArr (map hop_doc (ro_next_hops r)))]"

text \<open>The VRF and the prefix of a key; a bare prefix and \<open>default\<close> are the default VRF.\<close>

definition route_of_key :: "string \<Rightarrow> (string option \<times> string) option" where
  "route_of_key key = (case two_parts key ''STATIC_ROUTE|'' of
       Some (vrf, pfx) \<Rightarrow> Some (if vrf \<noteq> ''default'' then Some vrf else None, pfx)
     | None \<Rightarrow> map_option (\<lambda>pfx. (None, pfx)) (key_suffix key ''STATIC_ROUTE|''))"

definition route_entry :: "'s platform \<Rightarrow> string \<Rightarrow> ('s, string, route_input option) io" where
  "route_entry P key = (case route_of_key key of
       None \<Rightarrow> ret None
     | Some (vrf, pfx) \<Rightarrow> bnd (row_of P CONFIG_DB key) (\<lambda>r.
         ret (Some \<lparr>ro_vrf = vrf, ro_prefix = pfx, ro_next_hops = hops_from_row r\<rparr>)))"

definition route_cmp :: "route_input \<Rightarrow> route_input \<Rightarrow> ordering" where
  "route_cmp a b = then_cmp (cmp (opt_or (ro_vrf a) []) (opt_or (ro_vrf b) [])) (natural_cmp (ro_prefix a) (ro_prefix b))"

definition sr_get :: "'s platform \<Rightarrow> ('s, string, json) io" where
  "sr_get P =
     bnd (sr_capability P) (\<lambda>cap.
     bnd (scan P CONFIG_DB ''STATIC_ROUTE|*'') (\<lambda>ks.
     bnd (collect (route_entry P) ks) (\<lambda>entries.
       ret (JObj [(''capability'', cap_json cap),
                  (''routes'', JArr (map route_doc (sort_by route_cmp (List.map_filter id entries))))]))))"

section \<open>Validation\<close>

definition check_prefix :: "string \<Rightarrow> string + unit" where
  "check_prefix pfx =
     (let err = ''invalid prefix '' @ dbg pfx @ '' (expected an IPv4 or IPv6 CIDR)''
      in sbind (ok_or (split_once (CHR ''/'') pfx) err) (\<lambda>(ip, len).
         sbind (ok_or (parse_ip ip) err) (\<lambda>a.
         sbind (ok_or (parse_uint 8 len) err) (\<lambda>n.
           if n > (if is_ipv4 a then 32 else 128) then Inl err else Inr ()))))"

definition bad_value :: "string \<Rightarrow> bool" where
  "bad_value v \<longleftrightarrow> v = [] \<or> CHR '','' \<in> set v \<or> CHR ''|'' \<in> set v \<or> list_ex is_space v"

definition opt_list :: "'a option \<Rightarrow> 'a list" where
  "opt_list v = (case v of None \<Rightarrow> [] | Some x \<Rightarrow> [x])"

definition check_hop :: "next_hop \<Rightarrow> string + unit" where
  "check_hop h =
     (if blackhole h \<and> (gateway h \<noteq> None \<or> nh_interface h \<noteq> None) then
        Inl ''a blackhole hop cannot also have a gateway or interface''
      else if \<not> blackhole h \<and> gateway h = None \<and> nh_interface h = None then
        Inl ''each next hop needs a gateway and/or interface, or blackhole''
      else
        sbind (case gateway h of
                 Some gw \<Rightarrow> if parse_ip gw = None then Inl (''invalid gateway '' @ dbg gw) else Inr ()
               | None \<Rightarrow> Inr ()) (\<lambda>_.
        sbind (check_all (\<lambda>v. if bad_value v then Inl (''invalid value '' @ dbg v) else Inr ())
                 (opt_list (nh_interface h) @ opt_list (nexthop_vrf h))) (\<lambda>_.
        (case distance h of
           Some d \<Rightarrow> if \<not> (1 \<le> d \<and> d \<le> 255) then Inl (''invalid distance '' @ show_nat d @ '' (must be 1-255)'')
                     else Inr ()
         | None \<Rightarrow> Inr ()))))"

definition check_vrf :: "'s platform \<Rightarrow> string option \<Rightarrow> ('s, unit) handler" where
  "check_vrf P vrf = (case vrf of
       None \<Rightarrow> ret ()
     | Some v \<Rightarrow>
         if v = [] \<or> v = ''default'' then fail (BadRequest ''the default VRF is expressed as vrf: null'')
         else if CHR ''|'' \<in> set v \<or> list_ex is_space v then fail (BadRequest (''invalid VRF name '' @ dbg v))
         else bnd (map_err Redis (exists P CONFIG_DB (''VRF|'' @ v))) (\<lambda>e.
           if e then ret () else fail (BadRequest (''no such VRF '' @ v))))"

definition check_route :: "'s platform \<Rightarrow> route_input \<Rightarrow> ('s, unit) handler" where
  "check_route P r =
     bnd (lift (smap_err BadRequest (check_prefix (ro_prefix r)))) (\<lambda>_.
     bnd (check_vrf P (ro_vrf r)) (\<lambda>_.
     if ro_next_hops r = [] then fail (BadRequest ''a static route needs at least one next hop'')
     else lift (smap_err BadRequest (check_all check_hop (ro_next_hops r)))))"

definition keys_for :: "string option \<Rightarrow> string \<Rightarrow> string list" where
  "keys_for vrf pfx = (case vrf of
       Some v \<Rightarrow> [''STATIC_ROUTE|'' @ v @ ''|'' @ pfx]
     | None \<Rightarrow> [''STATIC_ROUTE|'' @ pfx, ''STATIC_ROUTE|default|'' @ pfx])"

section \<open>Writes\<close>

definition sr_put :: "'s platform \<Rightarrow> route_input \<Rightarrow> ('s, unit) handler" where
  "sr_put P r =
     bnd (require_supported P) (\<lambda>_.
     bnd (check_route P r) (\<lambda>_.
     let ks = keys_for (ro_vrf r) (ro_prefix r)
     in map_err Redis (apply_batch P
          (bnd (for_each (b_del P CONFIG_DB) ks) (\<lambda>_.
           b_hset P CONFIG_DB (hd ks) (row_from_hops (ro_next_hops r)))))))"

definition norm_vrf :: "string option \<Rightarrow> string option" where
  "norm_vrf v = (if v = Some ''default'' \<or> v = Some [] then None else v)"

primrec delete_found :: "'s platform \<Rightarrow> string list \<Rightarrow> bool \<Rightarrow> ('s, bool) handler" where
  "delete_found P [] found = ret found"
| "delete_found P (k # ks) found =
     bnd (map_err Redis (exists P CONFIG_DB k)) (\<lambda>e.
       if e then bnd (map_err Redis (del P CONFIG_DB k)) (\<lambda>_. delete_found P ks True)
       else delete_found P ks found)"

definition sr_delete :: "'s platform \<Rightarrow> route_key \<Rightarrow> ('s, unit) handler" where
  "sr_delete P k =
     bnd (require_supported P) (\<lambda>_.
     bnd (lift (smap_err BadRequest (check_prefix (rk_prefix k)))) (\<lambda>_.
     let vrf = norm_vrf (rk_vrf k) in
     bnd (delete_found P (keys_for vrf (rk_prefix k)) False) (\<lambda>found.
       if \<not> found then
         fail (NotFound (''no static route for '' @ rk_prefix k @ '' in '' @ opt_or vrf ''the default VRF''))
       else ret ())))"

section \<open>The codec is lossless\<close>

definition plain_part :: "string \<Rightarrow> bool" where
  "plain_part v \<longleftrightarrow> CHR '','' \<notin> set v \<and> (\<forall>c\<in>set v. \<not> is_space c)"

lemma set_join: "c \<in> set (join sep xs) \<Longrightarrow> c \<in> set sep \<or> (\<exists>x\<in>set xs. c \<in> set x)"
  by (induction sep xs rule: join.induct) auto

lemma join_plain_trim: "\<forall>x\<in>set xs. plain_part x \<Longrightarrow> trim (join '','' xs) = join '','' xs"
  by (rule trim_id) (auto dest!: set_join simp: plain_part_def, simp add: char_class_defs)

lemma trim_plain: "plain_part x \<Longrightarrow> trim x = x"
  by (simp add: plain_part_def trim_id)

lemma slots_join:
  assumes "xs \<noteq> []" "\<forall>x\<in>set xs. plain_part x" "map_of r f = Some (join '','' xs)"
  shows "slots (field r f) (length xs) = xs"
proof (cases "join '','' xs = []")
  case True
  have "xs = [[]]"
    using assms(1) True by (induction "'',''" xs rule: join.induct) auto
  with True assms show ?thesis by (simp add: field_def slots_def)
next
  case False
  then have "field r f = Some (join '','' xs)"
    using assms join_plain_trim [OF assms(2)] by (simp add: field_def)
  moreover have "split_on (CHR '','') (join '','' xs) = xs"
    using assms by (intro split_on_join) (auto simp: plain_part_def)
  moreover have "map trim xs = xs"
    using assms(2) trim_plain by (simp add: map_idI)
  ultimately show ?thesis by (simp add: slots_def)
qed

lemma field_split:
  assumes "xs \<noteq> []" "\<forall>x\<in>set xs. plain_part x" "map_of r f = Some (join '','' xs)" "field r f = Some v"
  shows "length (split_on (CHR '','') v) = length xs"
proof -
  have "v = join '','' xs"
    using assms join_plain_trim [OF assms(2)] by (simp add: field_def split: if_splits)
  then show ?thesis
    using assms split_on_join [of xs "CHR '',''"] by (auto simp: plain_part_def)
qed

lemma plain_show_nat [simp]: "plain_part (show_nat n)"
proof -
  have "\<not> is_digit (CHR '','')" by (simp add: char_class_defs)
  then show ?thesis using show_nat_no_char show_nat_digits not_space(1) by (auto simp: plain_part_def)
qed

lemma plain_bool [simp]: "plain_part (bool_str b)"
  by (simp add: plain_part_def bool_str_def char_class_defs)

lemma plain_Nil [simp]: "plain_part []"
  by (simp add: plain_part_def)

lemma not_bad_value: "\<not> bad_value v \<Longrightarrow> plain_part v \<and> v \<noteq> [] \<and> CHR ''|'' \<notin> set v"
  by (auto simp: bad_value_def plain_part_def list_ex_iff)

lemma parse_ip_plain: "parse_ip v = Some a \<Longrightarrow> plain_part v \<and> v \<noteq> []"
  using parse_ip_chars [of v a] ip_char_not by (auto simp: plain_part_def list_all_iff)

lemma check_hop_Inr:
  assumes "check_hop h = Inr u"
  shows "plain_part (opt_or (gateway h) []) \<and> gateway h \<noteq> Some [] \<and> plain_part (opt_or (nh_interface h) []) \<and>
    nh_interface h \<noteq> Some [] \<and> plain_part (opt_or (nexthop_vrf h) []) \<and> nexthop_vrf h \<noteq> Some [] \<and>
    (\<forall>d. distance h = Some d \<longrightarrow> 1 \<le> d \<and> d \<le> 255)"
proof -
  have gw: "gateway h = Some g \<Longrightarrow> plain_part g \<and> g \<noteq> []" for g
    using assms by (auto simp: check_hop_def split: if_splits dest!: parse_ip_plain)
  have ifn: "nh_interface h = Some g \<Longrightarrow> plain_part g \<and> g \<noteq> []" for g
    using assms by (auto simp: check_hop_def opt_list_def split: if_splits dest!: not_bad_value)
  have vrf: "nexthop_vrf h = Some g \<Longrightarrow> plain_part g \<and> g \<noteq> []" for g
    using assms by (auto simp: check_hop_def opt_list_def split: if_splits dest!: not_bad_value)
  have dist: "distance h = Some d \<Longrightarrow> 1 \<le> d \<and> d \<le> 255" for d
    using assms by (auto simp: check_hop_def split: if_splits)
  show ?thesis
    using dist by (cases "gateway h"; cases "nh_interface h"; cases "nexthop_vrf h") (auto dest: gw ifn vrf)
qed

lemma non_empty_opt: "v \<noteq> Some [] \<Longrightarrow> non_empty (opt_or v []) = v"
  by (cases v) (auto simp: non_empty_def)

lemma bool_str_true: "eq_ignore_case (bool_str b) ''true'' = b"
  by (cases b) (simp_all add: eq_ignore_case_def bool_str_def to_lower_def char_class_defs)

lemma hops_row_roundtrip:
  assumes "hops \<noteq> []" "\<forall>h\<in>set hops. check_hop h = Inr ()" "map_of r = map_of (row_from_hops hops)"
  shows "hops_from_row r = hops"
proof -
  note ok = check_hop_Inr
  have f: "map_of r ''nexthop'' = Some (join '','' (map (\<lambda>h. opt_or (gateway h) []) hops))"
    "map_of r ''ifname'' = Some (join '','' (map (\<lambda>h. opt_or (nh_interface h) []) hops))"
    "map_of r ''nexthop-vrf'' = Some (join '','' (map (\<lambda>h. opt_or (nexthop_vrf h) []) hops))"
    "map_of r ''distance'' = Some (join '','' (map (\<lambda>h. show_nat (opt_or (distance h) 0)) hops))"
    "map_of r ''blackhole'' = Some (join '','' (map (\<lambda>h. bool_str (blackhole h)) hops))"
    by (simp_all add: assms(3) row_from_hops_def join_hops_def)
  have p: "\<forall>x\<in>set (map (\<lambda>h. opt_or (gateway h) []) hops). plain_part x"
    "\<forall>x\<in>set (map (\<lambda>h. opt_or (nh_interface h) []) hops). plain_part x"
    "\<forall>x\<in>set (map (\<lambda>h. opt_or (nexthop_vrf h) []) hops). plain_part x"
    "\<forall>x\<in>set (map (\<lambda>h. show_nat (opt_or (distance h) 0)) hops). plain_part x"
    "\<forall>x\<in>set (map (\<lambda>h. bool_str (blackhole h)) hops). plain_part x"
    using assms(2) ok by auto
  have ne: "map g hops \<noteq> []" for g :: "next_hop \<Rightarrow> string" using assms(1) by simp
  note sl = slots_join [OF ne p(1) f(1)] slots_join [OF ne p(2) f(2)] slots_join [OF ne p(3) f(3)]
    slots_join [OF ne p(4) f(4)] slots_join [OF ne p(5) f(5)]
  note fs = field_split [OF ne p(1) f(1)] field_split [OF ne p(2) f(2)] field_split [OF ne p(3) f(3)]
    field_split [OF ne p(4) f(4)] field_split [OF ne p(5) f(5)]
  have count: "hop_count r = length hops"
  proof -
    have len: "length (split_on (CHR '','') v) = length hops" if "v \<in> set (List.map_filter (field r) ROUTE_FIELDS)" for v
      using that fs by (auto simp: ROUTE_FIELDS_def split: option.splits)
    have "join '','' (map (\<lambda>h. show_nat (opt_or (distance h) 0)) hops) \<noteq> []"
      using assms(1) by (intro join_nonempty) auto
    then have "field r ''distance'' \<noteq> None"
      using f(4) join_plain_trim [OF p(4)] by (simp add: field_def)
    then have "set (List.map_filter (field r) ROUTE_FIELDS) \<noteq> {}"
      by (auto simp: ROUTE_FIELDS_def split: option.splits)
    moreover have "set (map (\<lambda>v. length (split_on (CHR '','') v)) (List.map_filter (field r) ROUTE_FIELDS)) =
        (\<lambda>_. length hops) ` set (List.map_filter (field r) ROUTE_FIELDS)"
      using len unfolding set_map by (rule image_cong [OF refl])
    ultimately have "set (map (\<lambda>v. length (split_on (CHR '','') v)) (List.map_filter (field r) ROUTE_FIELDS)) = {length hops}"
      by (simp add: image_constant_conv)
    then show ?thesis by (simp add: hop_count_def)
  qed
  show ?thesis
  proof (rule nth_equalityI)
    show "length (hops_from_row r) = length hops" by (simp add: hops_from_row_def count Let_def)
    fix i assume "i < length (hops_from_row r)"
    then have i: "i < length hops" by (simp add: hops_from_row_def count Let_def)
    then have h: "check_hop (hops ! i) = Inr ()" using assms(2) by simp
    have "distance (hops ! i) = Some d \<Longrightarrow> d < 2 ^ 32" for d
      using ok [OF h] by fastforce
    then show "hops_from_row r ! i = hops ! i"
      using i ok [OF h] sl
      by (cases "distance (hops ! i)") (simp_all add: hops_from_row_def count non_empty_opt bool_str_true Let_def)
  qed
qed

section \<open>Handlers against the databases\<close>

context query_store
begin

lemma wp_require_supported:
  assumes "ok s" and "\<And>s'. ok s' \<Longrightarrow> view s' = view s \<Longrightarrow> Q () s'"
    and "\<And>s'. ok s' \<Longrightarrow> view s' = view s \<Longrightarrow> E (Conflict UNSUPPORTED) s'"
  shows "wp (require_supported P) Q E s"
  unfolding require_supported_def using assms by (intro wp_bnd wp_current wp_if wp_fail wp_ret) auto

lemma reads_sr_get: "reads (sr_get P)"
  unfolding sr_get_def sr_capability_def route_entry_def by (intro pure_io)

lemma wp_check_vrf: 
  assumes "ok s"
    and "\<And>s'. ok s' \<Longrightarrow> view s' = view s \<Longrightarrow> (\<And>v. vrf = Some v \<Longrightarrow> v \<noteq> [] \<and> v \<noteq> ''default'' \<and> CHR ''|'' \<notin> set v \<and>
       view s CONFIG_DB (''VRF|'' @ v) \<noteq> Map.empty) \<Longrightarrow> Q () s'"
    and "\<And>e s'. ok s' \<Longrightarrow> view s' = view s \<Longrightarrow> E e s'"
  shows "wp (check_vrf P vrf) Q E s"
  unfolding check_vrf_def using assms by (intro wp_intro wp_exists) auto

end

definition valid_route :: "dbs \<Rightarrow> route_input \<Rightarrow> bool" where
  "valid_route v r \<longleftrightarrow> check_prefix (ro_prefix r) = Inr () \<and> ro_next_hops r \<noteq> [] \<and>
     (\<forall>h\<in>set (ro_next_hops r). check_hop h = Inr ()) \<and>
     (\<forall>x. ro_vrf r = Some x \<longrightarrow> x \<noteq> [] \<and> x \<noteq> ''default'' \<and> CHR ''|'' \<notin> set x \<and> v CONFIG_DB (''VRF|'' @ x) \<noteq> Map.empty)"

definition route_put :: "route_input \<Rightarrow> dbs \<Rightarrow> dbs" where
  "route_put r v = v_hset CONFIG_DB (hd (keys_for (ro_vrf r) (ro_prefix r))) (row_from_hops (ro_next_hops r))
     (v_drop CONFIG_DB (\<lambda>k. k \<in> set (keys_for (ro_vrf r) (ro_prefix r))) v)"

context query_store
begin

lemma wp_check_route:
  assumes "ok s"
    and "\<And>s'. ok s' \<Longrightarrow> view s' = view s \<Longrightarrow> valid_route (view s) r \<Longrightarrow> Q () s'"
    and "\<And>e s'. ok s' \<Longrightarrow> view s' = view s \<Longrightarrow> E e s'"
  shows "wp (check_route P r) Q E s"
  unfolding check_route_def using assms
  by (intro wp_intro wp_check_vrf) (auto simp: valid_route_def)

lemma sr_put_wp:
  assumes "ok s"
  shows "wp (sr_put P r) (\<lambda>_ s'. ok s' \<and> valid_route (view s) r \<and> view s' = route_put r (view s))
    (\<lambda>_ s'. ok s' \<and> view s' = view s) s"
proof -
  have each: "for_each (b_del P CONFIG_DB) ks = for_each (\<lambda>k. if True then b_del P CONFIG_DB (id k) else ret ()) ks" for ks
    by simp
  show ?thesis
    unfolding sr_put_def each
  proof (rule wp_bnd, rule wp_require_supported [OF assms])
    fix s1 assume s1: "ok s1" "view s1 = view s"
    show "wp (bnd (check_route P r) (\<lambda>_. let ks = keys_for (ro_vrf r) (ro_prefix r)
     in map_err Redis (apply_batch P
          (bnd (for_each (\<lambda>k. if True then b_del P CONFIG_DB (id k) else ret ()) ks) (\<lambda>_.
           b_hset P CONFIG_DB (hd ks) (row_from_hops (ro_next_hops r)))))))
      (\<lambda>_ s'. ok s' \<and> valid_route (view s) r \<and> view s' = route_put r (view s))
      (\<lambda>_ s'. ok s' \<and> view s' = view s) s1"
      unfolding Let_def
      by (rule wp_bnd, rule wp_check_route [OF s1(1)], rule wp_map_err, rule wp_apply_batch,
          (intro bp_intros), assumption, intro wp_bnd wp_b_del_each wp_b_hset)
        (auto simp: s1 new_batch_def route_put_def)
  qed simp
qed

lemma wp_delete_found:
  assumes "ok s"
    and "\<And>b s'. ok s' \<Longrightarrow> view s' = v_drop CONFIG_DB (\<lambda>k. k \<in> set ks) (view s) \<Longrightarrow>
       b \<longleftrightarrow> found \<or> (\<exists>k\<in>set ks. view s CONFIG_DB k \<noteq> Map.empty) \<Longrightarrow> Q b s'"
    and "\<And>e s' q. ok s' \<Longrightarrow> (\<And>k. q k \<Longrightarrow> k \<in> set ks) \<Longrightarrow> view s' = v_drop CONFIG_DB q (view s) \<Longrightarrow> E (Redis e) s'"
  shows "wp (delete_found P ks found) Q E s"
  using assms
proof (induction ks arbitrary: s found)
  case Nil
  then show ?case by (simp add: wp_ret)
next
  case (Cons k ks)
  note none = Cons.prems(3) [of _ "\<lambda>_. False", simplified]
  show ?case
    unfolding delete_found.simps
  proof (rule wp_bnd, rule wp_map_err, rule wp_exists [OF Cons.prems(1)])
    fix b s1 assume s1: "ok s1" "view s1 = view s" and b: "b \<longleftrightarrow> view s CONFIG_DB k \<noteq> Map.empty"
    show "wp (if b then bnd (map_err Redis (del P CONFIG_DB k)) (\<lambda>_. delete_found P ks True) else delete_found P ks found) Q E s1"
    proof (rule wp_if)
      assume b1: b
      show "wp (bnd (map_err Redis (del P CONFIG_DB k)) (\<lambda>_. delete_found P ks True)) Q E s1"
      proof (rule wp_bnd, rule wp_map_err, rule wp_del [OF s1(1)])
        fix s2 assume s2: "ok s2" "view s2 = v_del CONFIG_DB k (view s1)"
        show "wp (delete_found P ks True) Q E s2"
        proof (rule Cons.IH [OF s2(1)])
          fix b' s3 assume "ok s3" "view s3 = v_drop CONFIG_DB (\<lambda>k. k \<in> set ks) (view s2)"
            "b' \<longleftrightarrow> True \<or> (\<exists>k\<in>set ks. view s2 CONFIG_DB k \<noteq> Map.empty)"
          then show "Q b' s3" using b b1 s1 s2
            by (intro Cons.prems(2)) (auto simp: v_del_drop disj_commute)
        next
          fix e s3 q assume "ok s3" "\<And>k. q k \<Longrightarrow> k \<in> set ks" "view s3 = v_drop CONFIG_DB q (view s2)"
          then show "E (Redis e) s3" using s1 s2
            by (intro Cons.prems(3) [of s3 "\<lambda>k'. q k' \<or> k' = k"]) (auto simp: v_del_drop)
        qed
      qed (use none s1 in auto)
    next
      assume b0: "\<not> b"
      show "wp (delete_found P ks found) Q E s1"
      proof (rule Cons.IH [OF s1(1)])
        fix b' s3 assume s3: "ok s3" "view s3 = v_drop CONFIG_DB (\<lambda>k. k \<in> set ks) (view s1)"
          "b' \<longleftrightarrow> found \<or> (\<exists>k\<in>set ks. view s1 CONFIG_DB k \<noteq> Map.empty)"
        have "v_drop CONFIG_DB (\<lambda>k. k \<in> set ks) (view s) = v_drop CONFIG_DB (\<lambda>x. x \<in> set (k # ks)) (view s)"
          using b b0 by (intro v_drop_cong) auto
        with s3 b b0 s1 show "Q b' s3"
          by (intro Cons.prems(2)) auto
      next
        fix e s3 q assume "ok s3" "\<And>k. q k \<Longrightarrow> k \<in> set ks" "view s3 = v_drop CONFIG_DB q (view s1)"
        then show "E (Redis e) s3" using s1 by (intro Cons.prems(3) [of s3 q]) auto
      qed
    qed
  qed (use none in auto)
qed

lemma sr_delete_wp:
  assumes "ok s"
  shows "wp (sr_delete P k)
    (\<lambda>_ s'. ok s' \<and> check_prefix (rk_prefix k) = Inr () \<and>
       (\<exists>key\<in>set (keys_for (norm_vrf (rk_vrf k)) (rk_prefix k)). view s CONFIG_DB key \<noteq> Map.empty) \<and>
       view s' = v_drop CONFIG_DB (\<lambda>key. key \<in> set (keys_for (norm_vrf (rk_vrf k)) (rk_prefix k))) (view s))
    (\<lambda>e s'. ok s' \<and> (\<exists>q. (\<forall>key. q key \<longrightarrow> key \<in> set (keys_for (norm_vrf (rk_vrf k)) (rk_prefix k))) \<and>
       view s' = v_drop CONFIG_DB q (view s)) \<and> ((\<exists>m. e = NotFound m) \<longrightarrow>
         (\<forall>key\<in>set (keys_for (norm_vrf (rk_vrf k)) (rk_prefix k)). view s CONFIG_DB key = Map.empty))) s"
proof -
  have same: "\<exists>q. (\<forall>key. q key \<longrightarrow> key \<in> K) \<and> view s = v_drop CONFIG_DB q (view s)" for K :: "string set"
    by (rule exI [of _ "\<lambda>_. False"]) simp
  have none: "v_drop CONFIG_DB (\<lambda>key. key \<in> K) (view s) = view s" if "\<forall>key\<in>K. view s CONFIG_DB key = Map.empty" for K
    using that by (subst v_drop_cong [where q = "\<lambda>_. False"]) auto
  show ?thesis
    unfolding sr_delete_def Let_def
  proof (rule wp_bnd, rule wp_require_supported [OF assms])
    fix s1 assume s1: "ok s1" "view s1 = view s"
    show "wp (bnd (lift (smap_err BadRequest (check_prefix (rk_prefix k)))) (\<lambda>_.
       bnd (delete_found P (keys_for (norm_vrf (rk_vrf k)) (rk_prefix k)) False) (\<lambda>found.
       if \<not> found then fail (NotFound (''no static route for '' @ rk_prefix k @ '' in '' @
           opt_or (norm_vrf (rk_vrf k)) ''the default VRF'')) else ret ())))
    (\<lambda>_ s'. ok s' \<and> check_prefix (rk_prefix k) = Inr () \<and>
       (\<exists>key\<in>set (keys_for (norm_vrf (rk_vrf k)) (rk_prefix k)). view s CONFIG_DB key \<noteq> Map.empty) \<and>
       view s' = v_drop CONFIG_DB (\<lambda>key. key \<in> set (keys_for (norm_vrf (rk_vrf k)) (rk_prefix k))) (view s))
    (\<lambda>e s'. ok s' \<and> (\<exists>q. (\<forall>key. q key \<longrightarrow> key \<in> set (keys_for (norm_vrf (rk_vrf k)) (rk_prefix k))) \<and>
       view s' = v_drop CONFIG_DB q (view s)) \<and> ((\<exists>m. e = NotFound m) \<longrightarrow>
         (\<forall>key\<in>set (keys_for (norm_vrf (rk_vrf k)) (rk_prefix k)). view s CONFIG_DB key = Map.empty))) s1"
      by (intro wp_intro wp_delete_found) (use s1 same in \<open>auto simp: none smap_err_Inl\<close>)
  qed (use same in simp)
qed

end

section \<open>Keys\<close>

lemma check_prefix_chars: "check_prefix p = Inr () \<Longrightarrow> CHR ''|'' \<notin> set p \<and> p \<noteq> []"
proof -
  assume "check_prefix p = Inr ()"
  then obtain ip len a n where p: "p = ip @ CHR ''/'' # len" and ip: "parse_ip ip = Some a" and len: "parse_uint 8 len = Some n"
    by (auto simp: check_prefix_def Let_def split_once_Some split: if_splits)
  have "CHR ''|'' \<notin> set ip" using parse_ip_chars [OF ip] ip_char_not by (auto simp: list_all_iff)
  moreover have "CHR ''|'' \<notin> set len"
    using parse_uint_chars [OF len, of "CHR ''|''"] by (auto simp: char_class_defs)
  ultimately show ?thesis by (simp add: p)
qed

lemma route_of_key_keys: "route_of_key key = Some (vrf, p) \<Longrightarrow> key \<in> set (keys_for vrf p)"
  by (auto simp: route_of_key_def keys_for_def two_parts_Some key_suffix_Some split: option.splits if_splits)

lemma route_of_key_hd:
  assumes "check_prefix p = Inr ()" "\<And>x. vrf = Some x \<Longrightarrow> x \<noteq> [] \<and> x \<noteq> ''default'' \<and> CHR ''|'' \<notin> set x"
  shows "route_of_key (hd (keys_for vrf p)) = Some (vrf, p)"
proof (cases vrf)
  case None
  have p: "CHR ''|'' \<notin> set p" "p \<noteq> []" using check_prefix_chars [OF assms(1)] by auto
  then have "two_parts (''STATIC_ROUTE|'' @ p) ''STATIC_ROUTE|'' = None"
    using split_once_None [THEN iffD2, of "CHR ''|''" p] by (simp add: two_parts_def)
  with None p show ?thesis by (simp add: route_of_key_def keys_for_def key_suffix_def)
next
  case (Some x)
  have "two_parts (''STATIC_ROUTE|'' @ x @ ''|'' @ p) ''STATIC_ROUTE|'' = Some (x, p)"
    unfolding two_parts_Some using assms(2) [OF Some] check_prefix_chars [OF assms(1)] by simp
  with Some assms(2) show ?thesis by (simp add: route_of_key_def keys_for_def)
qed

lemma row_from_hops_map: "map_of (rev (row_from_hops hops)) = map_of (row_from_hops hops)"
  by (rule map_of_rev_distinct) (simp add: row_from_hops_def)

end
