(* ===== verification/StaticRouteProps.thy ===== *)
theory StaticRouteProps
  imports StaticRoutes MemPlatform
begin

text \<open>
  The properties of the static route handlers, for every platform that keeps the store contract and
  whose probe commands only report, with runs on the in-memory platform.
\<close>

text \<open>
  C15. The static route codec loses nothing: every hop list that passes validation is read back
  unchanged from the row it is written as, in whatever order the fields come.
\<close>

theorem static_route_codec:
  assumes "hops \<noteq> []" "\<forall>h\<in>set hops. check_hop h = Inr ()" "map_of r = map_of (row_from_hops hops)"
  shows "hops_from_row r = hops"
  by (rule hops_row_roundtrip [OF assms])

definition demo_hops :: "next_hop list" where
  "demo_hops = [\<lparr>gateway = Some ''10.0.0.1'', nh_interface = None, nexthop_vrf = Some ''VrfRed'', blackhole = False, distance = None\<rparr>,
     \<lparr>gateway = None, nh_interface = None, nexthop_vrf = None, blackhole = True, distance = Some 250\<rparr>]"

lemma demo_hops_ok: "\<forall>h\<in>set demo_hops. check_hop h = Inr ()"
  by (simp add: demo_hops_def check_hop_def opt_list_def bad_value_def ip_run run)

theorem static_route_codec_witness:
  "hops_from_row [(''blackhole'', ''false,true''), (''distance'', ''0,250''), (''nexthop-vrf'', ''VrfRed,''),
     (''ifname'', '',''), (''nexthop'', ''10.0.0.1,'')] = demo_hops"
  by (rule static_route_codec [OF _ demo_hops_ok])
    (auto simp: demo_hops_def row_from_hops_def join_hops_def fun_eq_iff run)

text \<open>
  C16. After an upsert of a static route exactly one row of the table stands for its VRF and prefix, and
  it decodes to the hops of the request. In particular the two spellings of the default VRF never
  coexist. No other key changes, and an upsert that fails changes nothing.
\<close>

theorem static_route_put_unique:
  assumes "query_store P view ok up" "ok s" "sr_put P route s = (r, s')"
  shows "ok s' \<and> (case r of
      Inl _ \<Rightarrow> view s' = view s
    | Inr _ \<Rightarrow> (let key = hd (keys_for (ro_vrf route) (ro_prefix route)) in
        (\<forall>k. view s' CONFIG_DB k \<noteq> Map.empty \<and> route_of_key k = Some (ro_vrf route, ro_prefix route) \<longleftrightarrow> k = key) \<and>
        (\<forall>row. map_of row = view s' CONFIG_DB key \<longrightarrow> hops_from_row row = ro_next_hops route) \<and>
        (\<forall>d k. d \<noteq> CONFIG_DB \<or> k \<notin> set (keys_for (ro_vrf route) (ro_prefix route)) \<longrightarrow> view s' d k = view s d k)))"
proof -
  note res = wp_result [OF query_store.sr_put_wp [OF assms(1), OF assms(2)], OF assms(3)]
  show ?thesis
  proof (cases r)
    case (Inl e)
    with res show ?thesis by simp
  next
    case (Inr u)
    let ?ks = "keys_for (ro_vrf route) (ro_prefix route)"
    from res Inr have ok: "ok s'" and valid: "valid_route (view s) route" and v: "view s' = route_put route (view s)"
      by auto
    have hd_in: "hd ?ks \<in> set ?ks" by (simp add: keys_for_def split: option.split)
    have key: "route_of_key (hd ?ks) = Some (ro_vrf route, ro_prefix route)"
      using valid by (intro route_of_key_hd) (auto simp: valid_route_def)
    have hops: "ro_next_hops route \<noteq> []" "\<forall>h\<in>set (ro_next_hops route). check_hop h = Inr ()"
      using valid by (auto simp: valid_route_def)
    have row: "view s' CONFIG_DB (hd ?ks) = map_of (row_from_hops (ro_next_hops route))"
      using hd_in by (simp add: v route_put_def row_from_hops_map)
    have other: "view s' d k = (if d = CONFIG_DB \<and> k \<in> set ?ks then Map.empty else view s d k)" if "(d, k) \<noteq> (CONFIG_DB, hd ?ks)" for d k
      using that by (simp add: v route_put_def)
    have "row_from_hops (ro_next_hops route) \<noteq> []" by (simp add: row_from_hops_def)
    then have uniq: "view s' CONFIG_DB k \<noteq> Map.empty \<and> route_of_key k = Some (ro_vrf route, ro_prefix route) \<longleftrightarrow> k = hd ?ks" for k
      using other [of CONFIG_DB k] route_of_key_keys [of k] row key by auto
    have "hops_from_row row = ro_next_hops route" if "map_of row = view s' CONFIG_DB (hd ?ks)" for row
      using hops that row by (intro hops_row_roundtrip) auto
    moreover have "view s' d k = view s d k" if "d \<noteq> CONFIG_DB \<or> k \<notin> set ?ks" for d k
      using that hd_in by (subst other) auto
    ultimately show ?thesis using uniq ok Inr by (simp add: Let_def)
  qed
qed


definition demo_bgp :: mem where
  "demo_bgp = mem_seed CONFIG_DB ''FEATURE|bgp'' [(''state'', ''enabled'')]
     (mem_seed CONFIG_DB ''STATIC_ROUTE|default|10.9.0.0/16'' [(''nexthop'', ''10.0.0.9'')] mem_new)"

definition demo_route :: route_input where
  "demo_route = \<lparr>ro_vrf = None, ro_prefix = ''10.9.0.0/16'', ro_next_hops = [\<lparr>gateway = Some ''10.0.0.1'',
     nh_interface = None, nexthop_vrf = None, blackhole = False, distance = None\<rparr>]\<rparr>"

lemma demo_bgp_ok: "mem_ok demo_bgp"
  by (simp add: demo_bgp_def mem_seed_ok)

lemma demo_current: "\<exists>p s'. current mem_platform demo_bgp = (Inr p, s') \<and> bgp_available p \<and> m_dbs s' = m_dbs demo_bgp \<and> m_fail_at s' = None"
  apply (simp add: current_def gather_def io_of_def demo_bgp_def feature_entry_def command_lines_def mem_read_file_def mem_run_def ok_output_def
    assemble_def bgp_available_def has_feature_def run)
  done


lemma demo_put: "\<exists>s'. sr_put mem_platform demo_route demo_bgp = (Inr (), s')"
proof -
  obtain p s1 where c: "(current mem_platform :: (mem, write_error, probe) io) demo_bgp = (Inr p, s1)" "bgp_available p"
    "m_dbs s1 = m_dbs demo_bgp" "m_fail_at s1 = None"
    using demo_current by blast
  have h: "check_all check_hop (ro_next_hops demo_route) = Inr ()" "check_prefix (ro_prefix demo_route) = Inr ()"
    by (simp_all add: demo_route_def check_hop_def check_prefix_def opt_list_def ip_run run)
  have k: "keys_for None (ro_prefix demo_route) = [''STATIC_ROUTE|10.9.0.0/16'', ''STATIC_ROUTE|default|10.9.0.0/16'']"
    "ro_vrf demo_route = None" "ro_next_hops demo_route \<noteq> []"
    by (simp_all add: demo_route_def keys_for_def)
  show ?thesis
    by (simp add: sr_put_def require_supported_def check_route_def check_vrf_def c h k run del: check_all_Inr)
qed


theorem static_route_put_unique_witness:
  "\<exists>s'. sr_put mem_platform demo_route demo_bgp = (Inr (), s') \<and>
     mem_view s' CONFIG_DB ''STATIC_ROUTE|default|10.9.0.0/16'' = Map.empty \<and>
     mem_view s' CONFIG_DB ''STATIC_ROUTE|10.9.0.0/16'' \<noteq> Map.empty"
proof -
  obtain s' where exec: "sr_put mem_platform demo_route demo_bgp = (Inr (), s')" using demo_put by blast
  have k: "ro_vrf demo_route = None" "ro_prefix demo_route = ''10.9.0.0/16''" by (simp_all add: demo_route_def)
  have r: "route_of_key ''STATIC_ROUTE|default|10.9.0.0/16'' = Some (None, ''10.9.0.0/16'')"
    "route_of_key ''STATIC_ROUTE|10.9.0.0/16'' = Some (None, ''10.9.0.0/16'')"
    by (simp_all add: route_of_key_def two_parts_def key_suffix_def)
  from static_route_put_unique [OF mem_query.query_store_axioms, OF demo_bgp_ok, OF exec]
  have "mem_view s' CONFIG_DB k \<noteq> Map.empty \<and> route_of_key k = Some (None, ''10.9.0.0/16'') \<longleftrightarrow> k = ''STATIC_ROUTE|10.9.0.0/16''" for k
    by (simp add: Let_def k keys_for_def)
  from this [of "''STATIC_ROUTE|default|10.9.0.0/16''"] this [of "''STATIC_ROUTE|10.9.0.0/16''"] r exec show ?thesis
    by simp
qed

text \<open>
  Deleting a static route removes every spelling of its key and nothing else, and reports
  not-found exactly when no spelling was stored.
\<close>

lemma static_route_delete_spec:
  assumes "query_store P view ok up" "ok s" "sr_delete P k s = (r, s')"
  shows "let ks = set (keys_for (norm_vrf (rk_vrf k)) (rk_prefix k)) in ok s' \<and> (case r of
      Inr _ \<Rightarrow> (\<exists>key\<in>ks. view s CONFIG_DB key \<noteq> Map.empty) \<and> view s' = v_drop CONFIG_DB (\<lambda>key. key \<in> ks) (view s)
    | Inl _ \<Rightarrow> (\<forall>d key. view s' d key = view s d key \<or> d = CONFIG_DB \<and> key \<in> ks \<and> view s' d key = Map.empty)) \<and>
    ((\<exists>m. r = Inl (NotFound m)) \<longrightarrow> (\<forall>key\<in>ks. view s CONFIG_DB key = Map.empty))"
proof -
  note res = wp_result [OF query_store.sr_delete_wp [OF assms(1), OF assms(2)], OF assms(3)]
  then show ?thesis
  proof (cases r)
    case (Inl e)
    with res obtain q where "ok s'" "\<forall>key. q key \<longrightarrow> key \<in> set (keys_for (norm_vrf (rk_vrf k)) (rk_prefix k))"
      "view s' = v_drop CONFIG_DB q (view s)" by auto
    with Inl res show ?thesis by (auto simp: Let_def)
  qed (auto simp: Let_def)
qed

end
