(* ===== verification/Router.thy ===== *)
theory Router
  imports RustStd
begin

text \<open>
  The management API's router, \<^verbatim>\<open>src/src/sonic/mgmtapi.rs\<close>: \<open>route\<close>, \<open>route_item\<close>,
  \<open>route_features\<close>, \<open>item_name\<close> and \<open>percent_decode\<close>.

  The enum \<open>Route\<close> is split by page into one datatype each, wrapped in \<open>route\<close>. The match on
  path segments is a table of arms in the order of the source: a pattern, the text of the
  \<open>allowed\<close> list of the arm, and for the captured segments the methods the arm serves with their
  routes, or \<open>None\<close> where the arm answers \<open>NotFound\<close> because a captured number or protocol does
  not parse. The first arm whose pattern matches decides, as in a Rust \<open>match\<close>.
\<close>

section \<open>Routes\<close>

datatype aaa_proto = Tacacs | Radius

datatype switching_route =
    SwitchingPorts | PortUpdate string
  | SwitchingPortChannels | PortChannelCreate | PortChannelUpdate string | PortChannelDelete string
  | SwitchingVlans | VlanCreate | VlanUpdate nat | VlanDelete nat
  | StpGet | StpGlobalPut | StpVlanPut nat | StpPortPut string
  | LoopGet | LoopPortPut string | LoopRecover string
  | LldpGet | LldpConfigPut
  | IgmpGet | IgmpVlanPut nat
  | MirrorGet | MirrorSessionPut string | MirrorSessionDelete string
  | StormControlGet | StormControlPortPut string
  | FdbGet | FdbSettingsPut | FdbStaticPut nat string | FdbStaticDelete nat string | FdbTableGet
  | SflowGet | SflowPut | SflowPortPut string

datatype routing_route =
    DhcpRelayGet | DhcpRelayVlanPut nat
  | L3Get | L3Create | L3Put string | L3Delete string
  | VrfsGet | VrfCreate | VrfPut string | VrfDelete string | MgmtVrfPut
  | BgpGet | BgpGlobalPut string | BgpNeighborCreate | BgpNeighborPut string string
  | BgpNeighborDelete string string
  | OspfGet | OspfInstancePut string | OspfAreaPut string string | OspfAreaDelete string string
  | OspfInterfacePut string
  | IsisGet | IsisInstancePut | IsisInterfacePut string
  | StaticRoutesGet | StaticRoutePut | StaticRouteDelete
  | PolicyGet | PolicyPrefixListPut string | PolicyPrefixListDelete string
  | PolicyRouteMapPut string | PolicyRouteMapDelete string
  | BfdGet | BfdPeerPut | BfdPeerDelete | BfdSessionsGet
  | VxlanGet | VxlanVtepPut | VxlanVtepDelete | VxlanMapsPut | VxlanStatusGet

datatype system_route =
    SystemInfo | SystemHealth | SystemReboot
  | SystemGeneralGet | SystemGeneralPut | SystemManagementGet | SystemManagementPut
  | UsersGet | UserCreate | UserPut string | UserDelete string
  | SnmpGet | SnmpPut
  | MaintenanceGet | MaintenanceSaveConfig | MaintenanceSetNextImage | MaintenanceInstallImage
  | MaintenanceBackup | MaintenanceRestore

datatype security_route =
    AclsGet | AclCreate | AclPut string | AclDelete string
  | AclRulePut string nat | AclRuleDelete string nat
  | AaaGet | AaaAuthPut | AaaGlobalPut aaa_proto | AaaServerCreate aaa_proto
  | AaaServerPut aaa_proto string | AaaServerDelete aaa_proto string

datatype ha_route =
    MclagGet | MclagPut | MclagDelete
  | VrrpGet | VrrpPut string nat | VrrpDelete string nat

datatype qos_route =
    QosGet | QosDscpMapPut string | QosDscpMapDelete string | QosPortPut string

datatype route =
    Switching switching_route | Routing routing_route | System system_route
  | Security security_route | Ha ha_route | Qos qos_route
  | RouteNotFound
  | MethodNotAllowed string

text \<open>\<open>aaa::Proto::from_path\<close>.\<close>

definition proto_from_path :: "string \<Rightarrow> aaa_proto option" where
  "proto_from_path s = (if s = ''tacacs'' then Some Tacacs else if s = ''radius'' then Some Radius else None)"

section \<open>Percent decoding\<close>

text \<open>\<open>u8::from_str_radix(hex, 16)\<close> on two bytes: a leading plus sign is accepted.\<close>

definition hex_byte :: "char \<Rightarrow> char \<Rightarrow> nat option" where
  "hex_byte a b =
     (if is_hexdigit a \<and> is_hexdigit b then Some (16 * hex_val a + hex_val b)
      else if a = CHR ''+'' \<and> is_hexdigit b then Some (hex_val b) else None)"

text \<open>The loop over the bytes; \<open>s.get(i + 1..i + 3)\<close> is \<open>None\<close> past the end.\<close>

fun decode_bytes :: "string \<Rightarrow> string" where
  "decode_bytes [] = []"
| "decode_bytes (c # cs) =
     (if c = CHR ''%'' then
        (case cs of
           a # b # rest \<Rightarrow>
             (case hex_byte a b of Some v \<Rightarrow> char_of v # decode_bytes rest | None \<Rightarrow> c # decode_bytes cs)
         | _ \<Rightarrow> c # decode_bytes cs)
      else c # decode_bytes cs)"

text \<open>
  \<open>String::from_utf8_lossy\<close>: every maximal invalid part becomes U+FFFD. \<open>utf8_head\<close> is the length of
  the valid character at the front, or that of the invalid part.
\<close>

definition in_range :: "nat \<Rightarrow> nat \<Rightarrow> string \<Rightarrow> nat \<Rightarrow> bool" where
  "in_range lo hi s i \<longleftrightarrow> i < length s \<and> lo \<le> byte (s ! i) \<and> byte (s ! i) \<le> hi"

definition utf8_second :: "nat \<Rightarrow> nat \<times> nat" where
  "utf8_second b = (if b = 224 then (160, 191) else if b = 237 then (128, 159)
     else if b = 240 then (144, 191) else if b = 244 then (128, 143) else (128, 191))"

definition utf8_head :: "string \<Rightarrow> bool \<times> nat" where
  "utf8_head s =
     (let b = byte (hd s); (lo, hi) = utf8_second b in
      if b < 128 then (True, 1)
      else if b < 194 \<or> 244 < b then (False, 1)
      else if \<not> in_range lo hi s 1 then (False, 1)
      else if b < 224 then (True, 2)
      else if \<not> in_range 128 191 s 2 then (False, 2)
      else if b < 240 then (True, 3)
      else if \<not> in_range 128 191 s 3 then (False, 3)
      else (True, 4))"

definition replacement :: string where
  "replacement = [char_of (239::nat), char_of (191::nat), char_of (189::nat)]"

lemma utf8_head_pos: "0 < snd (utf8_head s)"
  by (simp add: utf8_head_def Let_def split: prod.split)

function utf8_lossy :: "string \<Rightarrow> string" where
  "utf8_lossy s = (if s = [] then []
     else (case utf8_head s of (valid, n) \<Rightarrow>
       (if valid then take n s else replacement) @ utf8_lossy (drop n s)))"
  by pat_completeness auto
termination
proof (relation "measure length")
  fix s v n
  assume "s \<noteq> []" "(v, n) = utf8_head s"
  with utf8_head_pos [of s] show "(drop n s, s) \<in> measure length"
    by (cases "utf8_head s") simp
qed simp

declare utf8_lossy.simps [simp del]

definition percent_decode :: "string \<Rightarrow> string" where
  "percent_decode s = utf8_lossy (decode_bytes s)"

section \<open>Matching path segments\<close>

datatype seg = L string | V

text \<open>The captured segments of a match.\<close>

fun match_segs :: "seg list \<Rightarrow> string list \<Rightarrow> string list option" where
  "match_segs [] [] = Some []"
| "match_segs (L l # ps) (s # ss) = (if s = l then match_segs ps ss else None)"
| "match_segs (V # ps) (s # ss) = map_option (\<lambda>cs. s # cs) (match_segs ps ss)"
| "match_segs _ _ = None"

text \<open>One arm: the pattern, the \<open>allowed\<close> text, and what the arm serves for the captures.\<close>

type_synonym serves = "(string \<times> route) list"

record arm =
  a_pattern :: "seg list"
  a_allowed :: string
  a_serves :: "string list \<Rightarrow> serves option"

definition dispatch :: "string \<Rightarrow> string \<Rightarrow> serves option \<Rightarrow> route" where
  "dispatch meth allowed ms = (case ms of
       None \<Rightarrow> RouteNotFound
     | Some rs \<Rightarrow> (case map_of rs meth of Some r \<Rightarrow> r | None \<Rightarrow> MethodNotAllowed allowed))"

text \<open>\<open>need\<close>: one method; the two and three method matches of the source.\<close>

definition need :: "seg list \<Rightarrow> string \<Rightarrow> (string list \<Rightarrow> route option) \<Rightarrow> arm" where
  "need pat want f = \<lparr>a_pattern = pat, a_allowed = want,
     a_serves = (\<lambda>cs. map_option (\<lambda>r. [(want, r)]) (f cs))\<rparr>"

definition on_methods :: "seg list \<Rightarrow> string \<Rightarrow> (string list \<Rightarrow> serves option) \<Rightarrow> arm" where
  "on_methods pat allowed f = \<lparr>a_pattern = pat, a_allowed = allowed, a_serves = f\<rparr>"

abbreviation api :: "string \<Rightarrow> seg list" where
  "api page \<equiv> [L ''api'', L page]"

abbreviation put_delete :: "route \<Rightarrow> route \<Rightarrow> serves" where
  "put_delete p d \<equiv> [(''PUT'', p), (''DELETE'', d)]"

text \<open>Captured segments: the first, the second; a segment that must parse as \<open>u32\<close>.\<close>

abbreviation c0 :: "string list \<Rightarrow> string" where "c0 cs \<equiv> cs ! 0"
abbreviation c1 :: "string list \<Rightarrow> string" where "c1 cs \<equiv> cs ! 1"

definition u32 :: "string \<Rightarrow> (nat \<Rightarrow> 'a) \<Rightarrow> 'a option" where
  "u32 s f = map_option f (parse_uint 32 s)"

definition proto :: "string \<Rightarrow> (aaa_proto \<Rightarrow> 'a) \<Rightarrow> 'a option" where
  "proto s f = map_option f (proto_from_path s)"

definition switching_arms :: "arm list" where
  "switching_arms =
    [need (api ''switching'' @ [L ''spanning-tree'']) ''GET'' (\<lambda>_. Some (Switching StpGet)),
     need (api ''switching'' @ [L ''spanning-tree'', L ''global'']) ''PUT'' (\<lambda>_. Some (Switching StpGlobalPut)),
     need (api ''switching'' @ [L ''spanning-tree'', L ''vlans'', V]) ''PUT''
       (\<lambda>cs. u32 (c0 cs) (\<lambda>id. Switching (StpVlanPut id))),
     need (api ''switching'' @ [L ''spanning-tree'', L ''ports'', V]) ''PUT''
       (\<lambda>cs. Some (Switching (StpPortPut (c0 cs)))),
     need (api ''switching'' @ [L ''loop-protection'']) ''GET'' (\<lambda>_. Some (Switching LoopGet)),
     need (api ''switching'' @ [L ''loop-protection'', L ''ports'', V]) ''PUT''
       (\<lambda>cs. Some (Switching (LoopPortPut (c0 cs)))),
     need (api ''switching'' @ [L ''loop-protection'', L ''ports'', V, L ''recover'']) ''POST''
       (\<lambda>cs. Some (Switching (LoopRecover (c0 cs)))),
     need (api ''switching'' @ [L ''lldp'']) ''GET'' (\<lambda>_. Some (Switching LldpGet)),
     need (api ''switching'' @ [L ''lldp'', L ''config'']) ''PUT'' (\<lambda>_. Some (Switching LldpConfigPut)),
     need (api ''switching'' @ [L ''igmp-snooping'']) ''GET'' (\<lambda>_. Some (Switching IgmpGet)),
     need (api ''switching'' @ [L ''igmp-snooping'', L ''vlans'', V]) ''PUT''
       (\<lambda>cs. u32 (c0 cs) (\<lambda>id. Switching (IgmpVlanPut id))),
     need (api ''switching'' @ [L ''mirror-sessions'']) ''GET'' (\<lambda>_. Some (Switching MirrorGet)),
     on_methods (api ''switching'' @ [L ''mirror-sessions'', V]) ''PUT, DELETE''
       (\<lambda>cs. Some (put_delete (Switching (MirrorSessionPut (c0 cs))) (Switching (MirrorSessionDelete (c0 cs))))),
     need (api ''switching'' @ [L ''storm-control'']) ''GET'' (\<lambda>_. Some (Switching StormControlGet)),
     need (api ''switching'' @ [L ''storm-control'', V]) ''PUT''
       (\<lambda>cs. Some (Switching (StormControlPortPut (c0 cs)))),
     need (api ''switching'' @ [L ''fdb'']) ''GET'' (\<lambda>_. Some (Switching FdbGet)),
     need (api ''switching'' @ [L ''fdb'', L ''settings'']) ''PUT'' (\<lambda>_. Some (Switching FdbSettingsPut)),
     need (api ''switching'' @ [L ''fdb'', L ''table'']) ''GET'' (\<lambda>_. Some (Switching FdbTableGet)),
     on_methods (api ''switching'' @ [L ''fdb'', L ''static'', V, V]) ''PUT, DELETE''
       (\<lambda>cs. u32 (c0 cs) (\<lambda>id. put_delete (Switching (FdbStaticPut id (percent_decode (c1 cs))))
                                            (Switching (FdbStaticDelete id (percent_decode (c1 cs)))))),
     on_methods (api ''switching'' @ [L ''sflow'']) ''GET, PUT''
       (\<lambda>_. Some [(''GET'', Switching SflowGet), (''PUT'', Switching SflowPut)]),
     need (api ''switching'' @ [L ''sflow'', L ''ports'', V]) ''PUT''
       (\<lambda>cs. Some (Switching (SflowPortPut (c0 cs))))]"

definition l3_arms :: "arm list" where
  "l3_arms =
    [on_methods (api ''routing'' @ [L ''l3-interfaces'']) ''GET, POST''
       (\<lambda>_. Some [(''GET'', Routing L3Get), (''POST'', Routing L3Create)]),
     on_methods (api ''routing'' @ [L ''l3-interfaces'', V]) ''PUT, DELETE''
       (\<lambda>cs. Some (put_delete (Routing (L3Put (c0 cs))) (Routing (L3Delete (c0 cs))))),
     on_methods (api ''routing'' @ [L ''vrfs'']) ''GET, POST''
       (\<lambda>_. Some [(''GET'', Routing VrfsGet), (''POST'', Routing VrfCreate)]),
     need (api ''routing'' @ [L ''vrfs'', L ''mgmt'']) ''PUT'' (\<lambda>_. Some (Routing MgmtVrfPut)),
     on_methods (api ''routing'' @ [L ''vrfs'', V]) ''PUT, DELETE''
       (\<lambda>cs. Some (put_delete (Routing (VrfPut (c0 cs))) (Routing (VrfDelete (c0 cs)))))]"

definition igp_arms :: "arm list" where
  "igp_arms =
    [need (api ''routing'' @ [L ''bgp'']) ''GET'' (\<lambda>_. Some (Routing BgpGet)),
     need (api ''routing'' @ [L ''bgp'', L ''globals'', V]) ''PUT'' (\<lambda>cs. Some (Routing (BgpGlobalPut (c0 cs)))),
     need (api ''routing'' @ [L ''bgp'', L ''neighbors'']) ''POST'' (\<lambda>_. Some (Routing BgpNeighborCreate)),
     on_methods (api ''routing'' @ [L ''bgp'', L ''neighbors'', V, V]) ''PUT, DELETE''
       (\<lambda>cs. Some (put_delete (Routing (BgpNeighborPut (c0 cs) (c1 cs))) (Routing (BgpNeighborDelete (c0 cs) (c1 cs))))),
     need (api ''routing'' @ [L ''ospf'']) ''GET'' (\<lambda>_. Some (Routing OspfGet)),
     need (api ''routing'' @ [L ''ospf'', L ''instances'', V]) ''PUT''
       (\<lambda>cs. Some (Routing (OspfInstancePut (c0 cs)))),
     on_methods (api ''routing'' @ [L ''ospf'', L ''instances'', V, L ''areas'', V]) ''PUT, DELETE''
       (\<lambda>cs. Some (put_delete (Routing (OspfAreaPut (c0 cs) (c1 cs))) (Routing (OspfAreaDelete (c0 cs) (c1 cs))))),
     need (api ''routing'' @ [L ''ospf'', L ''interfaces'', V]) ''PUT''
       (\<lambda>cs. Some (Routing (OspfInterfacePut (c0 cs)))),
     need (api ''routing'' @ [L ''isis'']) ''GET'' (\<lambda>_. Some (Routing IsisGet)),
     need (api ''routing'' @ [L ''isis'', L ''instance'']) ''PUT'' (\<lambda>_. Some (Routing IsisInstancePut)),
     need (api ''routing'' @ [L ''isis'', L ''interfaces'', V]) ''PUT''
       (\<lambda>cs. Some (Routing (IsisInterfacePut (c0 cs))))]"

definition routing_arms :: "arm list" where
  "routing_arms =
    [on_methods (api ''routing'' @ [L ''static-routes'']) ''GET, PUT''
       (\<lambda>_. Some [(''GET'', Routing StaticRoutesGet), (''PUT'', Routing StaticRoutePut)]),
     need (api ''routing'' @ [L ''static-routes'', L ''delete'']) ''POST'' (\<lambda>_. Some (Routing StaticRouteDelete)),
     need (api ''routing'' @ [L ''dhcp-relay'']) ''GET'' (\<lambda>_. Some (Routing DhcpRelayGet)),
     need (api ''routing'' @ [L ''dhcp-relay'', V]) ''PUT''
       (\<lambda>cs. u32 (c0 cs) (\<lambda>id. Routing (DhcpRelayVlanPut id))),
     need (api ''routing'' @ [L ''bfd'']) ''GET'' (\<lambda>_. Some (Routing BfdGet)),
     need (api ''routing'' @ [L ''bfd'', L ''peers'']) ''PUT'' (\<lambda>_. Some (Routing BfdPeerPut)),
     need (api ''routing'' @ [L ''bfd'', L ''peers'', L ''delete'']) ''POST'' (\<lambda>_. Some (Routing BfdPeerDelete)),
     need (api ''routing'' @ [L ''bfd'', L ''sessions'']) ''GET'' (\<lambda>_. Some (Routing BfdSessionsGet)),
     need (api ''routing'' @ [L ''vxlan'']) ''GET'' (\<lambda>_. Some (Routing VxlanGet)),
     on_methods (api ''routing'' @ [L ''vxlan'', L ''vtep'']) ''PUT, DELETE''
       (\<lambda>_. Some (put_delete (Routing VxlanVtepPut) (Routing VxlanVtepDelete))),
     need (api ''routing'' @ [L ''vxlan'', L ''maps'']) ''PUT'' (\<lambda>_. Some (Routing VxlanMapsPut)),
     need (api ''routing'' @ [L ''vxlan'', L ''status'']) ''GET'' (\<lambda>_. Some (Routing VxlanStatusGet))]"

definition ha_arms :: "arm list" where
  "ha_arms =
    [on_methods (api ''ha'' @ [L ''mclag'']) ''GET, PUT, DELETE''
       (\<lambda>_. Some [(''GET'', Ha MclagGet), (''PUT'', Ha MclagPut), (''DELETE'', Ha MclagDelete)]),
     need (api ''ha'' @ [L ''vrrp'']) ''GET'' (\<lambda>_. Some (Ha VrrpGet)),
     on_methods (api ''ha'' @ [L ''vrrp'', V, V]) ''PUT, DELETE''
       (\<lambda>cs. u32 (c1 cs) (\<lambda>vrid. put_delete (Ha (VrrpPut (percent_decode (c0 cs)) vrid))
                                              (Ha (VrrpDelete (percent_decode (c0 cs)) vrid)))),
     need [L ''api'', L ''qos''] ''GET'' (\<lambda>_. Some (Qos QosGet)),
     on_methods (api ''qos'' @ [L ''dscp-maps'', V]) ''PUT, DELETE''
       (\<lambda>cs. Some (put_delete (Qos (QosDscpMapPut (percent_decode (c0 cs)))) (Qos (QosDscpMapDelete (percent_decode (c0 cs)))))),
     need (api ''qos'' @ [L ''ports'', V]) ''PUT'' (\<lambda>cs. Some (Qos (QosPortPut (percent_decode (c0 cs)))))]"

definition policy_arms :: "arm list" where
  "policy_arms =
    [need (api ''routing'' @ [L ''policy'']) ''GET'' (\<lambda>_. Some (Routing PolicyGet)),
     on_methods (api ''routing'' @ [L ''policy'', L ''prefix-lists'', V]) ''PUT, DELETE''
       (\<lambda>cs. Some (put_delete (Routing (PolicyPrefixListPut (c0 cs))) (Routing (PolicyPrefixListDelete (c0 cs))))),
     on_methods (api ''routing'' @ [L ''policy'', L ''route-maps'', V]) ''PUT, DELETE''
       (\<lambda>cs. Some (put_delete (Routing (PolicyRouteMapPut (c0 cs))) (Routing (PolicyRouteMapDelete (c0 cs)))))]"

definition system_arms :: "arm list" where
  "system_arms =
    [on_methods (api ''system'' @ [L ''general'']) ''GET, PUT''
       (\<lambda>_. Some [(''GET'', System SystemGeneralGet), (''PUT'', System SystemGeneralPut)]),
     on_methods (api ''system'' @ [L ''management'']) ''GET, PUT''
       (\<lambda>_. Some [(''GET'', System SystemManagementGet), (''PUT'', System SystemManagementPut)]),
     on_methods (api ''system'' @ [L ''users'']) ''GET, POST''
       (\<lambda>_. Some [(''GET'', System UsersGet), (''POST'', System UserCreate)]),
     on_methods (api ''system'' @ [L ''users'', V]) ''PUT, DELETE''
       (\<lambda>cs. Some (put_delete (System (UserPut (c0 cs))) (System (UserDelete (c0 cs))))),
     on_methods (api ''system'' @ [L ''snmp'']) ''GET, PUT''
       (\<lambda>_. Some [(''GET'', System SnmpGet), (''PUT'', System SnmpPut)]),
     need (api ''system'' @ [L ''maintenance'']) ''GET'' (\<lambda>_. Some (System MaintenanceGet)),
     need (api ''system'' @ [L ''maintenance'', L ''save-config'']) ''POST'' (\<lambda>_. Some (System MaintenanceSaveConfig)),
     need (api ''system'' @ [L ''maintenance'', L ''set-next-image'']) ''POST''
       (\<lambda>_. Some (System MaintenanceSetNextImage)),
     need (api ''system'' @ [L ''maintenance'', L ''install-image'']) ''POST''
       (\<lambda>_. Some (System MaintenanceInstallImage)),
     need (api ''system'' @ [L ''maintenance'', L ''reboot'']) ''POST'' (\<lambda>_. Some (System SystemReboot)),
     need (api ''system'' @ [L ''maintenance'', L ''backup'']) ''GET'' (\<lambda>_. Some (System MaintenanceBackup)),
     need (api ''system'' @ [L ''maintenance'', L ''restore'']) ''POST'' (\<lambda>_. Some (System MaintenanceRestore))]"

definition security_arms :: "arm list" where
  "security_arms =
    [on_methods (api ''security'' @ [L ''acls'']) ''GET, POST''
       (\<lambda>_. Some [(''GET'', Security AclsGet), (''POST'', Security AclCreate)]),
     on_methods (api ''security'' @ [L ''acls'', V]) ''PUT, DELETE''
       (\<lambda>cs. Some (put_delete (Security (AclPut (c0 cs))) (Security (AclDelete (c0 cs))))),
     on_methods (api ''security'' @ [L ''acls'', V, L ''rules'', V]) ''PUT, DELETE''
       (\<lambda>cs. u32 (c1 cs) (\<lambda>priority. put_delete (Security (AclRulePut (c0 cs) priority))
                                                  (Security (AclRuleDelete (c0 cs) priority)))),
     need (api ''security'' @ [L ''aaa'']) ''GET'' (\<lambda>_. Some (Security AaaGet)),
     need (api ''security'' @ [L ''aaa'', L ''authentication'']) ''PUT'' (\<lambda>_. Some (Security AaaAuthPut)),
     need (api ''security'' @ [L ''aaa'', V]) ''PUT'' (\<lambda>cs. proto (c0 cs) (\<lambda>p. Security (AaaGlobalPut p))),
     need (api ''security'' @ [L ''aaa'', V, L ''servers'']) ''POST''
       (\<lambda>cs. proto (c0 cs) (\<lambda>p. Security (AaaServerCreate p))),
     on_methods (api ''security'' @ [L ''aaa'', V, L ''servers'', V]) ''PUT, DELETE''
       (\<lambda>cs. proto (c0 cs) (\<lambda>p. put_delete (Security (AaaServerPut p (c1 cs))) (Security (AaaServerDelete p (c1 cs)))))]"

definition all_arms :: "arm list" where
  "all_arms = switching_arms @ l3_arms @ igp_arms @ routing_arms @ ha_arms @ policy_arms
     @ system_arms @ security_arms"

primrec first_arm :: "arm list \<Rightarrow> string \<Rightarrow> string list \<Rightarrow> route" where
  "first_arm [] meth segs = RouteNotFound"
| "first_arm (a # as) meth segs = (case match_segs (a_pattern a) segs of
       Some cs \<Rightarrow> dispatch meth (a_allowed a) (a_serves a cs)
     | None \<Rightarrow> first_arm as meth segs)"

definition segments :: "string \<Rightarrow> string list" where
  "segments path = filter (\<lambda>s. s \<noteq> []) (split_on (CHR ''/'') (dropWhile (\<lambda>c. c = CHR ''/'') path))"

definition route_features :: "string \<Rightarrow> string \<Rightarrow> route" where
  "route_features meth path = first_arm all_arms meth (segments path)"

section \<open>The path routes\<close>

definition item_name :: "string \<Rightarrow> string \<Rightarrow> string option" where
  "item_name path prefix = (case strip_prefix prefix path of
       None \<Rightarrow> None
     | Some s \<Rightarrow> if s \<noteq> [] \<and> CHR ''/'' \<notin> set s then Some s else None)"

definition route_item :: "string \<Rightarrow> string \<Rightarrow> route" where
  "route_item meth path =
     (case item_name path ''/api/switching/ports/'' of
        Some name \<Rightarrow> dispatch meth ''PUT'' (Some [(''PUT'', Switching (PortUpdate name))])
      | None \<Rightarrow>
     (case item_name path ''/api/switching/port-channels/'' of
        Some name \<Rightarrow> dispatch meth ''PUT, DELETE''
          (Some (put_delete (Switching (PortChannelUpdate name)) (Switching (PortChannelDelete name))))
      | None \<Rightarrow>
     (case item_name path ''/api/switching/vlans/'' of
        Some vid \<Rightarrow> dispatch meth ''PUT, DELETE''
          (u32 vid (\<lambda>i. put_delete (Switching (VlanUpdate i)) (Switching (VlanDelete i))))
      | None \<Rightarrow> route_features meth path)))"

text \<open>The path without its query and without trailing slashes.\<close>

definition bare_path :: "string \<Rightarrow> string" where
  "bare_path path = rev (dropWhile (\<lambda>c. c = CHR ''/'') (rev (takeWhile (\<lambda>c. c \<noteq> CHR ''?'') path)))"

definition exact_routes :: "(string \<times> string \<times> serves) list" where
  "exact_routes =
    [(''/api/system/info'', ''GET'', [(''GET'', System SystemInfo)]),
     (''/api/system/health'', ''GET'', [(''GET'', System SystemHealth)]),
     (''/api/system/reboot'', ''POST'', [(''POST'', System SystemReboot)]),
     (''/api/switching/ports'', ''GET'', [(''GET'', Switching SwitchingPorts)]),
     (''/api/switching/port-channels'', ''GET, POST'',
        [(''GET'', Switching SwitchingPortChannels), (''POST'', Switching PortChannelCreate)]),
     (''/api/switching/vlans'', ''GET, POST'',
        [(''GET'', Switching SwitchingVlans), (''POST'', Switching VlanCreate)])]"

definition route_of :: "string \<Rightarrow> string \<Rightarrow> route" where
  "route_of meth path0 = (let path = bare_path path0 in
     (case map_of exact_routes path of
        Some (allowed, rs) \<Rightarrow> dispatch meth allowed (Some rs)
      | None \<Rightarrow> route_item meth path))"

end
