(* ===== verification/RouterProps.thy ===== *)
theory RouterProps
  imports Router
begin

text \<open>
  The properties of the router: the URL of every endpoint reaches its route, percent decoding inverts
  encoding, methods and routes agree, and the \<open>allowed\<close> lists are exact.

  \<open>url\<close> is the table of endpoints in the header comment of \<^verbatim>\<open>src/src/sonic/mgmtapi.rs\<close>.
\<close>

section \<open>Percent encoding\<close>

definition upper_hex :: "nat \<Rightarrow> char" where
  "upper_hex n = (if n < 10 then char_of (48 + n) else char_of (55 + n))"

definition percent_char :: "char \<Rightarrow> string" where
  "percent_char c = (if is_alnum c then [c] else [CHR ''%'', upper_hex (byte c div 16), upper_hex (byte c mod 16)])"

definition percent_encode :: "string \<Rightarrow> string" where
  "percent_encode s = concat (map percent_char s)"

definition is_ascii :: "char \<Rightarrow> bool" where
  "is_ascii c \<longleftrightarrow> byte c < 128"

lemma byte_upper_hex: "n < 16 \<Longrightarrow> byte (upper_hex n) = (if n < 10 then 48 + n else 55 + n)"
  by (simp add: upper_hex_def)

lemma hexdigit_upper_hex: "n < 16 \<Longrightarrow> is_hexdigit (upper_hex n) \<and> hex_val (upper_hex n) = n"
  by (auto simp: is_hexdigit_def hex_val_def is_digit_def byte_upper_hex)

lemma byte_bound: "byte c < 256"
proof -
  have "byte c = byte c mod 256" unfolding byte_def by (metis char_of_char of_char_of)
  then show ?thesis by (metis mod_less_divisor zero_less_numeral)
qed

lemma char_of_byte [simp]: "char_of (byte c) = c"
  by (simp add: byte_def)

lemma not_percent_alnum: "is_alnum c \<Longrightarrow> c \<noteq> CHR ''%'' \<and> c \<noteq> CHR ''/'' \<and> c \<noteq> CHR ''?''"
  by (auto simp: char_class_defs)

lemma upper_hex_alnum: "n < 16 \<Longrightarrow> is_alnum (upper_hex n)"
  by (auto simp: is_alnum_def is_digit_def is_upper_def is_lower_def byte_upper_hex)

text \<open>Decoding the bytes inverts the encoding, whatever follows.\<close>

lemma decode_percent_char: "decode_bytes (percent_char c @ rest) = c # decode_bytes rest"
proof (cases "is_alnum c")
  case True
  then show ?thesis using not_percent_alnum [OF True] by (simp add: percent_char_def)
next
  case False
  have "byte c div 16 < 16" "byte c mod 16 < 16" using byte_bound [of c] by auto
  then have "hex_byte (upper_hex (byte c div 16)) (upper_hex (byte c mod 16)) = Some (byte c)"
    using hexdigit_upper_hex by (simp add: hex_byte_def)
  with False show ?thesis by (simp add: percent_char_def)
qed

lemma decode_percent_encode: "decode_bytes (percent_encode s) = s"
  by (induction s) (simp_all add: percent_encode_def decode_percent_char)

lemma utf8_lossy_ascii: "\<forall>c\<in>set s. is_ascii c \<Longrightarrow> utf8_lossy s = s"
proof (induction s)
  case Nil
  then show ?case by (simp add: utf8_lossy.simps)
next
  case (Cons c s)
  then show ?case
    by (subst utf8_lossy.simps) (simp add: utf8_head_def is_ascii_def Let_def split: prod.split)
qed

lemma percent_decode_encode: "list_all is_ascii s \<Longrightarrow> percent_decode (percent_encode s) = s"
  by (simp add: percent_decode_def decode_percent_encode utf8_lossy_ascii list_all_iff)

lemma decode_no_percent: "CHR ''%'' \<notin> set s \<Longrightarrow> decode_bytes s = s"
  by (induction s rule: decode_bytes.induct) auto

lemma percent_encode_chars:
  assumes "c \<in> set (percent_encode s)"
  shows "is_alnum c \<or> c = CHR ''%''"
proof -
  obtain d where d: "c \<in> set (percent_char d)"
    using assms by (auto simp: percent_encode_def)
  have "byte d div 16 < 16" "byte d mod 16 < 16" using byte_bound [of d] by auto
  with d upper_hex_alnum show ?thesis by (auto simp: percent_char_def split: if_splits)
qed

lemma percent_encode_Nil_iff [simp]: "percent_encode s = [] \<longleftrightarrow> s = []"
  by (cases s) (auto simp: percent_encode_def percent_char_def)

section \<open>Paths from segments\<close>

definition seg_ok :: "string \<Rightarrow> bool" where
  "seg_ok s \<longleftrightarrow> s \<noteq> [] \<and> CHR ''/'' \<notin> set s \<and> CHR ''?'' \<notin> set s"

definition path_of :: "string list \<Rightarrow> string" where
  "path_of segs = CHR ''/'' # join ''/'' segs"

lemma split_path_of: "segs \<noteq> [] \<Longrightarrow> list_all seg_ok segs \<Longrightarrow> split_on (CHR ''/'') (path_of segs) = [] # segs"
  by (auto simp: path_of_def list_all_iff seg_ok_def split_on_join)

lemma path_of_inject:
  "xs \<noteq> [] \<Longrightarrow> ys \<noteq> [] \<Longrightarrow> list_all seg_ok xs \<Longrightarrow> list_all seg_ok ys \<Longrightarrow> path_of xs = path_of ys \<longleftrightarrow> xs = ys"
  by (metis list.inject split_path_of)

lemma set_join_path: "set (join sep xs) \<subseteq> set sep \<union> \<Union> (set ` set xs)"
  by (induction sep xs rule: join.induct) auto

lemma last_join: "xs \<noteq> [] \<Longrightarrow> last xs \<noteq> [] \<Longrightarrow> join sep xs \<noteq> [] \<and> last (join sep xs) = last (last xs)"
  by (induction sep xs rule: join.induct) auto

lemma bare_path_of:
  assumes "segs \<noteq> []" "list_all seg_ok segs"
  shows "bare_path (path_of segs) = path_of segs"
proof -
  have q: "CHR ''?'' \<notin> set (path_of segs)"
    using assms(2) set_join_path [of "''/''" segs] by (auto simp: path_of_def list_all_iff seg_ok_def)
  have l: "last segs \<noteq> []" "CHR ''/'' \<notin> set (last segs)"
    using assms by (auto simp: list_all_iff seg_ok_def)
  have "last (last segs) \<noteq> CHR ''/''" using l last_in_set by metis
  then have "last (path_of segs) \<noteq> CHR ''/''"
    using last_join [OF assms(1) l(1), of "''/''"] by (simp add: path_of_def)
  then have "dropWhile (\<lambda>c. c = CHR ''/'') (rev (path_of segs)) = rev (path_of segs)"
    by (simp add: dropWhile_eq_self_iff hd_rev)
  moreover have "takeWhile (\<lambda>c. c \<noteq> CHR ''?'') (path_of segs) = path_of segs"
    using q by (subst takeWhile_eq_all_conv) auto
  ultimately show ?thesis by (simp only: bare_path_def rev_rev_ident)
qed

lemma segments_path_of:
  assumes "segs \<noteq> []" "list_all seg_ok segs"
  shows "segments (path_of segs) = segs"
proof -
  have "hd segs \<noteq> [] \<and> CHR ''/'' \<notin> set (hd segs)"
    using assms by (cases segs) (auto simp: seg_ok_def)
  then have "hd segs \<noteq> [] \<and> hd (hd segs) \<noteq> CHR ''/''" using hd_in_set by metis
  then have "hd (join ''/'' segs) \<noteq> CHR ''/'' \<and> join ''/'' segs \<noteq> []"
    using assms(1) by (cases segs; cases "tl segs") (auto simp: hd_append)
  then have "dropWhile (\<lambda>c. c = CHR ''/'') (path_of segs) = join ''/'' segs"
    by (simp add: path_of_def dropWhile_eq_self_iff)
  moreover have "split_on (CHR ''/'') (join ''/'' segs) = segs"
    using assms by (intro split_on_join) (auto simp: list_all_iff seg_ok_def)
  moreover have "filter (\<lambda>s. s \<noteq> []) segs = segs"
    using assms by (auto simp: list_all_iff seg_ok_def filter_id_conv)
  ultimately show ?thesis by (simp add: segments_def)
qed

text \<open>The name after a prefix of whole segments.\<close>

lemma join_snoc: "xs \<noteq> [] \<Longrightarrow> join sep (xs @ [s]) = join sep xs @ sep @ s"
  by (induction sep xs rule: join.induct) auto

lemma path_of_snoc: "xs \<noteq> [] \<Longrightarrow> path_of (xs @ [s]) = path_of xs @ ''/'' @ s"
  by (simp add: path_of_def join_snoc)

lemma item_name_path_of:
  assumes "segs \<noteq> []" "list_all seg_ok segs" "pre \<noteq> []" "list_all seg_ok pre"
  shows "item_name (path_of segs) (path_of pre @ ''/'') =
    (if butlast segs = pre then Some (last segs) else None)"
proof (cases "butlast segs = pre")
  case True
  then have "path_of segs = path_of pre @ ''/'' @ last segs"
    using assms path_of_snoc [of pre "last segs"] by (metis append_butlast_last_id)
  moreover have "last segs \<noteq> []" "CHR ''/'' \<notin> set (last segs)"
    using assms by (auto simp: list_all_iff seg_ok_def)
  moreover have "strip_prefix (path_of pre @ ''/'') ((path_of pre @ ''/'') @ last segs) = Some (last segs)"
    by (rule strip_prefix_append)
  ultimately show ?thesis using True by (simp only: item_name_def append_assoc option.simps if_True simp_thms)
next
  case False
  have "x = [] \<or> CHR ''/'' \<in> set x" if "path_of segs = (path_of pre @ ''/'') @ x" for x
  proof (rule ccontr)
    assume x: "\<not> (x = [] \<or> CHR ''/'' \<in> set x)"
    from that have "path_of segs = path_of (pre @ [x])" using assms(3) by (simp add: path_of_snoc)
    moreover have "\<forall>y\<in>set (pre @ [x]). CHR ''/'' \<notin> set y"
      using x assms(4) by (auto simp: list_all_iff seg_ok_def)
    then have "split_on (CHR ''/'') (path_of (pre @ [x])) = [] # pre @ [x]"
      using split_on_join [of "pre @ [x]" "CHR ''/''"] by (simp add: path_of_def)
    ultimately have "segs = pre @ [x]" using assms(1,2) split_path_of by (metis list.inject)
    with False show False by simp
  qed
  then show ?thesis using False by (auto simp: item_name_def split: option.split)
qed

section \<open>The URL of a route\<close>

primrec switching_url :: "switching_route \<Rightarrow> string \<times> string list" where
  "switching_url SwitchingPorts = (''GET'', [''ports''])"
| "switching_url (PortUpdate n) = (''PUT'', [''ports'', n])"
| "switching_url SwitchingPortChannels = (''GET'', [''port-channels''])"
| "switching_url PortChannelCreate = (''POST'', [''port-channels''])"
| "switching_url (PortChannelUpdate n) = (''PUT'', [''port-channels'', n])"
| "switching_url (PortChannelDelete n) = (''DELETE'', [''port-channels'', n])"
| "switching_url SwitchingVlans = (''GET'', [''vlans''])"
| "switching_url VlanCreate = (''POST'', [''vlans''])"
| "switching_url (VlanUpdate i) = (''PUT'', [''vlans'', show_nat i])"
| "switching_url (VlanDelete i) = (''DELETE'', [''vlans'', show_nat i])"
| "switching_url StpGet = (''GET'', [''spanning-tree''])"
| "switching_url StpGlobalPut = (''PUT'', [''spanning-tree'', ''global''])"
| "switching_url (StpVlanPut i) = (''PUT'', [''spanning-tree'', ''vlans'', show_nat i])"
| "switching_url (StpPortPut n) = (''PUT'', [''spanning-tree'', ''ports'', n])"
| "switching_url LoopGet = (''GET'', [''loop-protection''])"
| "switching_url (LoopPortPut n) = (''PUT'', [''loop-protection'', ''ports'', n])"
| "switching_url (LoopRecover n) = (''POST'', [''loop-protection'', ''ports'', n, ''recover''])"
| "switching_url LldpGet = (''GET'', [''lldp''])"
| "switching_url LldpConfigPut = (''PUT'', [''lldp'', ''config''])"
| "switching_url IgmpGet = (''GET'', [''igmp-snooping''])"
| "switching_url (IgmpVlanPut i) = (''PUT'', [''igmp-snooping'', ''vlans'', show_nat i])"
| "switching_url MirrorGet = (''GET'', [''mirror-sessions''])"
| "switching_url (MirrorSessionPut n) = (''PUT'', [''mirror-sessions'', n])"
| "switching_url (MirrorSessionDelete n) = (''DELETE'', [''mirror-sessions'', n])"
| "switching_url StormControlGet = (''GET'', [''storm-control''])"
| "switching_url (StormControlPortPut n) = (''PUT'', [''storm-control'', n])"
| "switching_url FdbGet = (''GET'', [''fdb''])"
| "switching_url FdbSettingsPut = (''PUT'', [''fdb'', ''settings''])"
| "switching_url (FdbStaticPut i m) = (''PUT'', [''fdb'', ''static'', show_nat i, percent_encode m])"
| "switching_url (FdbStaticDelete i m) = (''DELETE'', [''fdb'', ''static'', show_nat i, percent_encode m])"
| "switching_url FdbTableGet = (''GET'', [''fdb'', ''table''])"
| "switching_url SflowGet = (''GET'', [''sflow''])"
| "switching_url SflowPut = (''PUT'', [''sflow''])"
| "switching_url (SflowPortPut n) = (''PUT'', [''sflow'', ''ports'', n])"

primrec routing_url :: "routing_route \<Rightarrow> string \<times> string list" where
  "routing_url DhcpRelayGet = (''GET'', [''dhcp-relay''])"
| "routing_url (DhcpRelayVlanPut i) = (''PUT'', [''dhcp-relay'', show_nat i])"
| "routing_url L3Get = (''GET'', [''l3-interfaces''])"
| "routing_url L3Create = (''POST'', [''l3-interfaces''])"
| "routing_url (L3Put n) = (''PUT'', [''l3-interfaces'', n])"
| "routing_url (L3Delete n) = (''DELETE'', [''l3-interfaces'', n])"
| "routing_url VrfsGet = (''GET'', [''vrfs''])"
| "routing_url VrfCreate = (''POST'', [''vrfs''])"
| "routing_url (VrfPut n) = (''PUT'', [''vrfs'', n])"
| "routing_url (VrfDelete n) = (''DELETE'', [''vrfs'', n])"
| "routing_url MgmtVrfPut = (''PUT'', [''vrfs'', ''mgmt''])"
| "routing_url BgpGet = (''GET'', [''bgp''])"
| "routing_url (BgpGlobalPut v) = (''PUT'', [''bgp'', ''globals'', v])"
| "routing_url BgpNeighborCreate = (''POST'', [''bgp'', ''neighbors''])"
| "routing_url (BgpNeighborPut v p) = (''PUT'', [''bgp'', ''neighbors'', v, p])"
| "routing_url (BgpNeighborDelete v p) = (''DELETE'', [''bgp'', ''neighbors'', v, p])"
| "routing_url OspfGet = (''GET'', [''ospf''])"
| "routing_url (OspfInstancePut v) = (''PUT'', [''ospf'', ''instances'', v])"
| "routing_url (OspfAreaPut v a) = (''PUT'', [''ospf'', ''instances'', v, ''areas'', a])"
| "routing_url (OspfAreaDelete v a) = (''DELETE'', [''ospf'', ''instances'', v, ''areas'', a])"
| "routing_url (OspfInterfacePut n) = (''PUT'', [''ospf'', ''interfaces'', n])"
| "routing_url IsisGet = (''GET'', [''isis''])"
| "routing_url IsisInstancePut = (''PUT'', [''isis'', ''instance''])"
| "routing_url (IsisInterfacePut n) = (''PUT'', [''isis'', ''interfaces'', n])"
| "routing_url StaticRoutesGet = (''GET'', [''static-routes''])"
| "routing_url StaticRoutePut = (''PUT'', [''static-routes''])"
| "routing_url StaticRouteDelete = (''POST'', [''static-routes'', ''delete''])"
| "routing_url PolicyGet = (''GET'', [''policy''])"
| "routing_url (PolicyPrefixListPut n) = (''PUT'', [''policy'', ''prefix-lists'', n])"
| "routing_url (PolicyPrefixListDelete n) = (''DELETE'', [''policy'', ''prefix-lists'', n])"
| "routing_url (PolicyRouteMapPut n) = (''PUT'', [''policy'', ''route-maps'', n])"
| "routing_url (PolicyRouteMapDelete n) = (''DELETE'', [''policy'', ''route-maps'', n])"
| "routing_url BfdGet = (''GET'', [''bfd''])"
| "routing_url BfdPeerPut = (''PUT'', [''bfd'', ''peers''])"
| "routing_url BfdPeerDelete = (''POST'', [''bfd'', ''peers'', ''delete''])"
| "routing_url BfdSessionsGet = (''GET'', [''bfd'', ''sessions''])"
| "routing_url VxlanGet = (''GET'', [''vxlan''])"
| "routing_url VxlanVtepPut = (''PUT'', [''vxlan'', ''vtep''])"
| "routing_url VxlanVtepDelete = (''DELETE'', [''vxlan'', ''vtep''])"
| "routing_url VxlanMapsPut = (''PUT'', [''vxlan'', ''maps''])"
| "routing_url VxlanStatusGet = (''GET'', [''vxlan'', ''status''])"

primrec system_url :: "system_route \<Rightarrow> string \<times> string list" where
  "system_url SystemInfo = (''GET'', [''info''])"
| "system_url SystemHealth = (''GET'', [''health''])"
| "system_url SystemReboot = (''POST'', [''reboot''])"
| "system_url SystemGeneralGet = (''GET'', [''general''])"
| "system_url SystemGeneralPut = (''PUT'', [''general''])"
| "system_url SystemManagementGet = (''GET'', [''management''])"
| "system_url SystemManagementPut = (''PUT'', [''management''])"
| "system_url UsersGet = (''GET'', [''users''])"
| "system_url UserCreate = (''POST'', [''users''])"
| "system_url (UserPut n) = (''PUT'', [''users'', n])"
| "system_url (UserDelete n) = (''DELETE'', [''users'', n])"
| "system_url SnmpGet = (''GET'', [''snmp''])"
| "system_url SnmpPut = (''PUT'', [''snmp''])"
| "system_url MaintenanceGet = (''GET'', [''maintenance''])"
| "system_url MaintenanceSaveConfig = (''POST'', [''maintenance'', ''save-config''])"
| "system_url MaintenanceSetNextImage = (''POST'', [''maintenance'', ''set-next-image''])"
| "system_url MaintenanceInstallImage = (''POST'', [''maintenance'', ''install-image''])"
| "system_url MaintenanceBackup = (''GET'', [''maintenance'', ''backup''])"
| "system_url MaintenanceRestore = (''POST'', [''maintenance'', ''restore''])"

definition proto_path :: "aaa_proto \<Rightarrow> string" where
  "proto_path p = (case p of Tacacs \<Rightarrow> ''tacacs'' | Radius \<Rightarrow> ''radius'')"

primrec security_url :: "security_route \<Rightarrow> string \<times> string list" where
  "security_url AclsGet = (''GET'', [''acls''])"
| "security_url AclCreate = (''POST'', [''acls''])"
| "security_url (AclPut n) = (''PUT'', [''acls'', n])"
| "security_url (AclDelete n) = (''DELETE'', [''acls'', n])"
| "security_url (AclRulePut n i) = (''PUT'', [''acls'', n, ''rules'', show_nat i])"
| "security_url (AclRuleDelete n i) = (''DELETE'', [''acls'', n, ''rules'', show_nat i])"
| "security_url AaaGet = (''GET'', [''aaa''])"
| "security_url AaaAuthPut = (''PUT'', [''aaa'', ''authentication''])"
| "security_url (AaaGlobalPut p) = (''PUT'', [''aaa'', proto_path p])"
| "security_url (AaaServerCreate p) = (''POST'', [''aaa'', proto_path p, ''servers''])"
| "security_url (AaaServerPut p a) = (''PUT'', [''aaa'', proto_path p, ''servers'', a])"
| "security_url (AaaServerDelete p a) = (''DELETE'', [''aaa'', proto_path p, ''servers'', a])"

primrec ha_url :: "ha_route \<Rightarrow> string \<times> string list" where
  "ha_url MclagGet = (''GET'', [''mclag''])"
| "ha_url MclagPut = (''PUT'', [''mclag''])"
| "ha_url MclagDelete = (''DELETE'', [''mclag''])"
| "ha_url VrrpGet = (''GET'', [''vrrp''])"
| "ha_url (VrrpPut n i) = (''PUT'', [''vrrp'', percent_encode n, show_nat i])"
| "ha_url (VrrpDelete n i) = (''DELETE'', [''vrrp'', percent_encode n, show_nat i])"

primrec qos_url :: "qos_route \<Rightarrow> string \<times> string list" where
  "qos_url QosGet = (''GET'', [])"
| "qos_url (QosDscpMapPut n) = (''PUT'', [''dscp-maps'', percent_encode n])"
| "qos_url (QosDscpMapDelete n) = (''DELETE'', [''dscp-maps'', percent_encode n])"
| "qos_url (QosPortPut n) = (''PUT'', [''ports'', percent_encode n])"

text \<open>The method and path segments of a route; error routes have none.\<close>

definition url :: "route \<Rightarrow> (string \<times> string list) option" where
  "url r = (let page = (\<lambda>p (m, segs). Some (m, ''api'' # p # segs)) in case r of
       Switching s \<Rightarrow> page ''switching'' (switching_url s) | Routing s \<Rightarrow> page ''routing'' (routing_url s)
     | System s \<Rightarrow> page ''system'' (system_url s) | Security s \<Rightarrow> page ''security'' (security_url s)
     | Ha s \<Rightarrow> page ''ha'' (ha_url s) | Qos s \<Rightarrow> page ''qos'' (qos_url s)
     | RouteNotFound \<Rightarrow> None | MethodNotAllowed _ \<Rightarrow> None)"

text \<open>The numbers of a route fit \<open>u32\<close>, encoded names are ASCII, and no VRF is called mgmt.\<close>

definition args_ok :: "route \<Rightarrow> bool" where
  "args_ok r = (case r of
       Switching (VlanUpdate i) \<Rightarrow> i < 2 ^ 32 | Switching (VlanDelete i) \<Rightarrow> i < 2 ^ 32
     | Switching (StpVlanPut i) \<Rightarrow> i < 2 ^ 32 | Switching (IgmpVlanPut i) \<Rightarrow> i < 2 ^ 32
     | Switching (FdbStaticPut i m) \<Rightarrow> i < 2 ^ 32 \<and> list_all is_ascii m
     | Switching (FdbStaticDelete i m) \<Rightarrow> i < 2 ^ 32 \<and> list_all is_ascii m
     | Routing (DhcpRelayVlanPut i) \<Rightarrow> i < 2 ^ 32
     | Routing (VrfPut n) \<Rightarrow> n \<noteq> ''mgmt'' | Routing (VrfDelete n) \<Rightarrow> n \<noteq> ''mgmt''
     | Security (AclRulePut n i) \<Rightarrow> i < 2 ^ 32 | Security (AclRuleDelete n i) \<Rightarrow> i < 2 ^ 32
     | Ha (VrrpPut n i) \<Rightarrow> i < 2 ^ 32 \<and> list_all is_ascii n
     | Ha (VrrpDelete n i) \<Rightarrow> i < 2 ^ 32 \<and> list_all is_ascii n
     | Qos (QosDscpMapPut n) \<Rightarrow> list_all is_ascii n | Qos (QosDscpMapDelete n) \<Rightarrow> list_all is_ascii n
     | Qos (QosPortPut n) \<Rightarrow> list_all is_ascii n
     | _ \<Rightarrow> True)"

section \<open>Routing along segments\<close>

lemma exact_segs: "exact_routes =
    [(path_of [''api'', ''system'', ''info''], ''GET'', [(''GET'', System SystemInfo)]),
     (path_of [''api'', ''system'', ''health''], ''GET'', [(''GET'', System SystemHealth)]),
     (path_of [''api'', ''system'', ''reboot''], ''POST'', [(''POST'', System SystemReboot)]),
     (path_of [''api'', ''switching'', ''ports''], ''GET'', [(''GET'', Switching SwitchingPorts)]),
     (path_of [''api'', ''switching'', ''port-channels''], ''GET, POST'',
        [(''GET'', Switching SwitchingPortChannels), (''POST'', Switching PortChannelCreate)]),
     (path_of [''api'', ''switching'', ''vlans''], ''GET, POST'',
        [(''GET'', Switching SwitchingVlans), (''POST'', Switching VlanCreate)])]"
  by (simp add: exact_routes_def path_of_def)

definition exact_seg_routes :: "(string list \<times> string \<times> serves) list" where
  "exact_seg_routes =
    [([''api'', ''system'', ''info''], ''GET'', [(''GET'', System SystemInfo)]),
     ([''api'', ''system'', ''health''], ''GET'', [(''GET'', System SystemHealth)]),
     ([''api'', ''system'', ''reboot''], ''POST'', [(''POST'', System SystemReboot)]),
     ([''api'', ''switching'', ''ports''], ''GET'', [(''GET'', Switching SwitchingPorts)]),
     ([''api'', ''switching'', ''port-channels''], ''GET, POST'',
        [(''GET'', Switching SwitchingPortChannels), (''POST'', Switching PortChannelCreate)]),
     ([''api'', ''switching'', ''vlans''], ''GET, POST'',
        [(''GET'', Switching SwitchingVlans), (''POST'', Switching VlanCreate)])]"

lemma seg_ok_literals: "list_all seg_ok [''api'', ''system'', ''info'', ''health'', ''reboot'', ''switching'',
    ''ports'', ''port-channels'', ''vlans'']"
  by (simp add: seg_ok_def)

lemma map_of_path_of:
  assumes "segs \<noteq> []" "list_all seg_ok segs" "list_all (\<lambda>(k, _). k \<noteq> [] \<and> list_all seg_ok k) xs"
  shows "map_of (map (\<lambda>(k, v). (path_of k, v)) xs) (path_of segs) = map_of xs segs"
  using assms(3) by (induction xs) (auto simp: path_of_inject assms(1,2))

lemma exact_path_of:
  assumes "segs \<noteq> []" "list_all seg_ok segs"
  shows "map_of exact_routes (path_of segs) = map_of exact_seg_routes segs"
proof -
  have eq: "exact_routes = map (\<lambda>(k, v). (path_of k, v)) exact_seg_routes"
    by (simp add: exact_segs exact_seg_routes_def)
  have "list_all (\<lambda>(k, _). k \<noteq> [] \<and> list_all seg_ok k) exact_seg_routes"
    using seg_ok_literals by (simp add: exact_seg_routes_def)
  then show ?thesis unfolding eq by (rule map_of_path_of [OF assms])
qed

definition after :: "string list \<Rightarrow> string list \<Rightarrow> string option" where
  "after pre segs = (if butlast segs = pre then Some (last segs) else None)"

lemma item_name_prefixes:
  assumes "segs \<noteq> []" "list_all seg_ok segs"
  shows "item_name (path_of segs) ''/api/switching/ports/'' = after [''api'', ''switching'', ''ports''] segs"
    "item_name (path_of segs) ''/api/switching/port-channels/'' = after [''api'', ''switching'', ''port-channels''] segs"
    "item_name (path_of segs) ''/api/switching/vlans/'' = after [''api'', ''switching'', ''vlans''] segs"
  using item_name_path_of [OF assms, of "[''api'', ''switching'', ''ports'']"]
    item_name_path_of [OF assms, of "[''api'', ''switching'', ''port-channels'']"]
    item_name_path_of [OF assms, of "[''api'', ''switching'', ''vlans'']"] seg_ok_literals
  by (simp_all add: after_def) (simp_all add: path_of_def)

definition seg_route :: "string \<Rightarrow> string list \<Rightarrow> route" where
  "seg_route meth segs = (case map_of exact_seg_routes segs of
     Some (allowed, rs) \<Rightarrow> dispatch meth allowed (Some rs)
   | None \<Rightarrow> (case after [''api'', ''switching'', ''ports''] segs of
        Some name \<Rightarrow> dispatch meth ''PUT'' (Some [(''PUT'', Switching (PortUpdate name))])
      | None \<Rightarrow>
     (case after [''api'', ''switching'', ''port-channels''] segs of
        Some name \<Rightarrow> dispatch meth ''PUT, DELETE''
          (Some (put_delete (Switching (PortChannelUpdate name)) (Switching (PortChannelDelete name))))
      | None \<Rightarrow>
     (case after [''api'', ''switching'', ''vlans''] segs of
        Some vid \<Rightarrow> dispatch meth ''PUT, DELETE''
          (u32 vid (\<lambda>i. put_delete (Switching (VlanUpdate i)) (Switching (VlanDelete i))))
      | None \<Rightarrow> first_arm all_arms meth segs))))"

lemma route_of_path_of:
  assumes "segs \<noteq> []" "list_all seg_ok segs"
  shows "route_of meth (path_of segs) = seg_route meth segs"
  unfolding route_of_def seg_route_def route_item_def route_features_def Let_def
    bare_path_of [OF assms] exact_path_of [OF assms] item_name_prefixes [OF assms] segments_path_of [OF assms]
  by (rule refl)

text \<open>Only the arms of a page can match a path of the page.\<close>

definition on_page :: "string \<Rightarrow> arm \<Rightarrow> bool" where
  "on_page p a = (case a_pattern a of _ # L q # _ \<Rightarrow> q = p | _ \<Rightarrow> True)"

lemma first_arm_page: "first_arm as meth (x # p # segs) = first_arm (filter (on_page p) as) meth (x # p # segs)"
proof (induction as)
  case (Cons a as)
  have "match_segs (a_pattern a) (x # p # segs) = None" if "\<not> on_page p a"
  proof -
    from that obtain s q ps where "a_pattern a = s # L q # ps" "q \<noteq> p"
      by (auto simp: on_page_def split: list.splits seg.splits)
    then show ?thesis by (cases s) auto
  qed
  then show ?case using Cons by (auto split: option.split)
qed simp

lemmas arm_tables = all_arms_def switching_arms_def l3_arms_def igp_arms_def routing_arms_def ha_arms_def
  policy_arms_def system_arms_def security_arms_def

lemma page_patterns [simp]:
  "on_page p (need pat want f) = on_page p \<lparr>a_pattern = pat, a_allowed = [], a_serves = \<lambda>_. None\<rparr>"
  "on_page p (on_methods pat al g) = on_page p \<lparr>a_pattern = pat, a_allowed = [], a_serves = \<lambda>_. None\<rparr>"
  by (simp_all add: on_page_def need_def on_methods_def)

lemma on_page_simp [simp]: "on_page p \<lparr>a_pattern = x # L q # ps, a_allowed = [], a_serves = \<lambda>_. None\<rparr> \<longleftrightarrow> q = p"
  by (simp add: on_page_def)

lemma page_filters:
  "filter (on_page ''switching'') all_arms = switching_arms"
  "filter (on_page ''routing'') all_arms = l3_arms @ igp_arms @ routing_arms @ policy_arms"
  "filter (on_page ''system'') all_arms = system_arms"
  "filter (on_page ''security'') all_arms = security_arms"
  "filter (on_page ''ha'') all_arms = take 3 ha_arms"
  "filter (on_page ''qos'') all_arms = drop 3 ha_arms"
  by (simp_all add: arm_tables)

lemmas seg_route_simps = seg_route_def exact_seg_routes_def after_def dispatch_def need_def on_methods_def u32_def
  first_arm_page [of all_arms] page_filters args_ok_def percent_decode_encode proto_def proto_path_def
  proto_from_path_def

lemma seg_route_switching:
  assumes "args_ok (Switching s)"
  shows "case switching_url s of (m, segs) \<Rightarrow> seg_route m (''api'' # ''switching'' # segs) = Switching s"
  using assms by (cases s) (simp_all add: seg_route_simps switching_arms_def split: aaa_proto.split)

lemma seg_route_routing:
  assumes "args_ok (Routing s)"
  shows "case routing_url s of (m, segs) \<Rightarrow> seg_route m (''api'' # ''routing'' # segs) = Routing s"
  using assms by (cases s) (simp_all add: seg_route_simps l3_arms_def igp_arms_def routing_arms_def policy_arms_def split: aaa_proto.split)

lemma seg_route_system:
  assumes "args_ok (System s)"
  shows "case system_url s of (m, segs) \<Rightarrow> seg_route m (''api'' # ''system'' # segs) = System s"
  using assms by (cases s) (simp_all add: seg_route_simps system_arms_def split: aaa_proto.split)

lemma seg_route_security:
  assumes "args_ok (Security s)"
  shows "case security_url s of (m, segs) \<Rightarrow> seg_route m (''api'' # ''security'' # segs) = Security s"
  using assms by (cases s) (simp_all add: seg_route_simps security_arms_def split: aaa_proto.split)

lemma seg_route_ha:
  assumes "args_ok (Ha s)"
  shows "case ha_url s of (m, segs) \<Rightarrow> seg_route m (''api'' # ''ha'' # segs) = Ha s"
  using assms by (cases s) (simp_all add: seg_route_simps ha_arms_def split: aaa_proto.split)

lemma seg_route_qos:
  assumes "args_ok (Qos s)"
  shows "case qos_url s of (m, segs) \<Rightarrow> seg_route m (''api'' # ''qos'' # segs) = Qos s"
  using assms by (cases s) (simp_all add: seg_route_simps ha_arms_def split: aaa_proto.split)

text \<open>
  C17. Every endpoint is reached: for each route the method and the path of the endpoint (numbers printed,
  names as single segments, percent-encoded where the router decodes them) are routed to that
  route with these arguments. In particular distinct routes have distinct endpoints, and no arm
  shadows a later one; a VRF may not be called mgmt, which is the management VRF's endpoint.
\<close>

theorem router_url:
  assumes "url r = Some (meth, segs)" "list_all seg_ok segs" "args_ok r"
  shows "route_of meth (path_of segs) = r"
proof -
  have "segs \<noteq> []" using assms(1) by (auto simp: url_def split: route.splits prod.splits)
  then have "route_of meth (path_of segs) = seg_route meth segs"
    using assms(2) by (rule route_of_path_of)
  also have "\<dots> = r"
    using assms(1,3) seg_route_switching seg_route_routing seg_route_system seg_route_security seg_route_ha seg_route_qos
    by (cases r) (fastforce simp: url_def split: prod.splits)+
  finally show ?thesis .
qed

theorem router_url_witness:
  "route_of ''DELETE'' ''/api/switching/fdb/static/10/00%3A11'' = Switching (FdbStaticDelete 10 ''00:11'')"
proof -
  have "url (Switching (FdbStaticDelete 10 ''00:11'')) =
    Some (''DELETE'', [''api'', ''switching'', ''fdb'', ''static'', ''10'', ''00%3A11''])"
    by (simp add: url_def percent_encode_def percent_char_def upper_hex_def run)
  moreover have "list_all seg_ok [''api'', ''switching'', ''fdb'', ''static'', ''10'', ''00%3A11'']"
    by (simp add: seg_ok_def)
  moreover have "args_ok (Switching (FdbStaticDelete 10 ''00:11''))"
    by (simp add: args_ok_def is_ascii_def run)
  ultimately show ?thesis by (drule_tac router_url) (simp_all add: path_of_def)
qed

text \<open>
  Percent decoding inverts percent encoding of ASCII names and leaves names without a percent sign
  alone.
\<close>

lemma router_percent_decode:
  assumes "list_all is_ascii s"
  shows "percent_decode (percent_encode s) = s \<and> (CHR ''%'' \<notin> set s \<longrightarrow> percent_decode s = s)"
  using assms by (simp add: percent_decode_def decode_no_percent utf8_lossy_ascii list_all_iff decode_percent_encode)

text \<open>A plus sign after the percent sign is taken for a digit.\<close>

lemma percent_decode_plus: "percent_decode ''%+5'' = [char_of (5::nat)]"
  by (simp add: percent_decode_def utf8_lossy.simps utf8_head_def hex_byte_def hex_val_def run)

section \<open>Reading routes\<close>

definition is_read :: "route \<Rightarrow> bool" where
  "is_read r = (case r of
       Switching s \<Rightarrow> s \<in> {SwitchingPorts, SwitchingPortChannels, SwitchingVlans, StpGet, LoopGet, LldpGet,
         IgmpGet, MirrorGet, StormControlGet, FdbGet, FdbTableGet, SflowGet}
     | Routing s \<Rightarrow> s \<in> {DhcpRelayGet, L3Get, VrfsGet, BgpGet, OspfGet, IsisGet, StaticRoutesGet, PolicyGet,
         BfdGet, BfdSessionsGet, VxlanGet, VxlanStatusGet}
     | System s \<Rightarrow> s \<in> {SystemInfo, SystemHealth, SystemGeneralGet, SystemManagementGet, UsersGet, SnmpGet,
         MaintenanceGet, MaintenanceBackup}
     | Security s \<Rightarrow> s \<in> {AclsGet, AaaGet}
     | Ha s \<Rightarrow> s \<in> {MclagGet, VrrpGet}
     | Qos s \<Rightarrow> s = QosGet
     | _ \<Rightarrow> False)"

definition is_error :: "route \<Rightarrow> bool" where
  "is_error r \<longleftrightarrow> r = RouteNotFound \<or> (\<exists>a. r = MethodNotAllowed a)"

text \<open>What the arms of the table have in common.\<close>

definition arm_ok :: "string \<Rightarrow> serves \<Rightarrow> bool" where
  "arm_ok allowed rs \<longleftrightarrow> rs \<noteq> [] \<and> distinct (map fst rs) \<and> allowed = join '', '' (map fst rs)
     \<and> list_all (\<lambda>(m, r). \<not> is_error r \<and> (m = ''GET'' \<longleftrightarrow> is_read r)) rs"

definition arm_sound :: "arm \<Rightarrow> bool" where
  "arm_sound a \<longleftrightarrow> (\<forall>cs rs. a_serves a cs = Some rs \<longrightarrow> arm_ok (a_allowed a) rs)"

lemma arm_sound_need: "(\<And>cs r. f cs = Some r \<Longrightarrow> arm_ok want [(want, r)]) \<Longrightarrow> arm_sound (need pat want f)"
  by (auto simp: arm_sound_def need_def)

lemma arm_sound_on: "(\<And>cs rs. f cs = Some rs \<Longrightarrow> arm_ok allowed rs) \<Longrightarrow> arm_sound (on_methods pat allowed f)"
  by (auto simp: arm_sound_def on_methods_def)

lemmas arm_sound_defs = u32_def proto_def arm_ok_def is_error_def is_read_def

lemma switching_sound: "list_all arm_sound switching_arms"
  unfolding switching_arms_def list.pred_inject
  by (intro conjI TrueI arm_sound_need arm_sound_on) (auto simp: arm_sound_defs)

lemma routing_sound: "list_all arm_sound (l3_arms @ igp_arms @ routing_arms @ policy_arms)"
  unfolding l3_arms_def igp_arms_def routing_arms_def policy_arms_def append.simps list.pred_inject
  by (intro conjI TrueI arm_sound_need arm_sound_on) (auto simp: arm_sound_defs)

lemma system_sound: "list_all arm_sound (ha_arms @ system_arms @ security_arms)"
  unfolding ha_arms_def system_arms_def security_arms_def append.simps list.pred_inject
  by (intro conjI TrueI arm_sound_need arm_sound_on) (auto simp: arm_sound_defs)

lemma all_sound: "list_all arm_sound all_arms"
  using switching_sound routing_sound system_sound by (simp add: all_arms_def)

lemma exact_sound: "list_all (\<lambda>(p, allowed, rs). arm_ok allowed rs) exact_routes"
  by (simp add: exact_routes_def arm_sound_defs)

text \<open>Every path is unknown or serves a fixed set of methods.\<close>

definition sound :: "(string \<Rightarrow> route) \<Rightarrow> bool" where
  "sound f \<longleftrightarrow> (\<forall>m. f m = RouteNotFound) \<or>
     (\<exists>allowed rs. arm_ok allowed rs \<and> (\<forall>m. f m = dispatch m allowed (Some rs)))"

lemma sound_dispatch: "(\<And>rs. ms = Some rs \<Longrightarrow> arm_ok allowed rs) \<Longrightarrow> sound (\<lambda>m. dispatch m allowed ms)"
  by (cases ms) (auto simp: sound_def dispatch_def)

lemma sound_first_arm: "list_all arm_sound as \<Longrightarrow> sound (\<lambda>m. first_arm as m segs)"
proof (induction as)
  case Nil
  show ?case by (simp add: sound_def)
next
  case (Cons a as)
  then show ?case
    by (cases "match_segs (a_pattern a) segs") (auto simp: arm_sound_def intro!: sound_dispatch)
qed

lemma dispatch_cases:
  "(\<exists>r. (m, r) \<in> set rs \<and> dispatch m a (Some rs) = r) \<or>
   m \<notin> fst ` set rs \<and> dispatch m a (Some rs) = MethodNotAllowed a"
proof (cases "map_of rs m")
  case None
  then have "m \<notin> fst ` set rs" by (simp add: map_of_eq_None_iff)
  with None show ?thesis by (simp add: dispatch_def)
next
  case (Some r)
  then show ?thesis by (auto simp: dispatch_def dest: map_of_SomeD)
qed

lemma sound_item: "sound (\<lambda>m. route_item m path)"
proof (cases "item_name path ''/api/switching/ports/''")
  case (Some x)
  then show ?thesis by (auto simp: route_item_def arm_sound_defs intro!: sound_dispatch)
next
  case ports: None
  show ?thesis
  proof (cases "item_name path ''/api/switching/port-channels/''")
    case (Some x)
    with ports show ?thesis by (auto simp: route_item_def arm_sound_defs intro!: sound_dispatch)
  next
    case None
    with ports sound_first_arm [OF all_sound, of "segments path"] show ?thesis
      by (cases "item_name path ''/api/switching/vlans/''")
        (auto simp: route_item_def route_features_def arm_sound_defs intro!: sound_dispatch)
  qed
qed

lemma sound_route: "sound (\<lambda>m. route_of m path)"
proof (cases "map_of exact_routes (bare_path path)")
  case None
  then show ?thesis using sound_item by (simp add: route_of_def)
next
  case (Some x)
  obtain allowed rs where x: "x = (allowed, rs)" by (cases x)
  with map_of_SomeD [OF Some] exact_sound have "arm_ok allowed rs" by (auto simp: list_all_iff)
  with Some x show ?thesis by (auto simp: route_of_def intro!: sound_dispatch)
qed

text \<open>
  Reading and writing agree with the methods: a request that reaches an operation reaches a reading one exactly when its
  method is GET.
\<close>

lemma route_methods:
  "is_error (route_of m path) \<or> (is_read (route_of m path) \<longleftrightarrow> m = ''GET'')"
proof -
  have "is_error (route_of m path) \<or> (\<exists>allowed rs. arm_ok allowed rs \<and> (m, route_of m path) \<in> set rs)"
    using sound_route [of path] dispatch_cases unfolding sound_def is_error_def by metis
  then show ?thesis by (auto simp: arm_ok_def list_all_iff)
qed

text \<open>
  C18. The list in a 405 answer is exact: it names the methods that do reach an operation on this path,
  and no other method does.
\<close>

theorem router_method_not_allowed:
  assumes "route_of m path = MethodNotAllowed allowed"
  shows "\<exists>ms. ms \<noteq> [] \<and> allowed = join '', '' ms \<and> m \<notin> set ms \<and>
    (\<forall>m'. m' \<in> set ms \<longleftrightarrow> \<not> is_error (route_of m' path))"
proof -
  obtain a rs where ok: "arm_ok a rs" and r: "\<And>m. route_of m path = dispatch m a (Some rs)"
    using sound_route [of path] assms unfolding sound_def by auto
  have ne: "\<not> is_error x" if "(m', x) \<in> set rs" for m' x
    using ok that by (auto simp: arm_ok_def list_all_iff)
  have iff: "\<not> is_error (route_of m' path) \<longleftrightarrow> m' \<in> set (map fst rs)" for m'
    using dispatch_cases [of m' rs a] ne [of m'] by (force simp: r is_error_def)
  moreover have "a = allowed" using assms dispatch_cases [of m rs a] ne [of m] by (auto simp: r is_error_def)
  moreover have "is_error (route_of m path)" using assms by (simp add: is_error_def)
  ultimately show ?thesis using ok
    by (intro exI [of _ "map fst rs"]) (auto simp: arm_ok_def)
qed

lemma demo_not_allowed: "route_of ''PATCH'' ''/api/switching/sflow/?x=1'' = MethodNotAllowed ''GET, PUT''"
proof -
  have "bare_path ''/api/switching/sflow/?x=1'' = path_of [''api'', ''switching'', ''sflow'']"
    by (simp add: bare_path_def path_of_def)
  moreover have "bare_path (path_of [''api'', ''switching'', ''sflow'']) = path_of [''api'', ''switching'', ''sflow'']"
    by (simp add: bare_path_def path_of_def)
  ultimately have "route_of ''PATCH'' ''/api/switching/sflow/?x=1'' = route_of ''PATCH'' (path_of [''api'', ''switching'', ''sflow''])"
    by (simp add: route_of_def)
  also have "\<dots> = MethodNotAllowed ''GET, PUT''"
    by (subst route_of_path_of) (simp_all add: seg_ok_def seg_route_simps switching_arms_def)
  finally show ?thesis .
qed

theorem router_method_not_allowed_witness:
  "\<exists>ms. ms \<noteq> [] \<and> ''GET, PUT'' = join '', '' ms \<and> ''PATCH'' \<notin> set ms \<and>
    (\<forall>m'. m' \<in> set ms \<longleftrightarrow> \<not> is_error (route_of m' ''/api/switching/sflow/?x=1''))"
  by (rule router_method_not_allowed [OF demo_not_allowed])

end
