(* ===== verification/SwitchingRead.thy ===== *)
theory SwitchingRead
  imports Json
begin

text \<open>
  The read collectors of \<^verbatim>\<open>src/src/sonic/switching.rs\<close>: ports, port channels and VLANs
  with their members, assembled from CONFIG_DB, APPL_DB, STATE_DB and COUNTERS_DB.

  This module predates the trait \<open>Platform\<close> and opens redis connections itself. \<open>redis\<close> is the
  client: \<open>connect db\<close> is \<open>connection(db)\<close>, and the commands on an open connection are those of
  the platform record. \<open>connection(db).ok()\<close> is the Boolean \<open>opened\<close>. The locale \<open>redis_client\<close>
  extends the store contract by a connection attempt that leaves the databases alone.
\<close>

section \<open>The client\<close>

record 's redis =
  connect :: "int \<Rightarrow> ('s, string, unit) io"
  cmds :: "'s platform"

definition opened :: "'s redis \<Rightarrow> int \<Rightarrow> ('s, 'e, bool) io" where
  "opened R db = or_default False (bnd (connect R db) (\<lambda>_. ret True))"

definition hgetall_on :: "'s redis \<Rightarrow> int \<Rightarrow> string \<Rightarrow> ('s, 'e, row) io" where
  "hgetall_on R db key = row_of (cmds R) db key"

definition scan_keys :: "'s redis \<Rightarrow> int \<Rightarrow> string \<Rightarrow> ('s, string, string list) io" where
  "scan_keys R db pat = scan (cmds R) db pat"

text \<open>\<open>scan_keys(\<dots>).unwrap_or_default()\<close>.\<close>

definition scan_or_none :: "'s redis \<Rightarrow> int \<Rightarrow> string \<Rightarrow> ('s, 'e, string list) io" where
  "scan_or_none R db pat = or_default [] (scan_keys R db pat)"

definition state_row :: "'s redis \<Rightarrow> int \<Rightarrow> bool \<Rightarrow> string \<Rightarrow> ('s, 'e, row) io" where
  "state_row R db conn key = (if conn then hgetall_on R db key else ret [])"

definition member_parts :: "string \<Rightarrow> string \<Rightarrow> (string \<times> string) option" where
  "member_parts key prefix =
     Option.bind (strip_prefix prefix key) (\<lambda>rest.
     Option.bind (split_once (CHR ''|'') rest) (\<lambda>(a, b).
     if a \<noteq> [] \<and> b \<noteq> [] then Some (a, b) else None))"

lemma member_parts_eq: "member_parts = two_parts"
  by (simp add: member_parts_def two_parts_def fun_eq_iff)

definition opt_else :: "'a option \<Rightarrow> 'a option \<Rightarrow> 'a option" where
  "opt_else a b = (case a of None \<Rightarrow> b | Some x \<Rightarrow> Some x)"

definition oper_status_of :: "row \<Rightarrow> row \<Rightarrow> string" where
  "oper_status_of appl state =
     opt_or (opt_else (field appl ''oper_status'') (field state ''oper_status'')) ''unknown''"

section \<open>Ports\<close>

record port =
  pt_name :: string
  pt_alias :: "string option"
  pt_description :: "string option"
  pt_admin_status :: string
  pt_oper_status :: string
  pt_speed_mbps :: "nat option"
  pt_supported_speeds :: "nat list option"
  pt_fec :: "string option"
  pt_mtu :: "nat option"
  pt_vlan_mode :: "string option"
  pt_untagged_vlan :: "nat option"
  pt_tagged_vlans :: "nat list"
  pt_rx_err :: "nat option"
  pt_tx_err :: "nat option"
  pt_rx_drops :: "nat option"
  pt_tx_drops :: "nat option"

type_synonym vlan_rows = "(nat \<times> string) list"

definition list_min :: "nat list \<Rightarrow> nat option" where
  "list_min xs = (case xs of [] \<Rightarrow> None | x # ys \<Rightarrow> Some (foldl min x ys))"

definition vlan_mode_of :: "vlan_rows \<Rightarrow> string option \<times> nat option \<times> nat list" where
  "vlan_mode_of rows =
     (if rows = [] then (Some ''routed'', None, [])
      else (let untagged = list_min (map fst (filter (\<lambda>(_, m). m = ''untagged'') rows));
                tagged = sort_dedup (map fst (filter (\<lambda>(_, m). m = ''tagged'') rows));
                mode = (if tagged \<noteq> [] then Some ''trunk''
                        else if untagged \<noteq> None then Some ''access'' else None)
            in (mode, untagged, tagged)))"

definition port_from :: "string \<Rightarrow> row \<Rightarrow> row \<Rightarrow> row \<Rightarrow> row option \<Rightarrow> vlan_rows \<Rightarrow> port" where
  "port_from name cfg appl state counters rows =
     (case vlan_mode_of rows of (vlan_mode, untagged, tagged) \<Rightarrow>
      let stat = (\<lambda>key. map_option (\<lambda>h. opt_or (parse_num (field h key)) 0) counters) in
      \<lparr>pt_name = name,
       pt_alias = field cfg ''alias'',
       pt_description = field cfg ''description'',
       pt_admin_status = opt_or (field cfg ''admin_status'') ''down'',
       pt_oper_status = oper_status_of appl state,
       pt_speed_mbps = opt_else (parse_num (field appl ''speed''))
         (opt_else (parse_num (field state ''speed'')) (parse_num (field cfg ''speed''))),
       pt_supported_speeds = parse_supported_speeds (field state ''supported_speeds''),
       pt_fec = field cfg ''fec'',
       pt_mtu = parse_num (field cfg ''mtu''),
       pt_vlan_mode = vlan_mode, pt_untagged_vlan = untagged, pt_tagged_vlans = tagged,
       pt_rx_err = stat ''SAI_PORT_STAT_IF_IN_ERRORS'',
       pt_tx_err = stat ''SAI_PORT_STAT_IF_OUT_ERRORS'',
       pt_rx_drops = stat ''SAI_PORT_STAT_IF_IN_DISCARDS'',
       pt_tx_drops = stat ''SAI_PORT_STAT_IF_OUT_DISCARDS''\<rparr>)"

definition port_counter :: "'s redis \<Rightarrow> string \<times> string \<Rightarrow> ('s, 'e, (string \<times> row) option) io" where
  "port_counter R = (\<lambda>(name, oid).
     bnd (hgetall_on R COUNTERS_DB (''COUNTERS:'' @ oid)) (\<lambda>h.
       ret (if h \<noteq> [] then Some (name, h) else None)))"

definition port_counters :: "'s redis \<Rightarrow> ('s, 'e, (string \<times> row) list) io" where
  "port_counters R =
     bnd (opened R COUNTERS_DB) (\<lambda>conn.
       if \<not> conn then ret []
       else bnd (hgetall_on R COUNTERS_DB ''COUNTERS_PORT_NAME_MAP'') (\<lambda>names.
            bnd (collect (port_counter R) names) (\<lambda>xs. ret (List.map_filter id xs))))"

text \<open>Member name to its VLAN memberships, over the scanned \<open>VLAN_MEMBER\<close> keys.\<close>

primrec vlan_row_map :: "'s redis \<Rightarrow> string list \<Rightarrow> (string \<times> vlan_rows) list \<Rightarrow>
    ('s, 'e, (string \<times> vlan_rows) list) io" where
  "vlan_row_map R [] acc = ret acc"
| "vlan_row_map R (key # ks) acc =
     (case member_parts key ''VLAN_MEMBER|'' of
        None \<Rightarrow> vlan_row_map R ks acc
      | Some (vlan, member) \<Rightarrow>
          (case vlan_id_from_name vlan of
             None \<Rightarrow> vlan_row_map R ks acc
           | Some i \<Rightarrow> bnd (hgetall_on R CONFIG_DB key) (\<lambda>r.
               vlan_row_map R ks (group_push member (i, opt_or (field r ''tagging_mode'') ''untagged'') acc))))"

definition port_of_key :: "'s redis \<Rightarrow> bool \<Rightarrow> bool \<Rightarrow> (string \<times> row) list \<Rightarrow> (string \<times> vlan_rows) list \<Rightarrow>
    string \<Rightarrow> ('s, 'e, port option) io" where
  "port_of_key R appl state counters vrows key = (case key_suffix key ''PORT|'' of
       None \<Rightarrow> ret None
     | Some name \<Rightarrow>
         bnd (hgetall_on R CONFIG_DB key) (\<lambda>cfg_row.
         bnd (state_row R APPL_DB appl (''PORT_TABLE:'' @ name)) (\<lambda>appl_row.
         bnd (state_row R STATE_DB state (''PORT_TABLE|'' @ name)) (\<lambda>st_row.
           ret (Some (port_from name cfg_row appl_row st_row (map_of counters name)
                        (opt_or (map_of vrows name) [])))))))"

definition ports :: "'s redis \<Rightarrow> ('s, string, port list) io" where
  "ports R =
     bnd (connect R CONFIG_DB) (\<lambda>_.
     bnd (scan_keys R CONFIG_DB ''PORT|*'') (\<lambda>port_keys.
     bnd (scan_or_none R CONFIG_DB ''VLAN_MEMBER|*'') (\<lambda>mkeys.
     bnd (vlan_row_map R mkeys []) (\<lambda>vrows.
     bnd (opened R APPL_DB) (\<lambda>appl.
     bnd (opened R STATE_DB) (\<lambda>state.
     bnd (port_counters R) (\<lambda>counters.
     bnd (collect (port_of_key R appl state counters vrows) port_keys) (\<lambda>xs.
       ret (sort_by (\<lambda>a b. natural_cmp (pt_name a) (pt_name b)) (List.map_filter id xs))))))))))"

section \<open>Port channels\<close>

record pc_member =
  pm_name :: string
  pm_oper_status :: string
  pm_selected :: "bool option"

record port_channel =
  pc_name :: string
  pc_protocol :: string
  pc_admin_status :: string
  pc_oper_status :: string
  pc_mtu :: "nat option"
  pc_min_links :: "nat option"
  pc_fallback :: bool
  pc_fast_rate :: bool
  pc_members :: "pc_member list"

definition lacp_selected :: "row \<Rightarrow> bool option" where
  "lacp_selected r = Option.bind (field r ''status'') (\<lambda>v.
     if v = ''enabled'' then Some True else if v = ''disabled'' then Some False else None)"

definition member_oper :: "'s redis \<Rightarrow> bool \<Rightarrow> bool \<Rightarrow> string \<Rightarrow> ('s, 'e, string) io" where
  "member_oper R appl state name =
     (let tbl = (if starts_with ''PortChannel'' name then ''LAG_TABLE'' else ''PORT_TABLE'') in
      bnd (state_row R APPL_DB appl (tbl @ '':'' @ name)) (\<lambda>a.
      bnd (state_row R STATE_DB state (tbl @ ''|'' @ name)) (\<lambda>s. ret (oper_status_of a s))))"

definition pc_member_of :: "'s redis \<Rightarrow> bool \<Rightarrow> bool \<Rightarrow> bool \<Rightarrow> string \<Rightarrow> string \<Rightarrow> ('s, 'e, pc_member) io" where
  "pc_member_of R appl state is_static name port =
     bnd (if is_static then ret None
          else bnd (state_row R STATE_DB state (''LAG_MEMBER_TABLE|'' @ name @ ''|'' @ port)) (\<lambda>r.
               ret (lacp_selected r))) (\<lambda>selected.
     bnd (member_oper R appl state port) (\<lambda>oper.
       ret \<lparr>pm_name = port, pm_oper_status = oper, pm_selected = selected\<rparr>))"

primrec member_names :: "string list \<Rightarrow> (string \<times> string list) list \<Rightarrow> (string \<times> string list) list" where
  "member_names [] acc = acc"
| "member_names (key # ks) acc = (case member_parts key ''PORTCHANNEL_MEMBER|'' of
       None \<Rightarrow> member_names ks acc
     | Some (pc, port) \<Rightarrow> member_names ks (group_push pc port acc))"

text \<open>
  One scanned key; the member lists are threaded through because \<open>remove\<close> takes the list of a
  name out of the map.
\<close>

definition port_channel_of_key :: "'s redis \<Rightarrow> bool \<Rightarrow> bool \<Rightarrow> string \<Rightarrow> (string \<times> string list) list \<Rightarrow>
    ('s, 'e, port_channel option \<times> (string \<times> string list) list) io" where
  "port_channel_of_key R appl state key names = (case key_suffix key ''PORTCHANNEL|'' of
       None \<Rightarrow> ret (None, names)
     | Some name \<Rightarrow>
         bnd (hgetall_on R CONFIG_DB key) (\<lambda>r.
         let is_static = opt_or (parse_bool (field r ''static'')) False;
             ps = sort_by natural_cmp (opt_or (map_of names name) []) in
         bnd (collect (pc_member_of R appl state is_static name) ps) (\<lambda>members.
         bnd (state_row R APPL_DB appl (''LAG_TABLE:'' @ name)) (\<lambda>a.
         bnd (state_row R STATE_DB state (''LAG_TABLE|'' @ name)) (\<lambda>s.
           ret (Some \<lparr>pc_name = name,
              pc_protocol = (if is_static then ''static'' else ''lacp''),
              pc_admin_status = opt_or (field r ''admin_status'') ''down'',
              pc_oper_status = oper_status_of a s,
              pc_mtu = parse_num (field r ''mtu''),
              pc_min_links = parse_num (field r ''min_links''),
              pc_fallback = opt_or (parse_bool (field r ''fallback'')) False,
              pc_fast_rate = opt_or (parse_bool (field r ''fast_rate'')) False,
              pc_members = members\<rparr>, al_del name names))))))"

primrec pc_loop :: "'s redis \<Rightarrow> bool \<Rightarrow> bool \<Rightarrow> string list \<Rightarrow> (string \<times> string list) list \<Rightarrow>
    ('s, 'e, port_channel list) io" where
  "pc_loop R appl state [] names = ret []"
| "pc_loop R appl state (key # ks) names =
     bnd (port_channel_of_key R appl state key names) (\<lambda>(pc, names').
     bnd (pc_loop R appl state ks names') (\<lambda>rest.
       ret (case pc of None \<Rightarrow> rest | Some p \<Rightarrow> p # rest)))"

definition port_channels :: "'s redis \<Rightarrow> ('s, string, port_channel list) io" where
  "port_channels R =
     bnd (connect R CONFIG_DB) (\<lambda>_.
     bnd (scan_keys R CONFIG_DB ''PORTCHANNEL|*'') (\<lambda>pc_keys.
     bnd (scan_or_none R CONFIG_DB ''PORTCHANNEL_MEMBER|*'') (\<lambda>mkeys.
     bnd (opened R APPL_DB) (\<lambda>appl.
     bnd (opened R STATE_DB) (\<lambda>state.
     bnd (pc_loop R appl state pc_keys (member_names mkeys [])) (\<lambda>pcs.
       ret (sort_by (\<lambda>a b. natural_cmp (pc_name a) (pc_name b)) pcs)))))))"

section \<open>VLANs\<close>

record vlan_member =
  vm_name :: string
  vm_tagging :: string

record vlan =
  vl_vlan_id :: nat
  vl_name :: string
  vl_description :: "string option"
  vl_ip_addresses :: "string list"
  vl_dhcp_helpers :: "string list"
  vl_members :: "vlan_member list"

definition dhcp_helpers :: "row \<Rightarrow> string list" where
  "dhcp_helpers r = (case opt_else (field r ''dhcp_servers@'') (field r ''dhcp_servers'') of
       None \<Rightarrow> []
     | Some v \<Rightarrow> filter (\<lambda>s. s \<noteq> []) (map trim (split_on (CHR '','') v)))"

definition key_id_sorted_vlans :: "string list \<Rightarrow> nat list" where
  "key_id_sorted_vlans ks =
     sort_dedup (List.map_filter vlan_id_from_name (List.map_filter (strip_prefix ''VLAN|'') ks))"

primrec vlan_ips :: "string list \<Rightarrow> (string \<times> string list) list \<Rightarrow> (string \<times> string list) list" where
  "vlan_ips [] acc = acc"
| "vlan_ips (key # ks) acc = (case member_parts key ''VLAN_INTERFACE|'' of
       None \<Rightarrow> vlan_ips ks acc
     | Some (vlan, cidr) \<Rightarrow> vlan_ips ks (group_push vlan cidr acc))"

primrec vlan_member_rows :: "'s redis \<Rightarrow> string list \<Rightarrow> (string \<times> vlan_member list) list \<Rightarrow>
    ('s, 'e, (string \<times> vlan_member list) list) io" where
  "vlan_member_rows R [] acc = ret acc"
| "vlan_member_rows R (key # ks) acc = (case member_parts key ''VLAN_MEMBER|'' of
       None \<Rightarrow> vlan_member_rows R ks acc
     | Some (vlan, member) \<Rightarrow> bnd (hgetall_on R CONFIG_DB key) (\<lambda>r.
         vlan_member_rows R ks
           (group_push vlan
              \<lparr>vm_name = member,
               vm_tagging = (if field r ''tagging_mode'' = Some ''tagged'' then ''tagged'' else ''untagged'')\<rparr> acc)))"

definition vlan_identity :: "row \<Rightarrow> string \<Rightarrow> nat option" where
  "vlan_identity r name =
     opt_else (Option.bind (parse_num (field r ''vlanid'')) (\<lambda>n. if n < 2 ^ 32 then Some n else None))
              (vlan_id_from_name name)"

text \<open>One VLAN key, with the maps \<open>remove\<close> takes the lists of the name out of.\<close>

type_synonym vlan_maps = "(string \<times> string list) list \<times> (string \<times> vlan_member list) list"

definition vlan_of_key :: "'s redis \<Rightarrow> string \<Rightarrow> vlan_maps \<Rightarrow> ('s, 'e, vlan option \<times> vlan_maps) io" where
  "vlan_of_key R key maps = (case key_suffix key ''VLAN|'' of
       None \<Rightarrow> ret (None, maps)
     | Some name \<Rightarrow>
         bnd (hgetall_on R CONFIG_DB key) (\<lambda>r.
         case vlan_identity r name of
           None \<Rightarrow> ret (None, maps)
         | Some vlan_id \<Rightarrow>
             ret (Some \<lparr>vl_vlan_id = vlan_id, vl_name = name, vl_description = field r ''description'',
                        vl_ip_addresses = sort (opt_or (map_of (fst maps) name) []),
                        vl_dhcp_helpers = dhcp_helpers r,
                        vl_members = sort_by (\<lambda>a b. natural_cmp (vm_name a) (vm_name b))
                          (opt_or (map_of (snd maps) name) [])\<rparr>,
                  (al_del name (fst maps), al_del name (snd maps)))))"

primrec vlan_loop :: "'s redis \<Rightarrow> string list \<Rightarrow> vlan_maps \<Rightarrow> ('s, 'e, vlan list) io" where
  "vlan_loop R [] maps = ret []"
| "vlan_loop R (key # ks) maps =
     bnd (vlan_of_key R key maps) (\<lambda>(v, maps').
     bnd (vlan_loop R ks maps') (\<lambda>rest. ret (case v of None \<Rightarrow> rest | Some x \<Rightarrow> x # rest)))"

definition vlans :: "'s redis \<Rightarrow> ('s, string, vlan list) io" where
  "vlans R =
     bnd (connect R CONFIG_DB) (\<lambda>_.
     bnd (scan_keys R CONFIG_DB ''VLAN|*'') (\<lambda>vlan_keys.
     bnd (scan_or_none R CONFIG_DB ''VLAN_INTERFACE|*'') (\<lambda>ikeys.
     bnd (scan_or_none R CONFIG_DB ''VLAN_MEMBER|*'') (\<lambda>mkeys.
     bnd (vlan_member_rows R mkeys []) (\<lambda>members.
     bnd (vlan_loop R vlan_keys (vlan_ips ikeys [], members)) (\<lambda>vs.
       ret (sort_by (\<lambda>a b. cmp (vl_vlan_id a) (vl_vlan_id b)) vs)))))))"

end
