(* ===== verification/SwitchingWrite.thy ===== *)
theory SwitchingWrite
  imports SwitchingRead
begin

text \<open>
  The write operations of \<^verbatim>\<open>src/src/sonic/switching.rs\<close>: the request bodies, the pure
  validators and diffs, and the seven operations on ports, VLANs and port channels. They write to
  CONFIG_DB one command at a time, without a batch.
\<close>

section \<open>Request bodies\<close>

datatype admin_status = Up | Down

definition admin_str :: "admin_status \<Rightarrow> string" where
  "admin_str a = (case a of Up \<Rightarrow> ''up'' | Down \<Rightarrow> ''down'')"

datatype vlan_mode_input = Access | Trunk | Routed

datatype lag_protocol = Lacp | Static

datatype tagging = Tagged | Untagged

definition tagging_str :: "tagging \<Rightarrow> string" where
  "tagging_str t = (case t of Tagged \<Rightarrow> ''tagged'' | Untagged \<Rightarrow> ''untagged'')"

record port_patch =
  pp_description :: "string option option"
  pp_admin_status :: "admin_status option"
  pp_mtu :: "nat option option"
  pp_speed_mbps :: "nat option option"
  pp_fec :: "string option option"
  pp_vlan_mode :: "vlan_mode_input option"
  pp_untagged_vlan :: "nat option option"
  pp_tagged_vlans :: "nat list option"

record vlan_member_input =
  mi_name :: string
  mi_tagging :: tagging

record vlan_input =
  vi_description :: "string option"
  vi_ip_addresses :: "string list"
  vi_dhcp_helpers :: "string list"
  vi_members :: "vlan_member_input list"

record port_channel_input =
  pi_protocol :: lag_protocol
  pi_admin_status :: admin_status
  pi_mtu :: "nat option"
  pi_min_links :: "nat option"
  pi_fallback :: bool
  pi_fast_rate :: bool
  pi_members :: "string list"

section \<open>Validation and diffs\<close>

definition check_vlan_id :: "nat \<Rightarrow> string + nat" where
  "check_vlan_id i = (if 1 \<le> i \<and> i \<le> 4094 then Inr i
     else Inl (''invalid VLAN id '' @ show_nat i @ '' (must be 1-4094)''))"

fun insert_tagged :: "nat list \<Rightarrow> vlan_rows \<Rightarrow> string + vlan_rows" where
  "insert_tagged [] rows = Inr rows"
| "insert_tagged (i # is) rows =
     sbind (check_vlan_id i) (\<lambda>i. insert_tagged is (al_put i ''tagged'' rows))"

definition desired_vlan_rows :: "vlan_mode_input \<Rightarrow> nat option \<Rightarrow> nat list \<Rightarrow> string + vlan_rows" where
  "desired_vlan_rows mode untagged tagged = (case mode of
       Routed \<Rightarrow> Inr []
     | Access \<Rightarrow>
         sbind (ok_or untagged ''access mode requires untagged_vlan'') (\<lambda>i.
         sbind (check_vlan_id i) (\<lambda>i. Inr [(i, ''untagged'')]))
     | Trunk \<Rightarrow>
         sbind (insert_tagged tagged []) (\<lambda>rows.
         case untagged of
           None \<Rightarrow> Inr rows
         | Some i \<Rightarrow> sbind (check_vlan_id i) (\<lambda>i. Inr (al_put i ''untagged'' rows))))"

type_synonym str_map = "(string \<times> string) list"

definition diff_rows :: "str_map \<Rightarrow> str_map \<Rightarrow> string list \<times> str_map" where
  "diff_rows cur desired =
     (sort (filter (\<lambda>k. map_of desired k = None) (map fst cur)),
      sort (filter (\<lambda>(k, v). map_of cur k \<noteq> Some v) desired))"

definition valid_port_channel_name :: "string \<Rightarrow> bool" where
  "valid_port_channel_name name = (case strip_prefix ''PortChannel'' name of
       None \<Rightarrow> False
     | Some d \<Rightarrow> d \<noteq> [] \<and> length d \<le> 4 \<and> list_all is_digit d)"

fun vlan_member_map_from :: "str_map \<Rightarrow> vlan_member_input list \<Rightarrow> string + str_map" where
  "vlan_member_map_from acc [] = Inr acc"
| "vlan_member_map_from acc (m # ms) =
     (if map_of acc (mi_name m) \<noteq> None then Inl (''duplicate VLAN member '' @ mi_name m)
      else vlan_member_map_from (al_put (mi_name m) (tagging_str (mi_tagging m)) acc) ms)"

definition vlan_member_map :: "vlan_member_input list \<Rightarrow> string + str_map" where
  "vlan_member_map ms = vlan_member_map_from [] ms"

fun unique_from :: "string list \<Rightarrow> string list \<Rightarrow> string + string list" where
  "unique_from seen [] = Inr seen"
| "unique_from seen (m # ms) =
     (if m \<in> set seen then Inl (''duplicate member '' @ m) else unique_from (seen @ [m]) ms)"

definition unique_members :: "string list \<Rightarrow> string + string list" where
  "unique_members ms = unique_from [] ms"

definition check_mtu :: "nat \<Rightarrow> string + unit" where
  "check_mtu v = check (68 \<le> v \<and> v \<le> 9216) (''invalid mtu '' @ show_nat v @ '' (must be 68-9216)'')"

definition check_speed :: "nat \<Rightarrow> string + unit" where
  "check_speed v = check (0 < v) ''speed_mbps must be positive''"

definition check_supported_speed :: "nat \<Rightarrow> nat list option \<Rightarrow> string + unit" where
  "check_supported_speed speed published = (case published of
       None \<Rightarrow> Inr ()
     | Some xs \<Rightarrow> if speed \<notin> set xs
         then Inl (''unsupported speed '' @ show_nat speed @ '' (supported: '' @ join '', '' (map show_nat xs) @ '')'')
         else Inr ())"

section \<open>Write primitives\<close>

definition hset1 :: "'s redis \<Rightarrow> string \<Rightarrow> string \<Rightarrow> string \<Rightarrow> ('s, unit) handler" where
  "hset1 R key f v = map_err Redis (hset (cmds R) CONFIG_DB key [(f, v)])"

definition hdel1 :: "'s redis \<Rightarrow> string \<Rightarrow> string \<Rightarrow> ('s, unit) handler" where
  "hdel1 R key f = map_err Redis (hdel (cmds R) CONFIG_DB key [f])"

definition del1 :: "'s redis \<Rightarrow> string \<Rightarrow> ('s, unit) handler" where
  "del1 R key = map_err Redis (del (cmds R) CONFIG_DB key)"

definition key_exists :: "'s redis \<Rightarrow> string \<Rightarrow> ('s, bool) handler" where
  "key_exists R key = map_err Redis (exists (cmds R) CONFIG_DB key)"

definition cfg_connect :: "'s redis \<Rightarrow> ('s, unit) handler" where
  "cfg_connect R = map_err Redis (connect R CONFIG_DB)"

definition cfg_scan :: "'s redis \<Rightarrow> string \<Rightarrow> ('s, string list) handler" where
  "cfg_scan R pat = map_err Redis (scan_keys R CONFIG_DB pat)"

text \<open>Omitted: untouched; null: cleared; present: written.\<close>

definition apply_patch_field :: "'s redis \<Rightarrow> string \<Rightarrow> string \<Rightarrow> string option option \<Rightarrow> ('s, unit) handler" where
  "apply_patch_field R key f v = (case v of
       Some (Some v) \<Rightarrow> hset1 R key f v
     | Some None \<Rightarrow> hdel1 R key f
     | None \<Rightarrow> ret ())"

definition set_or_clear :: "'s redis \<Rightarrow> string \<Rightarrow> string \<Rightarrow> string option \<Rightarrow> ('s, unit) handler" where
  "set_or_clear R key f v = (case v of Some v \<Rightarrow> hset1 R key f v | None \<Rightarrow> hdel1 R key f)"

definition bad :: "string + 'a \<Rightarrow> ('s, 'a) handler" where
  "bad r = lift (smap_err BadRequest r)"

section \<open>Ports\<close>

definition mkey :: "string \<Rightarrow> string \<Rightarrow> string" where
  "mkey vlan member = ''VLAN_MEMBER|'' @ vlan @ ''|'' @ member"

definition vlan_name :: "nat \<Rightarrow> string" where
  "vlan_name i = ''Vlan'' @ show_nat i"

text \<open>The payload checks that need no database.\<close>

definition check_patch :: "port_patch \<Rightarrow> string + vlan_rows option" where
  "check_patch p =
     sbind (case pp_mtu p of Some (Some v) \<Rightarrow> check_mtu v | _ \<Rightarrow> Inr ()) (\<lambda>_.
     sbind (case pp_speed_mbps p of Some (Some v) \<Rightarrow> check_speed v | _ \<Rightarrow> Inr ()) (\<lambda>_.
     case pp_vlan_mode p of
       None \<Rightarrow> Inr None
     | Some mode \<Rightarrow>
         sbind (desired_vlan_rows mode (Option.bind (pp_untagged_vlan p) (\<lambda>u. u)) (opt_or (pp_tagged_vlans p) []))
           (\<lambda>rows. Inr (Some rows))))"

definition check_port_speed :: "'s redis \<Rightarrow> string \<Rightarrow> port_patch \<Rightarrow> ('s, unit) handler" where
  "check_port_speed R name p = (case pp_speed_mbps p of
       Some (Some v) \<Rightarrow>
         bnd (opened R STATE_DB) (\<lambda>state.
         bnd (state_row R STATE_DB state (''PORT_TABLE|'' @ name)) (\<lambda>r.
         lift (smap_err Unprocessable
           (check_supported_speed v (parse_supported_speeds (field r ''supported_speeds''))))))
     | _ \<Rightarrow> ret ())"

definition check_vlans_exist :: "'s redis \<Rightarrow> vlan_rows option \<Rightarrow> ('s, unit) handler" where
  "check_vlans_exist R desired = (case desired of
       None \<Rightarrow> ret ()
     | Some rows \<Rightarrow> for_each (\<lambda>i.
         bnd (key_exists R (''VLAN|'' @ vlan_name i)) (\<lambda>e.
         guard e (BadRequest (''VLAN '' @ show_nat i @ '' does not exist'')))) (map fst rows))"

definition write_port_fields :: "'s redis \<Rightarrow> string \<Rightarrow> port_patch \<Rightarrow> ('s, unit) handler" where
  "write_port_fields R key p =
     bnd (apply_patch_field R key ''description'' (pp_description p)) (\<lambda>_.
     bnd (case pp_admin_status p of Some v \<Rightarrow> hset1 R key ''admin_status'' (admin_str v) | None \<Rightarrow> ret ()) (\<lambda>_.
     bnd (case pp_mtu p of None \<Rightarrow> ret () | Some v \<Rightarrow> set_or_clear R key ''mtu'' (map_option show_nat v)) (\<lambda>_.
     bnd (case pp_speed_mbps p of None \<Rightarrow> ret () | Some v \<Rightarrow> set_or_clear R key ''speed'' (map_option show_nat v)) (\<lambda>_.
     apply_patch_field R key ''fec'' (pp_fec p)))))"

text \<open>Current membership of the port, keyed by the VLAN id as a string.\<close>

primrec current_vlans :: "'s redis \<Rightarrow> string \<Rightarrow> string list \<Rightarrow> str_map \<Rightarrow> ('s, str_map) handler" where
  "current_vlans R name [] acc = ret acc"
| "current_vlans R name (key # ks) acc = (case member_parts key ''VLAN_MEMBER|'' of
       None \<Rightarrow> current_vlans R name ks acc
     | Some (vlan, member) \<Rightarrow>
         if member \<noteq> name then current_vlans R name ks acc
         else (case vlan_id_from_name vlan of
             None \<Rightarrow> current_vlans R name ks acc
           | Some i \<Rightarrow> bnd (hgetall_on R CONFIG_DB key) (\<lambda>r.
               current_vlans R name ks (al_put (show_nat i) (opt_or (field r ''tagging_mode'') ''untagged'') acc))))"

definition port_row_key :: "string \<Rightarrow> string \<Rightarrow> string" where
  "port_row_key name i = ''VLAN_MEMBER|Vlan'' @ i @ ''|'' @ name"

text \<open>Delete the stale rows, write the changed ones.\<close>

definition write_diff :: "'s redis \<Rightarrow> (string \<Rightarrow> string) \<Rightarrow> (string \<Rightarrow> string \<times> string) \<Rightarrow> str_map \<Rightarrow> str_map \<Rightarrow>
    ('s, unit) handler" where
  "write_diff R key fv cur desired = (case diff_rows cur desired of (dels, sets) \<Rightarrow>
     bnd (for_each (\<lambda>i. del1 R (key i)) dels) (\<lambda>_.
     for_each (\<lambda>(i, v). hset1 R (key i) (fst (fv v)) (snd (fv v))) sets))"

definition tag_field :: "string \<Rightarrow> string \<times> string" where
  "tag_field v = (''tagging_mode'', v)"

definition null_field :: "string \<Rightarrow> string \<times> string" where
  "null_field v = (''NULL'', ''NULL'')"

definition converge_port_vlans :: "'s redis \<Rightarrow> string \<Rightarrow> vlan_rows \<Rightarrow> ('s, unit) handler" where
  "converge_port_vlans R name rows =
     bnd (cfg_scan R ''VLAN_MEMBER|*'') (\<lambda>ks.
     bnd (current_vlans R name ks []) (\<lambda>cur.
     write_diff R (port_row_key name) tag_field cur (map (\<lambda>(i, m). (show_nat i, m)) rows)))"

definition update_port :: "'s redis \<Rightarrow> string \<Rightarrow> port_patch \<Rightarrow> ('s, unit) handler" where
  "update_port R name p =
     bnd (bad (check_patch p)) (\<lambda>desired.
     bnd (cfg_connect R) (\<lambda>_.
     bnd (key_exists R (''PORT|'' @ name)) (\<lambda>e.
     bnd (guard e (NotFound (''no such port '' @ name))) (\<lambda>_.
     bnd (check_port_speed R name p) (\<lambda>_.
     bnd (check_vlans_exist R desired) (\<lambda>_.
     bnd (write_port_fields R (''PORT|'' @ name) p) (\<lambda>_.
     case desired of None \<Rightarrow> ret () | Some rows \<Rightarrow> converge_port_vlans R name rows)))))))"

section \<open>VLANs\<close>

definition member_exists :: "'s redis \<Rightarrow> string \<Rightarrow> ('s, unit) handler" where
  "member_exists R name =
     bnd (key_exists R (''PORT|'' @ name)) (\<lambda>p.
     if p then ret ()
     else bnd (key_exists R (''PORTCHANNEL|'' @ name)) (\<lambda>c.
          guard c (BadRequest (''no such interface '' @ name))))"

definition check_members_exist :: "'s redis \<Rightarrow> str_map \<Rightarrow> ('s, unit) handler" where
  "check_members_exist R members = for_each (member_exists R) (map fst members)"

definition ikey :: "string \<Rightarrow> string \<Rightarrow> string" where
  "ikey vlan cidr = ''VLAN_INTERFACE|'' @ vlan @ ''|'' @ cidr"

definition create_vlan :: "'s redis \<Rightarrow> nat \<Rightarrow> vlan_input \<Rightarrow> ('s, unit) handler" where
  "create_vlan R vlan_id i =
     bnd (bad (check_vlan_id vlan_id)) (\<lambda>_.
     bnd (bad (vlan_member_map (vi_members i))) (\<lambda>members.
     bnd (bad (check_cidrs (vi_ip_addresses i))) (\<lambda>_.
     bnd (cfg_connect R) (\<lambda>_.
     let vlan = vlan_name vlan_id; key = ''VLAN|'' @ vlan in
     bnd (key_exists R key) (\<lambda>e.
     bnd (guard (\<not> e) (BadRequest (vlan @ '' already exists''))) (\<lambda>_.
     bnd (check_members_exist R members) (\<lambda>_.
     bnd (hset1 R key ''vlanid'' (show_nat vlan_id)) (\<lambda>_.
     bnd (case vi_description i of Some d \<Rightarrow> hset1 R key ''description'' d | None \<Rightarrow> ret ()) (\<lambda>_.
     bnd (if vi_dhcp_helpers i \<noteq> [] then hset1 R key ''dhcp_servers@'' (join '','' (vi_dhcp_helpers i)) else ret ()) (\<lambda>_.
     bnd (for_each (\<lambda>(m, t). hset1 R (mkey vlan m) ''tagging_mode'' t) members) (\<lambda>_.
     if vi_ip_addresses i \<noteq> [] then
       bnd (hset1 R (''VLAN_INTERFACE|'' @ vlan) ''NULL'' ''NULL'') (\<lambda>_.
       for_each (\<lambda>cidr. hset1 R (ikey vlan cidr) ''NULL'' ''NULL'') (vi_ip_addresses i))
     else ret ())))))))))))"

definition write_vlan_fields :: "'s redis \<Rightarrow> string \<Rightarrow> vlan_input \<Rightarrow> ('s, unit) handler" where
  "write_vlan_fields R key i =
     bnd (set_or_clear R key ''description'' (vi_description i)) (\<lambda>_.
     if vi_dhcp_helpers i = [] then
       bnd (hdel1 R key ''dhcp_servers@'') (\<lambda>_. hdel1 R key ''dhcp_servers'')
     else hset1 R key ''dhcp_servers@'' (join '','' (vi_dhcp_helpers i)))"

primrec current_members :: "'s redis \<Rightarrow> string list \<Rightarrow> str_map \<Rightarrow> ('s, str_map) handler" where
  "current_members R [] acc = ret acc"
| "current_members R (k # ks) acc = (case member_parts k ''VLAN_MEMBER|'' of
       None \<Rightarrow> current_members R ks acc
     | Some (_, member) \<Rightarrow> bnd (hgetall_on R CONFIG_DB k) (\<lambda>r.
         current_members R ks (al_put member (opt_or (field r ''tagging_mode'') ''untagged'') acc)))"

text \<open>The last part of scanned three-part keys, as a map to the empty string.\<close>

primrec name_set :: "string \<Rightarrow> string list \<Rightarrow> str_map \<Rightarrow> str_map" where
  "name_set prefix [] acc = acc"
| "name_set prefix (k # ks) acc = (case member_parts k prefix of
       None \<Rightarrow> name_set prefix ks acc
     | Some (_, x) \<Rightarrow> name_set prefix ks (al_put x [] acc))"

definition to_set_map :: "string list \<Rightarrow> str_map" where
  "to_set_map xs = foldl (\<lambda>acc x. al_put x [] acc) [] xs"

definition converge_members :: "'s redis \<Rightarrow> string \<Rightarrow> str_map \<Rightarrow> ('s, unit) handler" where
  "converge_members R vlan members =
     bnd (cfg_scan R (''VLAN_MEMBER|'' @ vlan @ ''|*'')) (\<lambda>ks.
     bnd (current_members R ks []) (\<lambda>cur.
     write_diff R (mkey vlan) tag_field cur members))"

definition converge_addresses :: "'s redis \<Rightarrow> string \<Rightarrow> string list \<Rightarrow> ('s, unit) handler" where
  "converge_addresses R vlan addrs =
     bnd (cfg_scan R (''VLAN_INTERFACE|'' @ vlan @ ''|*'')) (\<lambda>ks.
     let want = to_set_map addrs in
     (case diff_rows (name_set ''VLAN_INTERFACE|'' ks []) want of (dels, sets) \<Rightarrow>
       bnd (for_each (\<lambda>c. del1 R (ikey vlan c)) dels) (\<lambda>_.
       if want = [] then del1 R (''VLAN_INTERFACE|'' @ vlan)
       else bnd (hset1 R (''VLAN_INTERFACE|'' @ vlan) ''NULL'' ''NULL'') (\<lambda>_.
            for_each (\<lambda>(c, _). hset1 R (ikey vlan c) ''NULL'' ''NULL'') sets))))"

definition update_vlan :: "'s redis \<Rightarrow> nat \<Rightarrow> vlan_input \<Rightarrow> ('s, unit) handler" where
  "update_vlan R vlan_id i =
     bnd (bad (vlan_member_map (vi_members i))) (\<lambda>members.
     bnd (bad (check_cidrs (vi_ip_addresses i))) (\<lambda>_.
     bnd (cfg_connect R) (\<lambda>_.
     let vlan = vlan_name vlan_id; key = ''VLAN|'' @ vlan in
     bnd (key_exists R key) (\<lambda>e.
     bnd (guard e (NotFound (''no such VLAN '' @ vlan))) (\<lambda>_.
     bnd (check_members_exist R members) (\<lambda>_.
     bnd (write_vlan_fields R key i) (\<lambda>_.
     bnd (converge_members R vlan members) (\<lambda>_.
     converge_addresses R vlan (vi_ip_addresses i)))))))))"

definition delete_vlan :: "'s redis \<Rightarrow> nat \<Rightarrow> ('s, unit) handler" where
  "delete_vlan R vlan_id =
     bnd (cfg_connect R) (\<lambda>_.
     let vlan = vlan_name vlan_id in
     bnd (key_exists R (''VLAN|'' @ vlan)) (\<lambda>e.
     bnd (guard e (NotFound (''no such VLAN '' @ vlan))) (\<lambda>_.
     bnd (cfg_scan R (''VLAN_MEMBER|'' @ vlan @ ''|*'')) (\<lambda>ms.
     bnd (for_each (del1 R) ms) (\<lambda>_.
     bnd (cfg_scan R (''VLAN_INTERFACE|'' @ vlan @ ''|*'')) (\<lambda>is.
     bnd (for_each (del1 R) is) (\<lambda>_.
     bnd (del1 R (''VLAN_INTERFACE|'' @ vlan)) (\<lambda>_.
     del1 R (''VLAN|'' @ vlan)))))))))"

section \<open>Port channels\<close>

definition write_port_channel_fields :: "'s redis \<Rightarrow> string \<Rightarrow> port_channel_input \<Rightarrow> ('s, unit) handler" where
  "write_port_channel_fields R key i =
     bnd (hset1 R key ''admin_status'' (admin_str (pi_admin_status i))) (\<lambda>_.
     bnd (case pi_protocol i of Static \<Rightarrow> hset1 R key ''static'' ''true'' | Lacp \<Rightarrow> hdel1 R key ''static'') (\<lambda>_.
     bnd (set_or_clear R key ''mtu'' (map_option show_nat (pi_mtu i))) (\<lambda>_.
     bnd (set_or_clear R key ''min_links'' (map_option show_nat (pi_min_links i))) (\<lambda>_.
     bnd (hset1 R key ''fallback'' (if pi_fallback i then ''true'' else ''false'')) (\<lambda>_.
     hset1 R key ''fast_rate'' (if pi_fast_rate i then ''true'' else ''false''))))))"

definition check_port_channel_input :: "port_channel_input \<Rightarrow> string + string list" where
  "check_port_channel_input i =
     sbind (case pi_mtu i of Some v \<Rightarrow> check_mtu v | None \<Rightarrow> Inr ()) (\<lambda>_.
     sbind (check (pi_min_links i \<noteq> Some 0) ''min_links must be positive'') (\<lambda>_.
     unique_members (pi_members i)))"

definition check_ports_exist :: "'s redis \<Rightarrow> string list \<Rightarrow> ('s, unit) handler" where
  "check_ports_exist R members = for_each (\<lambda>m.
     bnd (key_exists R (''PORT|'' @ m)) (\<lambda>e. guard e (BadRequest (''no such port '' @ m)))) members"

definition pkey :: "string \<Rightarrow> string \<Rightarrow> string" where
  "pkey name m = ''PORTCHANNEL_MEMBER|'' @ name @ ''|'' @ m"

definition create_port_channel :: "'s redis \<Rightarrow> string \<Rightarrow> port_channel_input \<Rightarrow> ('s, unit) handler" where
  "create_port_channel R name i =
     bnd (guard (valid_port_channel_name name)
       (BadRequest (''invalid port channel name '' @ dbg name @ '' (expected PortChannel<1-4 digits>)''))) (\<lambda>_.
     bnd (bad (check_port_channel_input i)) (\<lambda>members.
     bnd (cfg_connect R) (\<lambda>_.
     let key = ''PORTCHANNEL|'' @ name in
     bnd (key_exists R key) (\<lambda>e.
     bnd (guard (\<not> e) (BadRequest (name @ '' already exists''))) (\<lambda>_.
     bnd (check_ports_exist R members) (\<lambda>_.
     bnd (write_port_channel_fields R key i) (\<lambda>_.
     for_each (\<lambda>m. hset1 R (pkey name m) ''NULL'' ''NULL'') members)))))))"

definition update_port_channel :: "'s redis \<Rightarrow> string \<Rightarrow> port_channel_input \<Rightarrow> ('s, unit) handler" where
  "update_port_channel R name i =
     bnd (bad (check_port_channel_input i)) (\<lambda>members.
     bnd (cfg_connect R) (\<lambda>_.
     let key = ''PORTCHANNEL|'' @ name in
     bnd (key_exists R key) (\<lambda>e.
     bnd (guard e (NotFound (''no such port channel '' @ name))) (\<lambda>_.
     bnd (check_ports_exist R members) (\<lambda>_.
     bnd (write_port_channel_fields R key i) (\<lambda>_.
     bnd (cfg_scan R (''PORTCHANNEL_MEMBER|'' @ name @ ''|*'')) (\<lambda>ks.
     write_diff R (pkey name) null_field (name_set ''PORTCHANNEL_MEMBER|'' ks []) (to_set_map members))))))))"

definition delete_port_channel :: "'s redis \<Rightarrow> string \<Rightarrow> ('s, unit) handler" where
  "delete_port_channel R name =
     bnd (cfg_connect R) (\<lambda>_.
     let key = ''PORTCHANNEL|'' @ name in
     bnd (key_exists R key) (\<lambda>e.
     bnd (guard e (NotFound (''no such port channel '' @ name))) (\<lambda>_.
     bnd (cfg_scan R (''PORTCHANNEL_MEMBER|'' @ name @ ''|*'')) (\<lambda>ks.
     bnd (for_each (del1 R) ks) (\<lambda>_.
     del1 R key)))))"

end
