(* ===== verification/SwitchingLaws.thy ===== *)
theory SwitchingLaws
  imports SwitchingWrite StoreLaws
begin

text \<open>
  Lemmas on the switching operations.

  \<^item> Pure parts: what a diff contains, the rows a VLAN mode asks for, the member maps.
  \<^item> \<open>redis_client\<close>: a client over a redis store. Handlers are \<open>careful\<close>: they validate before they
    write. Rules for single writes, for loops of deletions and writes, and for applying a diff.
  \<^item> \<open>live_client\<close>: rows can always be read; the convergence of the rows of a VLAN.
\<close>

section \<open>Diffs\<close>

lemma diff_rows_set:
  assumes "diff_rows cur desired = (dels, sets)"
  shows "set dels = {k. map_of cur k \<noteq> None \<and> map_of desired k = None}"
    and "distinct (map fst desired) \<Longrightarrow> set sets = {(k, v). map_of desired k = Some v \<and> map_of cur k \<noteq> Some v}"
    and "distinct (map fst desired) \<Longrightarrow> distinct (map fst sets)"
proof -
  have d: "dels = sort (filter (\<lambda>k. map_of desired k = None) (map fst cur))"
    and s: "sets = sort (filter (\<lambda>(k, v). map_of cur k \<noteq> Some v) desired)"
    using assms by (auto simp: diff_rows_def)
  show "set dels = {k. map_of cur k \<noteq> None \<and> map_of desired k = None}"
    by (auto simp: d map_of_eq_None_iff)
  assume dist: "distinct (map fst desired)"
  then show "set sets = {(k, v). map_of desired k = Some v \<and> map_of cur k \<noteq> Some v}"
    by (auto simp: s)
  show "distinct (map fst sets)"
    using dist by (auto simp: s distinct_map intro: inj_on_subset)
qed


section \<open>VLAN modes\<close>

lemma foldl_min: "foldl min x ys = Min (insert x (set ys))" for x :: nat
proof (induction ys arbitrary: x)
  case (Cons y ys)
  then show ?case by (cases "ys = []") (simp_all add: min.assoc)
qed simp

lemma list_min_Min: "list_min xs = (if xs = [] then None else Some (Min (set xs)))"
  by (cases xs) (simp_all add: list_min_def foldl_min)

lemma insert_tagged_spec: "insert_tagged is rows = Inr rows' \<Longrightarrow>
   map_of rows' i = (if i \<in> set is then Some ''tagged'' else map_of rows i) \<and> (\<forall>j\<in>set is. 1 \<le> j \<and> j \<le> 4094) \<and>
   distinct (map fst rows') = distinct (map fst rows)"
  by (induction "is" rows rule: insert_tagged.induct) (auto simp: check_vlan_id_def split: if_splits)

lemma desired_rows_map:
  assumes "desired_vlan_rows mode u t = Inr rows"
  shows "distinct (map fst rows) \<and> (map_of rows i \<noteq> None \<longrightarrow> 1 \<le> i \<and> i \<le> 4094) \<and>
    map_of rows i = (case mode of Routed \<Rightarrow> None
      | Access \<Rightarrow> if u = Some i then Some ''untagged'' else None
      | Trunk \<Rightarrow> if u = Some i then Some ''untagged'' else if i \<in> set t then Some ''tagged'' else None)"
proof (cases mode)
  case Trunk
  then obtain rows1 where r: "insert_tagged t [] = Inr rows1"
    and rows: "(case u of None \<Rightarrow> Inr rows1 | Some i \<Rightarrow> sbind (check_vlan_id i) (\<lambda>i. Inr (al_put i ''untagged'' rows1))) = Inr rows"
    using assms by (auto simp: desired_vlan_rows_def)
  have m: "map_of rows1 j = (if j \<in> set t then Some ''tagged'' else None)" for j
    using insert_tagged_spec [OF r, of j] by simp
  show ?thesis
    using insert_tagged_spec [OF r, of i] rows Trunk
    by (auto simp: check_vlan_id_def split: option.splits if_splits)
qed (use assms in \<open>auto simp: desired_vlan_rows_def check_vlan_id_def split: if_splits\<close>)


section \<open>Member maps and keys of one parent\<close>

lemma vlan_member_map_from_spec:
  "vlan_member_map_from acc ms = Inr r \<Longrightarrow> distinct (map fst acc) \<Longrightarrow>
   distinct (map fst r) \<and> distinct (map mi_name ms) \<and> (\<forall>m\<in>set ms. map_of acc (mi_name m) = None) \<and>
   (\<forall>x. map_of r x = (case map_of acc x of Some t \<Rightarrow> Some t
      | None \<Rightarrow> map_of (map (\<lambda>m. (mi_name m, tagging_str (mi_tagging m))) ms) x))"
proof (induction acc ms rule: vlan_member_map_from.induct)
  case (2 acc m ms)
  from "2.prems"(1) have n: "map_of acc (mi_name m) = None"
    and r: "vlan_member_map_from (al_put (mi_name m) (tagging_str (mi_tagging m)) acc) ms = Inr r"
    by (auto split: if_splits)
  have "distinct (map fst (al_put (mi_name m) (tagging_str (mi_tagging m)) acc))" using "2.prems"(2) by simp
  with "2.IH" n r have IH: "distinct (map fst r)" "distinct (map mi_name ms)"
    "\<forall>x\<in>set ms. map_of (al_put (mi_name m) (tagging_str (mi_tagging m)) acc) (mi_name x) = None"
    "\<forall>x. map_of r x = (case map_of (al_put (mi_name m) (tagging_str (mi_tagging m)) acc) x of Some t \<Rightarrow> Some t
      | None \<Rightarrow> map_of (map (\<lambda>m. (mi_name m, tagging_str (mi_tagging m))) ms) x)"
    by blast+
  from IH(3) have ms: "\<forall>x\<in>set ms. mi_name x \<noteq> mi_name m \<and> map_of acc (mi_name x) = None"
    by (simp only: map_of_al_put fun_upd_def split: if_splits) blast
  show ?case
  proof (intro conjI allI ballI)
    show "distinct (map fst r)" by (fact IH(1))
    show "distinct (map mi_name (m # ms))" using IH(2) ms by auto
    show "map_of acc (mi_name x) = None" if "x \<in> set (m # ms)" for x
      using that ms n by (cases "x = m") auto
    show "map_of r x = (case map_of acc x of Some t \<Rightarrow> Some t
      | None \<Rightarrow> map_of (map (\<lambda>m. (mi_name m, tagging_str (mi_tagging m))) (m # ms)) x)" for x
    proof (cases "x = mi_name m")
      case True
      with IH(4) [rule_format, of x] n show ?thesis by simp
    next
      case False
      with IH(4) [rule_format, of x] show ?thesis by (simp split: option.split)
    qed
  qed
qed (auto split: option.split)

lemma vlan_member_map_spec:
  assumes "vlan_member_map ms = Inr r"
  shows "distinct (map fst r)" "distinct (map mi_name ms)"
    "map_of r = map_of (map (\<lambda>m. (mi_name m, tagging_str (mi_tagging m))) ms)"
  using vlan_member_map_from_spec [of "[]" ms r] assms by (auto simp: vlan_member_map_def)

lemma map_of_to_set_map: "map_of (to_set_map xs) x = (if x \<in> set xs then Some [] else None) \<and> distinct (map fst (to_set_map xs))"
proof -
  have "map_of (foldl (\<lambda>acc x. al_put x [] acc) acc xs) x = (if x \<in> set xs then Some [] else map_of acc x)"
    and "distinct (map fst (foldl (\<lambda>acc x. al_put x [] acc) acc xs)) = distinct (map fst acc)"
    for acc :: str_map
    by (induction xs arbitrary: acc) auto
  then show ?thesis by (simp add: to_set_map_def)
qed

lemma to_set_map_Nil_iff [simp]: "to_set_map xs = [] \<longleftrightarrow> xs = []"
  using map_of_to_set_map [of xs "hd xs"] by (cases xs) (auto simp: to_set_map_def)

lemma map_of_name_set:
  "map_of (name_set p ks acc) x = (if \<exists>k\<in>set ks. \<exists>a. member_parts k p = Some (a, x) then Some [] else map_of acc x)"
  by (induction ks arbitrary: acc) (auto split: option.splits)

text \<open>The keys of one table that belong to one parent.\<close>

lemma member_parts_child:
  assumes "CHR ''|'' \<notin> set vl" "vl \<noteq> []"
  shows "member_parts (p @ vl @ ''|'' @ r) p = (if r = [] then None else Some (vl, r))"
  using assms by (auto simp: member_parts_def)

lemma child_parts:
  assumes "CHR ''|'' \<notin> set vl" "vl \<noteq> []" "\<forall>k\<in>set ks. starts_with (p @ vl @ ''|'') k"
  shows "(\<exists>k\<in>set ks. \<exists>a. member_parts k p = Some (a, x)) \<longleftrightarrow> x \<noteq> [] \<and> p @ vl @ ''|'' @ x \<in> set ks"
proof
  assume "\<exists>k\<in>set ks. \<exists>a. member_parts k p = Some (a, x)"
  then obtain k a where k: "k \<in> set ks" "member_parts k p = Some (a, x)" by blast
  with assms(3) obtain r where r: "k = p @ vl @ ''|'' @ r" by (auto simp: starts_with_iff)
  with k member_parts_child [OF assms(1,2), of p r] show "x \<noteq> [] \<and> p @ vl @ ''|'' @ x \<in> set ks"
    by (auto split: if_splits)
next
  assume "x \<noteq> [] \<and> p @ vl @ ''|'' @ x \<in> set ks"
  with member_parts_child [OF assms(1,2), of p x]
  show "\<exists>k\<in>set ks. \<exists>a. member_parts k p = Some (a, x)" by auto
qed

lemma vlan_name_props: "CHR ''|'' \<notin> set (vlan_name n)" "vlan_name n \<noteq> []" "plain_glob (vlan_name n)" "CHR ''*'' \<notin> set (vlan_name n)"
  using show_nat_no_char [of _ n] by (auto simp: vlan_name_def plain_glob_def char_class_defs)

definition tag_mode :: "(string \<rightharpoonup> string) \<Rightarrow> string" where
  "tag_mode r = opt_or (mfield r ''tagging_mode'') ''untagged''"

section \<open>Clients\<close>

locale redis_client = redis_store "cmds R" view ok
  for R :: "'s redis" and view :: "'s \<Rightarrow> dbs" and ok :: "'s \<Rightarrow> bool" +
  assumes connect_reads: "ok s \<Longrightarrow> connect R db s = (r, s') \<Longrightarrow> ok s' \<and> view s' = view s"
begin

lemma reads_connect [pure_io]: "reads (connect R db)"
  by (rule readsI) (rule connect_reads)

lemma reads_opened [pure_io]: "reads (opened R db)"
  by (auto simp: opened_def intro!: pure_io)

lemma reads_hgetall_on [pure_io]: "reads (hgetall_on R db key)"
  by (simp add: hgetall_on_def pure_io)

lemma reads_scan_keys [pure_io]: "reads (scan_keys R db pat)"
  by (simp add: scan_keys_def pure_io)

lemma reads_scan_or_none [pure_io]: "reads (scan_or_none R db pat)"
  by (simp add: scan_or_none_def pure_io)

lemma reads_state_row [pure_io]: "reads (state_row R db conn key)"
  by (simp add: state_row_def pure_io)

lemma reads_simple [pure_io]: "reads (bad r)" "reads (key_exists R key)" "reads (cfg_connect R)" "reads (cfg_scan R pat)"
  by (auto simp: bad_def key_exists_def cfg_connect_def cfg_scan_def intro!: pure_io)

text \<open>
  A handler is \<open>careful\<close> when a failure that is not one of the server leaves the databases as they
  were: it validates before it writes.
\<close>

definition careful :: "('s, write_error, 'a) io \<Rightarrow> bool" where
  "careful m \<longleftrightarrow> (\<forall>s e s'. ok s \<longrightarrow> m s = (Inl e, s') \<longrightarrow> (\<exists>x. e = Redis x) \<or> ok s' \<and> view s' = view s)"

definition redis_only :: "('s, write_error, 'a) io \<Rightarrow> bool" where
  "redis_only m \<longleftrightarrow> (\<forall>s e s'. m s = (Inl e, s') \<longrightarrow> (\<exists>x. e = Redis x))"

lemma careful_redis_only: "redis_only m \<Longrightarrow> careful m"
  by (auto simp: careful_def redis_only_def)

lemma careful_reads: "reads m \<Longrightarrow> careful m"
  by (auto simp: careful_def dest: readsD)

lemma careful_bnd:
  assumes "reads m" "\<And>x. careful (f x)"
  shows "careful (bnd m f)"
  unfolding careful_def
proof (intro allI impI)
  fix s e s' assume s: "ok s" and b: "bnd m f s = (Inl e, s')"
  obtain r s1 where m: "m s = (r, s1)" by (cases "m s")
  note s1 = readsD [OF assms(1) s m]
  show "(\<exists>x. e = Redis x) \<or> ok s' \<and> view s' = view s"
  proof (cases r)
    case (Inl e1)
    with b m s1 show ?thesis by (simp add: bnd_def)
  next
    case (Inr x)
    with b m have "f x s1 = (Inl e, s')" by (simp add: bnd_def)
    with assms(2) [of x] s1 show ?thesis unfolding careful_def by metis
  qed
qed

lemma careful_option: "careful m \<Longrightarrow> (\<And>x. careful (f x)) \<Longrightarrow> careful (case v of None \<Rightarrow> m | Some x \<Rightarrow> f x)"
  by (cases v) simp_all

lemma redis_only_bnd: "redis_only m \<Longrightarrow> (\<And>x. redis_only (f x)) \<Longrightarrow> redis_only (bnd m f)"
  by (auto simp: redis_only_def bnd_def split: prod.splits sum.splits)

lemma redis_only_ret: "redis_only (ret x)"
  by (simp add: redis_only_def ret_def)

lemma redis_only_map_err: "redis_only (map_err Redis m)"
  by (auto simp: redis_only_def map_err_def split: prod.splits sum.splits)

lemma redis_only_or_default: "redis_only (or_default d m)"
  by (auto simp: redis_only_def or_default_def split: prod.splits sum.splits)

lemma redis_only_for_each: "(\<And>x. redis_only (f x)) \<Longrightarrow> redis_only (for_each f xs)"
  by (induction xs) (auto intro: redis_only_bnd redis_only_ret)

lemma redis_only_case: "redis_only m \<Longrightarrow> (\<And>x. redis_only (f x)) \<Longrightarrow> redis_only (case v of None \<Rightarrow> m | Some x \<Rightarrow> f x)"
  "redis_only m \<Longrightarrow> redis_only n \<Longrightarrow> redis_only (if b then m else n)"
  "(\<And>a b. redis_only (g a b)) \<Longrightarrow> redis_only (case p of (a, b) \<Rightarrow> g a b)"
  "redis_only m \<Longrightarrow> redis_only n \<Longrightarrow> redis_only (case w of Static \<Rightarrow> m | Lacp \<Rightarrow> n)"
  by (cases v; simp) (simp_all split: prod.split lag_protocol.split)

lemma redis_only_writes: "redis_only (hset1 R key f v)" "redis_only (hdel1 R key f)" "redis_only (del1 R key)"
  "redis_only (cfg_scan R pat)" "redis_only (apply_patch_field R key f pf)" "redis_only (set_or_clear R key f so)"
  by (auto simp: hset1_def hdel1_def del1_def cfg_scan_def apply_patch_field_def set_or_clear_def
      intro!: redis_only_map_err redis_only_case redis_only_ret)

lemmas redis_only_intros = redis_only_bnd redis_only_ret redis_only_for_each redis_only_case redis_only_writes

lemma redis_only_current: "redis_only (current_vlans R name ks acc)" "redis_only (current_members R ks acc')"
  by (induction ks arbitrary: acc acc')
     (auto simp: hgetall_on_def row_of_def split: option.split prod.split intro!: redis_only_intros redis_only_or_default)

lemma redis_only_diff: "redis_only (write_diff R key fv cur desired)"
  by (auto simp: write_diff_def split: prod.split intro!: redis_only_intros)

lemma redis_only_parts: "redis_only (write_port_fields R key p)" "redis_only (converge_port_vlans R name rows)"
  "redis_only (write_vlan_fields R key vi)" "redis_only (converge_members R vlan ms)"
  "redis_only (converge_addresses R vlan addrs)" "redis_only (write_port_channel_fields R key pi)"
  by (auto simp: write_port_fields_def converge_port_vlans_def write_vlan_fields_def converge_members_def
      converge_addresses_def write_port_channel_fields_def Let_def split: prod.split
      intro!: redis_only_intros redis_only_current redis_only_diff)

lemma reads_checks [pure_io]: "reads (check_port_speed R name p)" "reads (check_vlans_exist R d)"
  "reads (check_members_exist R ms)" "reads (check_ports_exist R ps)"
  by (auto simp: check_port_speed_def check_vlans_exist_def check_members_exist_def check_ports_exist_def
      member_exists_def split: option.split intro!: pure_io)

lemmas redis_only_all = redis_only_intros redis_only_parts redis_only_diff

lemma careful_update_port: "careful (update_port R name p)"
  unfolding update_port_def Let_def
  by ((rule careful_bnd, (intro pure_io; fail)[1])+, rule careful_redis_only, intro redis_only_all)

lemma careful_create_vlan: "careful (create_vlan R n vi)"
  unfolding create_vlan_def Let_def
  by ((rule careful_bnd, (intro pure_io; fail)[1])+, rule careful_redis_only, intro redis_only_all)

lemma careful_update_vlan: "careful (update_vlan R n vi)"
  unfolding update_vlan_def Let_def
  by ((rule careful_bnd, (intro pure_io; fail)[1])+, rule careful_redis_only, intro redis_only_all)

lemma careful_delete_vlan: "careful (delete_vlan R n)"
  unfolding delete_vlan_def Let_def
  by ((rule careful_bnd, (intro pure_io; fail)[1])+, rule careful_redis_only, intro redis_only_all)

lemma careful_create_port_channel: "careful (create_port_channel R name pi)"
  unfolding create_port_channel_def Let_def
  by ((rule careful_bnd, (intro pure_io; fail)[1])+, rule careful_redis_only, intro redis_only_all)

lemma careful_update_port_channel: "careful (update_port_channel R name pi)"
  unfolding update_port_channel_def Let_def
  by ((rule careful_bnd, (intro pure_io; fail)[1])+, rule careful_redis_only, intro redis_only_all)

lemma careful_delete_port_channel: "careful (delete_port_channel R name)"
  unfolding delete_port_channel_def Let_def
  by ((rule careful_bnd, (intro pure_io; fail)[1])+, rule careful_redis_only, intro redis_only_all)

section \<open>Writes\<close>


lemma wp_hset1:
  assumes "ok s" "\<And>s'. ok s' \<Longrightarrow> view s' = v_hset CONFIG_DB key [(f, v)] (view s) \<Longrightarrow> Q () s'" "\<And>e s'. E e s'"
  shows "wp (hset1 R key f v) Q E s"
  unfolding hset1_def using assms by (intro wp_map_err wp_hset) auto

lemma wp_hdel1:
  assumes "ok s" "\<And>s'. ok s' \<Longrightarrow> view s' = v_hdel CONFIG_DB key [f] (view s) \<Longrightarrow> Q () s'" "\<And>e s'. E e s'"
  shows "wp (hdel1 R key f) Q E s"
  unfolding hdel1_def using assms by (intro wp_map_err wp_hdel) auto

lemma wp_del1:
  assumes "ok s" "\<And>s'. ok s' \<Longrightarrow> view s' = v_del CONFIG_DB key (view s) \<Longrightarrow> Q () s'" "\<And>e s'. E e s'"
  shows "wp (del1 R key) Q E s"
  unfolding del1_def using assms by (intro wp_map_err wp_del) auto

lemma wp_cfg_scan:
  assumes "ok s" "CHR ''*'' \<notin> set pre" "plain_glob pre"
    "\<And>ks s'. ok s' \<Longrightarrow> view s' = view s \<Longrightarrow> set ks = {k. view s CONFIG_DB k \<noteq> Map.empty \<and> starts_with pre k} \<Longrightarrow> Q ks s'"
    "\<And>e s'. E e s'"
  shows "wp (cfg_scan R (pre @ ''*'')) Q E s"
  unfolding cfg_scan_def scan_keys_def using assms by (intro wp_map_err wp_scan_prefix) auto

lemma wp_key_exists:
  assumes "ok s" "\<And>b s'. ok s' \<Longrightarrow> view s' = view s \<Longrightarrow> b \<longleftrightarrow> view s CONFIG_DB key \<noteq> Map.empty \<Longrightarrow> Q b s'" "\<And>e s'. E e s'"
  shows "wp (key_exists R key) Q E s"
  unfolding key_exists_def using assms by (intro wp_map_err wp_exists) auto

lemma wp_del_each:
  assumes "ok s"
    "\<And>s'. ok s' \<Longrightarrow> view s' = v_drop CONFIG_DB (\<lambda>k. \<exists>i\<in>set xs. k = key i) (view s) \<Longrightarrow> Q () s'" "\<And>e s'. E e s'"
  shows "wp (for_each (\<lambda>i. del1 R (key i)) xs) Q E s"
proof (rule wp_for_each [where I = "\<lambda>ys t. ok t \<and> view t = v_drop CONFIG_DB (\<lambda>k. \<exists>i\<in>set ys. k = key i) (view s)"])
  fix ys z zs t
  assume "ok t \<and> view t = v_drop CONFIG_DB (\<lambda>k. \<exists>i\<in>set ys. k = key i) (view s)"
  then show "wp (del1 R (key z)) (\<lambda>_ t. ok t \<and> view t = v_drop CONFIG_DB (\<lambda>k. \<exists>i\<in>set (ys @ [z]). k = key i) (view s)) E t"
    by (intro wp_del1) (auto simp: v_del_drop assms(3) intro!: v_drop_cong)
qed (use assms in auto)

text \<open>Writing one field into each row of a list of distinct rows.\<close>

definition set_rows :: "(string \<Rightarrow> string) \<Rightarrow> (string \<Rightarrow> string \<times> string) \<Rightarrow> (string \<rightharpoonup> string) \<Rightarrow> dbs \<Rightarrow> dbs \<Rightarrow> bool" where
  "set_rows key fv sets v v' \<longleftrightarrow>
     (\<forall>i. v' CONFIG_DB (key i) = (case sets i of None \<Rightarrow> v CONFIG_DB (key i)
        | Some w \<Rightarrow> (v CONFIG_DB (key i))(fst (fv w) \<mapsto> snd (fv w)))) \<and>
     (\<forall>d k. d \<noteq> CONFIG_DB \<or> k \<notin> range key \<longrightarrow> v' d k = v d k)"

lemma wp_hset_each:
  assumes "ok s" "inj key" "distinct (map fst sets)"
    "\<And>s'. ok s' \<Longrightarrow> set_rows key fv (map_of sets) (view s) (view s') \<Longrightarrow> Q () s'" "\<And>e s'. E e s'"
  shows "wp (for_each (\<lambda>(i, v). hset1 R (key i) (fst (fv v)) (snd (fv v))) sets) Q E s"
proof (rule wp_for_each [where I = "\<lambda>ys t. ok t \<and> set_rows key fv (map_of ys) (view s) (view t)"])
  fix ys z zs t
  assume sets: "sets = ys @ z # zs" and I: "ok t \<and> set_rows key fv (map_of ys) (view s) (view t)"
  obtain i w where z: "z = (i, w)" by (cases z)
  have "map_of ys i = None" using sets assms(3) z by (auto simp: map_of_eq_None_iff)
  then have m: "map_of (ys @ [z]) = (map_of ys)(i \<mapsto> w)" by (auto simp: z map_add_def fun_eq_iff split: option.split)
  show "wp (case z of (i, v) \<Rightarrow> hset1 R (key i) (fst (fv v)) (snd (fv v)))
      (\<lambda>_ t. ok t \<and> set_rows key fv (map_of (ys @ [z])) (view s) (view t)) E t"
    unfolding z prod.case
  proof (rule wp_hset1)
    fix s' assume s': "ok s'" "view s' = v_hset CONFIG_DB (key i) [(fst (fv w), snd (fv w))] (view t)"
    have "view s' CONFIG_DB (key j) = (if j = i then (view t CONFIG_DB (key j))(fst (fv w) \<mapsto> snd (fv w))
        else view t CONFIG_DB (key j))" for j
      using s'(2) inj_eq [OF assms(2)] by auto
    moreover have "view s' d k = view t d k" if "d \<noteq> CONFIG_DB \<or> k \<notin> range key" for d k
    proof -
      from that have "(d, k) \<noteq> (CONFIG_DB, key i)" by auto
      with s'(2) show ?thesis by simp
    qed
    ultimately show "ok s' \<and> set_rows key fv (map_of (ys @ [(i, w)])) (view s) (view s')"
      using s'(1) I \<open>map_of ys i = None\<close> m [unfolded z] by (auto simp: set_rows_def)
  qed (use I assms(5) in auto)
qed (use assms in \<open>auto simp: set_rows_def\<close>)

text \<open>The effect of deleting the stale and writing the changed rows.\<close>

definition diffed :: "(string \<Rightarrow> string) \<Rightarrow> (string \<Rightarrow> string \<times> string) \<Rightarrow> (string \<rightharpoonup> string) \<Rightarrow> (string \<rightharpoonup> string) \<Rightarrow> dbs \<Rightarrow> dbs \<Rightarrow> bool" where
  "diffed key fv cur desired v v' \<longleftrightarrow>
     (\<forall>i. v' CONFIG_DB (key i) = (case desired i of
         None \<Rightarrow> if cur i = None then v CONFIG_DB (key i) else Map.empty
       | Some w \<Rightarrow> if cur i = Some w then v CONFIG_DB (key i)
           else (v CONFIG_DB (key i))(fst (fv w) \<mapsto> snd (fv w)))) \<and>
     (\<forall>d k. d \<noteq> CONFIG_DB \<or> k \<notin> range key \<longrightarrow> v' d k = v d k)"

lemma diffed_of_parts:
  assumes "inj key" "diff_rows cur desired = (dels, sets)" "distinct (map fst desired)"
    "v1 = v_drop CONFIG_DB (\<lambda>k. \<exists>i\<in>set dels. k = key i) v" "set_rows key fv (map_of sets) v1 v2"
  shows "diffed key fv (map_of cur) (map_of desired) v v2"
proof -
  note d = diff_rows_set [OF assms(2)]
  have s: "map_of sets i = (if map_of cur i = map_of desired i then None else map_of desired i)" for i
  proof (cases "map_of sets i")
    case None
    then have "(i, w) \<notin> set sets" for w by (auto simp: map_of_eq_None_iff image_iff)
    then show ?thesis using None d(2) [OF assms(3)] by (cases "map_of desired i") auto
  next
    case (Some w)
    from map_of_SomeD [OF Some] d(2) [OF assms(3)] Some show ?thesis by auto
  qed
  have del: "(\<exists>j\<in>set dels. key i = key j) \<longleftrightarrow> map_of cur i \<noteq> None \<and> map_of desired i = None" for i
    using d(1) inj_eq [OF assms(1)] by auto
  have v1: "v1 CONFIG_DB (key i) = (if map_of cur i \<noteq> None \<and> map_of desired i = None then Map.empty else v CONFIG_DB (key i))" for i
    unfolding assms(4) by (simp only: v_drop_apply del simp_thms)
  have "v1 d k = v d k" if "d \<noteq> CONFIG_DB \<or> k \<notin> range key" for d k
    using that by (auto simp: assms(4))
  with assms(5) s v1 show ?thesis
    by (auto simp: diffed_def set_rows_def split: option.splits)
qed

lemma wp_write_diff:
  assumes "ok s" "inj key" "distinct (map fst desired)"
    "\<And>s'. ok s' \<Longrightarrow> diffed key fv (map_of cur) (map_of desired) (view s) (view s') \<Longrightarrow> Q () s'" "\<And>e s'. E e s'"
  shows "wp (write_diff R key fv cur desired) Q E s"
proof -
  obtain dels sets where d: "diff_rows cur desired = (dels, sets)" by (cases "diff_rows cur desired")
  show ?thesis
    unfolding write_diff_def d prod.case
    by (intro wp_bnd wp_del_each wp_hset_each)
      (use assms diff_rows_set(3) [OF d] diffed_of_parts [OF assms(2) d assms(3)] in auto)
qed

end

section \<open>VLAN rows\<close>

locale live_client = redis_client R view ok + live_store "cmds R" view ok up
  for R :: "'s redis" and view :: "'s \<Rightarrow> dbs" and ok :: "'s \<Rightarrow> bool" and up :: "'s \<Rightarrow> bool"
begin

lemma wp_current_children:
  assumes "ok s" "CHR ''|'' \<notin> set vl" "vl \<noteq> []" "\<forall>k\<in>set ks. starts_with (''VLAN_MEMBER|'' @ vl @ ''|'') k"
    "\<And>s' r. ok s' \<Longrightarrow> view s' = view s \<Longrightarrow> (\<And>m. map_of r m =
       (if m \<noteq> [] \<and> mkey vl m \<in> set ks then Some (tag_mode (view s CONFIG_DB (mkey vl m))) else map_of acc m)) \<Longrightarrow> Q r s'"
  shows "wp (current_members R ks acc) Q E s"
  using assms(1,4,5)
proof (induction ks arbitrary: acc s)
  case Nil
  then show ?case by (simp add: wp_ret)
next
  case (Cons k ks)
  obtain q where k: "k = mkey vl q" using Cons.prems(2) by (auto simp: starts_with_iff mkey_def)
  have mp: "member_parts k ''VLAN_MEMBER|'' = (if q = [] then None else Some (vl, q))"
    using member_parts_child [OF assms(2,3), of "''VLAN_MEMBER|''" q] by (simp add: k mkey_def)
  have inj: "mkey vl x = k \<longleftrightarrow> x = q" for x by (auto simp: k mkey_def)
  show ?case
  proof (cases "q = []")
    case True
    then have mp': "member_parts k ''VLAN_MEMBER|'' = None" using mp by simp
    show ?thesis
      unfolding current_members.simps mp' option.case
      by (rule Cons.IH [OF Cons.prems(1)]) (use Cons.prems(2,3) inj True in auto)
  next
    case False
    then have mp': "member_parts k ''VLAN_MEMBER|'' = Some (vl, q)" using mp by simp
    show ?thesis
      unfolding current_members.simps mp' option.case prod.case hgetall_on_def
    proof (intro wp_bnd wp_row_of_live [OF Cons.prems(1)])
      fix r s1 assume s1: "ok s1" "view s1 = view s" and r: "map_of r = view s CONFIG_DB k"
      have t: "opt_or (field r ''tagging_mode'') ''untagged'' = tag_mode (view s CONFIG_DB k)"
        by (simp add: tag_mode_def field_map r)
      show "wp (current_members R ks (al_put q (opt_or (field r ''tagging_mode'') ''untagged'') acc)) Q E s1"
        unfolding t
        by (rule Cons.IH [OF s1(1)]) (use Cons.prems(2,3) inj s1 False in \<open>auto simp: k\<close>)
    qed
  qed
qed

end

lemma key_inj: "inj (mkey vl)" "inj (ikey vl)" "inj (pkey nm)"
  by (auto simp: inj_def mkey_def ikey_def pkey_def)

lemma mfield_upd: "trim v = v \<Longrightarrow> v \<noteq> [] \<Longrightarrow> mfield (r(f \<mapsto> v)) f = Some v"
  by (simp add: mfield_def)

lemma tag_mode_upd [simp]: "tag_mode (r(''tagging_mode'' \<mapsto> tagging_str t)) = tagging_str t"
  by (cases t) (simp_all add: tag_mode_def mfield_def tagging_str_def run)

text \<open>The state of the member rows and of the address rows of a VLAN.\<close>

definition members_are :: "string \<Rightarrow> vlan_member_input list \<Rightarrow> dbs \<Rightarrow> bool" where
  "members_are vl ms v \<longleftrightarrow>
     (\<forall>m. m \<noteq> [] \<longrightarrow> (v CONFIG_DB (mkey vl m) \<noteq> Map.empty \<longleftrightarrow> m \<in> mi_name ` set ms)) \<and>
     (\<forall>m\<in>set ms. mi_name m \<noteq> [] \<longrightarrow> tag_mode (v CONFIG_DB (mkey vl (mi_name m))) = tagging_str (mi_tagging m))"

definition addresses_are :: "string \<Rightarrow> string list \<Rightarrow> dbs \<Rightarrow> bool" where
  "addresses_are vl addrs v \<longleftrightarrow>
     (\<forall>c. c \<noteq> [] \<longrightarrow> (v CONFIG_DB (ikey vl c) \<noteq> Map.empty \<longleftrightarrow> c \<in> set addrs)) \<and>
     (v CONFIG_DB (''VLAN_INTERFACE|'' @ vl) \<noteq> Map.empty \<longleftrightarrow> addrs \<noteq> [])"

definition same_outside :: "(int \<times> string) set \<Rightarrow> dbs \<Rightarrow> dbs \<Rightarrow> bool" where
  "same_outside K v v' \<longleftrightarrow> (\<forall>d k. (d, k) \<notin> K \<longrightarrow> v' d k = v d k)"

lemma same_outsideD: "same_outside K v v' \<Longrightarrow> (d, k) \<notin> K \<Longrightarrow> v' d k = v d k"
  by (simp add: same_outside_def)

context live_client
begin

lemma diffed_members:
  assumes "vlan_member_map ms = Inr members"
    "\<And>m. map_of cur m = (if m \<noteq> [] \<and> v CONFIG_DB (mkey vl m) \<noteq> Map.empty then Some (tag_mode (v CONFIG_DB (mkey vl m))) else None)"
    "diffed (mkey vl) tag_field (map_of cur) (map_of members) v v'"
  shows "members_are vl ms v' \<and> same_outside ({CONFIG_DB} \<times> range (mkey vl)) v v'"
proof -
  note mm = vlan_member_map_spec [OF assms(1)]
  have row: "v' CONFIG_DB (mkey vl m) = (case map_of members m of
         None \<Rightarrow> if map_of cur m = None then v CONFIG_DB (mkey vl m) else Map.empty
       | Some w \<Rightarrow> if map_of cur m = Some w then v CONFIG_DB (mkey vl m)
           else (v CONFIG_DB (mkey vl m))(''tagging_mode'' \<mapsto> w))" for m
    using assms(3) unfolding diffed_def tag_field_def fst_conv snd_conv by blast
  have dom: "map_of members m \<noteq> None \<longleftrightarrow> m \<in> mi_name ` set ms" for m
    unfolding mm(3) by (simp add: map_of_eq_None_iff image_image)
  have val: "map_of members (mi_name m) = Some (tagging_str (mi_tagging m))" if "m \<in> set ms" for m
    unfolding mm(3) using that mm(2) by (intro map_of_is_SomeI) (auto simp: o_def)
  have "v' CONFIG_DB (mkey vl m) \<noteq> Map.empty \<longleftrightarrow> m \<in> mi_name ` set ms" if "m \<noteq> []" for m
    using row [of m] assms(2) [of m] that unfolding dom [symmetric]
    by (auto split: option.splits if_splits)
  moreover have "tag_mode (v' CONFIG_DB (mkey vl (mi_name m))) = tagging_str (mi_tagging m)"
    if m: "m \<in> set ms" "mi_name m \<noteq> []" for m
    using row [of "mi_name m"] assms(2) [of "mi_name m"] m(2) val [OF m(1)] by (auto split: if_splits)
  moreover have "same_outside ({CONFIG_DB} \<times> range (mkey vl)) v v'"
    using assms(3) by (auto simp: same_outside_def diffed_def)
  ultimately show ?thesis by (auto simp: members_are_def)
qed

lemma wp_converge_members:
  assumes "ok s" "CHR ''|'' \<notin> set vl" "vl \<noteq> []" "plain_glob vl" "CHR ''*'' \<notin> set vl" "vlan_member_map ms = Inr members"
    "\<And>s'. ok s' \<Longrightarrow> members_are vl ms (view s') \<Longrightarrow>
       same_outside ({CONFIG_DB} \<times> range (mkey vl)) (view s) (view s') \<Longrightarrow> Q () s'" "\<And>e s'. E e s'"
  shows "wp (converge_members R vl members) Q E s"
proof -
  have "wp (bnd (cfg_scan R ((''VLAN_MEMBER|'' @ vl @ ''|'') @ ''*'')) (\<lambda>ks.
     bnd (current_members R ks []) (\<lambda>cur. write_diff R (mkey vl) tag_field cur members))) Q E s"
  proof (intro wp_bnd wp_cfg_scan [OF assms(1)])
    fix ks s1 assume s1: "ok s1" "view s1 = view s"
      and ks: "set ks = {k. view s CONFIG_DB k \<noteq> Map.empty \<and> starts_with (''VLAN_MEMBER|'' @ vl @ ''|'') k}"
    have mem: "mkey vl m \<in> set ks \<longleftrightarrow> view s CONFIG_DB (mkey vl m) \<noteq> Map.empty" for m
      unfolding ks by (auto simp: starts_with_iff mkey_def)
    show "wp (current_members R ks []) (\<lambda>cur. wp (write_diff R (mkey vl) tag_field cur members) Q E) E s1"
    proof (rule wp_current_children [OF s1(1) assms(2,3)])
      fix s2 cur assume s2: "ok s2" "view s2 = view s1"
        and cur: "\<And>m. map_of cur m = (if m \<noteq> [] \<and> mkey vl m \<in> set ks
            then Some (tag_mode (view s1 CONFIG_DB (mkey vl m))) else map_of [] m)"
      show "wp (write_diff R (mkey vl) tag_field cur members) Q E s2"
      proof (rule wp_write_diff [OF s2(1) key_inj(1) vlan_member_map_spec(1) [OF assms(6)]])
        fix s3 assume s3: "ok s3" "diffed (mkey vl) tag_field (map_of cur) (map_of members) (view s2) (view s3)"
        have "map_of cur m = (if m \<noteq> [] \<and> view s CONFIG_DB (mkey vl m) \<noteq> Map.empty
            then Some (tag_mode (view s CONFIG_DB (mkey vl m))) else None)" for m
          using cur [of m] mem [of m] s1 by simp
        from diffed_members [OF assms(6), of cur "view s", OF this] s3 s1 s2 show "Q () s3"
          by (intro assms(7)) auto
      qed (rule assms(8))
    qed (use ks in auto)
  qed (use assms in \<open>auto\<close>)
  then show ?thesis by (simp add: converge_members_def)
qed

lemma set_rows_outside:
  assumes "key0 \<notin> range key" "set_rows key fv sets (v_hset CONFIG_DB key0 fs v) w"
  shows "set_rows key fv sets v (w(CONFIG_DB := (w CONFIG_DB)(key0 := v CONFIG_DB key0)))"
proof -
  let ?w = "w(CONFIG_DB := (w CONFIG_DB)(key0 := v CONFIG_DB key0))"
  have k: "key i \<noteq> key0" for i using assms(1) by auto
  have "?w CONFIG_DB (key i) = (case sets i of None \<Rightarrow> v CONFIG_DB (key i)
        | Some x \<Rightarrow> (v CONFIG_DB (key i))(fst (fv x) \<mapsto> snd (fv x)))" for i
    using assms(2) k [of i] by (cases "sets i") (auto simp: set_rows_def)
  moreover have "?w d k' = v d k'" if "d \<noteq> CONFIG_DB \<or> k' \<notin> range key" for d k'
    using assms(2) that by (cases "(d, k') = (CONFIG_DB, key0)") (auto simp: set_rows_def)
  ultimately show ?thesis unfolding set_rows_def by blast
qed

lemma wp_converge_addresses:
  assumes "ok s" "CHR ''|'' \<notin> set vl" "vl \<noteq> []" "plain_glob vl" "CHR ''*'' \<notin> set vl"
    "\<And>s'. ok s' \<Longrightarrow> addresses_are vl addrs (view s') \<Longrightarrow>
       same_outside ({CONFIG_DB} \<times> insert (''VLAN_INTERFACE|'' @ vl) (range (ikey vl))) (view s) (view s') \<Longrightarrow> Q () s'"
    "\<And>e s'. E e s'"
  shows "wp (converge_addresses R vl addrs) Q E s"
proof -
  let ?par = "''VLAN_INTERFACE|'' @ vl"
  have "wp (bnd (cfg_scan R ((''VLAN_INTERFACE|'' @ vl @ ''|'') @ ''*'')) (\<lambda>ks.
     let want = to_set_map addrs in
     (case diff_rows (name_set ''VLAN_INTERFACE|'' ks []) want of (dels, sets) \<Rightarrow>
       bnd (for_each (\<lambda>c. del1 R (ikey vl c)) dels) (\<lambda>_.
       if want = [] then del1 R ?par
       else bnd (hset1 R ?par ''NULL'' ''NULL'') (\<lambda>_.
            for_each (\<lambda>(c, _). hset1 R (ikey vl c) ''NULL'' ''NULL'') sets))))) Q E s"
  proof (intro wp_bnd wp_cfg_scan [OF assms(1)])
    fix ks s1 assume s1: "ok s1" "view s1 = view s"
      and ks: "set ks = {k. view s CONFIG_DB k \<noteq> Map.empty \<and> starts_with (''VLAN_INTERFACE|'' @ vl @ ''|'') k}"
    have mem: "ikey vl m \<in> set ks \<longleftrightarrow> view s CONFIG_DB (ikey vl m) \<noteq> Map.empty" for m
      unfolding ks by (auto simp: starts_with_iff ikey_def)
    define cur where "cur = name_set ''VLAN_INTERFACE|'' ks []"
    define want where "want = to_set_map addrs"
    obtain dels sets where d: "diff_rows cur want = (dels, sets)" by (cases "diff_rows cur want")
    have pre: "\<forall>k\<in>set ks. starts_with (''VLAN_INTERFACE|'' @ vl @ ''|'') k" using ks by simp
    have cur: "map_of cur c = (if c \<noteq> [] \<and> view s CONFIG_DB (ikey vl c) \<noteq> Map.empty then Some [] else None)" for c
    proof -
      have k: "''VLAN_INTERFACE|'' @ vl @ ''|'' @ c = ikey vl c" by (simp only: ikey_def)
      show ?thesis
        unfolding cur_def map_of_name_set child_parts [OF assms(2,3) pre] k mem by simp
    qed
    have want: "map_of want c = (if c \<in> set addrs then Some [] else None)" "distinct (map fst want)"
      "want = [] \<longleftrightarrow> addrs = []" for c
      using map_of_to_set_map by (auto simp: want_def)
    have par: "?par \<noteq> ikey vl c" "ikey vl c \<noteq> ?par" for c by (auto simp: ikey_def)
    have nr: "?par \<notin> range (ikey vl)" by (auto simp: ikey_def)
    have fin: "Q () s4" if s4: "ok s4" and par_row: "view s4 CONFIG_DB ?par \<noteq> Map.empty \<longleftrightarrow> addrs \<noteq> []"
      and diffs: "diffed (ikey vl) null_field (map_of cur) (map_of want) (view s) v4"
      and other: "\<And>d k. (d, k) \<noteq> (CONFIG_DB, ?par) \<Longrightarrow> view s4 d k = v4 d k" for s4 v4
    proof (rule assms(6) [OF s4])
      have "view s4 CONFIG_DB (ikey vl c) = v4 CONFIG_DB (ikey vl c)" for c
        using other par by auto
      then have row: "view s4 CONFIG_DB (ikey vl c) = (case map_of want c of
         None \<Rightarrow> if map_of cur c = None then view s CONFIG_DB (ikey vl c) else Map.empty
       | Some w \<Rightarrow> if map_of cur c = Some w then view s CONFIG_DB (ikey vl c)
           else (view s CONFIG_DB (ikey vl c))(''NULL'' \<mapsto> ''NULL''))" for c
        using diffs unfolding diffed_def null_field_def fst_conv snd_conv by simp
      show "addresses_are vl addrs (view s4)"
        using par_row row cur want(1) by (auto simp: addresses_are_def split: if_splits)
      show "same_outside ({CONFIG_DB} \<times> insert ?par (range (ikey vl))) (view s) (view s4)"
        using other diffs by (auto simp: same_outside_def diffed_def)
    qed
    show "wp (let want = to_set_map addrs in
     (case diff_rows (name_set ''VLAN_INTERFACE|'' ks []) want of (dels, sets) \<Rightarrow>
       bnd (for_each (\<lambda>c. del1 R (ikey vl c)) dels) (\<lambda>_.
       if want = [] then del1 R ?par
       else bnd (hset1 R ?par ''NULL'' ''NULL'') (\<lambda>_.
            for_each (\<lambda>(c, _). hset1 R (ikey vl c) ''NULL'' ''NULL'') sets)))) Q E s1"
      unfolding Let_def cur_def [symmetric] want_def [symmetric] d prod.case
    proof (intro wp_bnd wp_del_each [OF s1(1)] wp_if wp_del1)
      fix s2 s3 assume s2: "ok s2" "view s2 = v_drop CONFIG_DB (\<lambda>k. \<exists>i\<in>set dels. k = ikey vl i) (view s1)"
        and w: "want = []" and s3: "ok s3" "view s3 = v_del CONFIG_DB ?par (view s2)"
      have "sets = []" using d w by (simp add: diff_rows_def)
      then have sr: "set_rows (ikey vl) null_field (map_of sets) (view s2) (view s2)" by (simp add: set_rows_def)
      have "diffed (ikey vl) null_field (map_of cur) (map_of want) (view s) (view s2)"
        by (rule diffed_of_parts [OF key_inj(2) d want(2) s2(2) [unfolded s1(2)] sr])
      then show "Q () s3" using s3 w want(3) by (intro fin [of s3 "view s2"]) simp_all
    next
      fix s2 assume s2: "ok s2" "view s2 = v_drop CONFIG_DB (\<lambda>k. \<exists>i\<in>set dels. k = ikey vl i) (view s1)"
        and w: "want \<noteq> []"
      show "wp (hset1 R ?par ''NULL'' ''NULL'')
        (\<lambda>_. wp (for_each (\<lambda>(c, _). hset1 R (ikey vl c) ''NULL'' ''NULL'') sets) Q E) E s2"
      proof (rule wp_hset1 [OF s2(1)])
        fix s3 assume s3: "ok s3" "view s3 = v_hset CONFIG_DB ?par [(''NULL'', ''NULL'')] (view s2)"
        have "wp (for_each (\<lambda>(c, v). hset1 R (ikey vl c) (fst (null_field v)) (snd (null_field v))) sets) Q E s3"
        proof (rule wp_hset_each [OF s3(1) key_inj(2) diff_rows_set(3) [OF d want(2)]])
          fix s4 assume s4: "ok s4" "set_rows (ikey vl) null_field (map_of sets) (view s3) (view s4)"
          define v4 where "v4 = (view s4)(CONFIG_DB := (view s4 CONFIG_DB)(?par := view s2 CONFIG_DB ?par))"
          have sr: "set_rows (ikey vl) null_field (map_of sets) (view s2) v4"
            unfolding v4_def by (rule set_rows_outside [OF nr s4(2) [unfolded s3(2)]])
          have "diffed (ikey vl) null_field (map_of cur) (map_of want) (view s) v4"
            by (rule diffed_of_parts [OF key_inj(2) d want(2) s2(2) [unfolded s1(2)] sr])
          moreover have "view s4 CONFIG_DB ?par = view s3 CONFIG_DB ?par"
            using s4(2) nr unfolding set_rows_def by blast
          ultimately show "Q () s4" using s4 s3 w want(3)
            by (intro fin [of s4 v4]) (auto simp: v4_def)
        qed (rule assms(7))
        then show "wp (for_each (\<lambda>(c, _). hset1 R (ikey vl c) ''NULL'' ''NULL'') sets) Q E s3"
          by (simp add: null_field_def)
      qed (rule assms(7))
    qed (auto intro: assms(7))
  qed (use assms in \<open>auto\<close>)
  then show ?thesis by (simp add: converge_addresses_def)
qed

lemma wp_set_or_clear:
  assumes "ok s"
    "\<And>s'. ok s' \<Longrightarrow> view s' = (view s)(CONFIG_DB := (view s CONFIG_DB)(key := (view s CONFIG_DB key)(f := v))) \<Longrightarrow> Q () s'"
    "\<And>e s'. E e s'"
  shows "wp (set_or_clear R key f v) Q E s"
proof (cases v)
  case None
  show ?thesis
    unfolding set_or_clear_def None option.case
    by (rule wp_hdel1 [OF assms(1)])
      (use assms None in \<open>auto simp: v_hdel_def restrict_map_def fun_eq_iff intro!: assms(2)\<close>)
next
  case (Some w)
  show ?thesis
    unfolding set_or_clear_def Some option.case
    by (rule wp_hset1 [OF assms(1)]) (use assms Some in \<open>auto simp: v_hset_def intro!: assms(2)\<close>)
qed

end

definition vlan_fields_are :: "string \<Rightarrow> vlan_input \<Rightarrow> dbs \<Rightarrow> bool" where
  "vlan_fields_are key i v \<longleftrightarrow>
     v CONFIG_DB key ''description'' = vi_description i \<and>
     v CONFIG_DB key ''dhcp_servers@'' =
       (if vi_dhcp_helpers i = [] then None else Some (join '','' (vi_dhcp_helpers i))) \<and>
     (vi_dhcp_helpers i = [] \<longrightarrow> v CONFIG_DB key ''dhcp_servers'' = None)"

definition vlan_keys :: "string \<Rightarrow> string set" where
  "vlan_keys vl = {''VLAN|'' @ vl, ''VLAN_INTERFACE|'' @ vl} \<union> range (mkey vl) \<union> range (ikey vl)"

lemma members_are_cong:
  "(\<And>m. v' CONFIG_DB (mkey vl m) = v CONFIG_DB (mkey vl m)) \<Longrightarrow> members_are vl ms v \<Longrightarrow> members_are vl ms v'"
  by (simp add: members_are_def)

context live_client
begin

lemma wp_write_vlan_fields:
  assumes "ok s"
    "\<And>s'. ok s' \<Longrightarrow> vlan_fields_are key i (view s') \<Longrightarrow> same_outside {(CONFIG_DB, key)} (view s) (view s') \<Longrightarrow> Q () s'"
    "\<And>e s'. E e s'"
  shows "wp (write_vlan_fields R key i) Q E s"
  unfolding write_vlan_fields_def
proof (intro wp_bnd wp_set_or_clear [OF assms(1)] wp_if)
  fix s1 assume s1: "ok s1"
    "view s1 = (view s)(CONFIG_DB := (view s CONFIG_DB)(key := (view s CONFIG_DB key)(''description'' := vi_description i)))"
  { assume e: "vi_dhcp_helpers i = []"
    show "wp (hdel1 R key ''dhcp_servers@'') (\<lambda>_. wp (hdel1 R key ''dhcp_servers'') Q E) E s1"
      by (intro wp_hdel1 s1(1) assms(2,3))
        (use s1 e in \<open>auto simp: vlan_fields_are_def same_outside_def restrict_map_def\<close>)
  next
    assume e: "vi_dhcp_helpers i \<noteq> []"
    show "wp (hset1 R key ''dhcp_servers@'' (join '','' (vi_dhcp_helpers i))) Q E s1"
      by (intro wp_hset1 s1(1) assms(2,3))
        (use s1 e in \<open>auto simp: vlan_fields_are_def same_outside_def\<close>) }
qed (use assms in auto)

lemma update_vlan_wp:
  assumes "ok s"
  shows "wp (update_vlan R n i)
    (\<lambda>_ s'. ok s' \<and> vlan_fields_are (''VLAN|'' @ vlan_name n) i (view s') \<and>
       members_are (vlan_name n) (vi_members i) (view s') \<and>
       addresses_are (vlan_name n) (vi_ip_addresses i) (view s') \<and>
       same_outside ({CONFIG_DB} \<times> vlan_keys (vlan_name n)) (view s) (view s'))
    (\<lambda>_ _. True) s"
proof -
  let ?vl = "vlan_name n"
  have ne: "''VLAN|'' @ ?vl \<noteq> mkey ?vl m" "''VLAN|'' @ ?vl \<noteq> ikey ?vl m" "mkey ?vl m \<noteq> ikey ?vl c"
    "mkey ?vl m \<noteq> ''VLAN_INTERFACE|'' @ ?vl" "''VLAN|'' @ ?vl \<noteq> ''VLAN_INTERFACE|'' @ ?vl" for m c
    by (auto simp: mkey_def ikey_def)
  show ?thesis
    unfolding update_vlan_def Let_def bad_def
  proof (rule wp_bnd, rule wp_lift, rule wp_bnd, rule wp_lift, rule wp_bnd,
      rule wp_reads [OF reads_simple(3) assms], rule wp_bnd, rule wp_key_exists, assumption, rule wp_bnd, rule wp_guard,
      rule wp_bnd, rule wp_reads [OF reads_checks(3)], assumption, rule wp_bnd, rule wp_write_vlan_fields, assumption,
      rule wp_bnd, rule wp_converge_members [OF _ vlan_name_props(1,2,3,4)], assumption, (simp)[1],
      rule wp_converge_addresses [OF _ vlan_name_props(1,2,3,4)], assumption)
      fix s1 s2 s3 s4 s5 s6 :: 's
      assume v: "view s1 = view s" "view s2 = view s1" "view s3 = view s2"
        and f: "vlan_fields_are (''VLAN|'' @ ?vl) i (view s4)"
          "same_outside {(CONFIG_DB, ''VLAN|'' @ ?vl)} (view s3) (view s4)"
        and m: "members_are ?vl (vi_members i) (view s5)"
          "same_outside ({CONFIG_DB} \<times> range (mkey ?vl)) (view s4) (view s5)"
        and a: "ok s6" "addresses_are ?vl (vi_ip_addresses i) (view s6)"
          "same_outside ({CONFIG_DB} \<times> insert (''VLAN_INTERFACE|'' @ ?vl) (range (ikey ?vl))) (view s5) (view s6)"
      have "view s6 CONFIG_DB (mkey ?vl x) = view s5 CONFIG_DB (mkey ?vl x)" for x
        by (rule same_outsideD [OF a(3)]) (use ne in \<open>auto simp: image_iff\<close>)
      from members_are_cong [of "view s6", OF this m(1)] have "members_are ?vl (vi_members i) (view s6)" .
      moreover have "view s6 CONFIG_DB (''VLAN|'' @ ?vl) = view s4 CONFIG_DB (''VLAN|'' @ ?vl)"
      proof -
        have "view s6 CONFIG_DB (''VLAN|'' @ ?vl) = view s5 CONFIG_DB (''VLAN|'' @ ?vl)"
          by (rule same_outsideD [OF a(3)]) (use ne in \<open>auto simp: image_iff\<close>)
        also have "\<dots> = view s4 CONFIG_DB (''VLAN|'' @ ?vl)"
          by (rule same_outsideD [OF m(2)]) (use ne in \<open>auto simp: image_iff\<close>)
        finally show ?thesis .
      qed
      then have "vlan_fields_are (''VLAN|'' @ ?vl) i (view s6)" using f(1) by (simp add: vlan_fields_are_def)
      moreover have "same_outside ({CONFIG_DB} \<times> vlan_keys ?vl) (view s) (view s6)"
        using f(2) m(2) a(3) v unfolding same_outside_def vlan_keys_def by auto
      ultimately show "ok s6 \<and> vlan_fields_are (''VLAN|'' @ ?vl) i (view s6) \<and>
         members_are ?vl (vi_members i) (view s6) \<and> addresses_are ?vl (vi_ip_addresses i) (view s6) \<and>
         same_outside ({CONFIG_DB} \<times> vlan_keys ?vl) (view s) (view s6)"
        using a by blast
  qed simp_all
qed

end

section \<open>Deletions\<close>

definition vlan_drop :: "string \<Rightarrow> string \<Rightarrow> bool" where
  "vlan_drop vl k \<longleftrightarrow> k = ''VLAN|'' @ vl \<or> k = ''VLAN_INTERFACE|'' @ vl \<or>
     starts_with (''VLAN_MEMBER|'' @ vl @ ''|'') k \<or> starts_with (''VLAN_INTERFACE|'' @ vl @ ''|'') k"

context redis_client
begin

lemma wp_del_scanned:
  assumes "ok s" "\<And>s'. ok s' \<Longrightarrow> view s' = v_drop CONFIG_DB (\<lambda>k. k \<in> set ks) (view s) \<Longrightarrow> Q () s'" "\<And>e s'. E e s'"
  shows "wp (for_each (del1 R) ks) Q E s"
  using wp_del_each [of s ks "\<lambda>k. k" Q E] assms by simp

lemma delete_vlan_wp:
  assumes "ok s"
  shows "wp (delete_vlan R n)
    (\<lambda>_ s'. ok s' \<and> view s' = v_drop CONFIG_DB (vlan_drop (vlan_name n)) (view s)) (\<lambda>_ _. True) s"
proof -
  let ?vl = "vlan_name n"
  have p: "CHR ''*'' \<notin> set (''VLAN_MEMBER|'' @ ?vl @ ''|'')" "plain_glob (''VLAN_MEMBER|'' @ ?vl @ ''|'')"
    "CHR ''*'' \<notin> set (''VLAN_INTERFACE|'' @ ?vl @ ''|'')" "plain_glob (''VLAN_INTERFACE|'' @ ?vl @ ''|'')"
    using vlan_name_props [of n] by simp_all
  have pat: "''VLAN_MEMBER|'' @ ?vl @ ''|*'' = (''VLAN_MEMBER|'' @ ?vl @ ''|'') @ ''*''"
    "''VLAN_INTERFACE|'' @ ?vl @ ''|*'' = (''VLAN_INTERFACE|'' @ ?vl @ ''|'') @ ''*''" by simp_all
  show ?thesis
    unfolding delete_vlan_def Let_def pat
  proof (rule wp_bnd, rule wp_reads [OF reads_simple(3) assms], rule wp_bnd, rule wp_key_exists, assumption,
      rule wp_bnd, rule wp_guard, rule wp_bnd, rule wp_cfg_scan [OF _ p(1,2)], assumption,
      rule wp_bnd, rule wp_del_scanned, assumption, rule wp_bnd, rule wp_cfg_scan [OF _ p(3,4)], assumption,
      rule wp_bnd, rule wp_del_scanned, assumption, rule wp_bnd, rule wp_del1, assumption, rule wp_del1, assumption)
    fix s1 s2 s3 s4 s5 s6 s7 s8 :: 's and ms "is" :: "string list"
    assume v: "view s1 = view s" "view s2 = view s1" "view s3 = view s2"
      and ms: "set ms = {k. view s2 CONFIG_DB k \<noteq> Map.empty \<and> starts_with (''VLAN_MEMBER|'' @ ?vl @ ''|'') k}"
      and v4: "view s4 = v_drop CONFIG_DB (\<lambda>k. k \<in> set ms) (view s3)" and v5: "view s5 = view s4"
      and i: "set is = {k. view s4 CONFIG_DB k \<noteq> Map.empty \<and> starts_with (''VLAN_INTERFACE|'' @ ?vl @ ''|'') k}"
      and v6: "view s6 = v_drop CONFIG_DB (\<lambda>k. k \<in> set is) (view s5)"
      and v7: "view s7 = v_del CONFIG_DB (''VLAN_INTERFACE|'' @ ?vl) (view s6)"
      and v8: "ok s8" "view s8 = v_del CONFIG_DB (''VLAN|'' @ ?vl) (view s7)"
    have "view s8 = v_drop CONFIG_DB (\<lambda>k. k = ''VLAN|'' @ ?vl \<or> k = ''VLAN_INTERFACE|'' @ ?vl \<or> k \<in> set is \<or> k \<in> set ms) (view s)"
      unfolding v8 v7 v6 v5 v4 v by (simp only: v_del_drop v_drop_drop)
    also have "\<dots> = v_drop CONFIG_DB (vlan_drop ?vl) (view s)"
      by (rule v_drop_cong) (use ms i v v4 in \<open>auto simp: vlan_drop_def\<close>)
    finally show "ok s8 \<and> view s8 = v_drop CONFIG_DB (vlan_drop ?vl) (view s)" using v8(1) by simp
  qed simp_all
qed

lemma delete_port_channel_wp:
  assumes "ok s" "plain_glob name" "CHR ''*'' \<notin> set name"
  shows "wp (delete_port_channel R name)
    (\<lambda>_ s'. ok s' \<and> view s' = v_drop CONFIG_DB (\<lambda>k. k = ''PORTCHANNEL|'' @ name \<or>
        starts_with (''PORTCHANNEL_MEMBER|'' @ name @ ''|'') k) (view s)) (\<lambda>_ _. True) s"
proof -
  have p: "CHR ''*'' \<notin> set (''PORTCHANNEL_MEMBER|'' @ name @ ''|'')" "plain_glob (''PORTCHANNEL_MEMBER|'' @ name @ ''|'')"
    using assms by simp_all
  have pat: "''PORTCHANNEL_MEMBER|'' @ name @ ''|*'' = (''PORTCHANNEL_MEMBER|'' @ name @ ''|'') @ ''*''" by simp
  show ?thesis
    unfolding delete_port_channel_def Let_def pat
  proof (rule wp_bnd, rule wp_reads [OF reads_simple(3) assms(1)], rule wp_bnd, rule wp_key_exists, assumption,
      rule wp_bnd, rule wp_guard, rule wp_bnd, rule wp_cfg_scan [OF _ p], assumption,
      rule wp_bnd, rule wp_del_scanned, assumption, rule wp_del1, assumption)
    fix s1 s2 s3 s4 s5 :: 's and ms :: "string list"
    assume v: "view s1 = view s" "view s2 = view s1" "view s3 = view s2"
      and ms: "set ms = {k. view s2 CONFIG_DB k \<noteq> Map.empty \<and> starts_with (''PORTCHANNEL_MEMBER|'' @ name @ ''|'') k}"
      and v4: "view s4 = v_drop CONFIG_DB (\<lambda>k. k \<in> set ms) (view s3)"
      and v5: "ok s5" "view s5 = v_del CONFIG_DB (''PORTCHANNEL|'' @ name) (view s4)"
    have "view s5 = v_drop CONFIG_DB (\<lambda>k. k = ''PORTCHANNEL|'' @ name \<or> k \<in> set ms) (view s)"
      unfolding v5 v4 v by (simp only: v_del_drop v_drop_drop)
    also have "\<dots> = v_drop CONFIG_DB (\<lambda>k. k = ''PORTCHANNEL|'' @ name \<or>
        starts_with (''PORTCHANNEL_MEMBER|'' @ name @ ''|'') k) (view s)"
      by (rule v_drop_cong) (use ms v in auto)
    finally show "ok s5 \<and> view s5 = v_drop CONFIG_DB (\<lambda>k. k = ''PORTCHANNEL|'' @ name \<or>
        starts_with (''PORTCHANNEL_MEMBER|'' @ name @ ''|'') k) (view s)" using v5(1) by simp
  qed simp_all
qed

end

section \<open>Port channels\<close>

definition pc_fields_are :: "string \<Rightarrow> port_channel_input \<Rightarrow> dbs \<Rightarrow> bool" where
  "pc_fields_are key i v \<longleftrightarrow>
     v CONFIG_DB key ''admin_status'' = Some (admin_str (pi_admin_status i)) \<and>
     v CONFIG_DB key ''static'' = (case pi_protocol i of Static \<Rightarrow> Some ''true'' | Lacp \<Rightarrow> None) \<and>
     v CONFIG_DB key ''mtu'' = map_option show_nat (pi_mtu i) \<and>
     v CONFIG_DB key ''min_links'' = map_option show_nat (pi_min_links i) \<and>
     v CONFIG_DB key ''fallback'' = Some (bool_str (pi_fallback i)) \<and>
     v CONFIG_DB key ''fast_rate'' = Some (bool_str (pi_fast_rate i))"

definition ports_are :: "string \<Rightarrow> string list \<Rightarrow> dbs \<Rightarrow> bool" where
  "ports_are name ms v \<longleftrightarrow> (\<forall>m. m \<noteq> [] \<longrightarrow> (v CONFIG_DB (pkey name m) \<noteq> Map.empty \<longleftrightarrow> m \<in> set ms))"

lemma unique_from_spec: "unique_from seen ms = Inr r \<Longrightarrow> r = seen @ ms \<and> (distinct seen \<longrightarrow> distinct (seen @ ms))"
  by (induction seen ms rule: unique_from.induct) (auto split: if_splits)

lemma check_port_channel_input_Inr: "check_port_channel_input i = Inr ms \<Longrightarrow> ms = pi_members i \<and> distinct ms"
  using unique_from_spec [of "[]" "pi_members i" ms] by (auto simp: check_port_channel_input_def unique_members_def)

context live_client
begin

lemma wp_write_port_channel_fields:
  assumes "ok s"
    "\<And>s'. ok s' \<Longrightarrow> pc_fields_are key i (view s') \<Longrightarrow> same_outside {(CONFIG_DB, key)} (view s) (view s') \<Longrightarrow> Q () s'"
    "\<And>e s'. E e s'"
  shows "wp (write_port_channel_fields R key i) Q E s"
  unfolding write_port_channel_fields_def
proof (rule wp_bnd, rule wp_hset1 [OF assms(1)], rule wp_bnd)
  fix s1 assume s1: "ok s1" "view s1 = v_hset CONFIG_DB key [(''admin_status'', admin_str (pi_admin_status i))] (view s)"
  define rest where "rest = bnd (set_or_clear R key ''mtu'' (map_option show_nat (pi_mtu i))) (\<lambda>_.
     bnd (set_or_clear R key ''min_links'' (map_option show_nat (pi_min_links i))) (\<lambda>_.
     bnd (hset1 R key ''fallback'' (if pi_fallback i then ''true'' else ''false'')) (\<lambda>_.
     hset1 R key ''fast_rate'' (if pi_fast_rate i then ''true'' else ''false''))))"
  have "wp rest Q E s2"
    if s2: "ok s2" "view s2 = (view s1)(CONFIG_DB := (view s1 CONFIG_DB)(key := (view s1 CONFIG_DB key)
        (''static'' := (case pi_protocol i of Static \<Rightarrow> Some ''true'' | Lacp \<Rightarrow> None))))" for s2
    unfolding rest_def
  proof (rule wp_bnd, rule wp_set_or_clear [OF s2(1)], rule wp_bnd, rule wp_set_or_clear, assumption, rule wp_bnd,
      rule wp_hset1, assumption, rule wp_hset1, assumption)
    fix s3 s4 s5 s6
    assume v: "view s3 = (view s2)(CONFIG_DB := (view s2 CONFIG_DB)(key := (view s2 CONFIG_DB key)(''mtu'' := map_option show_nat (pi_mtu i))))"
      "view s4 = (view s3)(CONFIG_DB := (view s3 CONFIG_DB)(key := (view s3 CONFIG_DB key)(''min_links'' := map_option show_nat (pi_min_links i))))"
      "view s5 = v_hset CONFIG_DB key [(''fallback'', if pi_fallback i then ''true'' else ''false'')] (view s4)"
      "view s6 = v_hset CONFIG_DB key [(''fast_rate'', if pi_fast_rate i then ''true'' else ''false'')] (view s5)"
      and ok: "ok s6"
    have "pc_fields_are key i (view s6)"
      by (simp add: v s2(2) s1(2) pc_fields_are_def bool_str_def)
    moreover have "same_outside {(CONFIG_DB, key)} (view s) (view s6)"
      by (auto simp: v s2(2) s1(2) same_outside_def)
    ultimately show "Q () s6" by (rule assms(2) [OF ok])
  qed (rule assms(3))+
  then show "wp (case pi_protocol i of Lacp \<Rightarrow> hdel1 R key ''static'' | Static \<Rightarrow> hset1 R key ''static'' ''true'')
     (\<lambda>x. wp (bnd (set_or_clear R key ''mtu'' (map_option show_nat (pi_mtu i))) (\<lambda>_.
     bnd (set_or_clear R key ''min_links'' (map_option show_nat (pi_min_links i))) (\<lambda>_.
     bnd (hset1 R key ''fallback'' (if pi_fallback i then ''true'' else ''false'')) (\<lambda>_.
     hset1 R key ''fast_rate'' (if pi_fast_rate i then ''true'' else ''false''))))) Q E) E s1"
    unfolding rest_def [symmetric]
  proof (cases "pi_protocol i")
    case Lacp
    then show "wp (case pi_protocol i of Lacp \<Rightarrow> hdel1 R key ''static'' | Static \<Rightarrow> hset1 R key ''static'' ''true'')
      (\<lambda>x. wp rest Q E) E s1"
      unfolding Lacp lag_protocol.case
      by (intro wp_hdel1 s1(1) assms(3) \<open>\<And>s2. _ \<Longrightarrow> _ \<Longrightarrow> wp rest Q E s2\<close>) (auto simp: Lacp v_hdel_def restrict_map_def fun_eq_iff)
  next
    case Static
    then show "wp (case pi_protocol i of Lacp \<Rightarrow> hdel1 R key ''static'' | Static \<Rightarrow> hset1 R key ''static'' ''true'')
      (\<lambda>x. wp rest Q E) E s1"
      unfolding Static lag_protocol.case
      by (intro wp_hset1 s1(1) assms(3) \<open>\<And>s2. _ \<Longrightarrow> _ \<Longrightarrow> wp rest Q E s2\<close>) (auto simp: Static v_hset_def fun_eq_iff)
  qed
qed (rule assms(3))

lemma update_port_channel_wp:
  assumes "ok s" "plain_glob name" "CHR ''*'' \<notin> set name" "CHR ''|'' \<notin> set name" "name \<noteq> []"
  shows "wp (update_port_channel R name i)
    (\<lambda>_ s'. ok s' \<and> pc_fields_are (''PORTCHANNEL|'' @ name) i (view s') \<and> ports_are name (pi_members i) (view s') \<and>
       same_outside ({CONFIG_DB} \<times> insert (''PORTCHANNEL|'' @ name) (range (pkey name))) (view s) (view s')) (\<lambda>_ _. True) s"
proof -
  have p: "CHR ''*'' \<notin> set (''PORTCHANNEL_MEMBER|'' @ name @ ''|'')" "plain_glob (''PORTCHANNEL_MEMBER|'' @ name @ ''|'')"
    using assms by simp_all
  have pat: "''PORTCHANNEL_MEMBER|'' @ name @ ''|*'' = (''PORTCHANNEL_MEMBER|'' @ name @ ''|'') @ ''*''" by simp
  have ne: "''PORTCHANNEL|'' @ name \<noteq> pkey name m" for m by (simp add: pkey_def)
  show ?thesis
    unfolding update_port_channel_def Let_def bad_def pat
  proof (rule wp_bnd, rule wp_lift, rule wp_bnd, rule wp_reads [OF reads_simple(3) assms(1)], rule wp_bnd, rule wp_key_exists, assumption,
      rule wp_bnd, rule wp_guard, rule wp_bnd, rule wp_reads [OF reads_checks(4)], assumption,
      rule wp_bnd, rule wp_write_port_channel_fields, assumption, rule wp_bnd, rule wp_cfg_scan [OF _ p], assumption,
      rule wp_write_diff [OF _ key_inj(3)], assumption)
    fix ms ks :: "string list" and s1 s2 s3 s4 s5 s6 :: 's
    assume m: "smap_err BadRequest (check_port_channel_input i) = Inr ms"
      and v: "view s1 = view s" "view s2 = view s1" "view s3 = view s2"
      and f: "pc_fields_are (''PORTCHANNEL|'' @ name) i (view s4)" "same_outside {(CONFIG_DB, ''PORTCHANNEL|'' @ name)} (view s3) (view s4)"
      and s5: "view s5 = view s4"
      and ks: "set ks = {k. view s4 CONFIG_DB k \<noteq> Map.empty \<and> starts_with (''PORTCHANNEL_MEMBER|'' @ name @ ''|'') k}"
      and s6: "ok s6" "diffed (pkey name) null_field (map_of (name_set ''PORTCHANNEL_MEMBER|'' ks [])) (map_of (to_set_map ms)) (view s5) (view s6)"
    have ms: "ms = pi_members i" using m check_port_channel_input_Inr by auto
    have pre: "\<forall>k\<in>set ks. starts_with (''PORTCHANNEL_MEMBER|'' @ name @ ''|'') k" using ks by simp
    have mem: "pkey name c \<in> set ks \<longleftrightarrow> view s4 CONFIG_DB (pkey name c) \<noteq> Map.empty" for c
      unfolding ks by (auto simp: starts_with_iff pkey_def)
    have cur: "map_of (name_set ''PORTCHANNEL_MEMBER|'' ks []) c =
        (if c \<noteq> [] \<and> view s4 CONFIG_DB (pkey name c) \<noteq> Map.empty then Some [] else None)" for c
    proof -
      have k: "''PORTCHANNEL_MEMBER|'' @ name @ ''|'' @ c = pkey name c" by (simp only: pkey_def)
      show ?thesis unfolding map_of_name_set child_parts [OF assms(4,5) pre] k mem by simp
    qed
    have want: "map_of (to_set_map ms) c = (if c \<in> set ms then Some [] else None)" for c
      using map_of_to_set_map by auto
    have row: "view s6 CONFIG_DB (pkey name c) = (case map_of (to_set_map ms) c of
         None \<Rightarrow> if map_of (name_set ''PORTCHANNEL_MEMBER|'' ks []) c = None then view s5 CONFIG_DB (pkey name c) else Map.empty
       | Some w \<Rightarrow> if map_of (name_set ''PORTCHANNEL_MEMBER|'' ks []) c = Some w then view s5 CONFIG_DB (pkey name c)
           else (view s5 CONFIG_DB (pkey name c))(''NULL'' \<mapsto> ''NULL''))" for c
      using s6(2) unfolding diffed_def null_field_def fst_conv snd_conv by simp
    have "ports_are name ms (view s6)"
      using row by (auto simp: ports_are_def want cur s5 split: if_splits)
    then have "ports_are name (pi_members i) (view s6)" unfolding ms .
    moreover have out: "same_outside ({CONFIG_DB} \<times> range (pkey name)) (view s5) (view s6)"
      using s6(2) by (auto simp: same_outside_def diffed_def)
    moreover have "view s6 CONFIG_DB (''PORTCHANNEL|'' @ name) = view s4 CONFIG_DB (''PORTCHANNEL|'' @ name)"
      unfolding s5 [symmetric] by (rule same_outsideD [OF out]) (use ne in \<open>auto simp: image_iff\<close>)
    then have "pc_fields_are (''PORTCHANNEL|'' @ name) i (view s6)" using f(1) by (simp add: pc_fields_are_def)
    moreover have "same_outside ({CONFIG_DB} \<times> insert (''PORTCHANNEL|'' @ name) (range (pkey name))) (view s) (view s6)"
      using f(2) out v s5 unfolding same_outside_def by auto
    ultimately show "ok s6 \<and> pc_fields_are (''PORTCHANNEL|'' @ name) i (view s6) \<and> ports_are name (pi_members i) (view s6) \<and>
       same_outside ({CONFIG_DB} \<times> insert (''PORTCHANNEL|'' @ name) (range (pkey name))) (view s) (view s6)"
      using s6(1) by blast
  qed (simp_all add: map_of_to_set_map)
qed

end

end
