(* ===== verification/MemRedis.thy ===== *)
theory MemRedis
  imports SwitchingLaws MemPlatform
begin

text \<open>
  A redis client over the in-memory databases: it interprets the contracts of the clients and runs the
  witnesses of the components that open connections themselves.
\<close>

definition mem_redis :: "mem redis" where
  "mem_redis = \<lparr>connect = \<lambda>_. ret (), cmds = mem_platform\<rparr>"

lemma mem_redis_sel [simp]: "connect mem_redis db = ret ()" "cmds mem_redis = mem_platform"
  by (simp_all add: mem_redis_def)

interpretation mem_client: live_client mem_redis mem_view mem_ok mem_up
  unfolding live_client_def redis_client_def redis_client_axioms_def
  by (simp add: mem.redis_store_axioms mem.live_store_axioms ret_def)

end
