(* ===== verification/SwitchingProps.thy ===== *)
theory SwitchingProps
  imports MemRedis
begin

text \<open>
  The properties of the switching operations, with runs on a client over the in-memory databases.
\<close>

lemmas switching_run [run] = hset1_def hdel1_def del1_def key_exists_def cfg_connect_def cfg_scan_def scan_keys_def
  set_or_clear_def apply_patch_field_def bad_def hgetall_on_def opened_def state_row_def vlan_name_def
  mkey_def ikey_def pkey_def write_diff_def diff_rows_def tag_field_def null_field_def tagging_str_def admin_str_def

definition demo_sw :: mem where
  "demo_sw = mem_seed CONFIG_DB ''PORT|Ethernet0'' [(''admin_status'', ''up'')]
     (mem_seed CONFIG_DB ''VLAN|Vlan10'' [(''vlanid'', ''10'')]
     (mem_seed CONFIG_DB ''VLAN_MEMBER|Vlan10|Ethernet4'' [(''tagging_mode'', ''tagged'')]
     (mem_seed CONFIG_DB ''VLAN_INTERFACE|Vlan10'' [(''vrf_name'', ''VrfRed'')]
     (mem_seed CONFIG_DB ''PORTCHANNEL|PortChannel1'' [(''static'', ''true'')]
     (mem_seed CONFIG_DB ''PORTCHANNEL_MEMBER|PortChannel1|Ethernet8'' [(''NULL'', ''NULL'')] mem_new)))))"

lemma demo_sw_ok: "mem_ok demo_sw"
  by (simp add: demo_sw_def mem_seed_ok)

definition demo_vlan :: vlan_input where
  "demo_vlan = \<lparr>vi_description = Some ''users'', vi_ip_addresses = [], vi_dhcp_helpers = [''10.0.0.9''],
     vi_members = [\<lparr>mi_name = ''Ethernet0'', mi_tagging = Untagged\<rparr>]\<rparr>"

lemmas demo_sw_run = demo_sw_def demo_vlan_def check_cidrs_def vlan_member_map_def check_members_exist_def member_exists_def
  write_vlan_fields_def converge_members_def converge_addresses_def to_set_map_def member_parts_def

lemma demo_update_vlan:
  "\<exists>s'. update_vlan mem_redis 10 demo_vlan demo_sw = (Inr (), s') \<and> mem_row s' CONFIG_DB ''VLAN_INTERFACE|Vlan10'' = []"
  by (simp add: update_vlan_def demo_sw_run run)

section \<open>Diffs\<close>

text \<open>
  C21. The diff of the current and the desired rows is what convergence needs: deleting the keys of the first part and
  writing the pairs of the second turns the current map into the desired one; only keys that are there are
  deleted, only pairs that differ are written, and both come in sorted order.
\<close>

theorem sw_diff_rows:
  assumes "distinct (map fst desired)" "diff_rows cur desired = (dels, sets)"
  shows "(map_of cur |` (- set dels)) ++ map_of sets = map_of desired
    \<and> (\<forall>k\<in>set dels. map_of cur k \<noteq> None)
    \<and> (\<forall>(k, v)\<in>set sets. map_of cur k \<noteq> Some v)
    \<and> sorted dels \<and> sorted sets"
proof -
  note s = diff_rows_set [OF assms(2)]
  have m: "map_of sets k = (if map_of cur k \<noteq> map_of desired k then map_of desired k else None)" for k
  proof (cases "map_of sets k")
    case None
    then have "(k, v) \<notin> set sets" for v by (auto simp: map_of_eq_None_iff image_iff)
    then show ?thesis using None s(2) [OF assms(1)] by (cases "map_of desired k") auto
  next
    case (Some v)
    from map_of_SomeD [OF Some] s(2) [OF assms(1)] Some show ?thesis by auto
  qed
  have "(map_of cur |` (- set dels)) ++ map_of sets = map_of desired"
    by (rule ext) (auto simp: map_add_def m restrict_map_def s(1) split: option.splits)
  moreover have "sorted dels" "sorted sets" using assms(2) by (auto simp: diff_rows_def)
  ultimately show ?thesis using s(1) s(2) [OF assms(1)] by auto
qed

theorem sw_diff_rows_witness:
  "(map_of [(''a'', ''1''), (''b'', ''2'')] |` (- set [''a''])) ++ map_of [(''c'', ''3'')] = map_of [(''b'', ''2''), (''c'', ''3'')]"
proof -
  have "diff_rows [(''a'', ''1''), (''b'', ''2'')] [(''b'', ''2''), (''c'', ''3'')] = ([''a''], [(''c'', ''3'')])"
    by (simp add: diff_rows_def)
  moreover have "distinct (map fst [(''b'', ''2''), (''c'', ''3'')])" by simp
  ultimately show ?thesis using sw_diff_rows by blast
qed

section \<open>VLAN modes\<close>



section \<open>Write operations\<close>

text \<open>
  Validation comes before the first write in all seven operations: a failure that is not a failure of the server
  (a bad payload, an unknown resource or reference, an unsupported speed) leaves every database as it was.
\<close>

lemma sw_validate_first:
  assumes "redis_client R view ok" "ok s"
    and "m \<in> {update_port R name p, create_vlan R n vi, update_vlan R n vi, delete_vlan R n,
      create_port_channel R name pi, update_port_channel R name pi, delete_port_channel R name}"
    and "m s = (Inl e, s')"
  shows "(\<exists>x. e = Redis x) \<or> view s' = view s"
proof -
  have "redis_client.careful view ok m"
    using assms(3) redis_client.careful_update_port [OF assms(1)] redis_client.careful_create_vlan [OF assms(1)]
      redis_client.careful_update_vlan [OF assms(1)] redis_client.careful_delete_vlan [OF assms(1)]
      redis_client.careful_create_port_channel [OF assms(1)] redis_client.careful_update_port_channel [OF assms(1)]
      redis_client.careful_delete_port_channel [OF assms(1)] by auto
  with assms show ?thesis unfolding redis_client.careful_def [OF assms(1)] by blast
qed

text \<open>
  C19. A PUT on a VLAN converges to the desired state: the member rows are exactly the requested members with the
  requested tagging, the address rows exactly the requested addresses with the parent row present if and only if there
  is one, description and DHCP helpers are as requested, and no key outside the VLAN's rows changes. Rows
  have to be readable: the current tagging is read with the reader that takes a failure for an empty row.
\<close>

theorem sw_update_vlan_spec:
  assumes "live_client R view ok up" "ok s" "update_vlan R n i s = (Inr u, s')"
  shows "vlan_fields_are (''VLAN|'' @ vlan_name n) i (view s') \<and> members_are (vlan_name n) (vi_members i) (view s') \<and>
    addresses_are (vlan_name n) (vi_ip_addresses i) (view s') \<and>
    same_outside ({CONFIG_DB} \<times> vlan_keys (vlan_name n)) (view s) (view s')"
  using wp_okD [OF live_client.update_vlan_wp [OF assms(1), OF assms(2)], OF assms(3)] by blast

theorem sw_update_vlan_spec_witness:
  "\<exists>s'. update_vlan mem_redis 10 demo_vlan demo_sw = (Inr (), s') \<and> members_are (vlan_name 10) (vi_members demo_vlan) (mem_view s')"
proof -
  obtain s' where x: "update_vlan mem_redis 10 demo_vlan demo_sw = (Inr (), s')" using demo_update_vlan by blast
  from sw_update_vlan_spec [OF mem_client.live_client_axioms, OF demo_sw_ok, OF x] x show ?thesis by blast
qed

text \<open>
  Deleting a VLAN removes its row, its interface row and every member and address row under it, and nothing
  else.
\<close>

lemma sw_delete_vlan_spec:
  assumes "redis_client R view ok" "ok s" "delete_vlan R n s = (Inr u, s')"
  shows "view s' = v_drop CONFIG_DB (vlan_drop (vlan_name n)) (view s)"
  using wp_okD [OF redis_client.delete_vlan_wp [OF assms(1), OF assms(2)], OF assms(3)] by blast

text \<open>
  C20. A PUT on a port channel converges its fields and its member set and touches no other key, for a name that
  is no redis pattern and no compound key.
\<close>

theorem sw_update_port_channel_spec:
  assumes "live_client R view ok up" "ok s" "update_port_channel R name i s = (Inr u, s')"
    and "plain_glob name" "CHR ''*'' \<notin> set name" "CHR ''|'' \<notin> set name" "name \<noteq> []"
  shows "pc_fields_are (''PORTCHANNEL|'' @ name) i (view s') \<and> ports_are name (pi_members i) (view s') \<and>
    same_outside ({CONFIG_DB} \<times> insert (''PORTCHANNEL|'' @ name) (range (pkey name))) (view s) (view s')"
  using wp_okD [OF live_client.update_port_channel_wp [OF assms(1), OF assms(2), OF assms(4,5,6,7)], OF assms(3)] by blast

definition demo_lag :: port_channel_input where
  "demo_lag = \<lparr>pi_protocol = Lacp, pi_admin_status = Up, pi_mtu = Some 9100, pi_min_links = None, pi_fallback = True,
     pi_fast_rate = False, pi_members = [''Ethernet0'']\<rparr>"

theorem sw_update_port_channel_spec_witness:
  "\<exists>s'. update_port_channel mem_redis ''PortChannel1'' demo_lag demo_sw = (Inr (), s') \<and>
     ports_are ''PortChannel1'' [''Ethernet0''] (mem_view s')"
proof -
  have "\<exists>s'. update_port_channel mem_redis ''PortChannel1'' demo_lag demo_sw = (Inr (), s')"
    by (simp add: update_port_channel_def demo_lag_def demo_sw_def check_port_channel_input_def check_mtu_def
        unique_members_def check_ports_exist_def write_port_channel_fields_def to_set_map_def member_parts_def run)
  then obtain s' where x: "update_port_channel mem_redis ''PortChannel1'' demo_lag demo_sw = (Inr (), s')" by blast
  have "plain_glob ''PortChannel1''" "CHR ''*'' \<notin> set ''PortChannel1''" "CHR ''|'' \<notin> set ''PortChannel1''" "''PortChannel1'' \<noteq> []"
    by simp_all
  from sw_update_port_channel_spec [OF mem_client.live_client_axioms, OF demo_sw_ok, OF x, OF this] x show ?thesis
    by (auto simp: demo_lag_def)
qed

section \<open>What the operations do not guarantee\<close>

text \<open>
  The interface row of a VLAN also carries its VRF binding, which the L3 pages write. A PUT on the VLAN without
  addresses deletes the row and the binding with it.
\<close>

lemma sw_update_vlan_unbinds_vrf:
  "\<exists>s'. update_vlan mem_redis 10 demo_vlan demo_sw = (Inr (), s') \<and>
     mem_row demo_sw CONFIG_DB ''VLAN_INTERFACE|Vlan10'' = [(''vrf_name'', ''VrfRed'')] \<and>
     mem_row s' CONFIG_DB ''VLAN_INTERFACE|Vlan10'' = []"
  using demo_update_vlan by (auto simp: demo_sw_def run)

end
