(* ===== verification/Locks.thy ===== *)
theory Locks
  imports Store
begin

text \<open>
  Per-feature write serialization, \<open>feature_lock\<close> of \<^verbatim>\<open>src/src/sonic/store.rs\<close>.

  \<open>lock_of\<close> is the choice of the static mutex. Threads are not modelled: each handler is one step of the state, as it is
  for the handlers that hold the lock of their feature from start to end. The write operations of \<^verbatim>\<open>switching.rs\<close> take
  none.
\<close>

datatype mutex = STP | LLDP | IGMP | L3 | BGP | OSPF | ISIS | STATIC_ROUTES | POLICY | SYSTEM | ACL | AAA
  | MIRROR | STORM_CONTROL | FDB | DHCP_RELAY | SFLOW | MCLAG | VRRP | BFD | VXLAN | QOS | MISC

definition named_locks :: "(string \<times> mutex) list" where
  "named_locks = [(''stp'', STP), (''lldp'', LLDP), (''igmp'', IGMP), (''l3'', L3), (''bgp'', BGP), (''ospf'', OSPF),
     (''isis'', ISIS), (''static-routes'', STATIC_ROUTES), (''policy'', POLICY), (''system'', SYSTEM), (''acl'', ACL),
     (''aaa'', AAA), (''mirror'', MIRROR), (''storm-control'', STORM_CONTROL), (''fdb'', FDB),
     (''dhcp-relay'', DHCP_RELAY), (''sflow'', SFLOW), (''mclag'', MCLAG), (''vrrp'', VRRP), (''bfd'', BFD),
     (''vxlan'', VXLAN), (''qos'', QOS)]"

definition lock_of :: "string \<Rightarrow> mutex" where
  "lock_of feature = (case map_of named_locks feature of Some m \<Rightarrow> m | None \<Rightarrow> MISC)"

text \<open>
  Distinct named features never wait for each other: the choice of the mutex is injective on the named features, and
  every other name shares one more mutex.
\<close>

lemma lock_of_separates:
  "(lock_of f = lock_of g) = (f = g \<or> f \<notin> fst ` set named_locks \<and> g \<notin> fst ` set named_locks)"
proof -
  have inj: "lock_of f \<noteq> MISC \<and> (lock_of f = lock_of g \<longrightarrow> f = g)" if "f \<in> fst ` set named_locks" for f g
    using that by (auto simp: named_locks_def lock_of_def)
  moreover have "lock_of f = MISC" if "f \<notin> fst ` set named_locks" for f
    using that by (simp add: lock_of_def map_of_eq_None_iff [THEN iffD2])
  ultimately show ?thesis by metis
qed

end
