(* ===== verification/Counters.thy ===== *)
theory Counters
  imports MemRedis "HOL-Library.Multiset"
begin

text \<open>
  The interface counters of \<^verbatim>\<open>src/src/sonic/mod.rs\<close>: the cumulative octets and packets of the
  ports from COUNTERS_DB, the ranking of the busiest ports and the octet totals of the switch. The
  64-bit counters are naturals with the saturating addition of the code written out.
\<close>

record iface_counters =
  ic_name :: string
  ic_bytes :: nat
  ic_packets :: nat

text \<open>The message of \<^verbatim>\<open>device.proto\<close> that carries one ranked port.\<close>

record policy_stat =
  ps_name :: string
  ps_bytes :: nat
  ps_hits :: nat

record port_octets =
  rx_bytes :: nat
  tx_bytes :: nat

definition sat_add :: "nat \<Rightarrow> nat \<Rightarrow> nat" where
  "sat_add a b = sat64 (a + b)"

definition stat_of :: "row \<Rightarrow> string \<Rightarrow> nat" where
  "stat_of h k = opt_or (Option.bind (map_of h k) (parse_uint 64)) 0"

definition counters_for :: "string \<Rightarrow> row \<Rightarrow> iface_counters" where
  "counters_for name h =
     \<lparr>ic_name = name,
      ic_bytes = sat_add (stat_of h ''SAI_PORT_STAT_IF_IN_OCTETS'') (stat_of h ''SAI_PORT_STAT_IF_OUT_OCTETS''),
      ic_packets = sat_add (sat_add (sat_add (stat_of h ''SAI_PORT_STAT_IF_IN_UCAST_PKTS'')
          (stat_of h ''SAI_PORT_STAT_IF_IN_NON_UCAST_PKTS''))
          (stat_of h ''SAI_PORT_STAT_IF_OUT_UCAST_PKTS''))
          (stat_of h ''SAI_PORT_STAT_IF_OUT_NON_UCAST_PKTS'')\<rparr>"

definition octets_for :: "row \<Rightarrow> nat \<times> nat" where
  "octets_for h = (stat_of h ''SAI_PORT_STAT_IF_IN_OCTETS'', stat_of h ''SAI_PORT_STAT_IF_OUT_OCTETS'')"

definition rank_cmp :: "iface_counters \<Rightarrow> iface_counters \<Rightarrow> ordering" where
  "rank_cmp a b = then_cmp (cmp (ic_bytes b) (ic_bytes a)) (cmp (ic_name a) (ic_name b))"

definition rank_interfaces :: "iface_counters list \<Rightarrow> nat \<Rightarrow> policy_stat list" where
  "rank_interfaces xs cap =
     map (\<lambda>c. \<lparr>ps_name = ic_name c, ps_bytes = ic_bytes c, ps_hits = ic_packets c\<rparr>)
       (take cap (sort_by rank_cmp (filter (\<lambda>c. ic_bytes c > 0 \<or> ic_packets c > 0) xs)))"

text \<open>\<open>hgetall\<close>: a connection of its own, and a failed command is an error.\<close>

definition hgetall_once :: "'s redis \<Rightarrow> int \<Rightarrow> string \<Rightarrow> ('s, string, row) io" where
  "hgetall_once R db key = bnd (connect R db) (\<lambda>_. hgetall (cmds R) db key)"

definition read_interface_counters :: "'s redis \<Rightarrow> ('s, string, iface_counters list) io" where
  "read_interface_counters R =
     bnd (hgetall_once R COUNTERS_DB ''COUNTERS_PORT_NAME_MAP'') (\<lambda>name_map.
     bnd (connect R COUNTERS_DB) (\<lambda>_.
     collect (\<lambda>(name, oid). bnd (hgetall_on R COUNTERS_DB (''COUNTERS:'' @ oid)) (\<lambda>h.
       ret (counters_for name h))) name_map))"

definition top_interfaces :: "'s redis \<Rightarrow> nat \<Rightarrow> ('s, string, policy_stat list) io" where
  "top_interfaces R cap = or_default [] (bnd (read_interface_counters R) (\<lambda>l. ret (rank_interfaces l cap)))"

definition add_octets :: "port_octets \<Rightarrow> nat \<times> nat \<Rightarrow> port_octets" where
  "add_octets t = (\<lambda>(rx, tx). \<lparr>rx_bytes = sat_add (rx_bytes t) rx, tx_bytes = sat_add (tx_bytes t) tx\<rparr>)"

primrec octet_loop :: "'s redis \<Rightarrow> string list \<Rightarrow> port_octets \<Rightarrow> ('s, string, port_octets) io" where
  "octet_loop R [] acc = ret acc"
| "octet_loop R (oid # oids) acc =
     bnd (hgetall_on R COUNTERS_DB (''COUNTERS:'' @ oid)) (\<lambda>h.
     octet_loop R oids (add_octets acc (octets_for h)))"

definition total_port_octets :: "'s redis \<Rightarrow> ('s, string, port_octets) io" where
  "total_port_octets R =
     bnd (hgetall_once R COUNTERS_DB ''COUNTERS_PORT_NAME_MAP'') (\<lambda>name_map.
     bnd (connect R COUNTERS_DB) (\<lambda>_.
     octet_loop R (map snd name_map) \<lparr>rx_bytes = 0, tx_bytes = 0\<rparr>))"

section \<open>Laws\<close>

lemma sat64_le: "sat64 n \<le> u64_max" "sat64 n \<le> n"
  by (simp_all add: sat64_def)

lemma sat64_sat64_add [simp]: "sat64 (sat64 a + b) = sat64 (a + b)"
  by (simp add: sat64_def min_def)

lemma stat_of_bound: "stat_of h k \<le> u64_max"
proof (cases "Option.bind (map_of h k) (parse_uint 64)")
  case None
  then show ?thesis by (simp add: stat_of_def)
next
  case (Some n)
  then have "n < 2 ^ 64" by (auto simp: bind_eq_Some_conv dest: parse_uint_bound)
  with Some show ?thesis by (simp add: stat_of_def u64_max_def)
qed

text \<open>The ranking is the lexicographic order on descending bytes and the name.\<close>

definition rank_key :: "iface_counters \<Rightarrow> int \<times> string" where
  "rank_key c = (- int (ic_bytes c), ic_name c)"

lemma rank_cmp_key: "rank_cmp a b = cmp (rank_key a) (rank_key b)"
proof -
  have "cmp (ic_bytes b) (ic_bytes a) = cmp (- int (ic_bytes a)) (- int (ic_bytes b))" by (simp add: cmp_def)
  then show ?thesis by (simp add: rank_cmp_def rank_key_def cmp_Pair then_cmp_def)
qed

interpretation rank: preorder_key rank_cmp rank_key
  by unfold_locales (rule rank_cmp_key)

lemma sorted_take_drop:
  assumes "sorted (map k xs)" "x \<in> set (take n xs)" "y \<in> set (drop n xs)"
  shows "k x \<le> k y"
proof -
  have "sorted (map k (take n xs) @ map k (drop n xs))" using assms(1) by (simp flip: map_append)
  then show ?thesis using assms(2,3) by (auto simp: sorted_append)
qed

lemma mset_insert_by [simp]: "mset (insert_by c x xs) = add_mset x (mset xs)"
  by (induction c x xs rule: insert_by.induct) auto

lemma mset_sort_by [simp]: "mset (sort_by c xs) = mset xs"
  by (induction xs) auto

text \<open>The octets of one port in a database view, and the exact sums.\<close>

definition view_stat :: "(string \<rightharpoonup> string) \<Rightarrow> string \<Rightarrow> nat" where
  "view_stat m k = opt_or (Option.bind (m k) (parse_uint 64)) 0"

lemma stat_of_view: "stat_of h = view_stat (map_of h)"
  by (simp add: stat_of_def view_stat_def fun_eq_iff)

definition port_sum :: "dbs \<Rightarrow> string \<Rightarrow> string list \<Rightarrow> nat" where
  "port_sum v k oids = (\<Sum>oid\<leftarrow>oids. view_stat (v COUNTERS_DB (''COUNTERS:'' @ oid)) k)"

definition octets_ok :: "dbs \<Rightarrow> string list \<Rightarrow> port_octets \<Rightarrow> bool" where
  "octets_ok v oids t \<longleftrightarrow> rx_bytes t = sat64 (port_sum v ''SAI_PORT_STAT_IF_IN_OCTETS'' oids)
     \<and> tx_bytes t = sat64 (port_sum v ''SAI_PORT_STAT_IF_OUT_OCTETS'' oids)"

context live_client
begin

lemma wp_octet_loop:
  assumes "ok s" "\<And>t s'. ok s' \<Longrightarrow> view s' = view s \<Longrightarrow>
     rx_bytes t = sat64 (rx_bytes acc + port_sum (view s) ''SAI_PORT_STAT_IF_IN_OCTETS'' oids) \<Longrightarrow>
     tx_bytes t = sat64 (tx_bytes acc + port_sum (view s) ''SAI_PORT_STAT_IF_OUT_OCTETS'' oids) \<Longrightarrow> Q t s'"
    "rx_bytes acc \<le> u64_max" "tx_bytes acc \<le> u64_max"
  shows "wp (octet_loop R oids acc) Q E s"
  using assms
proof (induction oids arbitrary: acc s)
  case Nil
  then show ?case by (simp add: wp_ret port_sum_def sat64_def)
next
  case (Cons oid oids)
  show ?case
    unfolding octet_loop.simps hgetall_on_def
  proof (intro wp_bnd wp_row_of_live [OF Cons.prems(1)])
    fix h s1 assume s1: "ok s1" "view s1 = view s" and h: "map_of h = view s COUNTERS_DB (''COUNTERS:'' @ oid)"
    show "wp (octet_loop R oids (add_octets acc (octets_for h))) Q E s1"
    proof (rule Cons.IH [OF s1(1)])
      show "Q t s'" if "ok s'" "view s' = view s1"
        "rx_bytes t = sat64 (rx_bytes (add_octets acc (octets_for h)) + port_sum (view s1) ''SAI_PORT_STAT_IF_IN_OCTETS'' oids)"
        "tx_bytes t = sat64 (tx_bytes (add_octets acc (octets_for h)) + port_sum (view s1) ''SAI_PORT_STAT_IF_OUT_OCTETS'' oids)"
        for t s'
        by (rule Cons.prems(2)) (use that s1 h in \<open>simp_all add: add_octets_def octets_for_def stat_of_view sat_add_def port_sum_def add.assoc\<close>)
    qed (simp_all add: add_octets_def octets_for_def sat_add_def sat64_le)
  qed
qed

lemma total_port_octets_wp:
  assumes "ok s"
  shows "wp (total_port_octets R) (\<lambda>t s'. view s' = view s \<and> (\<exists>nm. distinct (map fst nm) \<and>
     map_of nm = view s COUNTERS_DB ''COUNTERS_PORT_NAME_MAP'' \<and> octets_ok (view s) (map snd nm) t)) (\<lambda>e s'. view s' = view s) s"
  unfolding total_port_octets_def hgetall_once_def
proof (intro wp_bnd, rule wp_reads [OF reads_connect assms], rule wp_hgetall, assumption, intro wp_bnd, rule wp_reads [OF reads_connect], assumption)
  fix s1 s2 s3 nm
  assume v: "view s1 = view s" "view s2 = view s1" "view s3 = view s2" and s3: "ok s3" and d: "distinct (map fst nm)"
    and m: "map_of nm = view s1 COUNTERS_DB ''COUNTERS_PORT_NAME_MAP''"
  show "wp (octet_loop R (map snd nm) \<lparr>rx_bytes = 0, tx_bytes = 0\<rparr>) (\<lambda>t s'. view s' = view s \<and> (\<exists>nm. distinct (map fst nm) \<and>
     map_of nm = view s COUNTERS_DB ''COUNTERS_PORT_NAME_MAP'' \<and> octets_ok (view s) (map snd nm) t)) (\<lambda>e s'. view s' = view s) s3"
    by (rule wp_octet_loop [OF s3]) (use v d m in \<open>auto simp: octets_ok_def\<close>)
qed simp_all

end

section \<open>Properties\<close>

text \<open>
  The ranking holds the busiest ports: it reports ports that carried traffic, in descending order of bytes with ties
  by name, as many as the cap allows, each at most as often as it was read, and no port left out comes before a reported one.
\<close>

lemma rank_interfaces_top:
  "\<exists>top rest. mset (top @ rest) = {#c \<in># mset xs. ic_bytes c > 0 \<or> ic_packets c > 0#}
     \<and> rank_interfaces xs cap = map (\<lambda>c. \<lparr>ps_name = ic_name c, ps_bytes = ic_bytes c, ps_hits = ic_packets c\<rparr>) top
     \<and> length top = min cap (length (top @ rest)) \<and> sorted (map rank_key (top @ rest))"
proof -
  let ?l = "sort_by rank_cmp (filter (\<lambda>c. ic_bytes c > 0 \<or> ic_packets c > 0) xs)"
  have "mset (take cap ?l @ drop cap ?l) = {#c \<in># mset xs. ic_bytes c > 0 \<or> ic_packets c > 0#}"
    unfolding append_take_drop_id by simp
  moreover have "sorted (map rank_key (take cap ?l @ drop cap ?l))"
    unfolding append_take_drop_id by (rule rank.sort_by_sorted)
  ultimately show ?thesis
    by (intro exI [of _ "take cap ?l"] exI [of _ "drop cap ?l"]) (simp add: rank_interfaces_def)
qed

text \<open>
  The octet totals are the exact sums over the ports of the name map, capped at the largest 64-bit value;
  they do not depend on the order in which the ports are read, and reading them changes no database.
\<close>

lemma total_port_octets_exact:
  assumes "live_client R view ok up" "ok s" "total_port_octets R s = (Inr t, s')"
  shows "view s' = view s \<and> (\<exists>nm. distinct (map fst nm) \<and>
     map_of nm = view s COUNTERS_DB ''COUNTERS_PORT_NAME_MAP'' \<and> octets_ok (view s) (map snd nm) t)"
  using wp_okD [OF live_client.total_port_octets_wp [OF assms(1), OF assms(2)], OF assms(3)] .

definition demo_counters :: mem where
  "demo_counters = mem_seed COUNTERS_DB ''COUNTERS_PORT_NAME_MAP'' [(''Ethernet0'', ''oid1''), (''Ethernet4'', ''oid2'')]
     (mem_seed COUNTERS_DB ''COUNTERS:oid1'' [(''SAI_PORT_STAT_IF_IN_OCTETS'', ''18446744073709551615'')]
     (mem_seed COUNTERS_DB ''COUNTERS:oid2'' [(''SAI_PORT_STAT_IF_IN_OCTETS'', ''7''), (''SAI_PORT_STAT_IF_OUT_OCTETS'', ''9'')] mem_new))"

lemma demo_counters_ok: "mem_ok demo_counters"
  by (simp add: demo_counters_def mem_seed_ok)

lemma demo_counters_total: "\<exists>s'. total_port_octets mem_redis demo_counters = (Inr \<lparr>rx_bytes = u64_max, tx_bytes = 9\<rparr>, s')"
  by (simp add: total_port_octets_def hgetall_once_def hgetall_on_def demo_counters_def add_octets_def octets_for_def
      stat_of_def sat_add_def sat64_def u64_max_def parse_uint_def digits_val_def COUNTERS_DB_def run)

text \<open>
  Whatever the counters hold, every reported count is a 64-bit value, and it is no more than the
  exact sum of the fields it adds.
\<close>

lemma counters_for_bounds:
  "ic_bytes (counters_for name h) \<le> u64_max \<and> ic_packets (counters_for name h) \<le> u64_max
   \<and> ic_bytes (counters_for name h) = sat64 (fst (octets_for h) + snd (octets_for h))
   \<and> ic_packets (counters_for name h) = sat64 (\<Sum>k\<leftarrow>[''SAI_PORT_STAT_IF_IN_UCAST_PKTS'', ''SAI_PORT_STAT_IF_IN_NON_UCAST_PKTS'',
        ''SAI_PORT_STAT_IF_OUT_UCAST_PKTS'', ''SAI_PORT_STAT_IF_OUT_NON_UCAST_PKTS'']. stat_of h k)
   \<and> fst (octets_for h) \<le> u64_max \<and> snd (octets_for h) \<le> u64_max"
  by (simp add: counters_for_def octets_for_def sat_add_def sat64_le stat_of_bound add.assoc)

end
