(* ===== verification/Policy.thy ===== *)
theory Policy
  imports StaticRoutes
begin

text \<open>
  Routing policy, \<^verbatim>\<open>src/src/sonic/policy.rs\<close>: prefix lists and route maps, which live in FRR. The state is
  read by parsing the text of \<open>show running-config\<close> and changed by vtysh command batches.
\<close>

definition POLICY_UNSUPPORTED :: string where
  "POLICY_UNSUPPORTED =
     ''routing policy requires the bgp container (FRR/vtysh), which is not running on this image''"

section \<open>The running configuration\<close>

record prefix_rule =
  pr_seq :: nat
  pr_action :: string
  pr_prefix :: string
  pr_ge :: "nat option"
  pr_le :: "nat option"

record prefix_list =
  pl_name :: string
  pl_family :: string
  pl_rules :: "prefix_rule list"

record match_clauses =
  mc_ip_prefix_list :: "string option"
  mc_ipv6_prefix_list :: "string option"
  mc_community :: "string option"
  mc_metric :: "nat option"
  mc_tag :: "nat option"

record set_clauses =
  sc_local_preference :: "nat option"
  sc_metric :: "nat option"
  sc_community :: "string option"
  sc_as_path_prepend :: "string option"
  sc_ip_next_hop :: "string option"
  sc_origin :: "string option"
  sc_tag :: "nat option"

record rm_entry =
  re_seq :: nat
  re_action :: string
  re_description :: "string option"
  re_match :: match_clauses
  re_set :: set_clauses

record route_map =
  rm_name :: string
  rm_entries :: "rm_entry list"

record policy_running =
  prefix_lists :: "prefix_list list"
  route_maps :: "route_map list"
  route_map_refs :: "string list"

definition find_prefix_list :: "policy_running \<Rightarrow> string \<Rightarrow> prefix_list option" where
  "find_prefix_list r name = find (\<lambda>l. pl_name l = name) (prefix_lists r)"

definition find_route_map :: "policy_running \<Rightarrow> string \<Rightarrow> route_map option" where
  "find_route_map r name = find (\<lambda>m. rm_name m = name) (route_maps r)"

definition no_match :: match_clauses where
  "no_match = \<lparr>mc_ip_prefix_list = None, mc_ipv6_prefix_list = None, mc_community = None, mc_metric = None,
     mc_tag = None\<rparr>"

definition no_set :: set_clauses where
  "no_set = \<lparr>sc_local_preference = None, sc_metric = None, sc_community = None, sc_as_path_prepend = None,
     sc_ip_next_hop = None, sc_origin = None, sc_tag = None\<rparr>"

text \<open>The token after the first occurrence of the key, as a number.\<close>

fun parse_num_token :: "string list \<Rightarrow> string \<Rightarrow> nat option" where
  "parse_num_token [] key = None"
| "parse_num_token (t # ts) key =
     (if t = key then (case ts of [] \<Rightarrow> None | v # _ \<Rightarrow> parse_uint 64 v) else parse_num_token ts key)"

text \<open>\<open>iter_mut().find(\<dots>)\<close> and push, or a new list at the end.\<close>

fun push_rule :: "string \<Rightarrow> string \<Rightarrow> prefix_rule \<Rightarrow> prefix_list list \<Rightarrow> prefix_list list" where
  "push_rule name family r [] = [\<lparr>pl_name = name, pl_family = family, pl_rules = [r]\<rparr>]"
| "push_rule name family r (l # ls) =
     (if pl_name l = name \<and> pl_family l = family then l\<lparr>pl_rules := pl_rules l @ [r]\<rparr> # ls
      else l # push_rule name family r ls)"

definition parse_prefix_line :: "string \<Rightarrow> string \<Rightarrow> prefix_list list \<Rightarrow> prefix_list list" where
  "parse_prefix_line family rest pls = (let tokens = words rest in
     case tokens of
       name # kw # seq # action # prefix # _ \<Rightarrow>
         (if kw \<noteq> ''seq'' then pls
          else case parse_uint 32 seq of
            None \<Rightarrow> pls
          | Some n \<Rightarrow>
              if action \<noteq> ''permit'' \<and> action \<noteq> ''deny'' then pls
              else push_rule name family
                \<lparr>pr_seq = n, pr_action = action,
                 pr_prefix = (if prefix = ''any'' then (if family = ''ipv4'' then ''0.0.0.0/0'' else ''::/0'') else prefix),
                 pr_ge = map_option (\<lambda>v. v mod 2 ^ 32) (parse_num_token tokens ''ge''),
                 pr_le = map_option (\<lambda>v. v mod 2 ^ 32) (parse_num_token tokens ''le'')\<rparr> pls)
     | _ \<Rightarrow> pls)"

definition set_m :: "(match_clauses \<Rightarrow> match_clauses) \<Rightarrow> rm_entry \<Rightarrow> rm_entry" where
  "set_m f e = e\<lparr>re_match := f (re_match e)\<rparr>"

definition set_s :: "(set_clauses \<Rightarrow> set_clauses) \<Rightarrow> rm_entry \<Rightarrow> rm_entry" where
  "set_s f e = e\<lparr>re_set := f (re_set e)\<rparr>"

text \<open>The clauses of one \<open>match\<close> line and of one \<open>set\<close> line, by its tokens.\<close>

definition match_line :: "string list \<Rightarrow> rm_entry \<Rightarrow> rm_entry" where
  "match_line ts e =
     (if length ts = 4 \<and> take 3 ts = [''ip'', ''address'', ''prefix-list''] then
        set_m (\<lambda>m. m\<lparr>mc_ip_prefix_list := Some (ts ! 3)\<rparr>) e
      else if length ts = 4 \<and> take 3 ts = [''ipv6'', ''address'', ''prefix-list''] then
        set_m (\<lambda>m. m\<lparr>mc_ipv6_prefix_list := Some (ts ! 3)\<rparr>) e
      else if length ts \<ge> 2 \<and> ts ! 0 = ''community'' then
        set_m (\<lambda>m. m\<lparr>mc_community := Some (ts ! 1)\<rparr>) e
      else if length ts = 2 \<and> ts ! 0 = ''metric'' then
        set_m (\<lambda>m. m\<lparr>mc_metric := parse_uint 64 (ts ! 1)\<rparr>) e
      else if length ts = 2 \<and> ts ! 0 = ''tag'' then
        set_m (\<lambda>m. m\<lparr>mc_tag := parse_uint 64 (ts ! 1)\<rparr>) e
      else e)"

definition set_line :: "string list \<Rightarrow> rm_entry \<Rightarrow> rm_entry" where
  "set_line ts e =
     (if length ts = 2 \<and> ts ! 0 = ''local-preference'' then
        set_s (\<lambda>c. c\<lparr>sc_local_preference := parse_uint 64 (ts ! 1)\<rparr>) e
      else if length ts = 2 \<and> ts ! 0 = ''metric'' then
        set_s (\<lambda>c. c\<lparr>sc_metric := parse_uint 64 (ts ! 1)\<rparr>) e
      else if length ts \<ge> 2 \<and> ts ! 0 = ''community'' then
        set_s (\<lambda>c. c\<lparr>sc_community := Some (join '' '' (drop 1 ts))\<rparr>) e
      else if length ts \<ge> 3 \<and> take 2 ts = [''as-path'', ''prepend''] then
        set_s (\<lambda>c. c\<lparr>sc_as_path_prepend := Some (join '' '' (drop 2 ts))\<rparr>) e
      else if length ts = 3 \<and> take 2 ts = [''ip'', ''next-hop''] then
        set_s (\<lambda>c. c\<lparr>sc_ip_next_hop := Some (ts ! 2)\<rparr>) e
      else if length ts = 2 \<and> ts ! 0 = ''origin'' \<and> ts ! 1 \<in> {''igp'', ''egp'', ''incomplete''} then
        set_s (\<lambda>c. c\<lparr>sc_origin := Some (ts ! 1)\<rparr>) e
      else if length ts = 2 \<and> ts ! 0 = ''tag'' then
        set_s (\<lambda>c. c\<lparr>sc_tag := parse_uint 64 (ts ! 1)\<rparr>) e
      else e)"

definition parse_entry_line :: "string \<Rightarrow> rm_entry \<Rightarrow> rm_entry" where
  "parse_entry_line line e = (case strip_prefix ''description '' line of
       Some desc \<Rightarrow> e\<lparr>re_description := Some (trim desc)\<rparr>
     | None \<Rightarrow> (case words line of
           t # ts \<Rightarrow> if t = ''match'' then match_line ts e else if t = ''set'' then set_line ts e else e
         | [] \<Rightarrow> e))"

fun push_entry :: "string \<Rightarrow> rm_entry \<Rightarrow> route_map list \<Rightarrow> route_map list" where
  "push_entry name e [] = [\<lparr>rm_name = name, rm_entries = [e]\<rparr>]"
| "push_entry name e (m # ms) =
     (if rm_name m = name then m\<lparr>rm_entries := rm_entries m @ [e]\<rparr> # ms else m # push_entry name e ms)"

text \<open>The state of the loop over the lines: the result so far and the open route-map entry.\<close>

type_synonym parse_state = "policy_running \<times> (string \<times> rm_entry) option"

definition finish :: "parse_state \<Rightarrow> parse_state" where
  "finish = (\<lambda>(out, entry). case entry of
       None \<Rightarrow> (out, None)
     | Some (name, e) \<Rightarrow> (out\<lparr>route_maps := push_entry name e (route_maps out)\<rparr>, None))"

definition open_entry :: "string \<Rightarrow> (string \<times> rm_entry) option" where
  "open_entry rest = (case words rest of
       [name, action, seq] \<Rightarrow>
         if action = ''permit'' \<or> action = ''deny'' then
           map_option (\<lambda>n. (name, \<lparr>re_seq = n, re_action = action, re_description = None,
             re_match = no_match, re_set = no_set\<rparr>)) (parse_uint 32 seq)
         else None
     | _ \<Rightarrow> None)"

fun token_after :: "string \<Rightarrow> string list \<Rightarrow> string option" where
  "token_after key [] = None"
| "token_after key (t # ts) =
     (if t = key then (case ts of [] \<Rightarrow> None | v # _ \<Rightarrow> Some v) else token_after key ts)"

definition on_lists :: "(prefix_list list \<Rightarrow> prefix_list list) \<Rightarrow> parse_state \<Rightarrow> parse_state" where
  "on_lists f = (\<lambda>(out, entry). (out\<lparr>prefix_lists := f (prefix_lists out)\<rparr>, entry))"

definition parse_line :: "parse_state \<Rightarrow> string \<Rightarrow> parse_state" where
  "parse_line st raw = (let line = trim raw in
     case strip_prefix ''ip prefix-list '' line of
       Some rest \<Rightarrow> on_lists (parse_prefix_line ''ipv4'' rest) (finish st)
     | None \<Rightarrow> (case strip_prefix ''ipv6 prefix-list '' line of
         Some rest \<Rightarrow> on_lists (parse_prefix_line ''ipv6'' rest) (finish st)
       | None \<Rightarrow> (case strip_prefix ''route-map '' line of
           Some rest \<Rightarrow> (fst (finish st), open_entry rest)
         | None \<Rightarrow>
             if line = ''exit'' \<or> line = ''!'' \<or> line = ''end'' then finish st
             else (case st of
                 (out, Some (name, e)) \<Rightarrow> (out, Some (name, parse_entry_line line e))
               | (out, None) \<Rightarrow> (case token_after ''route-map'' (words line) of
                     Some name \<Rightarrow> (out\<lparr>route_map_refs := route_map_refs out @ [name]\<rparr>, None)
                   | None \<Rightarrow> (out, None))))))"

definition empty_running :: policy_running where
  "empty_running = \<lparr>prefix_lists = [], route_maps = [], route_map_refs = []\<rparr>"

definition parse_running_config :: "string \<Rightarrow> policy_running" where
  "parse_running_config text = fst (finish (foldl parse_line (empty_running, None) (lines text)))"

section \<open>Reading\<close>

definition running_config :: "'s platform \<Rightarrow> ('s, string, policy_running) io" where
  "running_config P =
     bnd (run_cmd P ''vtysh'' [''-c'', ''show running-config'']) (\<lambda>out.
     if \<not> co_ok out then fail (''vtysh show running-config failed: '' @ trim (co_stderr out))
     else ret (parse_running_config (co_stdout out)))"

definition prefix_rule_json :: "prefix_rule \<Rightarrow> json" where
  "prefix_rule_json r = JObj [(''seq'', JNum (pr_seq r)), (''action'', JStr (pr_action r)), (''prefix'', JStr (pr_prefix r)),
     (''ge'', jopt JNum (pr_ge r)), (''le'', jopt JNum (pr_le r))]"

definition prefix_list_json :: "prefix_list \<Rightarrow> json" where
  "prefix_list_json l = JObj [(''name'', JStr (pl_name l)), (''family'', JStr (pl_family l)),
     (''rules'', JArr (map prefix_rule_json (sort_by (\<lambda>a b. cmp (pr_seq a) (pr_seq b)) (pl_rules l))))]"

definition rm_entry_json :: "rm_entry \<Rightarrow> json" where
  "rm_entry_json e = (let m = re_match e; c = re_set e in
     JObj [(''seq'', JNum (re_seq e)), (''action'', JStr (re_action e)), (''description'', jopt JStr (re_description e)),
       (''match'', JObj [(''ip_prefix_list'', jopt JStr (mc_ip_prefix_list m)),
          (''ipv6_prefix_list'', jopt JStr (mc_ipv6_prefix_list m)), (''community'', jopt JStr (mc_community m)),
          (''metric'', jopt JNum (mc_metric m)), (''tag'', jopt JNum (mc_tag m))]),
       (''set'', JObj [(''local_preference'', jopt JNum (sc_local_preference c)), (''metric'', jopt JNum (sc_metric c)),
          (''community'', jopt JStr (sc_community c)), (''as_path_prepend'', jopt JStr (sc_as_path_prepend c)),
          (''ip_next_hop'', jopt JStr (sc_ip_next_hop c)), (''origin'', jopt JStr (sc_origin c)),
          (''tag'', jopt JNum (sc_tag c))])])"

definition route_map_json :: "route_map \<Rightarrow> json" where
  "route_map_json m = JObj [(''name'', JStr (rm_name m)),
     (''entries'', JArr (map rm_entry_json (sort_by (\<lambda>a b. cmp (re_seq a) (re_seq b)) (rm_entries m))))]"

definition policy_get :: "'s platform \<Rightarrow> ('s, string, json) io" where
  "policy_get P =
     bnd (current P) (\<lambda>p.
     if \<not> bgp_available p then
       ret (JObj [(''capability'', cap_json (cap_no POLICY_UNSUPPORTED)), (''prefix_lists'', JArr []), (''route_maps'', JArr [])])
     else bnd (running_config P) (\<lambda>r.
       ret (JObj [(''capability'', cap_json cap_yes),
         (''prefix_lists'', JArr (map prefix_list_json (sort_by (\<lambda>a b. cmp (pl_name a) (pl_name b)) (prefix_lists r)))),
         (''route_maps'', JArr (map route_map_json (sort_by (\<lambda>a b. cmp (rm_name a) (rm_name b)) (route_maps r))))])))"


section \<open>Writing\<close>

definition policy_require :: "'s platform \<Rightarrow> ('s, probe) handler" where
  "policy_require P = bnd (current P) (\<lambda>p.
     if \<not> bgp_available p then fail (Conflict POLICY_UNSUPPORTED) else ret p)"

definition c_args :: "string list \<Rightarrow> string list" where
  "c_args ls = concat (map (\<lambda>l. [''-c'', l]) ls)"

definition vtysh_config :: "'s platform \<Rightarrow> probe \<Rightarrow> string list \<Rightarrow> ('s, unit) handler" where
  "vtysh_config P p ls =
     bnd (map_err (\<lambda>e. Internal (''vtysh: '' @ e)) (run_cmd P ''vtysh'' (c_args (''configure terminal'' # ls)))) (\<lambda>out.
     if \<not> co_ok out then
       fail (Internal (''vtysh configuration failed: ''
         @ (if trim (co_stderr out) = [] then trim (co_stdout out) else trim (co_stderr out))))
     else if frr_write_memory_needed p then
       bnd (map_err (\<lambda>e. Internal (''vtysh write memory: '' @ e)) (run_cmd P ''vtysh'' (c_args [''write memory'']))) (\<lambda>_. ret ())
     else ret ())"

definition valid_name :: "string \<Rightarrow> bool" where
  "valid_name name \<longleftrightarrow> name \<noteq> [] \<and> length name \<le> 63 \<and> list_all (\<lambda>c. is_alnum c \<or> c \<in> set ''-_.'') name"

definition check_text :: "string \<Rightarrow> string \<Rightarrow> nat \<Rightarrow> string + unit" where
  "check_text what s mx =
     (if s = [] \<or> length s > mx then Inl (''invalid '' @ what @ '': must be 1-'' @ show_nat mx @ '' characters'')
      else if \<not> list_all (\<lambda>c. 32 \<le> byte c \<and> byte c < 127 \<and> byte c \<noteq> 34) s then
        Inl (''invalid '' @ what @ '': printable ASCII only'')
      else Inr ())"

record prefix_list_input =
  pli_family :: string
  pli_rules :: "prefix_rule list"

definition check_action :: "string \<Rightarrow> string + unit" where
  "check_action a = check (a = ''permit'' \<or> a = ''deny'') (''invalid action '' @ dbg a @ '' (permit or deny)'')"

definition check_bound :: "nat \<Rightarrow> nat \<Rightarrow> string \<Rightarrow> nat option \<Rightarrow> string + unit" where
  "check_bound len mx name v = (case v of
       None \<Rightarrow> Inr ()
     | Some n \<Rightarrow> check (len \<le> n \<and> n \<le> mx)
         (''invalid '' @ name @ '' '' @ show_nat n @ '' (must be '' @ show_nat len @ ''-'' @ show_nat mx @ '')''))"

definition check_prefix_rule :: "string \<Rightarrow> prefix_rule \<Rightarrow> string + unit" where
  "check_prefix_rule family r =
     (let err = ''invalid '' @ family @ '' prefix '' @ dbg (pr_prefix r);
          mx = (if family = ''ipv4'' then 32 else 128) in
      sbind (check (pr_seq r \<noteq> 0) ''seq must be positive'') (\<lambda>_.
      sbind (check_action (pr_action r)) (\<lambda>_.
      sbind (ok_or (split_once (CHR ''/'') (pr_prefix r)) err) (\<lambda>(ip, len).
      sbind (ok_or (parse_ip ip) err) (\<lambda>ip.
      sbind (ok_or (parse_uint 32 len) err) (\<lambda>len.
      sbind (check (len \<le> mx \<and> is_ipv4 ip = (family = ''ipv4'')) err) (\<lambda>_.
      sbind (check_bound len mx ''ge'' (pr_ge r)) (\<lambda>_.
      sbind (check_bound len mx ''le'' (pr_le r)) (\<lambda>_.
      case (pr_ge r, pr_le r) of
        (Some ge, Some le) \<Rightarrow> check (ge \<le> le) (''ge '' @ show_nat ge @ '' exceeds le '' @ show_nat le)
      | _ \<Rightarrow> Inr ())))))))))"

definition family_keyword :: "string \<Rightarrow> string + string" where
  "family_keyword family =
     (if family = ''ipv4'' then Inr ''ip'' else if family = ''ipv6'' then Inr ''ipv6''
      else Inl (''invalid family '' @ dbg family @ '' (ipv4 or ipv6)''))"

text \<open>The loop over the rules with the set of sequence numbers seen; the same loop runs over route-map entries.\<close>

fun check_seqs :: "('a \<Rightarrow> string + unit) \<Rightarrow> ('a \<Rightarrow> nat) \<Rightarrow> nat list \<Rightarrow> 'a list \<Rightarrow> string + unit" where
  "check_seqs chk seq seen [] = Inr ()"
| "check_seqs chk seq seen (r # rs) =
     sbind (chk r) (\<lambda>_.
     if seq r \<in> set seen then Inl (''duplicate seq '' @ show_nat (seq r))
     else check_seqs chk seq (seq r # seen) rs)"

definition opt_text :: "string \<Rightarrow> string option \<Rightarrow> string" where
  "opt_text pre v = (case v of None \<Rightarrow> [] | Some x \<Rightarrow> pre @ x)"

definition rule_line :: "string \<Rightarrow> string \<Rightarrow> prefix_rule \<Rightarrow> string" where
  "rule_line kw name r =
     kw @ '' prefix-list '' @ name @ '' seq '' @ show_nat (pr_seq r) @ '' '' @ pr_action r @ '' '' @ pr_prefix r
     @ opt_text '' ge '' (map_option show_nat (pr_ge r)) @ opt_text '' le '' (map_option show_nat (pr_le r))"

definition family_kw :: "prefix_list \<Rightarrow> string" where
  "family_kw l = (if pl_family l = ''ipv4'' then ''ip'' else ''ipv6'')"

definition prefix_list_lines :: "policy_running \<Rightarrow> string \<Rightarrow> string \<Rightarrow> prefix_rule list \<Rightarrow> string list" where
  "prefix_list_lines r kw name rules =
     (case find_prefix_list r name of
        None \<Rightarrow> [] | Some cur \<Rightarrow> [''no '' @ family_kw cur @ '' prefix-list '' @ name])
     @ map (rule_line kw name) rules"

definition policy_running_of :: "'s platform \<Rightarrow> ('s, policy_running) handler" where
  "policy_running_of P = map_err Internal (running_config P)"

definition put_prefix_list :: "'s platform \<Rightarrow> string \<Rightarrow> prefix_list_input \<Rightarrow> ('s, unit) handler" where
  "put_prefix_list P name i =
     bnd (policy_require P) (\<lambda>p.
     bnd (guard (valid_name name) (BadRequest (''invalid prefix list name '' @ dbg name))) (\<lambda>_.
     bnd (lift (smap_err BadRequest (family_keyword (pli_family i)))) (\<lambda>kw.
     bnd (guard (pli_rules i \<noteq> []) (BadRequest ''a prefix list needs at least one rule'')) (\<lambda>_.
     bnd (lift (smap_err BadRequest (check_seqs (check_prefix_rule (pli_family i)) pr_seq [] (pli_rules i)))) (\<lambda>_.
     bnd (policy_running_of P) (\<lambda>r.
     vtysh_config P p (prefix_list_lines r kw name (pli_rules i))))))))"

definition matches_list :: "string \<Rightarrow> route_map \<Rightarrow> bool" where
  "matches_list name m \<longleftrightarrow> list_ex (\<lambda>e. mc_ip_prefix_list (re_match e) = Some name
     \<or> mc_ipv6_prefix_list (re_match e) = Some name) (rm_entries m)"

definition delete_prefix_list :: "'s platform \<Rightarrow> string \<Rightarrow> ('s, unit) handler" where
  "delete_prefix_list P name =
     bnd (policy_require P) (\<lambda>p.
     bnd (guard (valid_name name) (BadRequest (''invalid prefix list name '' @ dbg name))) (\<lambda>_.
     bnd (policy_running_of P) (\<lambda>r.
     case find_prefix_list r name of
       None \<Rightarrow> fail (NotFound (''no such prefix list '' @ name))
     | Some l \<Rightarrow>
         let users = map rm_name (filter (matches_list name) (route_maps r)) in
         bnd (guard (users = []) (Conflict (''prefix list '' @ name
           @ '' is still referenced by route map(s): '' @ join '', '' users))) (\<lambda>_.
         vtysh_config P p [''no '' @ family_kw l @ '' prefix-list '' @ name]))))"

text \<open>
  The request bodies of a route map have the fields of the documents, with \<open>match\<close> and \<open>set\<close>
  defaulting to no clause.
\<close>

type_synonym rm_entry_input = rm_entry

definition check_ref :: "string \<Rightarrow> string \<Rightarrow> string + unit" where
  "check_ref what v = check (valid_name v) (''invalid '' @ what @ '' '' @ dbg v)"

definition check_entry :: "rm_entry_input \<Rightarrow> string + unit" where
  "check_entry e = (let m = re_match e; c = re_set e in
     sbind (check (1 \<le> re_seq e \<and> re_seq e \<le> 65535) (''invalid seq '' @ show_nat (re_seq e) @ '' (must be 1-65535)'')) (\<lambda>_.
     sbind (check_action (re_action e)) (\<lambda>_.
     sbind (check_opt (\<lambda>d. check_text ''description'' d 100) (re_description e)) (\<lambda>_.
     sbind (check_opt (check_ref ''match.ip_prefix_list'') (mc_ip_prefix_list m)) (\<lambda>_.
     sbind (check_opt (check_ref ''match.ipv6_prefix_list'') (mc_ipv6_prefix_list m)) (\<lambda>_.
     sbind (check_opt (check_ref ''match.community'') (mc_community m)) (\<lambda>_.
     sbind (check_opt (\<lambda>v. check_text ''set.community'' v 200) (sc_community c)) (\<lambda>_.
     sbind (check_opt (\<lambda>v. check_text ''set.as_path_prepend'' v 200) (sc_as_path_prepend c)) (\<lambda>_.
     sbind (check_opt (\<lambda>v. check (list_all (\<lambda>t. parse_uint 32 t \<noteq> None) (words v))
       (''invalid set.as_path_prepend '' @ dbg v @ '' (space-separated ASNs)'')) (sc_as_path_prepend c)) (\<lambda>_.
     sbind (check_opt (\<lambda>v. check (parse_ip v \<noteq> None) (''invalid set.ip_next_hop '' @ dbg v)) (sc_ip_next_hop c)) (\<lambda>_.
     check_opt (\<lambda>v. check (v \<in> {''igp'', ''egp'', ''incomplete''})
       (''invalid set.origin '' @ dbg v @ '' (igp, egp, or incomplete)'')) (sc_origin c))))))))))))"

definition opt_line :: "string \<Rightarrow> string option \<Rightarrow> string list" where
  "opt_line pre v = (case v of None \<Rightarrow> [] | Some x \<Rightarrow> [pre @ x])"

definition match_lines :: "match_clauses \<Rightarrow> string list" where
  "match_lines m =
     opt_line ''match ip address prefix-list '' (mc_ip_prefix_list m)
     @ opt_line ''match ipv6 address prefix-list '' (mc_ipv6_prefix_list m)
     @ opt_line ''match community '' (mc_community m)
     @ opt_line ''match metric '' (map_option show_nat (mc_metric m))
     @ opt_line ''match tag '' (map_option show_nat (mc_tag m))"

definition set_lines :: "set_clauses \<Rightarrow> string list" where
  "set_lines c =
     opt_line ''set local-preference '' (map_option show_nat (sc_local_preference c))
     @ opt_line ''set metric '' (map_option show_nat (sc_metric c))
     @ opt_line ''set community '' (sc_community c)
     @ opt_line ''set as-path prepend '' (sc_as_path_prepend c)
     @ opt_line ''set ip next-hop '' (sc_ip_next_hop c)
     @ opt_line ''set origin '' (sc_origin c)
     @ opt_line ''set tag '' (map_option show_nat (sc_tag c))"

definition entry_lines :: "string \<Rightarrow> rm_entry_input \<Rightarrow> string list" where
  "entry_lines name e =
     [''route-map '' @ name @ '' '' @ re_action e @ '' '' @ show_nat (re_seq e)]
     @ opt_line ''description '' (re_description e) @ match_lines (re_match e) @ set_lines (re_set e) @ [''exit'']"

definition route_map_lines :: "policy_running \<Rightarrow> string \<Rightarrow> rm_entry_input list \<Rightarrow> string list" where
  "route_map_lines r name es =
     (if find_route_map r name \<noteq> None then [''no route-map '' @ name] else []) @ concat (map (entry_lines name) es)"

definition put_route_map :: "'s platform \<Rightarrow> string \<Rightarrow> rm_entry_input list \<Rightarrow> ('s, unit) handler" where
  "put_route_map P name es =
     bnd (policy_require P) (\<lambda>p.
     bnd (guard (valid_name name) (BadRequest (''invalid route map name '' @ dbg name))) (\<lambda>_.
     bnd (guard (es \<noteq> []) (BadRequest ''a route map needs at least one entry'')) (\<lambda>_.
     bnd (lift (smap_err BadRequest (check_seqs check_entry re_seq [] es))) (\<lambda>_.
     bnd (policy_running_of P) (\<lambda>r.
     vtysh_config P p (route_map_lines r name es))))))"

definition delete_route_map :: "'s platform \<Rightarrow> string \<Rightarrow> ('s, unit) handler" where
  "delete_route_map P name =
     bnd (policy_require P) (\<lambda>p.
     bnd (guard (valid_name name) (BadRequest (''invalid route map name '' @ dbg name))) (\<lambda>_.
     bnd (policy_running_of P) (\<lambda>r.
     bnd (guard (find_route_map r name \<noteq> None) (NotFound (''no such route map '' @ name))) (\<lambda>_.
     bnd (guard (name \<notin> set (route_map_refs r)) (Conflict (''route map '' @ name
       @ '' is still applied (BGP neighbor / redistribute / OSPF); detach it first''))) (\<lambda>_.
     vtysh_config P p [''no route-map '' @ name])))))"

end
