(* ===== verification/TextLaws.thy ===== *)
theory TextLaws
  imports RustStd
begin

text \<open>
  Laws of \<open>split_whitespace\<close> and \<open>trim\<close>: a text that is made of tokens splits into these tokens,
  whatever white space surrounds it.
\<close>

section \<open>Tokens\<close>

definition token :: "string \<Rightarrow> bool" where
  "token t \<longleftrightarrow> t \<noteq> [] \<and> list_all (\<lambda>c. \<not> is_space c) t"

lemma tokenD: "token t \<Longrightarrow> c \<in> set t \<Longrightarrow> \<not> is_space c" "token t \<Longrightarrow> t \<noteq> []"
  by (auto simp: token_def list_all_iff)

lemma token_hd_last: "token t \<Longrightarrow> \<not> is_space (hd t)" "token t \<Longrightarrow> \<not> is_space (last t)"
  by (auto simp: token_def list_all_iff)

lemma words_Nil [simp]: "words [] = []"
  by (simp add: words.simps)

lemma words_space: "is_space c \<Longrightarrow> words (c # s) = words s"
  by (subst (1 2) words.simps) simp

lemma words_blank [simp]: "words (CHR '' '' # s) = words s"
  by (rule words_space) (simp add: is_space_def byte_def)

lemma words_append:
  assumes "token t" "s = [] \<or> is_space (hd s)"
  shows "words (t @ s) = t # words s"
proof -
  obtain c cs where t: "t = c # cs" using assms(1) by (cases t) (auto simp: token_def)
  with assms(1) have c: "\<not> is_space c" "\<forall>x\<in>set cs. \<not> is_space x" by (auto simp: token_def list_all_iff)
  have "takeWhile (\<lambda>x. \<not> is_space x) (cs @ s) = cs" "dropWhile (\<lambda>x. \<not> is_space x) (cs @ s) = s"
    using c(2) assms(2) by (cases s; auto simp: takeWhile_append2 dropWhile_append2)+
  with c(1) show ?thesis by (subst words.simps) (simp add: t)
qed

lemma words_token: "token t \<Longrightarrow> words t = [t]"
  using words_append [of t "[]"] by simp

lemma words_join: "list_all token ts \<Longrightarrow> words (join '' '' ts) = ts"
proof (induction ts)
  case (Cons t ts)
  have "is_space CHR '' ''" by (simp add: is_space_def byte_def)
  with Cons show ?case by (cases ts) (auto simp: words_token words_append)
qed simp

lemma words_cons: "\<not> is_space c \<Longrightarrow>
    words (c # cs) = (c # takeWhile (\<lambda>x. \<not> is_space x) cs) # words (dropWhile (\<lambda>x. \<not> is_space x) cs)"
  by (subst words.simps) simp

lemma words_tokens: "t \<in> set (words s) \<Longrightarrow> token t"
proof (induction s rule: length_induct)
  case (1 s)
  show ?case
  proof (cases s)
    case (Cons c cs)
    have "length (dropWhile (\<lambda>x. \<not> is_space x) cs) < length s"
      using length_dropWhile_le [of _ cs] Cons by (metis le_imp_less_Suc length_Cons)
    then have "t \<in> set (words (dropWhile (\<lambda>x. \<not> is_space x) cs)) \<Longrightarrow> token t" using 1(1) by blast
    moreover have "t \<in> set (words cs) \<Longrightarrow> token t" using 1(1) [rule_format, of cs] Cons by simp
    moreover have "token (c # takeWhile (\<lambda>x. \<not> is_space x) cs)" if "\<not> is_space c"
      using that by (auto simp: token_def list_all_iff dest: set_takeWhileD)
    ultimately show ?thesis
      using 1(2) unfolding Cons by (cases "is_space c") (auto simp only: words_space words_cons list.set insert_iff not_False_eq_True)
  qed (use 1 in simp)
qed

lemma words_dropWhile: "words (dropWhile is_space s) = words s"
  by (induction s) (auto simp: words_space)

lemma words_all_space: "list_all is_space s \<Longrightarrow> words s = []"
  by (induction s) (simp_all add: words_space)

lemma words_trailing: "list_all is_space w \<Longrightarrow> words (s @ w) = words s"
proof (induction s rule: length_induct)
  case (1 s)
  show ?case
  proof (cases s)
    case Nil
    with 1 show ?thesis by (simp add: words_all_space)
  next
    case (Cons c cs)
    show ?thesis
    proof (cases "is_space c")
      case True
      with 1 Cons show ?thesis by (simp add: words_space)
    next
      case False
      have l: "length (dropWhile (\<lambda>x. \<not> is_space x) cs) < length s"
        using length_dropWhile_le [of _ cs] Cons by (metis le_imp_less_Suc length_Cons)
      have "takeWhile (\<lambda>x. \<not> is_space x) (cs @ w) = takeWhile (\<lambda>x. \<not> is_space x) cs"
        using 1(2) by (cases w) (auto simp: takeWhile_append takeWhile_eq_all_conv [THEN iffD2])
      moreover have "words (dropWhile (\<lambda>x. \<not> is_space x) (cs @ w)) = words (dropWhile (\<lambda>x. \<not> is_space x) cs)"
      proof (cases "\<forall>x\<in>set cs. \<not> is_space x")
        case True
        then have "dropWhile (\<lambda>x. \<not> is_space x) cs = []" by simp
        then have "words (dropWhile (\<lambda>x. \<not> is_space x) cs) = []" by (metis words_Nil)
        moreover have "dropWhile (\<lambda>x. \<not> is_space x) (cs @ w) = w"
          using 1(2) True by (cases w) (simp_all add: dropWhile_append)
        ultimately show ?thesis using 1(2) by (simp add: words_all_space)
      next
        case False
        then have "dropWhile (\<lambda>x. \<not> is_space x) (cs @ w) = dropWhile (\<lambda>x. \<not> is_space x) cs @ w"
          by (auto simp: dropWhile_append)
        with 1 l show ?thesis by metis
      qed
      ultimately show ?thesis using Cons False by (simp add: words_cons)
    qed
  qed
qed

lemma trim_split: "\<exists>a b. s = a @ trim s @ b \<and> list_all is_space a \<and> list_all is_space b"
proof -
  let ?r = "dropWhile is_space s"
  have "s = takeWhile is_space s @ ?r" by simp
  moreover have "?r = rev (dropWhile is_space (rev ?r)) @ rev (takeWhile is_space (rev ?r))"
    by (metis rev_append rev_rev_ident takeWhile_dropWhile_id)
  ultimately show ?thesis
    by (intro exI [of _ "takeWhile is_space s"] exI [of _ "rev (takeWhile is_space (rev ?r))"])
      (auto simp: trim_def trim_start_def trim_end_def list_all_iff dest: set_takeWhileD)
qed

lemma words_leading: "list_all is_space a \<Longrightarrow> words (a @ s) = words s"
  by (induction a) (auto simp: words_space)

lemma words_trim [simp]: "words (trim s) = words s"
  using trim_split [of s] words_leading words_trailing by metis

lemma trim_ends: "s \<noteq> [] \<Longrightarrow> \<not> is_space (hd s) \<Longrightarrow> \<not> is_space (last s) \<Longrightarrow> trim s = s"
proof -
  assume s: "s \<noteq> []" "\<not> is_space (hd s)" "\<not> is_space (last s)"
  then have "dropWhile is_space s = s" "dropWhile is_space (rev s) = rev s"
    by (auto simp: dropWhile_eq_self_iff hd_rev)
  then show ?thesis by (simp add: trim_def trim_start_def trim_end_def)
qed

lemma trim_ends_not_space:
  assumes "trim s \<noteq> []"
  shows "\<not> is_space (hd (trim s))" "\<not> is_space (last (trim s))"
proof -
  let ?x = "trim_start s"
  have ne: "dropWhile is_space (rev ?x) \<noteq> []" using assms by (simp add: trim_def trim_end_def)
  then have x: "?x \<noteq> []" by auto
  have "?x = trim ?x @ rev (takeWhile is_space (rev ?x))" if "trim ?x = trim s"
    using that by (metis rev_append rev_rev_ident takeWhile_dropWhile_id trim_def trim_end_def)
  have "?x = trim_end ?x @ rev (takeWhile is_space (rev ?x))"
    unfolding trim_end_def by (metis rev_append rev_rev_ident takeWhile_dropWhile_id)
  then have "hd ?x = hd (trim s)" using assms by (metis hd_append2 trim_def)
  moreover have "\<not> is_space (hd ?x)" using x by (simp add: trim_start_def hd_dropWhile)
  ultimately show "\<not> is_space (hd (trim s))" by simp
  show "\<not> is_space (last (trim s))" using ne by (simp add: trim_def trim_end_def last_rev hd_dropWhile)
qed

lemma trim_trim [simp]: "trim (trim s) = trim s"
  by (cases "trim s = []") (simp_all add: trim_ends trim_ends_not_space)

lemma trim_append_token: "token t \<Longrightarrow> s \<noteq> [] \<Longrightarrow> trim s = s \<Longrightarrow> trim (t @ CHR '' '' # s) = t @ CHR '' '' # s"
  using trim_ends_not_space(2) [of s] by (intro trim_ends) (auto simp: token_hd_last tokenD hd_append)

lemma trim_join: "list_all token ts \<Longrightarrow> trim (join '' '' ts) = join '' '' ts"
proof (induction ts)
  case (Cons t ts)
  have "trim t = t" using Cons.prems by (intro trim_ends) (auto simp: token_hd_last tokenD)
  moreover have "join '' '' ts \<noteq> []" if "ts \<noteq> []"
    using Cons.prems that by (intro join_nonempty) (auto simp: list_all_iff tokenD)
  ultimately show ?case using Cons by (cases ts) (auto simp: trim_append_token)
qed simp

lemma join_words: "join '' '' (words s) = [] \<longleftrightarrow> words s = []"
  by (metis join.simps(1) join_nonempty words_tokens tokenD(2))

lemma trim_words: "trim s = [] \<longleftrightarrow> words s = []"
proof
  assume "words s = []"
  then have "words (trim s) = []" by simp
  then show "trim s = []"
    using trim_ends_not_space(1) [of s] by (cases "trim s") (auto simp: words_cons)
qed (metis words_Nil words_trim)

lemma token_show_nat [simp]: "token (show_nat n)"
  using show_nat_digits [of n] by (auto simp: token_def list_all_iff digit_not_space)

lemma token_lit: "list_all (\<lambda>c. byte c > 32) t \<Longrightarrow> t \<noteq> [] \<Longrightarrow> token t"
  by (auto simp: token_def list_all_iff is_space_def)

lemma trim_line:
  assumes "list_all token ts" "ts \<noteq> []" "pre \<noteq> []" "\<not> is_space (hd pre)"
  shows "trim (pre @ join '' '' ts) = pre @ join '' '' ts"
proof -
  have j: "join '' '' ts \<noteq> []"
    using assms(1,2) by (intro join_nonempty) (auto simp: list_all_iff tokenD)
  moreover have "\<not> is_space (last (join '' '' ts))"
    using trim_ends_not_space(2) [of "join '' '' ts"] trim_join [OF assms(1)] j by simp
  ultimately show ?thesis using assms by (intro trim_ends) simp_all
qed

lemma trim_end_append: "trim_end (x @ y) = (if trim_end y = [] then trim_end x else x @ trim_end y)"
  by (auto simp: trim_end_def dropWhile_append)

lemma trim_unique:
  assumes "s = a @ t @ b" "list_all is_space a" "list_all is_space b"
    "t = [] \<or> \<not> is_space (hd t) \<and> \<not> is_space (last t)"
  shows "trim s = t"
proof -
  have b: "trim_end b = []" using assms(3) by (simp add: trim_end_def list_all_iff)
  have a: "dropWhile is_space (a @ x) = dropWhile is_space x" for x
    using assms(2) by (auto simp: dropWhile_append list_all_iff)
  show ?thesis
  proof (cases "t = []")
    case True
    then have "dropWhile is_space s = []" using a [of b] assms(1,3) by (simp add: list_all_iff)
    with True show ?thesis unfolding trim_def trim_start_def trim_end_def by (metis dropWhile.simps(1) rev.simps(1))
  next
    case False
    then have "dropWhile is_space (t @ b) = t @ b" using assms(4) by (simp add: dropWhile_eq_self_iff)
    moreover have "dropWhile is_space (rev t) = rev t" using False assms(4) by (simp add: dropWhile_eq_self_iff hd_rev)
    then have "trim_end t = t" by (simp add: trim_end_def)
    ultimately show ?thesis using a [of "t @ b"] b by (simp add: trim_def trim_start_def assms(1) trim_end_append)
  qed
qed

lemma trim_of_trim_end: "trim (trim_end d) = trim d"
proof -
  obtain a b where s: "trim_end d = a @ trim (trim_end d) @ b" "list_all is_space a" "list_all is_space b"
    using trim_split by blast
  have d: "d = trim_end d @ rev (takeWhile is_space (rev d))"
    unfolding trim_end_def by (metis rev_append rev_rev_ident takeWhile_dropWhile_id)
  have "d = a @ trim (trim_end d) @ (b @ rev (takeWhile is_space (rev d)))"
    using d unfolding s(1) [symmetric] by (metis append.assoc s(1))
  moreover have "list_all is_space (b @ rev (takeWhile is_space (rev d)))"
    using s(3) by (auto simp: list_all_iff dest: set_takeWhileD)
  ultimately have "trim d = trim (trim_end d)"
    using trim_ends_not_space [of "trim_end d"] by (intro trim_unique [OF _ s(2)]) auto
  then show ?thesis ..
qed

lemma trim_end_Nil: "trim_end d = [] \<longleftrightarrow> trim d = []"
proof
  assume "trim d = []"
  then have "list_all is_space d"
    unfolding trim_words
  proof (induction d)
    case (Cons c d)
    then show ?case by (cases "is_space c") (simp_all add: words_space words_cons)
  qed simp
  then show "trim_end d = []" by (simp add: trim_end_def list_all_iff)
qed (metis trim_Nil trim_of_trim_end)

end
