(* ===== verification/PolicyLaws.thy ===== *)
theory PolicyLaws
  imports Policy TextLaws
begin

text \<open>
  Laws of the running-configuration parser of routing policy: a line printed for a rule or a clause parses to
  that rule or clause.
\<close>

section \<open>Prefix lists\<close>

lemma alnum_not_space: "is_alnum c \<Longrightarrow> \<not> is_space c"
  by (auto simp: is_alnum_def is_space_def is_upper_def is_lower_def is_digit_def)

lemma token_name: "valid_name n \<Longrightarrow> token n"
  by (auto simp: valid_name_def token_def list_all_iff is_space_def byte_def dest!: bspec alnum_not_space)

lemma token_ip: "parse_ip s = Some ip \<Longrightarrow> token s"
  using parse_ip_chars [of s ip] by (auto simp: token_def list_all_iff)


lemma parse_line_trim: "parse_line st (trim raw) = parse_line st raw"
  by (simp add: parse_line_def)

lemma foldl_parse_trim: "foldl parse_line st ls = foldl parse_line st (map trim ls)"
  by (induction ls arbitrary: st) (simp_all add: parse_line_trim)

definition rule_tokens :: "string \<Rightarrow> prefix_rule \<Rightarrow> string list" where
  "rule_tokens name r = [name, ''seq'', show_nat (pr_seq r), pr_action r, pr_prefix r]
     @ (case pr_ge r of None \<Rightarrow> [] | Some n \<Rightarrow> [''ge'', show_nat n])
     @ (case pr_le r of None \<Rightarrow> [] | Some n \<Rightarrow> [''le'', show_nat n])"

lemma rule_line_join: "rule_line kw name r = kw @ '' prefix-list '' @ join '' '' (rule_tokens name r)"
  by (cases "pr_ge r"; cases "pr_le r") (simp_all add: rule_line_def rule_tokens_def opt_text_def)

definition typed_rule :: "prefix_rule \<Rightarrow> bool" where
  "typed_rule r \<longleftrightarrow> pr_seq r < 2 ^ 32"

text \<open>What a rule that passed validation looks like.\<close>

lemma check_prefix_rule_ok:
  assumes "check_prefix_rule family r = Inr u"
  shows "pr_action r \<in> {''permit'', ''deny''}" "token (pr_prefix r)" "pr_prefix r \<noteq> ''any''"
    "\<forall>n. pr_ge r = Some n \<longrightarrow> n \<le> 128" "\<forall>n. pr_le r = Some n \<longrightarrow> n \<le> 128"
proof -
  show "pr_action r \<in> {''permit'', ''deny''}"
    using assms by (auto simp: check_prefix_rule_def check_action_def Let_def)
  obtain ip len a n where p: "split_once (CHR ''/'') (pr_prefix r) = Some (ip, len)" "parse_ip ip = Some a"
      "parse_uint 32 len = Some n"
    using assms by (auto simp: check_prefix_rule_def Let_def split: prod.splits)
  then have s: "pr_prefix r = ip @ CHR ''/'' # len" by (simp add: split_once_Some)
  have "\<not> is_space c" if "c \<in> set len" for c using parse_uint_no_space [OF p(3) that] .
  with token_ip [OF p(2)] show "token (pr_prefix r)"
    by (auto simp: s token_def list_all_iff is_space_def byte_def)
  show "pr_prefix r \<noteq> ''any''" by (auto simp: s append_eq_Cons_conv)
  show "\<forall>n. pr_ge r = Some n \<longrightarrow> n \<le> 128" "\<forall>n. pr_le r = Some n \<longrightarrow> n \<le> 128"
    using assms by (auto simp: check_prefix_rule_def check_bound_def Let_def split: if_splits prod.splits)
qed

lemma rule_tokens_ok:
  "token name \<Longrightarrow> check_prefix_rule family r = Inr u \<Longrightarrow> list_all token (rule_tokens name r)"
  using check_prefix_rule_ok [of family r u]
  by (auto simp: rule_tokens_def split: option.splits intro!: token_lit simp: byte_def)

lemma parse_rule:
  assumes "token name" "name \<noteq> ''ge''" "name \<noteq> ''le''" "check_prefix_rule family r = Inr u" "typed_rule r"
  shows "parse_prefix_line family (join '' '' (rule_tokens name r)) pls = push_rule name family r pls"
proof -
  note ok = check_prefix_rule_ok [OF assms(4)]
  have d: "show_nat n \<noteq> ''ge''" "show_nat n \<noteq> ''le''" for n
    using show_nat_digits [of n] by (auto simp: is_digit_def byte_def)
  have p: "pr_prefix r \<noteq> ''ge''" "pr_prefix r \<noteq> ''le''"
  proof -
    have "CHR ''/'' \<in> set (pr_prefix r)"
      using assms(4) by (auto simp: check_prefix_rule_def Let_def split_once_Some)
    then show "pr_prefix r \<noteq> ''ge''" "pr_prefix r \<noteq> ''le''" by auto
  qed
  have n: "parse_num_token (rule_tokens name r) ''ge'' = pr_ge r" "parse_num_token (rule_tokens name r) ''le'' = pr_le r"
    using assms(2,3) d p ok(1,4,5) by (auto simp: rule_tokens_def split: option.splits)
  have m: "map_option (\<lambda>v. v mod 2 ^ 32) (pr_ge r) = pr_ge r" "map_option (\<lambda>v. v mod 2 ^ 32) (pr_le r) = pr_le r"
    using ok(4,5) by (cases "pr_ge r"; cases "pr_le r"; fastforce)+
  have q: "parse_uint 32 (show_nat (pr_seq r)) = Some (pr_seq r)" using assms(5) by (simp add: typed_rule_def)
  obtain ts where t: "rule_tokens name r = name # ''seq'' # show_nat (pr_seq r) # pr_action r # pr_prefix r # ts"
    by (simp add: rule_tokens_def)
  have a: "\<not> (pr_action r \<noteq> ''permit'' \<and> pr_action r \<noteq> ''deny'')" using ok(1) by blast
  show ?thesis
    unfolding parse_prefix_line_def words_join [OF rule_tokens_ok [OF assms(1,4)]] Let_def n m
    unfolding t list.case q option.case if_not_P [OF a] if_not_P [OF ok(3)] by (cases r) simp
qed

lemma parse_rule_line:
  assumes "token name" "name \<noteq> ''ge''" "name \<noteq> ''le''" "check_prefix_rule family r = Inr u" "typed_rule r"
    "family_keyword family = Inr kw"
  shows "parse_line (out, None) (rule_line kw name r)
     = (out\<lparr>prefix_lists := push_rule name family r (prefix_lists out)\<rparr>, None)"
proof -
  let ?j = "join '' '' (rule_tokens name r)"
  have f: "(family = ''ipv4'' \<and> kw = ''ip'') \<or> (family = ''ipv6'' \<and> kw = ''ipv6'')"
    using assms(6) by (auto simp: family_keyword_def split: if_splits)
  have t: "trim (rule_line kw name r) = (kw @ '' prefix-list '') @ ?j"
    unfolding rule_line_join using f trim_line [OF rule_tokens_ok [OF assms(1,4)], of "kw @ '' prefix-list ''"]
    by (auto simp: rule_tokens_def is_space_def byte_def)
  note p = parse_rule [OF assms(1-5), of "prefix_lists out"]
  from f show ?thesis
  proof
    assume k: "family = ''ipv4'' \<and> kw = ''ip''"
    have "strip_prefix ''ip prefix-list '' (trim (rule_line kw name r)) = Some ?j"
      using t k by (simp only: strip_prefix_Some) simp
    with p k show ?thesis by (simp add: parse_line_def Let_def finish_def on_lists_def)
  next
    assume k: "family = ''ipv6'' \<and> kw = ''ipv6''"
    have "strip_prefix ''ipv6 prefix-list '' (trim (rule_line kw name r)) = Some ?j"
      "strip_prefix ''ip prefix-list '' (trim (rule_line kw name r)) = None"
      using t k by (simp_all only: strip_prefix_Some strip_prefix_None) simp_all
    with p k show ?thesis by (simp add: parse_line_def Let_def finish_def on_lists_def)
  qed
qed

lemma check_seqs_ok: "check_seqs chk seq seen rs = Inr u \<longleftrightarrow>
    (\<forall>r\<in>set rs. chk r = Inr ()) \<and> distinct (map seq rs) \<and> set (map seq rs) \<inter> set seen = {}"
  by (induction chk seq seen rs rule: check_seqs.induct) auto

lemma parse_rule_lines:
  assumes "token name" "name \<noteq> ''ge''" "name \<noteq> ''le''" "family_keyword family = Inr kw"
    "\<forall>r\<in>set rs. check_prefix_rule family r = Inr () \<and> typed_rule r"
  shows "foldl parse_line (out, None) (map (rule_line kw name) rs)
     = (out\<lparr>prefix_lists := foldl (\<lambda>ls r. push_rule name family r ls) (prefix_lists out) rs\<rparr>, None)"
  using assms(5)
proof (induction rs arbitrary: out)
  case (Cons r rs)
  then have r: "check_prefix_rule family r = Inr ()" "typed_rule r" by auto
  from Cons show ?case by (simp add: parse_rule_line [OF assms(1-3) r assms(4)])
qed simp

lemma push_rules: "foldl (\<lambda>ls r. push_rule name family r ls) [\<lparr>pl_name = name, pl_family = family, pl_rules = xs\<rparr>] rs
    = [\<lparr>pl_name = name, pl_family = family, pl_rules = xs @ rs\<rparr>]"
  by (induction rs arbitrary: xs) simp_all

section \<open>Route maps\<close>

definition norm_words :: "string \<Rightarrow> string option" where
  "norm_words v = (if words v = [] then None else Some (join '' '' (words v)))"

definition norm_desc :: "string \<Rightarrow> string option" where
  "norm_desc d = (if trim d = [] then None else Some (trim d))"

definition entry_doc :: "rm_entry_input \<Rightarrow> rm_entry" where
  "entry_doc e = e\<lparr>re_description := Option.bind (re_description e) norm_desc,
     re_set := (re_set e)\<lparr>sc_community := Option.bind (sc_community (re_set e)) norm_words,
       sc_as_path_prepend := Option.bind (sc_as_path_prepend (re_set e)) norm_words\<rparr>\<rparr>"

definition typed_entry :: "rm_entry_input \<Rightarrow> bool" where
  "typed_entry e \<longleftrightarrow> (\<forall>n \<in> set_option (mc_metric (re_match e)) \<union> set_option (mc_tag (re_match e))
     \<union> set_option (sc_local_preference (re_set e)) \<union> set_option (sc_metric (re_set e)) \<union> set_option (sc_tag (re_set e)).
     n < 2 ^ 64)"

text \<open>A line of an open entry whose first character rules out the other kinds of line.\<close>

lemma parse_line_entry:
  assumes "trim raw = c # cs" "c \<in> {CHR ''d'', CHR ''m'', CHR ''s''}"
  shows "parse_line (out, Some (n, e)) raw = (out, Some (n, parse_entry_line (c # cs) e))"
  using assms(2) by (auto simp: parse_line_def assms(1) Let_def)

lemma parse_tokens_entry:
  assumes "list_all token (t # ts)" "t = ''match'' \<or> t = ''set''" "words l = t # ts"
  shows "parse_line (out, Some (n, e)) l = (out, Some (n, if t = ''match'' then match_line ts e else set_line ts e))"
proof -
  have w: "words (trim l) = t # ts" using assms(3) by simp
  have ne: "trim l \<noteq> []" using assms(3) by (simp add: trim_words)
  then obtain c cs where l: "trim l = c # cs" by (cases "trim l") auto
  have "\<not> is_space c" using trim_ends_not_space(1) [OF ne] l by simp
  then have t: "t = c # takeWhile (\<lambda>x. \<not> is_space x) cs" using w by (simp add: l words_cons)
  have c: "c = CHR ''m'' \<or> c = CHR ''s''" using assms(2) t by auto
  have "strip_prefix ''description '' (c # cs) = None" using c by auto
  moreover have "words (c # cs) = t # ts" using w l by simp
  ultimately have "parse_entry_line (c # cs) e = (if t = ''match'' then match_line ts e else set_line ts e)"
    using assms(2) unfolding parse_entry_line_def by auto
  with parse_line_entry [OF l] c show ?thesis by simp
qed

lemma words_lit: "token t \<Longrightarrow> words (t @ CHR '' '' # s) = t # words s"
  using words_append [of t "CHR '' '' # s"] by (simp add: is_space_def byte_def)

lemma tok [simp]: "token ''match''" "token ''set''" "token ''ip''" "token ''ipv6''" "token ''address''" "token ''prefix-list''"
  "token ''community''" "token ''metric''" "token ''tag''" "token ''local-preference''" "token ''as-path''" "token ''prepend''"
  "token ''next-hop''" "token ''origin''" "token ''route-map''" "token ''igp''" "token ''egp''" "token ''incomplete''"
  by (simp_all add: token_lit byte_def)

lemmas lits = words_lit [of "''match''"] words_lit [of "''set''"] words_lit [of "''ip''"] words_lit [of "''ipv6''"]
  words_lit [of "''address''"] words_lit [of "''prefix-list''"] words_lit [of "''community''"] words_lit [of "''metric''"]
  words_lit [of "''tag''"] words_lit [of "''local-preference''"] words_lit [of "''as-path''"] words_lit [of "''prepend''"]
  words_lit [of "''next-hop''"] words_lit [of "''origin''"]

lemma prefix_words:
  "words (''match ip address prefix-list '' @ v) = [''match'', ''ip'', ''address'', ''prefix-list''] @ words v"
  "words (''match ipv6 address prefix-list '' @ v) = [''match'', ''ipv6'', ''address'', ''prefix-list''] @ words v"
  "words (''match community '' @ v) = [''match'', ''community''] @ words v"
  "words (''match metric '' @ v) = [''match'', ''metric''] @ words v"
  "words (''match tag '' @ v) = [''match'', ''tag''] @ words v"
  "words (''set local-preference '' @ v) = [''set'', ''local-preference''] @ words v"
  "words (''set metric '' @ v) = [''set'', ''metric''] @ words v"
  "words (''set community '' @ v) = [''set'', ''community''] @ words v"
  "words (''set as-path prepend '' @ v) = [''set'', ''as-path'', ''prepend''] @ words v"
  "words (''set ip next-hop '' @ v) = [''set'', ''ip'', ''next-hop''] @ words v"
  "words (''set origin '' @ v) = [''set'', ''origin''] @ words v"
  "words (''set tag '' @ v) = [''set'', ''tag''] @ words v"
  using lits by simp_all

lemma words_all_token: "list_all token (words v)"
  by (auto simp: list_all_iff words_tokens)

text \<open>One optional line of an entry sets the clause it is for.\<close>

lemma opt_line_step:
  assumes "v = None \<Longrightarrow> e' = e" "t = ''match'' \<or> t = ''set''"
    and "\<And>x. v = Some x \<Longrightarrow> words (pre @ x) = t # ts x \<and> token t \<and> list_all token (ts x)
       \<and> (if t = ''match'' then match_line (ts x) e else set_line (ts x) e) = e'"
  shows "foldl parse_line (out, Some (n, e)) (opt_line pre v) = (out, Some (n, e'))"
proof (cases v)
  case (Some x)
  then show ?thesis
    using parse_tokens_entry [of t "ts x" "pre @ x" out n e] assms(2,3) by (simp add: opt_line_def)
qed (simp add: opt_line_def assms(1))

lemma step_ip:
  assumes "\<forall>x. v = Some x \<longrightarrow> token x" "mc_ip_prefix_list (re_match e) = None"
  shows "foldl parse_line (out, Some (n, e)) (opt_line ''match ip address prefix-list '' v)
    = (out, Some (n, e\<lparr>re_match := (re_match e)\<lparr>mc_ip_prefix_list := v\<rparr>\<rparr>))"
  by (rule opt_line_step [where t = "''match''" and ts = "\<lambda>x. [''ip'', ''address'', ''prefix-list'', x]"])
    (use assms prefix_words(1) in \<open>simp_all add: words_token match_line_def set_m_def del: append.simps\<close>)

lemma step_ip6:
  assumes "\<forall>x. v = Some x \<longrightarrow> token x" "mc_ipv6_prefix_list (re_match e) = None"
  shows "foldl parse_line (out, Some (n, e)) (opt_line ''match ipv6 address prefix-list '' v)
    = (out, Some (n, e\<lparr>re_match := (re_match e)\<lparr>mc_ipv6_prefix_list := v\<rparr>\<rparr>))"
  by (rule opt_line_step [where t = "''match''" and ts = "\<lambda>x. [''ipv6'', ''address'', ''prefix-list'', x]"])
    (use assms prefix_words(2) in \<open>simp_all add: words_token match_line_def set_m_def del: append.simps\<close>)

lemma step_mcomm:
  assumes "\<forall>x. v = Some x \<longrightarrow> token x" "mc_community (re_match e) = None"
  shows "foldl parse_line (out, Some (n, e)) (opt_line ''match community '' v)
    = (out, Some (n, e\<lparr>re_match := (re_match e)\<lparr>mc_community := v\<rparr>\<rparr>))"
  by (rule opt_line_step [where t = "''match''" and ts = "\<lambda>x. [''community'', x]"])
    (use assms prefix_words(3) in \<open>simp_all add: words_token match_line_def set_m_def del: append.simps\<close>)

lemma step_mmetric:
  assumes "\<forall>x. v = Some x \<longrightarrow> x < 2 ^ 64" "mc_metric (re_match e) = None"
  shows "foldl parse_line (out, Some (n, e)) (opt_line ''match metric '' (map_option show_nat v))
    = (out, Some (n, e\<lparr>re_match := (re_match e)\<lparr>mc_metric := v\<rparr>\<rparr>))"
  by (rule opt_line_step [where t = "''match''" and ts = "\<lambda>x. [''metric'', x]"])
    (use assms prefix_words(4) in \<open>auto simp: words_token match_line_def set_m_def del: append.simps\<close>)

lemma step_mtag:
  assumes "\<forall>x. v = Some x \<longrightarrow> x < 2 ^ 64" "mc_tag (re_match e) = None"
  shows "foldl parse_line (out, Some (n, e)) (opt_line ''match tag '' (map_option show_nat v))
    = (out, Some (n, e\<lparr>re_match := (re_match e)\<lparr>mc_tag := v\<rparr>\<rparr>))"
  by (rule opt_line_step [where t = "''match''" and ts = "\<lambda>x. [''tag'', x]"])
    (use assms prefix_words(5) in \<open>auto simp: words_token match_line_def set_m_def del: append.simps\<close>)

lemma step_pref:
  assumes "\<forall>x. v = Some x \<longrightarrow> x < 2 ^ 64" "sc_local_preference (re_set e) = None"
  shows "foldl parse_line (out, Some (n, e)) (opt_line ''set local-preference '' (map_option show_nat v))
    = (out, Some (n, e\<lparr>re_set := (re_set e)\<lparr>sc_local_preference := v\<rparr>\<rparr>))"
  by (rule opt_line_step [where t = "''set''" and ts = "\<lambda>x. [''local-preference'', x]"])
    (use assms prefix_words(6) in \<open>auto simp: words_token set_line_def set_s_def del: append.simps\<close>)

lemma step_smetric:
  assumes "\<forall>x. v = Some x \<longrightarrow> x < 2 ^ 64" "sc_metric (re_set e) = None"
  shows "foldl parse_line (out, Some (n, e)) (opt_line ''set metric '' (map_option show_nat v))
    = (out, Some (n, e\<lparr>re_set := (re_set e)\<lparr>sc_metric := v\<rparr>\<rparr>))"
  by (rule opt_line_step [where t = "''set''" and ts = "\<lambda>x. [''metric'', x]"])
    (use assms prefix_words(7) in \<open>auto simp: words_token set_line_def set_s_def del: append.simps\<close>)

lemma step_stag:
  assumes "\<forall>x. v = Some x \<longrightarrow> x < 2 ^ 64" "sc_tag (re_set e) = None"
  shows "foldl parse_line (out, Some (n, e)) (opt_line ''set tag '' (map_option show_nat v))
    = (out, Some (n, e\<lparr>re_set := (re_set e)\<lparr>sc_tag := v\<rparr>\<rparr>))"
  by (rule opt_line_step [where t = "''set''" and ts = "\<lambda>x. [''tag'', x]"])
    (use assms prefix_words(12) in \<open>auto simp: words_token set_line_def set_s_def del: append.simps\<close>)

lemma step_hop:
  assumes "\<forall>x. v = Some x \<longrightarrow> token x" "sc_ip_next_hop (re_set e) = None"
  shows "foldl parse_line (out, Some (n, e)) (opt_line ''set ip next-hop '' v)
    = (out, Some (n, e\<lparr>re_set := (re_set e)\<lparr>sc_ip_next_hop := v\<rparr>\<rparr>))"
  by (rule opt_line_step [where t = "''set''" and ts = "\<lambda>x. [''ip'', ''next-hop'', x]"])
    (use assms prefix_words(10) in \<open>simp_all add: words_token set_line_def set_s_def del: append.simps\<close>)

lemma step_origin:
  assumes "\<forall>x. v = Some x \<longrightarrow> x \<in> {''igp'', ''egp'', ''incomplete''}" "sc_origin (re_set e) = None"
  shows "foldl parse_line (out, Some (n, e)) (opt_line ''set origin '' v)
    = (out, Some (n, e\<lparr>re_set := (re_set e)\<lparr>sc_origin := v\<rparr>\<rparr>))"
  by (rule opt_line_step [where t = "''set''" and ts = "\<lambda>x. [''origin'', x]"])
    (use assms prefix_words(11) in \<open>auto simp: words_token set_line_def set_s_def simp del: append.simps\<close>)

lemma set_line_words:
  "set_line (''community'' # ws) e = (if ws = [] then e else set_s (\<lambda>c. c\<lparr>sc_community := Some (join '' '' ws)\<rparr>) e)"
  "set_line ([''as-path'', ''prepend''] @ ws) e
     = (if ws = [] then e else set_s (\<lambda>c. c\<lparr>sc_as_path_prepend := Some (join '' '' ws)\<rparr>) e)"
  by (cases ws; simp add: set_line_def)+

lemma step_scomm:
  assumes "sc_community (re_set e) = None"
  shows "foldl parse_line (out, Some (n, e)) (opt_line ''set community '' v)
    = (out, Some (n, e\<lparr>re_set := (re_set e)\<lparr>sc_community := Option.bind v norm_words\<rparr>\<rparr>))"
  by (rule opt_line_step [where t = "''set''" and ts = "\<lambda>x. ''community'' # words x"])
    (use assms prefix_words(8) in \<open>simp_all add: set_line_words words_all_token norm_words_def set_s_def del: append.simps\<close>)

lemma step_path:
  assumes "sc_as_path_prepend (re_set e) = None"
  shows "foldl parse_line (out, Some (n, e)) (opt_line ''set as-path prepend '' v)
    = (out, Some (n, e\<lparr>re_set := (re_set e)\<lparr>sc_as_path_prepend := Option.bind v norm_words\<rparr>\<rparr>))"
proof (rule opt_line_step [where t = "''set''" and ts = "\<lambda>x. [''as-path'', ''prepend''] @ words x"])
  fix x assume "v = Some x"
  then show "words (''set as-path prepend '' @ x) = ''set'' # [''as-path'', ''prepend''] @ words x \<and>
    token ''set'' \<and> list_all token ([''as-path'', ''prepend''] @ words x) \<and>
    (if ''set'' = ''match'' then match_line ([''as-path'', ''prepend''] @ words x) e
     else set_line ([''as-path'', ''prepend''] @ words x) e)
    = e\<lparr>re_set := (re_set e)\<lparr>sc_as_path_prepend := Option.bind v norm_words\<rparr>\<rparr>"
    using assms unfolding prefix_words(9) set_line_words by (simp add: words_all_token norm_words_def set_s_def)
qed (use assms in simp_all)

text \<open>The description is read back without the white space around it.\<close>

lemma step_desc:
  assumes "re_description e = None"
  shows "foldl parse_line (out, Some (n, e)) (opt_line ''description '' v)
    = (out, Some (n, e\<lparr>re_description := Option.bind v norm_desc\<rparr>))"
proof (cases v)
  case None
  with assms show ?thesis by (simp add: opt_line_def)
next
  case (Some d)
  have "trim (''description '' @ d) = trim_end (''description '' @ d)"
    by (simp add: trim_def trim_start_def is_space_def byte_def)
  then have t: "trim (''description '' @ d) = (if trim d = [] then ''description'' else ''description '' @ trim_end d)"
    by (simp only: trim_end_append trim_end_Nil) (simp add: trim_end_def is_space_def byte_def)
  have "parse_line (out, Some (n, e)) (''description '' @ d) = (out, Some (n, e\<lparr>re_description := norm_desc d\<rparr>))"
  proof (cases "trim d = []")
    case True
    with t have "trim (''description '' @ d) = CHR ''d'' # ''escription''" by simp
    from parse_line_entry [OF this, of out n e] show ?thesis
      using assms True words_token [of "''description''"]
      by (simp add: parse_entry_line_def norm_desc_def token_lit byte_def)
  next
    case False
    with t have "trim (''description '' @ d) = CHR ''d'' # (''escription '' @ trim_end d)" by simp
    from parse_line_entry [OF this, of out n e] show ?thesis
      using False by (simp add: parse_entry_line_def norm_desc_def trim_of_trim_end)
  qed
  with Some show ?thesis by (simp add: opt_line_def)
qed

section \<open>Whole entries\<close>

lemma check_entry_ok:
  assumes "check_entry e = Inr u"
  shows "1 \<le> re_seq e \<and> re_seq e \<le> 65535" "re_action e = ''permit'' \<or> re_action e = ''deny''"
    "\<forall>x. mc_ip_prefix_list (re_match e) = Some x \<longrightarrow> token x" "\<forall>x. mc_ipv6_prefix_list (re_match e) = Some x \<longrightarrow> token x"
    "\<forall>x. mc_community (re_match e) = Some x \<longrightarrow> token x" "\<forall>x. sc_ip_next_hop (re_set e) = Some x \<longrightarrow> token x"
    "\<forall>x. sc_origin (re_set e) = Some x \<longrightarrow> x \<in> {''igp'', ''egp'', ''incomplete''}"
  using assms token_name token_ip
  by (auto simp: check_entry_def Let_def check_action_def check_opt_def check_ref_def)

definition bare_entry :: "rm_entry_input \<Rightarrow> rm_entry" where
  "bare_entry e = \<lparr>re_seq = re_seq e, re_action = re_action e, re_description = None, re_match = no_match, re_set = no_set\<rparr>"

lemma parse_header:
  assumes "token name" "check_entry e = Inr u"
  shows "parse_line (out, None) (''route-map '' @ name @ '' '' @ re_action e @ '' '' @ show_nat (re_seq e))
    = (out, Some (name, bare_entry e))"
proof -
  note ok = check_entry_ok [OF assms(2)]
  let ?j = "join '' '' [name, re_action e, show_nat (re_seq e)]"
  have a: "token (re_action e)" using ok(2) by (auto simp: token_lit byte_def)
  have ts: "list_all token [name, re_action e, show_nat (re_seq e)]" using assms(1) a by simp
  have j: "''route-map '' @ name @ '' '' @ re_action e @ '' '' @ show_nat (re_seq e) = ''route-map '' @ ?j" by simp
  have t: "trim (''route-map '' @ ?j) = ''route-map '' @ ?j"
    by (rule trim_line [OF ts]) (simp_all add: is_space_def byte_def)
  have "parse_uint 32 (show_nat (re_seq e)) = Some (re_seq e)" using ok(1) by simp
  with ok(2) have o: "open_entry ?j = Some (name, bare_entry e)"
    unfolding open_entry_def words_join [OF ts] by (auto simp: bare_entry_def)
  have p: "strip_prefix ''route-map '' (''route-map '' @ ?j) = Some ?j" by (rule strip_prefix_append)
  have n: "strip_prefix ''ip prefix-list '' (''route-map '' @ ?j) = None"
      "strip_prefix ''ipv6 prefix-list '' (''route-map '' @ ?j) = None" by simp_all
  show ?thesis
    unfolding j parse_line_def Let_def t n p o option.case by (simp add: finish_def)
qed

lemma parse_entry:
  assumes "token name" "check_entry e = Inr u" "typed_entry e"
  shows "foldl parse_line (out, None) (entry_lines name e)
    = (out\<lparr>route_maps := push_entry name (entry_doc e) (route_maps out)\<rparr>, None)"
proof -
  note ok = check_entry_ok [OF assms(2)]
  have b: "\<forall>x. mc_metric (re_match e) = Some x \<longrightarrow> x < 2 ^ 64" "\<forall>x. mc_tag (re_match e) = Some x \<longrightarrow> x < 2 ^ 64"
      "\<forall>x. sc_local_preference (re_set e) = Some x \<longrightarrow> x < 2 ^ 64" "\<forall>x. sc_metric (re_set e) = Some x \<longrightarrow> x < 2 ^ 64"
      "\<forall>x. sc_tag (re_set e) = Some x \<longrightarrow> x < 2 ^ 64"
    using assms(3) by (auto simp: typed_entry_def)
  let ?e1 = "bare_entry e\<lparr>re_description := Option.bind (re_description e) norm_desc\<rparr>"
  have m: "foldl parse_line (out, Some (name, ?e1)) (match_lines (re_match e)) = (out, Some (name, ?e1\<lparr>re_match := re_match e\<rparr>))"
    unfolding match_lines_def foldl_append
    by (simp add: step_ip [OF ok(3)] step_ip6 [OF ok(4)] step_mcomm [OF ok(5)] step_mmetric [OF b(1)] step_mtag [OF b(2)]
        bare_entry_def no_match_def del: append.simps)
  have s: "foldl parse_line (out, Some (name, ?e1\<lparr>re_match := re_match e\<rparr>)) (set_lines (re_set e)) = (out, Some (name, entry_doc e))"
    unfolding set_lines_def foldl_append
    by (simp add: step_pref [OF b(3)] step_smetric [OF b(4)] step_scomm step_path step_hop [OF ok(6)] step_origin [OF ok(7)]
        step_stag [OF b(5)] bare_entry_def no_set_def entry_doc_def del: append.simps)
  have x: "parse_line (out, Some (name, entry_doc e)) ''exit'' = finish (out, Some (name, entry_doc e))"
    by (simp add: parse_line_def trim_def trim_start_def trim_end_def is_space_def byte_def)
  have d: "re_description (bare_entry e) = None" by (simp add: bare_entry_def)
  show ?thesis
    unfolding entry_lines_def foldl_append
    by (simp only: foldl.simps parse_header [OF assms(1,2)] step_desc [OF d] m s x) (simp add: finish_def)
qed

lemma parse_entries:
  assumes "token name" "\<forall>e\<in>set es. check_entry e = Inr () \<and> typed_entry e"
  shows "foldl parse_line (out, None) (concat (map (entry_lines name) es))
    = (out\<lparr>route_maps := foldl (\<lambda>ms e. push_entry name (entry_doc e) ms) (route_maps out) es\<rparr>, None)"
  using assms(2)
proof (induction es arbitrary: out)
  case (Cons e es)
  then have e: "check_entry e = Inr ()" "typed_entry e" by auto
  from Cons show ?case by (simp add: parse_entry [OF assms(1) e])
qed simp

lemma push_entries: "foldl (\<lambda>ms e. push_entry name (entry_doc e) ms) [\<lparr>rm_name = name, rm_entries = xs\<rparr>] es
    = [\<lparr>rm_name = name, rm_entries = xs @ map entry_doc es\<rparr>]"
  by (induction es arbitrary: xs) simp_all

end
