(* ===== verification/PolicyProps.thy ===== *)
theory PolicyProps
  imports PolicyLaws MemPlatform
begin

text \<open>
  The properties of routing policy: what is sent to FRR is what is read back, deletions are guarded by the
  references, and no command line carries anything but printable text.
\<close>

section \<open>Round trips\<close>

lemma parse_rule_text:
  assumes "valid_name name" "name \<noteq> ''ge''" "name \<noteq> ''le''" "family_keyword family = Inr kw" "rules \<noteq> []"
    "check_seqs (check_prefix_rule family) pr_seq [] rules = Inr ()" "\<forall>r\<in>set rules. typed_rule r"
    "map trim (lines text) = map trim (map (rule_line kw name) rules)"
  shows "parse_running_config text =
     empty_running\<lparr>prefix_lists := [\<lparr>pl_name = name, pl_family = family, pl_rules = rules\<rparr>]\<rparr>"
proof -
  have "foldl parse_line (empty_running, None) (lines text) = foldl parse_line (empty_running, None) (map (rule_line kw name) rules)"
    using foldl_parse_trim assms(8) by metis
  also have "\<dots> = (empty_running\<lparr>prefix_lists := foldl (\<lambda>ls r. push_rule name family r ls) [] rules\<rparr>, None)"
    using parse_rule_lines [OF token_name [OF assms(1)] assms(2-4), of rules empty_running] assms(6,7)
    by (simp add: check_seqs_ok empty_running_def)
  also have "foldl (\<lambda>ls r. push_rule name family r ls) [] rules = [\<lparr>pl_name = name, pl_family = family, pl_rules = rules\<rparr>]"
    using assms(5) push_rules by (cases rules) simp_all
  finally show ?thesis by (simp add: parse_running_config_def finish_def)
qed


definition demo_rules :: "prefix_rule list" where
  "demo_rules = [\<lparr>pr_seq = 5, pr_action = ''permit'', pr_prefix = ''10.0.0.0/8'', pr_ge = Some 16, pr_le = None\<rparr>]"

definition demo_rule_text :: string where
  "demo_rule_text = '' ip prefix-list LAN seq 5 permit 10.0.0.0/8 ge 16'' @ [char_of (10::nat)]"

lemma demo_rule_lines: "map trim (lines demo_rule_text) = map trim (map (rule_line ''ip'' ''LAN'') demo_rules)"
  by (simp add: demo_rule_text_def demo_rules_def rule_line_def opt_text_def lines_def show_nat.simps run)

lemma demo_rules_ok: "check_seqs (check_prefix_rule ''ipv4'') pr_seq [] demo_rules = Inr ()"
  by (simp add: demo_rules_def check_prefix_rule_def check_action_def check_bound_def parse_uint_def digits_val_def ip_run run)


text \<open>
  C23. What a PUT of a route map sends to FRR is what is read back: for every set of entries that passes validation, the
  text of the commands, indented as one likes, parses to one route map with
  exactly these entries in their order. Descriptions lose the white space around them, community and AS path
  strings have it collapsed; a string of white space only is read back as absent.
\<close>

theorem policy_route_map_roundtrip:
  assumes "valid_name name" "es \<noteq> []" "check_seqs check_entry re_seq [] es = Inr ()" "\<forall>e\<in>set es. typed_entry e"
    "map trim (lines text) = map trim (concat (map (entry_lines name) es))"
  shows "parse_running_config text =
     empty_running\<lparr>route_maps := [\<lparr>rm_name = name, rm_entries = map entry_doc es\<rparr>]\<rparr>"
proof -
  have "foldl parse_line (empty_running, None) (lines text)
      = foldl parse_line (empty_running, None) (concat (map (entry_lines name) es))"
    using foldl_parse_trim assms(5) by metis
  also have "\<dots> = (empty_running\<lparr>route_maps := foldl (\<lambda>ms e. push_entry name (entry_doc e) ms) [] es\<rparr>, None)"
    using parse_entries [OF token_name [OF assms(1)], of es empty_running] assms(3,4)
    by (simp add: check_seqs_ok empty_running_def)
  also have "foldl (\<lambda>ms e. push_entry name (entry_doc e) ms) [] es = [\<lparr>rm_name = name, rm_entries = map entry_doc es\<rparr>]"
    using assms(2) push_entries by (cases es) simp_all
  finally show ?thesis by (simp add: parse_running_config_def finish_def)
qed

definition demo_entry :: rm_entry where
  "demo_entry = \<lparr>re_seq = 10, re_action = ''permit'', re_description = Some '' in '',
     re_match = no_match\<lparr>mc_ip_prefix_list := Some ''LAN''\<rparr>,
     re_set = no_set\<lparr>sc_local_preference := Some 200, sc_community := Some ''65000:1  65000:2''\<rparr>\<rparr>"

definition demo_map_text :: string where
  "demo_map_text = join [char_of (10::nat)] (entry_lines ''RM'' demo_entry)"

lemma demo_map_lines: "map trim (lines demo_map_text) = map trim (concat (map (entry_lines ''RM'') [demo_entry]))"
  by (simp add: demo_map_text_def demo_entry_def entry_lines_def match_lines_def set_lines_def no_match_def no_set_def
      opt_line_def lines_def show_nat.simps run)

lemma demo_entry_ok: "check_seqs check_entry re_seq [] [demo_entry] = Inr ()"
  by (simp add: demo_entry_def check_entry_def check_action_def check_opt_def check_ref_def check_text_def valid_name_def
      no_match_def no_set_def run)

theorem policy_route_map_roundtrip_witness:
  "route_maps (parse_running_config demo_map_text) = [\<lparr>rm_name = ''RM'', rm_entries = [entry_doc demo_entry]\<rparr>]"
proof -
  have "valid_name ''RM''" by (simp add: valid_name_def run)
  moreover have "\<forall>e\<in>set [demo_entry]. typed_entry e"
    by (simp add: typed_entry_def demo_entry_def no_match_def no_set_def)
  ultimately have "parse_running_config demo_map_text =
     empty_running\<lparr>route_maps := [\<lparr>rm_name = ''RM'', rm_entries = map entry_doc [demo_entry]\<rparr>]\<rparr>"
    using policy_route_map_roundtrip [OF _ _ demo_entry_ok _ demo_map_lines] by blast
  then show ?thesis by simp
qed

text \<open>
  A prefix list named \<open>le\<close> passes validation, but its upper bounds are lost on the way back: the parser takes the
  name for the keyword.
\<close>

lemma policy_le_name:
  "valid_name ''le'' \<and> map (map pr_le \<circ> pl_rules) (parse_prefix_line ''ipv4'' ''le seq 5 permit 10.0.0.0/8 le 24'' []) = [[None]]"
  by (simp add: valid_name_def parse_prefix_line_def words.simps parse_uint_def digits_val_def run)

section \<open>Command lines\<close>

definition plain_text :: "string \<Rightarrow> bool" where
  "plain_text s \<longleftrightarrow> list_all (\<lambda>c. 32 \<le> byte c \<and> byte c < 127 \<and> byte c \<noteq> 34) s"

lemma plain_append [simp]: "plain_text (a @ b) \<longleftrightarrow> plain_text a \<and> plain_text b"
  by (simp add: plain_text_def)

lemma plain_text_Nil [simp]: "plain_text []"
  by (simp add: plain_text_def)

lemma plain_Cons [simp]: "plain_text (c # s) \<longleftrightarrow> 32 \<le> byte c \<and> byte c < 127 \<and> byte c \<noteq> 34 \<and> plain_text s"
  by (simp add: plain_text_def)

lemma plain_name: "valid_name n \<Longrightarrow> plain_text n"
  by (auto simp: valid_name_def plain_text_def list_all_iff char_class_defs dest!: bspec)

lemma plain_digits: "\<forall>c\<in>set s. is_digit c \<Longrightarrow> plain_text s"
  by (auto simp: plain_text_def list_all_iff is_digit_def)

lemma plain_nat [simp]: "plain_text (show_nat n)"
  by (rule plain_digits) (rule show_nat_digits)

lemma plain_ip: "parse_ip s = Some a \<Longrightarrow> plain_text s"
  using parse_ip_chars [of s a] by (fastforce simp: plain_text_def list_all_iff ip_char_def char_class_defs)

lemma plain_num: "parse_uint b s = Some n \<Longrightarrow> plain_text s"
  using parse_uint_chars [of b s n] by (fastforce simp: plain_text_def list_all_iff is_digit_def byte_def)

lemma plain_check: "check_text what s mx = Inr u \<Longrightarrow> plain_text s"
  by (simp add: check_text_def plain_text_def split: if_splits)

lemma plain_rule:
  assumes "check_prefix_rule family r = Inr u" "valid_name name" "family_keyword family = Inr kw"
  shows "plain_text (rule_line kw name r)"
proof -
  obtain ip len a n where p: "split_once (CHR ''/'') (pr_prefix r) = Some (ip, len)" "parse_ip ip = Some a"
      "parse_uint 32 len = Some n"
    using assms(1) by (auto simp: check_prefix_rule_def Let_def split: prod.splits)
  then have s: "pr_prefix r = ip @ CHR ''/'' # len" by (simp add: split_once_Some)
  have "plain_text (pr_prefix r)" using plain_ip [OF p(2)] plain_num [OF p(3)] by (simp add: s byte_def)
  moreover have "plain_text (pr_action r)" using check_prefix_rule_ok(1) [OF assms(1)] by (auto simp: byte_def)
  moreover have "plain_text kw" using assms(3) by (auto simp: family_keyword_def byte_def split: if_splits)
  ultimately show ?thesis
    using plain_name [OF assms(2)]
    by (cases "pr_ge r"; cases "pr_le r") (simp_all add: rule_line_def opt_text_def byte_def)
qed

lemma plain_opt_line: "l \<in> set (opt_line pre v) \<Longrightarrow> plain_text pre \<Longrightarrow> (\<And>x. v = Some x \<Longrightarrow> plain_text x) \<Longrightarrow> plain_text l"
  by (cases v) (auto simp: opt_line_def)

lemma plain_entry:
  assumes "check_entry e = Inr u" "valid_name name" "l \<in> set (entry_lines name e)"
  shows "plain_text l"
proof -
  have t: "plain_text x" if "re_description e = Some x \<or> sc_community (re_set e) = Some x \<or> sc_as_path_prepend (re_set e) = Some x" for x
    using assms(1) that by (auto simp: check_entry_def Let_def check_opt_def intro: plain_check)
  have n: "plain_text x" if "mc_ip_prefix_list (re_match e) = Some x \<or> mc_ipv6_prefix_list (re_match e) = Some x
      \<or> mc_community (re_match e) = Some x" for x
    using assms(1) that by (auto simp: check_entry_def Let_def check_opt_def check_ref_def intro: plain_name)
  have h: "plain_text x" if "sc_ip_next_hop (re_set e) = Some x" for x
    using assms(1) that by (auto simp: check_entry_def Let_def check_opt_def intro: plain_ip)
  have o: "plain_text x" if "sc_origin (re_set e) = Some x" for x
    using check_entry_ok(7) [OF assms(1)] that by (auto simp: byte_def)
  have a: "plain_text (re_action e)" using check_entry_ok(2) [OF assms(1)] by (auto simp: byte_def)
  from assms(3) consider "l = ''route-map '' @ name @ '' '' @ re_action e @ '' '' @ show_nat (re_seq e)"
    | "l \<in> set (opt_line ''description '' (re_description e))" | "l \<in> set (match_lines (re_match e))"
    | "l \<in> set (set_lines (re_set e))" | "l = ''exit''"
    by (auto simp: entry_lines_def)
  then show ?thesis
  proof cases
    case 1
    with a plain_name [OF assms(2)] show ?thesis by (simp add: byte_def)
  next
    case 2
    then show ?thesis by (rule plain_opt_line) (use t in \<open>auto simp: byte_def\<close>)
  next
    case 3
    then show ?thesis
      unfolding match_lines_def set_append Un_iff
      by (elim disjE; elim plain_opt_line) (use n in \<open>auto simp: byte_def\<close>)
  next
    case 4
    then show ?thesis
      unfolding set_lines_def set_append Un_iff
      by (elim disjE; elim plain_opt_line) (use t h o in \<open>auto simp: byte_def\<close>)
  qed (simp add: byte_def)
qed

text \<open>
  C25. Nothing a client sends reaches vtysh as more than the arguments of the intended command: every command line made
  from a request that passed validation consists of printable ASCII without quotes, so without line breaks.
\<close>

theorem policy_lines_plain:
  assumes "valid_name name" "check_seqs check_entry re_seq [] es = Inr ()"
    "family_keyword family = Inr kw" "check_seqs (check_prefix_rule family) pr_seq [] rules = Inr ()"
  shows "list_all plain_text (route_map_lines r name es @ prefix_list_lines r kw name rules)"
proof -
  have "plain_text l" if "l \<in> set (route_map_lines r name es)" for l
    using that assms(1,2) plain_entry [OF _ assms(1)] plain_name [OF assms(1)]
    by (auto simp: route_map_lines_def check_seqs_ok byte_def split: if_splits)
  moreover have "plain_text l" if "l \<in> set (prefix_list_lines r kw name rules)" for l
    using that plain_rule [OF _ assms(1,3)] plain_name [OF assms(1)] assms(4)
    by (auto simp: prefix_list_lines_def check_seqs_ok family_kw_def byte_def split: option.splits)
  ultimately show ?thesis by (auto simp: list_all_iff)
qed

theorem policy_lines_plain_witness:
  "list_all plain_text (route_map_lines empty_running ''LAN'' [demo_entry] @ prefix_list_lines empty_running ''ip'' ''LAN'' demo_rules)"
proof (rule policy_lines_plain [OF _ demo_entry_ok _ demo_rules_ok])
  show "valid_name ''LAN''" by (simp add: valid_name_def run)
qed (simp add: family_keyword_def)

section \<open>Deletion\<close>

lemma bnd_okE:
  assumes "bnd m f s = (Inr y, s')"
  obtains x s1 where "m s = (Inr x, s1)" "f x s1 = (Inr y, s')"
  using assms by (auto simp: bnd_def split: prod.splits sum.splits)

lemma guard_okE: "guard b e s = (Inr y, s') \<Longrightarrow> b \<and> s' = s"
  by (simp add: guard_def ret_def fail_def split: if_splits)

lemma map_err_ok [simp]: "map_err g m s = (Inr y, s') \<longleftrightarrow> m s = (Inr y, s')"
  by (auto simp: map_err_def split: prod.splits sum.splits)

lemma vtysh_config_ok:
  assumes "vtysh_config P p ls s = (Inr u, s')"
  shows "\<exists>out s1. run_cmd P ''vtysh'' (c_args (''configure terminal'' # ls)) s = (Inr out, s1) \<and> co_ok out"
  using assms unfolding vtysh_config_def
  by (elim bnd_okE) (auto simp: fail_def split: if_splits)

lemma policy_running_ok:
  assumes "policy_running_of P s = (Inr r, s')"
  shows "\<exists>out. run_cmd P ''vtysh'' [''-c'', ''show running-config''] s = (Inr out, s') \<and> co_ok out \<and> r = parse_running_config (co_stdout out)"
  using assms unfolding policy_running_of_def map_err_ok running_config_def
  by (elim bnd_okE) (auto simp: fail_def ret_def split: if_splits)

text \<open>
  A prefix list is deleted only while no route map matches on it: when the deletion succeeds, FRR had answered with
  a running configuration that has the list and no route-map entry matching it, and the batch that removes the list of
  that family was accepted.
\<close>

lemma policy_delete_guarded:
  assumes "delete_prefix_list P name s = (Inr u, s')"
  shows "\<exists>s1 s2 s3 out l done. run_cmd P ''vtysh'' [''-c'', ''show running-config''] s1 = (Inr out, s2) \<and> co_ok out \<and>
     find_prefix_list (parse_running_config (co_stdout out)) name = Some l \<and>
     (\<forall>m\<in>set (route_maps (parse_running_config (co_stdout out))). \<forall>e\<in>set (rm_entries m).
        mc_ip_prefix_list (re_match e) \<noteq> Some name \<and> mc_ipv6_prefix_list (re_match e) \<noteq> Some name) \<and>
     run_cmd P ''vtysh'' (c_args [''configure terminal'', ''no '' @ family_kw l @ '' prefix-list '' @ name]) s2 = (Inr done, s3)
     \<and> co_ok done"
proof -
  from assms obtain p s0 s1 r s2 where r: "policy_running_of P s1 = (Inr r, s2)"
    and k: "(case find_prefix_list r name of
       None \<Rightarrow> fail (NotFound (''no such prefix list '' @ name))
     | Some l \<Rightarrow>
         let users = map rm_name (filter (matches_list name) (route_maps r)) in
         bnd (guard (users = []) (Conflict (''prefix list '' @ name
           @ '' is still referenced by route map(s): '' @ join '', '' users))) (\<lambda>_.
         vtysh_config P p [''no '' @ family_kw l @ '' prefix-list '' @ name])) s2 = (Inr u, s')"
    unfolding delete_prefix_list_def by (elim bnd_okE)
  obtain l where l: "find_prefix_list r name = Some l" using k by (cases "find_prefix_list r name") (auto simp: fail_def)
  from k obtain s3 where g: "filter (matches_list name) (route_maps r) = []"
    and v: "vtysh_config P p [''no '' @ family_kw l @ '' prefix-list '' @ name] s2 = (Inr u, s')"
    unfolding l option.case Let_def by (elim bnd_okE) (auto dest!: guard_okE)
  from g have "\<forall>m\<in>set (route_maps r). \<forall>e\<in>set (rm_entries m).
        mc_ip_prefix_list (re_match e) \<noteq> Some name \<and> mc_ipv6_prefix_list (re_match e) \<noteq> Some name"
    by (auto simp: filter_empty_conv matches_list_def list_ex_iff)
  with policy_running_ok [OF r] vtysh_config_ok [OF v] l show ?thesis by blast
qed

definition demo_policy :: mem where
  "demo_policy = mem_on_cmd [''vtysh'', ''-c'', ''show running-config''] \<lparr>co_ok = True, co_stdout = demo_rule_text, co_stderr = []\<rparr>
     (mem_seed CONFIG_DB ''FEATURE|bgp'' [(''state'', ''enabled'')] mem_new)"

lemma demo_running: "parse_running_config demo_rule_text =
     empty_running\<lparr>prefix_lists := [\<lparr>pl_name = ''LAN'', pl_family = ''ipv4'', pl_rules = demo_rules\<rparr>]\<rparr>"
proof (rule parse_rule_text [OF _ _ _ _ _ demo_rules_ok _ demo_rule_lines])
  show "valid_name ''LAN''" by (simp add: valid_name_def run)
  show "\<forall>r\<in>set demo_rules. typed_rule r" by (simp add: demo_rules_def typed_rule_def)
qed (simp_all add: demo_rules_def family_keyword_def)

lemma demo_policy_current: "\<exists>p s'. current mem_platform demo_policy = (Inr p, s') \<and> bgp_available p \<and> m_outputs s' = m_outputs demo_policy"
  by (simp add: current_def gather_def io_of_def demo_policy_def feature_entry_def command_lines_def mem_read_file_def mem_run_def
    mem_on_cmd_def ok_output_def assemble_def bgp_available_def has_feature_def run)

lemma demo_delete: "\<exists>s'. delete_prefix_list mem_platform ''LAN'' demo_policy = (Inr (), s')"
proof -
  obtain p s1 where c: "(current mem_platform :: (mem, write_error, probe) io) demo_policy = (Inr p, s1)" "bgp_available p"
    "m_outputs s1 = m_outputs demo_policy"
    using demo_policy_current by blast
  have o: "m_outputs demo_policy = [([''vtysh'', ''-c'', ''show running-config''],
      \<lparr>co_ok = True, co_stdout = demo_rule_text, co_stderr = []\<rparr>)]"
    by (simp add: demo_policy_def mem_on_cmd_def run)
  have n: "valid_name ''LAN''" by (simp add: valid_name_def run)
  show ?thesis
    by (simp add: delete_prefix_list_def policy_require_def policy_running_of_def running_config_def vtysh_config_def c_args_def
        find_prefix_list_def mem_run_def ok_output_def demo_running empty_running_def c n o run)
qed

text \<open>
  A name can stand for an IPv4 and an IPv6 list. A PUT of one family looks up the first list of that name, so
  it deletes the other family's list and adds its rules to those of the list it means to replace.
\<close>

lemma policy_put_other_family:
  "prefix_list_lines \<lparr>prefix_lists = [\<lparr>pl_name = ''L'', pl_family = ''ipv4'', pl_rules = []\<rparr>,
       \<lparr>pl_name = ''L'', pl_family = ''ipv6'', pl_rules = []\<rparr>], route_maps = [], route_map_refs = []\<rparr> ''ipv6'' ''L'' rules
   = ''no ip prefix-list L'' # map (rule_line ''ipv6'' ''L'') rules"
  by (simp add: prefix_list_lines_def find_prefix_list_def family_kw_def)

end
