(* ===== verification/Qos.thy ===== *)
theory Qos
  imports Policy
begin

text \<open>
  QoS classification, \<^verbatim>\<open>src/src/sonic/qos.rs\<close>: DSCP-to-TC maps and the trust of each port.
\<close>

definition map_ref_name :: "string \<Rightarrow> string" where
  "map_ref_name v = (case strip_prefix ''[DSCP_TO_TC_MAP|'' v of
       Some s \<Rightarrow> if s \<noteq> [] \<and> last s = CHR '']'' then butlast s else v
     | None \<Rightarrow> v)"

text \<open>Split at the first digit; the rest as a number, 0 when it is none.\<close>

definition port_key :: "string \<Rightarrow> string \<times> nat" where
  "port_key name = (takeWhile (\<lambda>c. \<not> is_digit c) name,
     opt_or (parse_uint 64 (dropWhile (\<lambda>c. \<not> is_digit c) name)) 0)"

definition by_port :: "('a \<Rightarrow> string) \<Rightarrow> 'a \<Rightarrow> 'a \<Rightarrow> ordering" where
  "by_port f a b = cmp (port_key (f a)) (port_key (f b))"

section \<open>Reading\<close>

text \<open>Port to map name, for the ports that have a binding.\<close>

definition binding_of :: "'s platform \<Rightarrow> string \<Rightarrow> ('s, 'e, (string \<times> string) option) io" where
  "binding_of P key = (case key_suffix key ''PORT_QOS_MAP|'' of
       None \<Rightarrow> ret None
     | Some port \<Rightarrow> bnd (row_of P CONFIG_DB key) (\<lambda>r.
         ret (map_option (\<lambda>m. (port, map_ref_name m)) (field r ''dscp_to_tc_map''))))"

definition bindings :: "'s platform \<Rightarrow> ('s, 'e, (string \<times> string) list) io" where
  "bindings P =
     bnd (keys_of P CONFIG_DB ''PORT_QOS_MAP|*'') (\<lambda>ks.
     bnd (collect (binding_of P) ks) (\<lambda>xs. ret (al_puts (List.map_filter id xs) [])))"

definition bound_ports :: "(string \<times> string) list \<Rightarrow> string \<Rightarrow> string list" where
  "bound_ports bound name = sort_by (by_port id) (map fst (filter (\<lambda>(_, m). m = name) bound))"

definition map_entries :: "row \<Rightarrow> (nat \<times> nat) list" where
  "map_entries cfg = sort (List.map_filter (\<lambda>(d, t).
     Option.bind (parse_uint 32 (trim d)) (\<lambda>d. Option.bind (parse_uint 32 (trim t)) (\<lambda>t. Some (d, t)))) cfg)"

record qos_map_doc =
  qm_name :: string
  qm_entries :: "(nat \<times> nat) list"
  qm_bound :: "string list"

record qos_port_doc =
  qp_name :: string
  qp_alias :: "string option"
  qp_map :: "string option"

definition qos_map_of :: "'s platform \<Rightarrow> (string \<times> string) list \<Rightarrow> string \<Rightarrow> ('s, 'e, qos_map_doc option) io" where
  "qos_map_of P bound key = (case key_suffix key ''DSCP_TO_TC_MAP|'' of
       None \<Rightarrow> ret None
     | Some name \<Rightarrow> bnd (row_of P CONFIG_DB key) (\<lambda>cfg.
         ret (Some \<lparr>qm_name = name, qm_entries = map_entries cfg, qm_bound = bound_ports bound name\<rparr>)))"

definition qos_port_of :: "'s platform \<Rightarrow> (string \<times> string) list \<Rightarrow> string \<Rightarrow> ('s, 'e, qos_port_doc option) io" where
  "qos_port_of P bound key = (case key_suffix key ''PORT|'' of
       None \<Rightarrow> ret None
     | Some name \<Rightarrow> bnd (row_of P CONFIG_DB key) (\<lambda>cfg.
         ret (Some \<lparr>qp_name = name, qp_alias = field cfg ''alias'', qp_map = map_of bound name\<rparr>)))"

definition qos_map_json :: "qos_map_doc \<Rightarrow> json" where
  "qos_map_json m = JObj [(''name'', JStr (qm_name m)),
     (''entries'', JArr (map (\<lambda>(d, t). JObj [(''dscp'', JNum d), (''tc'', JNum t)]) (qm_entries m))),
     (''bound_ports'', jstrs (qm_bound m))]"

definition qos_port_json :: "qos_port_doc \<Rightarrow> json" where
  "qos_port_json p = JObj [(''name'', JStr (qp_name p)), (''alias'', jopt JStr (qp_alias p)),
     (''trust'', JStr (if qp_map p \<noteq> None then ''dscp'' else ''none'')), (''dscp_to_tc_map'', jopt JStr (qp_map p))]"

definition qos_get :: "'s platform \<Rightarrow> ('s, string, json) io" where
  "qos_get P =
     bnd (bindings P) (\<lambda>bound.
     bnd (keys_of P CONFIG_DB ''DSCP_TO_TC_MAP|*'') (\<lambda>mks.
     bnd (collect (qos_map_of P bound) mks) (\<lambda>ms.
     bnd (keys_of P CONFIG_DB ''PORT|*'') (\<lambda>pks.
     bnd (collect (qos_port_of P bound) pks) (\<lambda>ps.
     ret (JObj [(''capability'', cap_json cap_yes),
       (''dscp_tc_maps'', JArr (map qos_map_json (sort_by (\<lambda>a b. cmp (qm_name a) (qm_name b)) (List.map_filter id ms)))),
       (''ports'', JArr (map qos_port_json (sort_by (by_port qp_name) (List.map_filter id ps))))]))))))"

section \<open>Writing\<close>

record qos_entry =
  qe_dscp :: nat
  qe_tc :: nat

definition check_map_name :: "string \<Rightarrow> string + unit" where
  "check_map_name name = check (name \<noteq> [] \<and> length name \<le> 63 \<and> list_all (\<lambda>c. is_alnum c \<or> c \<in> set ''-_.'') name)
     (''invalid DSCP map name '' @ dbg name)"

fun check_qos_entries :: "nat list \<Rightarrow> qos_entry list \<Rightarrow> string + unit" where
  "check_qos_entries seen [] = Inr ()"
| "check_qos_entries seen (e # es) =
     (if qe_dscp e > 63 then Inl (''invalid dscp '' @ show_nat (qe_dscp e) @ '' (must be 0-63)'')
      else if qe_tc e > 7 then Inl (''invalid tc '' @ show_nat (qe_tc e) @ '' (must be 0-7)'')
      else if qe_dscp e \<in> set seen then Inl (''dscp '' @ show_nat (qe_dscp e) @ '' appears twice'')
      else check_qos_entries (qe_dscp e # seen) es)"

definition entry_fields :: "qos_entry list \<Rightarrow> row" where
  "entry_fields es = map (\<lambda>e. (show_nat (qe_dscp e), show_nat (qe_tc e))) es"

definition put_dscp_map :: "'s platform \<Rightarrow> string \<Rightarrow> qos_entry list \<Rightarrow> ('s, unit) handler" where
  "put_dscp_map P name es =
     bnd (lift (smap_err BadRequest (check_map_name name))) (\<lambda>_.
     bnd (guard (es \<noteq> []) (BadRequest ''a DSCP map needs at least one entry'')) (\<lambda>_.
     bnd (lift (smap_err BadRequest (check_qos_entries [] es))) (\<lambda>_.
     bnd (map_err Redis (del P CONFIG_DB (''DSCP_TO_TC_MAP|'' @ name))) (\<lambda>_.
     map_err Redis (hset P CONFIG_DB (''DSCP_TO_TC_MAP|'' @ name) (entry_fields es))))))"

definition delete_dscp_map :: "'s platform \<Rightarrow> string \<Rightarrow> ('s, unit) handler" where
  "delete_dscp_map P name =
     bnd (map_err Redis (exists P CONFIG_DB (''DSCP_TO_TC_MAP|'' @ name))) (\<lambda>e.
     bnd (guard e (NotFound (''no such DSCP map '' @ name))) (\<lambda>_.
     bnd (bindings P) (\<lambda>bound.
     bnd (guard (bound_ports bound name = []) (Conflict (''DSCP map '' @ name @ '' is bound to port(s) ''
       @ join '', '' (bound_ports bound name) @ ''; set their trust to none first''))) (\<lambda>_.
     map_err Redis (del P CONFIG_DB (''DSCP_TO_TC_MAP|'' @ name))))))"

datatype trust_mode = Dscp | NoTrust

record qos_port_input =
  qi_trust :: trust_mode
  qi_map :: "string option"

definition put_qos_port :: "'s platform \<Rightarrow> string \<Rightarrow> qos_port_input \<Rightarrow> ('s, unit) handler" where
  "put_qos_port P port i =
     bnd (map_err Redis (exists P CONFIG_DB (''PORT|'' @ port))) (\<lambda>e.
     bnd (guard e (NotFound (''no such port '' @ port))) (\<lambda>_.
     case qi_trust i of
       Dscp \<Rightarrow>
         (case qi_map i of
            None \<Rightarrow> fail (BadRequest ''trust \"dscp\" requires dscp_to_tc_map'')
          | Some m \<Rightarrow>
              bnd (guard (m \<noteq> []) (BadRequest ''trust \"dscp\" requires dscp_to_tc_map'')) (\<lambda>_.
              bnd (map_err Redis (exists P CONFIG_DB (''DSCP_TO_TC_MAP|'' @ m))) (\<lambda>x.
              bnd (guard x (BadRequest (''no such DSCP map '' @ m))) (\<lambda>_.
              map_err Redis (hset P CONFIG_DB (''PORT_QOS_MAP|'' @ port) [(''dscp_to_tc_map'', m)])))))
     | NoTrust \<Rightarrow>
         bnd (guard (qi_map i = None) (BadRequest ''trust \"none\" does not take a dscp_to_tc_map'')) (\<lambda>_.
         map_err Redis (hdel P CONFIG_DB (''PORT_QOS_MAP|'' @ port) [''dscp_to_tc_map'']))))"

end
