(* ===== verification/QosProps.thy ===== *)
theory QosProps
  imports Qos PolicyLaws MemPlatform "HOL-Library.Multiset"
begin

text \<open>
  Properties of QoS classification: port bindings never dangle while writes succeed, and a map is read back as
  it was written.
\<close>

section \<open>The bindings\<close>

definition port_binding :: "dbs \<Rightarrow> string \<Rightarrow> string option" where
  "port_binding v port = (if port = [] then None
     else map_option map_ref_name (mfield (v CONFIG_DB (''PORT_QOS_MAP|'' @ port)) ''dscp_to_tc_map''))"

definition map_row :: "dbs \<Rightarrow> string \<Rightarrow> (string \<rightharpoonup> string)" where
  "map_row v name = v CONFIG_DB (''DSCP_TO_TC_MAP|'' @ name)"

text \<open>Every map has a legal name and every port that trusts DSCP is bound to a map that exists.\<close>

definition qos_ok :: "dbs \<Rightarrow> bool" where
  "qos_ok v \<longleftrightarrow> (\<forall>name. map_row v name \<noteq> Map.empty \<longrightarrow> check_map_name name = Inr ())
     \<and> (\<forall>port m. port_binding v port = Some m \<longrightarrow> map_row v m \<noteq> Map.empty)"

lemma mfield_empty [simp]: "mfield Map.empty f = None"
  by (simp add: mfield_def)

context readable_store
begin

lemma wp_bindings:
  assumes "ok s" "\<And>b s'. ok s' \<Longrightarrow> view s' = view s \<Longrightarrow> distinct (map fst b) \<Longrightarrow> map_of b = port_binding (view s) \<Longrightarrow> Q b s'"
  shows "wp (bindings P) Q E s"
  unfolding bindings_def
proof (intro wp_bnd wp_keys_of_prefix [where pre = "''PORT_QOS_MAP|''", simplified append.simps] assms(1))
  show "CHR ''*'' \<notin> set ''PORT_QOS_MAP|''" "plain_glob ''PORT_QOS_MAP|''" by simp_all
next
  fix ks s1
  assume s1: "ok s1" "view s1 = view s" and ks: "set ks = {k. view s CONFIG_DB k \<noteq> Map.empty \<and> starts_with ''PORT_QOS_MAP|'' k}"
  define g where "g = (\<lambda>key. Option.bind (key_suffix key ''PORT_QOS_MAP|'') (\<lambda>port.
     map_option (\<lambda>m. (port, m)) (port_binding (view s) port)))"
  let ?l = "List.map_filter id (map g ks)"
  have m: "(p, m) \<in> set (rev ?l) \<longleftrightarrow> port_binding (view s) p = Some m" for p m
  proof
    assume "(p, m) \<in> set (rev ?l)"
    then show "port_binding (view s) p = Some m"
      by (auto simp: set_map_filter_iff g_def bind_eq_Some_conv dest!: sym [of "Some _"])
  next
    assume b: "port_binding (view s) p = Some m"
    then have p: "p \<noteq> []" "view s CONFIG_DB (''PORT_QOS_MAP|'' @ p) \<noteq> Map.empty"
      by (auto simp: port_binding_def split: if_splits)
    have "''PORT_QOS_MAP|'' @ p \<in> set ks" unfolding ks using p(2) by (simp add: starts_with_iff)
    moreover have "g (''PORT_QOS_MAP|'' @ p) = Some (p, m)"
      using b p(1) key_suffix_Some [of "''PORT_QOS_MAP|'' @ p" "''PORT_QOS_MAP|''" p] by (simp add: g_def del: append.simps)
    ultimately show "(p, m) \<in> set (rev ?l)"
      unfolding set_rev set_map_filter_iff set_map mem_Collect_eq id_apply by (metis image_eqI)
  qed
  show "wp (collect (binding_of P) ks) (\<lambda>xs. wp (ret (al_puts (List.map_filter id xs) [])) Q E) E s1"
  proof (rule wp_collect_view [OF s1(1), where g = g])
    fix x t R assume t: "ok t" "view t = view s1" and R: "\<And>t'. ok t' \<Longrightarrow> view t' = view s1 \<Longrightarrow> R (g x) t'"
    show "wp (binding_of P x) R E t"
    proof (cases "key_suffix x ''PORT_QOS_MAP|''")
      case None
      with R [OF t] show ?thesis by (simp add: binding_of_def g_def wp_ret)
    next
      case (Some port)
      then have x: "x = ''PORT_QOS_MAP|'' @ port" "port \<noteq> []" by (simp_all add: key_suffix_Some)
      show ?thesis
        unfolding binding_of_def Some option.case
      proof (intro wp_bnd wp_row_of_live [OF t(1)] wp_ret)
        fix r t' assume t': "ok t'" "view t' = view t" "map_of r = view t CONFIG_DB x"
        then have "map_option (\<lambda>m. (port, map_ref_name m)) (field r ''dscp_to_tc_map'') = g x"
        proof -
          have "g x = map_option (\<lambda>m. (port, m)) (port_binding (view s) port)" unfolding g_def Some by simp
          also have "port_binding (view s) port = map_option map_ref_name (mfield (view s CONFIG_DB x) ''dscp_to_tc_map'')"
            unfolding port_binding_def x(1) using x(2) by simp
          finally show ?thesis using t' t s1 by (simp add: field_map option.map_comp comp_def)
        qed
        with R [of t'] t t' show "R (map_option (\<lambda>m. (port, map_ref_name m)) (field r ''dscp_to_tc_map'')) t'" by simp
      qed
    qed
  next
    fix t assume t: "ok t" "view t = view s1"
    have "map_of (rev ?l) = port_binding (view s)" by (rule map_of_functional) (rule m)
    then show "wp (ret (al_puts ?l [])) Q E t"
      using t s1 by (intro wp_ret assms(2)) (simp_all add: map_of_al_puts)
  qed
qed

lemma put_dscp_map_wp:
  assumes "ok s" "qos_ok (view s)"
  shows "wp (put_dscp_map P name es) (\<lambda>_ s'. ok s' \<and> qos_ok (view s')) (\<lambda>_ s'. ok s') s"
  unfolding put_dscp_map_def
proof (intro wp_bnd wp_lift wp_guard wp_map_err wp_del [OF assms(1)] wp_hset; (assumption | (use assms in simp; fail))?)
  fix u1 u3 s1 s2
  assume n: "smap_err BadRequest (check_map_name name) = Inr u1" and ne: "es \<noteq> []"
    and s: "ok s2" "view s1 = v_del CONFIG_DB (''DSCP_TO_TC_MAP|'' @ name) (view s)"
      "view s2 = v_hset CONFIG_DB (''DSCP_TO_TC_MAP|'' @ name) (entry_fields es) (view s1)"
  have row: "map_row (view s2) m \<noteq> Map.empty \<longleftrightarrow> m = name \<or> map_row (view s) m \<noteq> Map.empty" for m
    using s(2,3) ne by (cases "m = name") (auto simp: map_row_def entry_fields_def map_of_empty_iff)
  have "port_binding (view s2) = port_binding (view s)"
    unfolding s(2,3) port_binding_def by (auto simp: fun_eq_iff)
  with assms(2) n row s(1) show "ok s2 \<and> qos_ok (view s2)" by (auto simp: qos_ok_def)
qed

lemma delete_dscp_map_wp:
  assumes "ok s" "qos_ok (view s)"
  shows "wp (delete_dscp_map P name) (\<lambda>_ s'. ok s' \<and> qos_ok (view s')) (\<lambda>_ s'. ok s' \<and> view s' = view s) s"
  unfolding delete_dscp_map_def
proof (rule wp_bnd, rule wp_map_err, rule wp_exists [OF assms(1)])
  fix e s1 assume s1: "ok s1" "view s1 = view s"
  show "wp (bnd (guard e (NotFound (''no such DSCP map '' @ name))) (\<lambda>_.
     bnd (bindings P) (\<lambda>bound.
     bnd (guard (bound_ports bound name = []) (Conflict (''DSCP map '' @ name @ '' is bound to port(s) ''
       @ join '', '' (bound_ports bound name) @ ''; set their trust to none first''))) (\<lambda>_.
     map_err Redis (del P CONFIG_DB (''DSCP_TO_TC_MAP|'' @ name))))))
     (\<lambda>_ s'. ok s' \<and> qos_ok (view s')) (\<lambda>_ s'. ok s' \<and> view s' = view s) s1"
  proof (intro wp_bnd wp_guard wp_bindings [OF s1(1)] wp_map_err)
    fix b s2
    assume s2: "ok s2" "view s2 = view s1" and d: "distinct (map fst b)" and m: "map_of b = port_binding (view s1)"
      and none: "bound_ports b name = []"
    have "set (bound_ports b name) = fst ` {x \<in> set b. snd x = name}" by (auto simp: bound_ports_def)
    with none have nb: "(p, name) \<notin> set b" for p by force
    then have pb: "port_binding (view s) p \<noteq> Some name" for p using m s1 map_of_SomeD by metis
    show "wp (del P CONFIG_DB (''DSCP_TO_TC_MAP|'' @ name)) (\<lambda>_ s'. ok s' \<and> qos_ok (view s'))
        (\<lambda>e s'. ok s' \<and> view s' = view s) s2"
    proof (rule wp_del [OF s2(1)])
      fix s3 assume s3: "ok s3" "view s3 = v_del CONFIG_DB (''DSCP_TO_TC_MAP|'' @ name) (view s2)"
      have v: "view s3 = v_del CONFIG_DB (''DSCP_TO_TC_MAP|'' @ name) (view s)" using s3 s2 s1 by simp
      have "map_row (view s3) m = (if m = name then Map.empty else map_row (view s) m)" for m
        unfolding v map_row_def by auto
      moreover have "port_binding (view s3) = port_binding (view s)"
        unfolding v port_binding_def by (auto simp: fun_eq_iff)
      ultimately show "ok s3 \<and> qos_ok (view s3)" using s3(1) assms(2) pb by (auto simp: qos_ok_def)
    qed (use s2 s1 in auto)
  qed (use s1 in auto)
qed (use assms in auto)

lemma legal_map_name: "check_map_name m = Inr () \<Longrightarrow> trim m = m \<and> map_ref_name m = m"
proof -
  assume "check_map_name m = Inr ()"
  then have "list_all (\<lambda>c. is_alnum c \<or> c \<in> set ''-_.'') m" by (simp add: check_map_name_def)
  moreover have "\<not> is_space c \<and> c \<noteq> CHR ''[''" if "is_alnum c \<or> c \<in> set ''-_.''" for c
    using that
  proof
    assume "is_alnum c"
    then show ?thesis by (cases "c = CHR ''[''") (auto simp: alnum_not_space is_alnum_def is_upper_def is_lower_def is_digit_def byte_def)
  qed (auto simp: is_space_def byte_def)
  ultimately have a: "\<forall>c\<in>set m. \<not> is_space c \<and> c \<noteq> CHR ''[''" unfolding list_all_iff by blast
  have "strip_prefix ''[DSCP_TO_TC_MAP|'' m = None"
  proof (cases m)
    case (Cons c cs)
    with a have "CHR ''['' \<noteq> c" by force
    with Cons show ?thesis by simp
  qed simp
  moreover have "trim m = m" by (rule trim_id) (use a in blast)
  ultimately show ?thesis by (simp add: map_ref_name_def)
qed

lemma put_qos_port_wp:
  assumes "ok s" "qos_ok (view s)"
  shows "wp (put_qos_port P port i) (\<lambda>_ s'. ok s' \<and> qos_ok (view s')) (\<lambda>_ s'. ok s' \<and> view s' = view s) s"
proof -
  have keep: "qos_ok v'" if v: "\<And>k. \<not> starts_with ''PORT_QOS_MAP|'' k \<Longrightarrow> v' CONFIG_DB k = view s CONFIG_DB k"
    and p: "\<And>q m. port_binding v' q = Some m \<Longrightarrow> map_row (view s) m \<noteq> Map.empty" for v'
  proof -
    have "map_row v' m = map_row (view s) m" for m
      unfolding map_row_def by (rule v) (auto simp: starts_with_iff)
    with assms(2) p show ?thesis by (simp add: qos_ok_def)
  qed
  show ?thesis
    unfolding put_qos_port_def
  proof (rule wp_bnd, rule wp_map_err, rule wp_exists [OF assms(1)], rule wp_bnd, rule wp_guard)
    fix e s1 assume s1: "ok s1" "view s1 = view s"
    show "wp (case qi_trust i of
       Dscp \<Rightarrow>
         (case qi_map i of
            None \<Rightarrow> fail (BadRequest ''trust \"dscp\" requires dscp_to_tc_map'')
          | Some m \<Rightarrow>
              bnd (guard (m \<noteq> []) (BadRequest ''trust \"dscp\" requires dscp_to_tc_map'')) (\<lambda>_.
              bnd (map_err Redis (exists P CONFIG_DB (''DSCP_TO_TC_MAP|'' @ m))) (\<lambda>x.
              bnd (guard x (BadRequest (''no such DSCP map '' @ m))) (\<lambda>_.
              map_err Redis (hset P CONFIG_DB (''PORT_QOS_MAP|'' @ port) [(''dscp_to_tc_map'', m)])))))
     | NoTrust \<Rightarrow>
         bnd (guard (qi_map i = None) (BadRequest ''trust \"none\" does not take a dscp_to_tc_map'')) (\<lambda>_.
         map_err Redis (hdel P CONFIG_DB (''PORT_QOS_MAP|'' @ port) [''dscp_to_tc_map''])))
       (\<lambda>_ s'. ok s' \<and> qos_ok (view s')) (\<lambda>_ s'. ok s' \<and> view s' = view s) s1"
    proof (cases "qi_trust i")
      case NoTrust
      then show ?thesis
      proof (simp only: trust_mode.case, intro wp_bnd wp_guard wp_map_err wp_hdel [OF s1(1)])
        fix s2 assume s2: "ok s2" "view s2 = v_hdel CONFIG_DB (''PORT_QOS_MAP|'' @ port) [''dscp_to_tc_map''] (view s1)"
        have v: "view s2 = v_hdel CONFIG_DB (''PORT_QOS_MAP|'' @ port) [''dscp_to_tc_map''] (view s)" using s2 s1 by simp
        have "qos_ok (view s2)"
        proof (rule keep)
          show "view s2 CONFIG_DB k = view s CONFIG_DB k" if "\<not> starts_with ''PORT_QOS_MAP|'' k" for k
            unfolding v using that by (auto simp: starts_with_iff)
          show "map_row (view s) m \<noteq> Map.empty" if "port_binding (view s2) q = Some m" for q m
          proof (cases "q = port")
            case True
            with that have False unfolding v port_binding_def by (auto simp: mfield_def split: if_splits)
            then show ?thesis ..
          next
            case False
            with that have "port_binding (view s) q = Some m" unfolding v port_binding_def by auto
            with assms(2) show ?thesis by (auto simp: qos_ok_def)
          qed
        qed
        with s2(1) show "ok s2 \<and> qos_ok (view s2)" ..
      qed (use s1 in auto)
    next
      case Dscp
      show ?thesis
      proof (cases "qi_map i")
        case None
        with Dscp s1 show ?thesis by (simp add: wp_fail)
      next
        case (Some m)
        show ?thesis
          unfolding Dscp Some trust_mode.case option.case
        proof (intro wp_bnd wp_guard wp_map_err wp_exists [OF s1(1)] wp_hset)
          fix x s2 s3
          assume x: "x \<longleftrightarrow> view s1 CONFIG_DB (''DSCP_TO_TC_MAP|'' @ m) \<noteq> Map.empty" x and s2: "ok s2" "view s2 = view s1"
            and s3: "ok s3" "view s3 = v_hset CONFIG_DB (''PORT_QOS_MAP|'' @ port) [(''dscp_to_tc_map'', m)] (view s2)"
          have ex: "map_row (view s) m \<noteq> Map.empty" using x s1 by (simp add: map_row_def)
          then have "check_map_name m = Inr ()" using assms(2) by (simp add: qos_ok_def)
          then have m: "trim m = m" "map_ref_name m = m" by (simp_all add: legal_map_name)
          have v: "view s3 = v_hset CONFIG_DB (''PORT_QOS_MAP|'' @ port) [(''dscp_to_tc_map'', m)] (view s)"
            using s3 s2 s1 by simp
          have "qos_ok (view s3)"
          proof (rule keep)
            show "view s3 CONFIG_DB k = view s CONFIG_DB k" if "\<not> starts_with ''PORT_QOS_MAP|'' k" for k
              unfolding v using that by (auto simp: starts_with_iff)
            show "map_row (view s) n \<noteq> Map.empty" if "port_binding (view s3) q = Some n" for q n
            proof (cases "q = port")
              case True
              with that m have "n = m" unfolding v port_binding_def by (auto simp: mfield_def split: if_splits)
              with ex show ?thesis by simp
            next
              case False
              with that have "port_binding (view s) q = Some n" unfolding v port_binding_def by auto
              with assms(2) show ?thesis by (auto simp: qos_ok_def)
            qed
          qed
          with s3(1) show "ok s3 \<and> qos_ok (view s3)" ..
        qed (use s1 in auto)
      qed
    qed
  qed (use assms in auto)
qed

end

section \<open>Properties\<close>

text \<open>
  C26. Bindings never dangle, on a platform where no read and no scan of the call fails: while all maps have legal names and every port that trusts DSCP is bound to a map that
  exists, each successful operation keeps it so, in whatever order they run: a map is replaced under its bindings,
  a bound map is not deleted, a port is bound to an existing map only. Both spellings of a reference
  count as a binding. Where the scan for bindings fails, a bound map can be deleted (\<open>qos_delete_scan_failure\<close>): the code reads
  the failure as no binding.
\<close>

theorem qos_invariant:
  assumes "readable_store P view ok up" "ok s" "qos_ok (view s)"
    "m \<in> {put_dscp_map P name es, delete_dscp_map P name, put_qos_port P port i}" "m s = (Inr u, s')"
  shows "ok s' \<and> qos_ok (view s')"
proof -
  from assms(4) consider "m = put_dscp_map P name es" | "m = delete_dscp_map P name" | "m = put_qos_port P port i" by blast
  then show ?thesis
  proof cases
    case 1
    from wp_okD [OF readable_store.put_dscp_map_wp [OF assms(1), OF assms(2,3)] assms(5) [unfolded 1]] show ?thesis .
  next
    case 2
    from wp_okD [OF readable_store.delete_dscp_map_wp [OF assms(1), OF assms(2,3)] assms(5) [unfolded 2]] show ?thesis .
  next
    case 3
    from wp_okD [OF readable_store.put_qos_port_wp [OF assms(1), OF assms(2,3)] assms(5) [unfolded 3]] show ?thesis .
  qed
qed

definition demo_qos :: mem where
  "demo_qos = mem_seed CONFIG_DB ''PORT|Ethernet0'' [(''alias'', ''Eth1/1'')]
     (mem_seed CONFIG_DB ''DSCP_TO_TC_MAP|AZURE'' [(''46'', ''5'')] mem_new)"

lemma demo_qos_ok: "mem_ok demo_qos"
  by (simp add: demo_qos_def mem_seed_ok)

lemma demo_qos_inv: "qos_ok (mem_view demo_qos)"
proof -
  have "map_row (mem_view demo_qos) name \<noteq> Map.empty \<longleftrightarrow> name = ''AZURE''" for name
    by (auto simp: map_row_def mem_view_def demo_qos_def run)
  moreover have "port_binding (mem_view demo_qos) port = None" for port
    by (auto simp: port_binding_def mfield_def mem_view_def demo_qos_def run)
  ultimately show ?thesis by (auto simp: qos_ok_def check_map_name_def char_class_defs)
qed

lemma demo_bind: "\<exists>s'. put_qos_port mem_platform ''Ethernet0'' \<lparr>qi_trust = Dscp, qi_map = Some ''AZURE''\<rparr> demo_qos = (Inr (), s')"
  by (simp add: put_qos_port_def demo_qos_def run)

theorem qos_invariant_witness:
  "\<exists>s'. put_qos_port mem_platform ''Ethernet0'' \<lparr>qi_trust = Dscp, qi_map = Some ''AZURE''\<rparr> demo_qos = (Inr (), s')
     \<and> qos_ok (mem_view s')"
proof -
  obtain s' where x: "put_qos_port mem_platform ''Ethernet0'' \<lparr>qi_trust = Dscp, qi_map = Some ''AZURE''\<rparr> demo_qos = (Inr (), s')"
    using demo_bind by blast
  from qos_invariant [OF mem_readable.readable_store_axioms, OF demo_qos_ok, OF demo_qos_inv,
      of "put_qos_port mem_platform ''Ethernet0'' \<lparr>qi_trust = Dscp, qi_map = Some ''AZURE''\<rparr>", OF _ x] x
  show ?thesis by blast
qed

lemma parsed_entries: "check_qos_entries seen es = Inr u \<Longrightarrow>
    List.map_filter (\<lambda>(d, t). Option.bind (parse_uint 32 (trim d)) (\<lambda>d. Option.bind (parse_uint 32 (trim t)) (\<lambda>t. Some (d, t))))
      (entry_fields es) = map (\<lambda>e. (qe_dscp e, qe_tc e)) es \<and> distinct (map qe_dscp es) \<and> set (map qe_dscp es) \<inter> set seen = {}"
  by (induction seen es rule: check_qos_entries.induct)
    (auto simp: entry_fields_def map_filter_simps split: if_splits)

text \<open>
  A DSCP map is read back as it was written: from the row that a successful PUT stores, in whatever order the
  server returns its fields, the document lists exactly the entries of the request, sorted by code point.
\<close>

lemma qos_map_readback:
  assumes "check_qos_entries [] es = Inr ()" "distinct (map fst cfg)" "map_of cfg = map_of (rev (entry_fields es))"
  shows "map_entries cfg = sort (map (\<lambda>e. (qe_dscp e, qe_tc e)) es)"
proof -
  let ?f = "\<lambda>(d, t). Option.bind (parse_uint 32 (trim d)) (\<lambda>d. Option.bind (parse_uint 32 (trim t)) (\<lambda>t. Some (d, t)))"
  note p = parsed_entries [OF assms(1)]
  have k: "map fst (entry_fields es) = map (show_nat \<circ> qe_dscp) es" by (simp add: entry_fields_def)
  have d: "distinct (map fst (entry_fields es))"
    unfolding k using p by (simp add: distinct_map inj_on_def)
  then have "map_of (rev (entry_fields es)) = map_of (entry_fields es)" by (rule map_of_rev_distinct)
  with assms(2,3) d have "set cfg = set (entry_fields es)" by (metis map_of_inject_set)
  then have "mset cfg = mset (entry_fields es)"
    using assms(2) d by (simp add: distinct_map set_eq_iff_mset_eq_distinct)
  then have "mset (List.map_filter ?f cfg) = mset (List.map_filter ?f (entry_fields es))"
    by (simp only: List.map_filter_def mset_map mset_filter)
  then have "sort (List.map_filter ?f cfg) = sort (List.map_filter ?f (entry_fields es))"
    by (intro properties_for_sort) (simp_all only: mset_sort sorted_sort)
  with p show ?thesis by (simp add: map_entries_def)
qed

text \<open>
  The replacement of a map is two commands. When the second fails, the map is gone while ports are still
  bound to it.
\<close>

definition demo_bound :: mem where
  "demo_bound = (mem_seed CONFIG_DB ''PORT_QOS_MAP|Ethernet0'' [(''dscp_to_tc_map'', ''AZURE'')] demo_qos)\<lparr>m_fail_at := Some 2\<rparr>"

lemma qos_put_loses_map:
  "\<exists>e s'. put_dscp_map mem_platform ''AZURE'' [\<lparr>qe_dscp = 46, qe_tc = 6\<rparr>] demo_bound = (Inl (Redis e), s')
     \<and> mem_row s' CONFIG_DB ''DSCP_TO_TC_MAP|AZURE'' = [] \<and> mem_row s' CONFIG_DB ''PORT_QOS_MAP|Ethernet0'' = [(''dscp_to_tc_map'', ''AZURE'')]"
  by (simp add: put_dscp_map_def demo_bound_def demo_qos_def check_map_name_def entry_fields_def char_class_defs run)

text \<open>When the scan for bindings fails, no port counts as bound, and a map is deleted under its binding.\<close>

definition demo_tied :: mem where
  "demo_tied = mem_seed CONFIG_DB ''PORT_QOS_MAP|Ethernet0'' [(''dscp_to_tc_map'', ''AZURE'')]
     (mem_seed CONFIG_DB ''DSCP_TO_TC_MAP|AZURE'' [(''46'', ''5'')] mem_new)"

lemma qos_delete_scan_failure:
  "\<exists>s'. delete_dscp_map (mem_platform\<lparr>scan := \<lambda>db pat s. (Inl ''timed out'', s)\<rparr>) ''AZURE'' demo_tied = (Inr (), s') \<and>
     mem_row s' CONFIG_DB ''DSCP_TO_TC_MAP|AZURE'' = [] \<and>
     mem_row s' CONFIG_DB ''PORT_QOS_MAP|Ethernet0'' = [(''dscp_to_tc_map'', ''AZURE'')]"
  by (simp add: delete_dscp_map_def bindings_def bound_ports_def demo_tied_def run)

end
