(* ===== verification/Vrrp.thy ===== *)
theory Vrrp
  imports SwitchingRead Ip
begin

text \<open>
  VRRP groups, \<^verbatim>\<open>src/src/sonic/vrrp.rs\<close>. A group is the row of its interface and router id; the live roles come from
  STATE_DB or from vtysh. \<open>serde_json::from_str\<close> is the parameter \<open>from_str\<close>; numbers that do not fit 64
  unsigned bits may be any value that is not a \<open>JNum\<close>, the code does not distinguish them.
\<close>

definition VRRP_UNSUPPORTED :: string where
  "VRRP_UNSUPPORTED = ''VRRP requires an image with vrrpd, e.g. Enterprise SONiC''"

section \<open>Reading\<close>

record vrrp_group =
  vg_interface :: string
  vg_vrid :: nat
  vg_vips :: "string list"
  vg_priority :: nat
  vg_preempt :: bool
  vg_adv :: "nat option"
  vg_version :: "nat option"
  vg_state :: "string option"

definition adv_interval_ms :: "string option \<Rightarrow> nat option" where
  "adv_interval_ms stored = Option.bind stored (\<lambda>s. map_option (\<lambda>v. if v < 100 then v * 1000 else v) (parse_uint 64 s))"

definition map_state :: "string \<Rightarrow> string option" where
  "map_state v = (let v = to_lower v in
     if contains v ''master'' then Some ''master''
     else if contains v ''backup'' then Some ''backup''
     else if contains v ''init'' then Some ''init'' else None)"

type_synonym vrrp_role = "string \<times> nat \<times> string"

definition role_of :: "string option \<Rightarrow> string option \<Rightarrow> string option" where
  "role_of s4 s6 =
     (if (s4 = Some ''init'' \<or> s4 = None) \<and> s6 \<noteq> None \<and> s6 \<noteq> Some ''init'' then s6 else opt_else s4 s6)"

definition show_group :: "json \<Rightarrow> vrrp_role option" where
  "show_group g = (case (as_str (jget g ''interface''), as_u64 (jget g ''vrid'')) of
       (Some iface, Some vrid) \<Rightarrow>
         (let s4 = Option.bind (as_str (jget (jget g ''v4'') ''status'')) map_state;
              s6 = Option.bind (as_str (jget (jget g ''v6'') ''status'')) map_state
          in map_option (\<lambda>s. (iface, vrid mod 2 ^ 32, s)) (role_of s4 s6))
     | _ \<Rightarrow> None)"

definition parse_show_vrrp :: "(string \<Rightarrow> json option) \<Rightarrow> string \<Rightarrow> vrrp_role list" where
  "parse_show_vrrp from_str text = (case from_str text of
       Some (JArr gs) \<Rightarrow> List.map_filter show_group gs | _ \<Rightarrow> [])"

type_synonym role_map = "((string \<times> nat) \<times> string) list"

definition state_role :: "'s platform \<Rightarrow> string \<Rightarrow> ('s, 'e, vrrp_role option) io" where
  "state_role P key = (case two_parts key ''VRRP_TABLE|'' of
       None \<Rightarrow> ret None
     | Some (iface, vrid) \<Rightarrow> (case parse_uint 32 vrid of
           None \<Rightarrow> ret None
         | Some n \<Rightarrow> bnd (row_of P STATE_DB key) (\<lambda>r.
             ret (map_option (\<lambda>s. (iface, n, s)) (map_state (opt_or (field r ''state'') []))))))"

text \<open>\<open>insert\<close> and \<open>entry(\<dots>).or_insert\<close>.\<close>

definition role_insert :: "role_map \<Rightarrow> vrrp_role \<Rightarrow> role_map" where
  "role_insert m = (\<lambda>(i, n, s). al_put (i, n) s m)"

definition role_or_insert :: "role_map \<Rightarrow> vrrp_role \<Rightarrow> role_map" where
  "role_or_insert m = (\<lambda>(i, n, s). if map_of m (i, n) = None then al_put (i, n) s m else m)"

definition live_states :: "(string \<Rightarrow> json option) \<Rightarrow> 's platform \<Rightarrow> ('s, 'e, role_map) io" where
  "live_states from_str P =
     bnd (keys_of P STATE_DB ''VRRP_TABLE|*'') (\<lambda>ks.
     bnd (collect (state_role P) ks) (\<lambda>rs.
     let m = foldl role_insert [] (List.map_filter id rs) in
     bnd (or_default None (bnd (run_cmd P ''vtysh'' [''-c'', ''show vrrp json'']) (\<lambda>out. ret (Some out)))) (\<lambda>res.
     ret (case res of
            Some out \<Rightarrow> if co_ok out then foldl role_or_insert m (parse_show_vrrp from_str (co_stdout out)) else m
          | None \<Rightarrow> m))))"

definition vrrp_vips :: "row \<Rightarrow> string list" where
  "vrrp_vips cfg = (case opt_else (field cfg ''vip@'') (field cfg ''vip'') of
       None \<Rightarrow> []
     | Some s \<Rightarrow> filter (\<lambda>v. v \<noteq> []) (map trim (split_on (CHR '','') s)))"

definition vrrp_preempt :: "row \<Rightarrow> bool" where
  "vrrp_preempt cfg = (case opt_else (field cfg ''pre_empt'') (field cfg ''preempt'') of
       None \<Rightarrow> True | Some v \<Rightarrow> to_lower v \<in> {''true'', ''enabled'', ''1''})"

definition group_of :: "string \<Rightarrow> nat \<Rightarrow> row \<Rightarrow> string option \<Rightarrow> vrrp_group" where
  "group_of iface vrid cfg state =
     \<lparr>vg_interface = iface, vg_vrid = vrid, vg_vips = vrrp_vips cfg,
      vg_priority = opt_or (parse_num (field cfg ''priority'')) 100,
      vg_preempt = vrrp_preempt cfg, vg_adv = adv_interval_ms (field cfg ''adv_interval''),
      vg_version = Option.bind (parse_num (field cfg ''version'')) (\<lambda>v. if v = 2 \<or> v = 3 then Some v else None),
      vg_state = state\<rparr>"

definition group_of_key :: "'s platform \<Rightarrow> role_map \<Rightarrow> string \<Rightarrow> ('s, 'e, vrrp_group option) io" where
  "group_of_key P states key = (case two_parts key ''VRRP|'' of
       None \<Rightarrow> ret None
     | Some (iface, vrid) \<Rightarrow> (case parse_uint 32 vrid of
           None \<Rightarrow> ret None
         | Some n \<Rightarrow> bnd (row_of P CONFIG_DB key) (\<lambda>cfg.
             ret (Some (group_of iface n cfg (map_of states (iface, n)))))))"

definition vrrp_group_json :: "vrrp_group \<Rightarrow> json" where
  "vrrp_group_json g = JObj [(''interface'', JStr (vg_interface g)), (''vrid'', JNum (vg_vrid g)),
     (''virtual_ips'', jstrs (vg_vips g)), (''priority'', JNum (vg_priority g)), (''preempt'', JBool (vg_preempt g)),
     (''adv_interval_ms'', jopt JNum (vg_adv g)), (''version'', jopt JNum (vg_version g)),
     (''state'', jopt JStr (vg_state g))]"

definition group_cmp :: "vrrp_group \<Rightarrow> vrrp_group \<Rightarrow> ordering" where
  "group_cmp a b = then_cmp (cmp (vg_interface a) (vg_interface b)) (cmp (vg_vrid a) (vg_vrid b))"

definition vrrp_get :: "(string \<Rightarrow> json option) \<Rightarrow> 's platform \<Rightarrow> ('s, string, json) io" where
  "vrrp_get from_str P =
     bnd (current P) (\<lambda>p.
     if \<not> vrrp_supported p then
       ret (JObj [(''capability'', cap_json (cap_no VRRP_UNSUPPORTED)), (''groups'', JArr [])])
     else
       bnd (live_states from_str P) (\<lambda>states.
       bnd (keys_of P CONFIG_DB ''VRRP|*'') (\<lambda>ks.
       bnd (collect (group_of_key P states) ks) (\<lambda>gs.
       ret (JObj [(''capability'', cap_json cap_yes),
         (''groups'', JArr (map vrrp_group_json (sort_by group_cmp (List.map_filter id gs))))])))))"

section \<open>Writing\<close>

record vrrp_input =
  gi_interface :: string
  gi_vrid :: nat
  gi_virtual_ips :: "string list"
  gi_priority :: nat
  gi_preempt :: bool
  gi_adv :: "nat option"
  gi_version :: "nat option"

definition all_digits :: "string \<Rightarrow> bool" where
  "all_digits s \<longleftrightarrow> s \<noteq> [] \<and> list_all is_digit s"

definition vrrp_l3_table :: "string \<Rightarrow> string option" where
  "vrrp_l3_table iface = first_some (\<lambda>(pre, table). case strip_prefix pre iface of
       Some rest \<Rightarrow> if all_digits rest then Some table else None
     | None \<Rightarrow> None)
     [(''Vlan'', ''VLAN_INTERFACE''), (''Ethernet'', ''INTERFACE''), (''PortChannel'', ''PORTCHANNEL_INTERFACE'')]"

definition parse_vip :: "string \<Rightarrow> ip option" where
  "parse_vip v = (case split_once (CHR ''/'') v of
       None \<Rightarrow> parse_ip v
     | Some (a, len) \<Rightarrow> Option.bind (parse_ip a) (\<lambda>addr. Option.bind (parse_uint 32 len) (\<lambda>n.
         if n > (if is_ipv4 addr then 32 else 128) then None else Some addr)))"

definition OWN_TABLES :: "string list" where
  "OWN_TABLES = [''INTERFACE'', ''VLAN_INTERFACE'', ''PORTCHANNEL_INTERFACE'', ''LOOPBACK_INTERFACE'']"

text \<open>The address of an interface key; \<open>split('/').next()\<close> is the text before the first slash.\<close>

definition key_address :: "string \<Rightarrow> string \<Rightarrow> ip option" where
  "key_address table key = (case two_parts key (table @ ''|'') of
       None \<Rightarrow> None | Some (_, cidr) \<Rightarrow> parse_ip (hd (split_on (CHR ''/'') cidr)))"

definition table_addresses :: "'s platform \<Rightarrow> string \<Rightarrow> ('s, 'e, ip list) io" where
  "table_addresses P table =
     bnd (keys_of P CONFIG_DB (table @ ''|*|*'')) (\<lambda>ks. ret (List.map_filter (key_address table) ks))"

definition own_addresses :: "'s platform \<Rightarrow> ('s, 'e, ip list) io" where
  "own_addresses P = bnd (collect (table_addresses P) OWN_TABLES) (\<lambda>xs. ret (concat xs))"

fun vip_addrs :: "ip list \<Rightarrow> string list \<Rightarrow> string + ip list" where
  "vip_addrs seen [] = Inr seen"
| "vip_addrs seen (v # vs) = (case parse_vip v of
       None \<Rightarrow> Inl (''invalid virtual IP '' @ dbg v)
     | Some a \<Rightarrow> if a \<in> set seen then Inl (''duplicate virtual IP '' @ v) else vip_addrs (seen @ [a]) vs)"

definition check_group :: "string \<Rightarrow> nat \<Rightarrow> vrrp_input \<Rightarrow> string + ip list" where
  "check_group iface vrid i =
     sbind (check (gi_interface i = iface \<and> gi_vrid i = vrid) ''body interface/vrid must match the URL'') (\<lambda>_.
     sbind (check (1 \<le> vrid \<and> vrid \<le> 255) (''invalid vrid '' @ show_nat vrid @ '' (must be 1-255)'')) (\<lambda>_.
     sbind (check (1 \<le> gi_priority i \<and> gi_priority i \<le> 254)
       (''invalid priority '' @ show_nat (gi_priority i) @ '' (must be 1-254)'')) (\<lambda>_.
     sbind (case gi_version i of None \<Rightarrow> Inr ()
       | Some v \<Rightarrow> check (v = 2 \<or> v = 3) (''invalid version '' @ show_nat v @ '' (must be 2 or 3)'')) (\<lambda>_.
     sbind (check (gi_virtual_ips i \<noteq> []) ''a VRRP group needs at least one virtual IP'') (\<lambda>_.
     sbind (vip_addrs [] (gi_virtual_ips i)) (\<lambda>addrs.
     sbind (check (\<not> list_ex (\<lambda>a. is_ipv4 a \<noteq> is_ipv4 (hd addrs)) addrs)
       ''virtual IPs must all be the same address family'') (\<lambda>_. Inr addrs)))))))"

text \<open>Rounding to centiseconds in 32 bits; the addition wraps in a release build.\<close>

definition round_adv :: "nat \<Rightarrow> nat" where
  "round_adv ms = (ms + 5) mod 2 ^ 32 div 10 * 10"

definition check_adv :: "nat option \<Rightarrow> write_error + nat option" where
  "check_adv adv = (case adv of
       None \<Rightarrow> Inr None
     | Some ms \<Rightarrow>
         if \<not> (100 \<le> round_adv ms \<and> round_adv ms \<le> 40950)
         then Inl (Unprocessable (''adv_interval_ms '' @ show_nat ms @ '' is outside the supported 100-40950 ms range''))
         else Inr (Some (round_adv ms)))"

definition group_key :: "string \<Rightarrow> nat \<Rightarrow> string" where
  "group_key iface vrid = ''VRRP|'' @ iface @ ''|'' @ show_nat vrid"

definition group_fields :: "vrrp_input \<Rightarrow> nat option \<Rightarrow> row" where
  "group_fields i adv =
     [(''vip@'', join '','' (gi_virtual_ips i)), (''priority'', show_nat (gi_priority i)),
      (''pre_empt'', if gi_preempt i then ''True'' else ''False'')]
     @ (case adv of Some ms \<Rightarrow> [(''adv_interval'', show_nat ms)] | None \<Rightarrow> [])
     @ (case gi_version i of Some v \<Rightarrow> [(''version'', show_nat v)] | None \<Rightarrow> [])"

definition vrrp_put :: "'s platform \<Rightarrow> string \<Rightarrow> nat \<Rightarrow> vrrp_input \<Rightarrow> ('s, unit) handler" where
  "vrrp_put P iface vrid i =
     bnd (lift (smap_err BadRequest (check_group iface vrid i))) (\<lambda>addrs.
     bnd (lift (check_adv (gi_adv i))) (\<lambda>adv.
     bnd (current P) (\<lambda>p.
     bnd (guard (vrrp_supported p) (Conflict VRRP_UNSUPPORTED)) (\<lambda>_.
     bnd (lift (ok_or (vrrp_l3_table iface) (BadRequest (''interface '' @ iface
       @ '' cannot carry VRRP (expected an SVI, port, or port channel)'')))) (\<lambda>table.
     bnd (keys_of P CONFIG_DB (table @ ''|'' @ iface @ ''|*'')) (\<lambda>ks.
     bnd (guard (ks \<noteq> []) (BadRequest (''interface '' @ iface @ '' has no IP address configured''))) (\<lambda>_.
     bnd (own_addresses P) (\<lambda>own.
     bnd (for_each (\<lambda>(vip, addr). guard (addr \<notin> set own) (BadRequest (''virtual IP '' @ vip
       @ '' is already one of this switch's interface addresses''))) (zip (gi_virtual_ips i) addrs)) (\<lambda>_.
     bnd (map_err Redis (del P CONFIG_DB (group_key iface vrid))) (\<lambda>_.
     map_err Redis (hset P CONFIG_DB (group_key iface vrid) (group_fields i adv))))))))))))"

definition vrrp_delete :: "'s platform \<Rightarrow> string \<Rightarrow> nat \<Rightarrow> ('s, unit) handler" where
  "vrrp_delete P iface vrid =
     bnd (map_err Redis (exists P CONFIG_DB (group_key iface vrid))) (\<lambda>e.
     bnd (guard e (NotFound (''no VRRP group '' @ show_nat vrid @ '' on '' @ iface))) (\<lambda>_.
     map_err Redis (del P CONFIG_DB (group_key iface vrid))))"

end
