(* ===== verification/VrrpProps.thy ===== *)
theory VrrpProps
  imports Vrrp MemPlatform
begin

text \<open>
  Properties of the VRRP groups: what a successful PUT establishes.
\<close>

section \<open>The row of a group\<close>

lemma vip_addrs_ok: "vip_addrs seen vs = Inr as \<Longrightarrow>
    \<exists>bs. as = seen @ bs \<and> map Some bs = map parse_vip vs \<and> distinct bs \<and> set bs \<inter> set seen = {}"
proof (induction seen vs arbitrary: as rule: vip_addrs.induct)
  case (2 seen v vs)
  then obtain a where a: "parse_vip v = Some a" "a \<notin> set seen" "vip_addrs (seen @ [a]) vs = Inr as"
    by (auto split: option.splits if_splits)
  from "2.IH" [OF a] obtain bs where "as = (seen @ [a]) @ bs" "map Some bs = map parse_vip vs" "distinct bs"
      "set bs \<inter> set (seen @ [a]) = {}" by blast
  with a show ?case by (intro exI [of _ "a # bs"]) auto
qed simp

lemma parse_vip_chars:
  assumes "parse_vip v = Some a" "c \<in> set v"
  shows "v \<noteq> []" "c \<noteq> CHR '',''" "\<not> is_space c"
proof -
  have ip: "\<And>s b x. parse_ip s = Some b \<Longrightarrow> x \<in> set s \<Longrightarrow> s \<noteq> [] \<and> x \<noteq> CHR '','' \<and> \<not> is_space x"
    using parse_ip_chars ip_char_not by (fastforce simp: list_all_iff)
  have nm: "\<And>s b n x. parse_uint b s = Some n \<Longrightarrow> x \<in> set s \<Longrightarrow> x \<noteq> CHR '','' \<and> \<not> is_space x"
    using parse_uint_chars parse_uint_no_space by (fastforce simp: is_digit_def byte_def)
  have "v \<noteq> [] \<and> c \<noteq> CHR '','' \<and> \<not> is_space c"
  proof (cases "split_once (CHR ''/'') v")
    case None
    with assms ip [of v a c] show ?thesis by (simp add: parse_vip_def)
  next
    case (Some p)
    then obtain s len where p: "split_once (CHR ''/'') v = Some (s, len)" by (cases p) auto
    with assms(1) obtain addr n where an: "parse_ip s = Some addr" "parse_uint 32 len = Some n"
      by (auto simp: parse_vip_def bind_eq_Some_conv)
    from p have v: "v = s @ CHR ''/'' # len" by (simp add: split_once_Some)
    with assms(2) consider "c \<in> set s" | "c = CHR ''/''" | "c \<in> set len" by auto
    then show ?thesis
    proof cases
      case 2
      then show ?thesis by (simp add: v is_space_def byte_def)
    qed (use v ip [OF an(1)] nm [OF an(2)] in auto)
  qed
  then show "v \<noteq> []" "c \<noteq> CHR '',''" "\<not> is_space c" by auto
qed

lemma parse_vip_nonempty: "parse_vip v = Some a \<Longrightarrow> v \<noteq> []"
proof
  assume "parse_vip v = Some a" "v = []"
  then have "parse_ip [] = Some a" by (simp add: parse_vip_def)
  with parse_ip_chars show False by blast
qed

lemma join_chars: "c \<in> set (join [d] vs) \<Longrightarrow> c = d \<or> (\<exists>v\<in>set vs. c \<in> set v)"
  by (induction "[d]" vs rule: join.induct) auto

text \<open>A validated group is read back from its row as it was given, its interval rounded.\<close>

definition group_of_input :: "vrrp_input \<Rightarrow> nat option \<Rightarrow> string option \<Rightarrow> vrrp_group" where
  "group_of_input i adv st = \<lparr>vg_interface = gi_interface i, vg_vrid = gi_vrid i, vg_vips = gi_virtual_ips i,
     vg_priority = gi_priority i, vg_preempt = gi_preempt i, vg_adv = adv, vg_version = gi_version i, vg_state = st\<rparr>"

lemma check_group_ok:
  assumes "check_group iface vrid i = Inr as"
  shows "gi_interface i = iface" "gi_vrid i = vrid" "1 \<le> vrid" "vrid \<le> 255" "1 \<le> gi_priority i" "gi_priority i \<le> 254"
    "\<forall>v. gi_version i = Some v \<longrightarrow> v = 2 \<or> v = 3" "gi_virtual_ips i \<noteq> []" "map Some as = map parse_vip (gi_virtual_ips i)"
    "distinct as" "\<forall>a\<in>set as. \<forall>b\<in>set as. is_ipv4 a = is_ipv4 b"
proof -
  have "vip_addrs [] (gi_virtual_ips i) = Inr as" using assms by (auto simp: check_group_def)
  from vip_addrs_ok [OF this] show "map Some as = map parse_vip (gi_virtual_ips i)" "distinct as" by auto
  have "\<not> list_ex (\<lambda>a. is_ipv4 a \<noteq> is_ipv4 (hd as)) as" using assms by (auto simp: check_group_def)
  then have h: "is_ipv4 a = is_ipv4 (hd as)" if "a \<in> set as" for a using that by (auto simp: list_ex_iff)
  show "\<forall>a\<in>set as. \<forall>b\<in>set as. is_ipv4 a = is_ipv4 b" by (simp add: h)
  show "gi_interface i = iface" "gi_vrid i = vrid" "1 \<le> vrid" "vrid \<le> 255" "1 \<le> gi_priority i" "gi_priority i \<le> 254"
    "gi_virtual_ips i \<noteq> []"
    using assms by (auto simp: check_group_def)
  show "\<forall>v. gi_version i = Some v \<longrightarrow> v = 2 \<or> v = 3"
    using assms by (auto simp: check_group_def split: option.splits)
qed

lemma check_adv_ok:
  assumes "check_adv a = Inr adv"
  shows "\<forall>n. adv = Some n \<longrightarrow> 100 \<le> n \<and> n \<le> 40950"
  using assms by (auto simp: check_adv_def split: option.splits if_splits)

lemma group_readback:
  assumes "check_group iface vrid i = Inr as" "check_adv (gi_adv i) = Inr adv" "map_of r = map_of (rev (group_fields i adv))"
  shows "group_of iface vrid r st = group_of_input i adv st"
proof -
  note ok = check_group_ok [OF assms(1)]
  let ?vs = "gi_virtual_ips i"
  have p: "\<exists>a. parse_vip v = Some a" if "v \<in> set ?vs" for v
  proof -
    have "parse_vip v \<in> set (map Some as)" using that ok(9) by (metis image_eqI set_map)
    then show ?thesis by auto
  qed
  have sp: "\<not> is_space c" if "c \<in> set (join '','' ?vs)" for c
  proof -
    have "c = CHR '','' \<or> (\<exists>v\<in>set ?vs. c \<in> set v)" using that by (rule join_chars)
    then show ?thesis using p parse_vip_chars(3) by (auto simp: is_space_def byte_def)
  qed
  have ne: "join '','' ?vs \<noteq> []" using ok(8) p parse_vip_nonempty by (intro join_nonempty) blast+
  have d: "distinct (map fst (group_fields i adv))"
    by (auto simp: group_fields_def split: option.splits)
  have m: "map_of r = map_of (group_fields i adv)" using assms(3) d by (simp add: map_of_rev_distinct)
  have tj: "trim (join '','' ?vs) = join '','' ?vs" by (rule trim_id) (use sp in blast)
  have f: "field r ''vip@'' = Some (join '','' ?vs)"
    using ne tj by (simp add: field_def m group_fields_def)
  have f2: "field r ''priority'' = Some (show_nat (gi_priority i))"
    by (simp add: field_def m group_fields_def)
  have f3: "field r ''pre_empt'' = Some (if gi_preempt i then ''True'' else ''False'')"
    by (simp add: field_def m group_fields_def trim_id is_space_def byte_def)
  have f4: "field r ''adv_interval'' = map_option show_nat adv"
    by (cases adv; cases "gi_version i") (simp_all add: field_def m group_fields_def)
  have f5: "field r ''version'' = map_option show_nat (gi_version i)"
    by (cases adv; cases "gi_version i") (simp_all add: field_def m group_fields_def)
  have "vrrp_vips r = ?vs"
  proof -
    have "split_on (CHR '','') (join '','' ?vs) = ?vs"
      using ok(8) p parse_vip_chars(2) by (intro split_on_join) blast+
    moreover have "map trim ?vs = ?vs"
      by (rule map_idI) (rule trim_id, use p parse_vip_chars(3) in blast)
    moreover have "filter (\<lambda>v. v \<noteq> []) ?vs = ?vs"
      by (rule filter_True) (use p parse_vip_nonempty in blast)
    ultimately show ?thesis by (simp add: vrrp_vips_def f opt_else_def)
  qed
  moreover have "to_lower ''True'' = ''true''" "to_lower ''False'' = ''false''" by (simp_all add: run)
  then have "vrrp_preempt r = gi_preempt i" by (simp add: vrrp_preempt_def f3 opt_else_def)
  moreover have "adv_interval_ms (field r ''adv_interval'') = adv"
    using check_adv_ok [OF assms(2)] by (cases adv) (auto simp: f4 adv_interval_ms_def)
  moreover have "parse_num (field r ''priority'') = Some (gi_priority i)"
    using ok(6) by (simp add: f2 parse_num_def)
  moreover have "Option.bind (parse_num (field r ''version'')) (\<lambda>v. if v = 2 \<or> v = 3 then Some v else None) = gi_version i"
    using ok(7) by (cases "gi_version i") (auto simp: f5 parse_num_def)
  ultimately show ?thesis using ok(1,2) by (simp add: group_of_def group_of_input_def)
qed

section \<open>The operation\<close>

text \<open>The addresses of the switch: those in the names of the address rows of the four interface tables.\<close>

definition own_address :: "dbs \<Rightarrow> ip \<Rightarrow> bool" where
  "own_address v a \<longleftrightarrow> (\<exists>table\<in>set OWN_TABLES. \<exists>key. v CONFIG_DB key \<noteq> Map.empty \<and> key_address table key = Some a)"

definition has_address :: "dbs \<Rightarrow> string \<Rightarrow> bool" where
  "has_address v iface \<longleftrightarrow> (\<exists>table cidr. vrrp_l3_table iface = Some table \<and>
     v CONFIG_DB (table @ ''|'' @ iface @ ''|'' @ cidr) \<noteq> Map.empty)"

definition vrrp_done :: "string \<Rightarrow> nat \<Rightarrow> vrrp_input \<Rightarrow> dbs \<Rightarrow> dbs \<Rightarrow> bool" where
  "vrrp_done iface vrid i v v' \<longleftrightarrow> (\<exists>adv. check_adv (gi_adv i) = Inr adv \<and>
     (\<forall>r st. map_of r = v' CONFIG_DB (group_key iface vrid) \<longrightarrow> group_of iface vrid r st = group_of_input i adv st)) \<and>
     (\<forall>db key. (db, key) \<noteq> (CONFIG_DB, group_key iface vrid) \<longrightarrow> v' db key = v db key) \<and>
     has_address v iface \<and> (\<forall>vip\<in>set (gi_virtual_ips i). \<exists>a. parse_vip vip = Some a \<and> \<not> own_address v a)"

lemma glob_two: "CHR ''*'' \<notin> set p \<Longrightarrow> glob_match (p @ ''*|*'') (p @ a @ ''|'' @ b)"
proof (induction p)
  case Nil
  have "glob_match ''|*'' (drop (length a) (a @ ''|'' @ b))" by simp
  then show ?case by (auto simp: list_ex_iff intro!: bexI [of _ "length a"] simp del: drop_append)
next
  case (Cons c p)
  then have "c \<noteq> CHR ''*''" by auto
  with Cons show ?case by simp
qed

lemma key_address_glob:
  assumes "key_address table key = Some a" "CHR ''*'' \<notin> set table"
  shows "glob_match (table @ ''|*|*'') key"
proof -
  obtain x y where "key = (table @ ''|'') @ x @ ''|'' @ y"
    using assms(1) by (auto simp: key_address_def two_parts_Some split: option.splits)
  with glob_two [of "table @ ''|''" x y] assms(2) show ?thesis by simp
qed

lemma vrrp_table_plain: "vrrp_l3_table iface = Some table \<Longrightarrow>
    CHR ''*'' \<notin> set (table @ ''|'' @ iface @ ''|'') \<and> plain_glob (table @ ''|'' @ iface @ ''|'')"
  by (auto simp: vrrp_l3_table_def all_digits_def list_all_iff plain_glob_def is_digit_def byte_def split: option.splits if_splits)

lemma own_tables_plain: "table \<in> set OWN_TABLES \<Longrightarrow> CHR ''*'' \<notin> set table \<and> plain_glob (table @ ''|*|*'')"
  by (auto simp: OWN_TABLES_def)

context full_store
begin

lemma wp_keys_of_glob:
  assumes "ok s" "plain_glob pat"
    and "\<And>ks s'. ok s' \<Longrightarrow> view s' = view s \<Longrightarrow> set ks = {k. view s db k \<noteq> Map.empty \<and> glob_match pat k} \<Longrightarrow> Q ks s'"
  shows "wp (keys_of P db pat) Q E s"
proof -
  obtain ks s' where r: "scan P db pat s = (Inr ks, s')" using scan_live [OF assms(1)] by blast
  with scan_ok [OF assms(1) r] assms(2,3) show ?thesis by (simp add: keys_of_def or_default_def wp_def)
qed

lemma wp_own_addresses:
  assumes "ok s" "\<And>as s'. ok s' \<Longrightarrow> view s' = view s \<Longrightarrow> (\<And>a. own_address (view s) a \<Longrightarrow> a \<in> set as) \<Longrightarrow> Q as s'"
  shows "wp (own_addresses P) Q E s"
proof -
  have "wp (collect (table_addresses P) ts) (\<lambda>xss s'. ok s' \<and> view s' = view s \<and>
      (\<forall>table\<in>set ts. \<forall>key a. view s CONFIG_DB key \<noteq> Map.empty \<longrightarrow> key_address table key = Some a \<longrightarrow> a \<in> set (concat xss))) E t"
    if "ok t" "view t = view s" "set ts \<subseteq> set OWN_TABLES" for ts t
    using that
  proof (induction ts arbitrary: t)
    case Nil
    then show ?case by (simp add: wp_ret)
  next
    case (Cons table ts)
    note pl = own_tables_plain [of table]
    show ?case
      unfolding collect.simps table_addresses_def [of P table]
    proof (intro wp_bnd wp_keys_of_glob [OF Cons.prems(1)] wp_ret, goal_cases)
      case 1
      with pl Cons.prems(3) show ?case by simp
    next
      case (2 ks t1)
      have k: "key \<in> set ks" if "view s CONFIG_DB key \<noteq> Map.empty" "key_address table key = Some a" for key a
        using that 2 Cons.prems(2,3) pl key_address_glob by auto
      have mf: "a \<in> set (List.map_filter (key_address table) ks)"
        if "view s CONFIG_DB key \<noteq> Map.empty" "key_address table key = Some a" for key a
        using k [OF that] that(2) unfolding set_map_filter_iff by blast
      show ?case
        by (rule wp_conseq [OF Cons.IH]) (use 2 Cons.prems mf in \<open>auto intro!: wp_ret\<close>)
    qed
  qed
  from this [OF assms(1) refl subset_refl] show ?thesis
    unfolding own_addresses_def
    by (intro wp_bnd, elim wp_conseq) (auto intro!: wp_ret assms(2) simp: own_address_def)
qed

lemma vrrp_put_wp:
  assumes "ok s"
  shows "wp (vrrp_put P iface vrid i) (\<lambda>_ s'. ok s' \<and> vrrp_done iface vrid i (view s) (view s')) (\<lambda>_ s'. ok s') s"
  unfolding vrrp_put_def
proof (rule wp_bnd, rule wp_lift, rule wp_bnd, rule wp_lift, rule wp_bnd, rule wp_current [OF assms], rule wp_bnd, rule wp_guard,
    rule wp_bnd, rule wp_lift)
  fix as adv p s1 table
  assume c: "smap_err BadRequest (check_group iface vrid i) = Inr as" "check_adv (gi_adv i) = Inr adv"
    and s1: "ok s1" "view s1 = view s"
    and t: "ok_or (vrrp_l3_table iface) (BadRequest (''interface '' @ iface
       @ '' cannot carry VRRP (expected an SVI, port, or port channel)'')) = Inr table"
  have g: "check_group iface vrid i = Inr as" and table: "vrrp_l3_table iface = Some table" using c t by simp_all
  note ok = check_group_ok [OF g]
  have pre: "table @ ''|'' @ iface @ ''|*'' = (table @ ''|'' @ iface @ ''|'') @ ''*''" by simp
  let ?k = "group_key iface vrid"
  show "wp (bnd (keys_of P CONFIG_DB (table @ ''|'' @ iface @ ''|*'')) (\<lambda>ks.
     bnd (guard (ks \<noteq> []) (BadRequest (''interface '' @ iface @ '' has no IP address configured''))) (\<lambda>_.
     bnd (own_addresses P) (\<lambda>own.
     bnd (for_each (\<lambda>(vip, addr). guard (addr \<notin> set own) (BadRequest (''virtual IP '' @ vip
       @ '' is already one of this switch's interface addresses''))) (zip (gi_virtual_ips i) as)) (\<lambda>_.
     bnd (map_err Redis (del P CONFIG_DB ?k)) (\<lambda>_.
     map_err Redis (hset P CONFIG_DB ?k (group_fields i adv))))))))
     (\<lambda>_ s'. ok s' \<and> vrrp_done iface vrid i (view s) (view s')) (\<lambda>_ s'. ok s') s1"
    unfolding pre
  proof (rule wp_bnd, rule wp_keys_of_prefix [OF s1(1)])
    show "CHR ''*'' \<notin> set (table @ ''|'' @ iface @ ''|'')" "plain_glob (table @ ''|'' @ iface @ ''|'')"
      using vrrp_table_plain [OF table] by blast+
  next
    fix ks s2
    assume s2: "ok s2" "view s2 = view s1"
      and ks: "set ks = {k. view s1 CONFIG_DB k \<noteq> Map.empty \<and> starts_with (table @ ''|'' @ iface @ ''|'') k}"
    show "wp (bnd (guard (ks \<noteq> []) (BadRequest (''interface '' @ iface @ '' has no IP address configured''))) (\<lambda>_.
     bnd (own_addresses P) (\<lambda>own.
     bnd (for_each (\<lambda>(vip, addr). guard (addr \<notin> set own) (BadRequest (''virtual IP '' @ vip
       @ '' is already one of this switch's interface addresses''))) (zip (gi_virtual_ips i) as)) (\<lambda>_.
     bnd (map_err Redis (del P CONFIG_DB ?k)) (\<lambda>_.
     map_err Redis (hset P CONFIG_DB ?k (group_fields i adv)))))))
     (\<lambda>_ s'. ok s' \<and> vrrp_done iface vrid i (view s) (view s')) (\<lambda>_ s'. ok s') s2"
    proof (rule wp_bnd, rule wp_guard, rule wp_bnd, rule wp_own_addresses [OF s2(1)], rule wp_bnd)
      fix own s3
      assume ne: "ks \<noteq> []" and s3: "ok s3" "view s3 = view s2" and own: "\<And>a. own_address (view s2) a \<Longrightarrow> a \<in> set own"
      let ?z = "zip (gi_virtual_ips i) as"
      show "wp (for_each (\<lambda>(vip, addr). guard (addr \<notin> set own) (BadRequest (''virtual IP '' @ vip
          @ '' is already one of this switch's interface addresses''))) ?z)
        (\<lambda>_. wp (bnd (map_err Redis (del P CONFIG_DB ?k)) (\<lambda>_. map_err Redis (hset P CONFIG_DB ?k (group_fields i adv))))
          (\<lambda>_ s'. ok s' \<and> vrrp_done iface vrid i (view s) (view s')) (\<lambda>_ s'. ok s')) (\<lambda>_ s'. ok s') s3"
      proof (rule wp_for_each [where I = "\<lambda>ys t. t = s3 \<and> (\<forall>(v, a)\<in>set ys. a \<notin> set own)"])
        fix t assume "t = s3 \<and> (\<forall>(v, a)\<in>set ?z. a \<notin> set own)"
        then have t: "t = s3" and z: "\<forall>(v, a)\<in>set ?z. a \<notin> set own" by auto
        show "wp (bnd (map_err Redis (del P CONFIG_DB ?k)) (\<lambda>_. map_err Redis (hset P CONFIG_DB ?k (group_fields i adv))))
          (\<lambda>_ s'. ok s' \<and> vrrp_done iface vrid i (view s) (view s')) (\<lambda>_ s'. ok s') t"
          unfolding t
        proof (intro wp_bnd wp_map_err wp_del [OF s3(1)] wp_hset; assumption?)
          fix s4 s5 assume s4: "view s4 = v_del CONFIG_DB ?k (view s3)" and s5: "ok s5"
            "view s5 = v_hset CONFIG_DB ?k (group_fields i adv) (view s4)"
          have v: "view s5 = v_hset CONFIG_DB ?k (group_fields i adv) (v_del CONFIG_DB ?k (view s))"
            using s5 s4 s3 s2 s1 by simp
          have "has_address (view s) iface"
          proof -
            obtain k where "k \<in> set ks" using ne by (cases ks) auto
            then obtain c where "view s CONFIG_DB ((table @ ''|'' @ iface @ ''|'') @ c) \<noteq> Map.empty"
              using ks s1 by (auto simp: starts_with_iff)
            then show ?thesis using table by (auto simp: has_address_def)
          qed
          moreover have "\<exists>a. parse_vip vip = Some a \<and> \<not> own_address (view s) a" if vip: "vip \<in> set (gi_virtual_ips i)" for vip
          proof -
            have l: "length (gi_virtual_ips i) = length as" using ok(9) by (metis length_map)
            obtain n where n: "n < length as" "vip = gi_virtual_ips i ! n" using vip l unfolding in_set_conv_nth by auto
            have "map Some as ! n = map parse_vip (gi_virtual_ips i) ! n" unfolding ok(9) ..
            with n l have "parse_vip vip = Some (as ! n)" by simp
            moreover have "(vip, as ! n) \<in> set ?z" using n l unfolding set_zip by force
            from bspec [OF z this] have "as ! n \<notin> set own" by simp
            then have "\<not> own_address (view s) (as ! n)" using own s1 s2 by metis
            ultimately show ?thesis by blast
          qed
          moreover have "group_of iface vrid r st = group_of_input i adv st" if "map_of r = view s5 CONFIG_DB ?k" for r st
            using that group_readback [OF g c(2)] by (simp add: v)
          moreover have "view s5 db key = view s db key" if "(db, key) \<noteq> (CONFIG_DB, ?k)" for db key
            using that by (simp add: v)
          ultimately show "ok s5 \<and> vrrp_done iface vrid i (view s) (view s5)"
            using s5(1) c(2) by (auto simp: vrrp_done_def)
        qed
      next
        fix ys x zs t
        assume "?z = ys @ x # zs" "t = s3 \<and> (\<forall>(v, a)\<in>set ys. a \<notin> set own)"
        then show "wp ((\<lambda>(vip, addr). guard (addr \<notin> set own) (BadRequest (''virtual IP '' @ vip
          @ '' is already one of this switch's interface addresses''))) x)
          (\<lambda>_ t. t = s3 \<and> (\<forall>(v, a)\<in>set (ys @ [x]). a \<notin> set own)) (\<lambda>_ s'. ok s') t"
          using s3 by (cases x) (auto intro!: wp_guard)
      qed simp
    qed (use s2 in auto)
  qed
qed (use assms in auto)

end

text \<open>
  C27. What a successful PUT of a VRRP group establishes where no read and no scan of the call fails: the group is read back with the addresses, priority, preemption
  and version of the request and the interval rounded to 10 ms, no other row changed, the interface has an address, and
  no virtual address of the group is one the switch itself has on an interface. Where the scans of the own addresses fail, the
  last is not checked (\<open>vrrp_own_scan_failure\<close>).
\<close>

theorem vrrp_put_spec:
  assumes "full_store P view ok up" "ok s" "vrrp_put P iface vrid i s = (Inr u, s')"
  shows "vrrp_done iface vrid i (view s) (view s')"
  using wp_okD [OF full_store.vrrp_put_wp [OF assms(1), OF assms(2)], OF assms(3)] by blast

definition demo_vrrp :: mem where
  "demo_vrrp = mem_seed CONFIG_DB ''FEATURE|vrrp'' [(''state'', ''enabled'')]
     (mem_seed CONFIG_DB ''VLAN_INTERFACE|Vlan10|10.0.0.2/24'' [(''NULL'', ''NULL'')] mem_new)"

definition demo_group :: vrrp_input where
  "demo_group = \<lparr>gi_interface = ''Vlan10'', gi_vrid = 1, gi_virtual_ips = [''10.0.0.1''], gi_priority = 200,
     gi_preempt = True, gi_adv = Some 1004, gi_version = None\<rparr>"

lemma demo_vrrp_ok: "mem_ok demo_vrrp"
  by (simp add: demo_vrrp_def mem_seed_ok)

lemma demo_vrrp_current: "\<exists>p s'. current mem_platform demo_vrrp = (Inr p, s') \<and> vrrp_supported p \<and>
    m_dbs s' = m_dbs demo_vrrp \<and> m_fail_at s' = None"
  by (simp add: current_def gather_def io_of_def demo_vrrp_def feature_entry_def command_lines_def mem_read_file_def mem_run_def
    ok_output_def assemble_def vrrp_supported_def has_feature_def run)

lemma demo_vrrp_put: "\<exists>s'. vrrp_put mem_platform ''Vlan10'' 1 demo_group demo_vrrp = (Inr (), s')"
proof -
  obtain p s1 where c: "(current mem_platform :: (mem, write_error, probe) io) demo_vrrp = (Inr p, s1)" "vrrp_supported p"
    "m_dbs s1 = m_dbs demo_vrrp" "m_fail_at s1 = None"
    using demo_vrrp_current by blast
  have g: "check_group ''Vlan10'' 1 demo_group = Inr [V4 (10, 0, 0, 1)]"
    by (simp add: check_group_def demo_group_def parse_vip_def ip_run run)
  have a: "check_adv (gi_adv demo_group) = Inr (Some 1000)" "gi_virtual_ips demo_group = [''10.0.0.1'']"
    by (simp_all add: check_adv_def demo_group_def round_adv_def)
  have t: "vrrp_l3_table ''Vlan10'' = Some ''VLAN_INTERFACE''"
    by (simp add: vrrp_l3_table_def all_digits_def run)
  have d: "m_dbs demo_vrrp 4 = [(''VLAN_INTERFACE|Vlan10|10.0.0.2/24'', [(''NULL'', ''NULL'')]),
      (''FEATURE|vrrp'', [(''state'', ''enabled'')])]"
    by (simp add: demo_vrrp_def run)
  have o: "own_addresses mem_platform s1 = (Inr [V4 (10, 0, 0, 2)], s1)"
    by (simp add: own_addresses_def table_addresses_def OWN_TABLES_def key_address_def c d ip_run run)
  have f: "group_fields demo_group (Some 1000) \<noteq> []" by (simp add: group_fields_def)
  show ?thesis
    by (simp add: vrrp_put_def c g [simplified] a t o d f run)
qed

theorem vrrp_put_spec_witness:
  "\<exists>s'. vrrp_put mem_platform ''Vlan10'' 1 demo_group demo_vrrp = (Inr (), s') \<and>
     vrrp_done ''Vlan10'' 1 demo_group (mem_view demo_vrrp) (mem_view s')"
proof -
  obtain s' where x: "vrrp_put mem_platform ''Vlan10'' 1 demo_group demo_vrrp = (Inr (), s')" using demo_vrrp_put by blast
  from vrrp_put_spec [OF mem_full.full_store_axioms, OF demo_vrrp_ok, OF x] x show ?thesis by blast
qed

text \<open>When the scans for the addresses of the switch fail, it has none, and a virtual address may be one of its own.\<close>

lemma vrrp_own_scan_failure:
  "own_addresses (mem_platform\<lparr>scan := \<lambda>db pat s. (Inl ''timed out'', s)\<rparr>) s = (Inr [], s)"
  by (simp add: own_addresses_def OWN_TABLES_def table_addresses_def run)

end
