(* ===== verification/Vxlan.thy ===== *)
theory Vxlan
  imports SwitchingRead Ip
begin

text \<open>
  VXLAN and EVPN, \<^verbatim>\<open>src/src/sonic/vxlan.rs\<close>: the one VTEP of the switch, its EVPN binding and the VLAN-to-VNI maps, with
  the status of the remote VTEPs.
\<close>

definition VXLAN_UNSUPPORTED :: string where
  "VXLAN_UNSUPPORTED =
     ''VXLAN requires SONiC 202012 or newer; this image's orchagent does not handle VXLAN_TUNNEL''"

definition EVPN_NEEDS_FRR :: string where
  "EVPN_NEEDS_FRR =
     ''binding the VTEP to EVPN requires FRR with EVPN support (the bgp container), which is not running on this image''"

section \<open>Configuration rows\<close>

primrec vtep_from :: "'s platform \<Rightarrow> string list \<Rightarrow> ('s, 'e, (string \<times> string) option) io" where
  "vtep_from P [] = ret None"
| "vtep_from P (k # ks) = (case key_suffix k ''VXLAN_TUNNEL|'' of
       None \<Rightarrow> vtep_from P ks
     | Some name \<Rightarrow>
         if CHR ''|'' \<in> set name then vtep_from P ks
         else bnd (row_of P CONFIG_DB k) (\<lambda>r. ret (Some (name, opt_or (field r ''src_ip'') []))))"

definition vtep_row :: "'s platform \<Rightarrow> ('s, 'e, (string \<times> string) option) io" where
  "vtep_row P = bnd (keys_of P CONFIG_DB ''VXLAN_TUNNEL|*'') (\<lambda>ks. vtep_from P (sort ks))"

definition map_from_key :: "string \<Rightarrow> (nat \<times> nat) option" where
  "map_from_key name =
     Option.bind (strip_prefix ''map_'' name) (\<lambda>rest.
     Option.bind (split_once_str ''_Vlan'' rest) (\<lambda>(vni, vlan).
     Option.bind (parse_uint 32 vlan) (\<lambda>vlan.
     Option.bind (parse_uint 32 vni) (\<lambda>vni. Some (vlan, vni)))))"

definition parse_map :: "string \<Rightarrow> row \<Rightarrow> (nat \<times> nat) option" where
  "parse_map name cfg =
     (let vlan = Option.bind (Option.bind (field cfg ''vlan'') (strip_prefix ''Vlan'')) (parse_uint 32);
          vni = Option.bind (field cfg ''vni'') (parse_uint 32)
      in case (vlan, vni) of
           (Some vlan, Some vni) \<Rightarrow> Some (vlan, vni)
         | _ \<Rightarrow> map_from_key name)"

definition map_of_key :: "'s platform \<Rightarrow> string \<Rightarrow> ('s, 'e, (nat \<times> nat) option) io" where
  "map_of_key P key = (case two_parts key ''VXLAN_TUNNEL_MAP|'' of
       None \<Rightarrow> ret None
     | Some (_, name) \<Rightarrow> bnd (row_of P CONFIG_DB key) (\<lambda>cfg. ret (parse_map name cfg)))"

definition config_maps :: "'s platform \<Rightarrow> ('s, 'e, (nat \<times> nat) list) io" where
  "config_maps P =
     bnd (keys_of P CONFIG_DB ''VXLAN_TUNNEL_MAP|*'') (\<lambda>ks.
     bnd (collect (map_of_key P) ks) (\<lambda>ms. ret (sort (List.map_filter id ms))))"

definition valid_object_name :: "string \<Rightarrow> bool" where
  "valid_object_name name \<longleftrightarrow> name \<noteq> [] \<and> length name \<le> 63 \<and> list_all (\<lambda>c. is_alnum c \<or> c \<in> set ''-_.'') name"

definition vxlan_capability :: "probe \<Rightarrow> capability" where
  "vxlan_capability p = (if bgp_available p then cap_yes else cap_yes_with_reason EVPN_NEEDS_FRR)"

definition vtep_json :: "(string \<times> string) option \<Rightarrow> json" where
  "vtep_json v = jopt (\<lambda>(n, s). JObj [(''name'', JStr n), (''source_ip'', JStr s)]) v"

definition vxlan_get :: "'s platform \<Rightarrow> ('s, string, json) io" where
  "vxlan_get P =
     bnd (current P) (\<lambda>p.
     if \<not> vxlan_supported p then
       ret (JObj [(''capability'', cap_json (cap_no VXLAN_UNSUPPORTED)), (''vtep'', JNull), (''evpn_nvo'', JBool False),
         (''vlan_vni_maps'', JArr [])])
     else
       bnd (vtep_row P) (\<lambda>vtep.
       bnd (keys_of P CONFIG_DB ''EVPN_NVO|*'') (\<lambda>nvo.
       bnd (config_maps P) (\<lambda>maps.
       ret (JObj [(''capability'', cap_json (vxlan_capability p)), (''vtep'', vtep_json vtep), (''evpn_nvo'', JBool (nvo \<noteq> [])),
         (''vlan_vni_maps'', JArr (map (\<lambda>(vlan, vni). JObj [(''vlan_id'', JNum vlan), (''vni'', JNum vni)]) maps))])))))"

section \<open>The VTEP\<close>

record vtep_input =
  vt_name :: string
  vt_source_ip :: string
  vt_evpn_nvo :: bool

definition del_config :: "'s platform \<Rightarrow> string \<Rightarrow> ('s, unit) handler" where
  "del_config P key = map_err Redis (del P CONFIG_DB key)"

definition drop_old_vtep :: "'s platform \<Rightarrow> string \<Rightarrow> ('s, unit) handler" where
  "drop_old_vtep P name =
     bnd (vtep_row P) (\<lambda>cur. case cur of
       None \<Rightarrow> ret ()
     | Some (cur, _) \<Rightarrow>
         if cur = name then ret ()
         else bnd (keys_of P CONFIG_DB ''VXLAN_TUNNEL_MAP|*'') (\<lambda>ms.
              bnd (guard (ms = []) (Conflict (''cannot rename VTEP '' @ cur
                @ '' while VLAN-VNI maps exist; remove the maps first''))) (\<lambda>_.
              del_config P (''VXLAN_TUNNEL|'' @ cur))))"

definition put_vtep :: "'s platform \<Rightarrow> vtep_input \<Rightarrow> ('s, unit) handler" where
  "put_vtep P i =
     bnd (guard (valid_object_name (vt_name i)) (BadRequest (''invalid VTEP name '' @ dbg (vt_name i)))) (\<lambda>_.
     bnd (guard (parse_ip (vt_source_ip i) \<noteq> None) (BadRequest (''invalid source_ip '' @ dbg (vt_source_ip i)))) (\<lambda>_.
     bnd (current P) (\<lambda>p.
     bnd (guard (vxlan_supported p) (Conflict VXLAN_UNSUPPORTED)) (\<lambda>_.
     bnd (guard (\<not> (vt_evpn_nvo i \<and> \<not> bgp_available p)) (Conflict EVPN_NEEDS_FRR)) (\<lambda>_.
     bnd (drop_old_vtep P (vt_name i)) (\<lambda>_.
     let key = ''VXLAN_TUNNEL|'' @ vt_name i in
     bnd (del_config P key) (\<lambda>_.
     bnd (map_err Redis (hset P CONFIG_DB key [(''src_ip'', vt_source_ip i)])) (\<lambda>_.
     bnd (keys_of P CONFIG_DB ''EVPN_NVO|*'') (\<lambda>ks.
     bnd (for_each (del_config P) ks) (\<lambda>_.
     if vt_evpn_nvo i then map_err Redis (hset P CONFIG_DB ''EVPN_NVO|nvo'' [(''source_vtep'', vt_name i)])
     else ret ()))))))))))"

definition delete_vtep :: "'s platform \<Rightarrow> ('s, unit) handler" where
  "delete_vtep P =
     bnd (vtep_row P) (\<lambda>v. case v of
       None \<Rightarrow> fail (NotFound ''no VTEP is configured'')
     | Some (name, _) \<Rightarrow>
         bnd (keys_of P CONFIG_DB ''VXLAN_TUNNEL_MAP|*'') (\<lambda>ms.
         bnd (guard (ms = []) (Conflict (''VTEP '' @ name @ '' still has '' @ show_nat (length ms)
           @ '' VLAN-VNI map(s); remove the maps first''))) (\<lambda>_.
         bnd (keys_of P CONFIG_DB ''EVPN_NVO|*'') (\<lambda>ks.
         bnd (for_each (del_config P) ks) (\<lambda>_.
         del_config P (''VXLAN_TUNNEL|'' @ name))))))"

section \<open>The maps\<close>

record map_entry =
  me_vlan :: nat
  me_vni :: nat

fun check_maps :: "nat list \<Rightarrow> nat list \<Rightarrow> map_entry list \<Rightarrow> string + unit" where
  "check_maps vs ns [] = Inr ()"
| "check_maps vs ns (m # ms) =
     (if \<not> (1 \<le> me_vlan m \<and> me_vlan m \<le> 4094) then Inl (''invalid vlan_id '' @ show_nat (me_vlan m) @ '' (must be 1-4094)'')
      else if \<not> (1 \<le> me_vni m \<and> me_vni m \<le> 16777215) then
        Inl (''invalid vni '' @ show_nat (me_vni m) @ '' (must be 1-16777215)'')
      else if me_vlan m \<in> set vs then Inl (''VLAN '' @ show_nat (me_vlan m) @ '' is mapped twice'')
      else if me_vni m \<in> set ns then Inl (''VNI '' @ show_nat (me_vni m) @ '' is mapped to two VLANs'')
      else check_maps (me_vlan m # vs) (me_vni m # ns) ms)"

definition map_key :: "string \<Rightarrow> map_entry \<Rightarrow> string" where
  "map_key vtep m = ''VXLAN_TUNNEL_MAP|'' @ vtep @ ''|map_'' @ show_nat (me_vni m) @ ''_Vlan'' @ show_nat (me_vlan m)"

definition map_fields :: "map_entry \<Rightarrow> row" where
  "map_fields m = [(''vlan'', ''Vlan'' @ show_nat (me_vlan m)), (''vni'', show_nat (me_vni m))]"

text \<open>The desired rows as a sorted map from key to fields.\<close>

definition desired_maps :: "string \<Rightarrow> map_entry list \<Rightarrow> (string \<times> row) list" where
  "desired_maps vtep ms = sort (al_puts (map (\<lambda>m. (map_key vtep m, map_fields m)) ms) [])"

definition check_map_vlan :: "'s platform \<Rightarrow> map_entry \<Rightarrow> ('s, unit) handler" where
  "check_map_vlan P m =
     bnd (map_err Redis (exists P CONFIG_DB (''VLAN|Vlan'' @ show_nat (me_vlan m)))) (\<lambda>e.
     guard e (BadRequest (''VLAN '' @ show_nat (me_vlan m) @ '' does not exist'')))"

definition put_maps :: "'s platform \<Rightarrow> map_entry list \<Rightarrow> ('s, unit) handler" where
  "put_maps P ms =
     bnd (lift (smap_err BadRequest (check_maps [] [] ms))) (\<lambda>_.
     bnd (current P) (\<lambda>p.
     bnd (guard (vxlan_supported p) (Conflict VXLAN_UNSUPPORTED)) (\<lambda>_.
     bnd (vtep_row P) (\<lambda>v. case v of
       None \<Rightarrow> fail (Conflict ''configure a VTEP before mapping VLANs to VNIs'')
     | Some (vtep, _) \<Rightarrow>
         bnd (for_each (check_map_vlan P) ms) (\<lambda>_.
         let desired = desired_maps vtep ms in
         bnd (keys_of P CONFIG_DB ''VXLAN_TUNNEL_MAP|*'') (\<lambda>ks.
         bnd (for_each (\<lambda>key. if map_of desired key = None then del_config P key else ret ()) ks) (\<lambda>_.
         for_each (\<lambda>(key, fs). map_err Redis (hset P CONFIG_DB key fs)) desired)))))))"

section \<open>Status\<close>

record remote =
  rt_oper :: "string option"
  rt_source :: "string option"
  rt_vnis :: "nat list"

definition no_remote :: remote where
  "no_remote = \<lparr>rt_oper = None, rt_source = None, rt_vnis = []\<rparr>"

type_synonym remotes = "(string \<times> remote) list"

definition on_remote :: "string \<Rightarrow> (remote \<Rightarrow> remote) \<Rightarrow> remotes \<Rightarrow> remotes" where
  "on_remote ip f rs = al_put ip (f (opt_or (map_of rs ip) no_remote)) rs"

definition tunnel_oper :: "row \<Rightarrow> string option" where
  "tunnel_oper st = (case map_option to_lower (field st ''operstatus'') of
       Some s \<Rightarrow> if contains s ''up'' then Some ''up'' else if contains s ''down'' then Some ''down'' else None
     | None \<Rightarrow> None)"

text \<open>One tunnel row: the remotes and the state of the local tunnel.\<close>

definition add_tunnel :: "string option \<Rightarrow> string \<Rightarrow> row \<Rightarrow> remotes \<times> string option \<Rightarrow> remotes \<times> string option" where
  "add_tunnel vtep name st = (\<lambda>(rs, local). let oper = tunnel_oper st in
     case strip_prefix ''EVPN_'' name of
       Some ip \<Rightarrow> (on_remote ip (\<lambda>r. r\<lparr>rt_oper := oper, rt_source := Some ''evpn''\<rparr>) rs, local)
     | None \<Rightarrow>
         if Some name = vtep then (rs, oper)
         else (case field st ''dst_ip'' of
             Some dst \<Rightarrow> (on_remote dst (\<lambda>r. r\<lparr>rt_oper := oper, rt_source := Some ''static''\<rparr>) rs, local)
           | None \<Rightarrow> (rs, local)))"

primrec tunnels :: "'s platform \<Rightarrow> string option \<Rightarrow> string list \<Rightarrow> remotes \<times> string option \<Rightarrow>
    ('s, 'e, remotes \<times> string option) io" where
  "tunnels P vtep [] acc = ret acc"
| "tunnels P vtep (key # ks) acc = (case key_suffix key ''VXLAN_TUNNEL_TABLE|'' of
       None \<Rightarrow> tunnels P vtep ks acc
     | Some name \<Rightarrow> bnd (row_of P STATE_DB key) (\<lambda>st. tunnels P vtep ks (add_tunnel vtep name st acc)))"

definition remote_vni :: "(nat \<times> nat) list \<Rightarrow> string \<Rightarrow> row \<Rightarrow> nat option" where
  "remote_vni cfg vlan r = opt_else (Option.bind (field r ''vni'') (parse_uint 32))
     (Option.bind (Option.bind (strip_prefix ''Vlan'' vlan) (parse_uint 32)) (map_of (rev cfg)))"

definition add_vni :: "nat option \<Rightarrow> remote \<Rightarrow> remote" where
  "add_vni vni r =
     (let r = (if rt_source r = None then r\<lparr>rt_source := Some ''evpn''\<rparr> else r)
      in case vni of None \<Rightarrow> r | Some n \<Rightarrow> r\<lparr>rt_vnis := sort_dedup (n # rt_vnis r)\<rparr>)"

primrec remote_vnis :: "'s platform \<Rightarrow> (nat \<times> nat) list \<Rightarrow> string list \<Rightarrow> remotes \<Rightarrow> ('s, 'e, remotes) io" where
  "remote_vnis P cfg [] rs = ret rs"
| "remote_vnis P cfg (key # ks) rs =
     (case Option.bind (strip_prefix ''VXLAN_REMOTE_VNI_TABLE:'' key) (split_once (CHR '':'')) of
       None \<Rightarrow> remote_vnis P cfg ks rs
     | Some (vlan, ip) \<Rightarrow> bnd (row_of P APPL_DB key) (\<lambda>r.
         remote_vnis P cfg ks (on_remote ip (add_vni (remote_vni cfg vlan r)) rs)))"

definition remote_json :: "string \<times> remote \<Rightarrow> json" where
  "remote_json = (\<lambda>(ip, r). JObj [(''ip'', JStr ip), (''oper_status'', JStr (opt_or (rt_oper r) ''unknown'')),
     (''source'', JStr (opt_or (rt_source r) ''unknown'')), (''vnis'', JArr (map JNum (rt_vnis r)))])"

definition vxlan_get_status :: "'s platform \<Rightarrow> ('s, string, json) io" where
  "vxlan_get_status P =
     bnd (current P) (\<lambda>p.
     if \<not> vxlan_supported p then
       ret (JObj [(''capability'', cap_json (cap_no VXLAN_UNSUPPORTED)), (''vtep'', JNull), (''remote_vteps'', JArr []),
         (''mappings'', JArr [])])
     else
       bnd (vtep_row P) (\<lambda>vtep.
       bnd (keys_of P STATE_DB ''VXLAN_TUNNEL_TABLE|*'') (\<lambda>ts.
       bnd (tunnels P (map_option fst vtep) ts ([], None)) (\<lambda>(rs, local).
       bnd (config_maps P) (\<lambda>cfg.
       bnd (keys_of P APPL_DB ''VXLAN_REMOTE_VNI_TABLE:*'') (\<lambda>vs.
       bnd (remote_vnis P cfg vs rs) (\<lambda>rs.
       bnd (config_maps P) (\<lambda>maps.
       ret (JObj [(''capability'', cap_json (vxlan_capability p)), (''vtep'', vtep_json vtep),
         (''remote_vteps'', JArr (map remote_json (sort_by (\<lambda>a b. cmp (fst a) (fst b)) rs))),
         (''mappings'', JArr (map (\<lambda>(vlan, vni). JObj [(''vlan_id'', JNum vlan), (''vni'', JNum vni),
            (''oper_status'', JStr (opt_or local ''unknown''))]) maps))])))))))))"

end
