(* ===== verification/Feature.thy ===== *)
theory Feature
  imports SwitchingRead
begin

text \<open>
  The idioms that the feature modules under \<^verbatim>\<open>src/src/sonic/\<close> share: CONFIG_DB commands whose failure is
  \<open>WriteError::Redis\<close>, range checks, list-valued fields, and the fields of a patch, which are set, cleared or left alone.
\<close>

section \<open>CONFIG_DB commands of a handler\<close>

abbreviation cfg_hset :: "'s platform \<Rightarrow> string \<Rightarrow> row \<Rightarrow> ('s, unit) handler" where
  "cfg_hset P key fs \<equiv> map_err Redis (hset P CONFIG_DB key fs)"

abbreviation cfg_hdel :: "'s platform \<Rightarrow> string \<Rightarrow> string list \<Rightarrow> ('s, unit) handler" where
  "cfg_hdel P key ks \<equiv> map_err Redis (hdel P CONFIG_DB key ks)"

abbreviation cfg_del :: "'s platform \<Rightarrow> string \<Rightarrow> ('s, unit) handler" where
  "cfg_del P key \<equiv> map_err Redis (del P CONFIG_DB key)"

abbreviation cfg_exists :: "'s platform \<Rightarrow> string \<Rightarrow> ('s, bool) handler" where
  "cfg_exists P key \<equiv> map_err Redis (exists P CONFIG_DB key)"

abbreviation cfg_scan_all :: "'s platform \<Rightarrow> string \<Rightarrow> ('s, string list) handler" where
  "cfg_scan_all P pat \<equiv> map_err Redis (scan P CONFIG_DB pat)"

abbreviation cfg_row :: "'s platform \<Rightarrow> string \<Rightarrow> ('s, row) handler" where
  "cfg_row P key \<equiv> map_err Redis (hgetall P CONFIG_DB key)"

abbreviation bad_request :: "string + 'a \<Rightarrow> ('s, 'a) handler" where
  "bad_request r \<equiv> lift (smap_err BadRequest r)"

section \<open>Fields\<close>

definition num32 :: "row \<Rightarrow> string \<Rightarrow> nat option" where
  "num32 h k = Option.bind (parse_num (field h k)) (\<lambda>n. if n < 2 ^ 32 then Some n else None)"

definition flag :: "row \<Rightarrow> string \<Rightarrow> bool" where
  "flag cfg k = opt_or (parse_bool (field cfg k)) False"

text \<open>A comma-separated value: trimmed parts, empty ones dropped.\<close>

definition csv_list :: "string option \<Rightarrow> string list" where
  "csv_list v = (case v of None \<Rightarrow> [] | Some s \<Rightarrow> filter (\<lambda>p. p \<noteq> []) (map trim (split_on (CHR '','') s)))"

definition check_range :: "string \<Rightarrow> nat \<Rightarrow> nat \<Rightarrow> nat \<Rightarrow> string + unit" where
  "check_range name v lo hi = check (lo \<le> v \<and> v \<le> hi)
     (''invalid '' @ name @ '' '' @ show_nat v @ '' (must be '' @ show_nat lo @ ''-'' @ show_nat hi @ '')'')"

lemma check_range_Inr [simp]: "check_range name v lo hi = Inr u \<longleftrightarrow> lo \<le> v \<and> v \<le> hi"
  by (simp add: check_range_def)

definition opt_pair :: "string \<Rightarrow> string option \<Rightarrow> row" where
  "opt_pair k v = (case v of None \<Rightarrow> [] | Some v \<Rightarrow> [(k, v)])"

lemma opt_pair_simps [simp]: "opt_pair k None = []" "opt_pair k (Some v) = [(k, v)]"
  by (simp_all add: opt_pair_def)

section \<open>Patches\<close>

text \<open>A field of a patch: present, \<open>null\<close> (delete the field), or absent.\<close>

type_synonym patch_field = "string \<times> string option option"

definition write_patch :: "'s platform \<Rightarrow> string \<Rightarrow> patch_field \<Rightarrow> ('s, unit) handler" where
  "write_patch P key = (\<lambda>(name, v). case v of
       Some (Some x) \<Rightarrow> cfg_hset P key [(name, x)]
     | Some None \<Rightarrow> cfg_hdel P key [name]
     | None \<Rightarrow> ret ())"

definition num_patch :: "nat option option \<Rightarrow> string option option" where
  "num_patch v = map_option (map_option show_nat) v"

definition bool_patch :: "bool option \<Rightarrow> string option option" where
  "bool_patch v = map_option (\<lambda>b. Some (bool_str b)) v"

text \<open>The row after a patch.\<close>

definition v_patch :: "string \<Rightarrow> patch_field \<Rightarrow> dbs \<Rightarrow> dbs" where
  "v_patch key = (\<lambda>(name, v) w. case v of
       Some (Some x) \<Rightarrow> v_hset CONFIG_DB key [(name, x)] w
     | Some None \<Rightarrow> v_hdel CONFIG_DB key [name] w
     | None \<Rightarrow> w)"

definition v_patches :: "string \<Rightarrow> patch_field list \<Rightarrow> dbs \<Rightarrow> dbs" where
  "v_patches key ps v = foldl (\<lambda>w p. v_patch key p w) v ps"

lemma v_patches_simps [simp]: "v_patches key [] v = v" "v_patches key (p # ps) v = v_patches key ps (v_patch key p v)"
  by (simp_all add: v_patches_def)

lemma v_patches_snoc: "v_patches key (ps @ [p]) v = v_patch key p (v_patches key ps v)"
  by (simp add: v_patches_def)

lemma v_patch_other: "(d, k) \<noteq> (CONFIG_DB, key) \<Longrightarrow> v_patch key p v d k = v d k"
  by (cases p) (auto simp: v_patch_def split: option.split)

lemma v_patches_other: "(d, k) \<noteq> (CONFIG_DB, key) \<Longrightarrow> v_patches key ps v d k = v d k"
  by (induction ps arbitrary: v) (simp_all add: v_patch_other)

lemma v_patch_field:
  "v_patch key (name, x) v CONFIG_DB key f =
     (if f = name then (case x of None \<Rightarrow> v CONFIG_DB key f | Some y \<Rightarrow> y) else v CONFIG_DB key f)"
  by (auto simp: v_patch_def restrict_map_def split: option.split)

text \<open>Patching distinct fields: each field has the value of its patch, if there is one.\<close>

lemma v_patches_field:
  assumes "distinct (map fst ps)"
  shows "v_patches key ps v CONFIG_DB key f = (case map_of ps f of Some (Some y) \<Rightarrow> y | _ \<Rightarrow> v CONFIG_DB key f)"
  using assms
proof (induction ps arbitrary: v)
  case (Cons p ps)
  obtain name x where p: "p = (name, x)" by (cases p)
  show ?case
  proof (cases "f = name")
    case True
    with Cons.prems p have "map_of ps f = None" by (auto simp: map_of_eq_None_iff)
    with True Cons show ?thesis by (simp add: p v_patch_field split: option.split)
  next
    case False
    with Cons show ?thesis by (simp add: p v_patch_field split: option.split)
  qed
qed simp

context redis_store
begin

lemma wp_write_patch:
  assumes "ok s" "\<And>s'. ok s' \<Longrightarrow> view s' = v_patch key p (view s) \<Longrightarrow> Q () s'" "\<And>e s'. ok s' \<Longrightarrow> view s' = view s \<Longrightarrow> E (Redis e) s'"
  shows "wp (write_patch P key p) Q E s"
proof -
  obtain name x where p: "p = (name, x)" by (cases p)
  show ?thesis
  proof (cases x)
    case None
    then show ?thesis unfolding write_patch_def p prod.case None option.case
      by (intro wp_ret assms(2)) (simp_all add: assms(1) p v_patch_def None)
  next
    case (Some y)
    show ?thesis
    proof (cases y)
      case None
      show ?thesis unfolding write_patch_def p prod.case Some None option.case
        by (intro wp_map_err wp_hdel) (simp_all add: assms p v_patch_def None Some)
    next
      case (Some z)
      show ?thesis unfolding write_patch_def p prod.case \<open>x = Some y\<close> Some option.case
        by (intro wp_map_err wp_hset) (simp_all add: assms p v_patch_def \<open>x = Some y\<close> Some)
    qed
  qed
qed

lemma wp_write_patches:
  assumes "ok s" "\<And>s'. ok s' \<Longrightarrow> view s' = v_patches key ps (view s) \<Longrightarrow> Q () s'" "\<And>e s'. ok s' \<Longrightarrow> E (Redis e) s'"
  shows "wp (for_each (write_patch P key) ps) Q E s"
proof (rule wp_for_each [where I = "\<lambda>ys t. ok t \<and> view t = v_patches key ys (view s)"])
  fix ys z zs t assume "ok t \<and> view t = v_patches key ys (view s)"
  then show "wp (write_patch P key z) (\<lambda>_ t. ok t \<and> view t = v_patches key (ys @ [z]) (view s)) E t"
    by (intro wp_write_patch) (simp_all add: assms(3) v_patches_snoc)
qed (use assms in auto)

text \<open>A loop that deletes the keys that satisfy a condition.\<close>

lemma wp_del_where:
  assumes "ok s" "\<And>s'. ok s' \<Longrightarrow> view s' = v_drop CONFIG_DB (\<lambda>k. k \<in> set ks \<and> p k) (view s) \<Longrightarrow> Q () s'" "\<And>e s'. ok s' \<Longrightarrow> E e s'"
  shows "wp (for_each (\<lambda>key. if p key then cfg_del P key else ret ()) ks) Q E s"
proof (rule wp_for_each [where I = "\<lambda>ys t. ok t \<and> view t = v_drop CONFIG_DB (\<lambda>k. k \<in> set ys \<and> p k) (view s)"])
  fix ys z zs t assume t: "ok t \<and> view t = v_drop CONFIG_DB (\<lambda>k. k \<in> set ys \<and> p k) (view s)"
  have e: "(\<lambda>k. k \<in> set (ys @ [z]) \<and> p k) = (\<lambda>k. p z \<and> k = z \<or> k \<in> set ys \<and> p k)" by auto
  show "wp (if p z then cfg_del P z else ret ()) (\<lambda>_ t. ok t \<and> view t = v_drop CONFIG_DB (\<lambda>k. k \<in> set (ys @ [z]) \<and> p k) (view s)) E t"
    unfolding e by (intro wp_if wp_map_err wp_del wp_ret) (use t assms(3) in \<open>simp_all add: v_del_drop\<close>)
qed (use assms in auto)

end

end
