(* ===== verification/VxlanProps.thy ===== *)
theory VxlanProps
  imports Vxlan Feature MemPlatform "HOL-Library.Multiset"
begin

text \<open>
  Properties of the VLAN-to-VNI maps: a successful PUT makes the stored maps exactly the requested ones.
\<close>

section \<open>Keys and rows\<close>

lemma append_at_char:
  fixes a b a' b' :: string and c :: char
  assumes "a @ c # b = a' @ c # b'" "c \<notin> set a" "c \<notin> set a'"
  shows "a = a' \<and> b = b'"
proof -
  have "split_once c (a @ c # b) = Some (a, b)" "split_once c (a' @ c # b') = Some (a', b')"
    by (rule split_once_append [OF assms(2)], rule split_once_append [OF assms(3)])
  then show ?thesis unfolding assms(1) by simp
qed

lemma map_key_inject: "map_key vtep m = map_key vtep m' \<Longrightarrow> me_vlan m = me_vlan m' \<and> me_vni m = me_vni m'"
proof -
  assume "map_key vtep m = map_key vtep m'"
  then have e: "show_nat (me_vni m) @ CHR ''_'' # ''Vlan'' @ show_nat (me_vlan m)
      = show_nat (me_vni m') @ CHR ''_'' # ''Vlan'' @ show_nat (me_vlan m')"
    by (simp add: map_key_def)
  have u: "CHR ''_'' \<notin> set (show_nat n)" for n by (rule show_nat_no_char) (simp add: is_digit_def byte_def)
  from append_at_char [OF e u u] show ?thesis by simp
qed

lemma map_key_prefix [simp]: "starts_with ''VXLAN_TUNNEL_MAP|'' (map_key vtep m)"
  by (simp add: starts_with_iff map_key_def)

lemma check_maps_ok: "check_maps vs ns ms = Inr u \<Longrightarrow>
    (\<forall>m\<in>set ms. 1 \<le> me_vlan m \<and> me_vlan m \<le> 4094 \<and> 1 \<le> me_vni m \<and> me_vni m \<le> 16777215) \<and>
    distinct (map me_vlan ms) \<and> distinct (map me_vni ms) \<and>
    set (map me_vlan ms) \<inter> set vs = {} \<and> set (map me_vni ms) \<inter> set ns = {}"
proof (induction vs ns ms rule: check_maps.induct)
  case (2 vs ns m ms)
  from "2.prems" have m: "1 \<le> me_vlan m" "me_vlan m \<le> 4094" "1 \<le> me_vni m" "me_vni m \<le> 16777215"
      "me_vlan m \<notin> set vs" "me_vni m \<notin> set ns" "check_maps (me_vlan m # vs) (me_vni m # ns) ms = Inr u"
    unfolding check_maps.simps by (meson Inl_Inr_False)+
  from "2.IH" [OF _ _ _ _ m(7)] m(1-6) have
    "\<forall>m\<in>set ms. 1 \<le> me_vlan m \<and> me_vlan m \<le> 4094 \<and> 1 \<le> me_vni m \<and> me_vni m \<le> 16777215"
    "distinct (map me_vlan ms)" "distinct (map me_vni ms)"
    "set (map me_vlan ms) \<inter> set (me_vlan m # vs) = {}" "set (map me_vni ms) \<inter> set (me_vni m # ns) = {}"
    by simp_all
  with m show ?case by auto
qed simp

lemma map_of_sort: "distinct (map fst xs) \<Longrightarrow> map_of (sort xs) = map_of xs"
  by (rule map_of_functional) simp

lemma distinct_sort_keys: "distinct (map fst (sort xs)) = distinct (map fst xs)"
  by (rule mset_eq_imp_distinct_iff) simp

lemma desired_maps_of:
  assumes "check_maps [] [] ms = Inr u"
  shows "distinct (map fst (desired_maps vtep ms))"
    and "m \<in> set ms \<Longrightarrow> map_of (desired_maps vtep ms) (map_key vtep m) = Some (map_fields m)"
    and "map_of (desired_maps vtep ms) key = None \<longleftrightarrow> key \<notin> map_key vtep ` set ms"
proof -
  let ?l = "map (\<lambda>m. (map_key vtep m, map_fields m)) ms"
  have d: "distinct (map fst ?l)"
  proof -
    have "distinct (map me_vlan ms)" using check_maps_ok [OF assms] by blast
    then have "distinct (map (map_key vtep) ms)"
      unfolding distinct_map inj_on_def using map_key_inject by blast
    then show ?thesis by (simp add: comp_def)
  qed
  have a: "distinct (map fst (al_puts ?l []))" by simp
  have m: "map_of (al_puts ?l []) = map_of ?l" using d by (simp add: map_of_al_puts map_of_rev_distinct)
  show "distinct (map fst (desired_maps vtep ms))" unfolding desired_maps_def distinct_sort_keys by simp
  have e: "map_of (desired_maps vtep ms) = map_of ?l" unfolding desired_maps_def map_of_sort [OF a] m ..
  show "map_of (desired_maps vtep ms) (map_key vtep m) = Some (map_fields m)" if "m \<in> set ms"
    unfolding e by (rule map_of_is_SomeI [OF d]) (use that in auto)
  show "map_of (desired_maps vtep ms) key = None \<longleftrightarrow> key \<notin> map_key vtep ` set ms"
    unfolding e map_of_eq_None_iff by (simp add: image_image)
qed

lemma parse_stored_map:
  assumes "map_of r = w ++ map_of (map_fields m)" "1 \<le> me_vlan m" "me_vlan m \<le> 4094" "me_vni m \<le> 16777215"
  shows "parse_map name r = Some (me_vlan m, me_vni m)"
proof -
  have "trim (''Vlan'' @ show_nat (me_vlan m)) = ''Vlan'' @ show_nat (me_vlan m)"
    by (rule trim_id) (use show_nat_digits [of "me_vlan m"] digit_not_space in \<open>auto simp: is_space_def byte_def\<close>)
  then have "field r ''vlan'' = Some (''Vlan'' @ show_nat (me_vlan m))" "field r ''vni'' = Some (show_nat (me_vni m))"
    by (simp_all add: field_def assms(1) map_fields_def)
  then show ?thesis using assms(2-4) by (simp add: parse_map_def)
qed

section \<open>The operation\<close>

definition maps_done :: "map_entry list \<Rightarrow> dbs \<Rightarrow> dbs \<Rightarrow> bool" where
  "maps_done ms v v' \<longleftrightarrow> (\<exists>vtep. v CONFIG_DB (''VXLAN_TUNNEL|'' @ vtep) \<noteq> Map.empty \<and>
     (\<forall>m\<in>set ms. v CONFIG_DB (''VLAN|Vlan'' @ show_nat (me_vlan m)) \<noteq> Map.empty \<and>
        (\<forall>r name. map_of r = v' CONFIG_DB (map_key vtep m) \<longrightarrow> parse_map name r = Some (me_vlan m, me_vni m))) \<and>
     (\<forall>key. starts_with ''VXLAN_TUNNEL_MAP|'' key \<and> key \<notin> map_key vtep ` set ms \<longrightarrow> v' CONFIG_DB key = Map.empty) \<and>
     (\<forall>db key. db \<noteq> CONFIG_DB \<or> \<not> starts_with ''VXLAN_TUNNEL_MAP|'' key \<longrightarrow> v' db key = v db key))"

definition put_rows :: "(string \<times> row) list \<Rightarrow> dbs \<Rightarrow> dbs" where
  "put_rows rs v = foldl (\<lambda>v (k, fs). v_hset CONFIG_DB k fs v) v rs"

lemma put_rows_other: "db \<noteq> CONFIG_DB \<or> key \<notin> fst ` set rs \<Longrightarrow> put_rows rs v db key = v db key"
  unfolding put_rows_def by (induction rs arbitrary: v) auto

lemma put_rows_same:
  "distinct (map fst rs) \<Longrightarrow> (key, fs) \<in> set rs \<Longrightarrow> put_rows rs v CONFIG_DB key = v CONFIG_DB key ++ map_of (rev fs)"
proof (induction rs arbitrary: v)
  case (Cons x rs)
  obtain k gs where x: "x = (k, gs)" by (cases x)
  have p: "put_rows (x # rs) v = put_rows rs (v_hset CONFIG_DB k gs v)" by (simp add: put_rows_def x)
  show ?case
  proof (cases "key = k")
    case True
    with Cons.prems x have "gs = fs" "key \<notin> fst ` set rs" by force+
    with True show ?thesis by (simp add: p put_rows_other)
  next
    case False
    with Cons.prems x have "distinct (map fst rs)" "(key, fs) \<in> set rs" by auto
    from Cons.IH [OF this] False show ?thesis unfolding p by simp
  qed
qed simp

context full_store
begin

lemma wp_vtep_row:
  assumes "ok s"
    and "\<And>v s'. ok s' \<Longrightarrow> view s' = view s \<Longrightarrow>
      (\<And>n i. v = Some (n, i) \<Longrightarrow> view s CONFIG_DB (''VXLAN_TUNNEL|'' @ n) \<noteq> Map.empty) \<Longrightarrow> Q v s'"
  shows "wp (vtep_row P) Q E s"
  unfolding vtep_row_def
proof (intro wp_bnd wp_keys_of_prefix [where pre = "''VXLAN_TUNNEL|''", simplified append.simps] assms(1))
  show "CHR ''*'' \<notin> set ''VXLAN_TUNNEL|''" "plain_glob ''VXLAN_TUNNEL|''" by simp_all
next
  fix ks s1
  assume s1: "ok s1" "view s1 = view s" and ks: "set ks = {k. view s CONFIG_DB k \<noteq> Map.empty \<and> starts_with ''VXLAN_TUNNEL|'' k}"
  have "wp (vtep_from P xs) Q E t" if "ok t" "view t = view s" "set xs \<subseteq> set ks" for xs t
    using that
  proof (induction xs arbitrary: t)
    case Nil
    then show ?case by (auto intro!: wp_ret assms(2))
  next
    case (Cons k xs)
    show ?case
    proof (cases "key_suffix k ''VXLAN_TUNNEL|''")
      case None
      with Cons show ?thesis by simp
    next
      case (Some n)
      then have k: "k = ''VXLAN_TUNNEL|'' @ n" by (simp add: key_suffix_Some)
      then have x: "view s CONFIG_DB (''VXLAN_TUNNEL|'' @ n) \<noteq> Map.empty" using Cons.prems(3) ks by auto
      show ?thesis
      proof (cases "CHR ''|'' \<in> set n")
        case True
        with Some Cons show ?thesis by simp
      next
        case False
        show ?thesis
          unfolding vtep_from.simps Some option.case if_not_P [OF False]
          by (intro wp_bnd wp_row_of_live [OF Cons.prems(1)] wp_ret assms(2)) (use Cons.prems x in auto)
      qed
    qed
  qed
  from this [OF s1, of "sort ks"] show "wp (vtep_from P (sort ks)) Q E s1" by simp
qed

lemma wp_put_rows:
  assumes "ok s" "\<And>s'. ok s' \<Longrightarrow> view s' = put_rows rs (view s) \<Longrightarrow> Q () s'" "\<And>e s'. ok s' \<Longrightarrow> E e s'"
  shows "wp (for_each (\<lambda>(key, fs). map_err Redis (hset P CONFIG_DB key fs)) rs) Q E s"
proof (rule wp_for_each [where I = "\<lambda>ys t. ok t \<and> view t = put_rows ys (view s)"])
  fix ys zs :: "(string \<times> row) list" and z :: "string \<times> row" and t assume t: "ok t \<and> view t = put_rows ys (view s)"
  obtain k fs where z: "z = (k, fs)" by (cases z)
  show "wp ((\<lambda>(key, fs). map_err Redis (hset P CONFIG_DB key fs)) z) (\<lambda>_ t. ok t \<and> view t = put_rows (ys @ [z]) (view s)) E t"
    unfolding z prod.case by (intro wp_map_err wp_hset) (use t assms(3) in \<open>auto simp: put_rows_def\<close>)
qed (use assms in \<open>auto simp: put_rows_def\<close>)

lemma wp_drop_unwanted:
  assumes "ok s" "\<And>s'. ok s' \<Longrightarrow> view s' = v_drop CONFIG_DB (\<lambda>k. k \<in> set ks \<and> p k) (view s) \<Longrightarrow> Q () s'" "\<And>e s'. ok s' \<Longrightarrow> E e s'"
  shows "wp (for_each (\<lambda>key. if p key then del_config P key else ret ()) ks) Q E s"
  unfolding del_config_def by (rule wp_del_where) (use assms in auto)

lemma put_maps_wp:
  assumes "ok s"
  shows "wp (put_maps P ms) (\<lambda>_ s'. ok s' \<and> maps_done ms (view s) (view s')) (\<lambda>_ s'. ok s') s"
  unfolding put_maps_def
proof (rule wp_bnd, rule wp_lift, rule wp_bnd, rule wp_current [OF assms], rule wp_bnd, rule wp_guard, rule wp_bnd,
    rule wp_vtep_row, assumption)
  fix u s1 p v s2
  assume c: "smap_err BadRequest (check_maps [] [] ms) = Inr u" and s: "view s1 = view s" "ok s2" "view s2 = view s1"
    and ex: "\<And>n i. v = Some (n, i) \<Longrightarrow> view s1 CONFIG_DB (''VXLAN_TUNNEL|'' @ n) \<noteq> Map.empty"
  have ck: "check_maps [] [] ms = Inr u" using c by simp
  note okm = check_maps_ok [OF ck]
  show "wp (case v of
       None \<Rightarrow> fail (Conflict ''configure a VTEP before mapping VLANs to VNIs'')
     | Some (vtep, _) \<Rightarrow>
         bnd (for_each (check_map_vlan P) ms) (\<lambda>_.
         let desired = desired_maps vtep ms in
         bnd (keys_of P CONFIG_DB ''VXLAN_TUNNEL_MAP|*'') (\<lambda>ks.
         bnd (for_each (\<lambda>key. if map_of desired key = None then del_config P key else ret ()) ks) (\<lambda>_.
         for_each (\<lambda>(key, fs). map_err Redis (hset P CONFIG_DB key fs)) desired))))
     (\<lambda>_ s'. ok s' \<and> maps_done ms (view s) (view s')) (\<lambda>_ s'. ok s') s2"
  proof (cases v)
    case None
    with s show ?thesis by (simp add: wp_fail)
  next
    case (Some w)
    obtain vtep src where w: "w = (vtep, src)" by (cases w)
    let ?d = "desired_maps vtep ms"
    have tun: "view s CONFIG_DB (''VXLAN_TUNNEL|'' @ vtep) \<noteq> Map.empty" using ex Some w s by auto
    show ?thesis
      unfolding Some w option.case prod.case Let_def
    proof (rule wp_bnd, rule wp_for_each [where I = "\<lambda>ys t. ok t \<and> view t = view s \<and>
        (\<forall>m\<in>set ys. view s CONFIG_DB (''VLAN|Vlan'' @ show_nat (me_vlan m)) \<noteq> Map.empty)"])
      fix ys zs :: "map_entry list" and z t
      assume "ok t \<and> view t = view s \<and> (\<forall>m\<in>set ys. view s CONFIG_DB (''VLAN|Vlan'' @ show_nat (me_vlan m)) \<noteq> Map.empty)"
      then show "wp (check_map_vlan P z) (\<lambda>_ t. ok t \<and> view t = view s \<and>
          (\<forall>m\<in>set (ys @ [z]). view s CONFIG_DB (''VLAN|Vlan'' @ show_nat (me_vlan m)) \<noteq> Map.empty)) (\<lambda>_ s'. ok s') t"
        unfolding check_map_vlan_def by (auto intro!: wp_bnd wp_map_err wp_exists wp_guard)
    next
      fix t
      assume t: "ok t \<and> view t = view s \<and> (\<forall>m\<in>set ms. view s CONFIG_DB (''VLAN|Vlan'' @ show_nat (me_vlan m)) \<noteq> Map.empty)"
      show "wp (bnd (keys_of P CONFIG_DB ''VXLAN_TUNNEL_MAP|*'') (\<lambda>ks.
         bnd (for_each (\<lambda>key. if map_of ?d key = None then del_config P key else ret ()) ks) (\<lambda>_.
         for_each (\<lambda>(key, fs). map_err Redis (hset P CONFIG_DB key fs)) ?d)))
         (\<lambda>_ s'. ok s' \<and> maps_done ms (view s) (view s')) (\<lambda>_ s'. ok s') t"
      proof (intro wp_bnd wp_keys_of_prefix [where pre = "''VXLAN_TUNNEL_MAP|''", simplified append.simps])
        show "ok t" using t by blast
        show "CHR ''*'' \<notin> set ''VXLAN_TUNNEL_MAP|''" "plain_glob ''VXLAN_TUNNEL_MAP|''" by simp_all
      next
        fix ks s3
        assume s3: "ok s3" "view s3 = view t"
          and ks: "set ks = {k. view t CONFIG_DB k \<noteq> Map.empty \<and> starts_with ''VXLAN_TUNNEL_MAP|'' k}"
        show "wp (for_each (\<lambda>key. if map_of ?d key = None then del_config P key else ret ()) ks)
          (\<lambda>_. wp (for_each (\<lambda>(key, fs). map_err Redis (hset P CONFIG_DB key fs)) ?d)
             (\<lambda>_ s'. ok s' \<and> maps_done ms (view s) (view s')) (\<lambda>_ s'. ok s')) (\<lambda>_ s'. ok s') s3"
        proof (rule wp_drop_unwanted [OF s3(1)], rule wp_put_rows, assumption)
          fix s4 s5
          assume s4: "view s4 = v_drop CONFIG_DB (\<lambda>k. k \<in> set ks \<and> map_of ?d k = None) (view s3)"
            and s5: "ok s5" "view s5 = put_rows ?d (view s4)"
          have row: "view s5 CONFIG_DB (map_key vtep m) = view s CONFIG_DB (map_key vtep m) ++ map_of (map_fields m)" if m: "m \<in> set ms" for m
          proof -
            have in_d: "map_of ?d (map_key vtep m) = Some (map_fields m)" by (rule desired_maps_of(2) [OF ck m])
            have "view s4 CONFIG_DB (map_key vtep m) = view s CONFIG_DB (map_key vtep m)"
              using in_d s3 t by (simp add: s4)
            then have "view s5 CONFIG_DB (map_key vtep m) = view s CONFIG_DB (map_key vtep m) ++ map_of (rev (map_fields m))"
              unfolding s5(2) put_rows_same [OF desired_maps_of(1) [OF ck] map_of_SomeD [OF in_d]] by simp
            moreover have "map_of (rev (map_fields m)) = map_of (map_fields m)"
              by (rule map_of_rev_distinct) (simp add: map_fields_def)
            ultimately show ?thesis by (simp only:)
          qed
          have keys: "fst ` set ?d = map_key vtep ` set ms"
          proof -
            have "key \<in> fst ` set ?d \<longleftrightarrow> key \<in> map_key vtep ` set ms" for key
              using desired_maps_of(3) [OF ck, of vtep key] by (metis map_of_eq_None_iff)
            then show ?thesis by blast
          qed
          have gone: "view s5 CONFIG_DB key = Map.empty"
            if "starts_with ''VXLAN_TUNNEL_MAP|'' key" "key \<notin> map_key vtep ` set ms" for key
          proof -
            have "view s5 CONFIG_DB key = view s4 CONFIG_DB key" unfolding s5(2) using that(2) keys by (intro put_rows_other) simp
            also have "\<dots> = Map.empty"
              using that desired_maps_of(3) [OF ck, of vtep key] ks t s3 by (auto simp: s4)
            finally show ?thesis .
          qed
          have other: "view s5 db key = view s db key" if "db \<noteq> CONFIG_DB \<or> \<not> starts_with ''VXLAN_TUNNEL_MAP|'' key" for db key
          proof -
            have "db \<noteq> CONFIG_DB \<or> key \<notin> fst ` set ?d" using that keys by auto
            then have "view s5 db key = view s4 db key" unfolding s5(2) by (rule put_rows_other)
            also have "\<dots> = view s db key" using that ks t s3 by (auto simp: s4)
            finally show ?thesis .
          qed
          have "parse_map name r = Some (me_vlan m, me_vni m)"
            if "m \<in> set ms" "map_of r = view s5 CONFIG_DB (map_key vtep m)" for m r name
            by (rule parse_stored_map) (use that row okm in auto)
          with gone other tun t show "ok s5 \<and> maps_done ms (view s) (view s5)"
            using s5(1) unfolding maps_done_def by blast
        qed simp_all
      qed
    qed (use s in auto)
  qed
qed (use assms in auto)

end

text \<open>
  C28. A successful PUT of the VLAN-to-VNI maps, where no read and no scan of the call fails, makes the stored maps exactly the requested ones: every requested map is a
  row that reads back as its VLAN and VNI, under the one VTEP of the switch, with its VLAN configured; no other map row
  is left, and no row outside the map table changed. Where the scan for the stored maps fails, the stale ones stay
  (\<open>vxlan_put_scan_failure\<close>).
\<close>

theorem vxlan_put_maps_spec:
  assumes "full_store P view ok up" "ok s" "put_maps P ms s = (Inr u, s')"
  shows "maps_done ms (view s) (view s')"
  using wp_okD [OF full_store.put_maps_wp [OF assms(1), OF assms(2)], OF assms(3)] by blast

definition demo_vxlan :: mem where
  "demo_vxlan = mem_seed CONFIG_DB ''VLAN|Vlan10'' [(''vlanid'', ''10'')]
     (mem_seed CONFIG_DB ''VXLAN_TUNNEL|vtep1'' [(''src_ip'', ''10.0.0.1'')] mem_new)"

lemma demo_vxlan_ok: "mem_ok demo_vxlan"
  by (simp add: demo_vxlan_def mem_seed_ok)

lemma demo_vxlan_current: "\<exists>p s'. current mem_platform demo_vxlan = (Inr p, s') \<and> vxlan_supported p \<and>
    m_dbs s' = m_dbs demo_vxlan \<and> m_fail_at s' = None"
proof -
  have v: "parse_sonic_version [] = None" by (simp add: parse_sonic_version_def lines_def run)
  show ?thesis
  by (simp add: v current_def gather_def io_of_def demo_vxlan_def feature_entry_def command_lines_def mem_read_file_def mem_run_def
    ok_output_def assemble_def vxlan_supported_def is_none_or_def run)
qed

lemma demo_vxlan_put: "\<exists>s'. put_maps mem_platform [\<lparr>me_vlan = 10, me_vni = 1000\<rparr>] demo_vxlan = (Inr (), s')"
proof -
  obtain p s1 where c: "(current mem_platform :: (mem, write_error, probe) io) demo_vxlan = (Inr p, s1)" "vxlan_supported p"
    "m_dbs s1 = m_dbs demo_vxlan" "m_fail_at s1 = None"
    using demo_vxlan_current by blast
  have d: "m_dbs demo_vxlan 4 = [(''VXLAN_TUNNEL|vtep1'', [(''src_ip'', ''10.0.0.1'')]), (''VLAN|Vlan10'', [(''vlanid'', ''10'')])]"
    by (simp add: demo_vxlan_def run)
  have v: "vtep_row mem_platform s1 = (Inr (Some (''vtep1'', ''10.0.0.1'')) :: write_error + _, s1)"
    by (simp add: vtep_row_def c d run)
  have m: "desired_maps ''vtep1'' [\<lparr>me_vlan = 10, me_vni = 1000\<rparr>]
      = [(''VXLAN_TUNNEL_MAP|vtep1|map_1000_Vlan10'', [(''vlan'', ''Vlan10''), (''vni'', ''1000'')])]"
    by (simp add: desired_maps_def map_key_def map_fields_def run)
  show ?thesis
    by (simp add: put_maps_def c v m d check_map_vlan_def del_config_def run)
qed

theorem vxlan_put_maps_spec_witness:
  "\<exists>s'. put_maps mem_platform [\<lparr>me_vlan = 10, me_vni = 1000\<rparr>] demo_vxlan = (Inr (), s') \<and>
     maps_done [\<lparr>me_vlan = 10, me_vni = 1000\<rparr>] (mem_view demo_vxlan) (mem_view s')"
proof -
  obtain s' where x: "put_maps mem_platform [\<lparr>me_vlan = 10, me_vni = 1000\<rparr>] demo_vxlan = (Inr (), s')"
    using demo_vxlan_put by blast
  from vxlan_put_maps_spec [OF mem_full.full_store_axioms, OF demo_vxlan_ok, OF x] x show ?thesis by blast
qed

text \<open>When the scan for the stored maps fails, the stale ones stay, and the request is answered as done.\<close>

definition no_maps_scan :: "mem platform" where
  "no_maps_scan = mem_platform\<lparr>scan := \<lambda>db pat s. if pat = ''VXLAN_TUNNEL_MAP|*'' then (Inl ''timed out'', s) else mem_scan db pat s\<rparr>"

lemma vxlan_put_scan_failure:
  "\<exists>s'. put_maps no_maps_scan [] (mem_seed CONFIG_DB ''VXLAN_TUNNEL_MAP|vtep1|map_1000_Vlan10'' [(''vlan'', ''Vlan10''), (''vni'', ''1000'')] demo_vxlan)
       = (Inr (), s') \<and>
     mem_row s' CONFIG_DB ''VXLAN_TUNNEL_MAP|vtep1|map_1000_Vlan10'' = [(''vlan'', ''Vlan10''), (''vni'', ''1000'')]"
proof -
  have v: "parse_sonic_version [] = None" by (simp add: parse_sonic_version_def lines_def run)
  show ?thesis
    by (simp add: put_maps_def no_maps_scan_def v current_def gather_def io_of_def demo_vxlan_def feature_entry_def command_lines_def
      mem_read_file_def mem_run_def ok_output_def assemble_def vxlan_supported_def is_none_or_def vtep_row_def desired_maps_def run)
qed

end
