(* ===== verification/HostFacts.thy ===== *)
theory HostFacts
  imports SwitchingRead Counters
begin

text \<open>
  Facts about the host: \<open>system_facts\<close> of \<^verbatim>\<open>src/src/sonic/mod.rs\<close> and the parsers of \<open>/proc\<close> files in
  \<^verbatim>\<open>src/src/sonic/stats.rs\<close> that count with integers. The environment variable of development hosts and the answer
  of redis to \<open>PING\<close> are parameters.
\<close>

section \<open>System facts\<close>

record system_facts =
  fa_hostname :: string
  fa_sonic_version :: string
  fa_platform :: string
  fa_hwsku :: string
  fa_serial :: string

text \<open>\<open>hgetall(db, key).unwrap_or_default()\<close> on a connection of its own.\<close>

definition hgetall_at :: "'s redis \<Rightarrow> int \<Rightarrow> string \<Rightarrow> ('s, 'e, row) io" where
  "hgetall_at R db key = or_default [] (bnd (connect R db) (\<lambda>_. hgetall (cmds R) db key))"

definition filled :: "string option \<Rightarrow> string option" where
  "filled v = (case v of Some x \<Rightarrow> if x = [] then None else Some x | None \<Rightarrow> None)"

definition host_file :: "'s redis \<Rightarrow> string \<Rightarrow> ('s, 'e, string option) io" where
  "host_file R path = io_of (read_file (cmds R) path)"

definition read_hostname :: "string option \<Rightarrow> 's redis \<Rightarrow> ('s, 'e, string) io" where
  "read_hostname computername R =
     bnd (host_file R ''/proc/sys/kernel/hostname'') (\<lambda>a.
     bnd (if a = None then host_file R ''/etc/hostname'' else ret a) (\<lambda>b.
     ret (opt_or (opt_else (filled (map_option trim b)) computername) ''unknown'')))"

definition sonic_version :: "'s redis \<Rightarrow> ('s, 'e, string option) io" where
  "sonic_version R = bnd (host_file R ''/etc/sonic/sonic_version.yml'') (\<lambda>t. ret (Option.bind t parse_sonic_version))"

definition onie_line :: "string \<Rightarrow> string option" where
  "onie_line l = Option.bind (strip_prefix ''onie_platform='' l) (\<lambda>rest. filled (Some (trim rest)))"

definition onie_platform :: "'s redis \<Rightarrow> ('s, 'e, string option) io" where
  "onie_platform R = bnd (host_file R ''/host/machine.conf'') (\<lambda>t.
     ret (Option.bind t (\<lambda>txt. first_some onie_line (lines txt))))"

definition serial_number :: "'s redis \<Rightarrow> ('s, 'e, string option) io" where
  "serial_number R =
     bnd (hgetall_at R STATE_DB ''EEPROM_INFO|0x23'') (\<lambda>h. case filled (map_of h ''Value'') of
       Some v \<Rightarrow> ret (Some v)
     | None \<Rightarrow>
         bnd (or_default None (bnd (run_cmd (cmds R) ''decode-syseeprom'' [''-s'']) (\<lambda>out.
                ret (if co_ok out then filled (Some (trim (co_stdout out))) else None)))) (\<lambda>eeprom. case eeprom of
           Some v \<Rightarrow> ret (Some v)
         | None \<Rightarrow> bnd (host_file R ''/sys/class/dmi/id/product_serial'') (\<lambda>t. ret (filled (map_option trim t)))))"

definition system_facts_of :: "string option \<Rightarrow> 's redis \<Rightarrow> ('s, 'e, system_facts) io" where
  "system_facts_of computername R =
     bnd (hgetall_at R CONFIG_DB ''DEVICE_METADATA|localhost'') (\<lambda>meta. let get = (\<lambda>k. opt_or (map_of meta k) []) in
     bnd (if get ''hostname'' = [] then read_hostname computername R else ret (get ''hostname'')) (\<lambda>hostname.
     bnd (sonic_version R) (\<lambda>version.
     bnd (if get ''platform'' = [] then bnd (onie_platform R) (\<lambda>p. ret (opt_or p [])) else ret (get ''platform'')) (\<lambda>platform.
     bnd (serial_number R) (\<lambda>serial.
     ret \<lparr>fa_hostname = hostname, fa_sonic_version = opt_or version [], fa_platform = platform, fa_hwsku = get ''hwsku'',
          fa_serial = opt_or serial []\<rparr>)))))"

definition redis_ok :: "string + string \<Rightarrow> 's redis \<Rightarrow> ('s, 'e, bool) io" where
  "redis_ok ping R = or_default False (bnd (connect R CONFIG_DB) (\<lambda>_. bnd (lift ping) (\<lambda>pong. ret (pong = ''PONG''))))"

section \<open>Statistics\<close>

text \<open>Counters are \<open>u64\<close>; sums and products wrap in a release build, \<open>saturating_sub\<close> is the truncating difference.\<close>

definition cpu_snapshot :: "string \<Rightarrow> (nat \<times> nat) option" where
  "cpu_snapshot stat = Option.bind (find (\<lambda>l. starts_with ''cpu '' l) (lines stat)) (\<lambda>line.
     let vals = List.map_filter (parse_uint 64) (drop 1 (words line)) in
     if length vals < 4 then None
     else let tot = sum_list vals mod 2 ^ 64; idle = (vals ! 3 + (if 4 < length vals then vals ! 4 else 0)) mod 2 ^ 64 in
     Some (tot - idle, tot))"

record mem_stats =
  ms_used :: nat
  ms_total :: nat

definition meminfo_field :: "string \<Rightarrow> string \<Rightarrow> nat option" where
  "meminfo_field meminfo name = first_some (\<lambda>l.
     Option.bind (strip_prefix name l) (\<lambda>r. Option.bind (strip_prefix '':'' r) (\<lambda>rest.
       case words rest of w # _ \<Rightarrow> parse_uint 64 w | [] \<Rightarrow> None))) (lines meminfo)"

definition mem_from :: "string \<Rightarrow> mem_stats option" where
  "mem_from meminfo = Option.bind (meminfo_field meminfo ''MemTotal'') (\<lambda>tot.
     Option.bind (meminfo_field meminfo ''MemAvailable'') (\<lambda>avail.
     if tot = 0 then None else Some \<lparr>ms_used = (tot - avail) * 1024 mod 2 ^ 64, ms_total = tot * 1024 mod 2 ^ 64\<rparr>))"

end
