(* ===== verification/Stp.thy ===== *)
theory Stp
  imports Feature
begin

text \<open>
  Spanning tree and loop protection, \<^verbatim>\<open>src/src/sonic/stp.rs\<close>: the global settings with their timer relation, the
  per-VLAN and per-port rows, the operational digests, and the recovery of a port that BPDU guard shut down.

  The counters of \<open>fold_port_oper\<close> are \<open>u64\<close> and added with \<open>+\<close>, which wraps in a release build; the model wraps.
\<close>

definition DEF_FORWARD_DELAY :: nat where "DEF_FORWARD_DELAY = 15"
definition DEF_HELLO :: nat where "DEF_HELLO = 2"
definition DEF_MAX_AGE :: nat where "DEF_MAX_AGE = 20"
definition DEF_PRIORITY :: nat where "DEF_PRIORITY = 32768"
definition DEF_ROOTGUARD :: nat where "DEF_ROOTGUARD = 30"
definition DEF_MAX_STP_INST :: nat where "DEF_MAX_STP_INST = 255"

definition STP_UNSUPPORTED :: string where
  "STP_UNSUPPORTED = ''spanning tree requires an STP-capable image (community docker-stp, a 202505+ build with ''
     @ ''INCLUDE_STP, or Enterprise SONiC)''"

definition stp_capability :: "probe \<Rightarrow> capability" where
  "stp_capability p = (if stp_supported p then cap_yes else cap_no STP_UNSUPPORTED)"

section \<open>Operational state\<close>

record port_oper =
  po_worst :: "string option"
  po_sent :: "nat option"
  po_received :: "nat option"
  po_guard :: bool

definition no_oper :: port_oper where
  "no_oper = \<lparr>po_worst = None, po_sent = None, po_received = None, po_guard = False\<rparr>"

definition state_severity :: "string \<Rightarrow> nat" where
  "state_severity st =
     (let l = to_lower st in
      if l = ''forwarding'' then 0 else if l = ''learning'' then 1 else if l = ''listening'' then 2
      else if l = ''blocking'' then 3 else if l = ''disabled'' then 4 else 5)"

definition add_wrap64 :: "nat option \<Rightarrow> nat option \<Rightarrow> nat option" where
  "add_wrap64 acc n = (case n of None \<Rightarrow> acc | Some n \<Rightarrow> Some ((opt_or acc 0 + n) mod 2 ^ 64))"

definition worst_of :: "string option \<Rightarrow> string option \<Rightarrow> string option" where
  "worst_of cur st = (case st of
       None \<Rightarrow> cur
     | Some st \<Rightarrow> (case cur of
         None \<Rightarrow> Some (to_lower st)
       | Some c \<Rightarrow> if state_severity (to_lower st) > state_severity c then Some (to_lower st) else cur))"

definition fold_port_oper :: "port_oper \<Rightarrow> row \<Rightarrow> port_oper" where
  "fold_port_oper d r =
     \<lparr>po_worst = worst_of (po_worst d) (field r ''port_state''),
      po_sent = add_wrap64 (po_sent d) (parse_num (field r ''bpdu_sent'')),
      po_received = add_wrap64 (po_received d) (parse_num (field r ''bpdu_received'')),
      po_guard = (po_guard d \<or> (case field r ''root_guard_timer'' of None \<Rightarrow> False | Some v \<Rightarrow> v \<noteq> ''0''))\<rparr>"

definition member_name :: "string \<Rightarrow> string option" where
  "member_name key = map_option snd (two_parts key ''VLAN_MEMBER|'')"

definition l2_names :: "string list \<Rightarrow> string list \<Rightarrow> string list" where
  "l2_names ms ps = remdups_adj (sort_by natural_cmp
     (List.map_filter member_name ms @ List.map_filter (\<lambda>k. key_suffix k ''STP_PORT|'') ps))"

definition l2_interfaces :: "'s platform \<Rightarrow> ('s, 'e, string list) io" where
  "l2_interfaces P =
     bnd (keys_of P CONFIG_DB ''VLAN_MEMBER|*'') (\<lambda>ms.
     bnd (keys_of P CONFIG_DB ''STP_PORT|*'') (\<lambda>ps. ret (l2_names ms ps)))"

type_synonym opers = "(string \<times> port_oper) list"

definition oper_port :: "string \<Rightarrow> string option" where
  "oper_port key = Option.bind (strip_prefix ''STP_VLAN_PORT_TABLE:'' key) (\<lambda>rest.
     Option.bind (split_once (CHR '':'') rest) (\<lambda>(_, port). if port = [] then None else Some port))"

primrec digests_from :: "'s platform \<Rightarrow> string list \<Rightarrow> opers \<Rightarrow> ('s, 'e, opers) io" where
  "digests_from P [] acc = ret acc"
| "digests_from P (k # ks) acc = (case oper_port k of
       None \<Rightarrow> digests_from P ks acc
     | Some port \<Rightarrow> bnd (row_of P APPL_DB k) (\<lambda>r.
         digests_from P ks (al_put port (fold_port_oper (opt_or (map_of acc port) no_oper) r) acc)))"

definition port_oper_digests :: "'s platform \<Rightarrow> ('s, 'e, opers) io" where
  "port_oper_digests P = bnd (keys_of P APPL_DB ''STP_VLAN_PORT_TABLE:*'') (\<lambda>ks. digests_from P ks [])"

definition guard_shutdown :: "row \<Rightarrow> bool option" where
  "guard_shutdown appl = Option.bind (field appl ''bpdu_guard_shutdown'') (\<lambda>v.
     if v = ''yes'' then Some True else if v = ''no'' then Some False else None)"

section \<open>The spanning tree document\<close>

definition stp_global_json :: "row \<Rightarrow> row \<Rightarrow> json" where
  "stp_global_json g mst =
     JObj [(''mode'', JStr (opt_or (field g ''mode'') ''pvst'')),
       (''rootguard_timeout'', JNum (opt_or (num32 g ''rootguard_timeout'') DEF_ROOTGUARD)),
       (''forward_delay'', JNum (opt_or (num32 g ''forward_delay'') DEF_FORWARD_DELAY)),
       (''hello_time'', JNum (opt_or (num32 g ''hello_time'') DEF_HELLO)),
       (''max_age'', JNum (opt_or (num32 g ''max_age'') DEF_MAX_AGE)),
       (''priority'', JNum (opt_or (num32 g ''priority'') DEF_PRIORITY)),
       (''region_name'', jopt JStr (field mst ''name'')),
       (''revision'', jopt JNum (num32 mst ''revision'')),
       (''max_hops'', jopt JNum (num32 mst ''max_hops''))]"

definition same_bridge :: "string option \<Rightarrow> string option \<Rightarrow> bool option" where
  "same_bridge b r = (case (b, r) of (Some b, Some r) \<Rightarrow> Some (b = r) | _ \<Rightarrow> None)"

definition stp_vlan_json :: "bool \<Rightarrow> nat \<Rightarrow> row \<Rightarrow> row \<Rightarrow> json" where
  "stp_vlan_json on n cfg oper =
     JObj [(''vlan_id'', JNum n), (''enabled'', JBool (opt_or (parse_bool (field cfg ''enabled'')) on)),
       (''priority'', jopt JNum (num32 cfg ''priority'')), (''forward_delay'', jopt JNum (num32 cfg ''forward_delay'')),
       (''hello_time'', jopt JNum (num32 cfg ''hello_time'')), (''max_age'', jopt JNum (num32 cfg ''max_age'')),
       (''bridge_id'', jopt JStr (field oper ''bridge_id'')), (''root_bridge_id'', jopt JStr (field oper ''root_bridge_id'')),
       (''is_root'', jopt JBool (same_bridge (field oper ''bridge_id'') (field oper ''root_bridge_id''))),
       (''root_port'', jopt JStr (field oper ''root_port'')),
       (''root_path_cost'', jopt JNum (parse_num (field oper ''root_path_cost''))),
       (''topology_change_count'', jopt JNum (parse_num (field oper ''topology_change_count''))),
       (''last_topology_change_secs'', jopt JNum (parse_num (field oper ''last_topology_change'')))]"

definition stp_port_json :: "bool \<Rightarrow> string \<Rightarrow> row \<Rightarrow> row \<Rightarrow> port_oper \<Rightarrow> json" where
  "stp_port_json on name cfg appl d =
     JObj [(''name'', JStr name), (''enabled'', JBool (opt_or (parse_bool (field cfg ''enabled'')) on)),
       (''priority'', jopt JNum (num32 cfg ''priority'')), (''path_cost'', jopt JNum (parse_num (field cfg ''path_cost''))),
       (''portfast'', JBool (flag cfg ''portfast'')), (''uplink_fast'', JBool (flag cfg ''uplink_fast'')),
       (''edge_port'', jopt JBool (parse_bool (field cfg ''edge_port''))),
       (''link_type'', jopt JStr (field cfg ''link_type'')), (''bpdu_guard'', JBool (flag cfg ''bpdu_guard'')),
       (''bpdu_guard_do_disable'', JBool (flag cfg ''bpdu_guard_do_disable'')), (''root_guard'', JBool (flag cfg ''root_guard'')),
       (''state'', jopt JStr (po_worst d)), (''bpdu_guard_shutdown'', jopt JBool (guard_shutdown appl)),
       (''bpdu_sent'', jopt JNum (po_sent d)), (''bpdu_received'', jopt JNum (po_received d))]"

definition stp_vlan_ids :: "string list \<Rightarrow> string list \<Rightarrow> nat list" where
  "stp_vlan_ids vs ss = sort_dedup
     (List.map_filter (\<lambda>k. Option.bind (key_suffix k ''VLAN|'') vlan_id_from_name) vs
      @ List.map_filter (\<lambda>k. Option.bind (key_suffix k ''STP_VLAN|'') vlan_id_from_name) ss)"

definition stp_get :: "'s platform \<Rightarrow> ('s, string, json) io" where
  "stp_get P =
     bnd (current P) (\<lambda>p.
     let cap = stp_capability p in
     if \<not> supported cap then
       ret (JObj [(''capability'', cap_json cap), (''modes_supported'', JArr []), (''global'', JNull), (''vlans'', JArr []),
         (''ports'', JArr [])])
     else
     bnd (hgetall P CONFIG_DB ''STP|GLOBAL'') (\<lambda>g.
     let on = (g \<noteq> []) in
     bnd (if on then bnd (row_of P CONFIG_DB ''STP_MST|GLOBAL'') (\<lambda>mst. ret (stp_global_json g mst)) else ret JNull) (\<lambda>global.
     bnd (keys_of P CONFIG_DB ''VLAN|*'') (\<lambda>vs.
     bnd (keys_of P CONFIG_DB ''STP_VLAN|*'') (\<lambda>ss.
     bnd (collect (\<lambda>n.
         bnd (row_of P CONFIG_DB (''STP_VLAN|Vlan'' @ show_nat n)) (\<lambda>cfg.
         bnd (row_of P APPL_DB (''STP_VLAN_TABLE:Vlan'' @ show_nat n)) (\<lambda>oper.
         ret (stp_vlan_json on n cfg oper)))) (stp_vlan_ids vs ss)) (\<lambda>vlans.
     bnd (port_oper_digests P) (\<lambda>ds.
     bnd (l2_interfaces P) (\<lambda>names.
     bnd (collect (\<lambda>name.
         bnd (row_of P CONFIG_DB (''STP_PORT|'' @ name)) (\<lambda>cfg.
         bnd (row_of P APPL_DB (''STP_PORT_TABLE:'' @ name)) (\<lambda>appl.
         ret (stp_port_json on name cfg appl (opt_or (map_of ds name) no_oper))))) names) (\<lambda>ports.
     ret (JObj [(''capability'', cap_json cap), (''modes_supported'', jstrs (stp_modes p)), (''global'', global),
       (''vlans'', JArr vlans), (''ports'', JArr ports)]))))))))))"

section \<open>The global settings\<close>

datatype stp_mode = Pvst | Mst | Disabled

record stp_global_input =
  sg_mode :: stp_mode
  sg_rootguard :: "nat option"
  sg_forward_delay :: "nat option"
  sg_hello :: "nat option"
  sg_max_age :: "nat option"
  sg_priority :: "nat option"
  sg_region :: "string option"
  sg_revision :: "nat option"
  sg_max_hops :: "nat option"

definition check_timer_relation :: "nat \<Rightarrow> nat \<Rightarrow> nat \<Rightarrow> string + unit" where
  "check_timer_relation fd hello age =
     sbind (check_range ''forward_delay'' fd 4 30) (\<lambda>_.
     sbind (check_range ''hello_time'' hello 1 10) (\<lambda>_.
     sbind (check_range ''max_age'' age 6 40) (\<lambda>_.
     check (\<not> (2 * (fd - 1) < age \<or> age < 2 * (hello + 1)))
       (''timers must satisfy 2*(forward_delay-1) >= max_age >= 2*(hello_time+1) (got forward_delay ''
        @ show_nat fd @ '', max_age '' @ show_nat age @ '', hello_time '' @ show_nat hello @ '')''))))"

definition check_bridge_priority :: "nat \<Rightarrow> string + unit" where
  "check_bridge_priority v = check (\<not> (v > 61440 \<or> v mod 4096 \<noteq> 0))
     (''invalid priority '' @ show_nat v @ '' (must be 0-61440 in steps of 4096)'')"

definition max_stp_instances :: "'s platform \<Rightarrow> ('s, 'e, nat) io" where
  "max_stp_instances P = bnd (row_of P STATE_DB ''STP_TABLE|GLOBAL'') (\<lambda>r.
     ret (opt_or (parse_num (field r ''max_stp_inst'')) DEF_MAX_STP_INST))"

definition stp_require :: "'s platform \<Rightarrow> ('s, write_error, probe) io" where
  "stp_require P = bnd (current P) (\<lambda>p. bnd (guard (stp_supported p) (Conflict STP_UNSUPPORTED)) (\<lambda>_. ret p))"

text \<open>The effective values: the payload, else the current row, else the default.\<close>

record stp_values =
  sv_forward_delay :: nat
  sv_hello :: nat
  sv_max_age :: nat
  sv_priority :: nat
  sv_rootguard :: nat

definition effective :: "nat option \<Rightarrow> row \<Rightarrow> string \<Rightarrow> nat \<Rightarrow> nat" where
  "effective inp cur k d = opt_or (opt_else inp (num32 cur k)) d"

definition stp_effective :: "stp_global_input \<Rightarrow> row \<Rightarrow> stp_values" where
  "stp_effective i cur =
     \<lparr>sv_forward_delay = effective (sg_forward_delay i) cur ''forward_delay'' DEF_FORWARD_DELAY,
      sv_hello = effective (sg_hello i) cur ''hello_time'' DEF_HELLO,
      sv_max_age = effective (sg_max_age i) cur ''max_age'' DEF_MAX_AGE,
      sv_priority = effective (sg_priority i) cur ''priority'' DEF_PRIORITY,
      sv_rootguard = effective (sg_rootguard i) cur ''rootguard_timeout'' DEF_ROOTGUARD\<rparr>"

definition check_stp_values :: "stp_global_input \<Rightarrow> stp_values \<Rightarrow> string + unit" where
  "check_stp_values i e =
     sbind (check_timer_relation (sv_forward_delay e) (sv_hello e) (sv_max_age e)) (\<lambda>_.
     sbind (check_bridge_priority (sv_priority e)) (\<lambda>_.
     sbind (check_range ''rootguard_timeout'' (sv_rootguard e) 5 600) (\<lambda>_.
     (case sg_max_hops i of None \<Rightarrow> Inr () | Some h \<Rightarrow> check_range ''max_hops'' h 1 40))))"

definition stp_global_fields :: "string \<Rightarrow> stp_values \<Rightarrow> row" where
  "stp_global_fields mode e =
     [(''mode'', mode), (''forward_delay'', show_nat (sv_forward_delay e)), (''hello_time'', show_nat (sv_hello e)),
      (''max_age'', show_nat (sv_max_age e)), (''priority'', show_nat (sv_priority e)),
      (''rootguard_timeout'', show_nat (sv_rootguard e))]"

definition mst_fields :: "stp_global_input \<Rightarrow> row" where
  "mst_fields i =
     (let fs = opt_pair ''name'' (sg_region i) @ opt_pair ''revision'' (map_option show_nat (sg_revision i))
        @ opt_pair ''max_hops'' (map_option show_nat (sg_max_hops i))
      in if fs = [] then [(''NULL'', ''NULL'')] else fs)"

definition seed_vlan :: "'s platform \<Rightarrow> string \<Rightarrow> ('s batch, string, unit) io" where
  "seed_vlan P key = (case key_suffix key ''VLAN|'' of
       None \<Rightarrow> ret ()
     | Some name \<Rightarrow> b_hset P CONFIG_DB (''STP_VLAN|'' @ name) [(''enabled'', ''true'')])"

definition seed_port :: "'s platform \<Rightarrow> string \<Rightarrow> ('s batch, string, unit) io" where
  "seed_port P port = b_hset P CONFIG_DB (''STP_PORT|'' @ port) [(''enabled'', ''true'')]"

definition stp_global_batch ::
  "'s platform \<Rightarrow> stp_global_input \<Rightarrow> stp_values \<Rightarrow> bool \<Rightarrow> string list \<Rightarrow> string list \<Rightarrow> ('s batch, string, unit) io" where
  "stp_global_batch P i e enabling vlan_keys l2 =
     (let mode = (if sg_mode i = Mst then ''mst'' else ''pvst'') in
      bnd (b_hset P CONFIG_DB ''STP|GLOBAL'' (stp_global_fields mode e)) (\<lambda>_.
      bnd (if mode = ''mst'' then b_hset P CONFIG_DB ''STP_MST|GLOBAL'' (mst_fields i) else ret ()) (\<lambda>_.
      if enabling then bnd (for_each (seed_vlan P) vlan_keys) (\<lambda>_. for_each (seed_port P) l2) else ret ())))"

definition STP_TABLES :: "string list" where
  "STP_TABLES = [''STP|GLOBAL'', ''STP_VLAN|*'', ''STP_PORT|*'', ''STP_VLAN_PORT|*'', ''STP_MST|*'', ''STP_MST_INST|*'',
     ''STP_MST_PORT|*'']"

definition stp_disable :: "'s platform \<Rightarrow> ('s, unit) handler" where
  "stp_disable P =
     bnd (collect (cfg_scan_all P) STP_TABLES) (\<lambda>kss.
     for_each (cfg_del P) (concat kss))"

definition stp_put_global :: "'s platform \<Rightarrow> stp_global_input \<Rightarrow> ('s, unit) handler" where
  "stp_put_global P i =
     bnd (stp_require P) (\<lambda>p.
     if sg_mode i = Disabled then stp_disable P
     else
     bnd (guard (\<not> (sg_mode i = Mst \<and> ''mst'' \<notin> set (stp_modes p)))
            (Unprocessable ''MST is not supported on this image (PVST only)'')) (\<lambda>_.
     bnd (cfg_row P ''STP|GLOBAL'') (\<lambda>cur.
     let enabling = (cur = []); e = stp_effective i cur in
     bnd (bad_request (check_stp_values i e)) (\<lambda>_.
     bnd (cfg_scan_all P ''VLAN|*'') (\<lambda>vlan_keys.
     bnd (if enabling then bnd (max_stp_instances P) (\<lambda>limit.
              guard (length vlan_keys \<le> limit)
                (Unprocessable (''enabling spanning tree needs '' @ show_nat (length vlan_keys)
                  @ '' STP instances but the platform supports '' @ show_nat limit
                  @ '' (STATE_DB STP_TABLE|GLOBAL max_stp_inst)'')))
          else ret ()) (\<lambda>_.
     bnd (l2_interfaces P) (\<lambda>l2.
     map_err Redis (apply_batch P (stp_global_batch P i e enabling vlan_keys l2)))))))))"

section \<open>VLANs\<close>

record stp_vlan_input =
  sl_enabled :: bool
  sl_priority :: "nat option option"
  sl_forward_delay :: "nat option option"
  sl_hello :: "nat option option"
  sl_max_age :: "nat option option"

definition check_patch_value :: "(nat \<Rightarrow> string + unit) \<Rightarrow> nat option option \<Rightarrow> string + unit" where
  "check_patch_value f v = (case v of Some (Some n) \<Rightarrow> f n | _ \<Rightarrow> Inr ())"

definition check_stp_vlan :: "stp_vlan_input \<Rightarrow> string + unit" where
  "check_stp_vlan i =
     sbind (check_patch_value check_bridge_priority (sl_priority i)) (\<lambda>_.
     sbind (check_patch_value (\<lambda>v. check_range ''forward_delay'' v 4 30) (sl_forward_delay i)) (\<lambda>_.
     sbind (check_patch_value (\<lambda>v. check_range ''hello_time'' v 1 10) (sl_hello i)) (\<lambda>_.
     check_patch_value (\<lambda>v. check_range ''max_age'' v 6 40) (sl_max_age i))))"

primrec count_enabled :: "'s platform \<Rightarrow> string \<Rightarrow> string list \<Rightarrow> nat \<Rightarrow> ('s, 'e, nat) io" where
  "count_enabled P key [] n = ret n"
| "count_enabled P key (k # ks) n =
     (if k = key then count_enabled P key ks n
      else bnd (row_of P CONFIG_DB k) (\<lambda>r.
        count_enabled P key ks (if opt_or (parse_bool (field r ''enabled'')) True then n + 1 else n)))"

definition stp_global_on :: "'s platform \<Rightarrow> ('s, unit) handler" where
  "stp_global_on P = bnd (cfg_exists P ''STP|GLOBAL'') (\<lambda>e.
     guard e (Conflict ''spanning tree is disabled globally''))"

definition check_instance_limit :: "'s platform \<Rightarrow> nat \<Rightarrow> ('s, unit) handler" where
  "check_instance_limit P n =
     bnd (cfg_scan_all P ''STP_VLAN|*'') (\<lambda>ks.
     bnd (count_enabled P (''STP_VLAN|Vlan'' @ show_nat n) ks 0) (\<lambda>on.
     bnd (max_stp_instances P) (\<lambda>limit.
     guard (\<not> on + 1 > limit) (Unprocessable (''cannot enable STP on Vlan'' @ show_nat n
       @ '': the platform supports '' @ show_nat limit @ '' STP instances'')))))"

definition stp_put_vlan :: "'s platform \<Rightarrow> nat \<Rightarrow> stp_vlan_input \<Rightarrow> ('s, unit) handler" where
  "stp_put_vlan P n i =
     bnd (stp_require P) (\<lambda>_.
     bnd (bad_request (check_stp_vlan i)) (\<lambda>_.
     bnd (cfg_exists P (''VLAN|Vlan'' @ show_nat n)) (\<lambda>e.
     bnd (guard e (NotFound (''no such VLAN Vlan'' @ show_nat n))) (\<lambda>_.
     bnd (stp_global_on P) (\<lambda>_.
     bnd (if sl_enabled i then check_instance_limit P n else ret ()) (\<lambda>_.
     let key = ''STP_VLAN|Vlan'' @ show_nat n in
     bnd (cfg_hset P key [(''enabled'', bool_str (sl_enabled i))]) (\<lambda>_.
     for_each (write_patch P key)
       [(''priority'', num_patch (sl_priority i)), (''forward_delay'', num_patch (sl_forward_delay i)),
        (''hello_time'', num_patch (sl_hello i)), (''max_age'', num_patch (sl_max_age i))])))))))"

section \<open>Ports\<close>

datatype stp_link_type = LinkAuto | PointToPoint | Shared

record stp_port_input =
  sp_enabled :: bool
  sp_priority :: "nat option option"
  sp_path_cost :: "nat option option"
  sp_portfast :: "bool option"
  sp_uplink_fast :: "bool option"
  sp_edge_port :: "bool option"
  sp_link_type :: "stp_link_type option"
  sp_bpdu_guard :: "bool option"
  sp_bpdu_guard_do_disable :: "bool option"
  sp_root_guard :: "bool option"

definition check_port_priority :: "nat \<Rightarrow> string + unit" where
  "check_port_priority v = check (\<not> (v > 240 \<or> v mod 16 \<noteq> 0))
     (''invalid port priority '' @ show_nat v @ '' (must be 0-240 in steps of 16)'')"

definition check_path_cost :: "nat \<Rightarrow> string + unit" where
  "check_path_cost v = check (1 \<le> v \<and> v \<le> 200000000)
     (''invalid path_cost '' @ show_nat v @ '' (must be 1-200000000)'')"

definition interface_exists :: "'s platform \<Rightarrow> string \<Rightarrow> ('s, write_error, bool) io" where
  "interface_exists P name =
     bnd (cfg_exists P (''PORT|'' @ name)) (\<lambda>e.
     if e then ret True else cfg_exists P (''PORTCHANNEL|'' @ name))"

definition require_interface :: "'s platform \<Rightarrow> string \<Rightarrow> ('s, unit) handler" where
  "require_interface P name = bnd (interface_exists P name) (\<lambda>e. guard e (NotFound (''no such interface '' @ name)))"

definition link_patch :: "stp_link_type option \<Rightarrow> string option option" where
  "link_patch v = map_option (\<lambda>t. case t of
     LinkAuto \<Rightarrow> None | PointToPoint \<Rightarrow> Some ''point-to-point'' | Shared \<Rightarrow> Some ''shared'') v"

definition stp_put_port :: "'s platform \<Rightarrow> string \<Rightarrow> stp_port_input \<Rightarrow> ('s, unit) handler" where
  "stp_put_port P name i =
     bnd (stp_require P) (\<lambda>_.
     bnd (lift (smap_err BadRequest (sbind (check_patch_value check_port_priority (sp_priority i)) (\<lambda>_.
            check_patch_value check_path_cost (sp_path_cost i))))) (\<lambda>_.
     bnd (require_interface P name) (\<lambda>_.
     bnd (stp_global_on P) (\<lambda>_.
     let key = ''STP_PORT|'' @ name in
     bnd (cfg_hset P key [(''enabled'', bool_str (sp_enabled i))]) (\<lambda>_.
     for_each (write_patch P key)
       [(''priority'', num_patch (sp_priority i)), (''path_cost'', num_patch (sp_path_cost i)),
        (''portfast'', bool_patch (sp_portfast i)), (''uplink_fast'', bool_patch (sp_uplink_fast i)),
        (''edge_port'', bool_patch (sp_edge_port i)), (''bpdu_guard'', bool_patch (sp_bpdu_guard i)),
        (''bpdu_guard_do_disable'', bool_patch (sp_bpdu_guard_do_disable i)), (''root_guard'', bool_patch (sp_root_guard i)),
        (''link_type'', link_patch (sp_link_type i))])))))"

section \<open>Loop protection\<close>

definition loop_port_json :: "bool \<Rightarrow> string \<Rightarrow> row \<Rightarrow> row \<Rightarrow> bool option \<Rightarrow> json" where
  "loop_port_json on name cfg appl active =
     JObj [(''name'', JStr name), (''stp_enabled'', JBool (opt_or (parse_bool (field cfg ''enabled'')) on)),
       (''bpdu_guard'', JBool (flag cfg ''bpdu_guard'')), (''bpdu_guard_do_disable'', JBool (flag cfg ''bpdu_guard_do_disable'')),
       (''root_guard'', JBool (flag cfg ''root_guard'')), (''bpdu_guard_shutdown'', jopt JBool (guard_shutdown appl)),
       (''root_guard_active'', jopt JBool active)]"

definition get_loop_protection :: "'s platform \<Rightarrow> ('s, string, json) io" where
  "get_loop_protection P =
     bnd (current P) (\<lambda>p.
     let cap = stp_capability p in
     if \<not> supported cap then ret (JObj [(''capability'', cap_json cap), (''ports'', JArr [])])
     else
     bnd (exists P CONFIG_DB ''STP|GLOBAL'') (\<lambda>on.
     bnd (port_oper_digests P) (\<lambda>ds.
     bnd (l2_interfaces P) (\<lambda>names.
     bnd (collect (\<lambda>name.
         bnd (row_of P CONFIG_DB (''STP_PORT|'' @ name)) (\<lambda>cfg.
         bnd (row_of P APPL_DB (''STP_PORT_TABLE:'' @ name)) (\<lambda>appl.
         ret (loop_port_json on name cfg appl (map_option po_guard (map_of ds name)))))) names) (\<lambda>ports.
     ret (JObj [(''capability'', cap_json cap), (''ports'', JArr ports)]))))))"

record loop_port_input =
  lo_bpdu_guard :: bool
  lo_bpdu_guard_do_disable :: bool
  lo_root_guard :: bool

definition put_loop_port :: "'s platform \<Rightarrow> string \<Rightarrow> loop_port_input \<Rightarrow> ('s, unit) handler" where
  "put_loop_port P name i =
     bnd (stp_require P) (\<lambda>_.
     bnd (require_interface P name) (\<lambda>_.
     cfg_hset P (''STP_PORT|'' @ name)
       [(''bpdu_guard'', bool_str (lo_bpdu_guard i)), (''bpdu_guard_do_disable'', bool_str (lo_bpdu_guard_do_disable i)),
        (''root_guard'', bool_str (lo_root_guard i))]))"

definition recover_port :: "'s platform \<Rightarrow> string \<Rightarrow> ('s, unit) handler" where
  "recover_port P name =
     bnd (stp_require P) (\<lambda>_.
     bnd (require_interface P name) (\<lambda>_.
     bnd (row_of P APPL_DB (''STP_PORT_TABLE:'' @ name)) (\<lambda>appl.
     bnd (guard (guard_shutdown appl = Some True)
            (Conflict (name @ '' is not BPDU-guard shutdown; nothing to recover''))) (\<lambda>_.
     cfg_hset P ((if starts_with ''PortChannel'' name then ''PORTCHANNEL'' else ''PORT'') @ ''|'' @ name)
       [(''admin_status'', ''up'')]))))"

end
