(* ===== verification/Lldp.thy ===== *)
theory Lldp
  imports Feature
begin

text \<open>
  LLDP, \<^verbatim>\<open>src/src/sonic/lldp.rs\<close>: neighbors with their decoded capabilities, the local chassis, and the feature toggle
  with the timers of images that have them.
\<close>

definition LLDP_MISSING :: string where
  "LLDP_MISSING = ''the lldp feature is not present on this image''"

definition LLDP_NO_TIMERS :: string where
  "LLDP_NO_TIMERS = ''LLDP timers and system name are not configurable on community SONiC (lldpmgrd does not consume ''
     @ ''the LLDP|GLOBAL table); only enable/disable is available''"

section \<open>Capabilities\<close>

text \<open>Label, bit of the first TLV byte, letter.\<close>

definition LABELS :: "(string \<times> nat \<times> char) list" where
  "LABELS = [(''Other'', 128, CHR ''O''), (''Repeater'', 64, CHR ''P''), (''Bridge'', 32, CHR ''B''),
     (''WLAN Access Point'', 16, CHR ''W''), (''Router'', 8, CHR ''R''), (''Telephone'', 4, CHR ''T''),
     (''DOCSIS Cable Device'', 2, CHR ''D''), (''Station Only'', 1, CHR ''S'')]"

definition hex_pair :: "string \<Rightarrow> bool" where
  "hex_pair p \<longleftrightarrow> length p = 2 \<and> list_all is_hexdigit p"

definition hex_pair_val :: "string \<Rightarrow> nat" where
  "hex_pair_val p = foldl (\<lambda>acc d. 16 * acc + hex_val d) 0 p"

definition has_bit :: "nat \<Rightarrow> nat \<Rightarrow> bool" where
  "has_bit v b \<longleftrightarrow> (v div b) mod 2 = 1"

definition is_alpha :: "char \<Rightarrow> bool" where
  "is_alpha c \<longleftrightarrow> is_upper c \<or> is_lower c"

definition letter_label :: "char \<Rightarrow> string option" where
  "letter_label c = map_option fst (find (\<lambda>(_, _, l). l = upper_char c) LABELS)"

definition add_label :: "string list \<Rightarrow> char \<Rightarrow> string list" where
  "add_label out c = (case letter_label c of
       None \<Rightarrow> out
     | Some l \<Rightarrow> if l \<in> set out then out else out @ [l])"

definition decode_capabilities :: "string \<Rightarrow> string list" where
  "decode_capabilities v =
     (let t = trim v; ps = words t in
      if t = [] then []
      else if list_all hex_pair ps then
        map fst (filter (\<lambda>(_, b, _). has_bit (hex_pair_val (ps ! 0)) b) LABELS)
      else foldl add_label [] (filter is_alpha t))"

section \<open>The document\<close>

definition lldp_config_json :: "probe \<Rightarrow> row \<Rightarrow> json" where
  "lldp_config_json p g =
     (let t = lldp_timers_supported p in
      JObj [(''enabled'', JBool (feature_enabled p ''lldp'')),
        (''hello_time'', jopt JNum (if t then parse_num (field g ''hello_time'') else None)),
        (''multiplier'', jopt JNum (if t then parse_num (field g ''multiplier'') else None)),
        (''system_name'', jopt JStr (if t then field g ''system_name'' else None)),
        (''timers_supported'', JBool t)])"

definition lldp_local_json :: "row \<Rightarrow> json" where
  "lldp_local_json loc = (if loc = [] then JNull else
     JObj [(''chassis_id'', jopt JStr (field loc ''lldp_loc_chassis_id'')),
       (''system_name'', jopt JStr (field loc ''lldp_loc_sys_name'')),
       (''system_description'', jopt JStr (field loc ''lldp_loc_sys_desc'')),
       (''mgmt_addresses'', jstrs (csv_list (field loc ''lldp_loc_man_addr'')))])"

definition neighbor_json :: "string \<Rightarrow> row \<Rightarrow> json" where
  "neighbor_json port e =
     JObj [(''local_port'', JStr port),
       (''remote_system_name'', jopt JStr (field e ''lldp_rem_sys_name'')),
       (''remote_port_id'', jopt JStr (field e ''lldp_rem_port_id'')),
       (''remote_port_description'', jopt JStr (field e ''lldp_rem_port_desc'')),
       (''remote_chassis_id'', jopt JStr (field e ''lldp_rem_chassis_id'')),
       (''remote_system_description'', jopt JStr (field e ''lldp_rem_sys_desc'')),
       (''remote_mgmt_addresses'', jstrs (csv_list (field e ''lldp_rem_man_addr''))),
       (''capabilities'', jstrs (case field e ''lldp_rem_sys_cap_enabled'' of None \<Rightarrow> [] | Some v \<Rightarrow> decode_capabilities v))]"

definition neighbor_of :: "'s platform \<Rightarrow> string \<Rightarrow> ('s, 'e, json option) io" where
  "neighbor_of P key = (case key_suffix key ''LLDP_ENTRY_TABLE:'' of
       None \<Rightarrow> ret None
     | Some port \<Rightarrow> bnd (row_of P APPL_DB key) (\<lambda>e.
         ret (if e = [] then None else Some (neighbor_json port e))))"

definition lldp_get :: "'s platform \<Rightarrow> ('s, string, json) io" where
  "lldp_get P =
     bnd (current P) (\<lambda>p.
     if \<not> lldp_supported p then
       ret (JObj [(''capability'', cap_json (cap_no LLDP_MISSING)),
         (''config'', JObj [(''enabled'', JBool False), (''hello_time'', JNull), (''multiplier'', JNull),
            (''system_name'', JNull), (''timers_supported'', JBool False)]),
         (''local'', JNull), (''neighbors'', JArr [])])
     else
     bnd (if lldp_timers_supported p then row_of P CONFIG_DB ''LLDP|GLOBAL'' else ret []) (\<lambda>g.
     bnd (row_of P APPL_DB ''LLDP_LOC_CHASSIS'') (\<lambda>loc.
     bnd (keys_of P APPL_DB ''LLDP_ENTRY_TABLE:*'') (\<lambda>ks.
     bnd (collect (neighbor_of P) (sort_by natural_cmp ks)) (\<lambda>ns.
     ret (JObj [(''capability'', cap_json cap_yes), (''config'', lldp_config_json p g), (''local'', lldp_local_json loc),
       (''neighbors'', JArr (List.map_filter id ns))]))))))"

section \<open>The configuration\<close>

record lldp_input =
  ld_enabled :: bool
  ld_hello_time :: "nat option"
  ld_multiplier :: "nat option"
  ld_system_name :: "string option"

definition check_lldp :: "lldp_input \<Rightarrow> string + unit" where
  "check_lldp i =
     sbind (check_opt (\<lambda>v. check_range ''hello_time'' v 5 254) (ld_hello_time i)) (\<lambda>_.
     check_opt (\<lambda>v. check_range ''multiplier'' v 1 10) (ld_multiplier i))"

text \<open>The toggle; a successful one invalidates the probe cache, which is not part of the platform's state.\<close>

definition lldp_toggle :: "'s platform \<Rightarrow> bool \<Rightarrow> ('s, unit) handler" where
  "lldp_toggle P on =
     (let st = (if on then ''enabled'' else ''disabled'') in
      bnd (map_err (\<lambda>e. Internal (''config feature state lldp: '' @ e))
             (run_cmd P ''config'' [''feature'', ''state'', ''lldp'', st])) (\<lambda>out.
      guard (co_ok out) (Internal (''config feature state lldp '' @ st @ '' failed: '' @ trim (co_stderr out)))))"

definition lldp_put_config :: "'s platform \<Rightarrow> lldp_input \<Rightarrow> ('s, unit) handler" where
  "lldp_put_config P i =
     bnd (current P) (\<lambda>p.
     bnd (guard (lldp_supported p) (Conflict LLDP_MISSING)) (\<lambda>_.
     bnd (guard (\<not> ((ld_hello_time i \<noteq> None \<or> ld_multiplier i \<noteq> None \<or> ld_system_name i \<noteq> None)
                    \<and> \<not> lldp_timers_supported p)) (Unprocessable LLDP_NO_TIMERS)) (\<lambda>_.
     bnd (bad_request (check_lldp i)) (\<lambda>_.
     bnd (if ld_enabled i \<noteq> feature_enabled p ''lldp'' then lldp_toggle P (ld_enabled i) else ret ()) (\<lambda>_.
     if lldp_timers_supported p then
       for_each (write_patch P ''LLDP|GLOBAL'')
         [(''hello_time'', Some (map_option show_nat (ld_hello_time i))),
          (''multiplier'', Some (map_option show_nat (ld_multiplier i))),
          (''system_name'', Some (ld_system_name i))]
     else ret ())))))"

text \<open>
  The letter form of the capabilities is taken for the hexadecimal form when every letter is a hexadecimal digit: a
  bridge that is also a DOCSIS device.
\<close>

lemma lldp_letters_as_hex:
  "decode_capabilities ''B, R'' = [''Bridge'', ''Router'']"
  "decode_capabilities ''BR'' = [''Bridge'', ''Router'']"
  "decode_capabilities ''BD'' = [''Other'', ''Bridge'', ''WLAN Access Point'', ''Router'', ''Telephone'', ''Station Only'']"
  by (simp_all add: decode_capabilities_def LABELS_def hex_pair_def hex_pair_val_def has_bit_def is_alpha_def
    letter_label_def add_label_def trim_def trim_start_def trim_end_def is_space_def is_hexdigit_def hex_val_def byte_def
    is_upper_def is_lower_def is_digit_def upper_char_def words.simps)

end
