(* ===== verification/Igmp.thy ===== *)
theory Igmp
  imports Feature
begin

text \<open>
  IGMP snooping of Enterprise SONiC, \<^verbatim>\<open>src/src/sonic/igmp.rs\<close>: the per-VLAN settings and the learned groups.
\<close>

definition IGMP_UNSUPPORTED :: string where
  "IGMP_UNSUPPORTED = ''IGMP snooping requires Enterprise SONiC.''"

text \<open>VLAN, group and source of a member key; an absent, empty or wildcard source is none.\<close>

definition parse_group_key :: "string \<Rightarrow> (nat \<times> string \<times> string option) option" where
  "parse_group_key key =
     Option.bind (strip_prefix ''APP_L2MC_MEMBER_TABLE:'' key) (\<lambda>rest.
     case split_on (CHR '':'') rest of
       v # g # ss \<Rightarrow> Option.bind (vlan_id_from_name v) (\<lambda>vlan.
         if g = [] then None
         else Some (vlan, g, case ss of
             [] \<Rightarrow> None
           | s # _ \<Rightarrow> if s \<noteq> [] \<and> s \<noteq> ''*'' \<and> s \<noteq> ''0.0.0.0'' then Some s else None))
     | _ \<Rightarrow> None)"

record igmp_group =
  ig_vlan :: nat
  ig_group :: string
  ig_source :: "string option"
  ig_ports :: "string list"
  ig_origin :: string

definition igmp_vlan_json :: "nat \<Rightarrow> row \<Rightarrow> json" where
  "igmp_vlan_json n cfg =
     JObj [(''vlan_id'', JNum n), (''enabled'', JBool (flag cfg ''enabled'')), (''querier'', JBool (flag cfg ''querier'')),
       (''fast_leave'', JBool (flag cfg ''fast-leave'')), (''version'', jopt JNum (num32 cfg ''version'')),
       (''query_interval'', jopt JNum (parse_num (field cfg ''query-interval''))),
       (''last_member_query_interval'', jopt JNum (parse_num (field cfg ''last-member-query-interval''))),
       (''query_max_response_time'', jopt JNum (parse_num (field cfg ''query-max-response-time'')))]"

definition igmp_group_of :: "'s platform \<Rightarrow> string \<Rightarrow> ('s, 'e, igmp_group option) io" where
  "igmp_group_of P key = (case parse_group_key key of
       None \<Rightarrow> ret None
     | Some (vlan, g, src) \<Rightarrow> bnd (row_of P APPL_DB key) (\<lambda>r.
         ret (Some \<lparr>ig_vlan = vlan, ig_group = g, ig_source = src,
           ig_ports = csv_list (opt_else (field r ''ports@'') (field r ''ports'')),
           ig_origin = (if field r ''type'' = Some ''static'' then ''static'' else ''dynamic'')\<rparr>)))"

definition igmp_group_cmp :: "igmp_group \<Rightarrow> igmp_group \<Rightarrow> ordering" where
  "igmp_group_cmp a b = then_cmp (cmp (ig_vlan a) (ig_vlan b)) (cmp (ig_group a) (ig_group b))"

definition igmp_group_json :: "igmp_group \<Rightarrow> json" where
  "igmp_group_json g = JObj [(''vlan_id'', JNum (ig_vlan g)), (''group_address'', JStr (ig_group g)),
     (''source_address'', jopt JStr (ig_source g)), (''ports'', jstrs (ig_ports g)), (''origin'', JStr (ig_origin g))]"

definition igmp_get :: "'s platform \<Rightarrow> ('s, string, json) io" where
  "igmp_get P =
     bnd (current P) (\<lambda>p.
     if \<not> igmp_snooping_supported p then
       ret (JObj [(''capability'', cap_json (cap_no IGMP_UNSUPPORTED)), (''vlans'', JArr []), (''groups'', JArr [])])
     else
     bnd (scan P CONFIG_DB ''VLAN|*'') (\<lambda>ks.
     bnd (collect (\<lambda>n. bnd (row_of P CONFIG_DB (''CFG_L2MC_TABLE|Vlan'' @ show_nat n)) (\<lambda>cfg.
            ret (igmp_vlan_json n cfg))) (key_id_sorted_vlans ks)) (\<lambda>vs.
     bnd (keys_of P APPL_DB ''APP_L2MC_MEMBER_TABLE:*'') (\<lambda>gks.
     bnd (collect (igmp_group_of P) gks) (\<lambda>gs.
     ret (JObj [(''capability'', cap_json cap_yes), (''vlans'', JArr vs),
       (''groups'', JArr (map igmp_group_json (sort_by igmp_group_cmp (List.map_filter id gs))))]))))))"

record igmp_input =
  gv_enabled :: bool
  gv_querier :: bool
  gv_fast_leave :: bool
  gv_version :: "nat option"
  gv_query_interval :: "nat option"
  gv_last_member :: "nat option"
  gv_max_response :: "nat option"

definition check_igmp :: "igmp_input \<Rightarrow> string + unit" where
  "check_igmp i =
     sbind (check_opt (\<lambda>v. check_range ''version'' v 1 3) (gv_version i)) (\<lambda>_.
     sbind (check_opt (\<lambda>v. check_range ''query_interval'' v 1 18000) (gv_query_interval i)) (\<lambda>_.
     sbind (check_opt (\<lambda>v. check_range ''last_member_query_interval'' v 100 25500) (gv_last_member i)) (\<lambda>_.
     check_opt (\<lambda>v. check_range ''query_max_response_time'' v 1 25) (gv_max_response i))))"

definition igmp_put_vlan :: "'s platform \<Rightarrow> nat \<Rightarrow> igmp_input \<Rightarrow> ('s, unit) handler" where
  "igmp_put_vlan P n i =
     bnd (current P) (\<lambda>p.
     bnd (guard (igmp_snooping_supported p) (Conflict IGMP_UNSUPPORTED)) (\<lambda>_.
     bnd (bad_request (check_igmp i)) (\<lambda>_.
     bnd (cfg_exists P (''VLAN|Vlan'' @ show_nat n)) (\<lambda>e.
     bnd (guard e (NotFound (''no such VLAN Vlan'' @ show_nat n))) (\<lambda>_.
     let key = ''CFG_L2MC_TABLE|Vlan'' @ show_nat n in
     bnd (cfg_hset P key [(''enabled'', bool_str (gv_enabled i)), (''querier'', bool_str (gv_querier i)),
            (''fast-leave'', bool_str (gv_fast_leave i))]) (\<lambda>_.
     for_each (write_patch P key)
       [(''version'', Some (map_option show_nat (gv_version i))),
        (''query-interval'', Some (map_option show_nat (gv_query_interval i))),
        (''last-member-query-interval'', Some (map_option show_nat (gv_last_member i))),
        (''query-max-response-time'', Some (map_option show_nat (gv_max_response i)))]))))))"

end
