(* ===== verification/Mirror.thy ===== *)
theory Mirror
  imports Feature Ip
begin

text \<open>
  Port mirroring, \<^verbatim>\<open>src/src/sonic/mirror.rs\<close>: SPAN and ERSPAN sessions, written as whole rows, and the guard against
  deleting a session that an ACL rule uses.
\<close>

definition SPAN_UNSUPPORTED :: string where
  "SPAN_UNSUPPORTED = ''SPAN mirror sessions require SONiC 202012 or newer; this image only supports ERSPAN.''"

section \<open>The document\<close>

record erspan_doc =
  ed_src_ip :: "string option"
  ed_dst_ip :: "string option"
  ed_gre_type :: "string option"
  ed_dscp :: "nat option"
  ed_ttl :: "nat option"
  ed_queue :: "nat option"

record session_doc =
  sd_name :: string
  sd_type :: string
  sd_source_ports :: "string list"
  sd_direction :: string
  sd_dst_port :: "string option"
  sd_erspan :: "erspan_doc option"
  sd_status :: "string option"

definition is_span_row :: "row \<Rightarrow> bool" where
  "is_span_row cfg \<longleftrightarrow> (case field cfg ''type'' of None \<Rightarrow> False | Some t \<Rightarrow> eq_ignore_case t ''span'')"

definition row_direction :: "row \<Rightarrow> string" where
  "row_direction cfg = (case map_option to_lower (field cfg ''direction'') of
       Some d \<Rightarrow> if d = ''rx'' then ''rx'' else if d = ''tx'' then ''tx'' else ''both''
     | None \<Rightarrow> ''both'')"

definition row_status :: "row \<Rightarrow> string option" where
  "row_status st = (case map_option to_lower (field st ''status'') of
       Some d \<Rightarrow> if d = ''active'' then Some ''active'' else if d = ''inactive'' then Some ''inactive'' else None
     | None \<Rightarrow> None)"

definition session_of :: "string \<Rightarrow> row \<Rightarrow> row \<Rightarrow> session_doc" where
  "session_of name cfg st =
     \<lparr>sd_name = name, sd_type = (if is_span_row cfg then ''span'' else ''erspan''),
      sd_source_ports = csv_list (field cfg ''src_port''), sd_direction = row_direction cfg,
      sd_dst_port = (if is_span_row cfg then field cfg ''dst_port'' else None),
      sd_erspan = (if is_span_row cfg then None else Some
        \<lparr>ed_src_ip = field cfg ''src_ip'', ed_dst_ip = field cfg ''dst_ip'', ed_gre_type = field cfg ''gre_type'',
         ed_dscp = parse_num (field cfg ''dscp''), ed_ttl = parse_num (field cfg ''ttl''),
         ed_queue = parse_num (field cfg ''queue'')\<rparr>),
      sd_status = row_status st\<rparr>"

definition session_of_key :: "'s platform \<Rightarrow> string \<Rightarrow> ('s, 'e, session_doc option) io" where
  "session_of_key P key = (case key_suffix key ''MIRROR_SESSION|'' of
       None \<Rightarrow> ret None
     | Some name \<Rightarrow>
         bnd (row_of P CONFIG_DB key) (\<lambda>cfg.
         bnd (row_of P STATE_DB (''MIRROR_SESSION_TABLE|'' @ name)) (\<lambda>st.
         ret (Some (session_of name cfg st)))))"

definition erspan_json :: "erspan_doc \<Rightarrow> json" where
  "erspan_json e = JObj [(''src_ip'', jopt JStr (ed_src_ip e)), (''dst_ip'', jopt JStr (ed_dst_ip e)),
     (''gre_type'', jopt JStr (ed_gre_type e)), (''dscp'', jopt JNum (ed_dscp e)), (''ttl'', jopt JNum (ed_ttl e)),
     (''queue'', jopt JNum (ed_queue e))]"

definition session_json :: "session_doc \<Rightarrow> json" where
  "session_json d = JObj [(''name'', JStr (sd_name d)), (''type'', JStr (sd_type d)),
     (''source_ports'', jstrs (sd_source_ports d)), (''direction'', JStr (sd_direction d)),
     (''dst_port'', jopt JStr (sd_dst_port d)), (''erspan'', jopt erspan_json (sd_erspan d)),
     (''status'', jopt JStr (sd_status d))]"

definition mirror_get :: "'s platform \<Rightarrow> ('s, string, json) io" where
  "mirror_get P =
     bnd (current P) (\<lambda>p.
     let cap = (if span_mirror_supported p then cap_yes else cap_yes_with_reason SPAN_UNSUPPORTED) in
     bnd (keys_of P CONFIG_DB ''MIRROR_SESSION|*'') (\<lambda>ks.
     bnd (collect (session_of_key P) ks) (\<lambda>ds.
     ret (JObj [(''capability'', cap_json cap),
       (''sessions'', JArr (map session_json (sort_by (\<lambda>a b. cmp (sd_name a) (sd_name b)) (List.map_filter id ds))))]))))"

section \<open>The session of a request\<close>

datatype session_type = Span | Erspan

datatype direction = Rx | Tx | Both

primrec direction_config :: "direction \<Rightarrow> string" where
  "direction_config Rx = ''RX''"
| "direction_config Tx = ''TX''"
| "direction_config Both = ''BOTH''"

record erspan_input =
  ei_src_ip :: string
  ei_dst_ip :: string
  ei_gre_type :: "string option"
  ei_dscp :: "nat option"
  ei_ttl :: "nat option"
  ei_queue :: "nat option"

record session_input =
  si_type :: session_type
  si_source_ports :: "string list"
  si_direction :: direction
  si_dst_port :: "string option"
  si_erspan :: "erspan_input option"

definition check_session_name :: "string \<Rightarrow> string + unit" where
  "check_session_name name = check (\<not> (name = [] \<or> CHR ''|'' \<in> set name \<or> list_ex is_space name))
     (''invalid mirror session name '' @ dbg name)"

definition check_mirror_ip :: "string \<Rightarrow> string \<Rightarrow> string + unit" where
  "check_mirror_ip label v = check (parse_ip v \<noteq> None) (''invalid '' @ label @ '' '' @ dbg v @ '' (expected an IP address)'')"

text \<open>\<open>u16::from_str_radix(\<dots>, 16)\<close>, which accepts a leading plus sign.\<close>

definition parse_hex16 :: "string \<Rightarrow> nat option" where
  "parse_hex16 s =
     (let ds = (case s of c # cs \<Rightarrow> if c = CHR ''+'' then cs else s | [] \<Rightarrow> []);
          n = foldl (\<lambda>acc d. 16 * acc + hex_val d) 0 ds
      in if ds \<noteq> [] \<and> list_all is_hexdigit ds \<and> n < 2 ^ 16 then Some n else None)"

definition check_gre_type :: "string \<Rightarrow> string + unit" where
  "check_gre_type v =
     (let parsed = (case opt_else (strip_prefix ''0x'' v) (strip_prefix ''0X'' v) of
            Some h \<Rightarrow> parse_hex16 h
          | None \<Rightarrow> parse_uint 16 v)
      in check (parsed \<noteq> None) (''invalid gre_type '' @ dbg v @ '' (expected e.g. '' @ dbg ''0x88be'' @ '')''))"

fun check_sources :: "string list \<Rightarrow> string list \<Rightarrow> string + unit" where
  "check_sources seen [] = Inr ()"
| "check_sources seen (p # ps) =
     (if p \<in> set seen then Inl (''duplicate source port '' @ p) else check_sources (seen @ [p]) ps)"

definition check_erspan :: "erspan_input \<Rightarrow> string + unit" where
  "check_erspan e =
     sbind (check_mirror_ip ''src_ip'' (ei_src_ip e)) (\<lambda>_.
     sbind (check_mirror_ip ''dst_ip'' (ei_dst_ip e)) (\<lambda>_.
     sbind (check_opt check_gre_type (ei_gre_type e)) (\<lambda>_.
     sbind (check_opt (\<lambda>d. check (\<not> d > 63) (''invalid dscp '' @ show_nat d @ '' (must be 0-63)'')) (ei_dscp e)) (\<lambda>_.
     check_opt (\<lambda>t. check (1 \<le> t \<and> t \<le> 255) (''invalid ttl '' @ show_nat t @ '' (must be 1-255)'')) (ei_ttl e)))))"

definition check_session :: "string \<Rightarrow> session_input \<Rightarrow> string + unit" where
  "check_session name i =
     sbind (check_session_name name) (\<lambda>_.
     sbind (check (si_source_ports i \<noteq> []) ''a mirror session needs at least one source port'') (\<lambda>_.
     sbind (check_sources [] (si_source_ports i)) (\<lambda>_.
     (case si_type i of
        Span \<Rightarrow>
          sbind (check (si_erspan i = None) ''a span session does not take erspan parameters'') (\<lambda>_.
          check (si_dst_port i \<noteq> None \<and> si_dst_port i \<noteq> Some []) ''a span session requires dst_port'')
      | Erspan \<Rightarrow>
          sbind (check (si_dst_port i = None) ''an erspan session does not take dst_port'') (\<lambda>_.
          (case si_erspan i of
             None \<Rightarrow> Inl ''an erspan session requires src_ip and dst_ip''
           | Some e \<Rightarrow> check_erspan e))))))"

definition check_source_exists :: "'s platform \<Rightarrow> string \<Rightarrow> ('s, unit) handler" where
  "check_source_exists P port =
     bnd (cfg_exists P (''PORT|'' @ port)) (\<lambda>e.
     bnd (if e then ret True else cfg_exists P (''PORTCHANNEL|'' @ port)) (\<lambda>e.
     guard e (BadRequest (''no such interface '' @ port))))"

definition check_dst :: "'s platform \<Rightarrow> session_input \<Rightarrow> ('s, unit) handler" where
  "check_dst P i = (case si_dst_port i of
       None \<Rightarrow> ret ()
     | Some dst \<Rightarrow>
         bnd (cfg_exists P (''PORT|'' @ dst)) (\<lambda>e.
         bnd (guard e (BadRequest (''dst_port '' @ dst @ '' is not a physical port''))) (\<lambda>_.
         guard (dst \<notin> set (si_source_ports i)) (BadRequest (''dst_port '' @ dst @ '' cannot also be a source port'')))))"

text \<open>The fields; the \<open>expect\<close>s of the source hold for a checked request, which has the optional part of its type.\<close>

definition session_fields :: "bool \<Rightarrow> session_input \<Rightarrow> row" where
  "session_fields span_ok i =
     [(''src_port'', join '','' (si_source_ports i)), (''direction'', direction_config (si_direction i))]
     @ (case si_type i of
          Span \<Rightarrow> [(''type'', ''SPAN'')] @ opt_pair ''dst_port'' (si_dst_port i)
        | Erspan \<Rightarrow> (if span_ok then [(''type'', ''ERSPAN'')] else [])
            @ (case si_erspan i of
                 None \<Rightarrow> []
               | Some e \<Rightarrow> [(''src_ip'', ei_src_ip e), (''dst_ip'', ei_dst_ip e)]
                   @ opt_pair ''gre_type'' (ei_gre_type e) @ opt_pair ''dscp'' (map_option show_nat (ei_dscp e))
                   @ opt_pair ''ttl'' (map_option show_nat (ei_ttl e)) @ opt_pair ''queue'' (map_option show_nat (ei_queue e))))"

definition put_session :: "'s platform \<Rightarrow> string \<Rightarrow> session_input \<Rightarrow> ('s, unit) handler" where
  "put_session P name i =
     bnd (bad_request (check_session name i)) (\<lambda>_.
     bnd (current P) (\<lambda>p.
     bnd (guard (\<not> (si_type i = Span \<and> \<not> span_mirror_supported p)) (Conflict SPAN_UNSUPPORTED)) (\<lambda>_.
     bnd (for_each (check_source_exists P) (si_source_ports i)) (\<lambda>_.
     bnd (check_dst P i) (\<lambda>_.
     let key = ''MIRROR_SESSION|'' @ name in
     bnd (cfg_del P key) (\<lambda>_.
     cfg_hset P key (session_fields (span_mirror_supported p) i)))))))"

section \<open>Deletion\<close>

definition MIRROR_ACTIONS :: "string list" where
  "MIRROR_ACTIONS = [''MIRROR_ACTION'', ''MIRROR_INGRESS_ACTION'', ''MIRROR_EGRESS_ACTION'']"

definition refers_to :: "string \<Rightarrow> row \<Rightarrow> bool" where
  "refers_to name r \<longleftrightarrow> list_ex (\<lambda>f. field r f = Some name) MIRROR_ACTIONS"

definition check_unused :: "'s platform \<Rightarrow> string \<Rightarrow> string \<Rightarrow> ('s, unit) handler" where
  "check_unused P name rule_key =
     bnd (row_of P CONFIG_DB rule_key) (\<lambda>r.
     guard (\<not> refers_to name r) (Conflict (''mirror session '' @ name @ '' is in use by ACL rule ''
       @ opt_or (strip_prefix ''ACL_RULE|'' rule_key) rule_key @ ''; remove the rule first'')))"

definition delete_session :: "'s platform \<Rightarrow> string \<Rightarrow> ('s, unit) handler" where
  "delete_session P name =
     bnd (cfg_exists P (''MIRROR_SESSION|'' @ name)) (\<lambda>e.
     bnd (guard e (NotFound (''no such mirror session '' @ name))) (\<lambda>_.
     bnd (keys_of P CONFIG_DB ''ACL_RULE|*'') (\<lambda>ks.
     bnd (for_each (check_unused P name) ks) (\<lambda>_.
     cfg_del P (''MIRROR_SESSION|'' @ name)))))"

end
