(* ===== verification/StormControl.thy ===== *)
theory StormControl
  imports Feature
begin

text \<open>
  Storm control, \<^verbatim>\<open>src/src/sonic/stormcontrol.rs\<close>: one limit row per port and traffic class.
\<close>

definition STORM_UNSUPPORTED :: string where
  "STORM_UNSUPPORTED = ''Storm control requires an image whose orchagent handles PORT_STORM_CONTROL ''
     @ ''(community SONiC 202205 or newer).''"

definition CLASSES :: "(string \<times> string) list" where
  "CLASSES = [(''broadcast_kbps'', ''broadcast''), (''unknown_unicast_kbps'', ''unknown-unicast''),
     (''unknown_multicast_kbps'', ''unknown-multicast'')]"

definition storm_key :: "string \<Rightarrow> string \<Rightarrow> string" where
  "storm_key port cls = ''PORT_STORM_CONTROL|'' @ port @ ''|'' @ cls"

definition kbps_of :: "'s platform \<Rightarrow> string \<Rightarrow> string \<Rightarrow> ('s, 'e, nat option) io" where
  "kbps_of P name cls = bnd (row_of P CONFIG_DB (storm_key name cls)) (\<lambda>r. ret (parse_num (field r ''kbps'')))"

definition storm_port_json :: "'s platform \<Rightarrow> string \<Rightarrow> ('s, 'e, json) io" where
  "storm_port_json P name =
     bnd (row_of P CONFIG_DB (''PORT|'' @ name)) (\<lambda>r.
     bnd (kbps_of P name ''broadcast'') (\<lambda>b.
     bnd (kbps_of P name ''unknown-unicast'') (\<lambda>u.
     bnd (kbps_of P name ''unknown-multicast'') (\<lambda>m.
     ret (JObj [(''port'', JStr name), (''alias'', jopt JStr (field r ''alias'')), (''broadcast_kbps'', jopt JNum b),
       (''unknown_unicast_kbps'', jopt JNum u), (''unknown_multicast_kbps'', jopt JNum m)])))))"

definition storm_get :: "'s platform \<Rightarrow> ('s, string, json) io" where
  "storm_get P =
     bnd (current P) (\<lambda>p.
     if \<not> storm_control_supported p then
       ret (JObj [(''capability'', cap_json (cap_no STORM_UNSUPPORTED)), (''ports'', JArr [])])
     else
     bnd (keys_of P CONFIG_DB ''PORT|*'') (\<lambda>ks.
     bnd (collect (storm_port_json P) (sort_by natural_cmp (List.map_filter (\<lambda>k. key_suffix k ''PORT|'') ks))) (\<lambda>ps.
     ret (JObj [(''capability'', cap_json cap_yes), (''ports'', JArr ps)]))))"

record storm_input =
  st_broadcast :: "nat option"
  st_unknown_unicast :: "nat option"
  st_unknown_multicast :: "nat option"

definition limit_of :: "storm_input \<Rightarrow> string \<Rightarrow> nat option" where
  "limit_of i json_name =
     (if json_name = ''broadcast_kbps'' then st_broadcast i
      else if json_name = ''unknown_unicast_kbps'' then st_unknown_unicast i
      else st_unknown_multicast i)"

definition check_limit :: "storm_input \<Rightarrow> string \<times> string \<Rightarrow> string + unit" where
  "check_limit i = (\<lambda>(json_name, _). check_opt (\<lambda>v. check (\<not> (v = 0 \<or> v > 400000000))
     (''invalid '' @ json_name @ '' '' @ show_nat v @ '' (must be 1-400000000; use null to remove the limit)''))
     (limit_of i json_name))"

definition write_limit :: "'s platform \<Rightarrow> string \<Rightarrow> storm_input \<Rightarrow> string \<times> string \<Rightarrow> ('s, unit) handler" where
  "write_limit P port i = (\<lambda>(json_name, cls). case limit_of i json_name of
       Some v \<Rightarrow> cfg_hset P (storm_key port cls) [(''kbps'', show_nat v)]
     | None \<Rightarrow> cfg_del P (storm_key port cls))"

definition storm_put_port :: "'s platform \<Rightarrow> string \<Rightarrow> storm_input \<Rightarrow> ('s, unit) handler" where
  "storm_put_port P port i =
     bnd (bad_request (check_all (check_limit i) CLASSES)) (\<lambda>_.
     bnd (current P) (\<lambda>p.
     bnd (guard (storm_control_supported p) (Conflict STORM_UNSUPPORTED)) (\<lambda>_.
     bnd (cfg_exists P (''PORT|'' @ port)) (\<lambda>e.
     bnd (guard e (NotFound (''no such port '' @ port))) (\<lambda>_.
     for_each (write_limit P port i) CLASSES)))))"

end
