(* ===== verification/Fdb.thy ===== *)
theory Fdb
  imports Feature
begin

text \<open>
  The forwarding database, \<^verbatim>\<open>src/src/sonic/fdb.rs\<close>: the canonical form of MAC addresses, the aging time and static
  entries, and the learned table assembled from ASIC_DB. \<open>serde_json::from_str\<close> is the parameter \<open>from_str\<close>.
\<close>

definition READ_ONLY_REASON :: string where
  "READ_ONLY_REASON = ''MAC table configuration (aging time, static entries) requires community SONiC ''
     @ ''202205 or newer; the learned table is still shown.''"

definition AGING_DEFAULT_SECS :: nat where "AGING_DEFAULT_SECS = 600"

definition TABLE_CAP :: nat where "TABLE_CAP = 20000"

section \<open>MAC addresses\<close>

definition mac_pairs :: "string \<Rightarrow> string list" where
  "mac_pairs h = map (\<lambda>i. take 2 (drop (2 * i) h)) [0..<6]"

definition normalize_mac :: "string \<Rightarrow> string option" where
  "normalize_mac input =
     (let h = filter is_hexdigit (to_lower (trim input)) in
      if length h \<noteq> 12 \<or> list_ex (\<lambda>c. \<not> is_hexdigit c \<and> c \<notin> set '':-. '') input then None
      else Some (join '':'' (mac_pairs h)))"

definition fdb_capability :: "bool \<Rightarrow> capability" where
  "fdb_capability writable = (if writable then cap_yes
     else \<lparr>supported = True, read_only = True, reason = Some READ_ONLY_REASON\<rparr>)"

section \<open>Static entries\<close>

definition parse_static_key :: "string \<Rightarrow> (nat \<times> string) option" where
  "parse_static_key suf =
     Option.bind (split_once (CHR '':'') suf) (\<lambda>(vlan, mac).
     Option.bind (vlan_id_from_name vlan) (\<lambda>n.
     Option.bind (normalize_mac mac) (\<lambda>m. Some (n, m))))"

definition static_of_key :: "'s platform \<Rightarrow> string \<Rightarrow> ('s, 'e, (nat \<times> string \<times> string) option) io" where
  "static_of_key P key = (case Option.bind (strip_prefix ''FDB|'' key) parse_static_key of
       None \<Rightarrow> ret None
     | Some (vlan, mac) \<Rightarrow> bnd (row_of P CONFIG_DB key) (\<lambda>r.
         ret (map_option (\<lambda>port. (vlan, mac, port)) (field r ''port''))))"

definition entry_cmp :: "(nat \<times> string \<times> 'a) \<Rightarrow> (nat \<times> string \<times> 'a) \<Rightarrow> ordering" where
  "entry_cmp a b = then_cmp (cmp (fst a) (fst b)) (cmp (fst (snd a)) (fst (snd b)))"

definition static_json :: "nat \<times> string \<times> string \<Rightarrow> json" where
  "static_json = (\<lambda>(vlan, mac, port). JObj [(''vlan_id'', JNum vlan), (''mac'', JStr mac), (''port'', JStr port)])"

definition fdb_get :: "'s platform \<Rightarrow> ('s, string, json) io" where
  "fdb_get P =
     bnd (current P) (\<lambda>p.
     bnd (row_of P CONFIG_DB ''SWITCH|switch'') (\<lambda>sw.
     bnd (keys_of P CONFIG_DB ''FDB|*'') (\<lambda>ks.
     bnd (collect (static_of_key P) ks) (\<lambda>es.
     ret (JObj [(''capability'', cap_json (fdb_capability (fdb_config_writable p))),
       (''aging_time_seconds'', jopt JNum (parse_num (field sw ''fdb_aging_time''))),
       (''aging_time_default'', JNum AGING_DEFAULT_SECS),
       (''static_entries'', JArr (map static_json (sort_by entry_cmp (List.map_filter id es))))])))))"

definition fdb_check_writable :: "'s platform \<Rightarrow> ('s, unit) handler" where
  "fdb_check_writable P = bnd (current P) (\<lambda>p. guard (fdb_config_writable p) (Conflict READ_ONLY_REASON))"

definition fdb_put_settings :: "'s platform \<Rightarrow> nat option \<Rightarrow> ('s, unit) handler" where
  "fdb_put_settings P aging =
     bnd (bad_request (check_opt (\<lambda>v. check (\<not> v > 1000000)
            (''invalid aging_time_seconds '' @ show_nat v @ '' (must be 0-1000000)'')) aging)) (\<lambda>_.
     bnd (fdb_check_writable P) (\<lambda>_.
     write_patch P ''SWITCH|switch'' (''fdb_aging_time'', Some (map_option show_nat aging))))"

text \<open>The \<open>expect\<close> of the source holds: a canonical address starts with two hexadecimal digits.\<close>

definition check_mac :: "string \<Rightarrow> string + string" where
  "check_mac mac = (case normalize_mac mac of
       None \<Rightarrow> Inl (''invalid MAC address '' @ dbg mac @ '' (expected e.g. 00:11:22:33:44:55)'')
     | Some m \<Rightarrow>
         if foldl (\<lambda>acc d. 16 * acc + hex_val d) 0 (take 2 m) mod 2 = 1 then
           Inl (m @ '' is a multicast address; static FDB entries must be unicast'')
         else if m = ''00:00:00:00:00:00'' then Inl ''the all-zero MAC address is not valid''
         else Inr m)"

definition names_entry :: "nat \<Rightarrow> string \<Rightarrow> string \<Rightarrow> bool" where
  "names_entry n mac key \<longleftrightarrow> Option.bind (strip_prefix ''FDB|'' key) parse_static_key = Some (n, mac)"

definition matching_static_keys :: "'s platform \<Rightarrow> nat \<Rightarrow> string \<Rightarrow> ('s, string list) handler" where
  "matching_static_keys P n mac =
     bnd (cfg_scan_all P (''FDB|Vlan'' @ show_nat n @ '':*'')) (\<lambda>ks. ret (filter (names_entry n mac) ks))"

definition put_static :: "'s platform \<Rightarrow> nat \<Rightarrow> string \<Rightarrow> string \<Rightarrow> ('s, unit) handler" where
  "put_static P n mac port =
     bnd (bad_request (check_mac mac)) (\<lambda>mac.
     bnd (fdb_check_writable P) (\<lambda>_.
     bnd (cfg_exists P (''VLAN|Vlan'' @ show_nat n)) (\<lambda>e.
     bnd (guard e (NotFound (''no such VLAN Vlan'' @ show_nat n))) (\<lambda>_.
     bnd (cfg_exists P (''VLAN_MEMBER|Vlan'' @ show_nat n @ ''|'' @ port)) (\<lambda>m.
     bnd (guard m (BadRequest (port @ '' is not a member of VLAN '' @ show_nat n))) (\<lambda>_.
     let canonical = ''FDB|Vlan'' @ show_nat n @ '':'' @ mac in
     bnd (matching_static_keys P n mac) (\<lambda>ks.
     bnd (for_each (\<lambda>key. if key \<noteq> canonical then cfg_del P key else ret ()) ks) (\<lambda>_.
     cfg_hset P canonical [(''port'', port), (''type'', ''static'')]))))))))"

definition delete_static :: "'s platform \<Rightarrow> nat \<Rightarrow> string \<Rightarrow> ('s, unit) handler" where
  "delete_static P n mac =
     bnd (bad_request (check_mac mac)) (\<lambda>mac.
     bnd (fdb_check_writable P) (\<lambda>_.
     bnd (matching_static_keys P n mac) (\<lambda>ks.
     bnd (guard (ks \<noteq> []) (NotFound (''no static FDB entry for '' @ mac @ '' on VLAN '' @ show_nat n))) (\<lambda>_.
     for_each (cfg_del P) ks))))"

section \<open>The learned table\<close>

definition parse_asic_fdb_key :: "(string \<Rightarrow> json option) \<Rightarrow> string \<Rightarrow> (string \<times> string) option" where
  "parse_asic_fdb_key from_str key =
     Option.bind (strip_prefix ''ASIC_STATE:SAI_OBJECT_TYPE_FDB_ENTRY:'' key) (\<lambda>tail.
     Option.bind (from_str tail) (\<lambda>v.
     Option.bind (as_str (jget v ''bvid'')) (\<lambda>bvid.
     Option.bind (Option.bind (as_str (jget v ''mac'')) normalize_mac) (\<lambda>mac. Some (bvid, mac)))))"

text \<open>The caches of the loop: the VLAN of a bridge VLAN object, the name of a bridge port.\<close>

type_synonym fdb_caches = "(string \<times> nat option) list \<times> (string \<times> string option) list"

definition vlan_of_bvid :: "'s platform \<Rightarrow> string \<Rightarrow> fdb_caches \<Rightarrow> ('s, 'e, nat option \<times> fdb_caches) io" where
  "vlan_of_bvid P bvid = (\<lambda>(vs, ps). case map_of vs bvid of
       Some v \<Rightarrow> ret (v, vs, ps)
     | None \<Rightarrow> bnd (row_of P ASIC_DB (''ASIC_STATE:SAI_OBJECT_TYPE_VLAN:'' @ bvid)) (\<lambda>r.
         let v = num32 r ''SAI_VLAN_ATTR_VLAN_ID'' in ret (v, al_put bvid v vs, ps)))"

definition port_of_bridge :: "'s platform \<Rightarrow> row \<Rightarrow> string \<Rightarrow> fdb_caches \<Rightarrow> ('s, 'e, string option \<times> fdb_caches) io" where
  "port_of_bridge P oids oid = (\<lambda>(vs, ps). case map_of ps oid of
       Some p \<Rightarrow> ret (p, vs, ps)
     | None \<Rightarrow> bnd (row_of P ASIC_DB (''ASIC_STATE:SAI_OBJECT_TYPE_BRIDGE_PORT:'' @ oid)) (\<lambda>r.
         let p = Option.bind (field r ''SAI_BRIDGE_PORT_ATTR_PORT_ID'') (map_of oids) in ret (p, vs, al_put oid p ps)))"

definition origin_of :: "row \<Rightarrow> string" where
  "origin_of r = (case field r ''SAI_FDB_ENTRY_ATTR_TYPE'' of
       Some t \<Rightarrow> if contains t ''STATIC'' then ''static'' else ''dynamic''
     | None \<Rightarrow> ''dynamic'')"

definition learned_entry :: "(string \<Rightarrow> json option) \<Rightarrow> 's platform \<Rightarrow> row \<Rightarrow> string \<Rightarrow> fdb_caches \<Rightarrow>
    ('s, 'e, (nat \<times> string \<times> string \<times> string) option \<times> fdb_caches) io" where
  "learned_entry from_str P oids key c = (case parse_asic_fdb_key from_str key of
       None \<Rightarrow> ret (None, c)
     | Some (bvid, mac) \<Rightarrow>
         bnd (vlan_of_bvid P bvid c) (\<lambda>(v, c). case v of
           None \<Rightarrow> ret (None, c)
         | Some vlan \<Rightarrow>
             bnd (row_of P ASIC_DB key) (\<lambda>entry. case field entry ''SAI_FDB_ENTRY_ATTR_BRIDGE_PORT_ID'' of
               None \<Rightarrow> ret (None, c)
             | Some oid \<Rightarrow>
                 bnd (port_of_bridge P oids oid c) (\<lambda>(p, c).
                 ret (map_option (\<lambda>port. (vlan, mac, port, origin_of entry)) p, c)))))"

primrec learned_entries :: "(string \<Rightarrow> json option) \<Rightarrow> 's platform \<Rightarrow> row \<Rightarrow> string list \<Rightarrow> fdb_caches \<Rightarrow>
    ('s, 'e, (nat \<times> string \<times> string \<times> string) list) io" where
  "learned_entries from_str P oids [] c = ret []"
| "learned_entries from_str P oids (k # ks) c =
     bnd (learned_entry from_str P oids k c) (\<lambda>(e, c).
     bnd (learned_entries from_str P oids ks c) (\<lambda>es.
     ret (case e of None \<Rightarrow> es | Some x \<Rightarrow> x # es)))"

definition swap_all :: "row \<Rightarrow> row" where
  "swap_all r = map (\<lambda>(name, oid). (oid, name)) r"

definition learned_json :: "nat \<times> string \<times> string \<times> string \<Rightarrow> json" where
  "learned_json = (\<lambda>(vlan, mac, port, origin). JObj [(''vlan_id'', JNum vlan), (''mac'', JStr mac), (''port'', JStr port),
     (''origin'', JStr origin)])"

definition fdb_get_table :: "(string \<Rightarrow> json option) \<Rightarrow> 's platform \<Rightarrow> ('s, string, json) io" where
  "fdb_get_table from_str P =
     bnd (keys_of P ASIC_DB ''ASIC_STATE:SAI_OBJECT_TYPE_FDB_ENTRY:*'') (\<lambda>ks.
     bnd (row_of P COUNTERS_DB ''COUNTERS_PORT_NAME_MAP'') (\<lambda>ports.
     bnd (row_of P COUNTERS_DB ''COUNTERS_LAG_NAME_MAP'') (\<lambda>lags.
     let oids = al_puts (swap_all lags) (al_puts (swap_all ports) []) in
     bnd (learned_entries from_str P oids ks ([], [])) (\<lambda>es.
     let sorted_es = sort_by entry_cmp es in
     ret (JObj [(''capability'', cap_json cap_yes), (''entries'', JArr (map learned_json (take TABLE_CAP sorted_es))),
       (''truncated'', JBool (length sorted_es > TABLE_CAP)), (''total_entries'', JNum (length sorted_es))])))))"

end
