(* ===== verification/Sflow.thy ===== *)
theory Sflow
  imports Feature Ip
begin

text \<open>
  sFlow, \<^verbatim>\<open>src/src/sonic/sflow.rs\<close>: the global settings with at most two collectors, and the per-port sessions.
\<close>

definition SFLOW_UNSUPPORTED :: string where
  "SFLOW_UNSUPPORTED = ''the sflow feature is not present on this image''"

text \<open>The long dash of the message is three bytes.\<close>

definition SFLOW_DOWN :: string where
  "SFLOW_DOWN = ''the sflow container is not running '' @ map char_of [226, 128, 148 :: nat]
     @ '' enable the sflow feature to edit sFlow settings''"

definition MAX_COLLECTORS :: nat where "MAX_COLLECTORS = 2"

definition sflow_capability :: "probe \<Rightarrow> capability" where
  "sflow_capability p =
     (if \<not> sflow_present p then cap_no SFLOW_UNSUPPORTED
      else if \<not> docker_running p ''sflow'' then \<lparr>supported = True, read_only = True, reason = Some SFLOW_DOWN\<rparr>
      else cap_yes)"

section \<open>The document\<close>

definition collector_vrf_doc :: "row \<Rightarrow> string option" where
  "collector_vrf_doc r = (case field r ''collector_vrf'' of
       Some v \<Rightarrow> if v = ''mgmt'' \<or> v = ''default'' then Some v else None
     | None \<Rightarrow> None)"

definition collector_of :: "'s platform \<Rightarrow> string \<Rightarrow> ('s, 'e, (string \<times> json) option) io" where
  "collector_of P key = (case key_suffix key ''SFLOW_COLLECTOR|'' of
       None \<Rightarrow> ret None
     | Some name \<Rightarrow> bnd (row_of P CONFIG_DB key) (\<lambda>r.
         ret (Some (name, JObj [(''name'', JStr name), (''address'', JStr (opt_or (field r ''collector_ip'') [])),
           (''port'', jopt JNum (parse_num (field r ''collector_port''))), (''vrf'', jopt JStr (collector_vrf_doc r))]))))"

definition oper_doc :: "string \<Rightarrow> string" where
  "oper_doc st = (if st = ''up'' then ''up'' else if st = ''down'' then ''down'' else ''unknown'')"

definition is_up :: "row \<Rightarrow> bool option" where
  "is_up r = map_option (\<lambda>s. s = ''up'') (field r ''admin_state'')"

definition sflow_port_json :: "'s platform \<Rightarrow> row \<Rightarrow> string \<Rightarrow> ('s, 'e, json) io" where
  "sflow_port_json P all name =
     bnd (row_of P CONFIG_DB (''PORT|'' @ name)) (\<lambda>cfg.
     bnd (row_of P APPL_DB (''PORT_TABLE:'' @ name)) (\<lambda>appl.
     bnd (row_of P STATE_DB (''PORT_TABLE|'' @ name)) (\<lambda>st.
     bnd (row_of P CONFIG_DB (''SFLOW_SESSION|'' @ name)) (\<lambda>ses.
     ret (JObj [(''name'', JStr name), (''alias'', jopt JStr (field cfg ''alias'')),
       (''oper_status'', JStr (oper_doc (oper_status_of appl st))),
       (''enabled'', JBool (opt_or (opt_else (is_up ses) (is_up all)) True)),
       (''sample_rate'', jopt JNum (opt_else (parse_num (field ses ''sample_rate'')) (parse_num (field all ''sample_rate''))))])))))"

definition sflow_get :: "'s platform \<Rightarrow> ('s, string, json) io" where
  "sflow_get P =
     bnd (current P) (\<lambda>p.
     let cap = sflow_capability p in
     if \<not> supported cap then
       ret (JObj [(''capability'', cap_json cap), (''enabled'', JBool False), (''polling_interval'', JNull), (''agent_id'', JNull),
         (''collectors'', JArr []), (''ports'', JArr [])])
     else
     bnd (row_of P CONFIG_DB ''SFLOW|global'') (\<lambda>g.
     bnd (keys_of P CONFIG_DB ''SFLOW_COLLECTOR|*'') (\<lambda>cks.
     bnd (collect (collector_of P) cks) (\<lambda>cs.
     bnd (row_of P CONFIG_DB ''SFLOW_SESSION|all'') (\<lambda>all.
     bnd (keys_of P CONFIG_DB ''PORT|*'') (\<lambda>pks.
     bnd (collect (sflow_port_json P all)
            (sort_by natural_cmp (List.map_filter (\<lambda>k. key_suffix k ''PORT|'') pks))) (\<lambda>ps.
     ret (JObj [(''capability'', cap_json cap), (''enabled'', JBool (field g ''admin_state'' = Some ''up'')),
       (''polling_interval'', jopt JNum (parse_num (field g ''polling_interval''))), (''agent_id'', jopt JStr (field g ''agent_id'')),
       (''collectors'', JArr (map snd (sort_by (\<lambda>a b. cmp (fst a) (fst b)) (List.map_filter id cs)))),
       (''ports'', JArr ps)]))))))))"

section \<open>Writes\<close>

definition sflow_check_writable :: "'s platform \<Rightarrow> ('s, unit) handler" where
  "sflow_check_writable P =
     bnd (current P) (\<lambda>p.
     bnd (guard (supported (sflow_capability p)) (Conflict SFLOW_UNSUPPORTED)) (\<lambda>_.
     guard (\<not> read_only (sflow_capability p)) (Conflict SFLOW_DOWN)))"

datatype collector_vrf = VrfDefault | VrfMgmt

primrec collector_vrf_str :: "collector_vrf \<Rightarrow> string" where
  "collector_vrf_str VrfDefault = ''default''"
| "collector_vrf_str VrfMgmt = ''mgmt''"

record collector_input =
  co_name :: string
  co_address :: string
  co_port :: "nat option"
  co_vrf :: "collector_vrf option"

record sflow_input =
  sf_enabled :: bool
  sf_polling_interval :: "nat option"
  sf_agent_id :: "string option"
  sf_collectors :: "collector_input list"

definition sflow_plain_name :: "string \<Rightarrow> bool" where
  "sflow_plain_name a \<longleftrightarrow> \<not> (a = [] \<or> CHR ''|'' \<in> set a \<or> list_ex is_space a)"

fun check_collectors :: "string list \<Rightarrow> collector_input list \<Rightarrow> string + unit" where
  "check_collectors names [] = Inr ()"
| "check_collectors names (c # cs) =
     (if \<not> sflow_plain_name (co_name c) then Inl (''invalid collector name '' @ dbg (co_name c))
      else if co_name c \<in> set names then Inl (''duplicate collector name '' @ co_name c)
      else if parse_ip (co_address c) = None then
        Inl (''invalid collector address '' @ dbg (co_address c) @ '' (expected an IP address)'')
      else if co_port c = Some 0 then Inl ''collector port must be 1-65535''
      else check_collectors (names @ [co_name c]) cs)"

definition check_sflow :: "sflow_input \<Rightarrow> string + unit" where
  "check_sflow i =
     sbind (check_opt (\<lambda>v. check (\<not> (v \<noteq> 0 \<and> \<not> (5 \<le> v \<and> v \<le> 300)))
       (''invalid polling_interval '' @ show_nat v @ '' (must be 0 or 5-300 seconds)'')) (sf_polling_interval i)) (\<lambda>_.
     sbind (check_opt (\<lambda>a. check (sflow_plain_name a) (''invalid agent_id '' @ dbg a @ '' (expected an interface name)''))
       (sf_agent_id i)) (\<lambda>_.
     sbind (check (\<not> length (sf_collectors i) > MAX_COLLECTORS) (''SONiC allows at most '' @ show_nat MAX_COLLECTORS
       @ '' sFlow collectors ('' @ show_nat (length (sf_collectors i)) @ '' given)'')) (\<lambda>_.
     check_collectors [] (sf_collectors i))))"

definition up_down :: "bool \<Rightarrow> string" where
  "up_down b = (if b then ''up'' else ''down'')"

definition stale_collector :: "sflow_input \<Rightarrow> string \<Rightarrow> bool" where
  "stale_collector i key = (case key_suffix key ''SFLOW_COLLECTOR|'' of
       None \<Rightarrow> True
     | Some name \<Rightarrow> \<not> list_ex (\<lambda>c. co_name c = name) (sf_collectors i))"

definition write_collector :: "'s platform \<Rightarrow> collector_input \<Rightarrow> ('s, unit) handler" where
  "write_collector P c =
     (let key = ''SFLOW_COLLECTOR|'' @ co_name c in
      bnd (cfg_hset P key [(''collector_ip'', co_address c)]) (\<lambda>_.
      for_each (write_patch P key)
        [(''collector_port'', Some (map_option show_nat (co_port c))),
         (''collector_vrf'', Some (map_option collector_vrf_str (co_vrf c)))]))"

definition sflow_put_global :: "'s platform \<Rightarrow> sflow_input \<Rightarrow> ('s, unit) handler" where
  "sflow_put_global P i =
     bnd (bad_request (check_sflow i)) (\<lambda>_.
     bnd (sflow_check_writable P) (\<lambda>_.
     bnd (cfg_hset P ''SFLOW|global'' [(''admin_state'', up_down (sf_enabled i))]) (\<lambda>_.
     bnd (for_each (write_patch P ''SFLOW|global'')
            [(''polling_interval'', Some (map_option show_nat (sf_polling_interval i))),
             (''agent_id'', Some (sf_agent_id i))]) (\<lambda>_.
     bnd (cfg_scan_all P ''SFLOW_COLLECTOR|*'') (\<lambda>ks.
     bnd (for_each (\<lambda>key. if stale_collector i key then cfg_del P key else ret ()) ks) (\<lambda>_.
     for_each (write_collector P) (sf_collectors i)))))))"

definition sflow_put_port :: "'s platform \<Rightarrow> string \<Rightarrow> bool \<Rightarrow> nat option \<Rightarrow> ('s, unit) handler" where
  "sflow_put_port P name enabled rate =
     bnd (bad_request (check_opt (\<lambda>v. check_range ''sample_rate'' v 256 8388608) rate)) (\<lambda>_.
     bnd (sflow_check_writable P) (\<lambda>_.
     bnd (cfg_exists P (''PORT|'' @ name)) (\<lambda>e.
     bnd (guard e (NotFound (''no such port '' @ name))) (\<lambda>_.
     let key = ''SFLOW_SESSION|'' @ name in
     bnd (cfg_hset P key [(''admin_state'', up_down enabled)]) (\<lambda>_.
     write_patch P key (''sample_rate'', Some (map_option show_nat rate)))))))"

end
