(* ===== verification/Mclag.thy ===== *)
theory Mclag
  imports Fdb Ip
begin

text \<open>
  MCLAG, \<^verbatim>\<open>src/src/sonic/mclag.rs\<close>: the one domain of the switch with its member port channels, and the live state
  from \<open>mclagdctl\<close>.
\<close>

definition MCLAG_UNSUPPORTED :: string where
  "MCLAG_UNSUPPORTED =
     ''MCLAG requires an image with iccpd (Enterprise SONiC or a community build with the mclag feature)''"

section \<open>Live state\<close>

definition dump_line :: "string option \<times> string option \<Rightarrow> string \<Rightarrow> string option \<times> string option" where
  "dump_line = (\<lambda>(session, role) l. case split_once (CHR '':'') l of
       None \<Rightarrow> (session, role)
     | Some (k0, v0) \<Rightarrow>
         (let k = to_lower (trim k0); v = trim v0 in
          if contains k ''keepalive'' \<and> \<not> contains k ''time'' then
            (Some (if eq_ignore_case v ''ok'' then ''up'' else ''down''), role)
          else if k = ''role'' then
            (session, let r = to_lower v in if r = ''active'' then Some ''active''
               else if r = ''standby'' then Some ''standby'' else None)
          else (session, role)))"

definition parse_dump_state :: "string \<Rightarrow> string option \<times> string option" where
  "parse_dump_state txt = foldl dump_line (None, None) (lines txt)"

definition portlist_line :: "row \<times> string option \<Rightarrow> string \<Rightarrow> row \<times> string option" where
  "portlist_line = (\<lambda>(out, cur) l. case split_once (CHR '':'') l of
       None \<Rightarrow> (out, cur)
     | Some (k0, v0) \<Rightarrow>
         (let k = to_lower (trim k0) in
          if k = ''portname'' then (out, Some (trim v0))
          else if k = ''state'' \<or> k = ''operstate'' then
            (case cur of Some name \<Rightarrow> (al_put name (to_lower (trim v0)) out, cur) | None \<Rightarrow> (out, cur))
          else (out, cur)))"

definition parse_portlist_states :: "string \<Rightarrow> row" where
  "parse_portlist_states txt = fst (foldl portlist_line ([], None) (lines txt))"

definition lag_oper_status :: "'s platform \<Rightarrow> string \<Rightarrow> ('s, 'e, string option) io" where
  "lag_oper_status P name = bnd (row_of P APPL_DB (''LAG_TABLE:'' @ name)) (\<lambda>r.
     ret (case map_option to_lower (field r ''oper_status'') of
       Some st \<Rightarrow> if st = ''up'' then Some ''up'' else if st = ''down'' then Some ''down'' else None
     | None \<Rightarrow> None))"

text \<open>\<open>run(\<dots>).ok().filter(|o| o.ok)\<close>: the output of a command that succeeded.\<close>

definition ok_stdout :: "('s, string, cmd_output) io \<Rightarrow> ('s, 'e, string option) io" where
  "ok_stdout m = or_default None (bnd m (\<lambda>out. ret (if co_ok out then Some (co_stdout out) else None)))"

definition member_state_json :: "'s platform \<Rightarrow> row \<Rightarrow> string \<Rightarrow> ('s, 'e, json) io" where
  "member_state_json P remote m = bnd (lag_oper_status P m) (\<lambda>st.
     ret (JObj [(''name'', JStr m), (''local_status'', JStr (opt_or st ''unknown'')),
       (''remote_status'', JStr (case map_of remote m of
          Some r \<Rightarrow> if r = ''up'' then ''up'' else if r = ''down'' then ''down'' else ''unknown''
        | None \<Rightarrow> ''unknown''))]))"

definition mclag_live_state :: "'s platform \<Rightarrow> nat \<Rightarrow> string option \<Rightarrow> string list \<Rightarrow> ('s, 'e, json option) io" where
  "mclag_live_state P n peer_link members =
     bnd (ok_stdout (run_cmd P ''mclagdctl'' [''-i'', show_nat n, ''dump'', ''state''])) (\<lambda>dump. case dump of
       None \<Rightarrow> ret None
     | Some txt \<Rightarrow>
         (let (session, role) = parse_dump_state txt in
          bnd (ok_stdout (run_cmd P ''mclagdctl'' [''-i'', show_nat n, ''dump'', ''portlist'', ''peer''])) (\<lambda>o2.
          let remote = (case o2 of None \<Rightarrow> [] | Some t \<Rightarrow> parse_portlist_states t) in
          bnd (collect (member_state_json P remote) members) (\<lambda>ms.
          bnd (case peer_link of None \<Rightarrow> ret None | Some pl \<Rightarrow> lag_oper_status P pl) (\<lambda>pls.
          ret (Some (JObj [(''session_status'', jopt JStr session), (''role'', jopt JStr role),
            (''peer_link_status'', jopt JStr pls), (''members'', JArr ms)])))))))"

section \<open>The document\<close>

definition domain_id_of :: "string list \<Rightarrow> nat option" where
  "domain_id_of ks = list_min (List.map_filter (\<lambda>k. Option.bind (key_suffix k ''MCLAG_DOMAIN|'') (parse_uint 32)) ks)"

definition mclag_members :: "nat \<Rightarrow> string list \<Rightarrow> string list" where
  "mclag_members n ks = sort (map snd (filter (\<lambda>(d, _). parse_uint 32 d = Some n)
     (List.map_filter (\<lambda>k. two_parts k ''MCLAG_INTERFACE|'') ks)))"

definition mclag_get :: "'s platform \<Rightarrow> ('s, string, json) io" where
  "mclag_get P =
     bnd (current P) (\<lambda>p.
     let cap = (if mclag_supported p then cap_yes else cap_no MCLAG_UNSUPPORTED) in
     bnd (keys_of P CONFIG_DB ''MCLAG_DOMAIN|*'') (\<lambda>ds. case domain_id_of ds of
       None \<Rightarrow> ret (JObj [(''capability'', cap_json cap), (''domain'', JNull), (''state'', JNull)])
     | Some n \<Rightarrow>
         bnd (row_of P CONFIG_DB (''MCLAG_DOMAIN|'' @ show_nat n)) (\<lambda>cfg.
         bnd (keys_of P CONFIG_DB ''MCLAG_INTERFACE|*'') (\<lambda>ks.
         let members = mclag_members n ks; peer_link = field cfg ''peer_link'' in
         bnd (mclag_live_state P n peer_link members) (\<lambda>st.
         ret (JObj [(''capability'', cap_json cap),
           (''domain'', JObj [(''domain_id'', JNum n), (''source_ip'', JStr (opt_or (field cfg ''source_ip'') [])),
              (''peer_ip'', JStr (opt_or (field cfg ''peer_ip'') [])), (''peer_link'', jopt JStr peer_link),
              (''keepalive_interval_s'', jopt JNum (parse_num (field cfg ''keepalive_interval''))),
              (''session_timeout_s'', jopt JNum (parse_num (field cfg ''session_timeout''))),
              (''system_mac'', jopt JStr (field cfg ''system_mac'')), (''members'', jstrs members)]),
           (''state'', opt_or st JNull)]))))))"

section \<open>The domain of a request\<close>

record domain_input =
  di_domain_id :: nat
  di_source_ip :: string
  di_peer_ip :: string
  di_peer_link :: "string option"
  di_keepalive :: "nat option"
  di_timeout :: "nat option"
  di_system_mac :: "string option"
  di_members :: "string list"

definition check_system_mac :: "string option \<Rightarrow> string + string option" where
  "check_system_mac v = (case v of
       None \<Rightarrow> Inr None
     | Some m \<Rightarrow> (case normalize_mac m of
         None \<Rightarrow> Inl (''invalid system_mac '' @ dbg m @ '' (expected e.g. 00:11:22:33:44:55)'')
       | Some c \<Rightarrow>
           if foldl (\<lambda>acc d. 16 * acc + hex_val d) 0 (take 2 c) mod 2 = 1 \<or> c = ''00:00:00:00:00:00'' then
             Inl (''system_mac '' @ c @ '' must be a unicast, non-zero MAC'')
           else Inr (Some c)))"

fun check_mclag_members :: "string option \<Rightarrow> string list \<Rightarrow> string list \<Rightarrow> string + unit" where
  "check_mclag_members pl seen [] = Inr ()"
| "check_mclag_members pl seen (m # ms) =
     (if m \<in> set seen then Inl (''duplicate member '' @ m)
      else if Some m = pl then Inl (''member '' @ m @ '' cannot also be the peer link'')
      else check_mclag_members pl (seen @ [m]) ms)"

text \<open>The checks before the probe; the result is the canonical system MAC.\<close>

definition check_domain :: "domain_input \<Rightarrow> string + string option" where
  "check_domain i =
     sbind (check (1 \<le> di_domain_id i \<and> di_domain_id i \<le> 4095)
       (''invalid domain_id '' @ show_nat (di_domain_id i) @ '' (must be 1-4095)'')) (\<lambda>_.
     sbind (ok_or (parse_ip (di_source_ip i)) (''invalid source_ip '' @ dbg (di_source_ip i))) (\<lambda>src.
     sbind (ok_or (parse_ip (di_peer_ip i)) (''invalid peer_ip '' @ dbg (di_peer_ip i))) (\<lambda>peer.
     sbind (check (src \<noteq> peer) ''source_ip and peer_ip must differ'') (\<lambda>_.
     sbind (check_opt (\<lambda>k. check_range ''keepalive_interval_s'' k 1 60) (di_keepalive i)) (\<lambda>_.
     sbind (check_opt (\<lambda>t. check_range ''session_timeout_s'' t 3 3600) (di_timeout i)) (\<lambda>_.
     sbind (check_system_mac (di_system_mac i)) (\<lambda>mac.
     sbind (check_mclag_members (di_peer_link i) [] (di_members i)) (\<lambda>_.
     Inr mac))))))))"

definition check_port_channel :: "'s platform \<Rightarrow> string \<Rightarrow> string \<Rightarrow> ('s, unit) handler" where
  "check_port_channel P what m = bnd (cfg_exists P (''PORTCHANNEL|'' @ m)) (\<lambda>e.
     guard e (BadRequest (what @ '' '' @ m @ '' is not an existing port channel'')))"

definition stale_member :: "domain_input \<Rightarrow> string \<Rightarrow> bool" where
  "stale_member i key = (case two_parts key ''MCLAG_INTERFACE|'' of
       Some (d, name) \<Rightarrow> parse_uint 32 d \<noteq> Some (di_domain_id i) \<or> name \<notin> set (di_members i)
     | None \<Rightarrow> True)"

definition domain_key :: "domain_input \<Rightarrow> string" where
  "domain_key i = ''MCLAG_DOMAIN|'' @ show_nat (di_domain_id i)"

definition domain_fields :: "domain_input \<Rightarrow> string option \<Rightarrow> row" where
  "domain_fields i mac =
     [(''source_ip'', di_source_ip i), (''peer_ip'', di_peer_ip i)] @ opt_pair ''peer_link'' (di_peer_link i)
     @ opt_pair ''keepalive_interval'' (map_option show_nat (di_keepalive i))
     @ opt_pair ''session_timeout'' (map_option show_nat (di_timeout i)) @ opt_pair ''system_mac'' mac"

definition member_row_key :: "domain_input \<Rightarrow> string \<Rightarrow> string" where
  "member_row_key i m = ''MCLAG_INTERFACE|'' @ show_nat (di_domain_id i) @ ''|'' @ m"

definition mclag_put :: "'s platform \<Rightarrow> domain_input \<Rightarrow> ('s, unit) handler" where
  "mclag_put P i =
     bnd (bad_request (check_domain i)) (\<lambda>mac.
     bnd (current P) (\<lambda>p.
     bnd (guard (mclag_supported p) (Conflict MCLAG_UNSUPPORTED)) (\<lambda>_.
     bnd (case di_peer_link i of None \<Rightarrow> ret () | Some pl \<Rightarrow> check_port_channel P ''peer_link'' pl) (\<lambda>_.
     bnd (for_each (check_port_channel P ''member'') (di_members i)) (\<lambda>_.
     bnd (keys_of P CONFIG_DB ''MCLAG_DOMAIN|*'') (\<lambda>ds.
     bnd (for_each (\<lambda>key. if key \<noteq> domain_key i then cfg_del P key else ret ()) ds) (\<lambda>_.
     bnd (keys_of P CONFIG_DB ''MCLAG_INTERFACE|*'') (\<lambda>ms.
     bnd (for_each (\<lambda>key. if stale_member i key then cfg_del P key else ret ()) ms) (\<lambda>_.
     bnd (cfg_del P (domain_key i)) (\<lambda>_.
     bnd (cfg_hset P (domain_key i) (domain_fields i mac)) (\<lambda>_.
     for_each (\<lambda>m. cfg_hset P (member_row_key i m) [(''if_type'', ''PortChannel'')]) (di_members i))))))))))))"

definition mclag_delete :: "'s platform \<Rightarrow> ('s, unit) handler" where
  "mclag_delete P =
     bnd (keys_of P CONFIG_DB ''MCLAG_DOMAIN|*'') (\<lambda>ds.
     bnd (guard (ds \<noteq> []) (NotFound ''MCLAG is not configured on this switch'')) (\<lambda>_.
     bnd (keys_of P CONFIG_DB ''MCLAG_INTERFACE|*'') (\<lambda>ms.
     bnd (for_each (cfg_del P) ms) (\<lambda>_.
     for_each (cfg_del P) ds))))"

end
