(* ===== verification/Ospf.thy ===== *)
theory Ospf
  imports Feature L3 Mclag
begin

text \<open>
  OSPF, \<^verbatim>\<open>src/src/sonic/ospf.rs\<close>: instances, areas with their networks, interfaces and neighbors.
  \<open>serde_json::from_str\<close> is the parameter \<open>from_str\<close>; its objects list their members in the order of the map.
\<close>

definition OSPF_UNSUPPORTED :: string where
  "OSPF_UNSUPPORTED = ''OSPF requires the FRR management framework (frr_mgmt_framework_config=true) or Enterprise SONiC''"

section \<open>Neighbors\<close>

record ospf_neighbor =
  on_id :: string
  on_address :: string
  on_interface :: string
  on_state :: string
  on_priority :: "nat option"
  on_dead_secs :: "nat option"

definition jstr_at :: "json \<Rightarrow> string \<Rightarrow> string option" where
  "jstr_at e k = as_str (jget e k)"

definition jnum_at :: "json \<Rightarrow> string \<Rightarrow> nat option" where
  "jnum_at e k = as_u64 (jget e k)"

definition neighbor_entry :: "string \<Rightarrow> json \<Rightarrow> ospf_neighbor" where
  "neighbor_entry rid e =
     \<lparr>on_id = rid,
      on_address = opt_or (opt_else (jstr_at e ''address'') (jstr_at e ''ifaceAddress'')) [],
      on_interface = opt_or (opt_else (jstr_at e ''ifaceName'') (jstr_at e ''interfaceName'')) [],
      on_state = opt_or (opt_else (jstr_at e ''nbrState'') (jstr_at e ''state'')) [],
      on_priority = opt_else (jnum_at e ''nbrPriority'') (jnum_at e ''priority''),
      on_dead_secs = map_option (\<lambda>ms. ms div 1000)
        (opt_else (jnum_at e ''routerDeadIntervalTimerDueMsec'') (jnum_at e ''deadTimeMsecs''))\<rparr>"

definition section_neighbors :: "(string \<times> json) list \<Rightarrow> ospf_neighbor list" where
  "section_neighbors sec = (case Option.bind (map_of sec ''neighbors'') as_object of
       None \<Rightarrow> []
     | Some ns \<Rightarrow> concat (map (\<lambda>(rid, entries). case as_array entries of
           None \<Rightarrow> [] | Some es \<Rightarrow> map (neighbor_entry rid) es) ns))"

definition parse_ospf_neighbors :: "(string \<Rightarrow> json option) \<Rightarrow> string \<Rightarrow> ospf_neighbor list" where
  "parse_ospf_neighbors from_str txt = (case Option.bind (from_str txt) as_object of
       None \<Rightarrow> []
     | Some obj \<Rightarrow>
         concat (map section_neighbors
           (if map_of obj ''neighbors'' \<noteq> None then [obj] else List.map_filter (\<lambda>(_, v). as_object v) obj)))"

definition neighbor_doc :: "ospf_neighbor \<Rightarrow> json" where
  "neighbor_doc n = JObj [(''neighbor_id'', JStr (on_id n)), (''address'', JStr (on_address n)),
     (''interface'', JStr (on_interface n)), (''state'', JStr (on_state n)), (''priority'', jopt JNum (on_priority n)),
     (''dead_time_secs'', jopt JNum (on_dead_secs n))]"

section \<open>The document\<close>

record area_doc =
  ar_id :: string
  ar_stub :: bool
  ar_networks :: "string list"

text \<open>The networks of an area, removed from the map as the area takes them.\<close>

type_synonym net_map = "((string \<times> string) \<times> string list) list"

definition network_map :: "string list \<Rightarrow> net_map" where
  "network_map ks = foldl (\<lambda>m k. case three_parts k ''OSPFV2_ROUTER_AREA_NETWORK|'' of
       Some (vrf, area, net) \<Rightarrow> group_push (vrf, area) net m | None \<Rightarrow> m) [] ks"

primrec area_map :: "'s platform \<Rightarrow> string list \<Rightarrow> net_map \<Rightarrow> (string \<times> area_doc list) list \<Rightarrow>
    ('s, 'e, (string \<times> area_doc list) list) io" where
  "area_map P [] nets acc = ret acc"
| "area_map P (k # ks) nets acc = (case two_parts k ''OSPFV2_ROUTER_AREA|'' of
       None \<Rightarrow> area_map P ks nets acc
     | Some (vrf, area) \<Rightarrow> bnd (row_of P CONFIG_DB k) (\<lambda>r.
         area_map P ks (al_del (vrf, area) nets)
           (group_push vrf \<lparr>ar_id = area, ar_stub = flag r ''stub'', ar_networks = sort (opt_or (map_of nets (vrf, area)) [])\<rparr> acc)))"

definition area_json :: "area_doc \<Rightarrow> json" where
  "area_json a = JObj [(''area_id'', JStr (ar_id a)), (''stub'', JBool (ar_stub a)), (''networks'', jstrs (ar_networks a))]"

definition instance_vrf :: "string \<Rightarrow> string option" where
  "instance_vrf key = Option.bind (strip_prefix ''OSPFV2_ROUTER|'' key) (\<lambda>vrf.
     if vrf = [] \<or> CHR ''|'' \<in> set vrf then None else Some vrf)"

definition instance_json :: "string \<Rightarrow> row \<Rightarrow> area_doc list \<Rightarrow> json" where
  "instance_json vrf r as =
     JObj [(''vrf'', JStr vrf), (''router_id'', jopt JStr (field r ''router_id'')),
       (''distance'', jopt JNum (parse_num (field r ''distance''))),
       (''areas'', JArr (map area_json (sort_by (\<lambda>a b. cmp (ar_id a) (ar_id b)) as)))]"

primrec ospf_instances :: "'s platform \<Rightarrow> string list \<Rightarrow> (string \<times> area_doc list) list \<Rightarrow>
    ('s, 'e, (string \<times> json) list) io" where
  "ospf_instances P [] areas = ret []"
| "ospf_instances P (k # ks) areas = (case instance_vrf k of
       None \<Rightarrow> ospf_instances P ks areas
     | Some vrf \<Rightarrow> bnd (row_of P CONFIG_DB k) (\<lambda>r.
         bnd (ospf_instances P ks (al_del vrf areas)) (\<lambda>is.
         ret ((vrf, instance_json vrf r (opt_or (map_of areas vrf) [])) # is))))"

definition passive_name :: "string \<Rightarrow> string option" where
  "passive_name key = map_option (\<lambda>(_, ifname). hd (split_on (CHR ''|'') ifname))
     (two_parts key ''OSPFV2_ROUTER_PASSIVE_INTERFACE|'')"

primrec ospf_rows :: "'s platform \<Rightarrow> string list \<Rightarrow> (string \<times> row) list \<Rightarrow> ('s, 'e, (string \<times> row) list) io" where
  "ospf_rows P [] acc = ret acc"
| "ospf_rows P (k # ks) acc = (case two_parts k ''OSPFV2_INTERFACE|'' of
       None \<Rightarrow> ospf_rows P ks acc
     | Some (ifname, _) \<Rightarrow>
         if map_of acc ifname \<noteq> None then ospf_rows P ks acc
         else bnd (row_of P CONFIG_DB k) (\<lambda>r. ospf_rows P ks (al_put ifname r acc)))"

definition net_type_doc :: "row \<Rightarrow> string option" where
  "net_type_doc r = (case field r ''network-type'' of
       Some t \<Rightarrow> if t = ''broadcast'' \<or> t = ''point-to-point'' then Some t else None
     | None \<Rightarrow> None)"

definition ospf_interface_json :: "string \<Rightarrow> row \<Rightarrow> bool \<Rightarrow> json" where
  "ospf_interface_json name r passive =
     JObj [(''name'', JStr name), (''area'', jopt JStr (field r ''area-id'')), (''cost'', jopt JNum (parse_num (field r ''cost''))),
       (''hello_interval'', jopt JNum (parse_num (field r ''hello-interval''))),
       (''dead_interval'', jopt JNum (parse_num (field r ''dead-interval''))),
       (''network_type'', jopt JStr (net_type_doc r)), (''passive'', JBool passive), (''bfd'', JBool (flag r ''bfd''))]"

text \<open>The names of the interfaces of the L3 document.\<close>

definition l3_doc_names :: "json \<Rightarrow> string list" where
  "l3_doc_names doc = (case as_array (jget doc ''interfaces'') of
       None \<Rightarrow> [] | Some xs \<Rightarrow> List.map_filter (\<lambda>x. as_str (jget x ''name'')) xs)"

definition ospf_get :: "(string \<Rightarrow> json option) \<Rightarrow> 's platform \<Rightarrow> ('s, string, json) io" where
  "ospf_get from_str P =
     bnd (current P) (\<lambda>p.
     if \<not> ospf_supported p then
       ret (JObj [(''capability'', cap_json (cap_no OSPF_UNSUPPORTED)), (''instances'', JArr []), (''interfaces'', JArr []),
         (''neighbors'', JArr [])])
     else
     bnd (keys_of P CONFIG_DB ''OSPFV2_ROUTER_AREA_NETWORK|*'') (\<lambda>nks.
     bnd (keys_of P CONFIG_DB ''OSPFV2_ROUTER_AREA|*'') (\<lambda>aks.
     bnd (area_map P aks (network_map nks) []) (\<lambda>areas.
     bnd (scan P CONFIG_DB ''OSPFV2_ROUTER|*'') (\<lambda>rks.
     bnd (ospf_instances P rks areas) (\<lambda>is.
     bnd (keys_of P CONFIG_DB ''OSPFV2_ROUTER_PASSIVE_INTERFACE|*'') (\<lambda>pks.
     bnd (keys_of P CONFIG_DB ''OSPFV2_INTERFACE|*'') (\<lambda>iks.
     bnd (ospf_rows P (sort iks) []) (\<lambda>rows.
     bnd (get_interfaces P) (\<lambda>l3.
     let passive = List.map_filter passive_name pks;
         ifs = map (\<lambda>name. (name, ospf_interface_json name (opt_or (map_of rows name) []) (name \<in> set passive)))
                 (l3_doc_names l3) in
     bnd (ok_stdout (run_cmd P ''vtysh'' [''-c'', ''show ip ospf vrf all neighbor json''])) (\<lambda>out.
     ret (JObj [(''capability'', cap_json cap_yes),
       (''instances'', JArr (map snd (sort_by (\<lambda>a b. cmp (fst a) (fst b)) is))),
       (''interfaces'', JArr (map snd (sort_by (\<lambda>a b. natural_cmp (fst a) (fst b)) ifs))),
       (''neighbors'', JArr (map neighbor_doc
          (case out of None \<Rightarrow> [] | Some t \<Rightarrow> parse_ospf_neighbors from_str t)))]))))))))))))"

section \<open>Shared checks\<close>

definition ospf_require :: "'s platform \<Rightarrow> ('s, unit) handler" where
  "ospf_require P = bnd (current P) (\<lambda>p. guard (ospf_supported p) (Conflict OSPF_UNSUPPORTED))"

text \<open>The ellipsis of the message is three bytes.\<close>

definition ospf_check_vrf :: "'s platform \<Rightarrow> string \<Rightarrow> ('s, unit) handler" where
  "ospf_check_vrf P vrf =
     (if vrf = ''default'' then ret ()
      else bnd (guard (starts_with ''Vrf'' vrf) (BadRequest (''invalid vrf '' @ dbg vrf @ '' (default or Vrf''
             @ map char_of [226, 128, 166 :: nat] @ '')''))) (\<lambda>_.
           bnd (cfg_exists P (''VRF|'' @ vrf)) (\<lambda>e.
           guard e (BadRequest (''no such VRF '' @ vrf)))))"

definition show_quad :: "quad \<Rightarrow> string" where
  "show_quad = (\<lambda>(a, b, c, d). show_nat a @ ''.'' @ show_nat b @ ''.'' @ show_nat c @ ''.'' @ show_nat d)"

definition quad_of_nat :: "nat \<Rightarrow> quad" where
  "quad_of_nat n = (n div 2 ^ 24, n div 2 ^ 16 mod 256, n div 2 ^ 8 mod 256, n mod 256)"

definition normalize_area :: "string \<Rightarrow> string option" where
  "normalize_area area =
     (if parse_ipv4 area \<noteq> None then Some area
      else map_option (\<lambda>n. show_quad (quad_of_nat n)) (parse_uint 32 area))"

section \<open>Instances and areas\<close>

record instance_input =
  oi_enabled :: bool
  oi_router_id :: "string option"
  oi_distance :: "nat option"

definition ospf_teardown :: "'s platform \<Rightarrow> string \<Rightarrow> ('s, unit) handler" where
  "ospf_teardown P vrf =
     bnd (collect (cfg_scan_all P)
            [''OSPFV2_ROUTER_AREA|'' @ vrf @ ''|*'', ''OSPFV2_ROUTER_AREA_NETWORK|'' @ vrf @ ''|*'',
             ''OSPFV2_ROUTER_PASSIVE_INTERFACE|'' @ vrf @ ''|*'']) (\<lambda>kss.
     for_each (cfg_del P) ((''OSPFV2_ROUTER|'' @ vrf) # concat kss))"

definition check_instance :: "instance_input \<Rightarrow> string + unit" where
  "check_instance i =
     sbind (check_opt (\<lambda>rid. check (parse_ipv4 rid \<noteq> None) (''invalid router_id '' @ dbg rid)) (oi_router_id i)) (\<lambda>_.
     check_opt (\<lambda>d. check_range ''distance'' d 1 255) (oi_distance i))"

definition ospf_put_instance :: "'s platform \<Rightarrow> string \<Rightarrow> instance_input \<Rightarrow> ('s, unit) handler" where
  "ospf_put_instance P vrf i =
     bnd (ospf_require P) (\<lambda>_.
     bnd (ospf_check_vrf P vrf) (\<lambda>_.
     if \<not> oi_enabled i then ospf_teardown P vrf
     else
     bnd (bad_request (check_instance i)) (\<lambda>_.
     bnd (cfg_hset P (''OSPFV2_ROUTER|'' @ vrf) [(''enable'', ''true'')]) (\<lambda>_.
     for_each (write_patch P (''OSPFV2_ROUTER|'' @ vrf))
       [(''router_id'', Some (oi_router_id i)), (''distance'', Some (map_option show_nat (oi_distance i)))]))))"

record area_input =
  ai_stub :: bool
  ai_networks :: "string list"

definition area_prefix :: "string \<Rightarrow> string \<Rightarrow> string" where
  "area_prefix vrf area = ''OSPFV2_ROUTER_AREA_NETWORK|'' @ vrf @ ''|'' @ area @ ''|''"

definition drop_network :: "'s platform \<Rightarrow> string \<Rightarrow> string list \<Rightarrow> string \<Rightarrow> ('s batch, string, unit) io" where
  "drop_network P pre desired key = (case strip_prefix pre key of
       None \<Rightarrow> ret ()
     | Some net \<Rightarrow> if net \<notin> set desired then b_del P CONFIG_DB key else ret ())"

definition area_batch :: "'s platform \<Rightarrow> string \<Rightarrow> string \<Rightarrow> area_input \<Rightarrow> string list \<Rightarrow> ('s batch, string, unit) io" where
  "area_batch P vrf area i cur =
     (let pre = area_prefix vrf area; desired = sort_dedup (ai_networks i) in
      bnd (b_hset P CONFIG_DB (''OSPFV2_ROUTER_AREA|'' @ vrf @ ''|'' @ area) [(''stub'', bool_str (ai_stub i))]) (\<lambda>_.
      bnd (for_each (drop_network P pre desired) cur) (\<lambda>_.
      for_each (\<lambda>net. b_hset P CONFIG_DB (pre @ net) [(''NULL'', ''NULL'')]) desired)))"

definition ospf_put_area :: "'s platform \<Rightarrow> string \<Rightarrow> string \<Rightarrow> area_input \<Rightarrow> ('s, unit) handler" where
  "ospf_put_area P vrf area0 i =
     bnd (ospf_require P) (\<lambda>_.
     bnd (ospf_check_vrf P vrf) (\<lambda>_.
     bnd (bad_request (ok_or (normalize_area area0) (''invalid area id '' @ dbg area0 @ '' (dotted quad or number)''))) (\<lambda>area.
     bnd (bad_request (check_cidrs (ai_networks i))) (\<lambda>_.
     bnd (cfg_exists P (''OSPFV2_ROUTER|'' @ vrf)) (\<lambda>e.
     bnd (guard e (BadRequest (''no OSPF instance for vrf '' @ vrf @ '' (enable it first)''))) (\<lambda>_.
     bnd (cfg_scan_all P (area_prefix vrf area @ ''*'')) (\<lambda>cur.
     map_err Redis (apply_batch P (area_batch P vrf area i cur)))))))))"

definition ospf_delete_area :: "'s platform \<Rightarrow> string \<Rightarrow> string \<Rightarrow> ('s, unit) handler" where
  "ospf_delete_area P vrf area0 =
     bnd (ospf_require P) (\<lambda>_.
     bnd (bad_request (ok_or (normalize_area area0) (''invalid area id '' @ dbg area0))) (\<lambda>area.
     let key = ''OSPFV2_ROUTER_AREA|'' @ vrf @ ''|'' @ area in
     bnd (cfg_exists P key) (\<lambda>e.
     bnd (guard e (NotFound (''no such area '' @ area @ '' in vrf '' @ vrf))) (\<lambda>_.
     bnd (cfg_scan_all P (area_prefix vrf area @ ''*'')) (\<lambda>nets.
     bnd (for_each (cfg_del P) nets) (\<lambda>_.
     cfg_del P key))))))"

section \<open>Interfaces\<close>

datatype network_type = Broadcast | NetPointToPoint

primrec network_type_str :: "network_type \<Rightarrow> string" where
  "network_type_str Broadcast = ''broadcast''"
| "network_type_str NetPointToPoint = ''point-to-point''"

record ospf_interface_input =
  of_area :: "string option"
  of_cost :: "nat option"
  of_hello :: "nat option"
  of_dead :: "nat option"
  of_network_type :: "network_type option"
  of_passive :: bool
  of_bfd :: bool

definition ospf_interface_exists :: "'s platform \<Rightarrow> string \<Rightarrow> ('s, bool) handler" where
  "ospf_interface_exists P name = (case kind_of name of
       Port \<Rightarrow> cfg_exists P (''PORT|'' @ name)
     | PortChannel \<Rightarrow> cfg_exists P (''PORTCHANNEL|'' @ name)
     | Vlan \<Rightarrow> cfg_exists P (''VLAN|'' @ name)
     | Loopback \<Rightarrow> bnd (keys_of P CONFIG_DB (''LOOPBACK_INTERFACE|'' @ name @ ''*'')) (\<lambda>ks. ret (ks \<noteq> [])))"

definition check_ospf_interface :: "ospf_interface_input \<Rightarrow> string + unit" where
  "check_ospf_interface i =
     sbind (check_opt (\<lambda>v. check_range ''cost'' v 1 65535) (of_cost i)) (\<lambda>_.
     sbind (check_opt (\<lambda>v. check_range ''hello_interval'' v 1 65535) (of_hello i)) (\<lambda>_.
     check_opt (\<lambda>v. check_range ''dead_interval'' v 1 65535) (of_dead i)))"

definition passive_key :: "string \<Rightarrow> string \<Rightarrow> string" where
  "passive_key vrf name = ''OSPFV2_ROUTER_PASSIVE_INTERFACE|'' @ vrf @ ''|'' @ name"

definition b_set_or_clear :: "'s platform \<Rightarrow> string \<Rightarrow> string \<times> string option \<Rightarrow> ('s batch, string, unit) io" where
  "b_set_or_clear P key = (\<lambda>(f, v). case v of
       Some x \<Rightarrow> b_hset P CONFIG_DB key [(f, x)] | None \<Rightarrow> b_hdel P CONFIG_DB key [f])"

definition ospf_interface_batch ::
  "'s platform \<Rightarrow> string \<Rightarrow> string \<Rightarrow> string \<Rightarrow> ospf_interface_input \<Rightarrow> ('s batch, string, unit) io" where
  "ospf_interface_batch P key pkey area i =
     bnd (b_hset P CONFIG_DB key [(''area-id'', area), (''bfd'', bool_str (of_bfd i))]) (\<lambda>_.
     bnd (for_each (b_set_or_clear P key)
            [(''cost'', map_option show_nat (of_cost i)), (''hello-interval'', map_option show_nat (of_hello i)),
             (''dead-interval'', map_option show_nat (of_dead i)),
             (''network-type'', map_option network_type_str (of_network_type i))]) (\<lambda>_.
     if of_passive i then b_hset P CONFIG_DB pkey [(''NULL'', ''NULL'')] else b_del P CONFIG_DB pkey))"

definition ospf_put_interface :: "'s platform \<Rightarrow> string \<Rightarrow> ospf_interface_input \<Rightarrow> ('s, unit) handler" where
  "ospf_put_interface P name i =
     bnd (ospf_require P) (\<lambda>_.
     bnd (ospf_interface_exists P name) (\<lambda>e.
     bnd (guard e (NotFound (''no such interface '' @ name))) (\<lambda>_.
     bnd (row_of P CONFIG_DB (l3_table name @ ''|'' @ name)) (\<lambda>r.
     let vrf = opt_or (field r ''vrf_name'') ''default'' in
     bnd (cfg_scan_all P (''OSPFV2_INTERFACE|'' @ name @ ''|*'')) (\<lambda>rows. case of_area i of
       None \<Rightarrow> bnd (for_each (cfg_del P) rows) (\<lambda>_. cfg_del P (passive_key vrf name))
     | Some area0 \<Rightarrow>
         bnd (bad_request (ok_or (normalize_area area0) (''invalid area id '' @ dbg area0 @ '' (dotted quad or number)''))) (\<lambda>area.
         bnd (bad_request (check_ospf_interface i)) (\<lambda>_.
         let key = (case rows of k # _ \<Rightarrow> k | [] \<Rightarrow> ''OSPFV2_INTERFACE|'' @ name @ ''|0.0.0.0'') in
         map_err Redis (apply_batch P (ospf_interface_batch P key (passive_key vrf name) area i)))))))))"

end
