(* ===== verification/Bgp.thy ===== *)
theory Bgp
  imports Ospf SwitchingWrite
begin

text \<open>
  BGP, \<^verbatim>\<open>src/src/sonic/bgp.rs\<close>, with its two backends: the structured tables of frrcfgd and the flat legacy
  schema. \<open>serde_json::from_str\<close> is the parameter \<open>from_str\<close>. Counts of prefixes are \<open>u64\<close>, whose addition wraps in a release build.
\<close>

definition LEGACY_REASON :: string where
  "LEGACY_REASON = ''legacy flat BGP schema (frr_mgmt_framework_config off): no VRFs, peer groups, BFD, multihop TTL, or per-AF control''"

definition UNAVAILABLE_REASON :: string where
  "UNAVAILABLE_REASON = ''BGP is not available on this image (no bgp feature/container)''"

definition bgp_capability :: "bgp_mode \<Rightarrow> capability" where
  "bgp_capability mode = (case mode of
       Frrcfgd \<Rightarrow> cap_yes | Legacy \<Rightarrow> cap_yes_with_reason LEGACY_REASON | Unavailable \<Rightarrow> cap_no UNAVAILABLE_REASON)"

datatype af = Ipv4Unicast | Ipv6Unicast | L2vpnEvpn

primrec af_str :: "af \<Rightarrow> string" where
  "af_str Ipv4Unicast = ''ipv4_unicast''"
| "af_str Ipv6Unicast = ''ipv6_unicast''"
| "af_str L2vpnEvpn = ''l2vpn_evpn''"

section \<open>Live sessions\<close>

record session_info =
  si_state :: "string option"
  si_prefixes :: "nat option"
  si_uptime :: "nat option"

type_synonym session_map = "((string \<times> string) \<times> session_info) list"

definition no_session :: session_info where
  "no_session = \<lparr>si_state = None, si_prefixes = None, si_uptime = None\<rparr>"

definition merge_session :: "json \<Rightarrow> session_info \<Rightarrow> session_info" where
  "merge_session info e =
     \<lparr>si_state = opt_else (jstr_at info ''state'') (si_state e),
      si_prefixes = (case jnum_at info ''pfxRcd'' of Some n \<Rightarrow> Some ((opt_or (si_prefixes e) 0 + n) mod 2 ^ 64) | None \<Rightarrow> si_prefixes e),
      si_uptime = opt_else (map_option (\<lambda>ms. ms div 1000) (jnum_at info ''peerUptimeMsec'')) (si_uptime e)\<rparr>"

definition add_peer :: "string \<Rightarrow> session_map \<Rightarrow> string \<times> json \<Rightarrow> session_map" where
  "add_peer vrf m = (\<lambda>(peer, info). al_put (vrf, peer) (merge_session info (opt_or (map_of m (vrf, peer)) no_session)) m)"

definition add_section :: "string \<Rightarrow> session_map \<Rightarrow> string \<times> json \<Rightarrow> session_map" where
  "add_section vrf m = (\<lambda>(_, sec). case as_object (jget sec ''peers'') of
       None \<Rightarrow> m | Some peers \<Rightarrow> foldl (add_peer vrf) m peers)"

definition add_vrf :: "session_map \<Rightarrow> string \<times> json \<Rightarrow> session_map" where
  "add_vrf m = (\<lambda>(vrf, secs). case as_object secs of None \<Rightarrow> m | Some ss \<Rightarrow> foldl (add_section vrf) m ss)"

definition parse_bgp_summary :: "(string \<Rightarrow> json option) \<Rightarrow> string \<Rightarrow> session_map" where
  "parse_bgp_summary from_str txt = (case Option.bind (from_str txt) as_object of
       None \<Rightarrow> [] | Some vs \<Rightarrow> foldl add_vrf [] vs)"

definition bgp_sessions :: "(string \<Rightarrow> json option) \<Rightarrow> 's platform \<Rightarrow> ('s, 'e, session_map) io" where
  "bgp_sessions from_str P = bnd (ok_stdout (run_cmd P ''vtysh'' [''-c'', ''show bgp vrf all summary json''])) (\<lambda>out.
     ret (case out of None \<Rightarrow> [] | Some t \<Rightarrow> parse_bgp_summary from_str t))"

definition state_db_session :: "'s platform \<Rightarrow> string \<Rightarrow> ('s, 'e, string option) io" where
  "state_db_session P peer = bnd (row_of P STATE_DB (''NEIGH_STATE_TABLE|'' @ peer)) (\<lambda>r. ret (field r ''state''))"

section \<open>The document\<close>

record bgp_global_doc =
  gd_vrf :: string
  gd_local_asn :: "nat option"
  gd_router_id :: "string option"
  gd_keepalive :: "nat option"
  gd_holdtime :: "nat option"
  gd_graceful :: bool
  gd_max_ebgp :: "nat option"
  gd_max_ibgp :: "nat option"

record bgp_neighbor_doc =
  nd_vrf :: string
  nd_peer :: string
  nd_remote_asn :: "nat option"
  nd_name :: "string option"
  nd_peer_group :: "string option"
  nd_local_addr :: "string option"
  nd_keepalive :: "nat option"
  nd_holdtime :: "nat option"
  nd_ttl :: "nat option"
  nd_bfd :: bool
  nd_admin :: string
  nd_afs :: "string list"
  nd_session :: session_info

definition admin_of :: "row \<Rightarrow> string" where
  "admin_of h = (case field h ''admin_status'' of
       Some v \<Rightarrow> if v = ''down'' \<or> v = ''false'' then ''down'' else ''up'' | None \<Rightarrow> ''up'')"

definition global_vrf :: "string \<Rightarrow> string option" where
  "global_vrf key = Option.bind (key_suffix key ''BGP_GLOBALS|'') (\<lambda>vrf. if CHR ''|'' \<in> set vrf then None else Some vrf)"

definition global_of :: "string \<Rightarrow> row \<Rightarrow> row \<Rightarrow> bgp_global_doc" where
  "global_of vrf r a =
     \<lparr>gd_vrf = vrf, gd_local_asn = parse_num (field r ''local_asn''), gd_router_id = field r ''router_id'',
      gd_keepalive = parse_num (field r ''keepalive''), gd_holdtime = parse_num (field r ''holdtime''),
      gd_graceful = flag r ''graceful_restart_enable'', gd_max_ebgp = parse_num (field a ''max_ebgp_paths''),
      gd_max_ibgp = parse_num (field a ''max_ibgp_paths'')\<rparr>"

primrec read_globals :: "'s platform \<Rightarrow> string list \<Rightarrow> ('s, 'e, bgp_global_doc list) io" where
  "read_globals P [] = ret []"
| "read_globals P (k # ks) = (case global_vrf k of
       None \<Rightarrow> read_globals P ks
     | Some vrf \<Rightarrow>
         bnd (row_of P CONFIG_DB k) (\<lambda>r.
         bnd (row_of P CONFIG_DB (''BGP_GLOBALS_AF|'' @ vrf @ ''|ipv4_unicast'')) (\<lambda>a.
         bnd (read_globals P ks) (\<lambda>gs. ret (global_of vrf r a # gs)))))"

type_synonym af_map = "((string \<times> string) \<times> string list) list"

definition af_label :: "string \<Rightarrow> string option" where
  "af_label a = (if a \<in> {''ipv4_unicast'', ''ipv6_unicast'', ''l2vpn_evpn''} then Some a else None)"

primrec read_afs :: "'s platform \<Rightarrow> string list \<Rightarrow> af_map \<Rightarrow> ('s, 'e, af_map) io" where
  "read_afs P [] acc = ret acc"
| "read_afs P (k # ks) acc = (case three_parts k ''BGP_NEIGHBOR_AF|'' of
       None \<Rightarrow> read_afs P ks acc
     | Some (vrf, peer, a) \<Rightarrow> bnd (row_of P CONFIG_DB k) (\<lambda>r.
         read_afs P ks (if opt_or (parse_bool (field r ''admin_status'')) True
           then (case af_label a of Some l \<Rightarrow> group_push (vrf, peer) l acc | None \<Rightarrow> acc) else acc)))"

definition bgp_neighbor_of :: "string \<Rightarrow> string \<Rightarrow> row \<Rightarrow> string list \<Rightarrow> bgp_neighbor_doc" where
  "bgp_neighbor_of vrf peer r afs =
     \<lparr>nd_vrf = vrf, nd_peer = peer, nd_remote_asn = parse_num (field r ''asn''), nd_name = field r ''name'',
      nd_peer_group = field r ''peer_group_name'', nd_local_addr = field r ''local_addr'',
      nd_keepalive = parse_num (field r ''keepalive''), nd_holdtime = parse_num (field r ''holdtime''),
      nd_ttl = parse_num (field r ''ebgp_multihop_ttl''), nd_bfd = flag r ''bfd'', nd_admin = admin_of r,
      nd_afs = sort afs, nd_session = no_session\<rparr>"

primrec read_neighbors :: "'s platform \<Rightarrow> string list \<Rightarrow> af_map \<Rightarrow> ('s, 'e, bgp_neighbor_doc list) io" where
  "read_neighbors P [] afs = ret []"
| "read_neighbors P (k # ks) afs = (case two_parts k ''BGP_NEIGHBOR|'' of
       None \<Rightarrow> read_neighbors P ks afs
     | Some (vrf, peer) \<Rightarrow>
         bnd (row_of P CONFIG_DB k) (\<lambda>r.
         bnd (read_neighbors P ks (al_del (vrf, peer) afs)) (\<lambda>ns.
         ret (bgp_neighbor_of vrf peer r (opt_or (map_of afs (vrf, peer)) []) # ns))))"

definition read_frrcfgd :: "'s platform \<Rightarrow> ('s, string, bgp_global_doc list \<times> bgp_neighbor_doc list) io" where
  "read_frrcfgd P =
     bnd (scan P CONFIG_DB ''BGP_GLOBALS|*'') (\<lambda>gks.
     bnd (read_globals P gks) (\<lambda>gs.
     bnd (keys_of P CONFIG_DB ''BGP_NEIGHBOR_AF|*'') (\<lambda>aks.
     bnd (read_afs P aks []) (\<lambda>afs.
     bnd (scan P CONFIG_DB ''BGP_NEIGHBOR|*'') (\<lambda>nks.
     bnd (read_neighbors P nks afs) (\<lambda>ns.
     ret (sort_by (\<lambda>a b. cmp (gd_vrf a) (gd_vrf b)) gs,
          sort_by (\<lambda>a b. then_cmp (cmp (nd_vrf a) (nd_vrf b)) (cmp (nd_peer a) (nd_peer b))) ns)))))))"

definition is_v6_text :: "string \<Rightarrow> bool" where
  "is_v6_text peer \<longleftrightarrow> CHR '':'' \<in> set peer"

definition legacy_peer :: "string \<Rightarrow> string option" where
  "legacy_peer key = Option.bind (key_suffix key ''BGP_NEIGHBOR|'') (\<lambda>p. if CHR ''|'' \<in> set p then None else Some p)"

definition legacy_neighbor :: "string \<Rightarrow> row \<Rightarrow> bgp_neighbor_doc" where
  "legacy_neighbor peer r =
     \<lparr>nd_vrf = ''default'', nd_peer = peer, nd_remote_asn = parse_num (field r ''asn''), nd_name = field r ''name'',
      nd_peer_group = None, nd_local_addr = field r ''local_addr'',
      nd_keepalive = parse_num (field r ''keepalive''), nd_holdtime = parse_num (field r ''holdtime''),
      nd_ttl = None, nd_bfd = False, nd_admin = admin_of r,
      nd_afs = [if is_v6_text peer then ''ipv6_unicast'' else ''ipv4_unicast''], nd_session = no_session\<rparr>"

primrec read_legacy_neighbors :: "'s platform \<Rightarrow> string list \<Rightarrow> ('s, 'e, bgp_neighbor_doc list) io" where
  "read_legacy_neighbors P [] = ret []"
| "read_legacy_neighbors P (k # ks) = (case legacy_peer k of
       None \<Rightarrow> read_legacy_neighbors P ks
     | Some peer \<Rightarrow>
         bnd (row_of P CONFIG_DB k) (\<lambda>r.
         bnd (read_legacy_neighbors P ks) (\<lambda>ns. ret (legacy_neighbor peer r # ns))))"

definition legacy_globals :: "probe \<Rightarrow> bgp_global_doc list" where
  "legacy_globals p = (case bgp_asn p of
       None \<Rightarrow> []
     | Some asn \<Rightarrow> [\<lparr>gd_vrf = ''default'', gd_local_asn = Some asn, gd_router_id = None, gd_keepalive = None,
         gd_holdtime = None, gd_graceful = False, gd_max_ebgp = None, gd_max_ibgp = None\<rparr>])"

definition read_legacy :: "'s platform \<Rightarrow> probe \<Rightarrow> ('s, string, bgp_global_doc list \<times> bgp_neighbor_doc list) io" where
  "read_legacy P p =
     bnd (scan P CONFIG_DB ''BGP_NEIGHBOR|*'') (\<lambda>nks.
     bnd (read_legacy_neighbors P nks) (\<lambda>ns.
     ret (legacy_globals p, sort_by (\<lambda>a b. cmp (nd_peer a) (nd_peer b)) ns)))"

text \<open>The session of a neighbor: the live one, with the state of \<open>STATE_DB\<close> when vtysh gave none.\<close>

primrec attach_sessions :: "'s platform \<Rightarrow> session_map \<Rightarrow> bgp_neighbor_doc list \<Rightarrow> ('s, 'e, bgp_neighbor_doc list) io" where
  "attach_sessions P live [] = ret []"
| "attach_sessions P live (n # ns) =
     (let info = opt_or (map_of live (nd_vrf n, nd_peer n)) no_session in
      bnd (if si_state info = None \<and> nd_vrf n = ''default'' then state_db_session P (nd_peer n) else ret (si_state info)) (\<lambda>st.
      bnd (attach_sessions P live ns) (\<lambda>ms. ret (n\<lparr>nd_session := info\<lparr>si_state := st\<rparr>\<rparr> # ms))))"

definition global_json :: "bgp_global_doc \<Rightarrow> json" where
  "global_json g = JObj [(''vrf'', JStr (gd_vrf g)), (''local_asn'', jopt JNum (gd_local_asn g)),
     (''router_id'', jopt JStr (gd_router_id g)), (''keepalive'', jopt JNum (gd_keepalive g)),
     (''holdtime'', jopt JNum (gd_holdtime g)), (''graceful_restart'', JBool (gd_graceful g)),
     (''max_ebgp_paths'', jopt JNum (gd_max_ebgp g)), (''max_ibgp_paths'', jopt JNum (gd_max_ibgp g))]"

definition bgp_neighbor_json :: "bgp_neighbor_doc \<Rightarrow> json" where
  "bgp_neighbor_json n = JObj [(''vrf'', JStr (nd_vrf n)), (''peer'', JStr (nd_peer n)),
     (''remote_asn'', jopt JNum (nd_remote_asn n)), (''name'', jopt JStr (nd_name n)),
     (''peer_group'', jopt JStr (nd_peer_group n)), (''local_addr'', jopt JStr (nd_local_addr n)),
     (''keepalive'', jopt JNum (nd_keepalive n)), (''holdtime'', jopt JNum (nd_holdtime n)),
     (''ebgp_multihop_ttl'', jopt JNum (nd_ttl n)), (''bfd'', JBool (nd_bfd n)), (''admin_status'', JStr (nd_admin n)),
     (''address_families'', jstrs (nd_afs n)), (''session_state'', jopt JStr (si_state (nd_session n))),
     (''prefixes_received'', jopt JNum (si_prefixes (nd_session n))),
     (''uptime_secs'', jopt JNum (si_uptime (nd_session n)))]"

definition bgp_doc :: "bgp_mode \<Rightarrow> bgp_global_doc list \<Rightarrow> bgp_neighbor_doc list \<Rightarrow> json" where
  "bgp_doc mode gs ns = JObj [(''capability'', cap_json (bgp_capability mode)), (''mode'', JStr (bgp_mode_str mode)),
     (''globals'', JArr (map global_json gs)), (''neighbors'', JArr (map bgp_neighbor_json ns))]"

definition bgp_get :: "(string \<Rightarrow> json option) \<Rightarrow> 's platform \<Rightarrow> ('s, string, json) io" where
  "bgp_get from_str P =
     bnd (current P) (\<lambda>p. let mode = bgp_mode_of p in
     if mode = Unavailable then ret (bgp_doc mode [] [])
     else
     bnd (if mode = Frrcfgd then read_frrcfgd P else read_legacy P p) (\<lambda>(gs, ns).
     bnd (bgp_sessions from_str P) (\<lambda>live.
     bnd (attach_sessions P live ns) (\<lambda>ms.
     ret (bgp_doc mode gs ms)))))"

section \<open>Write plumbing\<close>

definition mode_for_writes :: "'s platform \<Rightarrow> ('s, bgp_mode) handler" where
  "mode_for_writes P = bnd (current P) (\<lambda>p.
     if bgp_mode_of p = Unavailable then fail (Conflict UNAVAILABLE_REASON) else ret (bgp_mode_of p))"

definition is_ip :: "string \<Rightarrow> bool" where
  "is_ip s \<longleftrightarrow> parse_ip s \<noteq> None"

definition valid_peer :: "string \<Rightarrow> bool \<Rightarrow> bool" where
  "valid_peer s allow_interface \<longleftrightarrow> is_ip s \<or> allow_interface \<and>
     (starts_with ''Ethernet'' s \<or> starts_with ''PortChannel'' s \<or> starts_with ''Vlan'' s)"

definition valid_vrf :: "string \<Rightarrow> bool" where
  "valid_vrf s \<longleftrightarrow> s = ''default'' \<or> starts_with ''Vrf'' s"

definition check_asn :: "nat \<Rightarrow> string + unit" where
  "check_asn asn = check (1 \<le> asn \<and> asn \<le> 4294967295) (''invalid ASN '' @ show_nat asn @ '' (must be 1-4294967295)'')"

definition check_timers :: "nat option \<Rightarrow> nat option \<Rightarrow> string + unit" where
  "check_timers keepalive holdtime =
     sbind (check_opt (\<lambda>h. check (h = 0 \<or> 3 \<le> h \<and> h \<le> 65535)
       (''invalid holdtime '' @ show_nat h @ '' (must be 0 or 3-65535)'')) holdtime) (\<lambda>_.
     sbind (check_opt (\<lambda>k. check_range ''keepalive'' k 1 21845) keepalive) (\<lambda>_.
     case (keepalive, holdtime) of
       (Some k, Some h) \<Rightarrow> check (h = 0 \<or> k < h)
         (''keepalive '' @ show_nat k @ '' must be less than holdtime '' @ show_nat h)
     | _ \<Rightarrow> Inr ()))"

text \<open>The ellipsis of the message is three bytes.\<close>

definition check_bgp_vrf :: "string \<Rightarrow> string + unit" where
  "check_bgp_vrf vrf = check (valid_vrf vrf)
     (''invalid vrf '' @ dbg vrf @ '' (default or Vrf'' @ map char_of [226, 128, 166 :: nat] @ '')'')"

text \<open>The first attribute in the list that is set, which the legacy schema cannot hold.\<close>

definition check_expressible :: "(string \<times> bool) list \<Rightarrow> ('s, unit) handler" where
  "check_expressible xs = (case find snd xs of
       None \<Rightarrow> ret ()
     | Some (name, _) \<Rightarrow> fail (Unprocessable (name @ '' cannot be configured with the legacy BGP schema (enable frr_mgmt_framework_config for the full surface)'')))"

section \<open>Global settings\<close>

record global_input =
  gi_local_asn :: "nat option"
  gi_router_id :: "string option"
  gi_keepalive :: "nat option"
  gi_holdtime :: "nat option"
  gi_graceful :: bool
  gi_max_ebgp :: "nat option"
  gi_max_ibgp :: "nat option"

definition check_global :: "string \<Rightarrow> global_input \<Rightarrow> string + unit" where
  "check_global vrf i =
     sbind (check_bgp_vrf vrf) (\<lambda>_.
     sbind (check_opt check_asn (gi_local_asn i)) (\<lambda>_.
     sbind (check_timers (gi_keepalive i) (gi_holdtime i)) (\<lambda>_.
     check_opt (\<lambda>rid. check (parse_ipv4 rid \<noteq> None) (''invalid router_id '' @ dbg rid)) (gi_router_id i))))"

definition put_legacy_global :: "'s platform \<Rightarrow> string \<Rightarrow> global_input \<Rightarrow> ('s, unit) handler" where
  "put_legacy_global P vrf i =
     bnd (guard (vrf = ''default'') (Unprocessable ''legacy BGP supports the default VRF only'')) (\<lambda>_.
     bnd (check_expressible [(''router_id'', gi_router_id i \<noteq> None), (''keepalive'', gi_keepalive i \<noteq> None),
       (''holdtime'', gi_holdtime i \<noteq> None), (''graceful_restart'', gi_graceful i),
       (''max_ebgp_paths'', gi_max_ebgp i \<noteq> None), (''max_ibgp_paths'', gi_max_ibgp i \<noteq> None)]) (\<lambda>_.
     case gi_local_asn i of
       Some asn \<Rightarrow> cfg_hset P ''DEVICE_METADATA|localhost'' [(''bgp_asn'', show_nat asn)]
     | None \<Rightarrow> cfg_hdel P ''DEVICE_METADATA|localhost'' [''bgp_asn'']))"

definition bgp_teardown :: "'s platform \<Rightarrow> string \<Rightarrow> ('s, unit) handler" where
  "bgp_teardown P vrf =
     bnd (collect (cfg_scan_all P)
            [''BGP_GLOBALS_AF|'' @ vrf @ ''|*'', ''BGP_NEIGHBOR|'' @ vrf @ ''|*'', ''BGP_NEIGHBOR_AF|'' @ vrf @ ''|*'']) (\<lambda>kss.
     for_each (cfg_del P) ((''BGP_GLOBALS|'' @ vrf) # concat kss))"

definition multipath_fields :: "global_input \<Rightarrow> (string \<times> string option) list" where
  "multipath_fields i = [(''max_ebgp_paths'', map_option show_nat (gi_max_ebgp i)),
     (''max_ibgp_paths'', map_option show_nat (gi_max_ibgp i))]"

definition global_batch :: "'s platform \<Rightarrow> string \<Rightarrow> nat \<Rightarrow> global_input \<Rightarrow> ('s batch, string, unit) io" where
  "global_batch P vrf asn i =
     (let key = ''BGP_GLOBALS|'' @ vrf in
      bnd (b_hset P CONFIG_DB key [(''local_asn'', show_nat asn), (''graceful_restart_enable'', bool_str (gi_graceful i))]) (\<lambda>_.
      bnd (for_each (b_set_or_clear P key)
             [(''router_id'', gi_router_id i), (''keepalive'', map_option show_nat (gi_keepalive i)),
              (''holdtime'', map_option show_nat (gi_holdtime i))]) (\<lambda>_.
      for_each (\<lambda>a. for_each (b_set_or_clear P (''BGP_GLOBALS_AF|'' @ vrf @ ''|'' @ a)) (multipath_fields i))
        [''ipv4_unicast'', ''ipv6_unicast''])))"

definition put_global :: "'s platform \<Rightarrow> string \<Rightarrow> global_input \<Rightarrow> ('s, unit) handler" where
  "put_global P vrf i =
     bnd (mode_for_writes P) (\<lambda>mode.
     bnd (bad_request (check_global vrf i)) (\<lambda>_.
     if mode = Legacy then put_legacy_global P vrf i
     else
     bnd (if vrf = ''default'' then ret () else
            bnd (cfg_exists P (''VRF|'' @ vrf)) (\<lambda>e. guard e (BadRequest (''no such VRF '' @ vrf)))) (\<lambda>_.
     case gi_local_asn i of
       None \<Rightarrow> bgp_teardown P vrf
     | Some asn \<Rightarrow> map_err Redis (apply_batch P (global_batch P vrf asn i)))))"

section \<open>Neighbors\<close>

record neighbor_input =
  ni_remote_asn :: nat
  ni_name :: "string option"
  ni_peer_group :: "string option"
  ni_local_addr :: "string option"
  ni_keepalive :: "nat option"
  ni_holdtime :: "nat option"
  ni_ttl :: "nat option"
  ni_bfd :: bool
  ni_admin :: admin_status
  ni_afs :: "af list"

record neighbor_create =
  nc_vrf :: string
  nc_peer :: string
  nc_input :: neighbor_input

definition check_neighbor_common :: "string \<Rightarrow> neighbor_input \<Rightarrow> string + unit" where
  "check_neighbor_common vrf i =
     sbind (check_bgp_vrf vrf) (\<lambda>_.
     sbind (check_asn (ni_remote_asn i)) (\<lambda>_.
     sbind (check_timers (ni_keepalive i) (ni_holdtime i)) (\<lambda>_.
     sbind (check_opt (\<lambda>ttl. check_range ''ebgp_multihop_ttl'' ttl 1 255) (ni_ttl i)) (\<lambda>_.
     check_opt (\<lambda>a. check (is_ip a) (''invalid local_addr '' @ dbg a)) (ni_local_addr i)))))"

definition legacy_neighbor_batch :: "'s platform \<Rightarrow> string \<Rightarrow> neighbor_input \<Rightarrow> ('s batch, string, unit) io" where
  "legacy_neighbor_batch P key i =
     bnd (b_hset P CONFIG_DB key [(''asn'', show_nat (ni_remote_asn i)), (''admin_status'', admin_str (ni_admin i))]) (\<lambda>_.
     for_each (b_set_or_clear P key)
       [(''name'', ni_name i), (''local_addr'', ni_local_addr i), (''keepalive'', map_option show_nat (ni_keepalive i)),
        (''holdtime'', map_option show_nat (ni_holdtime i))])"

definition upsert_legacy_neighbor :: "'s platform \<Rightarrow> string \<Rightarrow> string \<Rightarrow> neighbor_input \<Rightarrow> bool \<Rightarrow> ('s, unit) handler" where
  "upsert_legacy_neighbor P vrf peer i creating =
     bnd (guard (vrf = ''default'') (Unprocessable ''legacy BGP supports the default VRF only'')) (\<lambda>_.
     bnd (guard (is_ip peer) (BadRequest (''invalid peer '' @ dbg peer @ '' (legacy BGP accepts IP addresses only)''))) (\<lambda>_.
     bnd (check_expressible [(''peer_group'', ni_peer_group i \<noteq> None), (''ebgp_multihop_ttl'', ni_ttl i \<noteq> None),
       (''bfd'', ni_bfd i)]) (\<lambda>_.
     let implied = (if is_v6_text peer then Ipv6Unicast else Ipv4Unicast) in
     bnd (guard (ni_afs i = [] \<or> ni_afs i = [implied])
            (Unprocessable (''legacy BGP activates exactly the peer's own address family ('' @ af_str implied @ '')''))) (\<lambda>_.
     bnd (row_of P CONFIG_DB ''DEVICE_METADATA|localhost'') (\<lambda>meta.
     bnd (guard (field meta ''bgp_asn'' \<noteq> None)
            (Conflict ''set the local ASN (PUT /api/routing/bgp/globals/default) before adding neighbors'')) (\<lambda>_.
     let key = ''BGP_NEIGHBOR|'' @ peer in
     bnd (cfg_exists P key) (\<lambda>e.
     bnd (guard (\<not> (creating \<and> e)) (BadRequest (''neighbor '' @ peer @ '' already exists''))) (\<lambda>_.
     bnd (guard (creating \<or> e) (NotFound (''no such neighbor '' @ peer))) (\<lambda>_.
     map_err Redis (apply_batch P (legacy_neighbor_batch P key i)))))))))))"

definition af_prefix :: "string \<Rightarrow> string \<Rightarrow> string" where
  "af_prefix vrf peer = ''BGP_NEIGHBOR_AF|'' @ vrf @ ''|'' @ peer @ ''|''"

definition drop_af :: "'s platform \<Rightarrow> string \<Rightarrow> string list \<Rightarrow> string \<Rightarrow> ('s batch, string, unit) io" where
  "drop_af P pre desired key = (case strip_prefix pre key of
       None \<Rightarrow> ret ()
     | Some a \<Rightarrow> if a \<notin> set desired then b_del P CONFIG_DB key else ret ())"

definition neighbor_batch ::
  "'s platform \<Rightarrow> string \<Rightarrow> string \<Rightarrow> neighbor_input \<Rightarrow> string list \<Rightarrow> ('s batch, string, unit) io" where
  "neighbor_batch P key pre i cur =
     (let desired = sort_dedup (map af_str (ni_afs i)) in
      bnd (b_hset P CONFIG_DB key [(''asn'', show_nat (ni_remote_asn i)), (''bfd'', bool_str (ni_bfd i)),
        (''admin_status'', admin_str (ni_admin i))]) (\<lambda>_.
      bnd (for_each (b_set_or_clear P key)
             [(''name'', ni_name i), (''peer_group_name'', ni_peer_group i), (''local_addr'', ni_local_addr i),
              (''keepalive'', map_option show_nat (ni_keepalive i)), (''holdtime'', map_option show_nat (ni_holdtime i)),
              (''ebgp_multihop_ttl'', map_option show_nat (ni_ttl i))]) (\<lambda>_.
      bnd (for_each (drop_af P pre desired) cur) (\<lambda>_.
      for_each (\<lambda>a. b_hset P CONFIG_DB (pre @ a) [(''admin_status'', ''true'')]) desired))))"

definition upsert_neighbor :: "'s platform \<Rightarrow> string \<Rightarrow> string \<Rightarrow> neighbor_input \<Rightarrow> bool \<Rightarrow> ('s, unit) handler" where
  "upsert_neighbor P vrf peer i creating =
     bnd (mode_for_writes P) (\<lambda>mode.
     bnd (bad_request (check_neighbor_common vrf i)) (\<lambda>_.
     if mode = Legacy then upsert_legacy_neighbor P vrf peer i creating
     else
     bnd (guard (valid_peer peer True) (BadRequest (''invalid peer '' @ dbg peer @ '' (IP address or interface)''))) (\<lambda>_.
     let key = ''BGP_NEIGHBOR|'' @ vrf @ ''|'' @ peer in
     bnd (cfg_exists P key) (\<lambda>e.
     bnd (guard (\<not> (creating \<and> e)) (BadRequest (''neighbor '' @ peer @ '' already exists in vrf '' @ vrf))) (\<lambda>_.
     bnd (guard (creating \<or> e) (NotFound (''no such neighbor '' @ peer @ '' in vrf '' @ vrf))) (\<lambda>_.
     bnd (cfg_exists P (''BGP_GLOBALS|'' @ vrf)) (\<lambda>inst.
     bnd (guard inst (BadRequest (''no BGP instance for vrf '' @ vrf @ '' (set its local_asn first)''))) (\<lambda>_.
     bnd (guard (ni_peer_group i \<noteq> Some []) (BadRequest ''peer_group must not be empty'')) (\<lambda>_.
     bnd (keys_of P CONFIG_DB (af_prefix vrf peer @ ''*'')) (\<lambda>cur.
     map_err Redis (apply_batch P (neighbor_batch P key (af_prefix vrf peer) i cur))))))))))))"

definition create_neighbor :: "'s platform \<Rightarrow> neighbor_create \<Rightarrow> ('s, unit) handler" where
  "create_neighbor P c = upsert_neighbor P (nc_vrf c) (nc_peer c) (nc_input c) True"

definition put_neighbor :: "'s platform \<Rightarrow> string \<Rightarrow> string \<Rightarrow> neighbor_input \<Rightarrow> ('s, unit) handler" where
  "put_neighbor P vrf peer i = upsert_neighbor P vrf peer i False"

definition delete_neighbor :: "'s platform \<Rightarrow> string \<Rightarrow> string \<Rightarrow> ('s, unit) handler" where
  "delete_neighbor P vrf peer =
     bnd (mode_for_writes P) (\<lambda>mode.
     if mode = Legacy then
       bnd (guard (vrf = ''default'') (Unprocessable ''legacy BGP supports the default VRF only'')) (\<lambda>_.
       let key = ''BGP_NEIGHBOR|'' @ peer in
       bnd (cfg_exists P key) (\<lambda>e.
       bnd (guard e (NotFound (''no such neighbor '' @ peer))) (\<lambda>_.
       cfg_del P key)))
     else
       let key = ''BGP_NEIGHBOR|'' @ vrf @ ''|'' @ peer in
       bnd (cfg_exists P key) (\<lambda>e.
       bnd (guard e (NotFound (''no such neighbor '' @ peer @ '' in vrf '' @ vrf))) (\<lambda>_.
       bnd (cfg_scan_all P (af_prefix vrf peer @ ''*'')) (\<lambda>ks.
       bnd (for_each (cfg_del P) ks) (\<lambda>_.
       cfg_del P key)))))"

end
