(* ===== verification/Isis.thy ===== *)
theory Isis
  imports Ospf Policy
begin

text \<open>
  IS-IS, \<^verbatim>\<open>src/src/sonic/isis.rs\<close>: the instance and its interfaces, read from the text of FRR's running configuration
  and \<open>show isis neighbor json\<close>, and written by vtysh batches. \<open>serde_json::from_str\<close> is the parameter \<open>from_str\<close>.
\<close>

definition ISIS_UNSUPPORTED :: string where
  "ISIS_UNSUPPORTED = ''IS-IS requires an image that runs isisd (community SONiC does not start it in the FRR container)''"

section \<open>The running configuration\<close>

record isis_ifc =
  ii_enabled :: bool
  ii_circuit_type :: "string option"
  ii_metric :: "nat option"
  ii_passive :: bool
  ii_point_to_point :: bool

record isis_running =
  isr_tag :: "string option"
  isr_net :: "string option"
  isr_level :: string
  isr_dynamic_hostname :: bool
  isr_interfaces :: "(string \<times> isis_ifc) list"

definition level_from_frr :: "string \<Rightarrow> string" where
  "level_from_frr s = (if s = ''level-2-only'' then ''level-2'' else s)"

definition level_to_frr :: "string \<Rightarrow> string" where
  "level_to_frr s = (if s = ''level-2'' then ''level-2-only'' else s)"

datatype isis_block = NoBlock | RouterBlock | InterfaceBlock string

definition isis_default_ifc :: isis_ifc where
  "isis_default_ifc = \<lparr>ii_enabled = False, ii_circuit_type = None, ii_metric = None, ii_passive = False,
     ii_point_to_point = False\<rparr>"

definition isis_empty :: isis_running where
  "isis_empty = \<lparr>isr_tag = None, isr_net = None, isr_level = ''level-1-2'', isr_dynamic_hostname = True, isr_interfaces = []\<rparr>"

definition isis_router_line :: "string \<Rightarrow> isis_running \<Rightarrow> isis_running" where
  "isis_router_line line r = (case strip_prefix ''net '' line of
       Some net \<Rightarrow> r\<lparr>isr_net := Some (trim net)\<rparr>
     | None \<Rightarrow> (case strip_prefix ''is-type '' line of
         Some level \<Rightarrow> r\<lparr>isr_level := level_from_frr (trim level)\<rparr>
       | None \<Rightarrow> if line = ''no hostname dynamic'' then r\<lparr>isr_dynamic_hostname := False\<rparr> else r))"

definition isis_ifc_line :: "string \<Rightarrow> isis_ifc \<Rightarrow> isis_ifc" where
  "isis_ifc_line line i =
     (if starts_with ''ip router isis '' line \<or> starts_with ''ipv6 router isis '' line then i\<lparr>ii_enabled := True\<rparr>
      else case strip_prefix ''isis circuit-type '' line of
        Some ct \<Rightarrow> i\<lparr>ii_circuit_type := Some (level_from_frr (trim ct))\<rparr>
      | None \<Rightarrow> (case strip_prefix ''isis metric '' line of
          Some mv \<Rightarrow> i\<lparr>ii_metric := parse_uint 64 (trim mv)\<rparr>
        | None \<Rightarrow>
            if line = ''isis passive'' then i\<lparr>ii_passive := True\<rparr>
            else if line = ''isis network point-to-point'' then i\<lparr>ii_point_to_point := True\<rparr>
            else i))"

definition isis_line :: "isis_running \<times> isis_block \<Rightarrow> string \<Rightarrow> isis_running \<times> isis_block" where
  "isis_line = (\<lambda>(r, block) raw. let line = trim raw in
     case strip_prefix ''router isis '' line of
       Some tag \<Rightarrow> (r\<lparr>isr_tag := Some (trim tag)\<rparr>, RouterBlock)
     | None \<Rightarrow> (case strip_prefix ''interface '' line of
         Some name \<Rightarrow> (r, InterfaceBlock (trim name))
       | None \<Rightarrow>
           if line = ''exit'' \<or> line = ''!'' \<or> line = ''end'' then (r, NoBlock)
           else (case block of
               NoBlock \<Rightarrow> (r, block)
             | RouterBlock \<Rightarrow> (isis_router_line line r, block)
             | InterfaceBlock name \<Rightarrow>
                 (r\<lparr>isr_interfaces := al_put name
                     (isis_ifc_line line (opt_or (map_of (isr_interfaces r) name) isis_default_ifc)) (isr_interfaces r)\<rparr>, block))))"

definition isis_ifc_set :: "isis_ifc \<Rightarrow> bool" where
  "isis_ifc_set i \<longleftrightarrow> ii_enabled i \<or> ii_circuit_type i \<noteq> None \<or> ii_metric i \<noteq> None \<or> ii_passive i \<or> ii_point_to_point i"

definition isis_parse :: "string \<Rightarrow> isis_running" where
  "isis_parse txt = (let r = fst (foldl isis_line (isis_empty, NoBlock) (lines txt)) in
     r\<lparr>isr_interfaces := filter (\<lambda>(_, i). isis_ifc_set i) (isr_interfaces r)\<rparr>)"

section \<open>Adjacencies\<close>

record adjacency =
  ad_system_id :: string
  ad_interface :: string
  ad_level :: string
  ad_state :: string
  ad_holdtime :: "nat option"

definition adjacency_level :: "string \<Rightarrow> string" where
  "adjacency_level s =
     (if s = ''L1'' then ''level-1'' else if s = ''L2'' then ''level-2'' else if s = ''L1L2'' then ''level-1-2''
      else ''unknown'')"

text \<open>\<open>trim_end_matches('s')\<close>.\<close>

definition trim_end_s :: "string \<Rightarrow> string" where
  "trim_end_s v = rev (dropWhile (\<lambda>c. c = CHR ''s'') (rev v))"

definition adjacency_of :: "json \<Rightarrow> adjacency option" where
  "adjacency_of circuit = (case jstr_at circuit ''adj'' of
       None \<Rightarrow> None
     | Some adj \<Rightarrow> let ifc = jget circuit ''interface''; s = (\<lambda>k. opt_or (jstr_at ifc k) []) in
         Some \<lparr>ad_system_id = adj, ad_interface = s ''name'', ad_level = adjacency_level (s ''circuit-type''),
           ad_state = s ''state'',
           ad_holdtime = Option.bind (jstr_at ifc ''expires-in'') (\<lambda>v. parse_uint 64 (trim (trim_end_s v)))\<rparr>)"

definition isis_neighbors :: "(string \<Rightarrow> json option) \<Rightarrow> string \<Rightarrow> adjacency list" where
  "isis_neighbors from_str txt =
     (case Option.bind (from_str txt) (\<lambda>root. as_array (jget root ''areas'')) of
        None \<Rightarrow> []
      | Some areas \<Rightarrow> concat (map (\<lambda>area. case as_array (jget area ''circuits'') of
            None \<Rightarrow> [] | Some cs \<Rightarrow> List.map_filter adjacency_of cs) areas))"

section \<open>The document\<close>

definition isis_running_config :: "'s platform \<Rightarrow> ('s, string, isis_running) io" where
  "isis_running_config P =
     bnd (run_cmd P ''vtysh'' [''-c'', ''show running-config'']) (\<lambda>out.
     if \<not> co_ok out then fail (''vtysh show running-config failed: '' @ trim (co_stderr out))
     else ret (isis_parse (co_stdout out)))"

definition isis_instance_json :: "isis_running \<Rightarrow> json" where
  "isis_instance_json r = (case isr_tag r of
       None \<Rightarrow> JNull
     | Some _ \<Rightarrow> JObj [(''net'', jopt JStr (isr_net r)), (''level'', JStr (isr_level r)),
         (''dynamic_hostname'', JBool (isr_dynamic_hostname r))])"

definition isis_ifc_json :: "string \<Rightarrow> isis_ifc \<Rightarrow> json" where
  "isis_ifc_json name i = JObj [(''name'', JStr name), (''enabled'', JBool (ii_enabled i)),
     (''circuit_type'', jopt JStr (ii_circuit_type i)), (''metric'', jopt JNum (ii_metric i)),
     (''passive'', JBool (ii_passive i)), (''point_to_point'', JBool (ii_point_to_point i))]"

definition adjacency_json :: "adjacency \<Rightarrow> json" where
  "adjacency_json a = JObj [(''system_id'', JStr (ad_system_id a)), (''interface'', JStr (ad_interface a)),
     (''level'', JStr (ad_level a)), (''state'', JStr (ad_state a)), (''holdtime_secs'', jopt JNum (ad_holdtime a))]"

definition isis_get :: "(string \<Rightarrow> json option) \<Rightarrow> 's platform \<Rightarrow> ('s, string, json) io" where
  "isis_get from_str P =
     bnd (current P) (\<lambda>p.
     if \<not> isis_supported p then
       ret (JObj [(''capability'', cap_json (cap_no ISIS_UNSUPPORTED)), (''instance'', JNull), (''interfaces'', JArr []),
         (''adjacencies'', JArr [])])
     else
     bnd (isis_running_config P) (\<lambda>r.
     bnd (get_interfaces P) (\<lambda>l3.
     bnd (ok_stdout (run_cmd P ''vtysh'' [''-c'', ''show isis neighbor json''])) (\<lambda>out.
     let ifs = map (\<lambda>name. (name, isis_ifc_json name (opt_or (map_of (isr_interfaces r) name) isis_default_ifc)))
                 (l3_doc_names l3) in
     ret (JObj [(''capability'', cap_json cap_yes), (''instance'', isis_instance_json r),
       (''interfaces'', JArr (map snd (sort_by (\<lambda>a b. natural_cmp (fst a) (fst b)) ifs))),
       (''adjacencies'', JArr (map adjacency_json
          (case out of None \<Rightarrow> [] | Some t \<Rightarrow> isis_neighbors from_str t)))])))))"

section \<open>Writing\<close>

definition isis_require :: "'s platform \<Rightarrow> ('s, probe) handler" where
  "isis_require P = bnd (current P) (\<lambda>p.
     if \<not> isis_supported p then fail (Conflict ISIS_UNSUPPORTED) else ret p)"

definition hex_group :: "string \<Rightarrow> bool" where
  "hex_group s \<longleftrightarrow> s \<noteq> [] \<and> list_all is_hexdigit s"

definition valid_net :: "string \<Rightarrow> bool" where
  "valid_net net = (let parts = split_on (CHR ''.'') net in
     4 \<le> length parts \<and> length parts \<le> 13 \<and>
     length (hd parts) = 2 \<and> hex_group (hd parts) \<and> last parts = ''00'' \<and>
     list_all (\<lambda>p. length p = 4 \<and> hex_group p) (butlast (tl parts)))"

datatype isis_level = Level1 | Level2 | Level12

primrec contract_str :: "isis_level \<Rightarrow> string" where
  "contract_str Level1 = ''level-1''"
| "contract_str Level2 = ''level-2''"
| "contract_str Level12 = ''level-1-2''"

record isis_instance_input =
  isi_net :: "string option"
  isi_level :: isis_level
  isi_dynamic_hostname :: bool

definition isis_tag_of :: "isis_running \<Rightarrow> string" where
  "isis_tag_of r = opt_or (isr_tag r) ''1''"

definition isis_instance_lines :: "isis_running \<Rightarrow> string \<Rightarrow> isis_instance_input \<Rightarrow> string list" where
  "isis_instance_lines r net i =
     [''router isis '' @ isis_tag_of r]
     @ (case isr_net r of Some old \<Rightarrow> if old \<noteq> net then [''no net '' @ old] else [] | None \<Rightarrow> [])
     @ [''net '' @ net, ''is-type '' @ level_to_frr (contract_str (isi_level i)),
        if isi_dynamic_hostname i then ''hostname dynamic'' else ''no hostname dynamic'']"

definition isis_put_instance :: "'s platform \<Rightarrow> isis_instance_input \<Rightarrow> ('s, unit) handler" where
  "isis_put_instance P i =
     bnd (isis_require P) (\<lambda>p.
     bnd (map_err Internal (isis_running_config P)) (\<lambda>r. case isi_net i of
       None \<Rightarrow> (if isr_tag r = None then ret () else vtysh_config P p [''no router isis '' @ isis_tag_of r])
     | Some net \<Rightarrow>
         bnd (guard (valid_net net) (BadRequest (''invalid NET '' @ dbg net
           @ '' (expected e.g. 49.0001.1921.6800.1001.00)''))) (\<lambda>_.
         vtysh_config P p (isis_instance_lines r net i))))"

record isis_interface_input =
  ifi_enabled :: bool
  ifi_circuit_type :: "isis_level option"
  ifi_metric :: "nat option"
  ifi_passive :: bool
  ifi_point_to_point :: bool

definition isis_interface_lines :: "string \<Rightarrow> string \<Rightarrow> isis_interface_input \<Rightarrow> string list" where
  "isis_interface_lines name tag i =
     (''interface '' @ name) #
     (if ifi_enabled i then
        [''ip router isis '' @ tag,
         case ifi_circuit_type i of
           Some level \<Rightarrow> ''isis circuit-type '' @ level_to_frr (contract_str level) | None \<Rightarrow> ''no isis circuit-type'',
         case ifi_metric i of Some m \<Rightarrow> ''isis metric '' @ show_nat m | None \<Rightarrow> ''no isis metric'',
         if ifi_passive i then ''isis passive'' else ''no isis passive'',
         if ifi_point_to_point i then ''isis network point-to-point'' else ''no isis network point-to-point'']
      else [''no ip router isis '' @ tag])"

definition isis_put_interface :: "'s platform \<Rightarrow> string \<Rightarrow> isis_interface_input \<Rightarrow> ('s, unit) handler" where
  "isis_put_interface P name i =
     bnd (isis_require P) (\<lambda>p.
     bnd (bad_request (check_opt (\<lambda>m. check_range ''metric'' m 1 16777215) (ifi_metric i))) (\<lambda>_.
     bnd (ospf_interface_exists P name) (\<lambda>e.
     bnd (guard e (NotFound (''no such interface '' @ name))) (\<lambda>_.
     bnd (map_err Internal (isis_running_config P)) (\<lambda>r.
     bnd (guard (isr_tag r \<noteq> None)
            (BadRequest ''no IS-IS instance (set a NET via PUT /api/routing/isis/instance first)'')) (\<lambda>_.
     vtysh_config P p (isis_interface_lines name (isis_tag_of r) i)))))))"

end
