(* ===== verification/DhcpRelay.thy ===== *)
theory DhcpRelay
  imports Feature Ip
begin

text \<open>
  DHCP relay, \<^verbatim>\<open>src/src/sonic/dhcprelay.rs\<close>: the relay-centric view of the \<open>dhcp_servers\<close> list of a VLAN row.
\<close>

definition DHCP_UNSUPPORTED :: string where
  "DHCP_UNSUPPORTED = ''the dhcp_relay feature is not present on this image''"

record relay_vlan =
  rv_id :: nat
  rv_description :: "string option"
  rv_addresses :: "string list"
  rv_servers :: "string list"

definition row_vlan_id :: "row \<Rightarrow> string \<Rightarrow> nat option" where
  "row_vlan_id r name = opt_else (num32 r ''vlanid'') (vlan_id_from_name name)"

definition relay_vlan_of :: "'s platform \<Rightarrow> string \<Rightarrow> ('s, 'e, relay_vlan option) io" where
  "relay_vlan_of P key = (case key_suffix key ''VLAN|'' of
       None \<Rightarrow> ret None
     | Some name \<Rightarrow> bnd (row_of P CONFIG_DB key) (\<lambda>r. case row_vlan_id r name of
         None \<Rightarrow> ret None
       | Some n \<Rightarrow> bnd (keys_of P CONFIG_DB (''VLAN_INTERFACE|'' @ name @ ''|*'')) (\<lambda>ks.
           ret (Some \<lparr>rv_id = n, rv_description = field r ''description'',
             rv_addresses = sort (map snd (List.map_filter (\<lambda>k. two_parts k ''VLAN_INTERFACE|'') ks)),
             rv_servers = dhcp_helpers r\<rparr>))))"

definition relay_vlan_json :: "relay_vlan \<Rightarrow> json" where
  "relay_vlan_json v = JObj [(''vlan_id'', JNum (rv_id v)), (''description'', jopt JStr (rv_description v)),
     (''ip_addresses'', jstrs (rv_addresses v)), (''servers'', jstrs (rv_servers v))]"

definition dhcp_get :: "'s platform \<Rightarrow> ('s, string, json) io" where
  "dhcp_get P =
     bnd (current P) (\<lambda>p.
     if \<not> dhcp_relay_supported p then
       ret (JObj [(''capability'', cap_json (cap_no DHCP_UNSUPPORTED)), (''vlans'', JArr [])])
     else
     bnd (keys_of P CONFIG_DB ''VLAN|*'') (\<lambda>ks.
     bnd (collect (relay_vlan_of P) ks) (\<lambda>vs.
     ret (JObj [(''capability'', cap_json cap_yes),
       (''vlans'', JArr (map relay_vlan_json (sort_by (\<lambda>a b. cmp (rv_id a) (rv_id b)) (List.map_filter id vs))))]))))"

fun check_servers :: "string list \<Rightarrow> string list \<Rightarrow> string + unit" where
  "check_servers seen [] = Inr ()"
| "check_servers seen (s # ss) =
     (if parse_ip s = None then Inl (''invalid DHCP server address '' @ dbg s @ '' (expected an IP address)'')
      else if s \<in> set seen then Inl (''duplicate DHCP server '' @ s)
      else check_servers (seen @ [s]) ss)"

definition dhcp_put_vlan :: "'s platform \<Rightarrow> nat \<Rightarrow> string list \<Rightarrow> ('s, unit) handler" where
  "dhcp_put_vlan P n servers =
     bnd (bad_request (check_servers [] servers)) (\<lambda>_.
     bnd (current P) (\<lambda>p.
     bnd (guard (dhcp_relay_supported p) (Conflict DHCP_UNSUPPORTED)) (\<lambda>_.
     let key = ''VLAN|Vlan'' @ show_nat n in
     bnd (cfg_exists P key) (\<lambda>e.
     bnd (guard e (NotFound (''no such VLAN Vlan'' @ show_nat n))) (\<lambda>_.
     if servers = [] then
       bnd (cfg_hdel P key [''dhcp_servers@'']) (\<lambda>_. cfg_hdel P key [''dhcp_servers''])
     else cfg_hset P key [(''dhcp_servers@'', join '','' servers)])))))"

end
