(* ===== verification/Bfd.thy ===== *)
theory Bfd
  imports Ospf Policy "HOL-Library.Option_ord"
begin

text \<open>
  BFD, \<^verbatim>\<open>src/src/sonic/bfd.rs\<close>: the peers of the \<open>bfd\<close> block of FRR's running configuration, the vtysh batches that
  replace and delete one, and the live sessions. \<open>serde_json::from_str\<close> is the parameter \<open>from_str\<close>.
\<close>

definition BFD_UNSUPPORTED :: string where
  "BFD_UNSUPPORTED = ''BFD requires FRR's bfdd in the bgp container, which is not available on this image''"

section \<open>The running configuration\<close>

record bfd_peer =
  bp_peer :: string
  bp_interface :: "string option"
  bp_local_address :: "string option"
  bp_multihop :: bool
  bp_vrf :: "string option"
  bp_rx :: "nat option"
  bp_tx :: "nat option"
  bp_multiplier :: "nat option"
  bp_passive :: bool
  bp_shutdown :: bool

definition bare_peer :: "string \<Rightarrow> bfd_peer" where
  "bare_peer peer = \<lparr>bp_peer = peer, bp_interface = None, bp_local_address = None, bp_multihop = False, bp_vrf = None,
     bp_rx = None, bp_tx = None, bp_multiplier = None, bp_passive = False, bp_shutdown = False\<rparr>"

definition first_token :: "string list \<Rightarrow> string option" where
  "first_token ts = (case ts of [] \<Rightarrow> None | t # _ \<Rightarrow> Some t)"

fun peer_options :: "string list \<Rightarrow> bfd_peer \<Rightarrow> bfd_peer" where
  "peer_options [] p = p"
| "peer_options (t # ts) p =
     (if t = ''multihop'' then peer_options ts (p\<lparr>bp_multihop := True\<rparr>)
      else if t = ''local-address'' then peer_options (drop 1 ts) (p\<lparr>bp_local_address := first_token ts\<rparr>)
      else if t = ''interface'' then peer_options (drop 1 ts) (p\<lparr>bp_interface := first_token ts\<rparr>)
      else if t = ''vrf'' then peer_options (drop 1 ts) (p\<lparr>bp_vrf := first_token ts\<rparr>)
      else peer_options ts p)"

definition parse_peer_line :: "string \<Rightarrow> bfd_peer option" where
  "parse_peer_line rest = (case words rest of [] \<Rightarrow> None | t # ts \<Rightarrow> Some (peer_options ts (bare_peer t)))"

definition parse_setting_line :: "string \<Rightarrow> bfd_peer \<Rightarrow> bfd_peer" where
  "parse_setting_line line p = (let ts = words line in
     if length ts = 2 \<and> ts ! 0 = ''detect-multiplier'' then p\<lparr>bp_multiplier := parse_uint 64 (ts ! 1)\<rparr>
     else if length ts = 2 \<and> ts ! 0 = ''receive-interval'' then p\<lparr>bp_rx := parse_uint 64 (ts ! 1)\<rparr>
     else if length ts = 2 \<and> ts ! 0 = ''transmit-interval'' then p\<lparr>bp_tx := parse_uint 64 (ts ! 1)\<rparr>
     else if ts = [''passive-mode''] then p\<lparr>bp_passive := True\<rparr>
     else if ts = [''no'', ''passive-mode''] then p\<lparr>bp_passive := False\<rparr>
     else if ts = [''shutdown''] then p\<lparr>bp_shutdown := True\<rparr>
     else if ts = [''no'', ''shutdown''] then p\<lparr>bp_shutdown := False\<rparr>
     else p)"

text \<open>Where the loop over the lines is: before the block, inside a profile, or in the block with the open peer.\<close>

datatype bfd_state = Outside | InProfile | InBlock "bfd_peer option"

text \<open>The peers pushed from here on; the open peer is pushed when the text ends.\<close>

fun bfd_lines :: "bfd_state \<Rightarrow> string list \<Rightarrow> bfd_peer list" where
  "bfd_lines st [] = (case st of InBlock cur \<Rightarrow> opt_list cur | _ \<Rightarrow> [])"
| "bfd_lines Outside (raw # ls) = bfd_lines (if trim raw = ''bfd'' then InBlock None else Outside) ls"
| "bfd_lines InProfile (raw # ls) =
     bfd_lines (if trim raw = ''exit'' \<or> trim raw = ''!'' then InBlock None else InProfile) ls"
| "bfd_lines (InBlock cur) (raw # ls) = (let line = trim raw in
     case strip_prefix ''peer '' line of
       Some rest \<Rightarrow> opt_list cur @ bfd_lines (InBlock (parse_peer_line rest)) ls
     | None \<Rightarrow>
         if starts_with ''profile '' line then opt_list cur @ bfd_lines InProfile ls
         else if line = ''exit'' \<or> line = ''!'' \<or> line = ''end'' then
           (case cur of
              Some p \<Rightarrow> p # bfd_lines (InBlock None) ls
            | None \<Rightarrow> if line \<noteq> ''!'' then [] else bfd_lines (InBlock None) ls)
         else bfd_lines (InBlock (map_option (parse_setting_line line) cur)) ls)"

definition parse_running_bfd :: "string \<Rightarrow> bfd_peer list" where
  "parse_running_bfd txt = bfd_lines Outside (lines txt)"

section \<open>Shared plumbing\<close>

definition bfd_require :: "'s platform \<Rightarrow> ('s, probe) handler" where
  "bfd_require P = bnd (current P) (\<lambda>p.
     if \<not> bfd_supported p then fail (Conflict BFD_UNSUPPORTED) else ret p)"

definition configured_peers :: "'s platform \<Rightarrow> ('s, string, bfd_peer list) io" where
  "configured_peers P =
     bnd (run_cmd P ''vtysh'' [''-c'', ''show running-config'']) (\<lambda>out.
     if \<not> co_ok out then fail (''vtysh show running-config failed: '' @ trim (co_stderr out))
     else ret (parse_running_bfd (co_stdout out)))"

definition identity_of :: "string \<Rightarrow> bool \<Rightarrow> string option \<Rightarrow> string option \<Rightarrow> string option \<Rightarrow> string" where
  "identity_of peer multihop local_address interface vrf =
     ''peer '' @ peer @ (if multihop then '' multihop'' else []) @ opt_text '' local-address '' local_address
     @ opt_text '' interface '' interface @ opt_text '' vrf '' vrf"

definition peer_identity :: "bfd_peer \<Rightarrow> string" where
  "peer_identity c = identity_of (bp_peer c) (bp_multihop c) (bp_local_address c) (bp_interface c) (bp_vrf c)"

definition same_identity :: "bfd_peer \<Rightarrow> ip \<Rightarrow> string option \<Rightarrow> string option \<Rightarrow> bool \<Rightarrow> bool" where
  "same_identity c peer interface vrf multihop \<longleftrightarrow>
     parse_ip (bp_peer c) = Some peer \<and> bp_interface c = interface \<and> bp_vrf c = vrf \<and> bp_multihop c = multihop"

definition valid_iface :: "string \<Rightarrow> bool" where
  "valid_iface name \<longleftrightarrow> name \<noteq> [] \<and> length name \<le> 63 \<and> list_all (\<lambda>c. is_alnum c \<or> c \<in> set ''-_.'') name"

definition peer_json :: "bfd_peer \<Rightarrow> json" where
  "peer_json p = JObj [(''peer'', JStr (bp_peer p)), (''interface'', jopt JStr (bp_interface p)),
     (''local_address'', jopt JStr (bp_local_address p)), (''multihop'', JBool (bp_multihop p)),
     (''vrf'', jopt JStr (bp_vrf p)), (''rx_interval_ms'', jopt JNum (bp_rx p)), (''tx_interval_ms'', jopt JNum (bp_tx p)),
     (''multiplier'', jopt JNum (bp_multiplier p)), (''passive'', JBool (bp_passive p)), (''shutdown'', JBool (bp_shutdown p))]"

definition bfd_get :: "'s platform \<Rightarrow> ('s, string, json) io" where
  "bfd_get P =
     bnd (current P) (\<lambda>p.
     if \<not> bfd_supported p then ret (JObj [(''capability'', cap_json (cap_no BFD_UNSUPPORTED)), (''peers'', JArr [])])
     else bnd (configured_peers P) (\<lambda>peers.
       ret (JObj [(''capability'', cap_json cap_yes),
         (''peers'', JArr (map peer_json (sort_by (\<lambda>a b. then_cmp (cmp (bp_peer a) (bp_peer b))
            (then_cmp (cmp (bp_vrf a) (bp_vrf b)) (cmp (bp_interface a) (bp_interface b)))) peers)))])))"

section \<open>Writing\<close>

record peer_input =
  pin_peer :: string
  pin_interface :: "string option"
  pin_local_address :: "string option"
  pin_multihop :: bool
  pin_vrf :: "string option"
  pin_rx :: "nat option"
  pin_tx :: "nat option"
  pin_multiplier :: "nat option"
  pin_passive :: bool
  pin_shutdown :: bool

definition check_local :: "ip \<Rightarrow> string \<Rightarrow> string + unit" where
  "check_local peer l =
     sbind (ok_or (parse_ip l) (''invalid local_address '' @ dbg l)) (\<lambda>addr.
     check (is_ipv4 addr = is_ipv4 peer) ''local_address and peer must be the same address family'')"

definition check_peer :: "peer_input \<Rightarrow> string + ip" where
  "check_peer i =
     sbind (ok_or (parse_ip (pin_peer i)) (''invalid peer address '' @ dbg (pin_peer i))) (\<lambda>peer.
     sbind (check_opt (check_local peer) (pin_local_address i)) (\<lambda>_.
     sbind (check (pin_multihop i \<longrightarrow> pin_local_address i \<noteq> None) ''a multihop peer requires local_address'') (\<lambda>_.
     sbind (check (pin_multihop i \<longrightarrow> pin_interface i = None) ''a multihop peer does not bind to an interface'') (\<lambda>_.
     sbind (check_opt (\<lambda>n. check (valid_iface n) (''invalid interface '' @ dbg n)) (pin_interface i)) (\<lambda>_.
     sbind (check_opt (\<lambda>v. check (valid_name v) (''invalid vrf '' @ dbg v)) (pin_vrf i)) (\<lambda>_.
     sbind (check_opt (\<lambda>v. check_range ''rx_interval_ms'' v 10 60000) (pin_rx i)) (\<lambda>_.
     sbind (check_opt (\<lambda>v. check_range ''tx_interval_ms'' v 10 60000) (pin_tx i)) (\<lambda>_.
     sbind (check_opt (\<lambda>v. check_range ''multiplier'' v 2 255) (pin_multiplier i)) (\<lambda>_.
     Inr peer)))))))))"

definition setting_lines :: "peer_input \<Rightarrow> string list" where
  "setting_lines i =
     opt_line ''receive-interval '' (map_option show_nat (pin_rx i))
     @ opt_line ''transmit-interval '' (map_option show_nat (pin_tx i))
     @ opt_line ''detect-multiplier '' (map_option show_nat (pin_multiplier i))
     @ (if pin_passive i then [''passive-mode''] else [])
     @ [if pin_shutdown i then ''shutdown'' else ''no shutdown'']"

definition input_identity :: "peer_input \<Rightarrow> string" where
  "input_identity i = identity_of (pin_peer i) (pin_multihop i) (pin_local_address i) (pin_interface i) (pin_vrf i)"

definition peer_lines :: "bfd_peer list \<Rightarrow> ip \<Rightarrow> peer_input \<Rightarrow> string list" where
  "peer_lines existing peer i =
     [''bfd'']
     @ (case find (\<lambda>c. same_identity c peer (pin_interface i) (pin_vrf i) (pin_multihop i)) existing of
          None \<Rightarrow> [] | Some cur \<Rightarrow> [''no '' @ peer_identity cur])
     @ [input_identity i] @ setting_lines i @ [''exit'', ''exit'']"

definition put_peer :: "'s platform \<Rightarrow> peer_input \<Rightarrow> ('s, unit) handler" where
  "put_peer P i =
     bnd (bad_request (check_peer i)) (\<lambda>peer.
     bnd (bfd_require P) (\<lambda>p.
     bnd (map_err Internal (configured_peers P)) (\<lambda>existing.
     vtysh_config P p (peer_lines existing peer i))))"

record peer_key =
  pk_peer :: string
  pk_interface :: "string option"
  pk_vrf :: "string option"
  pk_multihop :: bool

definition delete_peer :: "'s platform \<Rightarrow> peer_key \<Rightarrow> ('s, unit) handler" where
  "delete_peer P k =
     bnd (bad_request (ok_or (parse_ip (pk_peer k)) (''invalid peer address '' @ dbg (pk_peer k)))) (\<lambda>peer.
     bnd (bfd_require P) (\<lambda>p.
     bnd (map_err Internal (configured_peers P)) (\<lambda>existing.
     case find (\<lambda>c. same_identity c peer (pk_interface k) (pk_vrf k) (pk_multihop k)) existing of
       None \<Rightarrow> fail (NotFound (''no configured BFD peer '' @ pk_peer k))
     | Some cur \<Rightarrow> vtysh_config P p [''bfd'', ''no '' @ peer_identity cur, ''exit''])))"

section \<open>Sessions\<close>

record bfd_session =
  bs_peer :: string
  bs_local_address :: "string option"
  bs_interface :: "string option"
  bs_vrf :: "string option"
  bs_multihop :: bool
  bs_state :: string
  bs_remote_state :: "string option"
  bs_uptime :: "nat option"
  bs_rx :: "nat option"
  bs_tx :: "nat option"
  bs_multiplier :: "nat option"
  bs_diagnostic :: "string option"
  bs_clients :: "string list"

definition map_session_state :: "string \<Rightarrow> string" where
  "map_session_state v = (let s = to_lower v in
     if s = ''up'' then ''up'' else if s = ''init'' then ''init''
     else if s = ''adm-down'' \<or> s = ''admin-down'' \<or> s = ''shutdown'' then ''admin_down'' else ''down'')"

definition bgp_bfd_neighbor :: "string \<Rightarrow> string option" where
  "bgp_bfd_neighbor l = (case words (trim l) of
       a # addr # b # _ \<Rightarrow> if a = ''neighbor'' \<and> b = ''bfd'' then Some addr else None
     | _ \<Rightarrow> None)"

definition bgp_bfd_neighbors :: "string \<Rightarrow> string list" where
  "bgp_bfd_neighbors txt = List.map_filter bgp_bfd_neighbor (lines txt)"

definition json_true :: "json \<Rightarrow> bool" where
  "json_true v = (case v of JBool b \<Rightarrow> b | _ \<Rightarrow> False)"

definition filter_opt :: "('a \<Rightarrow> bool) \<Rightarrow> 'a option \<Rightarrow> 'a option" where
  "filter_opt p v = Option.bind v (\<lambda>x. if p x then Some x else None)"

definition bfd_session_of :: "string list \<Rightarrow> json \<Rightarrow> bfd_session option" where
  "bfd_session_of bgp s =
     map_option (\<lambda>peer. let opt_str = (\<lambda>k. filter_opt (\<lambda>v. v \<noteq> []) (jstr_at s k)) in
       \<lparr>bs_peer = peer, bs_local_address = opt_str ''local'', bs_interface = opt_str ''interface'',
        bs_vrf = filter_opt (\<lambda>v. v \<noteq> ''default'') (opt_str ''vrf''),
        bs_multihop = json_true (jget s ''multihop''),
        bs_state = map_session_state (opt_or (jstr_at s ''status'') []),
        bs_remote_state = map_option map_session_state (jstr_at s ''remote-status''),
        bs_uptime = jnum_at s ''uptime'', bs_rx = jnum_at s ''receive-interval'', bs_tx = jnum_at s ''transmit-interval'',
        bs_multiplier = jnum_at s ''detect-multiplier'',
        bs_diagnostic = filter_opt (\<lambda>d. d \<noteq> [] \<and> to_lower d \<noteq> ''ok'') (jstr_at s ''diagnostic''),
        bs_clients = (if peer \<in> set bgp then [''bgp''] else [])\<rparr>) (jstr_at s ''peer'')"

definition parse_sessions :: "(string \<Rightarrow> json option) \<Rightarrow> string \<Rightarrow> string list \<Rightarrow> bfd_session list" where
  "parse_sessions from_str txt bgp = (case Option.bind (from_str txt) as_array of
       None \<Rightarrow> []
     | Some xs \<Rightarrow> sort_by (\<lambda>a b. then_cmp (cmp (bs_peer a) (bs_peer b)) (cmp (bs_vrf a) (bs_vrf b)))
         (List.map_filter (bfd_session_of bgp) xs))"

definition bfd_session_json :: "bfd_session \<Rightarrow> json" where
  "bfd_session_json s = JObj [(''peer'', JStr (bs_peer s)), (''local_address'', jopt JStr (bs_local_address s)),
     (''interface'', jopt JStr (bs_interface s)), (''vrf'', jopt JStr (bs_vrf s)), (''multihop'', JBool (bs_multihop s)),
     (''state'', JStr (bs_state s)), (''remote_state'', jopt JStr (bs_remote_state s)),
     (''uptime_seconds'', jopt JNum (bs_uptime s)), (''rx_interval_ms'', jopt JNum (bs_rx s)),
     (''tx_interval_ms'', jopt JNum (bs_tx s)), (''multiplier'', jopt JNum (bs_multiplier s)),
     (''diagnostic'', jopt JStr (bs_diagnostic s)), (''clients'', jstrs (bs_clients s))]"

definition bfd_get_sessions :: "(string \<Rightarrow> json option) \<Rightarrow> 's platform \<Rightarrow> ('s, string, json) io" where
  "bfd_get_sessions from_str P =
     bnd (current P) (\<lambda>p.
     if \<not> bfd_supported p then ret (JObj [(''capability'', cap_json (cap_no BFD_UNSUPPORTED)), (''sessions'', JArr [])])
     else
     bnd (run_cmd P ''vtysh'' [''-c'', ''show bfd peers json'']) (\<lambda>out.
     if \<not> co_ok out then fail (''vtysh show bfd peers failed: '' @ trim (co_stderr out))
     else
     bnd (ok_stdout (run_cmd P ''vtysh'' [''-c'', ''show running-config''])) (\<lambda>running.
     ret (JObj [(''capability'', cap_json cap_yes),
       (''sessions'', JArr (map bfd_session_json
          (parse_sessions from_str (co_stdout out) (bgp_bfd_neighbors (opt_or running [])))))]))))"

end
