(* ===== verification/SysConf.thy ===== *)
theory SysConf
  imports Mclag
begin

text \<open>
  System configuration, \<^verbatim>\<open>src/src/sonic/system.rs\<close>: general settings, the management interface, local users, SNMP and
  maintenance. The parse of an \<open>f64\<close> truncated to \<open>u64\<close> and \<open>serde_json::to_string_pretty\<close> are parameters.
\<close>

definition read_text :: "'s platform \<Rightarrow> string \<Rightarrow> ('s, 'e, string option) io" where
  "read_text P path = io_of (read_file P path)"

definition read_only_cap :: "string \<Rightarrow> capability" where
  "read_only_cap why = \<lparr>supported = True, read_only = True, reason = Some why\<rparr>"

definition META :: string where
  "META = ''DEVICE_METADATA|localhost''"

definition keep_if :: "('a \<Rightarrow> bool) \<Rightarrow> 'a option \<Rightarrow> 'a option" where
  "keep_if p v = Option.bind v (\<lambda>x. if p x then Some x else None)"

definition non_empty :: "string option \<Rightarrow> string option" where
  "non_empty v = keep_if (\<lambda>s. s \<noteq> []) v"

text \<open>\<open>.or_else(|| plat.read_file(path).map(trim))\<close>: the file is read only when there is no value.\<close>

definition or_file :: "'s platform \<Rightarrow> string \<Rightarrow> string option \<Rightarrow> ('s, 'e, string option) io" where
  "or_file P path v = (case v of Some x \<Rightarrow> ret (Some x)
     | None \<Rightarrow> bnd (read_text P path) (\<lambda>t. ret (map_option trim t)))"

section \<open>General settings\<close>

primrec syslog_rows :: "'s platform \<Rightarrow> string list \<Rightarrow> ('s, 'e, (string \<times> nat option) list) io" where
  "syslog_rows P [] = ret []"
| "syslog_rows P (k # ks) = (case key_suffix k ''SYSLOG_SERVER|'' of
       None \<Rightarrow> syslog_rows P ks
     | Some a \<Rightarrow> bnd (row_of P CONFIG_DB k) (\<lambda>r. bnd (syslog_rows P ks) (\<lambda>xs. ret ((a, parse_num (field r ''port'')) # xs))))"

definition syslog_json :: "string \<times> nat option \<Rightarrow> json" where
  "syslog_json = (\<lambda>(a, port). JObj [(''address'', JStr a), (''port'', jopt JNum port)])"

definition get_general :: "'s platform \<Rightarrow> ('s, string, json) io" where
  "get_general P =
     bnd (row_of P CONFIG_DB META) (\<lambda>meta.
     bnd (or_file P ''/etc/hostname'' (field meta ''hostname'')) (\<lambda>hostname.
     bnd (or_file P ''/etc/timezone'' (field meta ''timezone'')) (\<lambda>tz.
     bnd (ok_stdout (run_cmd P ''timedatectl'' [''list-timezones'', ''--no-pager''])) (\<lambda>zones.
     bnd (scan P CONFIG_DB ''NTP_SERVER|*'') (\<lambda>nks.
     bnd (scan P CONFIG_DB ''SYSLOG_SERVER|*'') (\<lambda>sks.
     bnd (syslog_rows P sks) (\<lambda>syslog.
     ret (JObj [(''capability'', cap_json cap_yes), (''hostname'', JStr (opt_or hostname [])),
       (''timezone'', JStr (opt_or (non_empty tz) ''Etc/UTC'')),
       (''timezones'', jstrs (filter (\<lambda>l. l \<noteq> []) (map trim (lines (opt_or zones []))))),
       (''ntp_servers'', jstrs (sort (List.map_filter (\<lambda>k. key_suffix k ''NTP_SERVER|'') nks))),
       (''syslog_servers'', JArr (map syslog_json (sort_by (\<lambda>a b. cmp (fst a) (fst b)) syslog)))]))))))))"

record syslog_input =
  sy_address :: string
  sy_port :: "nat option"

record general_input =
  ge_hostname :: string
  ge_timezone :: string
  ge_ntp_servers :: "string list"
  ge_syslog_servers :: "syslog_input list"

definition check_hostname :: "string \<Rightarrow> string + unit" where
  "check_hostname name = check (name \<noteq> [] \<and> length name \<le> 63 \<and> hd name \<noteq> CHR ''-'' \<and> last name \<noteq> CHR ''-''
       \<and> list_all (\<lambda>c. is_alnum c \<or> c = CHR ''-'') name)
     (''invalid hostname '' @ dbg name @ '' (letters, digits, and dashes; 63 chars max)'')"

definition check_server_address :: "string \<Rightarrow> string + unit" where
  "check_server_address a = check (a \<noteq> [] \<and> length a \<le> 255 \<and> list_all (\<lambda>c. is_alnum c \<or> c \<in> set ''.-:_'') a)
     (''invalid server address '' @ dbg a)"

primrec check_ntp :: "string list \<Rightarrow> string list \<Rightarrow> string + unit" where
  "check_ntp [] seen = Inr ()"
| "check_ntp (a # as) seen =
     sbind (check_server_address a) (\<lambda>_.
     sbind (check (a \<notin> set seen) (''duplicate NTP server '' @ a)) (\<lambda>_. check_ntp as (a # seen)))"

primrec check_syslog :: "syslog_input list \<Rightarrow> string list \<Rightarrow> string + unit" where
  "check_syslog [] seen = Inr ()"
| "check_syslog (x # xs) seen =
     sbind (check_server_address (sy_address x)) (\<lambda>_.
     sbind (check (sy_port x \<noteq> Some 0) ''invalid syslog port 0'') (\<lambda>_.
     sbind (check (sy_address x \<notin> set seen) (''duplicate syslog server '' @ sy_address x)) (\<lambda>_.
     check_syslog xs (sy_address x # seen))))"

definition valid_timezone :: "string \<Rightarrow> bool" where
  "valid_timezone tz \<longleftrightarrow> tz \<noteq> [] \<and> length tz \<le> 64 \<and> list_all (\<lambda>c. is_alnum c \<or> c \<in> set ''/_+-'') tz"

definition check_general :: "general_input \<Rightarrow> string + unit" where
  "check_general i =
     sbind (check_hostname (ge_hostname i)) (\<lambda>_.
     sbind (check (valid_timezone (ge_timezone i)) (''invalid timezone '' @ dbg (ge_timezone i))) (\<lambda>_.
     sbind (check_ntp (ge_ntp_servers i) []) (\<lambda>_.
     check_syslog (ge_syslog_servers i) [])))"

text \<open>A row of a keyed set goes unless its name is wanted.\<close>

definition drop_unwanted :: "'s platform \<Rightarrow> string \<Rightarrow> string list \<Rightarrow> string \<Rightarrow> ('s batch, string, unit) io" where
  "drop_unwanted P pre wanted key = (case key_suffix key pre of
       None \<Rightarrow> ret ()
     | Some name \<Rightarrow> if name \<in> set wanted then ret () else b_del P CONFIG_DB key)"

definition add_ntp :: "'s platform \<Rightarrow> string list \<Rightarrow> string \<Rightarrow> ('s batch, string, unit) io" where
  "add_ntp P cur a =
     (if list_ex (\<lambda>k. key_suffix k ''NTP_SERVER|'' = Some a) cur then ret ()
      else b_hset P CONFIG_DB (''NTP_SERVER|'' @ a) [(''NULL'', ''NULL'')])"

definition put_syslog :: "'s platform \<Rightarrow> syslog_input \<Rightarrow> ('s batch, string, unit) io" where
  "put_syslog P x = (let key = ''SYSLOG_SERVER|'' @ sy_address x in case sy_port x of
       Some p \<Rightarrow> b_hset P CONFIG_DB key [(''port'', show_nat p)]
     | None \<Rightarrow> bnd (b_hset P CONFIG_DB key [(''NULL'', ''NULL'')]) (\<lambda>_. b_hdel P CONFIG_DB key [''port'']))"

text \<open>The syslog servers run in the order of their addresses, as the \<open>BTreeMap\<close> keeps them.\<close>

definition general_batch :: "'s platform \<Rightarrow> string list \<Rightarrow> string list \<Rightarrow> general_input \<Rightarrow> ('s batch, string, unit) io" where
  "general_batch P ntp syslog i =
     bnd (b_hset P CONFIG_DB META [(''hostname'', ge_hostname i), (''timezone'', ge_timezone i)]) (\<lambda>_.
     bnd (for_each (drop_unwanted P ''NTP_SERVER|'' (ge_ntp_servers i)) ntp) (\<lambda>_.
     bnd (for_each (add_ntp P ntp) (ge_ntp_servers i)) (\<lambda>_.
     bnd (for_each (drop_unwanted P ''SYSLOG_SERVER|'' (map sy_address (ge_syslog_servers i))) syslog) (\<lambda>_.
     for_each (put_syslog P) (sort_key sy_address (ge_syslog_servers i))))))"

definition put_general :: "'s platform \<Rightarrow> general_input \<Rightarrow> ('s, unit) handler" where
  "put_general P i =
     bnd (bad_request (check_general i)) (\<lambda>_.
     bnd (keys_of P CONFIG_DB ''NTP_SERVER|*'') (\<lambda>ntp.
     bnd (keys_of P CONFIG_DB ''SYSLOG_SERVER|*'') (\<lambda>syslog.
     bnd (map_err Redis (apply_batch P (general_batch P ntp syslog i))) (\<lambda>_.
     bnd (ok_stdout (run_cmd P ''timedatectl'' [''set-timezone'', ge_timezone i])) (\<lambda>_. ret ())))))"

section \<open>The management interface\<close>

definition MGMT_IFACE :: string where
  "MGMT_IFACE = ''eth0''"

definition mgmt_row :: "string \<Rightarrow> (string \<times> string) option" where
  "mgmt_row k = map_option (\<lambda>(_, cidr). (cidr, k)) (two_parts k ''MGMT_INTERFACE|'')"

definition mgmt_rows :: "'s platform \<Rightarrow> ('s, string, (string \<times> string) list) io" where
  "mgmt_rows P = bnd (scan P CONFIG_DB (''MGMT_INTERFACE|'' @ MGMT_IFACE @ ''|*'')) (\<lambda>ks.
     ret (sort_key (\<lambda>(cidr, _). (CHR '':'' \<in> set cidr, cidr)) (List.map_filter mgmt_row ks)))"

definition trimmed_file :: "'s platform \<Rightarrow> string \<Rightarrow> ('s, 'e, string option) io" where
  "trimmed_file P path = bnd (read_text P path) (\<lambda>t. ret (map_option trim t))"

definition get_management :: "'s platform \<Rightarrow> ('s, string, json) io" where
  "get_management P =
     bnd (trimmed_file P (''/sys/class/net/'' @ MGMT_IFACE @ ''/address'')) (\<lambda>m. let mac = non_empty m in
     bnd (trimmed_file P (''/sys/class/net/'' @ MGMT_IFACE @ ''/operstate'')) (\<lambda>st.
     bnd (mgmt_rows P) (\<lambda>rows.
     bnd (case rows of (_, key) # _ \<Rightarrow> row_of P CONFIG_DB key | [] \<Rightarrow> ret []) (\<lambda>r.
     bnd (row_of P CONFIG_DB ''MGMT_VRF_CONFIG|vrf_global'') (\<lambda>vrf.
     ret (JObj [(''capability'', cap_json (if mac \<noteq> None then cap_yes
            else read_only_cap (''this platform has no '' @ MGMT_IFACE @ '' management interface''))),
       (''interface_name'', JStr MGMT_IFACE), (''dhcp'', JBool (rows = [])),
       (''ip_address'', jopt JStr (case rows of (cidr, _) # _ \<Rightarrow> Some cidr | [] \<Rightarrow> None)),
       (''gateway'', jopt JStr (if rows = [] then None else field r ''gwaddr'')),
       (''mgmt_vrf_enabled'', JBool (opt_or (map_option (\<lambda>v. to_lower v = ''true'') (field vrf ''mgmtVrfEnabled'')) False)),
       (''mac_address'', jopt JStr mac),
       (''oper_status'', JStr (opt_or (keep_if (\<lambda>s. s = ''up'' \<or> s = ''down'') st) ''unknown''))]))))))"

record management_input =
  mi_dhcp :: bool
  mi_ip_address :: "string option"
  mi_gateway :: "string option"

definition mgmt_cidr :: "string \<Rightarrow> ip option" where
  "mgmt_cidr s = (case split_once (CHR ''/'') s of
       None \<Rightarrow> None
     | Some (a, n) \<Rightarrow> (case (parse_ip a, parse_uint 8 n) of
           (Some ip, Some len) \<Rightarrow> if len \<le> (if is_ipv4 ip then 32 else 128) then Some ip else None
         | _ \<Rightarrow> None))"

definition check_gateway :: "ip \<Rightarrow> string \<Rightarrow> string + unit" where
  "check_gateway ip gw = check (map_option is_ipv4 (parse_ip gw) = Some (is_ipv4 ip)) (''invalid gateway '' @ dbg gw)"

definition mgmt_key :: "string \<Rightarrow> string" where
  "mgmt_key cidr = ''MGMT_INTERFACE|'' @ MGMT_IFACE @ ''|'' @ cidr"

definition mgmt_batch :: "'s platform \<Rightarrow> (string \<times> string) list \<Rightarrow> string \<Rightarrow> string option \<Rightarrow> ('s batch, string, unit) io" where
  "mgmt_batch P rows cidr gw =
     bnd (for_each (\<lambda>(c, key). if c \<noteq> cidr then b_del P CONFIG_DB key else ret ()) rows) (\<lambda>_. case gw of
       Some g \<Rightarrow> b_hset P CONFIG_DB (mgmt_key cidr) [(''gwaddr'', g)]
     | None \<Rightarrow> bnd (b_hset P CONFIG_DB (mgmt_key cidr) [(''NULL'', ''NULL'')]) (\<lambda>_.
         b_hdel P CONFIG_DB (mgmt_key cidr) [''gwaddr'']))"

definition put_management :: "'s platform \<Rightarrow> management_input \<Rightarrow> ('s, unit) handler" where
  "put_management P i =
     bnd (map_err Redis (mgmt_rows P)) (\<lambda>rows.
     if mi_dhcp i then
       bnd (for_each (cfg_del P) (map snd rows)) (\<lambda>_. cfg_del P (''MGMT_INTERFACE|'' @ MGMT_IFACE))
     else case mi_ip_address i of
       None \<Rightarrow> fail (BadRequest ''a static management config needs ip_address'')
     | Some cidr \<Rightarrow>
         bnd (bad_request (ok_or (mgmt_cidr cidr) (''invalid ip_address '' @ dbg cidr @ '' (expected CIDR)''))) (\<lambda>ip.
         bnd (bad_request (check_opt (check_gateway ip) (mi_gateway i))) (\<lambda>_.
         map_err Redis (apply_batch P (mgmt_batch P rows cidr (mi_gateway i))))))"

end
