(* ===== verification/Users.thy ===== *)
theory Users
  imports SysConf
begin

text \<open>
  Local users, the users part of \<^verbatim>\<open>src/src/sonic/system.rs\<close>: host accounts read from the account files and managed
  with useradd, usermod, gpasswd, userdel and chpasswd.
\<close>

datatype role = Admin | Operator

record user_doc =
  ud_name :: string
  ud_role :: string
  ud_builtin :: bool

definition ends_with :: "string \<Rightarrow> string \<Rightarrow> bool" where
  "ends_with suf s = starts_with (rev suf) (rev s)"

definition group_admins :: "string \<Rightarrow> string list" where
  "group_admins line = (case split_on (CHR '':'') line of
       [name, _, _, members] \<Rightarrow>
         if name = ''sudo'' \<or> name = ''admin''
         then filter (\<lambda>m. m \<noteq> []) (map trim (split_on (CHR '','') members)) else []
     | _ \<Rightarrow> [])"

definition passwd_user :: "string list \<Rightarrow> string \<Rightarrow> user_doc option" where
  "passwd_user admins line = (case split_on (CHR '':'') line of
       [name, _, uid, _, _, _, shell] \<Rightarrow> (case parse_uint 32 uid of
           None \<Rightarrow> None
         | Some n \<Rightarrow>
             if \<not> (1000 \<le> n \<and> n < 65534) \<or> ends_with ''nologin'' shell \<or> ends_with ''false'' shell then None
             else Some \<lparr>ud_name = name, ud_role = (if name \<in> set admins then ''admin'' else ''operator''),
                    ud_builtin = (n = 1000 \<or> name = ''admin'')\<rparr>)
     | _ \<Rightarrow> None)"

definition parse_users :: "string \<Rightarrow> string \<Rightarrow> user_doc list" where
  "parse_users passwd grp = (let admins = concat (map group_admins (lines grp)) in
     sort_by (\<lambda>a b. cmp (ud_name a) (ud_name b)) (List.map_filter (passwd_user admins) (lines passwd)))"

definition read_users :: "'s platform \<Rightarrow> ('s, 'e, user_doc list option) io" where
  "read_users P = bnd (read_text P ''/etc/passwd'') (\<lambda>passwd. case passwd of
       None \<Rightarrow> ret None
     | Some pw \<Rightarrow> bnd (read_text P ''/etc/group'') (\<lambda>grp. ret (Some (parse_users pw (opt_or grp [])))))"

definition user_json :: "user_doc \<Rightarrow> json" where
  "user_json u = JObj [(''name'', JStr (ud_name u)), (''role'', JStr (ud_role u)), (''builtin'', JBool (ud_builtin u))]"

definition get_users :: "'s platform \<Rightarrow> ('s, string, json) io" where
  "get_users P = bnd (read_users P) (\<lambda>us. case us of
       Some users \<Rightarrow> ret (JObj [(''capability'', cap_json cap_yes), (''users'', JArr (map user_json users))])
     | None \<Rightarrow> ret (JObj [(''capability'', cap_json (read_only_cap ''cannot read the system account database'')),
         (''users'', JArr [])]))"

record user_create =
  uc_name :: string
  uc_role :: role
  uc_password :: string

record user_update =
  uu_role :: role
  uu_password :: "string option"

definition check_username :: "string \<Rightarrow> string + unit" where
  "check_username name = check (length name \<le> 32 \<and> name \<noteq> [] \<and> (is_lower (hd name) \<or> hd name = CHR ''_'')
       \<and> list_all (\<lambda>c. is_lower c \<or> is_digit c \<or> c = CHR ''_'' \<or> c = CHR ''-'') (tl name))
     (''invalid username '' @ dbg name @ '' (lowercase letters, digits, _ and -; 32 chars max)'')"

definition check_password :: "string \<Rightarrow> string + unit" where
  "check_password pw =
     sbind (check (pw \<noteq> [] \<and> length pw \<le> 128) ''password must be 1-128 characters'') (\<lambda>_.
     check (char_of (10::nat) \<notin> set pw \<and> CHR '':'' \<notin> set pw) ''password cannot contain newlines or colons'')"

definition users_or_fail :: "'s platform \<Rightarrow> ('s, user_doc list) handler" where
  "users_or_fail P = bnd (read_users P) (\<lambda>us. lift (ok_or us (Internal ''cannot read the system account database'')))"

definition out_text :: "cmd_output \<Rightarrow> string" where
  "out_text out = (if trim (co_stderr out) = [] then trim (co_stdout out) else trim (co_stderr out))"

definition run_ok :: "'s platform \<Rightarrow> string \<Rightarrow> string list \<Rightarrow> ('s, unit) handler" where
  "run_ok P program args =
     bnd (map_err (\<lambda>e. Internal (program @ '': '' @ e)) (run_cmd P program args)) (\<lambda>out.
     guard (co_ok out) (Internal (program @ '' failed: '' @ out_text out)))"

definition set_password :: "'s platform \<Rightarrow> string \<Rightarrow> string \<Rightarrow> ('s, unit) handler" where
  "set_password P name pw =
     bnd (map_err (\<lambda>e. Internal (''chpasswd: '' @ e))
            (run_input P ''chpasswd'' [] (name @ '':'' @ pw @ [char_of (10::nat)]))) (\<lambda>out.
     guard (co_ok out) (Internal (''chpasswd failed: '' @ trim (co_stderr out))))"

definition account_name :: "string \<Rightarrow> string" where
  "account_name line = hd (split_on (CHR '':'') line)"

definition admin_groups :: "'s platform \<Rightarrow> ('s, 'e, string list) io" where
  "admin_groups P = bnd (read_text P ''/etc/group'') (\<lambda>grp.
     ret (filter (\<lambda>g. g \<in> set (map account_name (lines (opt_or grp [])))) [''sudo'', ''docker'', ''admin'']))"

text \<open>\<open>gpasswd -d\<close> fails when the user is not a member; the failure is ignored.\<close>

definition apply_role :: "'s platform \<Rightarrow> string \<Rightarrow> role \<Rightarrow> ('s, unit) handler" where
  "apply_role P name r = bnd (admin_groups P) (\<lambda>gs. case r of
       Admin \<Rightarrow> if gs = [] then ret () else run_ok P ''usermod'' [''-aG'', join '','' gs, name]
     | Operator \<Rightarrow> for_each (\<lambda>g. bnd (ok_stdout (run_cmd P ''gpasswd'' [''-d'', name, g])) (\<lambda>_. ret ())) gs)"

definition create_user :: "'s platform \<Rightarrow> user_create \<Rightarrow> ('s, unit) handler" where
  "create_user P i =
     bnd (bad_request (check_username (uc_name i))) (\<lambda>_.
     bnd (bad_request (check_password (uc_password i))) (\<lambda>_.
     bnd (read_text P ''/etc/passwd'') (\<lambda>passwd.
     bnd (guard (uc_name i \<notin> set (map account_name (lines (opt_or passwd []))))
            (Conflict (''user '' @ uc_name i @ '' already exists''))) (\<lambda>_.
     bnd (run_ok P ''useradd'' [''-m'', ''-s'', ''/bin/bash'', uc_name i]) (\<lambda>_.
     bnd (apply_role P (uc_name i) (uc_role i)) (\<lambda>_.
     set_password P (uc_name i) (uc_password i)))))))"

definition admin_count :: "user_doc list \<Rightarrow> nat" where
  "admin_count us = length (filter (\<lambda>u. ud_role u = ''admin'') us)"

definition find_user :: "string \<Rightarrow> user_doc list \<Rightarrow> user_doc option" where
  "find_user name us = find (\<lambda>u. ud_name u = name) us"

definition update_user :: "'s platform \<Rightarrow> string \<Rightarrow> user_update \<Rightarrow> ('s, unit) handler" where
  "update_user P name i =
     bnd (users_or_fail P) (\<lambda>us. case find_user name us of
       None \<Rightarrow> fail (NotFound (''no such user '' @ name))
     | Some u \<Rightarrow>
         bnd (bad_request (check_opt check_password (uu_password i))) (\<lambda>_.
         bnd (guard (\<not> (ud_role u = ''admin'' \<and> uu_role i = Operator \<and> admin_count us \<le> 1))
                (Conflict (name @ '' is the last admin; promote another user first''))) (\<lambda>_.
         bnd (apply_role P name (uu_role i)) (\<lambda>_. case uu_password i of
             Some pw \<Rightarrow> set_password P name pw
           | None \<Rightarrow> ret ()))))"

definition delete_user :: "'s platform \<Rightarrow> string \<Rightarrow> ('s, unit) handler" where
  "delete_user P name =
     bnd (users_or_fail P) (\<lambda>us. case find_user name us of
       None \<Rightarrow> fail (NotFound (''no such user '' @ name))
     | Some u \<Rightarrow>
         bnd (guard (\<not> ud_builtin u) (Conflict (name @ '' is the image's built-in account and cannot be deleted''))) (\<lambda>_.
         bnd (guard (\<not> (ud_role u = ''admin'' \<and> admin_count us \<le> 1))
                (Conflict (name @ '' is the last admin; promote another user first''))) (\<lambda>_.
         run_ok P ''userdel'' [''-r'', name])))"

end
