(* ===== verification/Maintenance.thy ===== *)
theory Maintenance
  imports Users
begin

text \<open>
  SNMP and maintenance, of \<^verbatim>\<open>src/src/sonic/system.rs\<close>: communities and contact, images, the time of the last save,
  backup and restore. The parse of an \<open>f64\<close> truncated to \<open>u64\<close> and \<open>serde_json::to_string_pretty\<close> are
  parameters; the invalidation of the probe cache is not part of the platform's state.
\<close>

section \<open>SNMP\<close>

definition NO_SNMP :: string where
  "NO_SNMP = ''this image was built without the snmp feature''"

definition snmp_capability :: "'s platform \<Rightarrow> ('s, 'e, capability) io" where
  "snmp_capability P = bnd (current P) (\<lambda>p.
     ret (if has_feature p ''snmp'' \<or> docker_running p ''snmp'' then cap_yes else cap_no NO_SNMP))"

primrec community_rows :: "'s platform \<Rightarrow> string list \<Rightarrow> ('s, 'e, (string \<times> string) list) io" where
  "community_rows P [] = ret []"
| "community_rows P (k # ks) = (case key_suffix k ''SNMP_COMMUNITY|'' of
       None \<Rightarrow> community_rows P ks
     | Some name \<Rightarrow> bnd (row_of P CONFIG_DB k) (\<lambda>r. bnd (community_rows P ks) (\<lambda>cs.
         ret ((name, if map_option to_upper (field r ''TYPE'') = Some ''RW'' then ''rw'' else ''ro'') # cs))))"

definition community_json :: "string \<times> string \<Rightarrow> json" where
  "community_json = (\<lambda>(name, access). JObj [(''name'', JStr name), (''access'', JStr access)])"

definition get_snmp :: "'s platform \<Rightarrow> ('s, string, json) io" where
  "get_snmp P =
     bnd (snmp_capability P) (\<lambda>cap.
     bnd (current P) (\<lambda>p.
     bnd (row_of P CONFIG_DB ''SNMP|LOCATION'') (\<lambda>loc.
     bnd (row_of P CONFIG_DB ''SNMP|CONTACT'') (\<lambda>con.
     bnd (scan P CONFIG_DB ''SNMP_COMMUNITY|*'') (\<lambda>ks.
     bnd (community_rows P ks) (\<lambda>cs.
     ret (JObj [(''capability'', cap_json cap), (''enabled'', JBool (feature_enabled p ''snmp'')),
       (''location'', jopt JStr (field loc ''Location'')), (''contact'', jopt JStr (field con ''Contact'')),
       (''communities'', JArr (map community_json (sort_by (\<lambda>a b. cmp (fst a) (fst b)) cs)))])))))))"

record community_input =
  co_name :: string
  co_access :: string

record snmp_input =
  sn_enabled :: bool
  sn_location :: "string option"
  sn_contact :: "string option"
  sn_communities :: "community_input list"

definition valid_community :: "string \<Rightarrow> bool" where
  "valid_community n \<longleftrightarrow> n \<noteq> [] \<and> length n \<le> 32 \<and> list_all (\<lambda>c. is_alnum c \<or> c = CHR ''-'' \<or> c = CHR ''_'') n"

definition access_type :: "string \<Rightarrow> string option" where
  "access_type a = (if a = ''ro'' then Some ''RO'' else if a = ''rw'' then Some ''RW'' else None)"

text \<open>The wanted communities by name, in the order of the request; \<open>BTreeMap::insert\<close> refuses a second one.\<close>

fun wanted_communities :: "community_input list \<Rightarrow> (string \<times> string) list \<Rightarrow> string + (string \<times> string) list" where
  "wanted_communities [] acc = Inr acc"
| "wanted_communities (c # cs) acc =
     sbind (check (valid_community (co_name c)) (''invalid community name '' @ dbg (co_name c))) (\<lambda>_.
     sbind (ok_or (access_type (co_access c)) (''invalid access '' @ dbg (co_access c) @ '' (ro or rw)'')) (\<lambda>a.
     sbind (check (map_of acc (co_name c) = None) (''duplicate community '' @ co_name c)) (\<lambda>_.
     wanted_communities cs (acc @ [(co_name c, a)]))))"

definition check_snmp_text :: "string \<Rightarrow> string \<Rightarrow> string + unit" where
  "check_snmp_text what v = check (v \<noteq> [] \<and> length v \<le> 255 \<and> list_all is_printable v)
     (''invalid '' @ what @ '': printable ASCII, 255 chars max'')"

definition put_or_del :: "'s platform \<Rightarrow> string \<Rightarrow> string \<Rightarrow> string option \<Rightarrow> ('s batch, string, unit) io" where
  "put_or_del P key f v = (case v of Some x \<Rightarrow> b_hset P CONFIG_DB key [(f, x)] | None \<Rightarrow> b_del P CONFIG_DB key)"

definition snmp_batch :: "'s platform \<Rightarrow> string list \<Rightarrow> (string \<times> string) list \<Rightarrow> snmp_input \<Rightarrow> ('s batch, string, unit) io" where
  "snmp_batch P cur wanted i =
     bnd (b_hset P CONFIG_DB ''FEATURE|snmp'' [(''state'', if sn_enabled i then ''enabled'' else ''disabled'')]) (\<lambda>_.
     bnd (put_or_del P ''SNMP|LOCATION'' ''Location'' (sn_location i)) (\<lambda>_.
     bnd (put_or_del P ''SNMP|CONTACT'' ''Contact'' (sn_contact i)) (\<lambda>_.
     bnd (for_each (drop_unwanted P ''SNMP_COMMUNITY|'' (map fst wanted)) cur) (\<lambda>_.
     for_each (\<lambda>(name, a). b_hset P CONFIG_DB (''SNMP_COMMUNITY|'' @ name) [(''TYPE'', a)]) (sort_key fst wanted)))))"

definition put_snmp :: "'s platform \<Rightarrow> snmp_input \<Rightarrow> ('s, unit) handler" where
  "put_snmp P i =
     bnd (snmp_capability P) (\<lambda>cap.
     bnd (guard (supported cap) (Conflict NO_SNMP)) (\<lambda>_.
     bnd (bad_request (wanted_communities (sn_communities i) [])) (\<lambda>wanted.
     bnd (bad_request (check_opt (check_snmp_text ''location'') (sn_location i))) (\<lambda>_.
     bnd (bad_request (check_opt (check_snmp_text ''contact'') (sn_contact i))) (\<lambda>_.
     bnd (keys_of P CONFIG_DB ''SNMP_COMMUNITY|*'') (\<lambda>cur.
     map_err Redis (apply_batch P (snmp_batch P cur wanted i))))))))"

section \<open>Images and times\<close>

record installer_list =
  il_current :: "string option"
  il_next :: "string option"
  il_available :: "string list"
  il_in_available :: bool

definition installer_line :: "installer_list \<Rightarrow> string \<Rightarrow> installer_list" where
  "installer_line st raw = (let line = trim raw in
     case strip_prefix ''Current:'' line of
       Some v \<Rightarrow> st\<lparr>il_current := non_empty (Some (trim v))\<rparr>
     | None \<Rightarrow> (case strip_prefix ''Next:'' line of
         Some v \<Rightarrow> st\<lparr>il_next := non_empty (Some (trim v))\<rparr>
       | None \<Rightarrow>
           if line = ''Available:'' then st\<lparr>il_in_available := True\<rparr>
           else if il_in_available st \<and> line \<noteq> [] then st\<lparr>il_available := il_available st @ [line]\<rparr>
           else st))"

definition no_images :: installer_list where
  "no_images = \<lparr>il_current = None, il_next = None, il_available = [], il_in_available = False\<rparr>"

definition parse_installer_list :: "string \<Rightarrow> installer_list" where
  "parse_installer_list txt = foldl installer_line no_images (lines txt)"

text \<open>
  The civil date of a day number. Division and remainder are Euclidean; the shifted day number and the day of the era are
  not negative where the code divides with truncation.
\<close>

definition civil_of_days :: "int \<Rightarrow> int \<times> int \<times> int" where
  "civil_of_days days =
     (let z = days + 719468;
          era = z div 146097;
          doe = z mod 146097;
          yoe = (doe - doe div 1460 + doe div 36524 - doe div 146096) div 365;
          doy = doe - (365 * yoe + yoe div 4 - yoe div 100);
          mp = (5 * doy + 2) div 153;
          d = doy - (153 * mp + 2) div 5 + 1;
          m = (if mp < 10 then mp + 3 else mp - 9);
          y = yoe + era * 400 + (if m \<le> 2 then 1 else 0)
      in (y, m, d))"

definition pad0 :: "nat \<Rightarrow> string \<Rightarrow> string" where
  "pad0 w s = replicate (w - length s) (CHR ''0'') @ s"

definition show_padded :: "nat \<Rightarrow> int \<Rightarrow> string" where
  "show_padded w n = (if n < 0 then CHR ''-'' # pad0 (w - 1) (show_nat (nat (- n))) else pad0 w (show_nat (nat n)))"

definition rfc3339 :: "int \<Rightarrow> string" where
  "rfc3339 epoch =
     (let days = epoch div 86400; secs = epoch mod 86400; (y, m, d) = civil_of_days days in
      show_padded 4 y @ ''-'' @ show_padded 2 m @ ''-'' @ show_padded 2 d @ ''T'' @ show_padded 2 (secs div 3600) @ '':''
      @ show_padded 2 (secs mod 3600 div 60) @ '':'' @ show_padded 2 (secs mod 60) @ ''Z'')"

text \<open>\<open>str::parse\<close> at a signed width.\<close>

definition parse_int :: "nat \<Rightarrow> string \<Rightarrow> int option" where
  "parse_int w s = (case s of
       c # ds \<Rightarrow>
         if c = CHR ''-'' then
           (if ds \<noteq> [] \<and> list_all is_digit ds \<and> digits_val ds \<le> 2 ^ (w - 1) then Some (- int (digits_val ds)) else None)
         else Option.bind (parse_uint w s) (\<lambda>n. if n < 2 ^ (w - 1) then Some (int n) else None)
     | [] \<Rightarrow> None)"

definition get_maintenance :: "(string \<Rightarrow> nat option) \<Rightarrow> 's platform \<Rightarrow> ('s, string, json) io" where
  "get_maintenance f64_as_u64 P =
     bnd (ok_stdout (run_cmd P ''sonic-installer'' [''list''])) (\<lambda>imgs.
     bnd (ok_stdout (run_cmd P ''stat'' [''-c'', ''%Y'', ''/etc/sonic/config_db.json''])) (\<lambda>saved.
     bnd (read_text P ''/proc/uptime'') (\<lambda>up.
     let il = (case imgs of Some t \<Rightarrow> parse_installer_list t | None \<Rightarrow> no_images) in
     ret (JObj [(''capability'', cap_json cap_yes), (''current_image'', jopt JStr (il_current il)),
       (''next_image'', jopt JStr (il_next il)), (''available_images'', jstrs (il_available il)),
       (''last_config_save'', jopt JStr (map_option rfc3339 (Option.bind saved (\<lambda>t. parse_int 64 (trim t))))),
       (''uptime_seconds'', jopt JNum (Option.bind up (\<lambda>t. case words t of w # _ \<Rightarrow> f64_as_u64 w | [] \<Rightarrow> None)))]))))"

section \<open>Maintenance commands\<close>

definition save_config :: "'s platform \<Rightarrow> ('s, unit) handler" where
  "save_config P = run_ok P ''config'' [''save'', ''-y'']"

definition has_blank :: "string \<Rightarrow> bool" where
  "has_blank s \<longleftrightarrow> list_ex (\<lambda>c. byte c = 32 \<or> byte c < 32) s"

definition installer :: "'s platform \<Rightarrow> string \<Rightarrow> string list \<Rightarrow> ('s, unit) handler" where
  "installer P what args =
     bnd (map_err (\<lambda>e. Internal (''sonic-installer: '' @ e)) (run_cmd P ''sonic-installer'' args)) (\<lambda>out.
     guard (co_ok out) (Unprocessable (''sonic-installer '' @ what @ '' failed: '' @ out_text out)))"

definition set_next_image :: "'s platform \<Rightarrow> string \<Rightarrow> ('s, unit) handler" where
  "set_next_image P input = (let image = trim input in
     bnd (guard (image \<noteq> [] \<and> \<not> has_blank image) (BadRequest (''invalid image name '' @ dbg input))) (\<lambda>_.
     installer P ''set-next-boot'' [''set-next-boot'', image]))"

definition install_image :: "'s platform \<Rightarrow> string \<Rightarrow> ('s, unit) handler" where
  "install_image P input = (let url = trim input in
     bnd (guard ((starts_with ''http://'' url \<or> starts_with ''https://'' url) \<and> \<not> has_blank url)
            (BadRequest (''invalid image url '' @ dbg input @ '' (http(s) only)''))) (\<lambda>_.
     installer P ''install'' [''install'', ''-y'', url]))"

definition CONFIG_FILE :: string where
  "CONFIG_FILE = ''/etc/sonic/config_db.json''"

definition backup :: "'s platform \<Rightarrow> ('s, string) handler" where
  "backup P = bnd (read_text P CONFIG_FILE) (\<lambda>t. lift (ok_or t (NotFound (CONFIG_FILE @ '' does not exist''))))"

text \<open>The arrow of the message is three bytes.\<close>

definition check_dump :: "json \<Rightarrow> (write_error + unit)" where
  "check_dump config = (case as_object config of
       None \<Rightarrow> Inl (BadRequest (''config must be a CONFIG_DB object (table '' @ arrow @ '' entries)''))
     | Some tables \<Rightarrow>
         if map_of tables ''DEVICE_METADATA'' = None then
           Inl (Unprocessable ''this does not look like a CONFIG_DB dump (no DEVICE_METADATA table)'')
         else if list_ex (\<lambda>(_, v). as_object v = None) tables then
           Inl (Unprocessable ''this does not look like a CONFIG_DB dump (non-object table)'')
         else Inr ())"

definition restore :: "(json \<Rightarrow> string + string) \<Rightarrow> 's platform \<Rightarrow> json \<Rightarrow> ('s, unit) handler" where
  "restore to_string_pretty P config =
     bnd (lift (check_dump config)) (\<lambda>_.
     bnd (lift (smap_err (\<lambda>e. Internal (''serialize config: '' @ e)) (to_string_pretty config))) (\<lambda>txt.
     bnd (map_err Internal (write_file P CONFIG_FILE txt)) (\<lambda>_.
     run_ok P ''config'' [''reload'', ''-y''])))"

end
