(* ===== verification/Aaa.thy ===== *)
theory Aaa
  imports Feature Ip Router
begin

text \<open>
  AAA, \<^verbatim>\<open>src/src/sonic/aaa.rs\<close>: the login order with its lockout guard, and the TACACS+ and RADIUS servers, whose
  secrets are written but never read back.
\<close>

primrec global_key :: "aaa_proto \<Rightarrow> string" where
  "global_key Tacacs = ''TACPLUS|global''"
| "global_key Radius = ''RADIUS|global''"

primrec server_table :: "aaa_proto \<Rightarrow> string" where
  "server_table Tacacs = ''TACPLUS_SERVER''"
| "server_table Radius = ''RADIUS_SERVER''"

primrec port_field :: "aaa_proto \<Rightarrow> string" where
  "port_field Tacacs = ''tcp_port''"
| "port_field Radius = ''auth_port''"

primrec proto_label :: "aaa_proto \<Rightarrow> string" where
  "proto_label Tacacs = ''TACACS+''"
| "proto_label Radius = ''RADIUS''"

section \<open>The document\<close>

definition has_key :: "row \<Rightarrow> bool" where
  "has_key r \<longleftrightarrow> map_of r ''passkey'' \<noteq> None"

definition server_json :: "aaa_proto \<Rightarrow> string \<Rightarrow> row \<Rightarrow> json" where
  "server_json pr address r =
     JObj [(''address'', JStr address), (''priority'', jopt JNum (parse_num (field r ''priority''))),
       (''port'', jopt JNum (parse_num (field r (port_field pr)))), (''timeout'', jopt JNum (parse_num (field r ''timeout''))),
       (''key_set'', JBool (has_key r))]"

definition server_of :: "'s platform \<Rightarrow> aaa_proto \<Rightarrow> string \<Rightarrow> ('s, 'e, (string \<times> json) option) io" where
  "server_of P pr key = (case key_suffix key (server_table pr @ ''|'') of
       None \<Rightarrow> ret None
     | Some address \<Rightarrow> bnd (row_of P CONFIG_DB key) (\<lambda>r. ret (Some (address, server_json pr address r))))"

definition proto_json :: "row \<Rightarrow> json list \<Rightarrow> json" where
  "proto_json g servers =
     JObj [(''auth_type'', JStr (opt_or (field g ''auth_type'') ''pap'')),
       (''timeout'', jopt JNum (parse_num (field g ''timeout''))), (''global_key_set'', JBool (has_key g)),
       (''servers'', JArr servers)]"

definition proto_doc :: "'s platform \<Rightarrow> aaa_proto \<Rightarrow> ('s, string, json) io" where
  "proto_doc P pr =
     bnd (row_of P CONFIG_DB (global_key pr)) (\<lambda>g.
     bnd (scan P CONFIG_DB (server_table pr @ ''|*'')) (\<lambda>ks.
     bnd (collect (server_of P pr) ks) (\<lambda>ss.
     ret (proto_json g (map snd (sort_by (\<lambda>a b. cmp (fst a) (fst b)) (List.map_filter id ss)))))))"

definition login_order :: "row \<Rightarrow> string list" where
  "login_order auth = (case field auth ''login'' of
       None \<Rightarrow> [''local'']
     | Some v \<Rightarrow> filter (\<lambda>s. s \<noteq> []) (map trim (split_on (CHR '','') v)))"

definition failthrough :: "row \<Rightarrow> bool" where
  "failthrough auth = (case field auth ''failthrough'' of None \<Rightarrow> False | Some v \<Rightarrow> eq_ignore_case v ''true'')"

definition aaa_get :: "'s platform \<Rightarrow> ('s, string, json) io" where
  "aaa_get P =
     bnd (row_of P CONFIG_DB ''AAA|authentication'') (\<lambda>auth.
     bnd (proto_doc P Tacacs) (\<lambda>t.
     bnd (proto_doc P Radius) (\<lambda>r.
     ret (JObj [(''capability'', cap_json cap_yes), (''login_order'', jstrs (login_order auth)),
       (''failthrough'', JBool (failthrough auth)), (''tacacs'', t), (''radius'', r)]))))"

section \<open>The login order\<close>

record auth_input =
  au_login_order :: "string list"
  au_failthrough :: bool

fun check_methods :: "string list \<Rightarrow> string list \<Rightarrow> string + unit" where
  "check_methods seen [] = check (''local'' \<in> set seen)
     (''login_order must include '' @ dbg ''local'' @ '' (lockout guard)'')"
| "check_methods seen (m # ms) =
     (if m \<noteq> ''local'' \<and> m \<noteq> ''tacacs+'' \<and> m \<noteq> ''radius'' then
        Inl (''invalid login method '' @ dbg m @ '' (local, tacacs+, or radius)'')
      else if m \<in> set seen then Inl (''duplicate login method '' @ m)
      else check_methods (seen @ [m]) ms)"

definition put_authentication :: "'s platform \<Rightarrow> auth_input \<Rightarrow> ('s, unit) handler" where
  "put_authentication P i =
     bnd (bad_request (sbind (check (au_login_order i \<noteq> []) ''login_order cannot be empty'')
            (\<lambda>_. check_methods [] (au_login_order i)))) (\<lambda>_.
     cfg_hset P ''AAA|authentication'' [(''login'', join '','' (au_login_order i)),
       (''failthrough'', if au_failthrough i then ''True'' else ''False'')])"

section \<open>Shared checks\<close>

definition check_auth_type :: "string \<Rightarrow> string + unit" where
  "check_auth_type v = check (v \<in> {''pap'', ''chap'', ''mschapv2'', ''login''})
     (''invalid auth_type '' @ dbg v @ '' (pap, chap, mschapv2, or login)'')"

definition check_aaa_timeout :: "nat option \<Rightarrow> string + unit" where
  "check_aaa_timeout v = check_opt (\<lambda>t. check_range ''timeout'' t 1 60) v"

definition check_key :: "string \<Rightarrow> string + unit" where
  "check_key k =
     (if k = [] \<or> length k > 65 then Inl ''invalid key: must be 1-65 characters''
      else check (list_all (\<lambda>c. 33 \<le> byte c \<and> byte c < 127 \<and> c \<noteq> CHR '','') k)
        ''invalid key: printable ASCII without spaces or commas'')"

text \<open>The key of a request: none leaves the stored one, the empty text clears it.\<close>

definition apply_key :: "'s platform \<Rightarrow> string \<Rightarrow> string option \<Rightarrow> ('s, unit) handler" where
  "apply_key P row_key key = (case key of
       None \<Rightarrow> ret ()
     | Some k \<Rightarrow> if k = [] then cfg_hdel P row_key [''passkey'']
         else bnd (bad_request (check_key k)) (\<lambda>_. cfg_hset P row_key [(''passkey'', k)]))"

definition check_given_key :: "string option \<Rightarrow> string + unit" where
  "check_given_key v = check_opt (\<lambda>k. if k = [] then Inr () else check_key k) v"

section \<open>Global settings\<close>

record aaa_global_input =
  ag_auth_type :: string
  ag_timeout :: "nat option"
  ag_key :: "string option"

definition aaa_put_global :: "'s platform \<Rightarrow> aaa_proto \<Rightarrow> aaa_global_input \<Rightarrow> ('s, unit) handler" where
  "aaa_put_global P pr i =
     bnd (bad_request (sbind (check_auth_type (ag_auth_type i)) (\<lambda>_.
            sbind (check_aaa_timeout (ag_timeout i)) (\<lambda>_. check_given_key (ag_key i))))) (\<lambda>_.
     bnd (cfg_hset P (global_key pr) [(''auth_type'', ag_auth_type i)]) (\<lambda>_.
     bnd (write_patch P (global_key pr) (''timeout'', Some (map_option show_nat (ag_timeout i)))) (\<lambda>_.
     apply_key P (global_key pr) (ag_key i))))"

section \<open>Servers\<close>

record server_input =
  se_priority :: "nat option"
  se_port :: "nat option"
  se_timeout :: "nat option"
  se_key :: "string option"

definition check_server :: "server_input \<Rightarrow> string + unit" where
  "check_server i =
     sbind (check_opt (\<lambda>p. check_range ''priority'' p 1 64) (se_priority i)) (\<lambda>_.
     sbind (check_opt (\<lambda>p. check_range ''port'' p 1 65535) (se_port i)) (\<lambda>_.
     sbind (check_aaa_timeout (se_timeout i)) (\<lambda>_. check_given_key (se_key i))))"

definition check_address :: "string \<Rightarrow> string + unit" where
  "check_address a =
     (if parse_ip a \<noteq> None then Inr ()
      else check (a \<noteq> [] \<and> length a \<le> 255 \<and> list_all (\<lambda>c. is_alnum c \<or> c = CHR ''.'' \<or> c = CHR ''-'') a)
        (''invalid server address '' @ dbg a))"

definition write_server_fields :: "'s platform \<Rightarrow> aaa_proto \<Rightarrow> string \<Rightarrow> server_input \<Rightarrow> ('s, unit) handler" where
  "write_server_fields P pr row_key i =
     bnd (for_each (write_patch P row_key)
            [(''priority'', Some (map_option show_nat (se_priority i))),
             (port_field pr, Some (map_option show_nat (se_port i))),
             (''timeout'', Some (map_option show_nat (se_timeout i)))]) (\<lambda>_.
     bnd (cfg_row P row_key) (\<lambda>r.
     bnd (if r = [] then cfg_hset P row_key [(''NULL'', ''NULL'')] else ret ()) (\<lambda>_.
     apply_key P row_key (se_key i))))"

definition server_key :: "aaa_proto \<Rightarrow> string \<Rightarrow> string" where
  "server_key pr address = server_table pr @ ''|'' @ address"

definition create_server :: "'s platform \<Rightarrow> aaa_proto \<Rightarrow> string \<Rightarrow> server_input \<Rightarrow> ('s, unit) handler" where
  "create_server P pr address i =
     bnd (bad_request (check_address address)) (\<lambda>_.
     bnd (bad_request (check_server i)) (\<lambda>_.
     bnd (cfg_exists P (server_key pr address)) (\<lambda>e.
     bnd (guard (\<not> e) (Conflict (proto_label pr @ '' server '' @ address @ '' already exists''))) (\<lambda>_.
     write_server_fields P pr (server_key pr address) i))))"

definition update_server :: "'s platform \<Rightarrow> aaa_proto \<Rightarrow> string \<Rightarrow> server_input \<Rightarrow> ('s, unit) handler" where
  "update_server P pr address i =
     bnd (bad_request (check_server i)) (\<lambda>_.
     bnd (cfg_exists P (server_key pr address)) (\<lambda>e.
     bnd (guard e (NotFound (''no '' @ proto_label pr @ '' server '' @ address))) (\<lambda>_.
     write_server_fields P pr (server_key pr address) i)))"

definition delete_server :: "'s platform \<Rightarrow> aaa_proto \<Rightarrow> string \<Rightarrow> ('s, unit) handler" where
  "delete_server P pr address =
     bnd (cfg_exists P (server_key pr address)) (\<lambda>e.
     bnd (guard e (NotFound (''no '' @ proto_label pr @ '' server '' @ address))) (\<lambda>_.
     cfg_del P (server_key pr address)))"

end
