(* ===== verification/Api.thy ===== *)
theory Api
  imports HostFacts Router SwitchingWrite Stp Lldp Igmp Mirror StormControl Fdb Sflow L3 Bgp
    Ospf Isis DhcpRelay StaticRoutes Policy Bfd Vxlan Maintenance Acl Aaa Mclag Vrrp Qos
begin

text \<open>
  \<open>Api::call\<close> of \<^verbatim>\<open>src/src/sonic/mgmtapi.rs\<close>: the dispatch of every route to its handler and the mapping of
  outcomes to answers. The platform of every handler is the one of the redis client. What is not code of the repository is
  a parameter: the serde decoders of the request bodies, \<open>serde_json\<close>'s reader and pretty printer, the parse of
  an \<open>f64\<close>, the answer to \<open>PING\<close> and the gauges of \<open>stats::collect\<close>. A handler runs on a worker thread
  (\<open>run_blocking\<close>); it is a function and does not panic, but its task may be cancelled before it starts.
\<close>

section \<open>Answers\<close>

datatype api_body = JsonBody json | RawBody string

record call_result =
  cr_status :: nat
  cr_type :: string
  cr_body :: api_body
  cr_error :: string

type_synonym 's served = "'s \<Rightarrow> call_result \<times> 's"

definition JSON :: string where
  "JSON = ''application/json''"

definition answer :: "nat \<Rightarrow> json \<Rightarrow> string \<Rightarrow> call_result" where
  "answer st doc err = \<lparr>cr_status = st, cr_type = JSON, cr_body = JsonBody doc, cr_error = err\<rparr>"

definition error_doc :: "string \<Rightarrow> json" where
  "error_doc msg = JObj [(''error'', JStr msg)]"

definition error_response :: "nat \<Rightarrow> string \<Rightarrow> call_result" where
  "error_response st msg = answer st (error_doc msg) msg"

definition redis_unreachable :: "string \<Rightarrow> call_result" where
  "redis_unreachable e = (let msg = ''SONiC redis unreachable: '' @ e in answer 500 (error_doc msg) msg)"

definition parse_json :: "(string \<Rightarrow> string + 'a) \<Rightarrow> string \<Rightarrow> string + 'a" where
  "parse_json from_slice body = smap_err (\<lambda>e. ''invalid body: '' @ e) (from_slice body)"

section \<open>Running handlers\<close>

definition doc_get :: "('s, string, json) io \<Rightarrow> 's served" where
  "doc_get h = (\<lambda>s. case h s of (Inr doc, s') \<Rightarrow> (answer 200 doc [], s') | (Inl e, s') \<Rightarrow> (redis_unreachable e, s'))"

text \<open>\<open>config save -y\<close>, whose outcome is only logged.\<close>

definition persist_config :: "'s redis \<Rightarrow> 's \<Rightarrow> 's" where
  "persist_config R s = snd (run_cmd (cmds R) ''config'' [''save'', ''-y''] s)"

definition error_of :: "write_error \<Rightarrow> call_result" where
  "error_of e = (case e of
       BadRequest msg \<Rightarrow> error_response 400 msg
     | NotFound msg \<Rightarrow> error_response 404 msg
     | Conflict msg \<Rightarrow> error_response 409 msg
     | Unprocessable msg \<Rightarrow> error_response 422 msg
     | Internal msg \<Rightarrow> error_response 500 msg
     | Redis e \<Rightarrow> redis_unreachable e)"

definition ok_answer :: call_result where
  "ok_answer = answer 200 (JObj [(''ok'', JBool True)]) []"

definition write_outcome_with :: "'s redis \<Rightarrow> bool \<Rightarrow> ('s, unit) handler \<Rightarrow> 's served" where
  "write_outcome_with R persist h = (\<lambda>s. case h s of
       (Inr _, s') \<Rightarrow> (ok_answer, if persist then persist_config R s' else s')
     | (Inl e, s') \<Rightarrow> (error_of e, s'))"

definition with_body :: "'s redis \<Rightarrow> bool \<Rightarrow> (string \<Rightarrow> string + 'a) \<Rightarrow> string \<Rightarrow> ('a \<Rightarrow> ('s, unit) handler) \<Rightarrow> 's served" where
  "with_body R persist from_slice body op = (case parse_json from_slice body of
       Inr v \<Rightarrow> write_outcome_with R persist (op v)
     | Inl msg \<Rightarrow> (\<lambda>s. (error_response 400 msg, s)))"

definition backup_config :: "'s redis \<Rightarrow> 's served" where
  "backup_config R = (\<lambda>s. case backup (cmds R) s of
       (Inr txt, s') \<Rightarrow> (\<lparr>cr_status = 200, cr_type = JSON, cr_body = RawBody txt, cr_error = []\<rparr>, s')
     | (Inl e, s') \<Rightarrow> (error_of e, s'))"

definition reboot :: "'s redis \<Rightarrow> 's served" where
  "reboot R = (\<lambda>s. case spawn (cmds R) ''sh'' [''-c'', ''sleep 3; reboot || /sbin/reboot''] s of
       (Inr _, s') \<Rightarrow> (answer 202 (JObj [(''status'', JStr ''rebooting'')]) [], s')
     | (Inl e, s') \<Rightarrow> (error_response 500 (''failed to start reboot: '' @ e), s'))"

section \<open>Documents of the switching readers\<close>

definition jnums :: "nat list \<Rightarrow> json" where
  "jnums ns = JArr (map JNum ns)"

definition port_json :: "port \<Rightarrow> json" where
  "port_json p = JObj [(''name'', JStr (pt_name p)), (''alias'', jopt JStr (pt_alias p)),
     (''description'', jopt JStr (pt_description p)), (''admin_status'', JStr (pt_admin_status p)),
     (''oper_status'', JStr (pt_oper_status p)), (''speed_mbps'', jopt JNum (pt_speed_mbps p)),
     (''supported_speeds'', jopt jnums (pt_supported_speeds p)), (''fec'', jopt JStr (pt_fec p)),
     (''mtu'', jopt JNum (pt_mtu p)), (''vlan_mode'', jopt JStr (pt_vlan_mode p)),
     (''untagged_vlan'', jopt JNum (pt_untagged_vlan p)), (''tagged_vlans'', jnums (pt_tagged_vlans p)),
     (''rx_err'', jopt JNum (pt_rx_err p)), (''tx_err'', jopt JNum (pt_tx_err p)),
     (''rx_drops'', jopt JNum (pt_rx_drops p)), (''tx_drops'', jopt JNum (pt_tx_drops p))]"

definition pc_member_json :: "pc_member \<Rightarrow> json" where
  "pc_member_json m = JObj [(''name'', JStr (pm_name m)), (''oper_status'', JStr (pm_oper_status m)),
     (''selected'', jopt JBool (pm_selected m))]"

definition port_channel_json :: "port_channel \<Rightarrow> json" where
  "port_channel_json c = JObj [(''name'', JStr (pc_name c)), (''protocol'', JStr (pc_protocol c)),
     (''admin_status'', JStr (pc_admin_status c)), (''oper_status'', JStr (pc_oper_status c)),
     (''mtu'', jopt JNum (pc_mtu c)), (''min_links'', jopt JNum (pc_min_links c)), (''fallback'', JBool (pc_fallback c)),
     (''fast_rate'', JBool (pc_fast_rate c)), (''members'', JArr (map pc_member_json (pc_members c)))]"

definition vlan_member_json :: "vlan_member \<Rightarrow> json" where
  "vlan_member_json m = JObj [(''name'', JStr (vm_name m)), (''tagging'', JStr (vm_tagging m))]"

definition vlan_json :: "vlan \<Rightarrow> json" where
  "vlan_json v = JObj [(''vlan_id'', JNum (vl_vlan_id v)), (''name'', JStr (vl_name v)),
     (''description'', jopt JStr (vl_description v)), (''ip_addresses'', jstrs (vl_ip_addresses v)),
     (''dhcp_helpers'', jstrs (vl_dhcp_helpers v)), (''members'', JArr (map vlan_member_json (vl_members v)))]"

section \<open>What is not code of the repository\<close>

text \<open>The decoder that serde derives for each request body, with its error text.\<close>

record decoders =
  d_port_patch :: "string \<Rightarrow> string + port_patch"
  d_port_channel_create :: "string \<Rightarrow> string + (string \<times> port_channel_input)"
  d_port_channel :: "string \<Rightarrow> string + port_channel_input"
  d_vlan_create :: "string \<Rightarrow> string + (nat \<times> vlan_input)"
  d_vlan :: "string \<Rightarrow> string + vlan_input"
  d_stp_global :: "string \<Rightarrow> string + stp_global_input"
  d_stp_vlan :: "string \<Rightarrow> string + stp_vlan_input"
  d_stp_port :: "string \<Rightarrow> string + stp_port_input"
  d_loop_port :: "string \<Rightarrow> string + loop_port_input"
  d_lldp :: "string \<Rightarrow> string + lldp_input"
  d_igmp :: "string \<Rightarrow> string + igmp_input"
  d_mirror :: "string \<Rightarrow> string + session_input"
  d_storm :: "string \<Rightarrow> string + storm_input"
  d_fdb_settings :: "string \<Rightarrow> string + (nat option)"
  d_fdb_static :: "string \<Rightarrow> string + string"
  d_sflow :: "string \<Rightarrow> string + sflow_input"
  d_sflow_port :: "string \<Rightarrow> string + (bool \<times> nat option)"
  d_dhcp :: "string \<Rightarrow> string + (string list)"
  d_loopback :: "string \<Rightarrow> string + loopback_create"
  d_l3 :: "string \<Rightarrow> string + interface_input"
  d_vrf_create :: "string \<Rightarrow> string + vrf_create"
  d_vrf :: "string \<Rightarrow> string + vrf_input"
  d_mgmt_vrf :: "string \<Rightarrow> string + bool"
  d_bgp_global :: "string \<Rightarrow> string + global_input"
  d_bgp_create :: "string \<Rightarrow> string + neighbor_create"
  d_bgp_neighbor :: "string \<Rightarrow> string + neighbor_input"
  d_ospf_instance :: "string \<Rightarrow> string + instance_input"
  d_ospf_area :: "string \<Rightarrow> string + area_input"
  d_ospf_interface :: "string \<Rightarrow> string + ospf_interface_input"
  d_isis_instance :: "string \<Rightarrow> string + isis_instance_input"
  d_isis_interface :: "string \<Rightarrow> string + isis_interface_input"
  d_route :: "string \<Rightarrow> string + route_input"
  d_route_key :: "string \<Rightarrow> string + route_key"
  d_prefix_list :: "string \<Rightarrow> string + prefix_list_input"
  d_route_map :: "string \<Rightarrow> string + (rm_entry_input list)"
  d_peer :: "string \<Rightarrow> string + peer_input"
  d_peer_key :: "string \<Rightarrow> string + peer_key"
  d_vtep :: "string \<Rightarrow> string + vtep_input"
  d_maps :: "string \<Rightarrow> string + (map_entry list)"
  d_general :: "string \<Rightarrow> string + general_input"
  d_management :: "string \<Rightarrow> string + management_input"
  d_user_create :: "string \<Rightarrow> string + user_create"
  d_user_update :: "string \<Rightarrow> string + user_update"
  d_snmp :: "string \<Rightarrow> string + snmp_input"
  d_image :: "string \<Rightarrow> string + string"
  d_url :: "string \<Rightarrow> string + string"
  d_restore :: "string \<Rightarrow> string + json"
  d_acl_create :: "string \<Rightarrow> string + table_create"
  d_acl :: "string \<Rightarrow> string + table_input"
  d_rule :: "string \<Rightarrow> string + rule_input"
  d_auth :: "string \<Rightarrow> string + auth_input"
  d_aaa_global :: "string \<Rightarrow> string + aaa_global_input"
  d_server_create :: "string \<Rightarrow> string + (string \<times> server_input)"
  d_server :: "string \<Rightarrow> string + server_input"
  d_mclag :: "string \<Rightarrow> string + domain_input"
  d_vrrp :: "string \<Rightarrow> string + vrrp_input"
  d_dscp_map :: "string \<Rightarrow> string + (qos_entry list)"
  d_qos_port :: "string \<Rightarrow> string + qos_port_input"

text \<open>The gauges of a statistics snapshot, as numbers in JSON.\<close>

record gauges =
  ga_cpu_pct :: json
  ga_mem_pct :: json
  ga_disk_pct :: json
  ga_mem_used_bytes :: json
  ga_mem_total_bytes :: json
  ga_disk_used_bytes :: json
  ga_disk_total_bytes :: json
  ga_uptime_secs :: json

record externals =
  x_dec :: decoders
  x_from_str :: "string \<Rightarrow> json option"
  x_to_string_pretty :: "json \<Rightarrow> string + string"
  x_f64_as_u64 :: "string \<Rightarrow> nat option"
  x_computername :: "string option"
  x_ping :: "string + string"
  x_gauges :: gauges
  x_agent_version :: string
  x_device_id :: string
  x_join_error :: "string option"

section \<open>System documents\<close>

definition null_if_empty :: "string \<Rightarrow> json" where
  "null_if_empty v = (if v = [] then JNull else JStr v)"

definition info_doc :: "externals \<Rightarrow> system_facts \<Rightarrow> json" where
  "info_doc x f = JObj [(''device_id'', JStr (x_device_id x)), (''hostname'', JStr (fa_hostname f)),
     (''sonic_version'', null_if_empty (fa_sonic_version f)), (''platform'', null_if_empty (fa_platform f)),
     (''hwsku'', null_if_empty (fa_hwsku f)), (''serial'', null_if_empty (fa_serial f)),
     (''uptime_secs'', ga_uptime_secs (x_gauges x)), (''agent_version'', JStr (x_agent_version x))]"

definition system_info :: "externals \<Rightarrow> 's redis \<Rightarrow> 's served" where
  "system_info x R = doc_get (bnd (system_facts_of (x_computername x) R) (\<lambda>f. ret (info_doc x f)))"

definition health_doc :: "gauges \<Rightarrow> bool \<Rightarrow> json" where
  "health_doc g up = JObj [(''status'', JStr (if up then ''ok'' else ''degraded'')), (''redis'', JBool up),
     (''cpu_pct'', ga_cpu_pct g), (''mem_pct'', ga_mem_pct g), (''disk_pct'', ga_disk_pct g),
     (''mem_used_bytes'', ga_mem_used_bytes g), (''mem_total_bytes'', ga_mem_total_bytes g),
     (''disk_used_bytes'', ga_disk_used_bytes g), (''disk_total_bytes'', ga_disk_total_bytes g),
     (''uptime_secs'', ga_uptime_secs g)]"

definition system_health :: "externals \<Rightarrow> 's redis \<Rightarrow> 's served" where
  "system_health x R = doc_get (bnd (redis_ok (x_ping x) R) (\<lambda>up. ret (health_doc (x_gauges x) up)))"

section \<open>Dispatch\<close>

primrec call_switching :: "externals \<Rightarrow> 's redis \<Rightarrow> string \<Rightarrow> switching_route \<Rightarrow> 's served" where
  "call_switching x R body SwitchingPorts = doc_get (bnd (ports R) (\<lambda>xs. ret (JObj [(''ports'', JArr (map port_json xs))])))"
| "call_switching x R body (PortUpdate name) = with_body R True (d_port_patch (x_dec x)) body (\<lambda>i. update_port R name i)"
| "call_switching x R body SwitchingPortChannels = doc_get (bnd (port_channels R) (\<lambda>xs. ret (JObj [(''port_channels'', JArr (map port_channel_json xs))])))"
| "call_switching x R body PortChannelCreate = with_body R True (d_port_channel_create (x_dec x)) body (\<lambda>i. create_port_channel R (fst i) (snd i))"
| "call_switching x R body (PortChannelUpdate name) = with_body R True (d_port_channel (x_dec x)) body (\<lambda>i. update_port_channel R name i)"
| "call_switching x R body (PortChannelDelete name) = write_outcome_with R True (delete_port_channel R name)"
| "call_switching x R body SwitchingVlans = doc_get (bnd (vlans R) (\<lambda>xs. ret (JObj [(''vlans'', JArr (map vlan_json xs))])))"
| "call_switching x R body VlanCreate = with_body R True (d_vlan_create (x_dec x)) body (\<lambda>i. create_vlan R (fst i) (snd i))"
| "call_switching x R body (VlanUpdate n) = with_body R True (d_vlan (x_dec x)) body (\<lambda>i. update_vlan R n i)"
| "call_switching x R body (VlanDelete n) = write_outcome_with R True (delete_vlan R n)"
| "call_switching x R body StpGet = doc_get (stp_get (cmds R))"
| "call_switching x R body StpGlobalPut = with_body R True (d_stp_global (x_dec x)) body (\<lambda>i. stp_put_global (cmds R) i)"
| "call_switching x R body (StpVlanPut n) = with_body R True (d_stp_vlan (x_dec x)) body (\<lambda>i. stp_put_vlan (cmds R) n i)"
| "call_switching x R body (StpPortPut name) = with_body R True (d_stp_port (x_dec x)) body (\<lambda>i. stp_put_port (cmds R) name i)"
| "call_switching x R body LoopGet = doc_get (get_loop_protection (cmds R))"
| "call_switching x R body (LoopPortPut name) = with_body R True (d_loop_port (x_dec x)) body (\<lambda>i. put_loop_port (cmds R) name i)"
| "call_switching x R body (LoopRecover name) = write_outcome_with R True (recover_port (cmds R) name)"
| "call_switching x R body LldpGet = doc_get (lldp_get (cmds R))"
| "call_switching x R body LldpConfigPut = with_body R True (d_lldp (x_dec x)) body (\<lambda>i. lldp_put_config (cmds R) i)"
| "call_switching x R body IgmpGet = doc_get (igmp_get (cmds R))"
| "call_switching x R body (IgmpVlanPut n) = with_body R True (d_igmp (x_dec x)) body (\<lambda>i. igmp_put_vlan (cmds R) n i)"
| "call_switching x R body MirrorGet = doc_get (mirror_get (cmds R))"
| "call_switching x R body (MirrorSessionPut name) = with_body R True (d_mirror (x_dec x)) body (\<lambda>i. put_session (cmds R) name i)"
| "call_switching x R body (MirrorSessionDelete name) = write_outcome_with R True (delete_session (cmds R) name)"
| "call_switching x R body StormControlGet = doc_get (storm_get (cmds R))"
| "call_switching x R body (StormControlPortPut name) = with_body R True (d_storm (x_dec x)) body (\<lambda>i. storm_put_port (cmds R) name i)"
| "call_switching x R body FdbGet = doc_get (fdb_get (cmds R))"
| "call_switching x R body FdbSettingsPut = with_body R True (d_fdb_settings (x_dec x)) body (\<lambda>i. fdb_put_settings (cmds R) i)"
| "call_switching x R body (FdbStaticPut n mac) = with_body R True (d_fdb_static (x_dec x)) body (\<lambda>i. put_static (cmds R) n mac i)"
| "call_switching x R body (FdbStaticDelete n mac) = write_outcome_with R True (delete_static (cmds R) n mac)"
| "call_switching x R body FdbTableGet = doc_get (fdb_get_table (x_from_str x) (cmds R))"
| "call_switching x R body SflowGet = doc_get (sflow_get (cmds R))"
| "call_switching x R body SflowPut = with_body R True (d_sflow (x_dec x)) body (\<lambda>i. sflow_put_global (cmds R) i)"
| "call_switching x R body (SflowPortPut name) = with_body R True (d_sflow_port (x_dec x)) body (\<lambda>i. sflow_put_port (cmds R) name (fst i) (snd i))"

primrec call_routing :: "externals \<Rightarrow> 's redis \<Rightarrow> string \<Rightarrow> routing_route \<Rightarrow> 's served" where
  "call_routing x R body DhcpRelayGet = doc_get (dhcp_get (cmds R))"
| "call_routing x R body (DhcpRelayVlanPut n) = with_body R True (d_dhcp (x_dec x)) body (\<lambda>i. dhcp_put_vlan (cmds R) n i)"
| "call_routing x R body L3Get = doc_get (get_interfaces (cmds R))"
| "call_routing x R body L3Create = with_body R True (d_loopback (x_dec x)) body (\<lambda>i. create_loopback (cmds R) i)"
| "call_routing x R body (L3Put name) = with_body R True (d_l3 (x_dec x)) body (\<lambda>i. put_interface (cmds R) name i)"
| "call_routing x R body (L3Delete name) = write_outcome_with R True (delete_interface (cmds R) name)"
| "call_routing x R body VrfsGet = doc_get (get_vrfs (cmds R))"
| "call_routing x R body VrfCreate = with_body R True (d_vrf_create (x_dec x)) body (\<lambda>i. create_vrf (cmds R) i)"
| "call_routing x R body (VrfPut name) = with_body R True (d_vrf (x_dec x)) body (\<lambda>i. update_vrf (cmds R) name i)"
| "call_routing x R body (VrfDelete name) = write_outcome_with R True (delete_vrf (cmds R) name)"
| "call_routing x R body MgmtVrfPut = with_body R False (d_mgmt_vrf (x_dec x)) body (\<lambda>i. put_mgmt_vrf (cmds R) i)"
| "call_routing x R body BgpGet = doc_get (bgp_get (x_from_str x) (cmds R))"
| "call_routing x R body (BgpGlobalPut vrf) = with_body R True (d_bgp_global (x_dec x)) body (\<lambda>i. put_global (cmds R) vrf i)"
| "call_routing x R body BgpNeighborCreate = with_body R True (d_bgp_create (x_dec x)) body (\<lambda>i. create_neighbor (cmds R) i)"
| "call_routing x R body (BgpNeighborPut vrf peer) = with_body R True (d_bgp_neighbor (x_dec x)) body (\<lambda>i. put_neighbor (cmds R) vrf peer i)"
| "call_routing x R body (BgpNeighborDelete vrf peer) = write_outcome_with R True (delete_neighbor (cmds R) vrf peer)"
| "call_routing x R body OspfGet = doc_get (ospf_get (x_from_str x) (cmds R))"
| "call_routing x R body (OspfInstancePut vrf) = with_body R True (d_ospf_instance (x_dec x)) body (\<lambda>i. ospf_put_instance (cmds R) vrf i)"
| "call_routing x R body (OspfAreaPut vrf area) = with_body R True (d_ospf_area (x_dec x)) body (\<lambda>i. ospf_put_area (cmds R) vrf area i)"
| "call_routing x R body (OspfAreaDelete vrf area) = write_outcome_with R True (ospf_delete_area (cmds R) vrf area)"
| "call_routing x R body (OspfInterfacePut name) = with_body R True (d_ospf_interface (x_dec x)) body (\<lambda>i. ospf_put_interface (cmds R) name i)"
| "call_routing x R body IsisGet = doc_get (isis_get (x_from_str x) (cmds R))"
| "call_routing x R body IsisInstancePut = with_body R False (d_isis_instance (x_dec x)) body (\<lambda>i. isis_put_instance (cmds R) i)"
| "call_routing x R body (IsisInterfacePut name) = with_body R False (d_isis_interface (x_dec x)) body (\<lambda>i. isis_put_interface (cmds R) name i)"
| "call_routing x R body StaticRoutesGet = doc_get (sr_get (cmds R))"
| "call_routing x R body StaticRoutePut = with_body R True (d_route (x_dec x)) body (\<lambda>i. sr_put (cmds R) i)"
| "call_routing x R body StaticRouteDelete = with_body R True (d_route_key (x_dec x)) body (\<lambda>i. sr_delete (cmds R) i)"
| "call_routing x R body PolicyGet = doc_get (policy_get (cmds R))"
| "call_routing x R body (PolicyPrefixListPut name) = with_body R False (d_prefix_list (x_dec x)) body (\<lambda>i. put_prefix_list (cmds R) name i)"
| "call_routing x R body (PolicyPrefixListDelete name) = write_outcome_with R False (delete_prefix_list (cmds R) name)"
| "call_routing x R body (PolicyRouteMapPut name) = with_body R False (d_route_map (x_dec x)) body (\<lambda>i. put_route_map (cmds R) name i)"
| "call_routing x R body (PolicyRouteMapDelete name) = write_outcome_with R False (delete_route_map (cmds R) name)"
| "call_routing x R body BfdGet = doc_get (bfd_get (cmds R))"
| "call_routing x R body BfdPeerPut = with_body R False (d_peer (x_dec x)) body (\<lambda>i. put_peer (cmds R) i)"
| "call_routing x R body BfdPeerDelete = with_body R False (d_peer_key (x_dec x)) body (\<lambda>i. delete_peer (cmds R) i)"
| "call_routing x R body BfdSessionsGet = doc_get (bfd_get_sessions (x_from_str x) (cmds R))"
| "call_routing x R body VxlanGet = doc_get (vxlan_get (cmds R))"
| "call_routing x R body VxlanVtepPut = with_body R True (d_vtep (x_dec x)) body (\<lambda>i. put_vtep (cmds R) i)"
| "call_routing x R body VxlanVtepDelete = write_outcome_with R True (delete_vtep (cmds R))"
| "call_routing x R body VxlanMapsPut = with_body R True (d_maps (x_dec x)) body (\<lambda>i. put_maps (cmds R) i)"
| "call_routing x R body VxlanStatusGet = doc_get (vxlan_get_status (cmds R))"

primrec call_system :: "externals \<Rightarrow> 's redis \<Rightarrow> string \<Rightarrow> system_route \<Rightarrow> 's served" where
  "call_system x R body SystemInfo = system_info x R"
| "call_system x R body SystemHealth = system_health x R"
| "call_system x R body SystemReboot = reboot R"
| "call_system x R body SystemGeneralGet = doc_get (get_general (cmds R))"
| "call_system x R body SystemGeneralPut = with_body R True (d_general (x_dec x)) body (\<lambda>i. put_general (cmds R) i)"
| "call_system x R body SystemManagementGet = doc_get (get_management (cmds R))"
| "call_system x R body SystemManagementPut = with_body R True (d_management (x_dec x)) body (\<lambda>i. put_management (cmds R) i)"
| "call_system x R body UsersGet = doc_get (get_users (cmds R))"
| "call_system x R body UserCreate = with_body R False (d_user_create (x_dec x)) body (\<lambda>i. create_user (cmds R) i)"
| "call_system x R body (UserPut name) = with_body R False (d_user_update (x_dec x)) body (\<lambda>i. update_user (cmds R) name i)"
| "call_system x R body (UserDelete name) = write_outcome_with R False (delete_user (cmds R) name)"
| "call_system x R body SnmpGet = doc_get (get_snmp (cmds R))"
| "call_system x R body SnmpPut = with_body R True (d_snmp (x_dec x)) body (\<lambda>i. put_snmp (cmds R) i)"
| "call_system x R body MaintenanceGet = doc_get (get_maintenance (x_f64_as_u64 x) (cmds R))"
| "call_system x R body MaintenanceSaveConfig = write_outcome_with R False (save_config (cmds R))"
| "call_system x R body MaintenanceSetNextImage = with_body R False (d_image (x_dec x)) body (\<lambda>i. set_next_image (cmds R) i)"
| "call_system x R body MaintenanceInstallImage = with_body R False (d_url (x_dec x)) body (\<lambda>i. install_image (cmds R) i)"
| "call_system x R body MaintenanceBackup = backup_config R"
| "call_system x R body MaintenanceRestore = with_body R False (d_restore (x_dec x)) body (\<lambda>i. restore (x_to_string_pretty x) (cmds R) i)"

primrec call_security :: "externals \<Rightarrow> 's redis \<Rightarrow> string \<Rightarrow> security_route \<Rightarrow> 's served" where
  "call_security x R body AclsGet = doc_get (acl_get (cmds R))"
| "call_security x R body AclCreate = with_body R True (d_acl_create (x_dec x)) body (\<lambda>i. create_table (cmds R) i)"
| "call_security x R body (AclPut name) = with_body R True (d_acl (x_dec x)) body (\<lambda>i. update_table (cmds R) name i)"
| "call_security x R body (AclDelete name) = write_outcome_with R True (delete_table (cmds R) name)"
| "call_security x R body (AclRulePut name n) = with_body R True (d_rule (x_dec x)) body (\<lambda>i. put_rule (cmds R) name n i)"
| "call_security x R body (AclRuleDelete name n) = write_outcome_with R True (delete_rule (cmds R) name n)"
| "call_security x R body AaaGet = doc_get (aaa_get (cmds R))"
| "call_security x R body AaaAuthPut = with_body R True (d_auth (x_dec x)) body (\<lambda>i. put_authentication (cmds R) i)"
| "call_security x R body (AaaGlobalPut pr) = with_body R True (d_aaa_global (x_dec x)) body (\<lambda>i. aaa_put_global (cmds R) pr i)"
| "call_security x R body (AaaServerCreate pr) = with_body R True (d_server_create (x_dec x)) body (\<lambda>i. create_server (cmds R) pr (fst i) (snd i))"
| "call_security x R body (AaaServerPut pr address) = with_body R True (d_server (x_dec x)) body (\<lambda>i. update_server (cmds R) pr address i)"
| "call_security x R body (AaaServerDelete pr address) = write_outcome_with R True (delete_server (cmds R) pr address)"

primrec call_ha :: "externals \<Rightarrow> 's redis \<Rightarrow> string \<Rightarrow> ha_route \<Rightarrow> 's served" where
  "call_ha x R body MclagGet = doc_get (mclag_get (cmds R))"
| "call_ha x R body MclagPut = with_body R True (d_mclag (x_dec x)) body (\<lambda>i. mclag_put (cmds R) i)"
| "call_ha x R body MclagDelete = write_outcome_with R True (mclag_delete (cmds R))"
| "call_ha x R body VrrpGet = doc_get (vrrp_get (x_from_str x) (cmds R))"
| "call_ha x R body (VrrpPut ifname n) = with_body R True (d_vrrp (x_dec x)) body (\<lambda>i. vrrp_put (cmds R) ifname n i)"
| "call_ha x R body (VrrpDelete ifname n) = write_outcome_with R True (vrrp_delete (cmds R) ifname n)"

primrec call_qos :: "externals \<Rightarrow> 's redis \<Rightarrow> string \<Rightarrow> qos_route \<Rightarrow> 's served" where
  "call_qos x R body QosGet = doc_get (qos_get (cmds R))"
| "call_qos x R body (QosDscpMapPut name) = with_body R True (d_dscp_map (x_dec x)) body (\<lambda>i. put_dscp_map (cmds R) name i)"
| "call_qos x R body (QosDscpMapDelete name) = write_outcome_with R True (delete_dscp_map (cmds R) name)"
| "call_qos x R body (QosPortPut name) = with_body R True (d_qos_port (x_dec x)) body (\<lambda>i. put_qos_port (cmds R) name i)"

text \<open>A task that was cancelled before it ran has done nothing; its answer is the one that is not JSON.\<close>

definition run_blocking :: "externals \<Rightarrow> 's served \<Rightarrow> 's served" where
  "run_blocking x f = (\<lambda>s. case x_join_error x of
       None \<Rightarrow> f s
     | Some e \<Rightarrow> (\<lparr>cr_status = 0, cr_type = [], cr_body = RawBody [], cr_error = ''local handler panicked or was cancelled: '' @ e\<rparr>, s))"

definition call :: "externals \<Rightarrow> 's redis \<Rightarrow> string \<Rightarrow> string \<Rightarrow> string \<Rightarrow> 's served" where
  "call x R meth path body = (case route_of meth path of
       Switching r \<Rightarrow> run_blocking x (call_switching x R body r)
     | Routing r \<Rightarrow> run_blocking x (call_routing x R body r)
     | System SystemReboot \<Rightarrow> reboot R
     | System r \<Rightarrow> run_blocking x (call_system x R body r)
     | Security r \<Rightarrow> run_blocking x (call_security x R body r)
     | Ha r \<Rightarrow> run_blocking x (call_ha x R body r)
     | Qos r \<Rightarrow> run_blocking x (call_qos x R body r)
     | RouteNotFound \<Rightarrow> (\<lambda>s. (answer 404 (error_doc ''not found'') (''no such endpoint: '' @ meth @ '' '' @ path), s))
     | MethodNotAllowed allowed \<Rightarrow> (\<lambda>s. (answer 405
         (JObj [(''error'', JStr ''method not allowed''), (''allowed'', JStr allowed)])
         (''method '' @ meth @ '' not allowed on '' @ path @ '' (use '' @ allowed @ '')''), s)))"

end
