(* ===== verification/Readers.thy ===== *)
theory Readers
  imports Api
begin

text \<open>
  The readers of the pages, and the checks that handlers make before they write, leave every database alone. The locale
  \<open>host_store\<close> is the host under the API: a redis client, and commands that only report. Each fact is proved
  by rewriting with the facts about the parts, collected in \<open>pure_io\<close>.
\<close>

section \<open>The host\<close>

text \<open>Commands that report on the host or work on its disk images, and do not touch redis.\<close>

definition is_report :: "string \<Rightarrow> string list \<Rightarrow> bool" where
  "is_report prog args \<longleftrightarrow> prog \<in> {''sonic-installer'', ''stat'', ''mclagdctl'', ''decode-syseeprom''}
     \<or> prog = ''timedatectl'' \<and> args \<noteq> [] \<and> hd args = ''list-timezones''"

locale host_store = redis_client R view ok + query_store "cmds R" view ok up
  for R :: "'s redis" and view :: "'s \<Rightarrow> dbs" and ok :: "'s \<Rightarrow> bool" and up :: "'s \<Rightarrow> bool" +
  assumes report_view: "ok s \<Longrightarrow> is_report prog args \<Longrightarrow> run_cmd (cmds R) prog args s = (r, s') \<Longrightarrow> ok s' \<and> view s' = view s"
begin

abbreviation P :: "'s platform" where "P \<equiv> cmds R"

lemma reads_report [pure_io]: "is_report prog args \<Longrightarrow> reads (run_cmd P prog args)"
  by (rule readsI) (rule report_view)

lemma reads_shows [pure_io]: "reads (run_cmd P ''vtysh'' [''-c'', ''show running-config''])"
  "reads (run_cmd P ''vtysh'' [''-c'', ''show bfd peers json''])"
  "reads (run_cmd P ''vtysh'' [''-c'', ''show vrrp json''])"
  "reads (run_cmd P ''vtysh'' [''-c'', ''show isis neighbor json''])"
  "reads (run_cmd P ''vtysh'' [''-c'', ''show ip ospf vrf all neighbor json''])"
  "reads (run_cmd P ''vtysh'' [''-c'', ''show bgp vrf all summary json''])"
  by (auto simp: is_query_def intro!: reads_query)

lemma reads_reports [pure_io]: "reads (run_cmd P ''timedatectl'' [''list-timezones'', ''--no-pager''])"
  "reads (run_cmd P ''sonic-installer'' args)" "reads (run_cmd P ''stat'' args)" "reads (run_cmd P ''mclagdctl'' args)"
  "reads (run_cmd P ''decode-syseeprom'' args)"
  by (auto simp: is_report_def intro!: reads_report)

lemma reads_read_text [pure_io]: "reads (read_text P path)"
  by (simp add: read_text_def pure_io)

lemma reads_ok_stdout [pure_io]: "reads m \<Longrightarrow> reads (ok_stdout m)"
  unfolding ok_stdout_def by (intro pure_io)

lemma reads_case_list [pure_io]: "reads m \<Longrightarrow> (\<And>x xs. reads (f x xs)) \<Longrightarrow> reads (case v of [] \<Rightarrow> m | x # xs \<Rightarrow> f x xs)"
  by (cases v) simp_all

lemma reads_case_kind [pure_io]:
  "reads a \<Longrightarrow> reads b \<Longrightarrow> reads c \<Longrightarrow> reads d \<Longrightarrow>
   reads (case k of Port \<Rightarrow> a | PortChannel \<Rightarrow> b | Vlan \<Rightarrow> c | Loopback \<Rightarrow> d)"
  by (cases k) simp_all

lemma reads_l2_interfaces [pure_io]: "reads (l2_interfaces P)"
  by (simp only: l2_interfaces_def Let_def pure_io simp_thms)

lemma reads_digests_from [pure_io]: "reads (digests_from P a1 a2)"
  by (induction a1 arbitrary: a2) (simp_all only: digests_from.simps Let_def pure_io simp_thms)

lemma reads_stp [pure_io]:
  "reads (port_oper_digests P)" "reads (stp_get P)" "reads (max_stp_instances P)" "reads (stp_require P)"
  by (simp_all only: port_oper_digests_def stp_get_def max_stp_instances_def stp_require_def Let_def pure_io simp_thms)

lemma reads_count_enabled [pure_io]: "reads (count_enabled P a1 a2 a3)"
  by (induction a2 arbitrary: a1 a3) (simp_all only: count_enabled.simps Let_def pure_io simp_thms)

lemma reads_stp_2 [pure_io]:
  "reads (stp_global_on P)" "reads (check_instance_limit P vb1)" "reads (interface_exists P vc1)"
  "reads (require_interface P vd1)" "reads (get_loop_protection P)"
  by (simp_all only: stp_global_on_def check_instance_limit_def interface_exists_def require_interface_def get_loop_protection_def
    Let_def pure_io simp_thms)

lemma reads_lldp [pure_io]:
  "reads (neighbor_of P va1)" "reads (lldp_get P)"
  by (simp_all only: neighbor_of_def lldp_get_def Let_def pure_io simp_thms)

lemma reads_igmp [pure_io]:
  "reads (igmp_group_of P va1)" "reads (igmp_get P)"
  by (simp_all only: igmp_group_of_def igmp_get_def Let_def pure_io simp_thms)

lemma reads_mirror [pure_io]:
  "reads (session_of_key P va1)" "reads (mirror_get P)" "reads (check_source_exists P vc1)" "reads (check_dst P vd1)"
  "reads (check_unused P ve1 ve2)"
  by (simp_all only: session_of_key_def mirror_get_def check_source_exists_def check_dst_def check_unused_def Let_def pure_io
    simp_thms)

lemma reads_stormcontrol [pure_io]:
  "reads (kbps_of P va1 va2)" "reads (storm_port_json P vb1)" "reads (storm_get P)"
  by (simp_all only: kbps_of_def storm_port_json_def storm_get_def Let_def pure_io simp_thms)

lemma reads_fdb [pure_io]:
  "reads (static_of_key P va1)" "reads (fdb_get P)" "reads (fdb_check_writable P)"
  "reads (matching_static_keys P vd1 vd2)" "reads (vlan_of_bvid P ve1 ve2)" "reads (port_of_bridge P vf1 vf2 vf3)"
  "reads (learned_entry vg0 P vg2 vg3 vg4)"
  by (simp_all only: static_of_key_def fdb_get_def fdb_check_writable_def matching_static_keys_def vlan_of_bvid_def port_of_bridge_def
    learned_entry_def Let_def pure_io simp_thms)

lemma reads_learned_entries [pure_io]: "reads (learned_entries a0 P a2 a3 a4)"
  by (induction a3 arbitrary: a0 a2 a4) (simp_all only: learned_entries.simps Let_def pure_io simp_thms)

lemma reads_fdb_get_table [pure_io]: "reads (fdb_get_table a0 P)"
  by (simp only: fdb_get_table_def Let_def pure_io simp_thms)

lemma reads_mclag [pure_io]:
  "reads (lag_oper_status P va1)" "reads (member_state_json P vb1 vb2)" "reads (mclag_live_state P vc1 vc2 vc3)"
  "reads (mclag_get P)" "reads (check_port_channel P ve1 ve2)"
  by (simp_all only: lag_oper_status_def member_state_json_def mclag_live_state_def mclag_get_def check_port_channel_def Let_def
    pure_io simp_thms)

lemma reads_sflow [pure_io]:
  "reads (collector_of P va1)" "reads (sflow_port_json P vb1 vb2)" "reads (sflow_get P)"
  "reads (sflow_check_writable P)"
  by (simp_all only: collector_of_def sflow_port_json_def sflow_get_def sflow_check_writable_def Let_def pure_io simp_thms)

lemma reads_dhcprelay [pure_io]:
  "reads (relay_vlan_of P va1)" "reads (dhcp_get P)"
  by (simp_all only: relay_vlan_of_def dhcp_get_def Let_def pure_io simp_thms)

lemma reads_aaa [pure_io]:
  "reads (server_of P va1 va2)" "reads (proto_doc P vb1)" "reads (aaa_get P)"
  by (simp_all only: server_of_def proto_doc_def aaa_get_def Let_def pure_io simp_thms)

lemma reads_l3_keys [pure_io]: "reads (l3_keys P a1 a2 a3)"
  by (induction a2 arbitrary: a1 a3) (simp_all only: l3_keys.simps Let_def pure_io simp_thms)

lemma reads_l3_tables [pure_io]: "reads (l3_tables P a1 a2)"
  by (induction a1 arbitrary: a2) (simp_all only: l3_tables.simps Let_def pure_io simp_thms)

lemma reads_l3 [pure_io]:
  "reads (l3_rows P)" "reads (named_keys P vb1)" "reads (cfg_row P vc1)" "reads (oper_state P vd1)"
  "reads (interface_doc P ve1 ve2)" "reads (get_interfaces P)" "reads (base_exists P vg1)"
  "reads (check_input P vh1)" "reads (vrf_entry P vi1 vi2)" "reads (mgmt_vrf_enabled P)" "reads (get_vrfs P)"
  by (simp_all only: l3_rows_def named_keys_def cfg_row_def oper_state_def interface_doc_def get_interfaces_def base_exists_def
    check_input_def vrf_entry_def mgmt_vrf_enabled_def get_vrfs_def Let_def pure_io simp_thms)

lemma reads_acl [pure_io]:
  "reads (rule_entry P va1)" "reads (rule_desc P vb1 vb2 vb3)"
  by (simp_all only: rule_entry_def rule_desc_def Let_def pure_io simp_thms)

lemma reads_acl_tables [pure_io]: "reads (acl_tables P a1 a2)"
  by (induction a2 arbitrary: a1) (simp_all only: acl_tables.simps Let_def pure_io simp_thms)

lemma reads_acl_get [pure_io]: "reads (acl_get P)"
  by (simp only: acl_get_def Let_def pure_io simp_thms)

lemma reads_check_ports [pure_io]: "reads (check_ports P a1 a2)"
  by (induction a2 arbitrary: a1) (simp_all only: check_ports.simps Let_def pure_io simp_thms)

lemma reads_acl_2 [pure_io]:
  "reads (check_table_input P va1)" "reads (managed_table P vb1)"
  by (simp_all only: check_table_input_def managed_table_def Let_def pure_io simp_thms)

lemma reads_staticroutes [pure_io]:
  "reads (sr_capability P)" "reads (require_supported P)" "reads (route_entry P vc1)" "reads (sr_get P)"
  "reads (check_vrf P ve1)" "reads (check_route P vf1)"
  by (simp_all only: sr_capability_def require_supported_def route_entry_def sr_get_def check_vrf_def check_route_def Let_def pure_io
    simp_thms)

lemma reads_area_map [pure_io]: "reads (area_map P a1 a2 a3)"
  by (induction a1 arbitrary: a2 a3) (simp_all only: area_map.simps Let_def pure_io simp_thms)

lemma reads_ospf_instances [pure_io]: "reads (ospf_instances P a1 a2)"
  by (induction a1 arbitrary: a2) (simp_all only: ospf_instances.simps Let_def pure_io simp_thms)

lemma reads_ospf_rows [pure_io]: "reads (ospf_rows P a1 a2)"
  by (induction a1 arbitrary: a2) (simp_all only: ospf_rows.simps Let_def pure_io simp_thms)

lemma reads_ospf [pure_io]:
  "reads (ospf_get va0 P)" "reads (ospf_require P)" "reads (ospf_check_vrf P vc1)"
  "reads (ospf_interface_exists P vd1)"
  by (simp_all only: ospf_get_def ospf_require_def ospf_check_vrf_def ospf_interface_exists_def Let_def pure_io simp_thms)

lemma reads_policy [pure_io]:
  "reads (running_config P)" "reads (policy_get P)" "reads (policy_require P)" "reads (policy_running_of P)"
  by (simp_all only: running_config_def policy_get_def policy_require_def policy_running_of_def Let_def pure_io simp_thms)

lemma reads_isis [pure_io]:
  "reads (isis_running_config P)" "reads (isis_get vb0 P)" "reads (isis_require P)"
  by (simp_all only: isis_running_config_def isis_get_def isis_require_def Let_def pure_io simp_thms)

lemma reads_bfd [pure_io]:
  "reads (bfd_require P)" "reads (configured_peers P)" "reads (bfd_get P)" "reads (bfd_get_sessions vd0 P)"
  by (simp_all only: bfd_require_def configured_peers_def bfd_get_def bfd_get_sessions_def Let_def pure_io simp_thms)

lemma reads_bgp [pure_io]:
  "reads (bgp_sessions va0 P)" "reads (state_db_session P vb1)"
  by (simp_all only: bgp_sessions_def state_db_session_def Let_def pure_io simp_thms)

lemma reads_read_globals [pure_io]: "reads (read_globals P a1)"
  by (induction a1) (simp_all only: read_globals.simps Let_def pure_io simp_thms)

lemma reads_read_afs [pure_io]: "reads (read_afs P a1 a2)"
  by (induction a1 arbitrary: a2) (simp_all only: read_afs.simps Let_def pure_io simp_thms)

lemma reads_read_neighbors [pure_io]: "reads (read_neighbors P a1 a2)"
  by (induction a1 arbitrary: a2) (simp_all only: read_neighbors.simps Let_def pure_io simp_thms)

lemma reads_read_frrcfgd [pure_io]: "reads (read_frrcfgd P)"
  by (simp only: read_frrcfgd_def Let_def pure_io simp_thms)

lemma reads_read_legacy_neighbors [pure_io]: "reads (read_legacy_neighbors P a1)"
  by (induction a1) (simp_all only: read_legacy_neighbors.simps Let_def pure_io simp_thms)

lemma reads_read_legacy [pure_io]: "reads (read_legacy P a1)"
  by (simp only: read_legacy_def Let_def pure_io simp_thms)

lemma reads_attach_sessions [pure_io]: "reads (attach_sessions P a1 a2)"
  by (induction a2 arbitrary: a1) (simp_all only: attach_sessions.simps Let_def pure_io simp_thms)

lemma reads_bgp_2 [pure_io]:
  "reads (bgp_get va0 P)" "reads (mode_for_writes P)" "reads (check_expressible vc0)"
  by (simp_all only: bgp_get_def mode_for_writes_def check_expressible_def Let_def pure_io simp_thms)

lemma reads_or_file [pure_io]: "reads (or_file P a1 a2)"
  by (simp only: or_file_def Let_def pure_io simp_thms)

lemma reads_syslog_rows [pure_io]: "reads (syslog_rows P a1)"
  by (induction a1) (simp_all only: syslog_rows.simps Let_def pure_io simp_thms)

lemma reads_sysconf [pure_io]:
  "reads (get_general P)" "reads (mgmt_rows P)" "reads (trimmed_file P vc1)" "reads (get_management P)"
  by (simp_all only: get_general_def mgmt_rows_def trimmed_file_def get_management_def Let_def pure_io simp_thms)

lemma reads_users [pure_io]:
  "reads (read_users P)" "reads (get_users P)" "reads (users_or_fail P)" "reads (admin_groups P)"
  by (simp_all only: read_users_def get_users_def users_or_fail_def admin_groups_def Let_def pure_io simp_thms)

lemma reads_snmp_capability [pure_io]: "reads (snmp_capability P)"
  by (simp only: snmp_capability_def Let_def pure_io simp_thms)

lemma reads_community_rows [pure_io]: "reads (community_rows P a1)"
  by (induction a1) (simp_all only: community_rows.simps Let_def pure_io simp_thms)

lemma reads_maintenance [pure_io]:
  "reads (get_snmp P)" "reads (get_maintenance vb0 P)" "reads (backup P)"
  by (simp_all only: get_snmp_def get_maintenance_def backup_def Let_def pure_io simp_thms)

lemma reads_vrrp [pure_io]:
  "reads (state_role P va1)" "reads (live_states vb0 P)" "reads (group_of_key P vc1 vc2)" "reads (vrrp_get vd0 P)"
  "reads (table_addresses P ve1)" "reads (own_addresses P)"
  by (simp_all only: state_role_def live_states_def group_of_key_def vrrp_get_def table_addresses_def own_addresses_def Let_def
    pure_io simp_thms)

lemma reads_vtep_from [pure_io]: "reads (vtep_from P a1)"
  by (induction a1) (simp_all only: vtep_from.simps Let_def pure_io simp_thms)

lemma reads_vxlan [pure_io]:
  "reads (vtep_row P)" "reads (map_of_key P vb1)" "reads (config_maps P)" "reads (vxlan_get P)"
  "reads (check_map_vlan P ve1)"
  by (simp_all only: vtep_row_def map_of_key_def config_maps_def vxlan_get_def check_map_vlan_def Let_def pure_io simp_thms)

lemma reads_tunnels [pure_io]: "reads (tunnels P a1 a2 a3)"
  by (induction a2 arbitrary: a1 a3) (simp_all only: tunnels.simps Let_def pure_io simp_thms)

lemma reads_remote_vnis [pure_io]: "reads (remote_vnis P a1 a2 a3)"
  by (induction a2 arbitrary: a1 a3) (simp_all only: remote_vnis.simps Let_def pure_io simp_thms)

lemma reads_vxlan_get_status [pure_io]: "reads (vxlan_get_status P)"
  by (simp only: vxlan_get_status_def Let_def pure_io simp_thms)

lemma reads_qos [pure_io]:
  "reads (binding_of P va1)" "reads (bindings P)" "reads (qos_map_of P vc1 vc2)" "reads (qos_port_of P vd1 vd2)"
  "reads (qos_get P)"
  by (simp_all only: binding_of_def bindings_def qos_map_of_def qos_port_of_def qos_get_def Let_def pure_io simp_thms)

lemma reads_switchingread [pure_io]:
  "reads (port_counter R va1)" "reads (port_counters R)"
  by (simp_all only: port_counter_def port_counters_def Let_def pure_io simp_thms)

lemma reads_vlan_row_map [pure_io]: "reads (vlan_row_map R a1 a2)"
  by (induction a1 arbitrary: a2) (simp_all only: vlan_row_map.simps Let_def pure_io simp_thms)

lemma reads_switchingread_2 [pure_io]:
  "reads (port_of_key R va1 va2 va3 va4 va5)" "reads (ports R)" "reads (member_oper R vc1 vc2 vc3)"
  "reads (pc_member_of R vd1 vd2 vd3 vd4 vd5)" "reads (port_channel_of_key R ve1 ve2 ve3 ve4)"
  by (simp_all only: port_of_key_def ports_def member_oper_def pc_member_of_def port_channel_of_key_def Let_def pure_io simp_thms)

lemma reads_pc_loop [pure_io]: "reads (pc_loop R a1 a2 a3 a4)"
  by (induction a3 arbitrary: a1 a2 a4) (simp_all only: pc_loop.simps Let_def pure_io simp_thms)

lemma reads_port_channels [pure_io]: "reads (port_channels R)"
  by (simp only: port_channels_def Let_def pure_io simp_thms)

lemma reads_vlan_member_rows [pure_io]: "reads (vlan_member_rows R a1 a2)"
  by (induction a1 arbitrary: a2) (simp_all only: vlan_member_rows.simps Let_def pure_io simp_thms)

lemma reads_vlan_of_key [pure_io]: "reads (vlan_of_key R a1 a2)"
  by (simp only: vlan_of_key_def Let_def pure_io simp_thms)

lemma reads_vlan_loop [pure_io]: "reads (vlan_loop R a1 a2)"
  by (induction a1 arbitrary: a2) (simp_all only: vlan_loop.simps Let_def pure_io simp_thms)

lemma reads_vlans [pure_io]: "reads (vlans R)"
  by (simp only: vlans_def Let_def pure_io simp_thms)

lemma reads_hostfacts [pure_io]:
  "reads (hgetall_at R va1 va2)" "reads (host_file R vb1)" "reads (read_hostname vc0 R)" "reads (sonic_version R)"
  "reads (onie_platform R)" "reads (serial_number R)" "reads (system_facts_of vg0 R)" "reads (redis_ok vh0 R)"
  by (simp_all only: hgetall_at_def host_file_def read_hostname_def sonic_version_def onie_platform_def serial_number_def
    system_facts_of_def redis_ok_def Let_def pure_io simp_thms)

end

end
