(* ===== verification/Refusals.thy ===== *)
theory Refusals
  imports Readers
begin

text \<open>
  A writer that refuses a request, with any error that is not one of the server, has not written yet: each handler is a
  chain of checks that only read (\<open>pure_io\<close>), and from its first write on it fails only with redis or with a command of
  the host (\<open>server_io\<close>).
\<close>

section \<open>Errors of the server\<close>

named_theorems server_io \<open>computations that only fail with errors of the server\<close>
named_theorems gentle_io \<open>computations that refuse without a trace\<close>

text \<open>The errors that say nothing about the request: redis or a command of the host failed.\<close>

definition server_error :: "write_error \<Rightarrow> bool" where
  "server_error e \<longleftrightarrow> (case e of Redis _ \<Rightarrow> True | Internal _ \<Rightarrow> True | _ \<Rightarrow> False)"

lemma server_error_simps [simp, server_io]: "server_error (Redis x)" "server_error (Internal y)"
  by (simp_all add: server_error_def)

definition server_only :: "('s, write_error, 'a) io \<Rightarrow> bool" where
  "server_only m \<longleftrightarrow> (\<forall>s e s'. m s = (Inl e, s') \<longrightarrow> server_error e)"

lemma server_bnd [server_io]: "server_only m \<Longrightarrow> (\<And>x. server_only (f x)) \<Longrightarrow> server_only (bnd m f)"
  by (auto simp: server_only_def bnd_def split: prod.splits sum.splits)

lemma server_ret [server_io]: "server_only (ret x)"
  by (simp add: server_only_def ret_def)

lemma server_map_err [server_io]: "(\<And>e. server_error (g e)) \<Longrightarrow> server_only (map_err g m)"
  by (auto simp: server_only_def map_err_def split: prod.splits sum.splits)

lemma server_or_default [server_io]: "server_only (or_default d m)"
  by (auto simp: server_only_def or_default_def split: prod.splits sum.splits)

lemma server_guard [server_io]: "server_error e \<Longrightarrow> server_only (guard b e)"
  by (simp add: server_only_def guard_def ret_def fail_def)

lemma server_fail [server_io]: "server_error e \<Longrightarrow> server_only (fail e)"
  by (simp add: server_only_def fail_def)

lemma server_io_of [server_io]: "server_only (io_of f)"
  by (simp add: server_only_def io_of_def split: prod.splits)

lemma server_for_each [server_io]: "(\<And>x. server_only (f x)) \<Longrightarrow> server_only (for_each f xs)"
  by (induction xs) (auto intro: server_io)

lemma server_collect [server_io]: "(\<And>x. server_only (f x)) \<Longrightarrow> server_only (collect f xs)"
  by (induction xs) (auto intro: server_io)

lemma server_cases [server_io]:
  "server_only m \<Longrightarrow> server_only n \<Longrightarrow> server_only (if b then m else n)"
  "server_only m \<Longrightarrow> (\<And>x. server_only (f x)) \<Longrightarrow> server_only (case v of None \<Rightarrow> m | Some x \<Rightarrow> f x)"
  "(\<And>a b. server_only (g a b)) \<Longrightarrow> server_only (case p of (a, b) \<Rightarrow> g a b)"
  "server_only m \<Longrightarrow> server_only n \<Longrightarrow> server_only (case r of Admin \<Rightarrow> m | Operator \<Rightarrow> n)"
  by (auto split: option.split prod.split role.split)

lemma server_reads_of [server_io]: "server_only (row_of Q0 db key)" "server_only (keys_of Q0 db pat)"
  "server_only (ok_stdout m)" "server_only (read_text Q0 path)" "server_only (admin_groups Q0)"
  by (simp_all add: row_of_def keys_of_def ok_stdout_def read_text_def admin_groups_def server_io)

lemma server_writes [server_io]:
  "server_only (write_patch Q0 va1 va2)" "server_only (stp_disable Q0)" "server_only (write_limit Q0 vc1 vc2 vc3)"
  "server_only (write_collector Q0 vd1)" "server_only (write_vrf_fields Q0 ve1 ve2)"
  "server_only (delete_matching Q0 vf1)" "server_only (ospf_teardown Q0 vg1)" "server_only (bgp_teardown Q0 vh1)"
  "server_only (vtysh_config Q0 vi1 vi2)" "server_only (run_ok Q0 vj1 vj2)" "server_only (set_password Q0 vk1 vk2)"
  "server_only (apply_role Q0 vl1 vl2)" "server_only (del_config Q0 vm1)"
  by (simp_all only: write_patch_def stp_disable_def write_limit_def write_collector_def write_vrf_fields_def delete_matching_def
    ospf_teardown_def bgp_teardown_def vtysh_config_def run_ok_def set_password_def apply_role_def del_config_def
    Let_def server_io simp_thms)

section \<open>Writers\<close>

context host_store
begin

text \<open>A handler is gentle when an error that is not one of the server leaves every database as it was.\<close>

definition gentle :: "('s, write_error, 'a) io \<Rightarrow> bool" where
  "gentle m \<longleftrightarrow> (\<forall>s e s'. ok s \<longrightarrow> m s = (Inl e, s') \<longrightarrow> server_error e \<or> ok s' \<and> view s' = view s)"

lemma gentle_server [gentle_io]: "server_only m \<Longrightarrow> gentle m"
  by (auto simp: gentle_def server_only_def)

lemma gentle_reads [gentle_io]: "reads m \<Longrightarrow> gentle m"
  by (auto simp: gentle_def dest: readsD)

lemma gentle_careful: "careful m \<Longrightarrow> gentle m"
  unfolding gentle_def careful_def by fastforce

lemma gentle_bnd [gentle_io]:
  assumes "reads m" "\<And>x. gentle (f x)"
  shows "gentle (bnd m f)"
  unfolding gentle_def
proof (intro allI impI)
  fix s e s' assume s: "ok s" and b: "bnd m f s = (Inl e, s')"
  obtain r s1 where m: "m s = (r, s1)" by (cases "m s")
  note s1 = readsD [OF assms(1) s m]
  show "server_error e \<or> ok s' \<and> view s' = view s"
  proof (cases r)
    case (Inl e1)
    with b m s1 show ?thesis by (simp add: bnd_def)
  next
    case (Inr x)
    with b m have "f x s1 = (Inl e, s')" by (simp add: bnd_def)
    with assms(2) [of x] s1 show ?thesis unfolding gentle_def by metis
  qed
qed

lemma gentle_then [gentle_io]:
  assumes "gentle m" "\<And>x. server_only (f x)"
  shows "gentle (bnd m f)"
  using assms unfolding gentle_def server_only_def bnd_def by (fastforce split: prod.splits sum.splits)

lemma gentle_wp: "(\<And>s. ok s \<Longrightarrow> wp m (\<lambda>_ _. True) (\<lambda>e s'. server_error e \<or> ok s' \<and> view s' = view s) s) \<Longrightarrow> gentle m"
  unfolding gentle_def wp_def by fastforce

text \<open>Deleting a static route refuses only when neither key had a row.\<close>

lemma gentle_sr_delete [gentle_io]: "gentle (sr_delete P k)"
proof (rule gentle_wp)
  fix s assume s: "ok s"
  have r: "reads (require_supported P)" by (rule pure_io)
  show "wp (sr_delete P k) (\<lambda>_ _. True) (\<lambda>e s'. server_error e \<or> ok s' \<and> view s' = view s) s"
    unfolding sr_delete_def Let_def
  proof (rule wp_bnd, rule wp_reads [OF r s], goal_cases)
    case (1 u s1)
    note s1 = this
    show ?case
    proof (rule wp_bnd, rule wp_lift, goal_cases)
      case (1 u)
      show ?case
      proof (rule wp_bnd, rule wp_delete_found [OF s1(1)], goal_cases)
        case (1 b s2)
        then show ?case using s1
          by (cases b) (auto simp: wp_ret wp_fail v_drop_def fun_eq_iff)
      qed simp
    qed (use s1 in simp)
  qed simp_all
qed

lemma gentle_cases [gentle_io]:
  "gentle m \<Longrightarrow> gentle n \<Longrightarrow> gentle (if b then m else n)"
  "gentle m \<Longrightarrow> (\<And>x. gentle (f x)) \<Longrightarrow> gentle (case v of None \<Rightarrow> m | Some x \<Rightarrow> f x)"
  "(\<And>a b. gentle (g a b)) \<Longrightarrow> gentle (case p of (a, b) \<Rightarrow> g a b)"
  "gentle m \<Longrightarrow> gentle n \<Longrightarrow> gentle (case t of Dscp \<Rightarrow> m | NoTrust \<Rightarrow> n)"
  by (auto split: option.split prod.split trust_mode.split)

lemma gentle_batch [gentle_io]: "gentle (map_err Redis m)"
  by (rule gentle_server) (simp only: server_io)

text \<open>After a check of the request has passed, what it checked is known.\<close>

lemma gentle_checked: "(\<And>u. r = Inr u \<Longrightarrow> gentle (f u)) \<Longrightarrow> gentle (bnd (bad_request r) f)"
  by (cases r) (auto simp: gentle_def bnd_def lift_def smap_err_def)

lemma server_apply_key: "check_given_key k = Inr u \<Longrightarrow> server_only (apply_key Q0 key k)"
  unfolding apply_key_def check_given_key_def check_opt_def
  by (cases k) (auto simp: smap_err_def server_io bnd_def lift_def server_only_def ret_def map_err_def split: prod.splits sum.splits)

lemma server_server_fields:
  assumes "check_server i = Inr u"
  shows "server_only (write_server_fields Q0 pr key i)"
proof -
  have "check_given_key (se_key i) = Inr ()"
    using assms by (auto simp: check_server_def sbind_def split: sum.splits)
  from server_apply_key [OF this] show ?thesis
    unfolding write_server_fields_def by (intro server_io) (simp_all add: server_io)
qed

lemma gentle_aaa [gentle_io]: "gentle (aaa_put_global P pr g)" "gentle (create_server P pr address i)"
  "gentle (update_server P pr address i)"
proof -
  show "gentle (aaa_put_global P pr g)"
    unfolding aaa_put_global_def
  proof (rule gentle_checked)
    fix u assume "sbind (check_auth_type (ag_auth_type g)) (\<lambda>_.
      sbind (check_aaa_timeout (ag_timeout g)) (\<lambda>_. check_given_key (ag_key g))) = Inr u"
    then have "check_given_key (ag_key g) = Inr u" by (auto simp: sbind_def split: sum.splits)
    note k = server_apply_key [OF this]
    show "gentle (bnd (cfg_hset P (global_key pr) [(''auth_type'', ag_auth_type g)])
      (\<lambda>_. bnd (write_patch P (global_key pr) (''timeout'', Some (map_option show_nat (ag_timeout g))))
      (\<lambda>_. apply_key P (global_key pr) (ag_key g))))"
      by (rule gentle_server) (simp only: server_io k)
  qed
  show "gentle (create_server P pr address i)"
    unfolding create_server_def
    by (rule gentle_bnd, simp only: pure_io, rule gentle_checked)
       (simp only: gentle_io pure_io server_server_fields)
  show "gentle (update_server P pr address i)"
    unfolding update_server_def by (rule gentle_checked) (simp only: gentle_io pure_io server_server_fields)
qed

lemma gentle_acl_handlers [gentle_io]:
  "gentle (create_table P va1)" "gentle (update_table P vb1 vb2)" "gentle (delete_table P vc1)"
  "gentle (put_rule P vd1 vd2 vd3)" "gentle (delete_rule P ve1 ve2)"
  by (simp_all only: create_table_def update_table_def delete_table_def put_rule_def delete_rule_def Let_def gentle_io pure_io
    server_io simp_thms)

lemma gentle_l3_handlers [gentle_io]:
  "gentle (put_interface P va1 va2)" "gentle (create_loopback P vb1)" "gentle (delete_interface P vc1)"
  "gentle (create_vrf P vd1)" "gentle (update_vrf P ve1 ve2)" "gentle (delete_vrf P vf1)"
  "gentle (put_mgmt_vrf P vg1)"
  by (simp_all only: put_interface_def create_loopback_def delete_interface_def create_vrf_def update_vrf_def delete_vrf_def
    put_mgmt_vrf_def Let_def gentle_io pure_io server_io simp_thms)

lemma gentle_stp_handlers [gentle_io]:
  "gentle (stp_put_global P va1)" "gentle (stp_put_vlan P vb1 vb2)" "gentle (stp_put_port P vc1 vc2)"
  "gentle (put_loop_port P vd1 vd2)" "gentle (recover_port P ve1)"
  by (simp_all only: stp_put_global_def stp_put_vlan_def stp_put_port_def put_loop_port_def recover_port_def Let_def gentle_io pure_io
    server_io simp_thms)

lemma gentle_lldp_handlers [gentle_io]:
  "gentle (lldp_toggle P va1)" "gentle (lldp_put_config P vb1)"
  by (simp_all only: lldp_toggle_def lldp_put_config_def Let_def gentle_io pure_io server_io simp_thms)

lemma gentle_igmp_handlers [gentle_io]:
  "gentle (igmp_put_vlan P va1 va2)"
  by (simp_all only: igmp_put_vlan_def Let_def gentle_io pure_io server_io simp_thms)

lemma gentle_mirror_handlers [gentle_io]:
  "gentle (put_session P va1 va2)" "gentle (delete_session P vb1)"
  by (simp_all only: put_session_def delete_session_def Let_def gentle_io pure_io server_io simp_thms)

lemma gentle_stormcontrol_handlers [gentle_io]:
  "gentle (storm_put_port P va1 va2)"
  by (simp_all only: storm_put_port_def Let_def gentle_io pure_io server_io simp_thms)

lemma gentle_fdb_handlers [gentle_io]:
  "gentle (fdb_put_settings P va1)" "gentle (put_static P vb1 vb2 vb3)" "gentle (delete_static P vc1 vc2)"
  by (simp_all only: fdb_put_settings_def put_static_def delete_static_def Let_def gentle_io pure_io server_io simp_thms)

lemma gentle_sflow_handlers [gentle_io]:
  "gentle (sflow_put_global P va1)" "gentle (sflow_put_port P vb1 vb2 vb3)"
  by (simp_all only: sflow_put_global_def sflow_put_port_def Let_def gentle_io pure_io server_io simp_thms)

lemma gentle_dhcprelay_handlers [gentle_io]:
  "gentle (dhcp_put_vlan P va1 va2)"
  by (simp_all only: dhcp_put_vlan_def Let_def gentle_io pure_io server_io simp_thms)

lemma gentle_mclag_handlers [gentle_io]:
  "gentle (mclag_put P va1)" "gentle (mclag_delete P)"
  by (simp_all only: mclag_put_def mclag_delete_def Let_def gentle_io pure_io server_io simp_thms)

lemma gentle_aaa_handlers [gentle_io]:
  "gentle (put_authentication P va1)" "gentle (delete_server P vb1 vb2)"
  by (simp_all only: put_authentication_def delete_server_def Let_def gentle_io pure_io server_io simp_thms)

lemma gentle_ospf_handlers [gentle_io]:
  "gentle (ospf_put_instance P va1 va2)" "gentle (ospf_put_area P vb1 vb2 vb3)" "gentle (ospf_delete_area P vc1 vc2)"
  "gentle (ospf_put_interface P vd1 vd2)"
  by (simp_all only: ospf_put_instance_def ospf_put_area_def ospf_delete_area_def ospf_put_interface_def Let_def gentle_io pure_io
    server_io simp_thms)

lemma gentle_isis_handlers [gentle_io]:
  "gentle (isis_put_instance P va1)" "gentle (isis_put_interface P vb1 vb2)"
  by (simp_all only: isis_put_instance_def isis_put_interface_def Let_def gentle_io pure_io server_io simp_thms)

lemma gentle_bfd_handlers [gentle_io]:
  "gentle (put_peer P va1)" "gentle (delete_peer P vb1)"
  by (simp_all only: put_peer_def delete_peer_def Let_def gentle_io pure_io server_io simp_thms)

lemma gentle_bgp_handlers [gentle_io]:
  "gentle (put_legacy_global P va1 va2)" "gentle (put_global P vb1 vb2)"
  "gentle (upsert_legacy_neighbor P vc1 vc2 vc3 vc4)" "gentle (upsert_neighbor P vd1 vd2 vd3 vd4)"
  "gentle (create_neighbor P ve1)" "gentle (put_neighbor P vf1 vf2 vf3)" "gentle (delete_neighbor P vg1 vg2)"
  by (simp_all only: put_legacy_global_def put_global_def upsert_legacy_neighbor_def upsert_neighbor_def create_neighbor_def
    put_neighbor_def delete_neighbor_def Let_def gentle_io pure_io server_io simp_thms)

lemma gentle_sysconf_handlers [gentle_io]:
  "gentle (put_general P va1)" "gentle (put_management P vb1)"
  by (simp_all only: put_general_def put_management_def Let_def gentle_io pure_io server_io simp_thms)

lemma gentle_users_handlers [gentle_io]:
  "gentle (create_user P va1)" "gentle (update_user P vb1 vb2)" "gentle (delete_user P vc1)"
  by (simp_all only: create_user_def update_user_def delete_user_def Let_def gentle_io pure_io server_io simp_thms)

lemma gentle_maintenance_handlers [gentle_io]:
  "gentle (put_snmp P va1)" "gentle (save_config P)" "gentle (installer P vc1 vc2)" "gentle (set_next_image P vd1)"
  "gentle (install_image P ve1)" "gentle (restore vf0 P vf2)"
  by (simp_all only: put_snmp_def save_config_def installer_def set_next_image_def install_image_def restore_def Let_def gentle_io
    pure_io server_io simp_thms)

lemma gentle_staticroutes_handlers [gentle_io]:
  "gentle (sr_put P va1)"
  by (simp_all only: sr_put_def Let_def gentle_io pure_io server_io simp_thms)

lemma gentle_policy_handlers [gentle_io]:
  "gentle (put_prefix_list P va1 va2)" "gentle (delete_prefix_list P vb1)" "gentle (put_route_map P vc1 vc2)"
  "gentle (delete_route_map P vd1)"
  by (simp_all only: put_prefix_list_def delete_prefix_list_def put_route_map_def delete_route_map_def Let_def gentle_io pure_io
    server_io simp_thms)

lemma gentle_vrrp_handlers [gentle_io]:
  "gentle (vrrp_put P va1 va2 va3)" "gentle (vrrp_delete P vb1 vb2)"
  by (simp_all only: vrrp_put_def vrrp_delete_def Let_def gentle_io pure_io server_io simp_thms)

lemma gentle_vxlan_handlers [gentle_io]:
  "gentle (drop_old_vtep P va1)" "gentle (put_vtep P vb1)" "gentle (delete_vtep P)" "gentle (put_maps P vd1)"
  by (simp_all only: drop_old_vtep_def put_vtep_def delete_vtep_def put_maps_def Let_def gentle_io pure_io server_io simp_thms)

lemma gentle_qos_handlers [gentle_io]:
  "gentle (put_dscp_map P va1 va2)" "gentle (delete_dscp_map P vb1)" "gentle (put_qos_port P vc1 vc2)"
  by (simp_all only: put_dscp_map_def delete_dscp_map_def put_qos_port_def Let_def gentle_io pure_io server_io simp_thms)

end

end
