(* ===== verification/ApiProps.thy ===== *)
theory ApiProps
  imports RouterProps Refusals MemRedis
begin

text \<open>
  The properties of the dispatch: every answer is well-formed, no GET changes a database, and no refusal does.
\<close>

section \<open>Answers\<close>

definition refusal :: "call_result \<Rightarrow> bool" where
  "refusal c \<longleftrightarrow> cr_status c \<in> {400, 404, 405, 409, 422}"

text \<open>
  A well-formed answer is of one of four kinds: a success without an error text; an error document whose text is the error text,
  which where no handler words it says what failed; the two refusals of the router, which name the call; the answer of a task that
  did not run, which alone is not JSON.
\<close>

definition success :: "call_result \<Rightarrow> bool" where
  "success c \<longleftrightarrow> cr_status c \<in> {200, 202} \<and> cr_type c = JSON \<and> cr_error c = []"

definition failure :: "call_result \<Rightarrow> bool" where
  "failure c \<longleftrightarrow> cr_status c \<in> {400, 404, 409, 422, 500} \<and> cr_type c = JSON \<and> cr_body c = JsonBody (error_doc (cr_error c))"

definition misrouted :: "string \<Rightarrow> string \<Rightarrow> call_result \<Rightarrow> bool" where
  "misrouted meth path c \<longleftrightarrow> cr_type c = JSON \<and>
     (cr_status c = 404 \<and> cr_body c = JsonBody (error_doc ''not found'') \<and> cr_error c = ''no such endpoint: '' @ meth @ '' '' @ path \<or>
      cr_status c = 405 \<and> (\<exists>allowed. cr_body c = JsonBody (JObj [(''error'', JStr ''method not allowed''), (''allowed'', JStr allowed)]) \<and>
        cr_error c = ''method '' @ meth @ '' not allowed on '' @ path @ '' (use '' @ allowed @ '')''))"

definition not_run :: "call_result \<Rightarrow> bool" where
  "not_run c \<longleftrightarrow> cr_status c = 0 \<and> cr_type c = [] \<and> cr_body c = RawBody [] \<and> cr_error c \<noteq> []"

definition well_formed :: "call_result \<Rightarrow> bool" where
  "well_formed c \<longleftrightarrow> success c \<or> failure c"

lemma refusal_simps [simp]: "\<not> refusal (redis_unreachable e)" "\<not> refusal ok_answer" "\<not> refusal (answer 200 doc err)"
  by (simp_all add: refusal_def redis_unreachable_def ok_answer_def answer_def Let_def)

lemma refusal_error_of: "refusal (error_of e) \<longleftrightarrow> \<not> server_error e"
  by (cases e) (simp_all add: refusal_def error_of_def error_response_def answer_def redis_unreachable_def server_error_def Let_def)

lemma well_formed_simps [simp]: "well_formed (redis_unreachable e)" "well_formed ok_answer" "well_formed (answer 200 doc [])"
  "well_formed (error_response 400 msg)" "well_formed (error_of err)" "well_formed (error_response 500 msg)"
  by (simp_all add: well_formed_def success_def failure_def redis_unreachable_def ok_answer_def answer_def error_response_def
      error_of_def Let_def split: write_error.split)

definition serves_well :: "'s served \<Rightarrow> bool" where
  "serves_well f \<longleftrightarrow> (\<forall>s. well_formed (fst (f s)))"

named_theorems served \<open>facts about the serving functions\<close>

lemma serves_well_intros [served]:
  "serves_well (doc_get h)" "serves_well (write_outcome_with R b w)" "serves_well (with_body R b d body op)"
  "serves_well (backup_config R)" "serves_well (reboot R)" "serves_well (system_info x R)" "serves_well (system_health x R)"
  by (auto simp: serves_well_def doc_get_def write_outcome_with_def with_body_def backup_config_def reboot_def system_info_def
      system_health_def split: sum.splits prod.splits) (simp_all add: well_formed_def success_def answer_def)

lemma serves_well_groups [served]:
  "serves_well (call_switching x R body r1)" "serves_well (call_routing x R body r2)" "serves_well (call_system x R body r3)"
  "serves_well (call_security x R body r4)" "serves_well (call_ha x R body r5)" "serves_well (call_qos x R body r6)"
proof -
  show "serves_well (call_switching x R body r1)" by (cases r1; simp add: served)
  show "serves_well (call_routing x R body r2)" by (cases r2; simp add: served)
  show "serves_well (call_system x R body r3)" by (cases r3; simp add: served)
  show "serves_well (call_security x R body r4)" by (cases r4; simp add: served)
  show "serves_well (call_ha x R body r5)" by (cases r5; simp add: served)
  show "serves_well (call_qos x R body r6)" by (cases r6; simp add: served)
qed

definition answered :: "externals \<Rightarrow> string \<Rightarrow> string \<Rightarrow> call_result \<Rightarrow> bool" where
  "answered x meth path c \<longleftrightarrow> success c \<or> failure c \<or> misrouted meth path c \<or> x_join_error x \<noteq> None \<and> not_run c"

lemma answered_blocking: "serves_well f \<Longrightarrow> answered x meth path (fst (run_blocking x f s))"
  by (auto simp: run_blocking_def serves_well_def well_formed_def answered_def not_run_def split: option.split)

lemma answered_call: "answered x meth path (fst (call x R meth path body s))"
proof (cases "route_of meth path")
  case (System r)
  have "serves_well (reboot R)" by (simp add: served)
  hence "answered x meth path (fst (reboot R s))" by (auto simp: serves_well_def well_formed_def answered_def)
  thus ?thesis using System by (cases r) (simp_all add: call_def answered_blocking served)
qed (simp_all add: call_def answered_blocking served, simp_all add: answered_def misrouted_def answer_def)

section \<open>Reading and refusing\<close>

context host_store
begin

definition keeps :: "'s served \<Rightarrow> bool" where
  "keeps f \<longleftrightarrow> (\<forall>s. ok s \<longrightarrow> view (snd (f s)) = view s)"

lemma keeps_doc_get [served]: "reads h \<Longrightarrow> keeps (doc_get h)"
  by (auto simp: keeps_def doc_get_def dest: readsD split: prod.splits sum.splits)

lemma keeps_documents [served]: "keeps (system_info x R)" "keeps (system_health x R)" "keeps (backup_config R)"
proof -
  show "keeps (system_info x R)" "keeps (system_health x R)"
    unfolding system_info_def system_health_def by (intro keeps_doc_get pure_io)+
  have "reads (backup P)" by (rule pure_io)
  then show "keeps (backup_config R)"
    by (auto simp: keeps_def backup_config_def dest: readsD split: prod.splits sum.splits)
qed

lemma keeps_run_blocking [served]: "keeps f \<Longrightarrow> keeps (run_blocking x f)"
  by (auto simp: keeps_def run_blocking_def split: option.split)

lemma keeps_call_read:
  assumes "is_read (route_of meth path)"
  shows "keeps (call x R meth path body)"
proof (cases "route_of meth path")
  case (Switching r)
  with assms show ?thesis by (cases r) (simp_all add: call_def is_read_def served pure_io)
next
  case (Routing r)
  with assms show ?thesis by (cases r) (simp_all add: call_def is_read_def served pure_io)
next
  case (System r)
  with assms show ?thesis by (cases r) (simp_all add: call_def is_read_def served pure_io)
next
  case (Security r)
  with assms show ?thesis by (cases r) (simp_all add: call_def is_read_def served pure_io)
next
  case (Ha r)
  with assms show ?thesis by (cases r) (simp_all add: call_def is_read_def served pure_io)
next
  case (Qos r)
  with assms show ?thesis by (cases r) (simp_all add: call_def is_read_def served pure_io)
qed (use assms in \<open>simp_all add: is_read_def\<close>)

lemma keeps_call_error: "is_error (route_of meth path) \<Longrightarrow> keeps (call x R meth path body)"
  by (auto simp: is_error_def call_def keeps_def)

lemma keeps_get: "keeps (call x R ''GET'' path body)"
  using keeps_call_read keeps_call_error route_methods by metis

text \<open>A serving function is modest when a refusal leaves the databases as they were.\<close>

definition modest :: "'s served \<Rightarrow> bool" where
  "modest f \<longleftrightarrow> (\<forall>s. ok s \<longrightarrow> refusal (fst (f s)) \<longrightarrow> view (snd (f s)) = view s)"

lemma modest_keeps: "keeps f \<Longrightarrow> modest f"
  by (simp add: keeps_def modest_def)

lemma modest_run_blocking [served]: "modest f \<Longrightarrow> modest (run_blocking x f)"
  by (auto simp: modest_def run_blocking_def split: option.split)

lemma modest_doc_get [served]: "modest (doc_get h)"
  by (auto simp: modest_def doc_get_def split: prod.splits sum.splits)

lemma modest_write [served]: "gentle h \<Longrightarrow> modest (write_outcome_with R b h)"
  by (auto simp: modest_def write_outcome_with_def gentle_def refusal_error_of split: prod.splits sum.splits)

lemma modest_body [served]: "(\<And>i. gentle (op i)) \<Longrightarrow> modest (with_body R b d body op)"
  using modest_write by (auto simp: with_body_def modest_def split: sum.splits)

lemma modest_documents [served]: "modest (system_info x R)" "modest (system_health x R)" "modest (backup_config R)" "modest (reboot R)"
  by (simp_all add: modest_keeps keeps_documents)
     (auto simp: modest_def reboot_def refusal_def error_response_def answer_def split: prod.splits sum.splits)

lemmas gentle_switching = careful_update_port careful_create_vlan careful_update_vlan careful_delete_vlan
  careful_create_port_channel careful_update_port_channel careful_delete_port_channel

lemmas modest_facts = served gentle_io gentle_switching [THEN gentle_careful]

lemma modest_call: "modest (call x R meth path body)"
proof (cases "route_of meth path")
  case (Switching r)
  then show ?thesis by (cases r) (simp_all add: call_def modest_facts)
next
  case (Routing r)
  then show ?thesis by (cases r) (simp_all add: call_def modest_facts)
next
  case (System r)
  then show ?thesis by (cases r) (simp_all add: call_def modest_facts)
next
  case (Security r)
  then show ?thesis by (cases r) (simp_all add: call_def modest_facts)
next
  case (Ha r)
  then show ?thesis by (cases r) (simp_all add: call_def modest_facts)
next
  case (Qos r)
  then show ?thesis by (cases r) (simp_all add: call_def modest_facts)
qed (simp_all add: call_def modest_def)

end

interpretation mem_host: host_store mem_redis mem_view mem_ok mem_up
  unfolding host_store_def host_store_axioms_def
  by (auto simp: mem_client.redis_client_axioms mem_query.query_store_axioms mem_run_def Let_def)

section \<open>Properties\<close>

text \<open>Decoders that accept no body, and a host with no more to say.\<close>

definition demo_decoders :: decoders where
  "demo_decoders = \<lparr>d_port_patch = \<lambda>_. Inl ''unreadable'', d_port_channel_create = \<lambda>_. Inl ''unreadable'',
     d_port_channel = \<lambda>_. Inl ''unreadable'', d_vlan_create = \<lambda>_. Inl ''unreadable'',
     d_vlan = \<lambda>_. Inl ''unreadable'', d_stp_global = \<lambda>_. Inl ''unreadable'',
     d_stp_vlan = \<lambda>_. Inl ''unreadable'', d_stp_port = \<lambda>_. Inl ''unreadable'',
     d_loop_port = \<lambda>_. Inl ''unreadable'', d_lldp = \<lambda>_. Inl ''unreadable'',
     d_igmp = \<lambda>_. Inl ''unreadable'', d_mirror = \<lambda>_. Inl ''unreadable'',
     d_storm = \<lambda>_. Inl ''unreadable'', d_fdb_settings = \<lambda>_. Inl ''unreadable'',
     d_fdb_static = \<lambda>_. Inl ''unreadable'', d_sflow = \<lambda>_. Inl ''unreadable'',
     d_sflow_port = \<lambda>_. Inl ''unreadable'', d_dhcp = \<lambda>_. Inl ''unreadable'',
     d_loopback = \<lambda>_. Inl ''unreadable'', d_l3 = \<lambda>_. Inl ''unreadable'',
     d_vrf_create = \<lambda>_. Inl ''unreadable'', d_vrf = \<lambda>_. Inl ''unreadable'',
     d_mgmt_vrf = \<lambda>_. Inl ''unreadable'', d_bgp_global = \<lambda>_. Inl ''unreadable'',
     d_bgp_create = \<lambda>_. Inl ''unreadable'', d_bgp_neighbor = \<lambda>_. Inl ''unreadable'',
     d_ospf_instance = \<lambda>_. Inl ''unreadable'', d_ospf_area = \<lambda>_. Inl ''unreadable'',
     d_ospf_interface = \<lambda>_. Inl ''unreadable'', d_isis_instance = \<lambda>_. Inl ''unreadable'',
     d_isis_interface = \<lambda>_. Inl ''unreadable'', d_route = \<lambda>_. Inl ''unreadable'',
     d_route_key = \<lambda>_. Inl ''unreadable'', d_prefix_list = \<lambda>_. Inl ''unreadable'',
     d_route_map = \<lambda>_. Inl ''unreadable'', d_peer = \<lambda>_. Inl ''unreadable'',
     d_peer_key = \<lambda>_. Inl ''unreadable'', d_vtep = \<lambda>_. Inl ''unreadable'',
     d_maps = \<lambda>_. Inl ''unreadable'', d_general = \<lambda>_. Inl ''unreadable'',
     d_management = \<lambda>_. Inl ''unreadable'', d_user_create = \<lambda>_. Inl ''unreadable'',
     d_user_update = \<lambda>_. Inl ''unreadable'', d_snmp = \<lambda>_. Inl ''unreadable'',
     d_image = \<lambda>_. Inl ''unreadable'', d_url = \<lambda>_. Inl ''unreadable'',
     d_restore = \<lambda>_. Inl ''unreadable'', d_acl_create = \<lambda>_. Inl ''unreadable'',
     d_acl = \<lambda>_. Inl ''unreadable'', d_rule = \<lambda>_. Inl ''unreadable'',
     d_auth = \<lambda>_. Inl ''unreadable'', d_aaa_global = \<lambda>_. Inl ''unreadable'',
     d_server_create = \<lambda>_. Inl ''unreadable'', d_server = \<lambda>_. Inl ''unreadable'',
     d_mclag = \<lambda>_. Inl ''unreadable'', d_vrrp = \<lambda>_. Inl ''unreadable'',
     d_dscp_map = \<lambda>_. Inl ''unreadable'', d_qos_port = \<lambda>_. Inl ''unreadable''\<rparr>"

definition demo_x :: externals where
  "demo_x = \<lparr>x_dec = demo_decoders, x_from_str = \<lambda>_. None, x_to_string_pretty = \<lambda>_. Inr [], x_f64_as_u64 = \<lambda>_. None,
     x_computername = None, x_ping = Inr ''PONG'',
     x_gauges = \<lparr>ga_cpu_pct = JNum 0, ga_mem_pct = JNum 0, ga_disk_pct = JNum 0, ga_mem_used_bytes = JNum 0,
       ga_mem_total_bytes = JNum 0, ga_disk_used_bytes = JNum 0, ga_disk_total_bytes = JNum 0, ga_uptime_secs = JNum 0\<rparr>,
     x_agent_version = ''1'', x_device_id = ''d'', x_join_error = None\<rparr>"

definition demo_acl :: mem where
  "demo_acl = mem_seed CONFIG_DB ''ACL_TABLE|T'' [(''type'', ''L3'')] mem_new"

lemma demo_mem_ok: "mem_ok demo_acl"
  by (simp add: demo_acl_def mem_seed_ok)

text \<open>
  C1. Every call is answered, for every method, path, body and state of the switch, whatever the decoders and commands
  return. The answer is JSON with status 200 or 202 and no error text; or one of the error statuses with a document that
  holds the error text; or, for a path or method that is not routed, a 404 or 405 whose text names the call. Only where the
  worker thread did not run the handler is it none of these: status 0, no content type, no body, and an error text.
\<close>

theorem api_well_formed:
  "let c = fst (call x R meth path body s) in
     cr_status c \<in> {200, 202} \<and> cr_type c = JSON \<and> cr_error c = [] \<or>
     cr_status c \<in> {400, 404, 409, 422, 500} \<and> cr_type c = JSON \<and> cr_body c = JsonBody (JObj [(''error'', JStr (cr_error c))]) \<or>
     misrouted meth path c \<or>
     x_join_error x \<noteq> None \<and> cr_status c = 0 \<and> cr_type c = [] \<and> cr_body c = RawBody [] \<and> cr_error c \<noteq> []"
  using answered_call [of x meth path R body s]
  by (auto simp: answered_def success_def failure_def not_run_def error_doc_def Let_def)

text \<open>
  C2. No GET changes a database, on any path: the reading routes run only handlers that read, and a GET reaches no
  other route.
\<close>

theorem api_get_safe:
  assumes "host_store R view ok up" "ok s"
  shows "view (snd (call x R ''GET'' path body s)) = view s"
  using host_store.keeps_get [OF assms(1)] assms(2) unfolding host_store.keeps_def [OF assms(1)] by blast

theorem api_get_safe_witness:
  "mem_view (snd (call demo_x mem_redis ''GET'' ''/api/security/acls'' [] demo_acl)) = mem_view demo_acl"
  using api_get_safe [OF mem_host.host_store_axioms, OF demo_mem_ok, of demo_x "''/api/security/acls''" "[]"] .

text \<open>
  C3. A refused call leaves every database as it was: when the answer is 400, 404, 405, 409 or 422, of whichever of the
  routes, no handler has written, saved or rolled back anything.
\<close>

theorem api_refused_unchanged:
  assumes "host_store R view ok up" "ok s" "refusal (fst (call x R meth path body s))"
  shows "view (snd (call x R meth path body s)) = view s"
  using host_store.modest_call [OF assms(1)] assms(2,3) unfolding host_store.modest_def [OF assms(1)] by blast

lemma demo_delete_route: "route_of ''DELETE'' ''/api/security/acls/X'' = Security (AclDelete ''X'')"
proof -
  have p: "''/api/security/acls/X'' = path_of [''api'', ''security'', ''acls'', ''X'']" by (simp add: path_of_def)
  show ?thesis unfolding p
    by (subst route_of_path_of) (simp_all add: seg_ok_def seg_route_simps security_arms_def)
qed

text \<open>Deleting a table that is not there answers 404.\<close>

theorem api_refused_unchanged_witness:
  "cr_status (fst (call demo_x mem_redis ''DELETE'' ''/api/security/acls/X'' [] demo_acl)) = 404 \<and>
   mem_view (snd (call demo_x mem_redis ''DELETE'' ''/api/security/acls/X'' [] demo_acl)) = mem_view demo_acl"
proof -
  have x: "cr_status (fst (call demo_x mem_redis ''DELETE'' ''/api/security/acls/X'' [] demo_acl)) = 404"
    by (simp add: call_def demo_delete_route run_blocking_def demo_x_def write_outcome_with_def delete_table_def managed_table_def demo_acl_def error_of_def
        error_response_def answer_def run)
  then have "refusal (fst (call demo_x mem_redis ''DELETE'' ''/api/security/acls/X'' [] demo_acl))"
    by (simp add: refusal_def)
  from x api_refused_unchanged [OF mem_host.host_store_axioms, OF demo_mem_ok, OF this] show ?thesis by simp
qed

end
