(* ===== verification/MaintenanceProps.thy ===== *)
theory MaintenanceProps
  imports Maintenance
begin

text \<open>
  The dates of \<open>rfc3339\<close>: the civil-from-days arithmetic against the rules of the Gregorian calendar.
\<close>

section \<open>The calendar\<close>

definition leap :: "int \<Rightarrow> bool" where
  "leap y \<longleftrightarrow> 4 dvd y \<and> \<not> 100 dvd y \<or> 400 dvd y"

definition month_days :: "int \<Rightarrow> int \<Rightarrow> int" where
  "month_days y m = (if m = 2 then if leap y then 29 else 28 else if m \<in> {4, 6, 9, 11} then 30 else 31)"

definition next_day :: "int \<times> int \<times> int \<Rightarrow> int \<times> int \<times> int" where
  "next_day = (\<lambda>(y, m, d).
     if d < month_days y m then (y, m, d + 1) else if m < 12 then (y, m + 1, 1) else (y + 1, 1, 1))"

definition date_ok :: "int \<times> int \<times> int \<Rightarrow> bool" where
  "date_ok = (\<lambda>(y, m, d). 1 \<le> m \<and> m \<le> 12 \<and> 1 \<le> d \<and> d \<le> month_days y m)"

section \<open>Years of an era\<close>

text \<open>Years run from March, so that the leap day is the last of its year; an era has 400 of them.\<close>

definition year_of_era :: "int \<Rightarrow> int" where
  "year_of_era doe = (doe - doe div 1460 + doe div 36524 - doe div 146096) div 365"

definition year_start :: "int \<Rightarrow> int" where
  "year_start y = 365 * y + y div 4 - y div 100"

definition year_len :: "int \<Rightarrow> int" where
  "year_len y = (if leap (y + 1) then 366 else 365)"

lemma div_Suc: "0 < n \<Longrightarrow> (y + 1) div n - y div n = (if n dvd (y + 1) then 1 else 0)" for n y :: int
proof -
  assume n: "0 < n"
  have "(y + 1) div n = y div n + (if n dvd (y + 1) then 1 else 0)"
  proof (cases "n dvd (y + 1)")
    case True
    then obtain t where t: "y + 1 = n * t" by blast
    then have "y = n * (t - 1) + (n - 1)" by (simp add: algebra_simps)
    then have "y div n = t - 1" by (rule int_div_pos_eq) (use n in auto)
    with True t n show ?thesis by simp
  next
    case False
    then have m0: "(y + 1) mod n \<noteq> 0" by (simp add: dvd_eq_mod_eq_0)
    have m1: "0 \<le> (y + 1) mod n" "(y + 1) mod n < n" using n by simp_all
    have eq: "y = n * ((y + 1) div n) + ((y + 1) mod n - 1)"
      using mult_div_mod_eq [of n "y + 1"] by linarith
    have "0 \<le> (y + 1) mod n - 1" using m0 m1 by linarith
    moreover have "(y + 1) mod n - 1 < n" using m1 by linarith
    ultimately have "y div n = (y + 1) div n" by (rule int_div_pos_eq [OF eq])
    with False show ?thesis by simp
  qed
  then show ?thesis by simp
qed

lemma year_start_Suc:
  assumes "0 \<le> y" "y < 399"
  shows "year_start (y + 1) = year_start y + year_len y"
proof -
  have "\<not> 400 dvd (y + 1)" using assms zdvd_imp_le [of 400 "y + 1"] by auto
  moreover have "100 dvd (y + 1) \<Longrightarrow> 4 dvd (y + 1)" by (rule dvd_trans [of _ 100]) simp_all
  ultimately show ?thesis using div_Suc [of 4 y] div_Suc [of 100 y]
    by (simp add: year_start_def year_len_def leap_def split: if_splits)
qed

lemma year_of_era_parts:
  assumes c: "0 \<le> c" "c \<le> 3" and q: "0 \<le> q" "q \<le> 24" and k: "0 \<le> k" "k \<le> 3" and d: "0 \<le> d" "d \<le> 365"
    and short: "d = 365 \<Longrightarrow> k = 3 \<and> (q = 24 \<longrightarrow> c = 3)"
  shows "year_of_era (36524 * c + 1461 * q + 365 * k + d) = 100 * c + 4 * q + k"
proof -
  let ?e = "36524 * c + 1461 * q + 365 * k + d"
  define \<delta> :: int where "\<delta> = (if 24 * c + q + 365 * k + d \<ge> 1460 then 1 else 0)"
  have r: "365 * k + d \<le> 1460" using k d short by fastforce
  have "?e = 1460 * (25 * c + q + \<delta>) + (24 * c + q + 365 * k + d - 1460 * \<delta>)" by (simp add: algebra_simps)
  then have a: "?e div 1460 = 25 * c + q + \<delta>"
    by (rule int_div_pos_eq) (use c q k d r in \<open>auto simp: \<delta>_def\<close>)
  define \<epsilon> :: int where "\<epsilon> = (if 1461 * q + 365 * k + d = 36524 then 1 else 0)"
  have top: "1461 * q + 365 * k + d \<le> 36524" using q r by linarith
  have e1: "c = 3" if "\<epsilon> = 1"
  proof -
    from that have eq: "1461 * q + 365 * k + d = 36524" by (simp add: \<epsilon>_def split: if_splits)
    with r q have "q = 24" by linarith
    with eq k d have "d = 365" by linarith
    with \<open>q = 24\<close> short show ?thesis by blast
  qed
  have "?e = 36524 * (c + \<epsilon>) + (1461 * q + 365 * k + d - 36524 * \<epsilon>)" by (simp add: algebra_simps)
  then have b: "?e div 36524 = c + \<epsilon>"
    by (rule int_div_pos_eq) (use top q k d in \<open>auto simp: \<epsilon>_def\<close>)
  have "?e = 146096 * \<epsilon> + (?e - 146096 * \<epsilon>)" by simp
  then have e: "?e div 146096 = \<epsilon>"
    by (rule int_div_pos_eq) (use top q k d c e1 in \<open>auto simp: \<epsilon>_def split: if_splits\<close>)
  have "?e - ?e div 1460 + ?e div 36524 - ?e div 146096 = 365 * (100 * c + 4 * q + k) + (d - \<delta>)"
    unfolding a b e by (simp add: algebra_simps)
  moreover have "0 \<le> d - \<delta>" using c q k d by (auto simp: \<delta>_def)
  moreover have "d - \<delta> < 365"
  proof (cases "d = 365")
    case True
    with short c q show ?thesis by (simp add: \<delta>_def)
  qed (use d in \<open>simp add: \<delta>_def\<close>)
  ultimately show ?thesis unfolding year_of_era_def by (intro int_div_pos_eq)
qed

lemma year_parts:
  assumes "0 \<le> y" "y < (400::int)"
  obtains c q k where "y = 100 * c + 4 * q + k" "0 \<le> c" "c \<le> 3" "0 \<le> q" "q \<le> 24" "0 \<le> k" "k \<le> 3"
proof
  show "y = 100 * (y div 100) + 4 * (y mod 100 div 4) + y mod 100 mod 4" by simp
  show "0 \<le> y div 100" "y div 100 \<le> 3" "0 \<le> y mod 100 div 4" "0 \<le> y mod 100 mod 4" using assms by auto
  have "y mod 100 < 100" "y mod 100 mod 4 < 4" by simp_all
  then show "y mod 100 div 4 \<le> 24" "y mod 100 mod 4 \<le> 3" by auto
qed

lemma year_of_era_start:
  assumes y: "0 \<le> y" "y < 400" and d: "0 \<le> d" "d < year_len y"
  shows "year_of_era (year_start y + d) = y"
  using y
proof (cases rule: year_parts)
  case (1 c q k)
  have "y div 4 = 25 * c + q" by (rule int_div_pos_eq [of _ _ _ k]) (use 1 in simp_all)
  moreover have "y div 100 = c" by (rule int_div_pos_eq [of _ _ _ "4 * q + k"]) (use 1 in simp_all)
  ultimately have s: "year_start y + d = 36524 * c + 1461 * q + 365 * k + d"
    using 1(1) by (simp add: year_start_def)
  have len: "d \<le> 365" using d by (simp add: year_len_def split: if_splits)
  have "k = 3 \<and> (q = 24 \<longrightarrow> c = 3)" if "d = 365"
  proof -
    have l: "leap (y + 1)" using that d by (simp add: year_len_def split: if_splits)
    then have "4 dvd (y + 1)" by (auto simp: leap_def elim: dvd_trans [rotated])
    moreover have "y + 1 = 4 * (25 * c + q) + (k + 1)" using 1(1) by simp
    ultimately have "4 dvd (k + 1)" by (metis dvd_add_right_iff dvd_triv_left)
    then have k: "k = 3" using 1 zdvd_imp_le [of 4 "k + 1"] by auto
    have "c = 3" if "q = 24"
    proof -
      from that k 1(1) have y1: "y + 1 = 100 * (c + 1)" by simp
      with l have "400 dvd (y + 1)" unfolding leap_def by (metis dvd_triv_left)
      then have "400 \<le> y + 1" using y(1) by (intro zdvd_imp_le) auto
      with y1 1 show ?thesis by simp
    qed
    with k show ?thesis by blast
  qed
  with year_of_era_parts [of c q k d] 1 d(1) len show ?thesis unfolding s by simp
qed

text \<open>Every day of an era is a day of one of its years.\<close>

definition era_day :: "int \<Rightarrow> int \<times> int" where
  "era_day e = (year_of_era e, e - year_start (year_of_era e))"

lemma era_day_start: "0 \<le> y \<Longrightarrow> y < 400 \<Longrightarrow> 0 \<le> d \<Longrightarrow> d < year_len y \<Longrightarrow> era_day (year_start y + d) = (y, d)"
  by (simp add: era_day_def year_of_era_start)

lemma era_day_exists:
  "int n < 146097 \<Longrightarrow> \<exists>y d. int n = year_start y + d \<and> 0 \<le> y \<and> y < 400 \<and> 0 \<le> d \<and> d < year_len y"
proof (induction n)
  case 0
  have "0 = year_start 0 + 0" "0 < year_len 0" by (simp_all add: year_start_def year_len_def)
  then show ?case by force
next
  case (Suc n)
  then obtain y d where yd: "int n = year_start y + d" "0 \<le> y" "y < 400" "0 \<le> d" "d < year_len y" by auto
  show ?case
  proof (cases "d + 1 < year_len y")
    case True
    with yd show ?thesis by (intro exI [of _ y] exI [of _ "d + 1"]) simp
  next
    case False
    have "y < 399"
    proof (rule ccontr)
      assume "\<not> y < 399"
      with yd(3) have y: "y = 399" by simp
      with yd False have "d + 1 = 366" by (simp add: year_len_def leap_def)
      with y yd(1) Suc.prems show False by (simp add: year_start_def)
    qed
    moreover have "0 < year_len (y + 1)" by (simp add: year_len_def)
    moreover have "int (Suc n) = year_start (y + 1) + 0"
      using yd False year_start_Suc [OF yd(2) \<open>y < 399\<close>] by simp
    ultimately show ?thesis using yd by (intro exI [of _ "y + 1"] exI [of _ 0]) simp
  qed
qed

section \<open>Months\<close>

definition month_day :: "int \<Rightarrow> int \<times> int" where
  "month_day doy = (let mp = (5 * doy + 2) div 153 in
     (if mp < 10 then mp + 3 else mp - 9, doy - (153 * mp + 2) div 5 + 1))"

lemma month_day_at:
  assumes "153 * mp \<le> 5 * doy + 2" "5 * doy + 2 < 153 * (mp + 1)"
  shows "month_day doy = (if mp < 10 then mp + 3 else mp - 9, doy - (153 * mp + 2) div 5 + 1)"
proof -
  have "(5 * doy + 2) div 153 = mp" by (rule int_div_pos_eq [of _ _ _ "5 * doy + 2 - 153 * mp"]) (use assms in simp_all)
  then show ?thesis by (simp add: month_day_def Let_def)
qed

text \<open>The days of a year from March, month by month.\<close>

lemma month_day_table:
  "0 \<le> doy \<Longrightarrow> doy < 31 \<Longrightarrow> month_day doy = (3, doy + 1)"
  "31 \<le> doy \<Longrightarrow> doy < 61 \<Longrightarrow> month_day doy = (4, doy - 30)"
  "61 \<le> doy \<Longrightarrow> doy < 92 \<Longrightarrow> month_day doy = (5, doy - 60)"
  "92 \<le> doy \<Longrightarrow> doy < 122 \<Longrightarrow> month_day doy = (6, doy - 91)"
  "122 \<le> doy \<Longrightarrow> doy < 153 \<Longrightarrow> month_day doy = (7, doy - 121)"
  "153 \<le> doy \<Longrightarrow> doy < 184 \<Longrightarrow> month_day doy = (8, doy - 152)"
  "184 \<le> doy \<Longrightarrow> doy < 214 \<Longrightarrow> month_day doy = (9, doy - 183)"
  "214 \<le> doy \<Longrightarrow> doy < 245 \<Longrightarrow> month_day doy = (10, doy - 213)"
  "245 \<le> doy \<Longrightarrow> doy < 275 \<Longrightarrow> month_day doy = (11, doy - 244)"
  "275 \<le> doy \<Longrightarrow> doy < 306 \<Longrightarrow> month_day doy = (12, doy - 274)"
  "306 \<le> doy \<Longrightarrow> doy < 337 \<Longrightarrow> month_day doy = (1, doy - 305)"
  "337 \<le> doy \<Longrightarrow> doy < 367 \<Longrightarrow> month_day doy = (2, doy - 336)"
  using month_day_at [of 0 doy] month_day_at [of 1 doy] month_day_at [of 2 doy] month_day_at [of 3 doy]
    month_day_at [of 4 doy] month_day_at [of 5 doy] month_day_at [of 6 doy] month_day_at [of 7 doy]
    month_day_at [of 8 doy] month_day_at [of 9 doy] month_day_at [of 10 doy] month_day_at [of 11 doy] by simp_all

lemma month_range_cases:
  assumes "0 \<le> doy" "doy < (366::int)"
  obtains "0 \<le> doy" "doy < 31"
    | "31 \<le> doy" "doy < 61"
    | "61 \<le> doy" "doy < 92"
    | "92 \<le> doy" "doy < 122"
    | "122 \<le> doy" "doy < 153"
    | "153 \<le> doy" "doy < 184"
    | "184 \<le> doy" "doy < 214"
    | "214 \<le> doy" "doy < 245"
    | "245 \<le> doy" "doy < 275"
    | "275 \<le> doy" "doy < 306"
    | "306 \<le> doy" "doy < 337"
    | "337 \<le> doy" "doy < 366"
  using assms by linarith

text \<open>A step of a day within the year; February takes the days that are left.\<close>

lemma month_day_step:
  assumes "0 \<le> doy" "doy < 366" "month_day doy = (m, d)" "month_day (doy + 1) = (m', d')"
  shows "1 \<le> m \<and> m \<le> 12 \<and> 1 \<le> d \<and> (m \<le> 2 \<longleftrightarrow> 306 \<le> doy) \<and> (m = 2 \<longleftrightarrow> 337 \<le> doy) \<and>
    (if m = 2 then d = doy - 336 \<and> (m', d') = (2, d + 1)
     else d \<le> month_days y m \<and>
       (m', d') = (if d < month_days y m then (m, d + 1) else if m < 12 then (m + 1, 1) else (1, 1)))"
  using assms(1,2)
proof (cases rule: month_range_cases)
qed (use assms(3,4) in \<open>auto simp: month_day_table month_days_def\<close>)

section \<open>Days\<close>

lemma year_end: "0 \<le> y \<Longrightarrow> y < 400 \<Longrightarrow> year_start y + year_len y \<le> 146097"
proof -
  assume y: "0 \<le> y" "y < 400"
  show ?thesis
  proof (cases "y = 399")
    case False
    with y have "y div 4 \<le> 99" "0 \<le> y div 100" "y \<le> 398" by auto
    then show ?thesis by (simp add: year_start_def year_len_def)
  qed (simp add: year_start_def year_len_def leap_def)
qed

lemma leap_shift: "leap (y + 400 * era) \<longleftrightarrow> leap y"
proof -
  have "4 dvd y + 400 * era \<longleftrightarrow> 4 dvd y" "100 dvd y + 400 * era \<longleftrightarrow> 100 dvd y" "400 dvd y + 400 * era \<longleftrightarrow> 400 dvd y"
    by (auto simp: dvd_add_left_iff)
  then show ?thesis by (simp add: leap_def)
qed

definition date_at :: "int \<Rightarrow> int \<Rightarrow> int \<Rightarrow> int \<times> int \<times> int" where
  "date_at era y doy = (case month_day doy of (m, d) \<Rightarrow> (y + era * 400 + (if m \<le> 2 then 1 else 0), m, d))"

lemma civil_split:
  assumes "(days + 719468) div 146097 = era" "(days + 719468) mod 146097 = e"
  shows "civil_of_days days = date_at era (year_of_era e) (e - year_start (year_of_era e))"
  unfolding civil_of_days_def date_at_def month_day_def Let_def assms prod.case
  unfolding year_of_era_def [symmetric] unfolding year_start_def prod.case by (rule refl)

lemma civil_at:
  assumes "0 \<le> y" "y < 400" "0 \<le> doy" "doy < year_len y" "days + 719468 = 146097 * era + (year_start y + doy)"
  shows "civil_of_days days = date_at era y doy"
proof -
  have b: "0 \<le> year_start y + doy" "year_start y + doy < 146097"
    using year_end [OF assms(1,2)] assms(1-4) by (auto simp: year_start_def)
  have dv: "(days + 719468) div 146097 = era" by (rule int_div_pos_eq [OF assms(5) b])
  then have md: "(days + 719468) mod 146097 = year_start y + doy"
    using assms(5) mult_div_mod_eq [of 146097 "days + 719468"] by simp
  have "civil_of_days days = date_at era (year_of_era (year_start y + doy))
      (year_start y + doy - year_start (year_of_era (year_start y + doy)))"
    by (rule civil_split) (simp_all add: dv md)
  then show ?thesis by (simp add: year_of_era_start assms)
qed

lemma civil_rep:
  obtains era y doy where "0 \<le> y" "y < 400" "0 \<le> doy" "doy < year_len y"
    "days + 719468 = 146097 * era + (year_start y + doy)"
proof -
  let ?e = "(days + 719468) mod 146097"
  have "0 \<le> ?e" "?e < 146097" by simp_all
  then obtain y d where yd: "?e = year_start y + d" "0 \<le> y" "y < 400" "0 \<le> d" "d < year_len y"
    using era_day_exists [of "nat ?e"] by auto
  moreover have "days + 719468 = 146097 * ((days + 719468) div 146097) + ?e" by simp
  ultimately show ?thesis using that [of y d "(days + 719468) div 146097"] by simp
qed

lemma date_at_next:
  assumes "0 \<le> y" "y < 400" "0 \<le> doy" "doy < year_len y"
  shows "date_ok (date_at era y doy) \<and>
    next_day (date_at era y doy) = (if doy + 1 < year_len y then date_at era y (doy + 1) else (y + era * 400 + 1, 3, 1))"
proof -
  obtain m d where md: "month_day doy = (m, d)" by (cases "month_day doy")
  obtain m' d' where md': "month_day (doy + 1) = (m', d')" by (cases "month_day (doy + 1)")
  have len: "year_len y = 365 \<or> year_len y = 366" by (auto simp: year_len_def)
  let ?y = "y + era * 400 + (if m \<le> 2 then 1 else 0)"
  note step = month_day_step [OF assms(3) _ md md', of ?y]
  have s: "doy < 366" using assms(4) len by linarith
  have feb: "month_days ?y 2 = year_len y - 337" if "m = 2"
    using that leap_shift [of "y + 1" era] by (simp add: month_days_def year_len_def algebra_simps)
  show ?thesis
  proof (cases "m = 2")
    case True
    with step s have d: "d = doy - 336" "m' = 2" "d' = d + 1" "337 \<le> doy" by auto
    with True feb assms(4) show ?thesis
      by (auto simp: date_at_def md md' next_day_def date_ok_def)
  next
    case False
    with step s have "doy < 337" "doy + 1 < year_len y" using len by auto
    with False step s show ?thesis
      by (auto simp: date_at_def md md' next_day_def date_ok_def split: if_splits)
  qed
qed

lemma civil_next: "civil_of_days (days + 1) = next_day (civil_of_days days) \<and> date_ok (civil_of_days days)"
proof -
  obtain era y doy where r: "0 \<le> y" "y < 400" "0 \<le> doy" "doy < year_len y"
    "days + 719468 = 146097 * era + (year_start y + doy)" by (rule civil_rep)
  note c = civil_at [OF r] and n = date_at_next [OF r(1-4), of era]
  have first: "month_day 0 = (3, 1)" using month_day_table(1) [of 0] by simp
  have pos: "0 < year_len z" for z by (simp add: year_len_def)
  show ?thesis
  proof (cases "doy + 1 < year_len y")
    case True
    have "civil_of_days (days + 1) = date_at era y (doy + 1)"
      by (rule civil_at) (use r True in auto)
    with c n True show ?thesis by simp
  next
    case False
    then have last: "doy + 1 = year_len y" using r(4) by simp
    have "civil_of_days (days + 1) = (y + era * 400 + 1, 3, 1)"
    proof (cases "y = 399")
      case True
      have "civil_of_days (days + 1) = date_at (era + 1) 0 0"
        by (rule civil_at) (use r True last pos in \<open>auto simp: year_start_def year_len_def leap_def\<close>)
      with True first show ?thesis by (simp add: date_at_def)
    next
      case False
      then have y: "y < 399" using r(2) by simp
      have "civil_of_days (days + 1) = date_at era (y + 1) 0"
        by (rule civil_at) (use r y last pos year_start_Suc [OF r(1) y] in auto)
      with first show ?thesis by (simp add: date_at_def)
    qed
    with c n False show ?thesis by simp
  qed
qed

lemma civil_epoch: "civil_of_days 0 = (1970, 1, 1)"
  by code_simp

text \<open>
  C29. The dates are those of the Gregorian calendar: day 0 is 1970-01-01, each next day, in both directions of time, is
  the next day of the calendar with its month lengths and leap years, and every date is a valid one. This
  determines the date of every day.
\<close>

theorem civil_calendar:
  "civil_of_days 0 = (1970, 1, 1) \<and> civil_of_days (days + 1) = next_day (civil_of_days days) \<and> date_ok (civil_of_days days)"
  using civil_next [of days] civil_epoch by blast

end
