(* ===== verification/SysPlatform.thy ===== *)
theory SysPlatform
  imports MemRedis
begin

text \<open>
  The live platform: \<open>SysPlatform\<close> of \<^verbatim>\<open>src/src/sonic/store.rs\<close> and \<open>connection\<close>, \<open>scan_keys\<close> of
  \<^verbatim>\<open>src/src/sonic/mod.rs\<close>. Connections are opened once per database and reused; keys are collected with
  cursor SCAN.

  The redis server, the crate that speaks to it and the operating system are parameters (\<open>server\<close>, \<open>host_os\<close>), functions
  over an outside world. \<open>redis_server\<close> states what the redis documentation promises of them: the effect of the commands,
  the full-iteration guarantee of SCAN, and that a scan of a bounded collection comes to an end. Under it
  the loop of \<open>scan_keys\<close> returns, and the platform fulfils the store contract every feature module relies on. The last
  section gives a server that pages through the in-memory databases, for which all of this holds.
\<close>

section \<open>The outside world\<close>

record 'w server =
  sock_exists :: "'w \<Rightarrow> bool"
  open_unix :: "int \<Rightarrow> ('w, string, unit) io"
  open_tcp :: "int \<Rightarrow> ('w, string, unit) io"
  connect_tcp :: "int \<Rightarrow> ('w, string, unit) io"
  q_hgetall :: "int \<Rightarrow> string \<Rightarrow> ('w, string, row) io"
  q_scan :: "int \<Rightarrow> nat \<Rightarrow> string \<Rightarrow> nat \<Rightarrow> ('w, string, nat \<times> string list) io"
  q_hset :: "int \<Rightarrow> string \<Rightarrow> row \<Rightarrow> ('w, string, unit) io"
  q_hdel :: "int \<Rightarrow> string \<Rightarrow> string list \<Rightarrow> ('w, string, unit) io"
  q_del :: "int \<Rightarrow> string \<Rightarrow> ('w, string, unit) io"
  q_exists :: "int \<Rightarrow> string \<Rightarrow> ('w, string, int) io"

text \<open>A finished process: its success, and the bytes it wrote. A child is known by its number.\<close>

record proc_output =
  po_success :: bool
  po_stdout :: string
  po_stderr :: string

record 'w host_os =
  os_output :: "string \<Rightarrow> string list \<Rightarrow> ('w, string, proc_output) io"
  os_spawn :: "string \<Rightarrow> string list \<Rightarrow> bool \<Rightarrow> ('w, string, nat) io"
  os_write_stdin :: "nat \<Rightarrow> string \<Rightarrow> ('w, string, unit) io"
  os_wait :: "nat \<Rightarrow> ('w, string, proc_output) io"
  os_read :: "string \<Rightarrow> ('w, string, string) io"
  os_write :: "string \<Rightarrow> string \<Rightarrow> ('w, string, unit) io"
  utf8_lossy :: "string \<Rightarrow> string"

text \<open>\<open>with_context\<close>, as \<open>{e:#}\<close> shows it.\<close>

definition ctx :: "string \<Rightarrow> ('s, string, 'a) io \<Rightarrow> ('s, string, 'a) io" where
  "ctx c m = map_err (\<lambda>e. c @ '': '' @ e) m"

definition in_db :: "string \<Rightarrow> int \<Rightarrow> string" where
  "in_db key db = key @ '' (db '' @ show_int db @ '')''"

section \<open>Connections\<close>

definition tcp_connection :: "'w server \<Rightarrow> int \<Rightarrow> ('w, string, unit) io" where
  "tcp_connection R db = bnd (ctx ''open redis client'' (open_tcp R db)) (\<lambda>_.
     ctx ''connect to the SONiC redis instance'' (connect_tcp R db))"

definition connection :: "'w server \<Rightarrow> int \<Rightarrow> ('w, string, unit) io" where
  "connection R db = (\<lambda>w.
     if sock_exists R w then
       (case open_unix R db w of
          (Inr _, w') \<Rightarrow> (Inr (), w')
        | (Inl _, w') \<Rightarrow> tcp_connection R db w')
     else tcp_connection R db w)"

text \<open>The platform value: the world and the databases with an open connection.\<close>

record 'w sys =
  world :: 'w
  conns :: "int list"

definition sys_new :: "'w \<Rightarrow> 'w sys" where
  "sys_new w = \<lparr>world = w, conns = []\<rparr>"

definition on_world :: "('w, 'e, 'a) io \<Rightarrow> ('w sys, 'e, 'a) io" where
  "on_world m = (\<lambda>s. case m (world s) of (r, w') \<Rightarrow> (r, s\<lparr>world := w'\<rparr>))"

definition keep_conn :: "int \<Rightarrow> ('w sys, 'e, unit) io" where
  "keep_conn db = (\<lambda>s. (Inr (), s\<lparr>conns := db # conns s\<rparr>))"

definition conn :: "'w server \<Rightarrow> int \<Rightarrow> ('w sys, string, unit) io" where
  "conn R db = (\<lambda>s.
     if db \<in> set (conns s) then ret () s
     else bnd (on_world (connection R db)) (\<lambda>_. keep_conn db) s)"

section \<open>Cursor SCAN\<close>

text \<open>
  The loop of \<open>scan_keys\<close>: ask for the next page until the server answers cursor 0. It may run forever, so not returning
  is the value \<open>None\<close>.
\<close>

partial_function (option) scan_loop ::
  "'w server \<Rightarrow> int \<Rightarrow> string \<Rightarrow> nat \<Rightarrow> string list \<Rightarrow> 'w \<Rightarrow> ((string + string list) \<times> 'w) option" where
  "scan_loop R db pat cursor keys w =
     (case ctx (''SCAN '' @ pat) (q_scan R db cursor pat 200) w of
        (Inl e, w') \<Rightarrow> Some (Inl e, w')
      | (Inr (next, batch), w') \<Rightarrow>
          if next = 0 then Some (Inr (keys @ batch), w') else scan_loop R db pat next (keys @ batch) w')"

text \<open>
  A platform operation has to be a value: the error of a scan that does not return is never reached under
  \<open>redis_server\<close> (\<open>scan_loop_returns\<close>).
\<close>

definition scan_all :: "'w server \<Rightarrow> int \<Rightarrow> string \<Rightarrow> ('w, string, string list) io" where
  "scan_all R db pat = (\<lambda>w. case scan_loop R db pat 0 [] w of
       None \<Rightarrow> (Inl ''SCAN does not return'', w)
     | Some r \<Rightarrow> r)"

section \<open>The platform\<close>

definition sys_hgetall :: "'w server \<Rightarrow> int \<Rightarrow> string \<Rightarrow> ('w sys, string, row) io" where
  "sys_hgetall R db key = bnd (conn R db) (\<lambda>_. on_world (ctx (''HGETALL '' @ in_db key db) (q_hgetall R db key)))"

definition sys_scan :: "'w server \<Rightarrow> int \<Rightarrow> string \<Rightarrow> ('w sys, string, string list) io" where
  "sys_scan R db pattern = bnd (conn R db) (\<lambda>_. on_world (scan_all R db pattern))"

definition sys_hset :: "'w server \<Rightarrow> int \<Rightarrow> string \<Rightarrow> row \<Rightarrow> ('w sys, string, unit) io" where
  "sys_hset R db key fs =
     (if fs = [] then ret ()
      else bnd (conn R db) (\<lambda>_. on_world (ctx (''HSET '' @ in_db key db) (q_hset R db key fs))))"

definition sys_hdel :: "'w server \<Rightarrow> int \<Rightarrow> string \<Rightarrow> string list \<Rightarrow> ('w sys, string, unit) io" where
  "sys_hdel R db key fs =
     (if fs = [] then ret ()
      else bnd (conn R db) (\<lambda>_. on_world (ctx (''HDEL '' @ in_db key db) (q_hdel R db key fs))))"

definition sys_del :: "'w server \<Rightarrow> int \<Rightarrow> string \<Rightarrow> ('w sys, string, unit) io" where
  "sys_del R db key = bnd (conn R db) (\<lambda>_. on_world (ctx (''DEL '' @ in_db key db) (q_del R db key)))"

definition sys_exists :: "'w server \<Rightarrow> int \<Rightarrow> string \<Rightarrow> ('w sys, string, bool) io" where
  "sys_exists R db key = bnd (conn R db) (\<lambda>_.
     bnd (on_world (ctx (''EXISTS '' @ in_db key db) (q_exists R db key))) (\<lambda>n. ret (0 < n)))"

definition cmd_output_of :: "'w host_os \<Rightarrow> proc_output \<Rightarrow> cmd_output" where
  "cmd_output_of H p = \<lparr>co_ok = po_success p, co_stdout = utf8_lossy H (po_stdout p), co_stderr = utf8_lossy H (po_stderr p)\<rparr>"

definition sys_run :: "'w host_os \<Rightarrow> string \<Rightarrow> string list \<Rightarrow> ('w sys, string, cmd_output) io" where
  "sys_run H program args = bnd (on_world (ctx (''run '' @ program) (os_output H program args))) (\<lambda>p. ret (cmd_output_of H p))"

definition sys_run_input :: "'w host_os \<Rightarrow> string \<Rightarrow> string list \<Rightarrow> string \<Rightarrow> ('w sys, string, cmd_output) io" where
  "sys_run_input H program args input =
     bnd (on_world (ctx (''run '' @ program) (os_spawn H program args True))) (\<lambda>child.
     bnd (on_world (ctx (''write '' @ program @ '' stdin'') (os_write_stdin H child input))) (\<lambda>_.
     bnd (on_world (ctx (''wait for '' @ program) (os_wait H child))) (\<lambda>p.
     ret (cmd_output_of H p))))"

definition sys_spawn :: "'w host_os \<Rightarrow> string \<Rightarrow> string list \<Rightarrow> ('w sys, string, unit) io" where
  "sys_spawn H program args = bnd (on_world (ctx (''spawn '' @ program) (os_spawn H program args False))) (\<lambda>_. ret ())"

definition sys_read_file :: "'w host_os \<Rightarrow> string \<Rightarrow> 'w sys \<Rightarrow> string option \<times> 'w sys" where
  "sys_read_file H path s = (case on_world (os_read H path) s of
       (Inl _, s') \<Rightarrow> (None, s')
     | (Inr t, s') \<Rightarrow> (Some t, s'))"

definition sys_write_file :: "'w host_os \<Rightarrow> string \<Rightarrow> string \<Rightarrow> ('w sys, string, unit) io" where
  "sys_write_file H path content = on_world (ctx (''write '' @ path) (os_write H path content))"

definition sys_platform :: "'w server \<Rightarrow> 'w host_os \<Rightarrow> 'w sys platform" where
  "sys_platform R H = \<lparr>hgetall = sys_hgetall R, scan = sys_scan R, hset = sys_hset R, hdel = sys_hdel R,
     del = sys_del R, exists = sys_exists R, run_cmd = sys_run H, run_input = sys_run_input H,
     spawn = sys_spawn H, read_file = sys_read_file H, write_file = sys_write_file H\<rparr>"

lemma sys_platform_sel [simp]:
  "hgetall (sys_platform R H) = sys_hgetall R" "scan (sys_platform R H) = sys_scan R"
  "hset (sys_platform R H) = sys_hset R" "hdel (sys_platform R H) = sys_hdel R"
  "del (sys_platform R H) = sys_del R" "exists (sys_platform R H) = sys_exists R"
  by (simp_all add: sys_platform_def)

text \<open>What the API and the modules that open their own connections run on.\<close>

definition sys_redis :: "'w server \<Rightarrow> 'w host_os \<Rightarrow> 'w sys redis" where
  "sys_redis R H = \<lparr>connect = \<lambda>db. on_world (connection R db), cmds = sys_platform R H\<rparr>"

text \<open>The databases a platform value sees. A good one has at most one connection per database.\<close>

definition sys_view :: "('w \<Rightarrow> dbs) \<Rightarrow> 'w sys \<Rightarrow> dbs" where
  "sys_view view s = view (world s)"

definition sys_ok :: "('w \<Rightarrow> bool) \<Rightarrow> 'w sys \<Rightarrow> bool" where
  "sys_ok ok s \<longleftrightarrow> ok (world s) \<and> distinct (conns s)"

section \<open>What the server promises\<close>

text \<open>
  \<open>todo w db c\<close> are the keys an iteration that goes on at cursor \<open>c\<close> is still bound to report, \<open>rank w db c\<close> how many calls
  it takes at most. A call reports keys of the database that match the pattern, repeats allowed; what it was bound to report
  and matches is reported or still due at the next cursor; cursor 0 ends the iteration. Iterations start with everything due.
\<close>

locale redis_server =
  row_writer "q_hset R" "q_hdel R" "q_del R" view ok
  for R :: "'w server" and view :: "'w \<Rightarrow> dbs" and ok :: "'w \<Rightarrow> bool" +
  fixes todo :: "'w \<Rightarrow> int \<Rightarrow> nat \<Rightarrow> string set" and rank :: "'w \<Rightarrow> int \<Rightarrow> nat \<Rightarrow> nat"
  assumes unix_reads: "ok w \<Longrightarrow> open_unix R db w = (r, w') \<Longrightarrow> ok w' \<and> view w' = view w"
    and tcp_open_reads: "ok w \<Longrightarrow> open_tcp R db w = (r, w') \<Longrightarrow> ok w' \<and> view w' = view w"
    and tcp_reads: "ok w \<Longrightarrow> connect_tcp R db w = (r, w') \<Longrightarrow> ok w' \<and> view w' = view w"
    and q_hgetall_ok: "ok w \<Longrightarrow> q_hgetall R db key w = (Inr h, w') \<Longrightarrow>
      ok w' \<and> view w' = view w \<and> map_of h = view w db key \<and> distinct (map fst h)"
    and q_hgetall_err: "ok w \<Longrightarrow> q_hgetall R db key w = (Inl e, w') \<Longrightarrow> ok w' \<and> view w' = view w"
    and q_exists_ok: "ok w \<Longrightarrow> q_exists R db key w = (Inr num, w') \<Longrightarrow>
      ok w' \<and> view w' = view w \<and> num = (if view w db key = Map.empty then 0 else 1)"
    and q_exists_err: "ok w \<Longrightarrow> q_exists R db key w = (Inl e, w') \<Longrightarrow> ok w' \<and> view w' = view w"
    and q_scan_ok: "ok w \<Longrightarrow> q_scan R db c pat n w = (Inr (c', ks), w') \<Longrightarrow> ok w' \<and> view w' = view w"
    and q_scan_err: "ok w \<Longrightarrow> q_scan R db c pat n w = (Inl e, w') \<Longrightarrow> ok w' \<and> view w' = view w"
    and q_scan_sound: "ok w \<Longrightarrow> plain_glob pat \<Longrightarrow> q_scan R db c pat n w = (Inr (c', ks), w') \<Longrightarrow> k \<in> set ks \<Longrightarrow>
      view w db k \<noteq> Map.empty \<and> glob_match pat k"
    and q_scan_due: "ok w \<Longrightarrow> plain_glob pat \<Longrightarrow> q_scan R db c pat n w = (Inr (c', ks), w') \<Longrightarrow>
      k \<in> todo w db c \<Longrightarrow> glob_match pat k \<Longrightarrow> k \<in> set ks \<or> (c' \<noteq> 0 \<and> k \<in> todo w' db c')"
    and q_scan_start: "ok w \<Longrightarrow> view w db k \<noteq> Map.empty \<Longrightarrow> k \<in> todo w db 0"
    and q_scan_bounded: "ok w \<Longrightarrow> q_scan R db c pat n w = (Inr (c', ks), w') \<Longrightarrow> 0 < n \<Longrightarrow> c' \<noteq> 0 \<Longrightarrow> rank w' db c' < rank w db c"
begin

lemma tcp_connection_reads:
  assumes "ok w" "tcp_connection R db w = (r, w')"
  shows "ok w' \<and> view w' = view w"
proof -
  obtain r1 w1 where t: "open_tcp R db w = (r1, w1)" by (cases "open_tcp R db w")
  obtain r2 w2 where c: "connect_tcp R db w1 = (r2, w2)" by (cases "connect_tcp R db w1")
  note w1 = tcp_open_reads [OF assms(1) t]
  have "ok w2 \<and> view w2 = view w1" using w1 by (intro tcp_reads [OF _ c]) simp
  moreover have "w' = w1 \<or> w' = w2"
    using assms(2) by (auto simp: tcp_connection_def ctx_def bnd_def map_err_def t c split: sum.splits)
  ultimately show ?thesis using w1 by auto
qed

lemma connection_reads:
  assumes "ok w" "connection R db w = (r, w')"
  shows "ok w' \<and> view w' = view w"
proof -
  obtain r1 w1 where u: "open_unix R db w = (r1, w1)" by (cases "open_unix R db w")
  note w1 = unix_reads [OF assms(1) u]
  have "w' = w1 \<or> tcp_connection R db w1 = (r, w') \<or> tcp_connection R db w = (r, w')"
    using assms(2) by (auto simp: connection_def u split: sum.splits if_splits)
  then show ?thesis
    using w1 tcp_connection_reads [OF assms(1)] tcp_connection_reads [of w1 db r w'] by auto
qed

lemma scan_step:
  "q_scan R db c pat 200 w = (Inl e, w') \<Longrightarrow> scan_loop R db pat c ks w = Some (Inl (''SCAN '' @ pat @ '': '' @ e), w')"
  "q_scan R db c pat 200 w = (Inr (c', b), w') \<Longrightarrow> scan_loop R db pat c ks w =
     (if c' = 0 then Some (Inr (ks @ b), w') else scan_loop R db pat c' (ks @ b) w')"
  by (subst scan_loop.simps; simp add: ctx_def map_err_def)+

text \<open>The loop returns, and what it returns is what is there and matches.\<close>

lemma scan_loop_spec:
  "ok w \<Longrightarrow> \<exists>r w'. scan_loop R db pat c ks w = Some (r, w') \<and> ok w' \<and> view w' = view w \<and>
     (\<forall>out. r = Inr out \<longrightarrow> plain_glob pat \<longrightarrow>
        (\<forall>k\<in>set out. k \<in> set ks \<or> view w db k \<noteq> Map.empty \<and> glob_match pat k) \<and> set ks \<subseteq> set out \<and>
        (\<forall>k\<in>todo w db c. glob_match pat k \<longrightarrow> k \<in> set out))"
proof (induction "rank w db c" arbitrary: w c ks rule: less_induct)
  case less
  obtain q w1 where q: "q_scan R db c pat 200 w = (q, w1)" by (cases "q_scan R db c pat 200 w")
  show ?case
  proof (cases q)
    case (Inl e)
    with q scan_step(1) q_scan_err [OF less.prems] show ?thesis by blast
  next
    case (Inr p)
    obtain c' b where p: "p = (c', b)" by (cases p)
    note q = q [unfolded Inr p]
    note w1 = q_scan_ok [OF less.prems q]
    have sound: "\<And>k. plain_glob pat \<Longrightarrow> k \<in> set b \<Longrightarrow> view w db k \<noteq> Map.empty \<and> glob_match pat k"
      and due: "\<And>k. plain_glob pat \<Longrightarrow> k \<in> todo w db c \<Longrightarrow> glob_match pat k \<Longrightarrow> k \<in> set b \<or> c' \<noteq> 0 \<and> k \<in> todo w1 db c'"
      using q_scan_sound [OF less.prems _ q] q_scan_due [OF less.prems _ q] by blast+
    show ?thesis
    proof (cases "c' = 0")
      case True
      with scan_step(2) [OF q, of ks] w1 sound due show ?thesis by fastforce
    next
      case False
      obtain r w' where l: "scan_loop R db pat c' (ks @ b) w1 = Some (r, w')" "ok w'" "view w' = view w1"
          "\<forall>out. r = Inr out \<longrightarrow> plain_glob pat \<longrightarrow>
            (\<forall>k\<in>set out. k \<in> set (ks @ b) \<or> view w1 db k \<noteq> Map.empty \<and> glob_match pat k) \<and> set (ks @ b) \<subseteq> set out \<and>
            (\<forall>k\<in>todo w1 db c'. glob_match pat k \<longrightarrow> k \<in> set out)"
        using less.hyps [OF q_scan_bounded [OF less.prems q zero_less_numeral False], of "ks @ b"] w1 by blast
      have "scan_loop R db pat c ks w = Some (r, w')" using scan_step(2) [OF q, of ks] False l(1) by simp
      moreover have "(\<forall>k\<in>set out. k \<in> set ks \<or> view w db k \<noteq> Map.empty \<and> glob_match pat k) \<and> set ks \<subseteq> set out \<and>
          (\<forall>k\<in>todo w db c. glob_match pat k \<longrightarrow> k \<in> set out)" if "r = Inr out" "plain_glob pat" for out
      proof -
        have o: "\<forall>k\<in>set out. k \<in> set (ks @ b) \<or> view w db k \<noteq> Map.empty \<and> glob_match pat k" "set (ks @ b) \<subseteq> set out"
            "\<forall>k\<in>todo w1 db c'. glob_match pat k \<longrightarrow> k \<in> set out"
          using l(4) that w1 by auto
        have "k \<in> set out" if "k \<in> todo w db c" "glob_match pat k" for k
          using due [OF \<open>plain_glob pat\<close> that] o(2,3) that(2) by auto
        moreover have "k \<in> set ks \<or> view w db k \<noteq> Map.empty \<and> glob_match pat k" if "k \<in> set out" for k
          using o(1) [rule_format, OF that] sound [OF \<open>plain_glob pat\<close>, of k] by auto
        ultimately show ?thesis using o(2) by simp
      qed
      ultimately show ?thesis using l(2,3) w1 by auto
    qed
  qed
qed

lemma scan_all_ok:
  assumes "ok w" "scan_all R db pat w = (Inr ks, w')"
  shows "ok w' \<and> view w' = view w \<and> (plain_glob pat \<longrightarrow> set ks = {k. view w db k \<noteq> Map.empty \<and> glob_match pat k})"
  using scan_loop_spec [OF assms(1), of db pat 0 "[]"] q_scan_start [OF assms(1), of db] assms(2)
  by (auto simp: scan_all_def)

lemma scan_all_err: "ok w \<Longrightarrow> scan_all R db pat w = (Inl e, w') \<Longrightarrow> ok w' \<and> view w' = view w"
  using scan_loop_spec [of w db pat 0 "[]"] by (auto simp: scan_all_def)

section \<open>The platform keeps the store contract\<close>

lemma on_world_reads:
  assumes "\<And>r w'. m (world s) = (r, w') \<Longrightarrow> ok w' \<and> view w' = view (world s)" "sys_ok ok s" "on_world m s = (r, s')"
  shows "sys_ok ok s' \<and> sys_view view s' = sys_view view s"
  using assms by (auto simp: on_world_def sys_ok_def sys_view_def split: prod.splits)

lemma conn_reads:
  assumes "sys_ok ok s" "conn R db s = (r, s')"
  shows "sys_ok ok s' \<and> sys_view view s' = sys_view view s \<and> (\<forall>u. r = Inr u \<longrightarrow> db \<in> set (conns s'))"
  using assms connection_reads
  by (fastforce simp: conn_def ret_def keep_conn_def on_world_def bnd_def sys_ok_def sys_view_def split: if_splits prod.splits sum.splits)

lemma op_cases:
  assumes "sys_ok ok s" "bnd (conn R db) (\<lambda>_. on_world m) s = (r, s')"
  obtains (refused) e where "r = Inl e" "sys_ok ok s'" "sys_view view s' = sys_view view s"
    | (answered) w where "ok w" "view w = sys_view view s" "m w = (r, world s')" "ok (world s') \<Longrightarrow> sys_ok ok s'"
proof -
  obtain r1 s1 where c: "conn R db s = (r1, s1)" by (cases "conn R db s")
  note k = conn_reads [OF assms(1) c]
  show thesis
  proof (cases r1)
    case (Inl e)
    with assms(2) c have "r = Inl e" "s' = s1" by (auto simp: bnd_def)
    with refused k show thesis by blast
  next
    case (Inr u)
    with assms(2) c have "on_world m s1 = (r, s')" by (simp add: bnd_def)
    then have "m (world s1) = (r, world s')" "conns s' = conns s1" by (auto simp: on_world_def split: prod.splits)
    with answered [of "world s1"] k show thesis by (simp add: sys_ok_def sys_view_def)
  qed
qed

lemma ctx_Inr: "ctx c m w = (Inr x, w') \<longleftrightarrow> m w = (Inr x, w')"
  by (auto simp: ctx_def map_err_def split: prod.splits sum.splits)

lemma ctx_Inl: "ctx c m w = (Inl e, w') \<longleftrightarrow> (\<exists>e'. m w = (Inl e', w') \<and> e = c @ '': '' @ e')"
  by (auto simp: ctx_def map_err_def split: prod.splits sum.splits)

lemma on_world_bnd: "bnd (on_world m) (\<lambda>x. ret (f x)) = on_world (bnd m (\<lambda>x. ret (f x)))"
  by (auto simp: fun_eq_iff on_world_def bnd_def ret_def split: prod.splits sum.splits)

lemma exists_answer:
  assumes "ok w" "bnd (ctx c (q_exists R db key)) (\<lambda>num. ret (0 < num)) w = (r, w')"
  shows "ok w' \<and> view w' = view w \<and> (\<forall>b. r = Inr b \<longrightarrow> b = (view w db key \<noteq> Map.empty))"
proof -
  obtain q w1 where q: "q_exists R db key w = (q, w1)" by (cases "q_exists R db key w")
  show ?thesis
  proof (cases q)
    case (Inl e)
    with q assms(2) q_exists_err [OF assms(1)] show ?thesis by (auto simp: bnd_def ctx_def map_err_def)
  next
    case (Inr num)
    note x = q_exists_ok [OF assms(1) q [unfolded Inr]]
    have "r = Inr (0 < num)" "w' = w1" using q Inr assms(2) by (auto simp: bnd_def ctx_def map_err_def ret_def)
    with x show ?thesis by simp
  qed
qed

lemma sys_writer: "row_writer (sys_hset R) (sys_hdel R) (sys_del R) (sys_view view) (sys_ok ok)"
proof
  fix s s' :: "'w sys" and db key fs u
  assume s: "sys_ok ok s"
  { assume h: "sys_hset R db key fs s = (Inr u, s')"
    show "sys_ok ok s' \<and> sys_view view s' = v_hset db key fs (sys_view view s)"
    proof (cases "fs = []")
      case True
      with h s show ?thesis by (simp add: sys_hset_def ret_def v_hset_def)
    next
      case False
      from h [unfolded sys_hset_def if_not_P [OF False]] show ?thesis
        by (rule op_cases [OF s]) (auto simp: ctx_Inr sys_view_def [of view s'] dest: hset_ok)
    qed }
next
  fix s s' :: "'w sys" and db key fs e
  assume s: "sys_ok ok s" and h: "sys_hset R db key fs s = (Inl e, s')"
  then have "fs \<noteq> []" by (auto simp: sys_hset_def ret_def)
  from h [unfolded sys_hset_def if_not_P [OF this]] show "sys_ok ok s' \<and> sys_view view s' = sys_view view s"
    by (rule op_cases [OF s]) (auto simp: ctx_Inl sys_view_def [of view s'] dest: hset_err)
next
  fix s s' :: "'w sys" and db key ks u
  assume s: "sys_ok ok s" and h: "sys_hdel R db key ks s = (Inr u, s')"
  show "sys_ok ok s' \<and> sys_view view s' = v_hdel db key ks (sys_view view s)"
  proof (cases "ks = []")
    case True
    with h s show ?thesis by (simp add: sys_hdel_def ret_def v_hdel_def restrict_map_def)
  next
    case False
    from h [unfolded sys_hdel_def if_not_P [OF False]] show ?thesis
      by (rule op_cases [OF s]) (auto simp: ctx_Inr sys_view_def [of view s'] dest: hdel_ok)
  qed
next
  fix s s' :: "'w sys" and db key ks e
  assume s: "sys_ok ok s" and h: "sys_hdel R db key ks s = (Inl e, s')"
  then have "ks \<noteq> []" by (auto simp: sys_hdel_def ret_def)
  from h [unfolded sys_hdel_def if_not_P [OF this]] show "sys_ok ok s' \<and> sys_view view s' = sys_view view s"
    by (rule op_cases [OF s]) (auto simp: ctx_Inl sys_view_def [of view s'] dest: hdel_err)
next
  fix s s' :: "'w sys" and db key u
  assume s: "sys_ok ok s" and h: "sys_del R db key s = (Inr u, s')"
  from h [unfolded sys_del_def] show "sys_ok ok s' \<and> sys_view view s' = v_del db key (sys_view view s)"
    by (rule op_cases [OF s]) (auto simp: ctx_Inr sys_view_def [of view s'] dest: del_ok)
next
  fix s s' :: "'w sys" and db key e
  assume s: "sys_ok ok s" and h: "sys_del R db key s = (Inl e, s')"
  from h [unfolded sys_del_def] show "sys_ok ok s' \<and> sys_view view s' = sys_view view s"
    by (rule op_cases [OF s]) (auto simp: ctx_Inl sys_view_def [of view s'] dest: del_err)
qed

lemma sys_store: "redis_store (sys_platform R H) (sys_view view) (sys_ok ok)"
  unfolding redis_store_def redis_store_axioms_def sys_platform_sel
proof (intro conjI allI impI sys_writer)
  fix s s' :: "'w sys" and db key r
  assume s: "sys_ok ok s" and h: "sys_hgetall R db key s = (Inr r, s')"
  have "sys_ok ok s' \<and> sys_view view s' = sys_view view s \<and> map_of r = sys_view view s db key \<and> distinct (map fst r)"
    by (rule op_cases [OF s h [unfolded sys_hgetall_def]]) (auto simp: ctx_Inr sys_view_def [of view s'] dest: q_hgetall_ok)
  then show "sys_ok ok s'" "sys_view view s' = sys_view view s" "map_of r = sys_view view s db key" "distinct (map fst r)" by simp_all
next
  fix s s' :: "'w sys" and db key e
  assume s: "sys_ok ok s" and h: "sys_hgetall R db key s = (Inl e, s')"
  have "sys_ok ok s' \<and> sys_view view s' = sys_view view s"
    by (rule op_cases [OF s h [unfolded sys_hgetall_def]]) (auto simp: ctx_Inl sys_view_def [of view s'] dest: q_hgetall_err)
  then show "sys_ok ok s'" "sys_view view s' = sys_view view s" by simp_all
next
  fix s s' :: "'w sys" and db key b
  assume s: "sys_ok ok s" and h: "sys_exists R db key s = (Inr b, s')"
  have "sys_ok ok s' \<and> sys_view view s' = sys_view view s \<and> (b \<longleftrightarrow> sys_view view s db key \<noteq> Map.empty)"
  proof (rule op_cases [OF s h [unfolded sys_exists_def on_world_bnd]])
    fix w
    assume w: "ok w" "view w = sys_view view s" "ok (world s') \<Longrightarrow> sys_ok ok s'"
      and x: "bnd (ctx (''EXISTS '' @ in_db key db) (q_exists R db key)) (\<lambda>num. ret (0 < num)) w = (Inr b, world s')"
    from exists_answer [OF w(1) x] w(2,3) show ?thesis by (simp add: sys_view_def [of view s'])
  qed simp
  then show "sys_ok ok s'" "sys_view view s' = sys_view view s" "b = (sys_view view s db key \<noteq> Map.empty)" by simp_all
next
  fix s s' :: "'w sys" and db key e
  assume s: "sys_ok ok s" and h: "sys_exists R db key s = (Inl e, s')"
  have "sys_ok ok s' \<and> sys_view view s' = sys_view view s"
  proof (rule op_cases [OF s h [unfolded sys_exists_def on_world_bnd]])
    fix w
    assume w: "ok w" "view w = sys_view view s" "ok (world s') \<Longrightarrow> sys_ok ok s'"
      and x: "bnd (ctx (''EXISTS '' @ in_db key db) (q_exists R db key)) (\<lambda>num. ret (0 < num)) w = (Inl e, world s')"
    from exists_answer [OF w(1) x] w(2,3) show ?thesis by (simp add: sys_view_def [of view s'])
  qed simp
  then show "sys_ok ok s'" "sys_view view s' = sys_view view s" by simp_all
next
  fix s s' :: "'w sys" and db pat ks
  assume s: "sys_ok ok s" and h: "sys_scan R db pat s = (Inr ks, s')"
  have "sys_ok ok s' \<and> sys_view view s' = sys_view view s \<and> (plain_glob pat \<longrightarrow> set ks = {k. sys_view view s db k \<noteq> Map.empty \<and> glob_match pat k})"
  proof (rule op_cases [OF s h [unfolded sys_scan_def]])
    fix w
    assume w: "ok w" "view w = sys_view view s" "ok (world s') \<Longrightarrow> sys_ok ok s'" and x: "scan_all R db pat w = (Inr ks, world s')"
    from scan_all_ok [OF w(1) x] w(2,3) show ?thesis by (simp add: sys_view_def [of view s'])
  qed simp_all
  then show "sys_ok ok s'" "sys_view view s' = sys_view view s"
    "plain_glob pat \<Longrightarrow> set ks = {k. sys_view view s db k \<noteq> Map.empty \<and> glob_match pat k}" by simp_all
next
  fix s s' :: "'w sys" and db pat e
  assume s: "sys_ok ok s" and h: "sys_scan R db pat s = (Inl e, s')"
  have "sys_ok ok s' \<and> sys_view view s' = sys_view view s"
  proof (rule op_cases [OF s h [unfolded sys_scan_def]])
    fix w
    assume w: "ok w" "view w = sys_view view s" "ok (world s') \<Longrightarrow> sys_ok ok s'" and x: "scan_all R db pat w = (Inl e, world s')"
    from scan_all_err [OF w(1) x] w(2,3) show ?thesis by (simp add: sys_view_def [of view s'])
  qed simp_all
  then show "sys_ok ok s'" "sys_view view s' = sys_view view s" by simp_all
qed

lemma sys_client: "redis_client (sys_redis R H) (sys_view view) (sys_ok ok)"
  unfolding redis_client_def redis_client_axioms_def sys_redis_def redis.select_convs
proof (intro conjI allI impI sys_store)
  fix s s' :: "'w sys" and db r
  assume s: "sys_ok ok s" and h: "on_world (connection R db) s = (r, s')"
  have "sys_ok ok s' \<and> sys_view view s' = sys_view view s"
    using s by (intro on_world_reads [OF _ s h] connection_reads) (simp_all add: sys_ok_def)
  then show "sys_ok ok s'" "sys_view view s' = sys_view view s" by simp_all
qed

end

section \<open>A server that pages through the in-memory databases\<close>

definition mem_keys :: "mem \<Rightarrow> int \<Rightarrow> string list" where
  "mem_keys m db = sort (map fst (m_dbs m db))"

text \<open>COUNT is a hint: this server answers two keys at a time.\<close>

definition mem_page :: "int \<Rightarrow> nat \<Rightarrow> string \<Rightarrow> nat \<Rightarrow> (mem, string, nat \<times> string list) io" where
  "mem_page db c pat n = (\<lambda>m.
     (Inr (if c + 2 < length (mem_keys m db) then c + 2 else 0, filter (glob_match pat) (take 2 (drop c (mem_keys m db)))), m))"

definition mem_server :: "mem server" where
  "mem_server = \<lparr>sock_exists = \<lambda>m. map_of (m_files m) ''/var/run/redis/redis.sock'' \<noteq> None,
     open_unix = \<lambda>_. ret (), open_tcp = \<lambda>_. ret (), connect_tcp = \<lambda>_. ret (),
     q_hgetall = mem_hgetall, q_scan = mem_page, q_hset = mem_hset, q_hdel = mem_hdel, q_del = mem_del,
     q_exists = \<lambda>db key. bnd (mem_exists db key) (\<lambda>b. ret (if b then 1 else 0))\<rparr>"

lemma mem_server_sel [simp]:
  "sock_exists mem_server m \<longleftrightarrow> map_of (m_files m) ''/var/run/redis/redis.sock'' \<noteq> None"
  "open_unix mem_server db = ret ()" "open_tcp mem_server db = ret ()" "connect_tcp mem_server db = ret ()"
  "q_hgetall mem_server = mem_hgetall" "q_scan mem_server = mem_page" "q_hset mem_server = mem_hset"
  "q_hdel mem_server = mem_hdel" "q_del mem_server = mem_del"
  "q_exists mem_server db key = bnd (mem_exists db key) (\<lambda>b. ret (if b then 1 else 0))"
  by (simp_all add: mem_server_def)

definition mem_os :: "mem host_os" where
  "mem_os = \<lparr>os_output = \<lambda>p args. bnd (mem_run p args) (\<lambda>c. ret \<lparr>po_success = co_ok c, po_stdout = co_stdout c, po_stderr = co_stderr c\<rparr>),
     os_spawn = \<lambda>p args _. bnd (mem_spawn p args) (\<lambda>_. ret 1), os_write_stdin = \<lambda>_ input. mem_upd (\<lambda>m. m\<lparr>m_stdins := m_stdins m @ [input]\<rparr>),
     os_wait = \<lambda>_. ret \<lparr>po_success = True, po_stdout = [], po_stderr = []\<rparr>,
     os_read = \<lambda>path m. (case map_of (m_files m) path of None \<Rightarrow> Inl ''No such file or directory (os error 2)'' | Some t \<Rightarrow> Inr t, m),
     os_write = mem_write_file, utf8_lossy = \<lambda>t. t\<rparr>"

definition mem_todo :: "mem \<Rightarrow> int \<Rightarrow> nat \<Rightarrow> string set" where
  "mem_todo m db c = set (drop c (mem_keys m db))"

definition mem_rank :: "mem \<Rightarrow> int \<Rightarrow> nat \<Rightarrow> nat" where
  "mem_rank m db c = length (mem_keys m db) - c"

lemma mem_keys_view: "mem_ok m \<Longrightarrow> k \<in> set (mem_keys m db) \<longleftrightarrow> mem_view m db k \<noteq> Map.empty"
  using table_row_nonempty [of "m_dbs m db" k]
  by (auto simp: mem_keys_def mem_view_def mem_row_def mem_ok_def)

lemma mem_has_key_view: "mem_ok m \<Longrightarrow> mem_has_key m db k \<longleftrightarrow> mem_view m db k \<noteq> Map.empty"
  using mem.exists_ok [of m db k "mem_has_key m db k" m] by (simp add: mem_exists_def)

lemma mem_page_due:
  assumes "k \<in> set (drop c xs)"
  shows "k \<in> set (take 2 (drop c xs)) \<or> (c + 2 < length xs \<and> k \<in> set (drop (c + 2) xs))"
proof -
  have "k \<in> set (take 2 (drop c xs)) \<or> k \<in> set (drop 2 (drop c xs))"
    using assms by (metis Un_iff append_take_drop_id set_append)
  then show ?thesis by (auto simp: add.commute dest: length_pos_if_in_set)
qed

interpretation mem_sys: redis_server mem_server mem_view mem_ok mem_todo mem_rank
proof (unfold redis_server_def redis_server_axioms_def, intro conjI allI impI)
  show "row_writer (q_hset mem_server) (q_hdel mem_server) (q_del mem_server) mem_view mem_ok"
    using mem.row_writer_axioms by simp
next
  fix w w' :: mem and db c pat n c' ks k
  assume w: "mem_ok w" and q: "q_scan mem_server db c pat n w = (Inr (c', ks), w')"
  { assume "k \<in> mem_todo w db c" "glob_match pat k"
    with mem_page_due [of k c "mem_keys w db"] q show "k \<in> set ks \<or> (c' \<noteq> 0 \<and> k \<in> mem_todo w' db c')"
      by (auto simp: mem_page_def mem_todo_def) }
  { assume "k \<in> set ks"
    with q have "k \<in> set (drop c (mem_keys w db))" "glob_match pat k"
      by (auto simp: mem_page_def dest: in_set_takeD)
    then show "mem_view w db k \<noteq> Map.empty" "glob_match pat k"
      using mem_keys_view [OF w, of k db] by (auto dest: in_set_dropD) }
  { assume "0 < n" "c' \<noteq> 0"
    with q show "mem_rank w' db c' < mem_rank w db c" by (auto simp: mem_page_def mem_rank_def split: if_splits) }
qed (auto simp: ret_def mem_page_def mem_todo_def mem_keys_view mem_has_key_view mem_hgetall_def mem_exists_def bnd_def
  dest: mem.hgetall_ok [unfolded mem_platform_sel])

interpretation live: redis_client "sys_redis mem_server mem_os" "sys_view mem_view" "sys_ok mem_ok"
  by (rule mem_sys.sys_client)

section \<open>The properties\<close>

text \<open>C30. The SCAN loop of \<open>scan_keys\<close> comes to an end: on a server that keeps the documented promises it returns an error
  or a list, it leaves the databases as they were, and the list holds exactly the keys that exist and match.\<close>

theorem scan_loop_terminates:
  assumes "redis_server R view ok todo rank" "ok w"
  shows "\<exists>r w'. scan_loop R db pat 0 [] w = Some (r, w') \<and> ok w' \<and> view w' = view w \<and>
     (\<forall>ks. r = Inr ks \<longrightarrow> plain_glob pat \<longrightarrow> set ks = {k. view w db k \<noteq> Map.empty \<and> glob_match pat k})"
  using redis_server.scan_loop_spec [OF assms, of db pat 0 "[]"] redis_server.q_scan_start [OF assms, of db]
  by (fastforce simp: set_eq_iff)

definition demo_paged :: mem where
  "demo_paged = mem_seed CONFIG_DB ''PORT|Ethernet8'' [(''mtu'', ''9100'')] (mem_seed CONFIG_DB ''VLAN|Vlan10'' [(''vlanid'', ''10'')]
     (mem_seed CONFIG_DB ''PORT|Ethernet0'' [(''mtu'', ''9100'')] mem_new))"

theorem scan_loop_terminates_witness:
  "scan_loop mem_server CONFIG_DB ''PORT|*'' 0 [] demo_paged = Some (Inr [''PORT|Ethernet0'', ''PORT|Ethernet8''], demo_paged) \<and>
   {''PORT|Ethernet0'', ''PORT|Ethernet8''} = {k. mem_view demo_paged CONFIG_DB k \<noteq> Map.empty \<and> glob_match ''PORT|*'' k}"
proof -
  have ok: "mem_ok demo_paged" by (simp add: demo_paged_def mem_seed_ok)
  have l: "scan_loop mem_server CONFIG_DB ''PORT|*'' 0 [] demo_paged
      = Some (Inr [''PORT|Ethernet0'', ''PORT|Ethernet8''], demo_paged)"
    by (simp add: scan_loop.simps ctx_def mem_page_def mem_keys_def demo_paged_def run)
  with scan_loop_terminates [OF mem_sys.redis_server_axioms ok, of CONFIG_DB "''PORT|*''"] show ?thesis by simp
qed

text \<open>What the handlers see of the live platform: where the server keeps the promises of \<open>redis_server\<close>, with
  its one-command assumptions on rows, the loop, the empty writes and the kept connections keep the store contract.\<close>

lemma sys_platform_contract:
  assumes "redis_server R view ok todo rank"
  shows "redis_client (sys_redis R H) (sys_view view) (sys_ok ok)"
  by (rule redis_server.sys_client [OF assms])

end
