(* ===== verification/BfdProps.thy ===== *)
theory BfdProps
  imports Bfd PolicyLaws
begin

text \<open>
  The property of BFD: the block of commands a peer is written with is the block it is read back from.
\<close>

section \<open>The lines of a peer\<close>

definition opt_tokens :: "string \<Rightarrow> string option \<Rightarrow> string list" where
  "opt_tokens k v = (case v of None \<Rightarrow> [] | Some x \<Rightarrow> [k, x])"

lemma opt_tokens_simps [simp]: "opt_tokens k None = []" "opt_tokens k (Some x) = [k, x]"
  by (simp_all add: opt_tokens_def)

definition peer_tokens :: "peer_input \<Rightarrow> string list" where
  "peer_tokens i = pin_peer i # (if pin_multihop i then [''multihop''] else [])
     @ opt_tokens ''local-address'' (pin_local_address i) @ opt_tokens ''interface'' (pin_interface i)
     @ opt_tokens ''vrf'' (pin_vrf i)"

lemma identity_join: "input_identity i = ''peer '' @ join '' '' (peer_tokens i)"
  by (simp add: input_identity_def identity_of_def peer_tokens_def opt_text_def split: option.split)

lemma token_iface: "valid_iface n \<Longrightarrow> token n"
  by (auto simp: valid_iface_def token_def list_all_iff list_ex_iff char_class_defs dest!: bspec)

lemma check_peer_ok:
  assumes "check_peer i = Inr peer"
  shows "parse_ip (pin_peer i) = Some peer" "pin_local_address i = Some l \<Longrightarrow> \<exists>a. parse_ip l = Some a"
    "pin_interface i = Some n \<Longrightarrow> valid_iface n" "pin_vrf i = Some n \<Longrightarrow> valid_name n"
    "pin_rx i = Some v \<Longrightarrow> v \<le> 60000" "pin_tx i = Some v \<Longrightarrow> v \<le> 60000" "pin_multiplier i = Some v \<Longrightarrow> v \<le> 255"
  using assms by (auto simp: check_peer_def check_local_def check_opt_simps)

lemma peer_tokens_ok:
  assumes "check_peer i = Inr peer"
  shows "list_all token (peer_tokens i)"
proof -
  note ok = check_peer_ok [OF assms]
  have "list_all token (opt_tokens ''local-address'' (pin_local_address i))"
    using ok(2) by (cases "pin_local_address i") (auto simp: token_lit byte_def token_ip)
  moreover have "list_all token (opt_tokens ''interface'' (pin_interface i))"
    using ok(3) by (cases "pin_interface i") (auto simp: token_lit byte_def token_iface)
  moreover have "list_all token (opt_tokens ''vrf'' (pin_vrf i))"
    using ok(4) by (cases "pin_vrf i") (auto simp: token_lit byte_def token_name)
  ultimately show ?thesis using token_ip [OF ok(1)] by (simp add: peer_tokens_def token_lit byte_def)
qed

definition peer_of :: "peer_input \<Rightarrow> bfd_peer" where
  "peer_of i = \<lparr>bp_peer = pin_peer i, bp_interface = pin_interface i, bp_local_address = pin_local_address i,
     bp_multihop = pin_multihop i, bp_vrf = pin_vrf i, bp_rx = pin_rx i, bp_tx = pin_tx i,
     bp_multiplier = pin_multiplier i, bp_passive = pin_passive i, bp_shutdown = pin_shutdown i\<rparr>"

definition peer_block :: "peer_input \<Rightarrow> string list" where
  "peer_block i = input_identity i # setting_lines i @ [''exit'']"

lemma peer_lines_block: "peer_lines existing peer i =
   [''bfd''] @ (case find (\<lambda>c. same_identity c peer (pin_interface i) (pin_vrf i) (pin_multihop i)) existing of
      None \<Rightarrow> [] | Some cur \<Rightarrow> [''no '' @ peer_identity cur]) @ peer_block i @ [''exit'']"
  by (simp add: peer_lines_def peer_block_def)

lemma peer_options_tokens:
  "peer_options (tl (peer_tokens i)) (bare_peer (pin_peer i)) =
     \<lparr>bp_peer = pin_peer i, bp_interface = pin_interface i, bp_local_address = pin_local_address i,
      bp_multihop = pin_multihop i, bp_vrf = pin_vrf i, bp_rx = None, bp_tx = None, bp_multiplier = None,
      bp_passive = False, bp_shutdown = False\<rparr>"
  by (cases "pin_local_address i"; cases "pin_interface i"; cases "pin_vrf i")
    (simp_all add: peer_tokens_def bare_peer_def first_token_def)

lemma parse_identity:
  assumes "check_peer i = Inr peer"
  shows "trim (input_identity i) = input_identity i"
    "strip_prefix ''peer '' (input_identity i) = Some (join '' '' (peer_tokens i))"
    "parse_peer_line (join '' '' (peer_tokens i)) = Some (peer_options (tl (peer_tokens i)) (bare_peer (pin_peer i)))"
proof -
  have t: "list_all token (peer_tokens i)" using peer_tokens_ok [OF assms] .
  moreover have j: "input_identity i = join '' '' (''peer'' # peer_tokens i)"
    by (simp add: identity_join peer_tokens_def)
  ultimately show "trim (input_identity i) = input_identity i"
    unfolding j by (intro trim_join) (simp add: token_lit byte_def)
  show "strip_prefix ''peer '' (input_identity i) = Some (join '' '' (peer_tokens i))" by (simp add: identity_join)
  show "parse_peer_line (join '' '' (peer_tokens i)) = Some (peer_options (tl (peer_tokens i)) (bare_peer (pin_peer i)))"
    using t by (simp add: parse_peer_line_def words_join) (simp add: peer_tokens_def)
qed

section \<open>The loop\<close>

lemma bfd_lines_trim: "bfd_lines st (map trim ls) = bfd_lines st ls"
proof (induction ls arbitrary: st)
  case (Cons l ls)
  then show ?case by (cases st) (auto simp: Let_def split: option.split)
qed simp

definition setting :: "string \<Rightarrow> bool" where
  "setting l \<longleftrightarrow> trim l = l \<and> strip_prefix ''peer '' l = None \<and> \<not> starts_with ''profile '' l \<and> l \<notin> {''exit'', ''!'', ''end''}"

lemma bfd_setting: "setting l \<Longrightarrow> bfd_lines (InBlock (Some p)) (l # ls) = bfd_lines (InBlock (Some (parse_setting_line l p))) ls"
  by (simp add: setting_def)

lemma bfd_settings: "list_all setting ls \<Longrightarrow>
   bfd_lines (InBlock (Some p)) (ls @ rest) = bfd_lines (InBlock (Some (fold parse_setting_line ls p))) rest"
  by (induction ls arbitrary: p) (simp_all add: bfd_setting del: bfd_lines.simps)

lemma setting_tokens:
  assumes "list_all token ts" "ts \<noteq> []" "hd ts \<notin> {''peer'', ''profile'', ''exit'', ''!'', ''end''}"
  shows "setting (join '' '' ts)"
proof -
  have w: "words (join '' '' ts) = ts" by (rule words_join [OF assms(1)])
  have p: "strip_prefix (t @ '' '') (join '' '' ts) = None" if "token t" "t \<noteq> hd ts" for t
  proof (rule ccontr)
    assume "strip_prefix (t @ '' '') (join '' '' ts) \<noteq> None"
    then obtain r where "join '' '' ts = t @ CHR '' '' # r" by (auto simp: strip_prefix_Some)
    then have "ts = t # words r" using w words_lit [OF that(1)] by simp
    with that(2) show False by simp
  qed
  have e: "join '' '' ts \<noteq> t" if "token t" "t \<noteq> hd ts" for t
    using w words_token [OF that(1)] that(2) by (metis list.sel(1))
  have "strip_prefix ''peer '' (join '' '' ts) = None" "strip_prefix ''profile '' (join '' '' ts) = None"
    using p [of "''peer''"] p [of "''profile''"] assms(3) by (auto simp: token_lit byte_def)
  moreover have "join '' '' ts \<notin> {''exit'', ''!'', ''end''}"
    using e [of "''exit''"] e [of "''!''"] e [of "''end''"] assms(3) by (auto simp: token_lit byte_def)
  ultimately show ?thesis
    using trim_join [OF assms(1)] by (simp add: setting_def starts_with_def)
qed

lemma setting_line_tokens:
  "setting_lines i = map (join '' '')
     (map (\<lambda>n. [''receive-interval'', show_nat n]) (opt_list (pin_rx i))
      @ map (\<lambda>n. [''transmit-interval'', show_nat n]) (opt_list (pin_tx i))
      @ map (\<lambda>n. [''detect-multiplier'', show_nat n]) (opt_list (pin_multiplier i))
      @ (if pin_passive i then [[''passive-mode'']] else [])
      @ [if pin_shutdown i then [''shutdown''] else [''no'', ''shutdown'']])"
  by (simp add: setting_lines_def opt_line_def opt_list_def split: option.split)

lemma settings_ok: "list_all setting (setting_lines i)"
proof -
  let ?P = "\<lambda>ts. list_all token ts \<and> ts \<noteq> [] \<and> hd ts \<notin> {''peer'', ''profile'', ''exit'', ''!'', ''end''}"
  have P: "list_all setting (map (join '' '') L)" if "list_all ?P L" for L
    using that by (induction L) (simp_all add: setting_tokens)
  have v: "list_all ?P (map (\<lambda>n. [t, show_nat n]) (opt_list v))"
    if "token t" "t \<notin> {''peer'', ''profile'', ''exit'', ''!'', ''end''}" for t v
    using that by (cases v) (simp_all add: opt_list_def)
  show ?thesis
    unfolding setting_line_tokens
    by (rule P) (simp only: list_all_append, intro conjI v; simp add: token_lit byte_def)
qed

section \<open>The settings\<close>

lemma setting_num:
  assumes "n \<le> 60000"
  shows "parse_setting_line (''receive-interval '' @ show_nat n) p = p\<lparr>bp_rx := Some n\<rparr>"
    "parse_setting_line (''transmit-interval '' @ show_nat n) p = p\<lparr>bp_tx := Some n\<rparr>"
    "parse_setting_line (''detect-multiplier '' @ show_nat n) p = p\<lparr>bp_multiplier := Some n\<rparr>"
  using words_lit [of "''receive-interval''" "show_nat n"] words_lit [of "''transmit-interval''" "show_nat n"]
    words_lit [of "''detect-multiplier''" "show_nat n"] assms
  by (simp_all add: parse_setting_line_def token_lit byte_def words_token)

lemma setting_flag:
  "parse_setting_line ''passive-mode'' p = p\<lparr>bp_passive := True\<rparr>"
  "parse_setting_line ''shutdown'' p = p\<lparr>bp_shutdown := True\<rparr>"
  "parse_setting_line ''no shutdown'' p = p\<lparr>bp_shutdown := False\<rparr>"
  using words_token [of "''passive-mode''"] words_token [of "''shutdown''"] words_join [of "[''no'', ''shutdown'']"]
  by (simp_all add: parse_setting_line_def token_lit byte_def)

lemma fold_opt_line: "fold f (opt_line pre v) p = (case v of None \<Rightarrow> p | Some x \<Rightarrow> f (pre @ x) p)"
  by (simp add: opt_line_def split: option.split)

lemma read_settings:
  assumes "check_peer i = Inr a"
  shows "fold parse_setting_line (setting_lines i) (peer_options (tl (peer_tokens i)) (bare_peer (pin_peer i))) = peer_of i"
proof -
  note ok = check_peer_ok(5-7) [OF assms]
  show ?thesis
    unfolding setting_lines_def fold_append o_apply fold_opt_line peer_options_tokens peer_of_def
    using ok by (cases "pin_rx i"; cases "pin_tx i"; cases "pin_multiplier i"; cases "pin_passive i"; cases "pin_shutdown i")
      (simp_all add: setting_num setting_flag del: append.simps)
qed

lemma read_block:
  assumes "check_peer i = Inr a"
  shows "bfd_lines (InBlock None) (peer_block i @ rest) = peer_of i # bfd_lines (InBlock None) rest"
proof -
  note p = parse_identity [OF assms]
  have "bfd_lines (InBlock None) (peer_block i @ rest)
      = bfd_lines (InBlock (parse_peer_line (join '' '' (peer_tokens i)))) (setting_lines i @ ''exit'' # rest)"
    unfolding peer_block_def append.simps append_assoc bfd_lines.simps Let_def p(1) p(2) by (simp add: opt_list_def)
  also have "\<dots> = bfd_lines (InBlock (Some (peer_of i))) (''exit'' # rest)"
    unfolding p(3) bfd_settings [OF settings_ok] read_settings [OF assms] ..
  also have "\<dots> = peer_of i # bfd_lines (InBlock None) rest"
    using trim_join [of "[''exit'']"] by (simp add: token_lit byte_def starts_with_def)
  finally show ?thesis .
qed

lemma read_blocks:
  "\<forall>i\<in>set is. \<exists>a. check_peer i = Inr a \<Longrightarrow>
   bfd_lines (InBlock None) (concat (map peer_block is) @ ''exit'' # rest) = map peer_of is"
proof (induction "is")
  case Nil
  then show ?case using trim_join [of "[''exit'']"] by (simp add: token_lit byte_def starts_with_def opt_list_def)
next
  case (Cons i js)
  then show ?case by (auto simp: read_block simp del: bfd_lines.simps)
qed

lemma read_header:
  "''bfd'' \<notin> set before \<Longrightarrow> map trim before = before \<Longrightarrow>
   bfd_lines Outside (before @ ''bfd'' # rest) = bfd_lines (InBlock None) rest"
  using trim_join [of "[''bfd'']"] by (induction before) (auto simp: token_lit byte_def)

section \<open>The property\<close>

lemma map_fixes_prefix: "map f (xs @ ys) = xs @ ys \<Longrightarrow> map f xs = xs"
  by (simp add: append_eq_append_conv)

lemma sent_block: "butlast (tl (peer_lines [] a i)) = peer_block i"
  by (simp add: peer_lines_block butlast_append)

text \<open>C31. A peer is read back the way it was written. Whatever the running configuration carries before and after the
  \<open>bfd\<close> block, when the block is made of the command lines that \<open>put_peer\<close> sends (between \<open>bfd\<close> and the last \<open>exit\<close>)
  for peers its check accepted, \<open>parse_running_bfd\<close> returns exactly these peers, in order, with every setting of the
  requests.\<close>

theorem bfd_peers_roundtrip:
  assumes "map trim (lines txt) = before @ ''bfd'' # concat (map (\<lambda>(i, a). butlast (tl (peer_lines [] a i))) sent) @ ''exit'' # after"
    and "''bfd'' \<notin> set before" and "\<forall>(i, a)\<in>set sent. check_peer i = Inr a"
  shows "parse_running_bfd txt = map (peer_of \<circ> fst) sent"
proof -
  let ?is = "map fst sent"
  have b: "concat (map (\<lambda>(i, a). butlast (tl (peer_lines [] a i))) sent) = concat (map peer_block ?is)"
    by (simp add: sent_block comp_def case_prod_beta')
  note t = assms(1) [unfolded b]
  have "map trim (map trim (lines txt)) = map trim (lines txt)" by (simp add: comp_def)
  then have "map trim before = before" unfolding t by (rule map_fixes_prefix)
  moreover have "\<forall>i\<in>set ?is. \<exists>a. check_peer i = Inr a" using assms(3) by fastforce
  ultimately show ?thesis
    unfolding parse_running_bfd_def bfd_lines_trim [of Outside "lines txt", symmetric] t
    by (simp only: read_header [OF assms(2)] read_blocks) simp
qed

definition demo_peer :: peer_input where
  "demo_peer = \<lparr>pin_peer = ''10.0.0.2'', pin_interface = Some ''Ethernet0'', pin_local_address = None, pin_multihop = False,
     pin_vrf = Some ''Vrf-red'', pin_rx = Some 300, pin_tx = None, pin_multiplier = Some 3, pin_passive = True, pin_shutdown = False\<rparr>"

definition demo_multihop :: peer_input where
  "demo_multihop = \<lparr>pin_peer = ''10.9.0.1'', pin_interface = None, pin_local_address = Some ''10.0.0.1'', pin_multihop = True,
     pin_vrf = None, pin_rx = None, pin_tx = Some 50, pin_multiplier = None, pin_passive = False, pin_shutdown = True\<rparr>"

definition demo_running :: string where
  "demo_running = join [CHR 0x0A]
     ([''frr version 8.5'', ''!'', ''bfd''] @
      map (\<lambda>l. '' '' @ l) (peer_block demo_peer @ peer_block demo_multihop) @ [''exit'', ''!'', ''end''])"

lemma demo_peers_ok: "check_peer demo_peer = Inr (V4 (10, 0, 0, 2))" "check_peer demo_multihop = Inr (V4 (10, 9, 0, 1))"
  by (simp_all add: demo_peer_def demo_multihop_def check_peer_def check_opt_def check_local_def valid_iface_def
      valid_name_def check_range_def ip_run run)

lemma bfd_peers_roundtrip_witness: "parse_running_bfd demo_running = [peer_of demo_peer, peer_of demo_multihop]"
proof -
  have "map trim (lines demo_running) = [''frr version 8.5'', ''!''] @
    ''bfd'' # concat (map (\<lambda>(i, a). butlast (tl (peer_lines [] a i)))
       [(demo_peer, V4 (10, 0, 0, 2)), (demo_multihop, V4 (10, 9, 0, 1))]) @ ''exit'' # [''!'', ''end'']"
    by (simp add: demo_running_def peer_block_def demo_peer_def demo_multihop_def sent_block setting_lines_def opt_line_def
        input_identity_def identity_of_def opt_text_def lines_def show_nat.simps run)
  from bfd_peers_roundtrip [OF this] demo_peers_ok show ?thesis by simp
qed

end
