(* ===== verification/BgpProps.thy ===== *)
theory BgpProps
  imports Bgp MemPlatform
begin

text \<open>
  The property of BGP: a PUT of a neighbor over the frrcfgd schema replaces its settings and its address families, or, where no read
  fails and the server answers after a failed write, changes nothing.
\<close>

section \<open>What the batch makes of the rows\<close>

definition neighbor_key :: "string \<Rightarrow> string \<Rightarrow> string" where
  "neighbor_key vrf peer = ''BGP_NEIGHBOR|'' @ vrf @ ''|'' @ peer"

definition neighbor_fields :: "neighbor_input \<Rightarrow> (string \<times> string option) list" where
  "neighbor_fields i =
     [(''asn'', Some (show_nat (ni_remote_asn i))), (''bfd'', Some (bool_str (ni_bfd i))), (''admin_status'', Some (admin_str (ni_admin i))),
      (''name'', ni_name i), (''peer_group_name'', ni_peer_group i), (''local_addr'', ni_local_addr i),
      (''keepalive'', map_option show_nat (ni_keepalive i)), (''holdtime'', map_option show_nat (ni_holdtime i)),
      (''ebgp_multihop_ttl'', map_option show_nat (ni_ttl i))]"

definition neighbor_done :: "string \<Rightarrow> string \<Rightarrow> neighbor_input \<Rightarrow> dbs \<Rightarrow> dbs \<Rightarrow> bool" where
  "neighbor_done vrf peer i v v' \<longleftrightarrow>
     (\<forall>f. v' CONFIG_DB (neighbor_key vrf peer) f =
        (case map_of (neighbor_fields i) f of Some x \<Rightarrow> x | None \<Rightarrow> v CONFIG_DB (neighbor_key vrf peer) f)) \<and>
     {k. starts_with (af_prefix vrf peer) k \<and> v' CONFIG_DB k \<noteq> Map.empty} = (\<lambda>a. af_prefix vrf peer @ af_str a) ` set (ni_afs i) \<and>
     (\<forall>a\<in>set (ni_afs i). v' CONFIG_DB (af_prefix vrf peer @ af_str a) ''admin_status'' = Some ''true'') \<and>
     (\<forall>db k. db = CONFIG_DB \<and> (k = neighbor_key vrf peer \<or> starts_with (af_prefix vrf peer) k) \<or> v' db k = v db k)"

lemma af_prefix_apart [simp]: "\<not> starts_with (af_prefix vrf peer) (neighbor_key vrf peer)"
  by (simp add: starts_with_iff af_prefix_def neighbor_key_def)

lemma neighbor_batch_prog: "batch_prog P (neighbor_batch P key pre i cur)"
  unfolding neighbor_batch_def Let_def b_set_or_clear_def drop_af_def by (intro bp_intros)

lemma drop_af_if: "drop_af P pre desired =
    (\<lambda>key. if starts_with pre key \<and> key \<notin> (@) pre ` set desired then b_del P CONFIG_DB key else ret ())"
  by (auto simp: fun_eq_iff drop_af_def starts_with_iff strip_prefix_None image_iff split: option.split)

text \<open>The neighbor row after the first write and the optional fields.\<close>

lemma neighbor_row:
  "v_patches key (map (\<lambda>(f, v). (f, Some v)) (drop 3 (neighbor_fields i)))
     (v_hset CONFIG_DB key [(''asn'', show_nat (ni_remote_asn i)), (''bfd'', bool_str (ni_bfd i)), (''admin_status'', admin_str (ni_admin i))] v)
     CONFIG_DB key f = (case map_of (neighbor_fields i) f of Some x \<Rightarrow> x | None \<Rightarrow> v CONFIG_DB key f)"
  by (subst v_patches_field) (simp_all add: neighbor_fields_def)

context redis_store
begin

lemma wp_b_patches:
  assumes "ok (b_plat b)" "\<And>b'. ok (b_plat b') \<Longrightarrow> view (b_plat b') = v_patches key (map (\<lambda>(f, v). (f, Some v)) fs) (view (b_plat b)) \<Longrightarrow> Q () b'"
  shows "wp (for_each (b_set_or_clear P key) fs) Q (\<lambda>_ _. True) b"
proof (rule wp_for_each [where I = "\<lambda>ys b'. ok (b_plat b') \<and>
    view (b_plat b') = v_patches key (map (\<lambda>(f, v). (f, Some v)) ys) (view (b_plat b))"])
  fix ys zs and z :: "string \<times> string option" and b' :: "'s batch"
  assume b': "ok (b_plat b') \<and> view (b_plat b') = v_patches key (map (\<lambda>(f, v). (f, Some v)) ys) (view (b_plat b))"
  obtain f v where z: "z = (f, v)" by (cases z)
  show "wp (b_set_or_clear P key z) (\<lambda>_ b'. ok (b_plat b') \<and>
      view (b_plat b') = v_patches key (map (\<lambda>(f, v). (f, Some v)) (ys @ [z])) (view (b_plat b))) (\<lambda>_ _. True) b'"
    unfolding z b_set_or_clear_def prod.case
    by (intro wp_case_option wp_b_hset wp_b_hdel) (use b' in \<open>auto simp: v_patches_snoc v_patch_def\<close>)
qed (use assms in auto)

lemma wp_neighbor_batch:
  assumes "ok s" "set cur = {k. view s CONFIG_DB k \<noteq> Map.empty \<and> starts_with (af_prefix vrf peer) k}"
  shows "wp (neighbor_batch P (neighbor_key vrf peer) (af_prefix vrf peer) i cur)
    (\<lambda>_ b. neighbor_done vrf peer i (view s) (view (b_plat b))) (\<lambda>_ _. True) (new_batch s)"
proof -
  let ?key = "neighbor_key vrf peer" and ?pre = "af_prefix vrf peer" and ?d = "sort_dedup (map af_str (ni_afs i))"
  have fs: "[(''name'', ni_name i), (''peer_group_name'', ni_peer_group i), (''local_addr'', ni_local_addr i),
              (''keepalive'', map_option show_nat (ni_keepalive i)), (''holdtime'', map_option show_nat (ni_holdtime i)),
              (''ebgp_multihop_ttl'', map_option show_nat (ni_ttl i))] = drop 3 (neighbor_fields i)"
    by (simp add: neighbor_fields_def)
  show ?thesis
    unfolding neighbor_batch_def Let_def fs drop_af_if
  proof (rule wp_bnd, rule wp_b_hset, simp add: new_batch_def assms(1), rule wp_bnd, rule wp_b_patches, assumption, rule wp_bnd,
      rule wp_b_del_each [where f = "\<lambda>k. k"], assumption, rule wp_b_hset_each [where c = "\<lambda>_. True" and f = "(@) ?pre", simplified if_True], assumption)
    fix b1 b2 b3 b4 :: "'s batch"
    assume b1: "view (b_plat b1) = v_hset CONFIG_DB ?key [(''asn'', show_nat (ni_remote_asn i)), (''bfd'', bool_str (ni_bfd i)),
        (''admin_status'', admin_str (ni_admin i))] (view (b_plat (new_batch s)))"
      and b2: "view (b_plat b2) = v_patches ?key (map (\<lambda>(f, v). (f, Some v)) (drop 3 (neighbor_fields i))) (view (b_plat b1))"
      and b3: "view (b_plat b3) = v_drop CONFIG_DB (\<lambda>k. \<exists>x\<in>set cur. (starts_with ?pre x \<and> x \<notin> (@) ?pre ` set ?d) \<and> k = x) (view (b_plat b2))"
      and b4: "view (b_plat b4) = v_put CONFIG_DB (\<lambda>k. \<exists>x\<in>set ?d. True \<and> k = ?pre @ x) [(''admin_status'', ''true'')] (view (b_plat b3))"
    have other2: "view (b_plat b2) db k = view s db k" if "(db, k) \<noteq> (CONFIG_DB, ?key)" for db k
      using that by (simp add: b2 b1 v_patches_other new_batch_def)
    have row2: "view (b_plat b2) CONFIG_DB ?key f = (case map_of (neighbor_fields i) f of Some x \<Rightarrow> x | None \<Rightarrow> view s CONFIG_DB ?key f)" for f
      by (simp add: b2 b1 neighbor_row new_batch_def)
    have key4: "view (b_plat b4) CONFIG_DB ?key = view (b_plat b2) CONFIG_DB ?key"
      using af_prefix_apart [of vrf peer] by (auto simp: b4 b3 starts_with_iff)
    have af4: "view (b_plat b4) CONFIG_DB k = (if k \<in> (@) ?pre ` set ?d then view s CONFIG_DB k ++ [''admin_status'' \<mapsto> ''true''] else Map.empty)"
      if k: "starts_with ?pre k" for k
    proof -
      have "k \<noteq> ?key" using k by auto
      then have "view (b_plat b2) CONFIG_DB k = view s CONFIG_DB k" using other2 by simp
      then show ?thesis using k assms(2) by (auto simp: b4 b3)
    qed
    have "view (b_plat b4) db k = view s db k" if "\<not> (db = CONFIG_DB \<and> (k = ?key \<or> starts_with ?pre k))" for db k
      using that other2 [of db k] by (auto simp: b4 b3 starts_with_iff)
    moreover have "{k. starts_with ?pre k \<and> view (b_plat b4) CONFIG_DB k \<noteq> Map.empty} = (\<lambda>a. ?pre @ af_str a) ` set (ni_afs i)"
      using af4 by (auto simp: starts_with_iff map_add_def fun_eq_iff split: if_splits)
    moreover have "view (b_plat b4) CONFIG_DB (?pre @ af_str a) ''admin_status'' = Some ''true''" if "a \<in> set (ni_afs i)" for a
      using af4 [of "?pre @ af_str a"] that by (simp add: starts_with_iff)
    ultimately show "neighbor_done vrf peer i (view s) (view (b_plat b4))"
      unfolding neighbor_done_def key4 using row2 by blast
  qed simp_all
qed

end

context full_store
begin

text \<open>A step whose result is known.\<close>

lemma wp_known: "m s = (Inr x, s') \<Longrightarrow> Q x s' \<Longrightarrow> wp m Q E s"
  by (simp add: wp_def)

lemma put_neighbor_wp:
  assumes "ok s" "mode_for_writes P s = (Inr Frrcfgd, s0)" "CHR ''*'' \<notin> set (af_prefix vrf peer)" "plain_glob (af_prefix vrf peer)"
  shows "wp (put_neighbor P vrf peer i) (\<lambda>_ s'. neighbor_done vrf peer i (view s) (view s')) (\<lambda>_ s'. view s' = view s) s"
proof -
  have rd: "reads (mode_for_writes P)" unfolding mode_for_writes_def by (intro pure_io)
  have s0: "ok s0" "view s0 = view s" using readsD [OF rd assms(1,2)] by auto
  have ne: "Frrcfgd \<noteq> Legacy" by simp
  have key: "''BGP_NEIGHBOR|'' @ vrf @ ''|'' @ peer = neighbor_key vrf peer" by (simp add: neighbor_key_def)
  show ?thesis
    unfolding put_neighbor_def upsert_neighbor_def Let_def key
  proof (rule wp_bnd, rule wp_known, rule assms(2), rule wp_bnd, rule wp_lift, unfold if_not_P [OF ne], rule wp_bnd, rule wp_guard,
      rule wp_bnd, rule wp_map_err, rule wp_exists [OF s0(1)], rule wp_bnd, rule wp_guard, rule wp_bnd, rule wp_guard, rule wp_bnd,
      rule wp_map_err, rule wp_exists, assumption, rule wp_bnd, rule wp_guard, rule wp_bnd, rule wp_guard, rule wp_bnd,
      rule wp_keys_of_prefix [OF _ assms(3,4)], assumption, rule wp_map_err, rule wp_apply_batch [OF neighbor_batch_prog], assumption)
    fix e inst cur s1 s2 s3
    assume v: "view s1 = view s0" "view s2 = view s1" "ok s3" "view s3 = view s2"
      and cur: "set cur = {k. view s2 CONFIG_DB k \<noteq> Map.empty \<and> starts_with (af_prefix vrf peer) k}"
    have "set cur = {k. view s3 CONFIG_DB k \<noteq> Map.empty \<and> starts_with (af_prefix vrf peer) k}" using cur v by simp
    from wp_neighbor_batch [OF v(3) this, of i] show "wp (neighbor_batch P (neighbor_key vrf peer) (af_prefix vrf peer) i cur)
        (\<lambda>_ b. neighbor_done vrf peer i (view s) (view (b_plat b))) (\<lambda>_ _. True) (new_batch s3)"
      using v s0 by simp
  qed (simp_all add: s0)
qed

end

section \<open>The property\<close>

text \<open>C32. A PUT of a neighbor where FRR is managed by frrcfgd, for a VRF and peer free of the glob characters of redis, on a platform
  where no read and no scan of the call fails. When \<open>put_neighbor\<close> succeeds, every setting of the
  neighbor row is the one of the request, a setting the request leaves out is gone, the address families with a row are exactly the
  requested ones and they are active, and no other row of any database has changed. When it is refused, every database is as it was;
  so it is when a write fails and every command after that succeeds, which the best-effort rollback needs. The BGP schema of bgpcfgd
  is not covered.\<close>

theorem bgp_put_neighbor_atomic:
  assumes "full_store P view ok up" "ok s" "mode_for_writes P s = (Inr Frrcfgd, s0)"
    and "CHR ''*'' \<notin> set (af_prefix vrf peer)" "plain_glob (af_prefix vrf peer)" "put_neighbor P vrf peer i s = (r, s')"
  shows "case r of Inr _ \<Rightarrow> neighbor_done vrf peer i (view s) (view s') | Inl _ \<Rightarrow> view s' = view s"
proof -
  note w = full_store.put_neighbor_wp [OF assms(1-5), of i]
  show ?thesis using wp_okD [OF w] wp_errD [OF w] assms(6) by (cases r) auto
qed

definition demo_frr :: mem where
  "demo_frr = mem_seed CONFIG_DB ''BGP_NEIGHBOR_AF|default|10.0.0.2|ipv4_unicast'' [(''admin_status'', ''true'')]
     (mem_seed CONFIG_DB ''BGP_NEIGHBOR|default|10.0.0.2'' [(''asn'', ''65001''), (''name'', ''spine'')]
     (mem_seed CONFIG_DB ''BGP_GLOBALS|default'' [(''local_asn'', ''65000'')]
     (mem_seed CONFIG_DB ''DEVICE_METADATA|localhost'' [(''frr_mgmt_framework_config'', ''true'')]
     (mem_seed CONFIG_DB ''FEATURE|bgp'' [(''state'', ''enabled'')] mem_new))))"

definition demo_neighbor :: neighbor_input where
  "demo_neighbor = \<lparr>ni_remote_asn = 65002, ni_name = None, ni_peer_group = None, ni_local_addr = None, ni_keepalive = None,
     ni_holdtime = None, ni_ttl = None, ni_bfd = True, ni_admin = Up, ni_afs = [Ipv6Unicast]\<rparr>"

lemma demo_frr_ok: "mem_ok demo_frr"
  by (simp add: demo_frr_def mem_seed_ok)

lemma demo_frr_dbs: "m_dbs demo_frr 4 = [(''FEATURE|bgp'', [(''state'', ''enabled'')]),
    (''DEVICE_METADATA|localhost'', [(''frr_mgmt_framework_config'', ''true'')]), (''BGP_GLOBALS|default'', [(''local_asn'', ''65000'')]),
    (''BGP_NEIGHBOR|default|10.0.0.2'', [(''asn'', ''65001''), (''name'', ''spine'')]),
    (''BGP_NEIGHBOR_AF|default|10.0.0.2|ipv4_unicast'', [(''admin_status'', ''true'')])]"
  by (simp add: demo_frr_def run)

lemma demo_frr_mode: "\<exists>s'. mode_for_writes mem_platform demo_frr = (Inr Frrcfgd, s') \<and> m_dbs s' = m_dbs demo_frr \<and> m_fail_at s' = None"
proof -
  have v: "parse_sonic_version [] = None" by (simp add: parse_sonic_version_def lines_def run)
  show ?thesis
  by (simp add: mode_for_writes_def v current_def gather_def io_of_def demo_frr_def feature_entry_def command_lines_def mem_read_file_def
    mem_run_def ok_output_def assemble_def bgp_mode_of_def bgp_available_def has_feature_def eq_ignore_case_def run)
qed

lemma demo_frr_put: "\<exists>s'. put_neighbor mem_platform ''default'' ''10.0.0.2'' demo_neighbor demo_frr = (Inr (), s')"
proof -
  obtain s1 where c: "mode_for_writes mem_platform demo_frr = (Inr Frrcfgd, s1)" "m_dbs s1 = m_dbs demo_frr" "m_fail_at s1 = None"
    using demo_frr_mode by blast
  have k: "check_neighbor_common ''default'' demo_neighbor = Inr ()"
    by (simp add: check_neighbor_common_def check_bgp_vrf_def valid_vrf_def check_asn_def check_timers_def demo_neighbor_def)
  have p: "valid_peer ''10.0.0.2'' True" by (simp add: valid_peer_def is_ip_def ip_run run)
  have g: "ni_peer_group demo_neighbor = None" by (simp add: demo_neighbor_def)
  have "\<exists>b. neighbor_batch mem_platform ''BGP_NEIGHBOR|default|10.0.0.2'' ''BGP_NEIGHBOR_AF|default|10.0.0.2|'' demo_neighbor
      [''BGP_NEIGHBOR_AF|default|10.0.0.2|ipv4_unicast''] \<lparr>b_plat = s1, b_snaps = []\<rparr> = (Inr (), b)"
    by (simp add: neighbor_batch_def demo_neighbor_def b_set_or_clear_def drop_af_def c demo_frr_dbs sort_dedup_def run)
  then obtain b where b: "neighbor_batch mem_platform ''BGP_NEIGHBOR|default|10.0.0.2'' ''BGP_NEIGHBOR_AF|default|10.0.0.2|'' demo_neighbor
      [''BGP_NEIGHBOR_AF|default|10.0.0.2|ipv4_unicast''] \<lparr>b_plat = s1, b_snaps = []\<rparr> = (Inr (), b)" by blast
  show ?thesis
    by (simp add: put_neighbor_def upsert_neighbor_def c k p g b demo_frr_dbs af_prefix_def run)
qed

theorem bgp_put_neighbor_atomic_witness:
  "\<exists>s'. put_neighbor mem_platform ''default'' ''10.0.0.2'' demo_neighbor demo_frr = (Inr (), s') \<and>
     mem_view s' CONFIG_DB ''BGP_NEIGHBOR|default|10.0.0.2'' ''name'' = None"
proof -
  obtain s' where x: "put_neighbor mem_platform ''default'' ''10.0.0.2'' demo_neighbor demo_frr = (Inr (), s')" using demo_frr_put by blast
  obtain s0 where m: "mode_for_writes mem_platform demo_frr = (Inr Frrcfgd, s0)" using demo_frr_mode by blast
  have "neighbor_done ''default'' ''10.0.0.2'' demo_neighbor (mem_view demo_frr) (mem_view s')"
    using bgp_put_neighbor_atomic [OF mem_full.full_store_axioms demo_frr_ok m _ _ x] by (simp add: af_prefix_def)
  then have "mem_view s' CONFIG_DB (neighbor_key ''default'' ''10.0.0.2'') ''name'' = None"
    by (simp add: neighbor_done_def neighbor_fields_def demo_neighbor_def)
  with x show ?thesis by (simp add: neighbor_key_def)
qed

end
