(* ===== verification/StpProps.thy ===== *)
theory StpProps
  imports Stp MemPlatform
begin

text \<open>
  The property of spanning tree: a PUT of the global settings that succeeds leaves legal timers in the stored row, and switches
  spanning tree on for every VLAN when it was off.
\<close>

section \<open>The batch\<close>

definition row_has :: "row \<Rightarrow> (string \<rightharpoonup> string) \<Rightarrow> bool" where
  "row_has fs m \<longleftrightarrow> (\<forall>(f, x)\<in>set fs. m f = Some x)"

lemma stp_fields_distinct [simp]: "distinct (map fst (stp_global_fields mode e))"
  by (simp add: stp_global_fields_def)

lemma row_has_put: "distinct (map fst fs) \<Longrightarrow> row_has fs (m ++ map_of (rev fs))"
  by (auto simp: row_has_def map_add_Some_iff map_of_rev_distinct)

context redis_store
begin

lemma wp_seed_vlans:
  assumes "ok (b_plat b)" "row_has fs (view (b_plat b) CONFIG_DB ''STP|GLOBAL'')"
    and "\<And>b'. ok (b_plat b') \<Longrightarrow> row_has fs (view (b_plat b') CONFIG_DB ''STP|GLOBAL'') \<Longrightarrow>
      \<forall>name. ''VLAN|'' @ name \<in> set ks \<and> name \<noteq> [] \<longrightarrow> view (b_plat b') CONFIG_DB (''STP_VLAN|'' @ name) ''enabled'' = Some ''true'' \<Longrightarrow> Q () b'"
  shows "wp (for_each (seed_vlan P) ks) Q (\<lambda>_ _. True) b"
proof (rule wp_for_each [where I = "\<lambda>ys b. ok (b_plat b) \<and> row_has fs (view (b_plat b) CONFIG_DB ''STP|GLOBAL'') \<and>
    (\<forall>name. ''VLAN|'' @ name \<in> set ys \<and> name \<noteq> [] \<longrightarrow> view (b_plat b) CONFIG_DB (''STP_VLAN|'' @ name) ''enabled'' = Some ''true'')"])
  fix ys zs z and b' :: "'s batch"
  assume b': "ok (b_plat b') \<and> row_has fs (view (b_plat b') CONFIG_DB ''STP|GLOBAL'') \<and>
    (\<forall>name. ''VLAN|'' @ name \<in> set ys \<and> name \<noteq> [] \<longrightarrow> view (b_plat b') CONFIG_DB (''STP_VLAN|'' @ name) ''enabled'' = Some ''true'')"
  show "wp (seed_vlan P z) (\<lambda>_ b. ok (b_plat b) \<and> row_has fs (view (b_plat b) CONFIG_DB ''STP|GLOBAL'') \<and>
    (\<forall>name. ''VLAN|'' @ name \<in> set (ys @ [z]) \<and> name \<noteq> [] \<longrightarrow> view (b_plat b) CONFIG_DB (''STP_VLAN|'' @ name) ''enabled'' = Some ''true''))
    (\<lambda>_ _. True) b'"
  proof (cases "key_suffix z ''VLAN|''")
    case None
    then have "\<forall>name. name \<noteq> [] \<longrightarrow> z \<noteq> ''VLAN|'' @ name" by (metis key_suffix_Some option.distinct(1))
    with b' None show ?thesis by (auto simp: seed_vlan_def intro!: wp_ret)
  next
    case (Some name)
    then have z: "z = ''VLAN|'' @ name" by (simp add: key_suffix_Some)
    show ?thesis
      unfolding seed_vlan_def Some option.case by (rule wp_b_hset) (use b' in \<open>auto simp: z v_hset_def\<close>)
  qed
qed (use assms in auto)

lemma wp_seed_ports:
  assumes "ok (b_plat b)" "\<And>b'. ok (b_plat b') \<Longrightarrow> (\<forall>key. \<not> starts_with ''STP_PORT|'' key \<longrightarrow>
      view (b_plat b') CONFIG_DB key = view (b_plat b) CONFIG_DB key) \<Longrightarrow> Q () b'"
  shows "wp (for_each (seed_port P) ps) Q (\<lambda>_ _. True) b"
proof (rule wp_for_each [where I = "\<lambda>ys b'. ok (b_plat b') \<and> (\<forall>key. \<not> starts_with ''STP_PORT|'' key \<longrightarrow>
      view (b_plat b') CONFIG_DB key = view (b_plat b) CONFIG_DB key)"])
  fix ys zs z and b' :: "'s batch"
  assume "ok (b_plat b') \<and> (\<forall>key. \<not> starts_with ''STP_PORT|'' key \<longrightarrow> view (b_plat b') CONFIG_DB key = view (b_plat b) CONFIG_DB key)"
  then show "wp (seed_port P z) (\<lambda>_ b'. ok (b_plat b') \<and> (\<forall>key. \<not> starts_with ''STP_PORT|'' key \<longrightarrow>
      view (b_plat b') CONFIG_DB key = view (b_plat b) CONFIG_DB key)) (\<lambda>_ _. True) b'"
    unfolding seed_port_def by (intro wp_b_hset) (auto simp: starts_with_iff v_hset_def)
qed (use assms in auto)

definition stp_post :: "stp_values \<Rightarrow> bool \<Rightarrow> string list \<Rightarrow> 's \<Rightarrow> bool" where
  "stp_post e enabling ks s \<longleftrightarrow> ok s \<and>
     (\<exists>mode. row_has (stp_global_fields mode e) (view s CONFIG_DB ''STP|GLOBAL'')) \<and>
     (enabling \<longrightarrow> (\<forall>name. ''VLAN|'' @ name \<in> set ks \<and> name \<noteq> [] \<longrightarrow>
        view s CONFIG_DB (''STP_VLAN|'' @ name) ''enabled'' = Some ''true''))"

lemma wp_stp_batch:
  assumes "ok s"
  shows "wp (stp_global_batch P i e enabling ks l2) (\<lambda>_ b. stp_post e enabling ks (b_plat b)) (\<lambda>_ _. True) (new_batch s)"
proof -
  let ?mode = "if sg_mode i = Mst then ''mst'' else ''pvst''"
  let ?row = "\<lambda>b :: 's batch. row_has (stp_global_fields ?mode e) (view (b_plat b) CONFIG_DB ''STP|GLOBAL'')"
  show ?thesis
    unfolding stp_global_batch_def Let_def
  proof (rule wp_bnd, rule wp_b_hset)
    show "ok (b_plat (new_batch s))" using assms by (simp add: new_batch_def)
    fix b1 :: "'s batch" assume b1: "ok (b_plat b1)" "view (b_plat b1) = v_hset CONFIG_DB ''STP|GLOBAL'' (stp_global_fields ?mode e) (view (b_plat (new_batch s)))"
    then have r1: "?row b1" by (simp add: row_has_put)
    have m: "wp (if ?mode = ''mst'' then b_hset P CONFIG_DB ''STP_MST|GLOBAL'' (mst_fields i) else ret ())
        (\<lambda>_ b. ok (b_plat b) \<and> ?row b) (\<lambda>_ _. True) b1"
      by (intro wp_if wp_b_hset wp_ret) (use b1 r1 in auto)
    show "wp (bnd (if ?mode = ''mst'' then b_hset P CONFIG_DB ''STP_MST|GLOBAL'' (mst_fields i) else ret ()) (\<lambda>_.
        if enabling then bnd (for_each (seed_vlan P) ks) (\<lambda>_. for_each (seed_port P) l2) else ret ()))
        (\<lambda>_ b. stp_post e enabling ks (b_plat b)) (\<lambda>_ _. True) b1"
    proof (rule wp_bnd, rule wp_conseq [OF m])
      fix b2 :: "'s batch" assume b2: "ok (b_plat b2) \<and> ?row b2"
      show "wp (if enabling then bnd (for_each (seed_vlan P) ks) (\<lambda>_. for_each (seed_port P) l2) else ret ())
          (\<lambda>_ b. stp_post e enabling ks (b_plat b)) (\<lambda>_ _. True) b2"
      proof (cases enabling)
        case False
        with b2 show ?thesis by (auto simp: stp_post_def intro!: wp_ret)
      next
        case True
        show ?thesis
          unfolding if_P [OF True]
        proof (intro wp_bnd wp_seed_vlans [where fs = "stp_global_fields ?mode e"] wp_seed_ports)
          fix b3 b4 :: "'s batch"
          assume "?row b3" "\<forall>name. ''VLAN|'' @ name \<in> set ks \<and> name \<noteq> [] \<longrightarrow>
              view (b_plat b3) CONFIG_DB (''STP_VLAN|'' @ name) ''enabled'' = Some ''true''"
            and "ok (b_plat b4)" "\<forall>key. \<not> starts_with ''STP_PORT|'' key \<longrightarrow> view (b_plat b4) CONFIG_DB key = view (b_plat b3) CONFIG_DB key"
          then show "stp_post e enabling ks (b_plat b4)"
            unfolding stp_post_def by (intro conjI exI [of _ ?mode]) (simp_all add: starts_with_iff)
        qed (use b2 in auto)
      qed
    qed simp
  qed simp
qed

end

lemma stp_batch_prog: "batch_prog P (stp_global_batch P i e enabling ks l2)"
  unfolding stp_global_batch_def Let_def seed_vlan_def seed_port_def by (intro bp_intros)

lemma check_stp_values_ok:
  assumes "check_stp_values i e = Inr u"
  shows "4 \<le> sv_forward_delay e" "sv_forward_delay e \<le> 30" "1 \<le> sv_hello e" "sv_hello e \<le> 10" "6 \<le> sv_max_age e" "sv_max_age e \<le> 40"
    "2 * (sv_hello e + 1) \<le> sv_max_age e" "sv_max_age e \<le> 2 * (sv_forward_delay e - 1)"
    "sv_priority e \<le> 61440" "4096 dvd sv_priority e" "5 \<le> sv_rootguard e" "sv_rootguard e \<le> 600"
  using assms by (auto simp: check_stp_values_def check_timer_relation_def check_bridge_priority_def dvd_eq_mod_eq_0)

context query_store
begin

lemma reads_l2 [pure_io]: "reads (l2_interfaces P)"
  by (simp add: l2_interfaces_def pure_io)

lemma reads_max_instances [pure_io]: "reads (max_stp_instances P)"
  by (simp add: max_stp_instances_def pure_io)

lemma stp_put_wp:
  assumes "ok s" "sg_mode i \<noteq> Disabled"
  shows "wp (stp_put_global P i) (\<lambda>_ s'. \<exists>e u ks. check_stp_values i e = Inr u \<and>
      stp_post e (view s CONFIG_DB ''STP|GLOBAL'' = Map.empty) ks s' \<and>
      set ks = {k. view s CONFIG_DB k \<noteq> Map.empty \<and> starts_with ''VLAN|'' k}) (\<lambda>_ _. True) s"
  unfolding stp_put_global_def stp_require_def if_not_P [OF assms(2)] Let_def
proof (rule wp_bnd, rule wp_bnd, rule wp_current [OF assms(1)], rule wp_bnd, rule wp_guard, rule wp_ret, rule wp_bnd, rule wp_guard,
    rule wp_bnd, rule wp_map_err, rule wp_hgetall, assumption, rule wp_bnd, rule wp_lift, rule wp_bnd, rule wp_map_err,
    rule wp_scan_prefix [where pre = "''VLAN|''", simplified append.simps], assumption)
  fix p cur u ks and s1 s2 s3
  assume s1: "ok s1" "view s1 = view s" and s2: "ok s2" "view s2 = view s1" "map_of cur = view s1 CONFIG_DB ''STP|GLOBAL''"
    and c: "smap_err BadRequest (check_stp_values i (stp_effective i cur)) = Inr u"
    and s3: "ok s3" "view s3 = view s2" and ks: "set ks = {k. view s2 CONFIG_DB k \<noteq> Map.empty \<and> starts_with ''VLAN|'' k}"
  let ?e = "stp_effective i cur"
  have en: "cur = [] \<longleftrightarrow> view s CONFIG_DB ''STP|GLOBAL'' = Map.empty"
    using s2(3) s1(2) by (metis map_of.simps(1) map_of_eq_empty_iff)
  show "wp (bnd (if cur = [] then bnd (max_stp_instances P) (\<lambda>limit.
              guard (length ks \<le> limit)
                (Unprocessable (''enabling spanning tree needs '' @ show_nat (length ks)
                  @ '' STP instances but the platform supports '' @ show_nat limit
                  @ '' (STATE_DB STP_TABLE|GLOBAL max_stp_inst)'')))
          else ret ()) (\<lambda>_.
     bnd (l2_interfaces P) (\<lambda>l2.
     map_err Redis (apply_batch P (stp_global_batch P i ?e (cur = []) ks l2)))))
     (\<lambda>_ s'. \<exists>e u ks. check_stp_values i e = Inr u \<and>
      stp_post e (view s CONFIG_DB ''STP|GLOBAL'' = Map.empty) ks s' \<and>
      set ks = {k. view s CONFIG_DB k \<noteq> Map.empty \<and> starts_with ''VLAN|'' k}) (\<lambda>_ _. True) s3"
  proof (rule wp_bnd, rule wp_reads [OF _ s3(1)])
    show "reads (if cur = [] then bnd (max_stp_instances P) (\<lambda>limit.
              guard (length ks \<le> limit)
                (Unprocessable (''enabling spanning tree needs '' @ show_nat (length ks)
                  @ '' STP instances but the platform supports '' @ show_nat limit
                  @ '' (STATE_DB STP_TABLE|GLOBAL max_stp_inst)'')))
          else ret ())" by (intro pure_io)
  next
    fix u2 s4 assume s4: "ok s4"
    show "wp (bnd (l2_interfaces P) (\<lambda>l2. map_err Redis (apply_batch P (stp_global_batch P i ?e (cur = []) ks l2))))
       (\<lambda>_ s'. \<exists>e u ks. check_stp_values i e = Inr u \<and>
        stp_post e (view s CONFIG_DB ''STP|GLOBAL'' = Map.empty) ks s' \<and>
        set ks = {k. view s CONFIG_DB k \<noteq> Map.empty \<and> starts_with ''VLAN|'' k}) (\<lambda>_ _. True) s4"
    proof (rule wp_bnd, rule wp_reads [OF reads_l2 s4], rule wp_map_err, rule wp_apply_batch [OF stp_batch_prog])
      fix l2 s5 assume s5: "ok s5"
      show "wp (stp_global_batch P i ?e (cur = []) ks l2) (\<lambda>_ b. \<exists>e u ks. check_stp_values i e = Inr u \<and>
        stp_post e (view s CONFIG_DB ''STP|GLOBAL'' = Map.empty) ks (b_plat b) \<and>
        set ks = {k. view s CONFIG_DB k \<noteq> Map.empty \<and> starts_with ''VLAN|'' k}) (\<lambda>_ _. True) (new_batch s5)"
        by (rule wp_conseq [OF wp_stp_batch [OF s5]]) (use c en ks s1 s2 in \<open>auto intro!: exI [of _ ?e] exI [of _ ks]\<close>)
    qed simp_all
  qed simp_all
qed simp_all

end

section \<open>The property\<close>

text \<open>C33. Legal timers, and no VLAN left out. When \<open>stp_put_global\<close> succeeds with spanning tree on, whatever the request gave and
  whatever was stored before, the timers of the stored row are in range and keep the IEEE relation, the bridge priority is a multiple
  of 4096 up to 61440, and the root guard timeout is in range. When spanning tree was off before, it is on for every VLAN of the switch.\<close>

theorem stp_put_global_legal:
  assumes "query_store P view ok up" "ok s" "sg_mode i \<noteq> Disabled" "stp_put_global P i s = (Inr (), s')"
  shows "(\<exists>fd hello age prio root. let g = view s' CONFIG_DB ''STP|GLOBAL'' in
       g ''forward_delay'' = Some (show_nat fd) \<and> g ''hello_time'' = Some (show_nat hello) \<and> g ''max_age'' = Some (show_nat age) \<and>
       g ''priority'' = Some (show_nat prio) \<and> g ''rootguard_timeout'' = Some (show_nat root) \<and>
       fd \<in> {4..30} \<and> hello \<in> {1..10} \<and> age \<in> {6..40} \<and> 2 * (hello + 1) \<le> age \<and> age \<le> 2 * (fd - 1) \<and>
       prio \<le> 61440 \<and> 4096 dvd prio \<and> root \<in> {5..600}) \<and>
     (view s CONFIG_DB ''STP|GLOBAL'' = Map.empty \<longrightarrow>
       (\<forall>name. name \<noteq> [] \<and> view s CONFIG_DB (''VLAN|'' @ name) \<noteq> Map.empty \<longrightarrow>
          view s' CONFIG_DB (''STP_VLAN|'' @ name) ''enabled'' = Some ''true''))"
proof -
  have store: "redis_store P view ok" using assms(1) by (simp add: query_store_def one_fault_store_def)
  note post_def = redis_store.stp_post_def [OF store]
  obtain e u ks where c: "check_stp_values i e = Inr u"
    and post: "redis_store.stp_post view ok e (view s CONFIG_DB ''STP|GLOBAL'' = Map.empty) ks s'"
    and ks: "set ks = {k. view s CONFIG_DB k \<noteq> Map.empty \<and> starts_with ''VLAN|'' k}"
    using wp_okD [OF query_store.stp_put_wp [OF assms(1-3)] assms(4)] by blast
  from post obtain mode where r: "row_has (stp_global_fields mode e) (view s' CONFIG_DB ''STP|GLOBAL'')"
    by (auto simp: post_def)
  show ?thesis
  proof (intro conjI)
    show "\<exists>fd hello age prio root. let g = view s' CONFIG_DB ''STP|GLOBAL'' in
       g ''forward_delay'' = Some (show_nat fd) \<and> g ''hello_time'' = Some (show_nat hello) \<and> g ''max_age'' = Some (show_nat age) \<and>
       g ''priority'' = Some (show_nat prio) \<and> g ''rootguard_timeout'' = Some (show_nat root) \<and>
       fd \<in> {4..30} \<and> hello \<in> {1..10} \<and> age \<in> {6..40} \<and> 2 * (hello + 1) \<le> age \<and> age \<le> 2 * (fd - 1) \<and>
       prio \<le> 61440 \<and> 4096 dvd prio \<and> root \<in> {5..600}"
      using r check_stp_values_ok [OF c]
      by (intro exI [of _ "sv_forward_delay e"] exI [of _ "sv_hello e"] exI [of _ "sv_max_age e"] exI [of _ "sv_priority e"]
          exI [of _ "sv_rootguard e"]) (simp add: row_has_def stp_global_fields_def Let_def)
    show "view s CONFIG_DB ''STP|GLOBAL'' = Map.empty \<longrightarrow>
       (\<forall>name. name \<noteq> [] \<and> view s CONFIG_DB (''VLAN|'' @ name) \<noteq> Map.empty \<longrightarrow>
          view s' CONFIG_DB (''STP_VLAN|'' @ name) ''enabled'' = Some ''true'')"
      using post ks unfolding post_def by (auto simp: starts_with_iff)
  qed
qed

definition demo_stp :: mem where
  "demo_stp = mem_seed CONFIG_DB ''VLAN|Vlan10'' [(''vlanid'', ''10'')]
     (mem_seed CONFIG_DB ''FEATURE|stp'' [(''state'', ''enabled'')] mem_new)"

definition demo_stp_input :: stp_global_input where
  "demo_stp_input = \<lparr>sg_mode = Pvst, sg_rootguard = None, sg_forward_delay = Some 12, sg_hello = None, sg_max_age = None,
     sg_priority = Some 4096, sg_region = None, sg_revision = None, sg_max_hops = None\<rparr>"

lemma demo_stp_ok: "mem_ok demo_stp"
  by (simp add: demo_stp_def mem_seed_ok)

lemma demo_stp_dbs: "m_dbs demo_stp 4 = [(''FEATURE|stp'', [(''state'', ''enabled'')]), (''VLAN|Vlan10'', [(''vlanid'', ''10'')])]"
  "db \<noteq> 4 \<Longrightarrow> m_dbs demo_stp db = []"
  by (simp_all add: demo_stp_def run)

lemma demo_stp_current: "\<exists>p s'. (current mem_platform :: (mem, write_error, probe) io) demo_stp = (Inr p, s') \<and>
    stp_supported p \<and> m_dbs s' = m_dbs demo_stp \<and> m_fail_at s' = None"
proof -
  have v: "parse_sonic_version [] = None" by (simp add: parse_sonic_version_def lines_def run)
  show ?thesis
  by (simp add: v current_def gather_def io_of_def demo_stp_def feature_entry_def command_lines_def mem_read_file_def mem_run_def
    ok_output_def assemble_def stp_supported_def has_feature_def run)
qed

lemma demo_stp_values: "stp_effective demo_stp_input [] = \<lparr>sv_forward_delay = 12, sv_hello = 2, sv_max_age = 20, sv_priority = 4096,
    sv_rootguard = 30\<rparr>"
  by (simp add: stp_effective_def effective_def demo_stp_input_def num32_def parse_num_def field_def opt_else_def opt_or_def
      DEF_HELLO_def DEF_MAX_AGE_def DEF_ROOTGUARD_def)

lemma demo_stp_check: "check_stp_values demo_stp_input (stp_effective demo_stp_input []) = Inr ()"
  by (simp add: demo_stp_values check_stp_values_def check_timer_relation_def check_bridge_priority_def) (simp add: demo_stp_input_def)

lemma demo_stp_put: "\<exists>s'. stp_put_global mem_platform demo_stp_input demo_stp = (Inr (), s')"
proof -
  obtain p s1 where c: "(current mem_platform :: (mem, write_error, probe) io) demo_stp = (Inr p, s1)" "stp_supported p"
    "m_dbs s1 = m_dbs demo_stp" "m_fail_at s1 = None"
    using demo_stp_current by blast
  have i: "sg_mode demo_stp_input = Pvst" by (simp add: demo_stp_input_def)
  have m: "max_stp_instances mem_platform s1 = (Inr DEF_MAX_STP_INST :: write_error + nat, s1)"
    by (simp add: max_stp_instances_def c demo_stp_dbs parse_num_def opt_or_def run)
  have l: "l2_interfaces mem_platform s1 = (Inr [] :: write_error + string list, s1)"
    by (simp add: l2_interfaces_def l2_names_def c demo_stp_dbs run)
  have "\<exists>b. stp_global_batch mem_platform demo_stp_input (stp_effective demo_stp_input []) True [''VLAN|Vlan10''] []
      \<lparr>b_plat = s1, b_snaps = []\<rparr> = (Inr (), b)"
    by (simp add: stp_global_batch_def demo_stp_values stp_global_fields_def seed_vlan_def i c run)
  then obtain b where b: "stp_global_batch mem_platform demo_stp_input (stp_effective demo_stp_input []) True [''VLAN|Vlan10''] []
      \<lparr>b_plat = s1, b_snaps = []\<rparr> = (Inr (), b)" by blast
  show ?thesis
    by (simp add: stp_put_global_def stp_require_def c i m l b demo_stp_dbs demo_stp_check DEF_MAX_STP_INST_def run)
qed

theorem stp_put_global_legal_witness:
  "\<exists>s'. stp_put_global mem_platform demo_stp_input demo_stp = (Inr (), s') \<and>
     mem_view s' CONFIG_DB ''STP_VLAN|Vlan10'' ''enabled'' = Some ''true''"
proof -
  obtain s' where x: "stp_put_global mem_platform demo_stp_input demo_stp = (Inr (), s')" using demo_stp_put by blast
  have m: "sg_mode demo_stp_input \<noteq> Disabled" by (simp add: demo_stp_input_def)
  have "mem_view demo_stp CONFIG_DB ''STP|GLOBAL'' = Map.empty" "mem_view demo_stp CONFIG_DB (''VLAN|'' @ ''Vlan10'') \<noteq> Map.empty"
    by (simp_all add: mem_view_def demo_stp_dbs run)
  then have "mem_view s' CONFIG_DB (''STP_VLAN|'' @ ''Vlan10'') ''enabled'' = Some ''true''"
    using stp_put_global_legal [OF mem_query.query_store_axioms demo_stp_ok m x] by blast
  with x show ?thesis by simp
qed

end
