(* ===== verification/FdbProps.thy ===== *)
theory FdbProps
  imports Fdb MemPlatform
begin

text \<open>
  Properties of the forwarding database: a PUT of a static entry leaves one row for the address, however the rows that
  were there spell it, and the canonical form of an address is a normal form.
\<close>

section \<open>The canonical form of an address\<close>

text \<open>Lower-case hexadecimal digits.\<close>

definition low_hex :: "char \<Rightarrow> bool" where
  "low_hex c \<longleftrightarrow> is_hexdigit c \<and> lower_char c = c"

lemma low_hex_lower: "is_hexdigit (lower_char c) \<Longrightarrow> low_hex (lower_char c)"
  by (auto simp: low_hex_def lower_char_def is_upper_def is_hexdigit_def is_digit_def byte_def)

lemma low_hex_simps [simp]: "low_hex c \<Longrightarrow> is_hexdigit c" "low_hex c \<Longrightarrow> lower_char c = c" "low_hex c \<Longrightarrow> \<not> is_space c"
  by (auto simp: low_hex_def is_hexdigit_def is_digit_def is_space_def)

lemma twelve: "length h = 12 \<Longrightarrow> \<exists>a b c d e f g i j k l m. h = [a, b, c, d, e, f, g, i, j, k, l, m]"
  by (auto simp: numeral_eq_Suc length_Suc_conv)

lemma mac_pairs_twelve:
  "mac_pairs [a, b, c, d, e, f, g, i, j, k, l, m] = [[a, b], [c, d], [e, f], [g, i], [j, k], [l, m]]"
  by (simp add: mac_pairs_def upt_rec numeral_eq_Suc)

text \<open>What \<open>normalize_mac\<close> returns are twelve such digits in pairs, and that text normalizes to itself.\<close>

lemma normalize_digits:
  assumes "length h = 12" "\<forall>c\<in>set h. low_hex c"
  shows "normalize_mac (join '':'' (mac_pairs h)) = Some (join '':'' (mac_pairs h))"
proof -
  obtain a b c d e f g i j k l m where h: "h = [a, b, c, d, e, f, g, i, j, k, l, m]" using twelve [OF assms(1)] by blast
  have x: "low_hex a" "low_hex b" "low_hex c" "low_hex d" "low_hex e" "low_hex f" "low_hex g" "low_hex i" "low_hex j"
      "low_hex k" "low_hex l" "low_hex m"
    using assms(2) by (simp_all add: h)
  have p: "mac_pairs h = [[a, b], [c, d], [e, f], [g, i], [j, k], [l, m]]"
    by (simp add: h mac_pairs_twelve)
  have colon: "\<not> is_hexdigit CHR '':''" "\<not> is_space CHR '':''" "lower_char CHR '':'' = CHR '':''" by (simp_all add: is_hexdigit_def is_digit_def is_space_def lower_char_def is_upper_def byte_def)
  have t: "trim (join '':'' (mac_pairs h)) = join '':'' (mac_pairs h)"
    using x by (intro trim_id) (auto simp: p colon)
  have "filter is_hexdigit (to_lower (join '':'' (mac_pairs h))) = h"
    using x colon by (simp add: p to_lower_def) (simp add: h)
  then show ?thesis using t x colon assms(1) by (simp add: normalize_mac_def) (simp add: p)
qed

lemma normalize_mac_form:
  assumes "normalize_mac s = Some m"
  shows "\<exists>h. length h = 12 \<and> (\<forall>c\<in>set h. low_hex c) \<and> m = join '':'' (mac_pairs h)"
  using assms low_hex_lower
  by (intro exI [of _ "filter is_hexdigit (to_lower (trim s))"]) (auto simp: normalize_mac_def Let_def to_lower_def split: if_splits)

lemma normalize_mac_normal: "normalize_mac s = Some m \<Longrightarrow> normalize_mac m = Some m"
  using normalize_mac_form normalize_digits by blast

lemma check_mac_normal: "check_mac s = Inr m \<Longrightarrow> normalize_mac s = Some m"
  by (auto simp: check_mac_def split: option.splits if_splits)

lemma names_canonical:
  "normalize_mac m = Some m \<Longrightarrow> n < 2 ^ 32 \<Longrightarrow> names_entry n m (''FDB|Vlan'' @ show_nat n @ '':'' @ m)"
  using split_once_append [of "CHR '':''" "show_nat n" m] show_nat_no_char [of "CHR '':''" n]
  by (simp add: names_entry_def parse_static_key_def vlan_id_from_name_def is_digit_def byte_def)

section \<open>Writing a static entry\<close>

definition vlan_fdb :: "nat \<Rightarrow> string" where
  "vlan_fdb n = ''FDB|Vlan'' @ show_nat n @ '':''"

context query_store
begin

lemma put_static_wp:
  assumes "ok s"
  shows "wp (put_static P n mac port) (\<lambda>_ s'. ok s' \<and> (\<exists>m. check_mac mac = Inr m \<and>
      view s CONFIG_DB (''VLAN_MEMBER|Vlan'' @ show_nat n @ ''|'' @ port) \<noteq> Map.empty \<and>
      view s' = v_hset CONFIG_DB (vlan_fdb n @ m) [(''port'', port), (''type'', ''static'')]
        (v_drop CONFIG_DB (\<lambda>k. starts_with (vlan_fdb n) k \<and> names_entry n m k \<and> k \<noteq> vlan_fdb n @ m) (view s))))
    (\<lambda>_ s'. ok s') s"
proof -
  have pat: "''FDB|Vlan'' @ show_nat n @ '':*'' = vlan_fdb n @ ''*''" by (simp add: vlan_fdb_def)
  have lit: "CHR ''*'' \<notin> set (vlan_fdb n)" "plain_glob (vlan_fdb n)"
    using show_nat_digits [of n] by (auto simp: vlan_fdb_def plain_glob_def is_digit_def byte_def)
  show ?thesis
    unfolding put_static_def fdb_check_writable_def matching_static_keys_def Let_def pat
  proof (rule wp_bnd, rule wp_lift, rule wp_bnd, rule wp_bnd, rule wp_current [OF assms], rule wp_guard, rule wp_bnd,
      rule wp_map_err, rule wp_exists, assumption, rule wp_bnd, rule wp_guard, rule wp_bnd, rule wp_map_err, rule wp_exists,
      assumption, rule wp_bnd, rule wp_guard, rule wp_bnd, rule wp_bnd, rule wp_map_err, rule wp_scan_prefix [OF _ lit],
      assumption, rule wp_ret, rule wp_bnd, rule wp_del_where, assumption, rule wp_map_err, rule wp_hset, assumption)
    fix m p b b' ks and s1 s2 s3 s4 s5 s6
    let ?c = "''FDB|Vlan'' @ show_nat n @ '':'' @ m"
    assume m: "smap_err BadRequest (check_mac mac) = Inr m" and s: "view s1 = view s" "view s2 = view s1" "view s3 = view s2"
        "view s4 = view s3"
      and b': "b' \<longleftrightarrow> view s2 CONFIG_DB (''VLAN_MEMBER|Vlan'' @ show_nat n @ ''|'' @ port) \<noteq> Map.empty" "b'"
      and ks: "set ks = {k. view s3 CONFIG_DB k \<noteq> Map.empty \<and> starts_with (vlan_fdb n) k}"
      and s5: "view s5 = v_drop CONFIG_DB (\<lambda>k. k \<in> set (filter (names_entry n m) ks) \<and> k \<noteq> ?c) (view s4)"
      and s6: "ok s6" "view s6 = v_hset CONFIG_DB ?c [(''port'', port), (''type'', ''static'')] (view s5)"
    have c: "?c = vlan_fdb n @ m" by (simp add: vlan_fdb_def)
    have "view s5 = v_drop CONFIG_DB (\<lambda>k. starts_with (vlan_fdb n) k \<and> names_entry n m k \<and> k \<noteq> vlan_fdb n @ m) (view s)"
      unfolding s5 s c by (rule v_drop_cong) (use ks s in auto)
    then show "ok s6 \<and> (\<exists>m. check_mac mac = Inr m \<and>
        view s CONFIG_DB (''VLAN_MEMBER|Vlan'' @ show_nat n @ ''|'' @ port) \<noteq> Map.empty \<and>
        view s6 = v_hset CONFIG_DB (vlan_fdb n @ m) [(''port'', port), (''type'', ''static'')]
          (v_drop CONFIG_DB (\<lambda>k. starts_with (vlan_fdb n) k \<and> names_entry n m k \<and> k \<noteq> vlan_fdb n @ m) (view s)))"
      using m s6 b' s unfolding c by (intro conjI exI [of _ m]) simp_all
  qed (simp_all add: assms)
qed

end

section \<open>The properties\<close>

text \<open>C34. A static entry is stored once. When \<open>put_static\<close> succeeds for an address in any spelling, the port is a member
  of the VLAN, the row under the canonical key names the port, no other row of the VLAN under any spelling of the address is left, and
  every other row of every database is as it was. The canonical key names the entry, so the page lists it once.\<close>

theorem fdb_put_static_spec:
  assumes "query_store P view ok up" "ok s" "put_static P n mac port s = (Inr (), s')" "n < 2 ^ 32"
  shows "\<exists>m. check_mac mac = Inr m \<and> normalize_mac m = Some m \<and>
     view s CONFIG_DB (''VLAN_MEMBER|Vlan'' @ show_nat n @ ''|'' @ port) \<noteq> Map.empty \<and>
     view s' CONFIG_DB (vlan_fdb n @ m) ''port'' = Some port \<and>
     {k. starts_with (vlan_fdb n) k \<and> names_entry n m k \<and> view s' CONFIG_DB k \<noteq> Map.empty} = {vlan_fdb n @ m} \<and>
     (\<forall>db k. db = CONFIG_DB \<and> starts_with (vlan_fdb n) k \<and> names_entry n m k \<or> view s' db k = view s db k)"
proof -
  obtain m where m: "check_mac mac = Inr m" "view s CONFIG_DB (''VLAN_MEMBER|Vlan'' @ show_nat n @ ''|'' @ port) \<noteq> Map.empty"
      "view s' = v_hset CONFIG_DB (vlan_fdb n @ m) [(''port'', port), (''type'', ''static'')]
        (v_drop CONFIG_DB (\<lambda>k. starts_with (vlan_fdb n) k \<and> names_entry n m k \<and> k \<noteq> vlan_fdb n @ m) (view s))"
    using wp_okD [OF query_store.put_static_wp [OF assms(1,2)] assms(3)] by blast
  have c: "normalize_mac m = Some m" by (rule normalize_mac_normal) (rule check_mac_normal [OF m(1)])
  have "names_entry n m (vlan_fdb n @ m)" using names_canonical [OF c assms(4)] by (simp add: vlan_fdb_def)
  then have "starts_with (vlan_fdb n) k \<and> names_entry n m k \<and> view s' CONFIG_DB k \<noteq> Map.empty \<longleftrightarrow> k = vlan_fdb n @ m" for k
    by (cases "k = vlan_fdb n @ m") (auto simp: m(3) starts_with_iff map_add_def fun_eq_iff)
  moreover have "db = CONFIG_DB \<and> starts_with (vlan_fdb n) k \<and> names_entry n m k \<or> view s' db k = view s db k" for db k
    using \<open>names_entry n m (vlan_fdb n @ m)\<close>
    by (cases "(db, k) = (CONFIG_DB, vlan_fdb n @ m)") (auto simp: m(3) starts_with_iff)
  moreover have "view s' CONFIG_DB (vlan_fdb n @ m) ''port'' = Some port" by (simp add: m(3))
  ultimately show ?thesis using m(1,2) c by (intro exI [of _ m]) simp
qed

definition demo_fdb :: mem where
  "demo_fdb = mem_seed CONFIG_DB ''FDB|Vlan10:00-11-22-AA-BB-CC'' [(''port'', ''Ethernet4''), (''type'', ''static'')]
     (mem_seed CONFIG_DB ''VLAN_MEMBER|Vlan10|Ethernet0'' [(''tagging_mode'', ''untagged'')]
     (mem_seed CONFIG_DB ''VLAN|Vlan10'' [(''vlanid'', ''10'')] mem_new))"

lemma demo_fdb_ok: "mem_ok demo_fdb"
  by (simp add: demo_fdb_def mem_seed_ok)

lemma demo_fdb_current: "\<exists>p s'. (current mem_platform :: (mem, write_error, probe) io) demo_fdb = (Inr p, s') \<and>
    fdb_config_writable p \<and> m_dbs s' = m_dbs demo_fdb \<and> m_fail_at s' = None"
proof -
  have v: "parse_sonic_version [] = None" by (simp add: parse_sonic_version_def lines_def run)
  show ?thesis
  by (simp add: v current_def gather_def io_of_def demo_fdb_def feature_entry_def command_lines_def mem_read_file_def mem_run_def
    ok_output_def assemble_def fdb_config_writable_def is_none_or_def run)
qed

lemma demo_fdb_mac: "check_mac ''0011.22aa.bbcc'' = Inr ''00:11:22:aa:bb:cc''"
  by (simp add: check_mac_def normalize_mac_def mac_pairs_twelve hex_val_def run)

lemma demo_fdb_names: "names_entry 10 ''00:11:22:aa:bb:cc'' ''FDB|Vlan10:00-11-22-AA-BB-CC''"
  by (simp add: names_entry_def parse_static_key_def vlan_id_from_name_def normalize_mac_def mac_pairs_twelve run)

lemma demo_fdb_put: "\<exists>s'. put_static mem_platform 10 ''0011.22aa.bbcc'' ''Ethernet0'' demo_fdb = (Inr (), s')"
proof -
  obtain p s1 where c: "(current mem_platform :: (mem, write_error, probe) io) demo_fdb = (Inr p, s1)" "fdb_config_writable p"
    "m_dbs s1 = m_dbs demo_fdb" "m_fail_at s1 = None"
    using demo_fdb_current by blast
  have d: "m_dbs demo_fdb 4 = [(''VLAN|Vlan10'', [(''vlanid'', ''10'')]), (''VLAN_MEMBER|Vlan10|Ethernet0'', [(''tagging_mode'', ''untagged'')]),
      (''FDB|Vlan10:00-11-22-AA-BB-CC'', [(''port'', ''Ethernet4''), (''type'', ''static'')])]"
    by (simp add: demo_fdb_def run)
  show ?thesis
    by (simp add: put_static_def fdb_check_writable_def matching_static_keys_def demo_fdb_mac demo_fdb_names c d show_nat.simps run)
qed

theorem fdb_put_static_spec_witness:
  "\<exists>s'. put_static mem_platform 10 ''0011.22aa.bbcc'' ''Ethernet0'' demo_fdb = (Inr (), s') \<and>
     {k. starts_with (vlan_fdb 10) k \<and> names_entry 10 ''00:11:22:aa:bb:cc'' k \<and> mem_view s' CONFIG_DB k \<noteq> Map.empty}
       = {''FDB|Vlan10:00:11:22:aa:bb:cc''}"
proof -
  obtain s' where x: "put_static mem_platform 10 ''0011.22aa.bbcc'' ''Ethernet0'' demo_fdb = (Inr (), s')"
    using demo_fdb_put by blast
  have k: "vlan_fdb 10 = ''FDB|Vlan10:''" by (simp add: vlan_fdb_def show_nat.simps run)
  from fdb_put_static_spec [OF mem_query.query_store_axioms demo_fdb_ok x] x show ?thesis by (simp add: demo_fdb_mac k)
qed

end
