(* ===== verification/MclagProps.thy ===== *)
theory MclagProps
  imports Mclag MemPlatform
begin

text \<open>
  The property of MCLAG: a PUT that succeeds replaces whatever was configured by the one domain of the request.
\<close>

section \<open>The replacement\<close>

text \<open>What a successful PUT makes of the databases.\<close>

definition domain_done :: "domain_input \<Rightarrow> string option \<Rightarrow> dbs \<Rightarrow> dbs \<Rightarrow> bool" where
  "domain_done i mac v v' \<longleftrightarrow>
     (\<forall>m\<in>set_option (di_peer_link i) \<union> set (di_members i). v CONFIG_DB (''PORTCHANNEL|'' @ m) \<noteq> Map.empty) \<and>
     v' CONFIG_DB (domain_key i) = map_of (rev (domain_fields i mac)) \<and>
     (\<forall>k. starts_with ''MCLAG_DOMAIN|'' k \<and> v' CONFIG_DB k \<noteq> Map.empty \<longrightarrow> k = domain_key i) \<and>
     (\<forall>m\<in>set (di_members i). v' CONFIG_DB (member_row_key i m) ''if_type'' = Some ''PortChannel'') \<and>
     (\<forall>k. starts_with ''MCLAG_INTERFACE|'' k \<and> v' CONFIG_DB k \<noteq> Map.empty \<longrightarrow>
        \<not> stale_member i k \<or> k \<in> member_row_key i ` set (di_members i)) \<and>
     (\<forall>db k. db = CONFIG_DB \<and> (starts_with ''MCLAG_DOMAIN|'' k \<or> starts_with ''MCLAG_INTERFACE|'' k) \<or> v' db k = v db k)"

lemma domain_key_prefix [simp]: "starts_with ''MCLAG_DOMAIN|'' (domain_key i)" "\<not> starts_with ''MCLAG_INTERFACE|'' (domain_key i)"
  by (simp_all add: domain_key_def starts_with_iff)

lemma member_key_prefix [simp]: "starts_with ''MCLAG_INTERFACE|'' (member_row_key i m)" "\<not> starts_with ''MCLAG_DOMAIN|'' (member_row_key i m)"
  "member_row_key i m \<noteq> domain_key i"
  "domain_key i \<noteq> member_row_key i m"
  by (simp_all add: domain_key_def member_row_key_def starts_with_iff)

lemma tables_apart: "starts_with ''MCLAG_INTERFACE|'' k \<Longrightarrow> \<not> starts_with ''MCLAG_DOMAIN|'' k"
  by (auto simp: starts_with_iff)

text \<open>The databases before the rows of the request are written.\<close>

definition domain_cleared :: "domain_input \<Rightarrow> dbs \<Rightarrow> dbs" where
  "domain_cleared i v = v_drop CONFIG_DB (\<lambda>k. starts_with ''MCLAG_DOMAIN|'' k \<or> starts_with ''MCLAG_INTERFACE|'' k \<and> stale_member i k) v"

definition domain_rows :: "domain_input \<Rightarrow> string option \<Rightarrow> string list \<Rightarrow> dbs \<Rightarrow> dbs" where
  "domain_rows i mac ms v = v_put CONFIG_DB (\<lambda>k. k \<in> member_row_key i ` set ms) [(''if_type'', ''PortChannel'')]
     (v_hset CONFIG_DB (domain_key i) (domain_fields i mac) (domain_cleared i v))"

lemma domain_rows_done:
  assumes "\<forall>m\<in>set_option (di_peer_link i) \<union> set (di_members i). v CONFIG_DB (''PORTCHANNEL|'' @ m) \<noteq> Map.empty"
  shows "domain_done i mac v (domain_rows i mac (di_members i) v)"
proof -
  let ?v = "domain_rows i mac (di_members i) v"
  have c: "domain_cleared i v db k = (if db = CONFIG_DB \<and> (starts_with ''MCLAG_DOMAIN|'' k \<or> starts_with ''MCLAG_INTERFACE|'' k \<and> stale_member i k)
      then Map.empty else v db k)" for db k by (simp add: domain_cleared_def)
  have "?v CONFIG_DB (domain_key i) = map_of (rev (domain_fields i mac))"
    by (auto simp: domain_rows_def c image_iff)
  moreover have "?v CONFIG_DB k = Map.empty" if "starts_with ''MCLAG_DOMAIN|'' k" "k \<noteq> domain_key i" for k
    using that by (auto simp: domain_rows_def c)
  moreover have "?v CONFIG_DB k = Map.empty"
    if "starts_with ''MCLAG_INTERFACE|'' k" "stale_member i k" "k \<notin> member_row_key i ` set (di_members i)" for k
    using that by (auto simp: domain_rows_def c starts_with_iff domain_key_def)
  moreover have "db = CONFIG_DB \<and> (starts_with ''MCLAG_DOMAIN|'' k \<or> starts_with ''MCLAG_INTERFACE|'' k) \<or> ?v db k = v db k" for db k
    by (auto simp: domain_rows_def c v_hset_def)
  moreover have "?v CONFIG_DB (member_row_key i m) ''if_type'' = Some ''PortChannel''" if "m \<in> set (di_members i)" for m
    using that by (simp add: domain_rows_def)
  ultimately show ?thesis using assms unfolding domain_done_def by blast
qed

context full_store
begin

lemma wp_check_port_channel:
  assumes "ok s" "\<And>s'. ok s' \<Longrightarrow> view s' = view s \<Longrightarrow> view s CONFIG_DB (''PORTCHANNEL|'' @ m) \<noteq> Map.empty \<Longrightarrow> Q () s'"
  shows "wp (check_port_channel P what m) Q (\<lambda>_ _. True) s"
  unfolding check_port_channel_def by (intro wp_bnd wp_map_err wp_exists wp_guard) (use assms in auto)

lemma wp_check_members:
  assumes "ok s" "\<And>s'. ok s' \<Longrightarrow> view s' = view s \<Longrightarrow>
    \<forall>m\<in>set ms. view s CONFIG_DB (''PORTCHANNEL|'' @ m) \<noteq> Map.empty \<Longrightarrow> Q () s'"
  shows "wp (for_each (check_port_channel P what) ms) Q (\<lambda>_ _. True) s"
  by (rule wp_for_each [where I = "\<lambda>ys t. ok t \<and> view t = view s \<and> (\<forall>m\<in>set ys. view s CONFIG_DB (''PORTCHANNEL|'' @ m) \<noteq> Map.empty)"])
    (use assms in \<open>auto intro!: wp_check_port_channel\<close>)

lemma wp_member_rows:
  assumes "ok s" "\<And>s'. ok s' \<Longrightarrow> view s' = v_put CONFIG_DB (\<lambda>k. k \<in> member_row_key i ` set ms) fs (view s) \<Longrightarrow> Q () s'"
  shows "wp (for_each (\<lambda>m. cfg_hset P (member_row_key i m) fs) ms) Q (\<lambda>_ _. True) s"
proof (rule wp_for_each [where I = "\<lambda>ys t. ok t \<and> view t = v_put CONFIG_DB (\<lambda>k. k \<in> member_row_key i ` set ys) fs (view s)"])
  fix ys zs z t
  assume t: "ok t \<and> view t = v_put CONFIG_DB (\<lambda>k. k \<in> member_row_key i ` set ys) fs (view s)"
  have e: "(\<lambda>k. k \<in> member_row_key i ` set (ys @ [z])) = (\<lambda>k. k = member_row_key i z \<or> k \<in> member_row_key i ` set ys)" by auto
  show "wp (cfg_hset P (member_row_key i z) fs)
      (\<lambda>_ t. ok t \<and> view t = v_put CONFIG_DB (\<lambda>k. k \<in> member_row_key i ` set (ys @ [z])) fs (view s)) (\<lambda>_ _. True) t"
    unfolding e by (intro wp_map_err wp_hset) (use t in \<open>simp_all add: v_hset_put\<close>)
qed (use assms in auto)

lemma mclag_put_wp:
  assumes "ok s"
  shows "wp (mclag_put P i) (\<lambda>_ s'. \<exists>mac. check_domain i = Inr mac \<and> domain_done i mac (view s) (view s')) (\<lambda>_ _. True) s"
  unfolding mclag_put_def
proof (rule wp_bnd, rule wp_lift, rule wp_bnd, rule wp_current [OF assms], rule wp_bnd, rule wp_guard)
  fix mac p s1
  assume mac: "smap_err BadRequest (check_domain i) = Inr mac" and s1: "ok s1" "view s1 = view s"
  let ?w = "bnd (for_each (check_port_channel P ''member'') (di_members i)) (\<lambda>_.
     bnd (keys_of P CONFIG_DB ''MCLAG_DOMAIN|*'') (\<lambda>ds.
     bnd (for_each (\<lambda>key. if key \<noteq> domain_key i then cfg_del P key else ret ()) ds) (\<lambda>_.
     bnd (keys_of P CONFIG_DB ''MCLAG_INTERFACE|*'') (\<lambda>ms.
     bnd (for_each (\<lambda>key. if stale_member i key then cfg_del P key else ret ()) ms) (\<lambda>_.
     bnd (cfg_del P (domain_key i)) (\<lambda>_.
     bnd (cfg_hset P (domain_key i) (domain_fields i mac)) (\<lambda>_.
     for_each (\<lambda>m. cfg_hset P (member_row_key i m) [(''if_type'', ''PortChannel'')]) (di_members i))))))))"
  let ?Q = "\<lambda>_ s'. \<exists>mac. check_domain i = Inr mac \<and> domain_done i mac (view s) (view s')"
  have w: "wp ?w ?Q (\<lambda>_ _. True) t"
    if t: "ok t" "view t = view s" "\<forall>m\<in>set_option (di_peer_link i). view s CONFIG_DB (''PORTCHANNEL|'' @ m) \<noteq> Map.empty" for t
  proof (rule wp_bnd, rule wp_check_members [OF t(1)], rule wp_bnd,
      rule wp_keys_of_prefix [where pre = "''MCLAG_DOMAIN|''", simplified append.simps], assumption, simp, simp, rule wp_bnd,
      rule wp_del_where, assumption, rule wp_bnd, rule wp_keys_of_prefix [where pre = "''MCLAG_INTERFACE|''", simplified append.simps],
      assumption, simp, simp, rule wp_bnd, rule wp_del_where, assumption, rule wp_bnd, rule wp_map_err, rule wp_del, assumption,
      rule wp_bnd, rule wp_map_err, rule wp_hset, assumption, rule wp_member_rows, assumption)
    fix ds ms and s2 s3 s4 s5 s6 s7 s8 s9
    assume m: "\<forall>m\<in>set (di_members i). view t CONFIG_DB (''PORTCHANNEL|'' @ m) \<noteq> Map.empty"
      and v: "view s2 = view t" "view s3 = view s2" "view s5 = view s4"
      and ds: "set ds = {k. view s2 CONFIG_DB k \<noteq> Map.empty \<and> starts_with ''MCLAG_DOMAIN|'' k}"
      and s4: "view s4 = v_drop CONFIG_DB (\<lambda>k. k \<in> set ds \<and> k \<noteq> domain_key i) (view s3)"
      and ms: "set ms = {k. view s4 CONFIG_DB k \<noteq> Map.empty \<and> starts_with ''MCLAG_INTERFACE|'' k}"
      and s6: "view s6 = v_drop CONFIG_DB (\<lambda>k. k \<in> set ms \<and> stale_member i k) (view s5)"
      and s7: "view s7 = v_del CONFIG_DB (domain_key i) (view s6)"
      and s8: "view s8 = v_hset CONFIG_DB (domain_key i) (domain_fields i mac) (view s7)"
      and s9: "view s9 = v_put CONFIG_DB (\<lambda>k. k \<in> member_row_key i ` set (di_members i)) [(''if_type'', ''PortChannel'')] (view s8)"
    have "view s7 = domain_cleared i (view s)"
      unfolding s7 s6 v s4 t(2) v_del_drop v_drop_drop domain_cleared_def
      by (rule v_drop_cong) (use ds ms v s4 t(2) tables_apart in auto)
    then have "view s9 = domain_rows i mac (di_members i) (view s)" by (simp add: s9 s8 domain_rows_def)
    moreover have "domain_done i mac (view s) (domain_rows i mac (di_members i) (view s))"
      using m t(2,3) by (intro domain_rows_done) auto
    ultimately show "?Q () s9" using mac by (intro exI [of _ mac]) simp
  qed simp_all
  show "wp (bnd (case di_peer_link i of None \<Rightarrow> ret () | Some pl \<Rightarrow> check_port_channel P ''peer_link'' pl) (\<lambda>_. ?w)) ?Q (\<lambda>_ _. True) s1"
  proof (cases "di_peer_link i")
    case None
    then show ?thesis using w [OF s1] by simp
  next
    case (Some pl)
    show ?thesis
      unfolding Some option.case by (rule wp_bnd, rule wp_check_port_channel [OF s1(1)], rule w) (use s1 Some in auto)
  qed
qed simp_all

end

section \<open>The property\<close>

text \<open>C35. One domain, on a platform where no read and no scan of the call fails. When \<open>mclag_put\<close> succeeds, the port channels it
  names exist, the row of the requested domain holds exactly the
  requested fields and is the only domain row, every requested member has its row, a member row that is left names the requested domain
  and one of its members, and no other row of any database has changed. The domain that was there before is gone.
  Where the scan for the old domains fails, they stay: \<open>keys_of\<close> reads the failure as no domain.\<close>

theorem mclag_put_one_domain:
  assumes "full_store P view ok up" "ok s" "mclag_put P i s = (Inr (), s')"
  shows "\<exists>mac. check_domain i = Inr mac \<and> domain_done i mac (view s) (view s')"
  by (rule wp_okD [OF full_store.mclag_put_wp [OF assms(1,2)] assms(3)])

definition demo_mclag :: mem where
  "demo_mclag = mem_seed CONFIG_DB ''MCLAG_INTERFACE|7|PortChannel2'' [(''if_type'', ''PortChannel'')]
     (mem_seed CONFIG_DB ''MCLAG_DOMAIN|7'' [(''source_ip'', ''10.0.0.1'')]
     (mem_seed CONFIG_DB ''PORTCHANNEL|PortChannel2'' [(''mtu'', ''9100'')]
     (mem_seed CONFIG_DB ''PORTCHANNEL|PortChannel1'' [(''mtu'', ''9100'')]
     (mem_seed CONFIG_DB ''FEATURE|iccpd'' [(''state'', ''enabled'')] mem_new))))"

definition demo_domain :: domain_input where
  "demo_domain = \<lparr>di_domain_id = 5, di_source_ip = ''10.0.0.1'', di_peer_ip = ''10.0.0.2'', di_peer_link = Some ''PortChannel1'',
     di_keepalive = Some 1, di_timeout = None, di_system_mac = None, di_members = [''PortChannel2'']\<rparr>"

lemma demo_mclag_ok: "mem_ok demo_mclag"
  by (simp add: demo_mclag_def mem_seed_ok)

lemma demo_mclag_dbs: "m_dbs demo_mclag 4 = [(''FEATURE|iccpd'', [(''state'', ''enabled'')]), (''PORTCHANNEL|PortChannel1'', [(''mtu'', ''9100'')]),
    (''PORTCHANNEL|PortChannel2'', [(''mtu'', ''9100'')]), (''MCLAG_DOMAIN|7'', [(''source_ip'', ''10.0.0.1'')]),
    (''MCLAG_INTERFACE|7|PortChannel2'', [(''if_type'', ''PortChannel'')])]"
  "db \<noteq> 4 \<Longrightarrow> m_dbs demo_mclag db = []"
  by (simp_all add: demo_mclag_def run)

lemma demo_mclag_current: "\<exists>p s'. (current mem_platform :: (mem, write_error, probe) io) demo_mclag = (Inr p, s') \<and>
    mclag_supported p \<and> m_dbs s' = m_dbs demo_mclag \<and> m_fail_at s' = None"
proof -
  have v: "parse_sonic_version [] = None" by (simp add: parse_sonic_version_def lines_def run)
  show ?thesis
  by (simp add: v current_def gather_def io_of_def demo_mclag_def feature_entry_def command_lines_def mem_read_file_def mem_run_def
    ok_output_def assemble_def mclag_supported_def has_feature_def run)
qed

lemma demo_domain_ok: "check_domain demo_domain = Inr None"
  by (simp add: demo_domain_def check_domain_def check_system_mac_def ip_run run)

lemma demo_mclag_put: "\<exists>s'. mclag_put mem_platform demo_domain demo_mclag = (Inr (), s')"
proof -
  obtain p s1 where c: "(current mem_platform :: (mem, write_error, probe) io) demo_mclag = (Inr p, s1)" "mclag_supported p"
    "m_dbs s1 = m_dbs demo_mclag" "m_fail_at s1 = None"
    using demo_mclag_current by blast
  have k: "domain_key demo_domain = ''MCLAG_DOMAIN|5''" "member_row_key demo_domain m = ''MCLAG_INTERFACE|5|'' @ m" for m
    by (simp_all add: domain_key_def member_row_key_def demo_domain_def show_nat.simps run)
  have f: "domain_fields demo_domain None = [(''source_ip'', ''10.0.0.1''), (''peer_ip'', ''10.0.0.2''), (''peer_link'', ''PortChannel1''),
      (''keepalive_interval'', ''1'')]"
    by (simp add: domain_fields_def demo_domain_def show_nat.simps run)
  have i: "di_peer_link demo_domain = Some ''PortChannel1''" "di_members demo_domain = [''PortChannel2'']" by (simp_all add: demo_domain_def)
  have "parse_uint 32 ''7'' = Some 7" by (simp add: parse_uint_def digits_val_def run)
  then have st: "stale_member demo_domain ''MCLAG_INTERFACE|7|PortChannel2''"
    by (simp add: stale_member_def two_parts_def demo_domain_def run)
  show ?thesis
    by (simp add: mclag_put_def demo_domain_ok c k f i st demo_mclag_dbs check_port_channel_def run)
qed

theorem mclag_put_one_domain_witness:
  "\<exists>s'. mclag_put mem_platform demo_domain demo_mclag = (Inr (), s') \<and> mem_view s' CONFIG_DB ''MCLAG_DOMAIN|7'' = Map.empty"
proof -
  obtain s' where x: "mclag_put mem_platform demo_domain demo_mclag = (Inr (), s')" using demo_mclag_put by blast
  have "starts_with ''MCLAG_DOMAIN|'' ''MCLAG_DOMAIN|7''" "''MCLAG_DOMAIN|7'' \<noteq> domain_key demo_domain"
    by (simp_all add: starts_with_iff domain_key_def demo_domain_def show_nat.simps run)
  with mclag_put_one_domain [OF mem_full.full_store_axioms demo_mclag_ok x] x show ?thesis
    unfolding domain_done_def by blast
qed

end
