(* ===== verification/AaaProps.thy ===== *)
theory AaaProps
  imports Aaa MemPlatform
begin

text \<open>
  The property of AAA: the secrets are write-only. The document is computed from the rows in a way that does not depend on
  the value of any key.
\<close>

section \<open>A platform with other secrets\<close>

text \<open>The same platform, whose rows show \<open>w\<close> where a key is stored.\<close>

definition redact_row :: "string \<Rightarrow> row \<Rightarrow> row" where
  "redact_row w r = map (\<lambda>(f, v). (f, if f = ''passkey'' then w else v)) r"

definition redact :: "string \<Rightarrow> 's platform \<Rightarrow> 's platform" where
  "redact w P = P\<lparr>hgetall := \<lambda>db key. bnd (hgetall P db key) (\<lambda>r. ret (redact_row w r))\<rparr>"

lemma map_of_redact: "map_of (redact_row w r) f = (if f = ''passkey'' then map_option (\<lambda>_. w) (map_of r f) else map_of r f)"
  by (induction r) (auto simp: redact_row_def)

lemma field_redact [simp]: "f \<noteq> ''passkey'' \<Longrightarrow> field (redact_row w r) f = field r f"
  by (simp add: field_def map_of_redact)

lemma has_key_redact [simp]: "has_key (redact_row w r) = has_key r"
  by (simp add: has_key_def map_of_redact)

lemma row_of_redact: "bnd (row_of (redact w P) db key) f = bnd (row_of P db key) (\<lambda>r. f (redact_row w r))"
  by (auto simp: fun_eq_iff row_of_def redact_def or_default_def bnd_def ret_def redact_row_def split: prod.splits sum.splits)

lemma scan_redact [simp]: "scan (redact w P) = scan P"
  by (simp add: redact_def)

section \<open>The document\<close>

lemma server_json_redact: "server_json pr a (redact_row w r) = server_json pr a r"
  by (cases pr) (simp_all add: server_json_def)

lemma proto_json_redact: "proto_json (redact_row w g) ss = proto_json g ss"
  by (simp add: proto_json_def)

lemma server_of_redact: "server_of (redact w P) pr = server_of P pr"
  by (simp add: fun_eq_iff [of "server_of _ _"] server_of_def row_of_redact server_json_redact split: option.split)

lemma proto_doc_redact: "proto_doc (redact w P) pr = proto_doc P pr"
  by (simp add: proto_doc_def row_of_redact proto_json_redact server_of_redact)

lemma login_order_redact: "login_order (redact_row w r) = login_order r" "failthrough (redact_row w r) = failthrough r"
  by (simp_all add: login_order_def failthrough_def)

text \<open>C36. The secrets are never read back. On any platform, if every stored key were any other value \<open>w\<close>, the AAA document, the
  errors and the state would be the same: what the page shows of the servers depends on whether a key is set and on nothing else of it.\<close>

theorem aaa_secrets_hidden: "aaa_get (redact w P) = aaa_get P"
  by (simp add: aaa_get_def row_of_redact proto_doc_redact login_order_redact)

end
