(* ===== verification/UsersProps.thy ===== *)
theory UsersProps
  imports Users MemPlatform
begin

text \<open>
  The property of local users: no request takes the last administrator away.
\<close>

section \<open>The account files after a command\<close>

text \<open>What \<open>userdel\<close> documents: the line of the account is gone, and the account is in no group.\<close>

definition others :: "string \<Rightarrow> user_doc list \<Rightarrow> user_doc list" where
  "others name us = filter (\<lambda>u. ud_name u \<noteq> name) us"

definition has_admin :: "user_doc list \<Rightarrow> bool" where
  "has_admin us \<longleftrightarrow> list_ex (\<lambda>u. ud_role u = ''admin'') us"

lemma find_user_Some: "find_user name us = Some u \<Longrightarrow> u \<in> set us \<and> ud_name u = name"
  by (auto simp: find_user_def find_Some_iff)

lemma another_admin:
  assumes "distinct (map ud_name us)" "find_user name us = Some u" "ud_role u = ''admin'' \<longrightarrow> \<not> admin_count us \<le> 1" "has_admin us"
  shows "has_admin (others name us)"
proof (rule ccontr)
  assume n: "\<not> has_admin (others name us)"
  note u = find_user_Some [OF assms(2)]
  have only: "a = u" if "a \<in> set us" "ud_role a = ''admin''" for a
  proof -
    have "ud_name a = name" using n that by (auto simp: has_admin_def others_def list_ex_iff)
    with u that(1) assms(1) show ?thesis by (metis distinct_map inj_on_def)
  qed
  then have r: "ud_role u = ''admin''" using assms(4) by (auto simp: has_admin_def list_ex_iff)
  have "set (filter (\<lambda>a. ud_role a = ''admin'') us) \<subseteq> {u}" using only by auto
  then have "card (set (filter (\<lambda>a. ud_role a = ''admin'') us)) \<le> 1" by (metis card.empty card_insert_le_m1 card_mono card_1_singleton_iff finite.emptyI finite_insert le_numeral_extra(4) One_nat_def)
  moreover have "distinct (filter (\<lambda>a. ud_role a = ''admin'') us)" using assms(1) by (simp add: distinct_map)
  ultimately have "admin_count us \<le> 1" by (simp add: admin_count_def distinct_card [symmetric])
  with assms(3) r show False by blast
qed

section \<open>The property\<close>

text \<open>C37. The last administrator stays. Take any platform and the accounts it reads, with distinct names and at least one
  administrator. When no administrator would be left without \<open>name\<close>, deleting that account and making it an operator are both refused,
  and refused before any command: the state is the one after the account files were read.\<close>

theorem last_admin_stays:
  assumes "(read_users P :: ('s, write_error, user_doc list option) io) s = (Inr (Some us), s1)"
    and "distinct (map ud_name us)" "has_admin us" "\<not> has_admin (others name us)"
  shows "(\<exists>e. delete_user P name s = (Inl e, s1)) \<and> (uu_role i = Operator \<longrightarrow> (\<exists>e. update_user P name i s = (Inl e, s1)))"
proof -
  have r: "users_or_fail P s = (Inr us, s1)" by (simp add: users_or_fail_def bnd_def assms(1) lift_def)
  show ?thesis
  proof (cases "find_user name us")
    case None
    then show ?thesis by (simp add: delete_user_def update_user_def bnd_def r fail_def)
  next
    case (Some u)
    with another_admin [OF assms(2) Some _ assms(3)] assms(4) have "ud_role u = ''admin''" "admin_count us \<le> 1" by blast+
    then show ?thesis
      by (auto simp: delete_user_def update_user_def bnd_def r Some fail_def guard_def ret_def lift_def split: sum.splits)
  qed
qed

definition demo_users :: mem where
  "demo_users = mem_seed_file ''/etc/group'' ''sudo:x:27:ops''
     (mem_seed_file ''/etc/passwd'' ''ops:x:1001:1001::/home/ops:/bin/bash'' mem_new)"

definition demo_accounts :: "user_doc list" where
  "demo_accounts = [\<lparr>ud_name = ''ops'', ud_role = ''admin'', ud_builtin = False\<rparr>]"

lemma demo_users_read:
  "(read_users mem_platform :: (mem, write_error, user_doc list option) io) demo_users = (Inr (Some demo_accounts), demo_users)"
proof -
  have "parse_uint 32 ''1001'' = Some 1001" by (simp add: parse_uint_def digits_val_def run)
  then have "parse_users ''ops:x:1001:1001::/home/ops:/bin/bash'' ''sudo:x:27:ops'' = demo_accounts"
    by (simp add: parse_users_def passwd_user_def group_admins_def demo_accounts_def ends_with_def starts_with_def lines_def run)
  then show ?thesis
    by (simp add: read_users_def read_text_def io_of_def mem_read_file_def demo_users_def mem_seed_file_def opt_or_def run)
qed

theorem last_admin_stays_witness:
  "(\<exists>e. delete_user mem_platform ''ops'' demo_users = (Inl e, demo_users)) \<and>
   (\<exists>e. update_user mem_platform ''ops'' \<lparr>uu_role = Operator, uu_password = None\<rparr> demo_users = (Inl e, demo_users))"
  using last_admin_stays [OF demo_users_read, of "''ops''" "\<lparr>uu_role = Operator, uu_password = None\<rparr>"]
  by (simp add: demo_accounts_def has_admin_def others_def)

end
