(* ===== verification/Token.thy ===== *)
theory Token
  imports "TextLaws" "HOL-Library.Word"
begin

text \<open>
  The enrollment token (\<open>src/enrollment/token.rs\<close>): the parser, its errors with their texts, and what the \<open>Debug\<close>
  form shows. A byte string is a list of 8-bit words; SHA-256 is a parameter. The theorem at the end is the grammar of the
  tokens the parser accepts.
\<close>

type_synonym bytes = "8 word list"

record enroll_token =
  gateway_host :: string
  gateway_port :: "16 word"
  org_id :: string
  token_id :: string
  secret :: string
  ca_fingerprint :: bytes
  sha256_hex :: string

datatype token_error =
    TooLong nat
  | BadCharacters
  | SegmentCount nat
  | Version string
  | GatewayShape string
  | GatewayPort string
  | OrgEmpty
  | TokenShape
  | FingerprintScheme
  | FingerprintHex nat

text \<open>The dash and the apostrophes of the messages are bytes of UTF-8.\<close>

definition em_dash :: string where
  "em_dash = map char_of [226, 128, 148 :: nat]"

definition quote_char :: string where
  "quote_char = [char_of (39 :: nat)]"

definition quoted :: "string \<Rightarrow> string" where
  "quoted s = quote_char @ s @ quote_char"

fun token_error_text :: "token_error \<Rightarrow> string" where
  "token_error_text (TooLong n) = ''enrollment token is too long ('' @ show_nat n @ '' bytes; limit 1024)''"
| "token_error_text BadCharacters = ''enrollment token contains whitespace or control characters '' @ em_dash
     @ '' paste it as a single unbroken line (quote it: quartz-sonic enroll '' @ quoted ''<TOKEN>'' @ '')''"
| "token_error_text (SegmentCount n) = ''enrollment token must have 5 '' @ quoted ''|''
     @ ''-separated segments (version|gateway|org|token|ca-fingerprint), found '' @ show_nat n"
| "token_error_text (Version v) = ''segment 1 (version) must be '' @ quoted ''QC1'' @ '', found '' @ quoted v @ '' '' @ em_dash
     @ '' this agent only understands QC1 tokens''"
| "token_error_text (GatewayShape g) = ''segment 2 (gateway) must be host:port, found '' @ quoted g"
| "token_error_text (GatewayPort p) = ''segment 2 (gateway) has an invalid port '' @ quoted p @ '' (expected 1-65535)''"
| "token_error_text OrgEmpty = ''segment 3 (org id) is empty''"
| "token_error_text TokenShape = ''segment 4 (token) must be <token_id>.<secret> with both parts non-empty''"
| "token_error_text FingerprintScheme = ''segment 5 (CA fingerprint) must start with '' @ quoted ''sha256:''"
| "token_error_text (FingerprintHex n) = ''segment 5 (CA fingerprint) must be 64 hex characters after '' @ quoted ''sha256:''
     @ '', found '' @ show_nat n"

section \<open>Library calls\<close>

definition is_ascii_graphic :: "char \<Rightarrow> bool" where
  "is_ascii_graphic c \<longleftrightarrow> 33 \<le> byte c \<and> byte c \<le> 126"

text \<open>\<open>str::rsplit_once\<close> and \<open>str::strip_suffix\<close>.\<close>

definition rsplit_once :: "char \<Rightarrow> string \<Rightarrow> (string \<times> string) option" where
  "rsplit_once c s = map_option (\<lambda>(b, a). (rev a, rev b)) (split_once c (rev s))"

definition strip_suffix :: "string \<Rightarrow> string \<Rightarrow> string option" where
  "strip_suffix p s = map_option rev (strip_prefix (rev p) (rev s))"

text \<open>The host of a gateway without the brackets of an IPv6 literal.\<close>

definition unbracket :: "string \<Rightarrow> string" where
  "unbracket host_raw = (case Option.bind (strip_prefix ''['' host_raw) (strip_suffix '']'') of Some h \<Rightarrow> h | None \<Rightarrow> host_raw)"

definition str_bytes :: "string \<Rightarrow> bytes" where
  "str_bytes s = map (\<lambda>c. word_of_nat (byte c)) s"

text \<open>\<open>format!("{b:02x}")\<close> per byte.\<close>

definition hex :: "bytes \<Rightarrow> string" where
  "hex bs = concat (map (\<lambda>b. [hex_char (unat b div 16), hex_char (unat b mod 16)]) bs)"

text \<open>The loop that fills the fingerprint: \<open>from_str_radix(&fp_hex[2 * i..2 * i + 2], 16)\<close> for each byte.\<close>

fun unhex :: "string \<Rightarrow> bytes" where
  "unhex (a # b # s) = word_of_nat (16 * hex_val a + hex_val b) # unhex s"
| "unhex s = []"

section \<open>The parser\<close>

definition parse_gateway :: "string \<Rightarrow> token_error + string \<times> 16 word" where
  "parse_gateway seg =
     sbind (ok_or (rsplit_once CHR '':'' seg) (GatewayShape seg)) (\<lambda>(host_raw, port_raw).
     let host = unbracket host_raw in
     sbind (check (host \<noteq> [] \<and> CHR ''|'' \<notin> set host) (GatewayShape seg)) (\<lambda>_.
     (case parse_uint 16 port_raw of
        Some p \<Rightarrow> if 1 \<le> p then Inr (host, word_of_nat p) else Inl (GatewayPort port_raw)
      | None \<Rightarrow> Inl (GatewayPort port_raw))))"

definition parse_credential :: "string \<Rightarrow> token_error + string \<times> string" where
  "parse_credential seg =
     sbind (ok_or (split_once CHR ''.'' seg) TokenShape) (\<lambda>(tid, sec).
     sbind (check (tid \<noteq> [] \<and> sec \<noteq> []) TokenShape) (\<lambda>_. Inr (tid, sec)))"

definition parse_fingerprint :: "string \<Rightarrow> token_error + bytes" where
  "parse_fingerprint seg =
     sbind (ok_or (strip_prefix ''sha256:'' seg) FingerprintScheme) (\<lambda>fp_hex.
     sbind (check (length fp_hex = 64 \<and> list_all is_hexdigit fp_hex) (FingerprintHex (length fp_hex))) (\<lambda>_.
     Inr (unhex fp_hex)))"

definition parse :: "(bytes \<Rightarrow> bytes) \<Rightarrow> string \<Rightarrow> token_error + enroll_token" where
  "parse sha256 raw =
     sbind (check (\<not> length raw > 1024) (TooLong (length raw))) (\<lambda>_.
     sbind (check (list_all is_ascii_graphic raw) BadCharacters) (\<lambda>_.
     let segments = split_on CHR ''|'' raw in
     sbind (check (length segments = 5) (SegmentCount (length segments))) (\<lambda>_.
     sbind (check (segments ! 0 = ''QC1'') (Version (segments ! 0))) (\<lambda>_.
     sbind (parse_gateway (segments ! 1)) (\<lambda>(host, port).
     sbind (check (segments ! 2 \<noteq> []) OrgEmpty) (\<lambda>_.
     sbind (parse_credential (segments ! 3)) (\<lambda>(tid, sec).
     sbind (parse_fingerprint (segments ! 4)) (\<lambda>fp.
     Inr \<lparr>gateway_host = host, gateway_port = port, org_id = segments ! 2, token_id = tid, secret = sec,
          ca_fingerprint = fp, sha256_hex = hex (sha256 (str_bytes raw))\<rparr>))))))))"

definition gateway :: "enroll_token \<Rightarrow> string" where
  "gateway t = gateway_host t @ '':'' @ show_nat (unat (gateway_port t))"

text \<open>The \<open>Debug\<close> form, which the code writes by hand to keep the secret out.\<close>

definition debug_token :: "enroll_token \<Rightarrow> string" where
  "debug_token t = ''EnrollToken { gateway_host: '' @ dbg (gateway_host t) @ '', gateway_port: '' @ show_nat (unat (gateway_port t))
     @ '', org_id: '' @ dbg (org_id t) @ '', token_id: '' @ dbg (token_id t) @ '', secret: '' @ dbg ''<redacted>'' @ '', .. }''"

section \<open>Laws\<close>

lemma rsplit_once_Some: "rsplit_once c s = Some (a, b) \<longleftrightarrow> s = a @ c # b \<and> c \<notin> set b"
proof -
  have "rsplit_once c s = Some (a, b) \<longleftrightarrow> split_once c (rev s) = Some (rev b, rev a)"
    by (auto simp: rsplit_once_def rev_swap)
  also have "\<dots> \<longleftrightarrow> rev s = rev b @ c # rev a \<and> c \<notin> set b"
    by (simp add: split_once_Some)
  also have "rev s = rev b @ c # rev a \<longleftrightarrow> s = a @ c # b"
    by (metis append.assoc append_Cons append_Nil rev.simps(2) rev_append rev_rev_ident)
  finally show ?thesis by simp
qed

lemma strip_suffix_Some [simp]: "strip_suffix p s = Some r \<longleftrightarrow> s = r @ p"
  by (auto simp: strip_suffix_def) (metis rev_append rev_rev_ident)+

lemma unbracket_bracketed [simp]: "unbracket (''['' @ h @ '']'') = h"
proof -
  have "strip_prefix ''['' (''['' @ h @ '']'') = Some (h @ '']'')" by (simp only: strip_prefix_append)
  thus ?thesis unfolding unbracket_def
    by (metis (mono_tags, lifting) bind.bind_lunit option.simps(5) strip_suffix_Some)
qed

lemma unbracket_plain: "(\<forall>h. s \<noteq> ''['' @ h @ '']'') \<Longrightarrow> unbracket s = s"
  by (auto simp: unbracket_def split: option.splits bind_splits)

lemma parse_gateway_Inr:
  "parse_gateway seg = Inr (host, port) \<longleftrightarrow>
     (\<exists>hr pt p. seg = hr @ '':'' @ pt \<and> CHR '':'' \<notin> set pt \<and> host = unbracket hr \<and> host \<noteq> [] \<and> CHR ''|'' \<notin> set host
        \<and> parse_uint 16 pt = Some p \<and> 1 \<le> p \<and> port = word_of_nat p)" (is "?L = ?R")
proof
  assume ?L
  then obtain hr pt where seg: "rsplit_once CHR '':'' seg = Some (hr, pt)"
    by (auto simp: parse_gateway_def)
  thus ?R using \<open>?L\<close> by (auto simp: parse_gateway_def Let_def rsplit_once_Some split: option.splits if_splits)
next
  assume ?R
  then obtain hr pt p where *: "seg = hr @ '':'' @ pt" "CHR '':'' \<notin> set pt" "host = unbracket hr" "host \<noteq> []"
    "CHR ''|'' \<notin> set host" "parse_uint 16 pt = Some p" "1 \<le> p" "port = word_of_nat p" by blast
  have "rsplit_once CHR '':'' seg = Some (hr, pt)" using * by (simp add: rsplit_once_Some)
  thus ?L using * by (simp add: parse_gateway_def)
qed

lemma parse_credential_Inr:
  "parse_credential seg = Inr (tid, sec) \<longleftrightarrow> seg = tid @ ''.'' @ sec \<and> CHR ''.'' \<notin> set tid \<and> tid \<noteq> [] \<and> sec \<noteq> []"
  by (auto simp: parse_credential_def split_once_Some)

lemma parse_fingerprint_Inr:
  "parse_fingerprint seg = Inr fp \<longleftrightarrow>
     (\<exists>h. seg = ''sha256:'' @ h \<and> length h = 64 \<and> list_all is_hexdigit h \<and> fp = unhex h)"
  by (auto simp: parse_fingerprint_def)

lemma length_unhex: "length s = 2 * n \<Longrightarrow> length (unhex s) = n"
  by (induction s arbitrary: n rule: unhex.induct) (auto simp: less_Suc_eq_0_disj gr0_conv_Suc, case_tac n, auto)

lemma hex_val_lt: "is_hexdigit c \<Longrightarrow> hex_val c < 16"
  by (auto simp: is_hexdigit_def hex_val_def is_digit_def)

lemma hex_char_hex_val: "is_hexdigit c \<Longrightarrow> hex_char (hex_val c) = lower_char c"
proof -
  assume h: "is_hexdigit c"
  consider (digit) "is_digit c" | (upper) "65 \<le> byte c" "byte c \<le> 70" | (lower) "97 \<le> byte c" "byte c \<le> 102"
    using h by (auto simp: is_hexdigit_def)
  thus ?thesis
  proof cases
    case digit
    thus ?thesis by (auto simp: hex_char_def hex_val_def lower_char_def is_digit_def is_upper_def byte_def)
  next
    case upper
    thus ?thesis by (simp add: hex_char_def hex_val_def lower_char_def is_digit_def is_upper_def)
  next
    case lower
    hence "\<not> byte c - 87 < 10" by arith
    with lower show ?thesis by (simp add: hex_char_def hex_val_def lower_char_def is_digit_def is_upper_def byte_def)
  qed
qed

lemma unat_byte: "n < 256 \<Longrightarrow> unat (word_of_nat n :: 8 word) = n"
  by (simp add: unat_of_nat)

lemma unat_hex_pair:
  "x < 16 \<Longrightarrow> y < 16 \<Longrightarrow> unat (word_of_nat (16 * x + y) :: 8 word) = 16 * x + y"
  by (rule unat_byte) simp

text \<open>The fingerprint bytes carry the digits: printed again they are the digits of the token in lower case.\<close>

lemma hex_unhex: "list_all is_hexdigit s \<Longrightarrow> even (length s) \<Longrightarrow> hex (unhex s) = to_lower s"
proof (induction s rule: unhex.induct)
  case (1 a b s)
  hence "hex_val a < 16" "hex_val b < 16" by (simp_all add: hex_val_lt)
  hence "unat (word_of_nat (16 * hex_val a + hex_val b) :: 8 word) = 16 * hex_val a + hex_val b" by (rule unat_hex_pair)
  with 1 \<open>hex_val b < 16\<close> show ?case by (simp del: of_nat_add of_nat_mult add: hex_def to_lower_def hex_char_hex_val)
qed (auto simp: hex_def to_lower_def)

section \<open>The grammar\<close>

text \<open>The text of a token from its parts, with the host and the port as they are spelled.\<close>

definition token_wire :: "string \<Rightarrow> string \<Rightarrow> string \<Rightarrow> string \<Rightarrow> string \<Rightarrow> string \<Rightarrow> string" where
  "token_wire host_raw port_raw org tid sec fp =
     join ''|'' [''QC1'', host_raw @ '':'' @ port_raw, org, tid @ ''.'' @ sec, ''sha256:'' @ fp]"

definition parts_ok :: "enroll_token \<Rightarrow> string \<Rightarrow> string \<Rightarrow> string \<Rightarrow> bool" where
  "parts_ok t host_raw port_raw fp \<longleftrightarrow>
     CHR ''|'' \<notin> set (host_raw @ org_id t @ token_id t @ secret t) \<and>
     gateway_host t = unbracket host_raw \<and> gateway_host t \<noteq> [] \<and>
     CHR '':'' \<notin> set port_raw \<and> parse_uint 16 port_raw = Some (unat (gateway_port t)) \<and> gateway_port t \<noteq> 0 \<and>
     org_id t \<noteq> [] \<and> CHR ''.'' \<notin> set (token_id t) \<and> token_id t \<noteq> [] \<and> secret t \<noteq> [] \<and>
     length fp = 64 \<and> list_all is_hexdigit fp \<and> ca_fingerprint t = unhex fp"

lemma five_parts: "length xs = 5 \<longleftrightarrow> (\<exists>a b c d e. xs = [a, b, c, d, e])"
  by (auto simp: numeral_eq_Suc length_Suc_conv)

lemma join_split_on: "join [c] (split_on c s) = s"
proof (induction s)
  case (Cons a s)
  thus ?case by (cases "split_on c s"; cases "tl (split_on c s)") (auto simp: neq_Nil_conv)
qed simp

lemma split_wire:
  assumes "CHR ''|'' \<notin> set a" "CHR ''|'' \<notin> set b" "CHR ''|'' \<notin> set c" "CHR ''|'' \<notin> set d" "CHR ''|'' \<notin> set e"
  shows "split_on CHR ''|'' (join ''|'' [a, b, c, d, e]) = [a, b, c, d, e]"
  using assms by (subst split_on_join) auto

lemma port_no_bar: "parse_uint 16 p = Some n \<Longrightarrow> CHR ''|'' \<notin> set p"
  using parse_uint_chars [of 16 p n "CHR ''|''"] by (auto simp: is_digit_def byte_def)

lemma hex_no_bar: "list_all is_hexdigit s \<Longrightarrow> CHR ''|'' \<notin> set s"
  by (auto simp: list_all_iff is_hexdigit_def is_digit_def byte_def)

lemma unbracket_set: "c \<in> set (unbracket s) \<Longrightarrow> c \<in> set s"
  by (auto simp: unbracket_def split: option.splits bind_splits)


lemma parts_no_bar:
  assumes "parts_ok t hr pt fp"
  shows "CHR ''|'' \<notin> set (hr @ '':'' @ pt)" "CHR ''|'' \<notin> set (org_id t)" "CHR ''|'' \<notin> set (token_id t @ ''.'' @ secret t)"
    "CHR ''|'' \<notin> set (''sha256:'' @ fp)" "CHR ''|'' \<notin> set (gateway_host t)"
  using assms port_no_bar [of pt] hex_no_bar [of fp] unbracket_set [of "CHR ''|''" hr] by (auto simp: parts_ok_def)

lemma parse_wire:
  assumes "parts_ok t hr pt fp" "raw = token_wire hr pt (org_id t) (token_id t) (secret t) fp" "length raw \<le> 1024"
    "list_all is_ascii_graphic raw" "sha256_hex t = hex (sha256 (str_bytes raw))"
  shows "parse sha256 raw = Inr t"
proof -
  note p = assms(1) [unfolded parts_ok_def] and nb = parts_no_bar [OF assms(1)]
  have "split_on CHR ''|'' raw = [''QC1'', hr @ '':'' @ pt, org_id t, token_id t @ ''.'' @ secret t, ''sha256:'' @ fp]"
    unfolding assms(2) token_wire_def by (rule split_wire) (use nb in auto)
  moreover have "parse_gateway (hr @ '':'' @ pt) = Inr (gateway_host t, gateway_port t)"
    unfolding parse_gateway_Inr using p nb(5)
    by (intro exI [of _ hr] exI [of _ pt] exI [of _ "unat (gateway_port t)"]) (auto simp: unat_gt_0 Suc_le_eq)
  moreover have "parse_credential (token_id t @ ''.'' @ secret t) = Inr (token_id t, secret t)"
    using p by (simp add: parse_credential_Inr)
  moreover have "parse_fingerprint (''sha256:'' @ fp) = Inr (ca_fingerprint t)"
    using p by (auto simp: parse_fingerprint_Inr)
  ultimately show ?thesis using p assms(3-5) by (simp add: parse_def Let_def)
qed

lemma parse_parts:
  assumes "parse sha256 raw = Inr t"
  shows "\<exists>hr pt fp. raw = token_wire hr pt (org_id t) (token_id t) (secret t) fp \<and> parts_ok t hr pt fp"
    and "length raw \<le> 1024 \<and> list_all is_ascii_graphic raw \<and> sha256_hex t = hex (sha256 (str_bytes raw))"
proof -
  obtain a b c d e where segs: "split_on CHR ''|'' raw = [a, b, c, d, e]"
    using assms by (auto simp: parse_def Let_def five_parts)
  have raw: "raw = join ''|'' [a, b, c, d, e]" using join_split_on [of "CHR ''|''" raw] segs by simp
  have nb: "CHR ''|'' \<notin> set s" if "s \<in> set [a, b, c, d, e]" for s using split_on_parts [of s "CHR ''|''" raw] segs that by simp
  obtain host port tid sec fpb where r: "a = ''QC1''" "parse_gateway b = Inr (host, port)" "c \<noteq> []"
    "parse_credential d = Inr (tid, sec)" "parse_fingerprint e = Inr fpb"
    "t = \<lparr>gateway_host = host, gateway_port = port, org_id = c, token_id = tid, secret = sec,
          ca_fingerprint = fpb, sha256_hex = hex (sha256 (str_bytes raw))\<rparr>"
    using assms segs by (auto simp: parse_def Let_def)
  obtain hr pt p where g: "b = hr @ '':'' @ pt" "CHR '':'' \<notin> set pt" "host = unbracket hr" "host \<noteq> []"
    "parse_uint 16 pt = Some p" "1 \<le> p" "port = word_of_nat p" using r(2) by (auto simp: parse_gateway_Inr)
  obtain h where f: "e = ''sha256:'' @ h" "length h = 64" "list_all is_hexdigit h" "fpb = unhex h"
    using r(5) by (auto simp: parse_fingerprint_Inr)
  have d: "d = tid @ ''.'' @ sec" "CHR ''.'' \<notin> set tid" "tid \<noteq> []" "sec \<noteq> []" using r(4) by (auto simp: parse_credential_Inr)
  have "p < 65536" using parse_uint_bound [OF g(5)] by simp
  hence port: "unat port = p" by (simp add: g(7) unat_of_nat)
  hence "port \<noteq> 0" using g(6) by auto
  hence "parts_ok t hr pt h" using r g f d port nb [of b] nb [of c] nb [of d] by (auto simp: parts_ok_def)
  moreover have "raw = token_wire hr pt (org_id t) (token_id t) (secret t) h"
    using r g f d raw by (simp add: token_wire_def)
  ultimately show "\<exists>hr pt fp. raw = token_wire hr pt (org_id t) (token_id t) (secret t) fp \<and> parts_ok t hr pt fp" by blast
  show "length raw \<le> 1024 \<and> list_all is_ascii_graphic raw \<and> sha256_hex t = hex (sha256 (str_bytes raw))"
    using assms segs r(6) by (auto simp: parse_def Let_def)
qed

text \<open>C11. The tokens the parser accepts, and what it returns for them: a printable ASCII line of at most 1024 bytes made of the
  version, a gateway with a port from 1 to 65535, a non-empty organisation, a credential with a non-empty id and secret, and 64
  hexadecimal digits; every part of the result is the part of the text, and the fingerprint bytes print as the digits of the token.\<close>

theorem token_grammar:
  "parse sha256 raw = Inr t \<longleftrightarrow>
     length raw \<le> 1024 \<and> list_all is_ascii_graphic raw \<and> sha256_hex t = hex (sha256 (str_bytes raw)) \<and>
     (\<exists>hr pt fp. raw = token_wire hr pt (org_id t) (token_id t) (secret t) fp \<and> parts_ok t hr pt fp
        \<and> hex (ca_fingerprint t) = to_lower fp)"
proof
  assume p: "parse sha256 raw = Inr t"
  then obtain hr pt fp where "raw = token_wire hr pt (org_id t) (token_id t) (secret t) fp" and ok: "parts_ok t hr pt fp"
    using parse_parts(1) by blast
  moreover from ok have "hex (ca_fingerprint t) = to_lower fp" by (simp add: parts_ok_def hex_unhex)
  ultimately show "length raw \<le> 1024 \<and> list_all is_ascii_graphic raw \<and> sha256_hex t = hex (sha256 (str_bytes raw)) \<and>
     (\<exists>hr pt fp. raw = token_wire hr pt (org_id t) (token_id t) (secret t) fp \<and> parts_ok t hr pt fp
        \<and> hex (ca_fingerprint t) = to_lower fp)" using parse_parts(2) [OF p] by blast
next
  assume "length raw \<le> 1024 \<and> list_all is_ascii_graphic raw \<and> sha256_hex t = hex (sha256 (str_bytes raw)) \<and>
     (\<exists>hr pt fp. raw = token_wire hr pt (org_id t) (token_id t) (secret t) fp \<and> parts_ok t hr pt fp
        \<and> hex (ca_fingerprint t) = to_lower fp)"
  thus "parse sha256 raw = Inr t" using parse_wire by blast
qed

text \<open>The \<open>Debug\<close> form is the same whatever the secret is.\<close>

lemma debug_token_secret: "debug_token (t\<lparr>secret := s\<rparr>) = debug_token t"
  by (simp add: debug_token_def)

end
