(* ===== verification/TlsPin.thy ===== *)
theory TlsPin
  imports Token
begin

text \<open>
  Trust in the gateway (\<open>src/control/tls.rs\<close>): the certificate verifier with its two trust paths, the cell it records its
  outcome in, and the builders of the client configuration and the channel. The certificate library, the name and URI parsers and the
  network are the records \<open>pki\<close> and \<open>net\<close>; a certificate is its DER bytes.
\<close>

text \<open>A TLS error is one the verifier words itself or one of the library.\<close>

datatype 'e tls_error = General string | Library 'e

text \<open>\<open>'h\<close> is what a handshake presents beside the certificates: server name, OCSP response, time.\<close>

record ('e, 'h) pki =
  digest :: "bytes \<Rightarrow> bytes"
  add_anchor :: "bytes \<Rightarrow> string + unit"
  build_verifier :: "bytes list \<Rightarrow> string + unit"
  check_chain :: "bytes list \<Rightarrow> bytes \<Rightarrow> bytes list \<Rightarrow> 'h \<Rightarrow> 'e tls_error + unit"
  show_tls :: "'e tls_error \<Rightarrow> string"
  pem_certs :: "string \<Rightarrow> (string + bytes) list"

datatype verified_via = Roots | Pinned bytes

record verifier =
  v_roots :: "bytes list option"
  v_pin :: "bytes option"

definition new_verifier :: "('e, 'h) pki \<Rightarrow> bytes list \<Rightarrow> bytes option \<Rightarrow> string + verifier" where
  "new_verifier k roots pin =
     (if roots = [] then Inr \<lparr>v_roots = None, v_pin = pin\<rparr>
      else sbind (smap_err (\<lambda>e. ''build root-store verifier: '' @ e) (build_verifier k roots)) (\<lambda>_.
           Inr \<lparr>v_roots = Some roots, v_pin = pin\<rparr>))"

text \<open>The loop over the presented certificates: \<open>Inr\<close> is the certificate that was accepted, \<open>Inl\<close> the last error of a
  certificate with the pinned digest.\<close>

fun try_pins :: "('e, 'h) pki \<Rightarrow> bytes \<Rightarrow> bytes \<Rightarrow> bytes list \<Rightarrow> 'h \<Rightarrow> bytes list \<Rightarrow> string option \<Rightarrow> string option + bytes" where
  "try_pins k pin end_entity intermediates h [] pin_err = Inl pin_err"
| "try_pins k pin end_entity intermediates h (cand # rest) pin_err =
     (if digest k cand \<noteq> pin then try_pins k pin end_entity intermediates h rest pin_err
      else if cand = end_entity then Inr cand
      else case add_anchor k cand of
        Inl e \<Rightarrow> try_pins k pin end_entity intermediates h rest (Some (''pinned cert is not usable as a trust anchor: '' @ e))
      | Inr _ \<Rightarrow>
          (case build_verifier k [cand] of
             Inl e \<Rightarrow> try_pins k pin end_entity intermediates h rest (Some e)
           | Inr _ \<Rightarrow>
               (case check_chain k [cand] end_entity intermediates h of
                  Inr _ \<Rightarrow> Inr cand
                | Inl e \<Rightarrow> try_pins k pin end_entity intermediates h rest (Some (show_tls k e)))))"

definition pin_detail :: "('e, 'h) pki \<Rightarrow> 'e tls_error option \<Rightarrow> string option \<Rightarrow> string" where
  "pin_detail k roots_err pin_err = (case (roots_err, pin_err) of
       (_, Some p) \<Rightarrow> ''CA fingerprint matched but chain validation failed: '' @ p
     | (Some w, None) \<Rightarrow> ''root-store validation failed ('' @ show_tls k w @ '') and no presented certificate matches the token''
         @ quote_char @ ''s CA fingerprint''
     | (None, None) \<Rightarrow> ''no presented certificate matches the token'' @ quote_char @ ''s CA fingerprint'')"

definition MISMATCH :: string where
  "MISMATCH = ''does not match the token'' @ quote_char @ ''s CA fingerprint''"

text \<open>The outcome cell is the state.\<close>

definition verify_server_cert ::
  "('e, 'h) pki \<Rightarrow> verifier \<Rightarrow> bytes \<Rightarrow> bytes list \<Rightarrow> 'h \<Rightarrow> (verified_via option, 'e tls_error, unit) io" where
  "verify_server_cert k v end_entity intermediates h outcome =
     (let by_roots = map_option (\<lambda>roots. check_chain k roots end_entity intermediates h) (v_roots v) in
      if by_roots = Some (Inr ()) then (Inr (), Some Roots)
      else
        (let roots_err = Option.bind by_roots (\<lambda>r. case r of Inl e \<Rightarrow> Some e | Inr _ \<Rightarrow> None) in
         case v_pin v of
           Some pin \<Rightarrow>
             (case try_pins k pin end_entity intermediates h (intermediates @ [end_entity]) None of
                Inr cand \<Rightarrow> (Inr (), Some (Pinned cand))
              | Inl pin_err \<Rightarrow>
                  (Inl (General (''server certificate chain '' @ MISMATCH @ '': '' @ pin_detail k roots_err pin_err)), outcome))
         | None \<Rightarrow>
             (Inl (case roots_err of Some e \<Rightarrow> e | None \<Rightarrow> General ''no trust anchors available for server verification''), outcome)))"

section \<open>Trust stores and configurations\<close>

fun add_certs :: "('e, 'h) pki \<Rightarrow> (string + bytes) list \<Rightarrow> bytes list \<Rightarrow> string + bytes list" where
  "add_certs k [] roots = Inr roots"
| "add_certs k (der # ders) roots =
     sbind (smap_err (\<lambda>e. ''parse CA certificate PEM: '' @ e) der) (\<lambda>cert.
     sbind (smap_err (\<lambda>e. ''add CA certificate to the trust store: '' @ e) (add_anchor k cert)) (\<lambda>_.
     add_certs k ders (roots @ [cert])))"

fun add_pems :: "('e, 'h) pki \<Rightarrow> string list \<Rightarrow> bytes list \<Rightarrow> string + bytes list" where
  "add_pems k [] roots = Inr roots"
| "add_pems k (pem # pems) roots = sbind (add_certs k (pem_certs k pem) roots) (add_pems k pems)"

definition pinned_roots :: "('e, 'h) pki \<Rightarrow> string list \<Rightarrow> string + bytes list" where
  "pinned_roots k pems =
     sbind (add_pems k pems []) (\<lambda>roots.
     sbind (check (roots \<noteq> []) ''no usable certificates in the pinned CA store'') (\<lambda>_. Inr roots))"

text \<open>The client configuration: the verifier, the client identity, and HTTP/2 as the one protocol offered.\<close>

record 'i tls_config =
  cc_verifier :: verifier
  cc_identity :: "'i option"
  cc_alpn :: "string list"

definition client_config :: "('e, 'h) pki \<Rightarrow> ('i \<Rightarrow> string + unit) \<Rightarrow> bytes list \<Rightarrow> bytes option \<Rightarrow> 'i option \<Rightarrow> string + 'i tls_config" where
  "client_config k load_identity roots pin client_identity =
     sbind (new_verifier k roots pin) (\<lambda>v.
     sbind (case client_identity of
              Some i \<Rightarrow> smap_err (\<lambda>e. ''load mTLS client identity: '' @ e) (load_identity i)
            | None \<Rightarrow> Inr ()) (\<lambda>_.
     Inr \<lparr>cc_verifier = v, cc_identity = client_identity, cc_alpn = [''h2'']\<rparr>))"

text \<open>The network: resolver, TCP, the certificates a peer presents, and the rest of the handshake. \<open>wrap\<close> is the text
  the transport library puts around an error of the connector.\<close>

record ('n, 'a, 'c, 'h, 'i) net =
  server_name :: "string \<Rightarrow> 'n option"
  parse_uri :: "string \<Rightarrow> string + unit"
  lookup_host :: "string \<Rightarrow> string + 'a list"
  tcp_connect :: "'a list \<Rightarrow> string + 'c"
  show_addrs :: "'a list \<Rightarrow> string"
  presented :: "'c \<Rightarrow> 'n \<Rightarrow> bytes \<times> bytes list \<times> 'h"
  finish :: "'c \<Rightarrow> 'n \<Rightarrow> 'i option \<Rightarrow> string + unit"
  wrap :: "string \<Rightarrow> string"

definition handshake :: "('e, 'h) pki \<Rightarrow> ('n, 'a, 'c, 'h, 'i) net \<Rightarrow> 'i tls_config \<Rightarrow> 'n \<Rightarrow> 'c \<Rightarrow> (verified_via option, string, unit) io" where
  "handshake k n tls name conn =
     (case presented n conn name of (end_entity, intermediates, h) \<Rightarrow>
        bnd (map_err (show_tls k) (verify_server_cert k (cc_verifier tls) end_entity intermediates h)) (\<lambda>_.
        lift (finish n conn name (cc_identity tls))))"

definition connector :: "('e, 'h) pki \<Rightarrow> ('n, 'a, 'c, 'h, 'i) net \<Rightarrow> 'i tls_config \<Rightarrow> 'n \<Rightarrow> string \<Rightarrow> string \<Rightarrow> (verified_via option, string, 'c) io" where
  "connector k n tls name host addr =
     bnd (lift (smap_err (\<lambda>e. ''resolving gateway host '' @ quoted host @ '' failed: '' @ e) (lookup_host n addr))) (\<lambda>addrs.
     bnd (guard (addrs \<noteq> []) (''gateway host '' @ quoted host @ '' resolved to no addresses'')) (\<lambda>_.
     bnd (lift (smap_err (\<lambda>e. ''TCP connect to '' @ host @ '' ('' @ show_addrs n addrs @ '') failed: '' @ e) (tcp_connect n addrs))) (\<lambda>tcp.
     bnd (map_err (\<lambda>e. ''TLS handshake with '' @ quoted host @ '' failed: '' @ e) (handshake k n tls name tcp)) (\<lambda>_.
     ret tcp))))"

definition grpc_channel :: "('e, 'h) pki \<Rightarrow> ('n, 'a, 'c, 'h, 'i) net \<Rightarrow> string \<Rightarrow> 16 word \<Rightarrow> 'i tls_config \<Rightarrow> (verified_via option, string, 'c) io" where
  "grpc_channel k n host port tls =
     bnd (lift (ok_or (server_name n host) (quoted host @ '' is not a valid TLS server name''))) (\<lambda>name.
     let addr = host @ '':'' @ show_nat (unat port) in
     bnd (lift (smap_err (\<lambda>e. ''gateway address '' @ quoted addr @ '' does not form a valid URL: '' @ e) (parse_uri n (''https://'' @ addr)))) (\<lambda>_.
     map_err (wrap n) (connector k n tls name host addr)))"

text \<open>The URL is made of the bare host. For an IPv6 gateway, whose brackets the token parser has taken off, it is the literal with
  the port after one more colon.\<close>

lemma grpc_channel_bad_url:
  assumes "server_name n host = Some name" "parse_uri n (''https://'' @ host @ '':'' @ show_nat (unat port)) = Inl e"
  shows "fst (grpc_channel k n host port tls o1) =
    Inl (''gateway address '' @ quoted (host @ '':'' @ show_nat (unat port)) @ '' does not form a valid URL: '' @ e)"
  using assms by (simp add: grpc_channel_def io_run ok_or_def)

lemma ipv6_gateway_url:
  assumes "parse_gateway ''[2001:db8::1]:443'' = Inr (host, port)"
  shows "''https://'' @ host @ '':'' @ show_nat (unat port) = ''https://2001:db8::1:443''"
proof -
  have "rsplit_once CHR '':'' ''[2001:db8::1]:443'' = Some (''[2001:db8::1]'', ''443'')" by (simp add: rsplit_once_def)
  moreover have "unbracket ''[2001:db8::1]'' = ''2001:db8::1''" using unbracket_bracketed [of "''2001:db8::1''"] by simp
  moreover have "parse_uint 16 ''443'' = Some 443" by (simp add: parse_uint_def char_class_defs digits_val_def)
  moreover have "show_nat 443 = ''443''" by code_simp
  ultimately show ?thesis using assms by (auto simp: parse_gateway_def)
qed

section \<open>What the verifier accepts\<close>

text \<open>A presented certificate the pin vouches for: the end entity itself, or one the chain verifies against as the sole anchor.\<close>

definition vouches :: "('e, 'h) pki \<Rightarrow> bytes \<Rightarrow> bytes \<Rightarrow> bytes list \<Rightarrow> 'h \<Rightarrow> bytes \<Rightarrow> bool" where
  "vouches k pin end_entity intermediates h cand \<longleftrightarrow>
     cand \<in> set (intermediates @ [end_entity]) \<and> digest k cand = pin \<and>
     (cand = end_entity \<or> add_anchor k cand = Inr () \<and> build_verifier k [cand] = Inr ()
        \<and> check_chain k [cand] end_entity intermediates h = Inr ())"

lemma try_pins_Inr:
  "try_pins k pin ee ims h cands e = Inr c \<Longrightarrow> set cands \<subseteq> set (ims @ [ee]) \<Longrightarrow> vouches k pin ee ims h c"
  by (induction k pin ee ims h cands e rule: try_pins.induct)
    (auto simp: vouches_def split: if_splits sum.splits unit.splits)

lemma try_pins_Inl:
  "try_pins k pin ee ims h cands e = Inl e' \<Longrightarrow> c \<in> set cands \<Longrightarrow> \<not> vouches k pin ee ims h c"
  by (induction k pin ee ims h cands e rule: try_pins.induct)
    (auto simp: vouches_def split: if_splits sum.splits unit.splits)

text \<open>With the pin alone, the record of an accepted handshake names the certificate that was vouched for.\<close>

lemma verify_pin_only:
  assumes "verify_server_cert k \<lparr>v_roots = None, v_pin = Some pin\<rparr> ee ims h outcome = (Inr (), outcome')"
  shows "\<exists>cand. outcome' = Some (Pinned cand) \<and> vouches k pin ee ims h cand"
proof (cases "try_pins k pin ee ims h (ims @ [ee]) None")
  case (Inr c)
  with try_pins_Inr [OF Inr] assms show ?thesis by (auto simp: verify_server_cert_def)
qed (use assms in \<open>auto simp: verify_server_cert_def\<close>)

text \<open>C8. The verifier accepts a chain exactly if the root store verifies it or, where a pin is set, a presented certificate has the
  pinned digest and is the end entity itself or the sole anchor under which the whole chain verifies; it records which, the roots
  first; a chain it refuses leaves the record as it was.\<close>

theorem verifier_accepts:
  assumes "verify_server_cert k v ee ims h outcome = (r, outcome')"
  shows "(r = Inr () \<longleftrightarrow> (\<exists>roots. v_roots v = Some roots \<and> check_chain k roots ee ims h = Inr ())
      \<or> (\<exists>pin cand. v_pin v = Some pin \<and> vouches k pin ee ims h cand))
    \<and> (outcome' = outcome \<or> r = Inr ())
    \<and> ((\<exists>roots. v_roots v = Some roots \<and> check_chain k roots ee ims h = Inr ()) \<longrightarrow> outcome' = Some Roots)
    \<and> (r = Inr () \<and> outcome' \<noteq> Some Roots \<longrightarrow> (\<exists>pin cand. v_pin v = Some pin \<and> outcome' = Some (Pinned cand) \<and> vouches k pin ee ims h cand))"
proof (cases "\<exists>roots. v_roots v = Some roots \<and> check_chain k roots ee ims h = Inr ()")
  case True
  thus ?thesis using assms by (auto simp: verify_server_cert_def)
next
  case False
  hence nr: "map_option (\<lambda>roots. check_chain k roots ee ims h) (v_roots v) \<noteq> Some (Inr ())" by auto
  note run = verify_server_cert_def [unfolded Let_def, of k v ee ims h outcome, unfolded if_not_P [OF nr]] assms [symmetric]
  show ?thesis
  proof (cases "v_pin v")
    case None
    thus ?thesis using False run by auto
  next
    case (Some pin)
    show ?thesis
    proof (cases "try_pins k pin ee ims h (ims @ [ee]) None")
      case (Inr c)
      with try_pins_Inr [OF Inr] have "vouches k pin ee ims h c" by simp
      moreover have "r = Inr ()" "outcome' = Some (Pinned c)" using Inr Some run by simp_all
      ultimately show ?thesis using Some False by auto
    next
      case (Inl e)
      have "\<not> vouches k pin ee ims h c" for c
        using try_pins_Inl [OF Inl, of c] by (auto simp: vouches_def)
      moreover have "\<exists>x. r = Inl x" "outcome' = outcome" using Inl Some run by simp_all
      ultimately show ?thesis using Some False by auto
    qed
  qed
qed

text \<open>A self-signed gateway: its certificate carries the pin.\<close>

definition demo_pki :: "(string, unit) pki" where
  "demo_pki = \<lparr>digest = take 1, add_anchor = (\<lambda>c. Inr ()), build_verifier = (\<lambda>cs. Inr ()),
     check_chain = (\<lambda>anchors ee ims h. if ee \<in> set anchors then Inr () else Inl (Library ''UnknownIssuer'')),
     show_tls = (\<lambda>e. case e of General t \<Rightarrow> t | Library t \<Rightarrow> t), pem_certs = (\<lambda>p. [Inr (str_bytes p)])\<rparr>"

theorem verifier_accepts_witness:
  "vouches demo_pki [7] [7, 1] [[8]] () [7, 1] \<and> \<not> vouches demo_pki [7] [7, 1] [[8]] () [8]"
proof -
  have "verify_server_cert demo_pki \<lparr>v_roots = None, v_pin = Some [7]\<rparr> [7, 1] [[8]] () None = (Inr (), Some (Pinned [7, 1]))"
    by (simp add: verify_server_cert_def demo_pki_def Let_def)
  from verifier_accepts [OF this] show ?thesis by (auto simp: vouches_def demo_pki_def)
qed

end
