(* ===== verification/Disk.thy ===== *)
theory Disk
  imports Token
begin

text \<open>
  The files the agent keeps (\<open>atomic_write\<close>, \<open>write_private\<close> and the calls of \<open>std::fs\<close> they make,
  \<open>src/identity/mod.rs\<close>). The disk holds the files with their permission bits and a schedule of faults: what goes wrong with
  the system calls to come. A write can stop after any number of bytes. The code never cleans up after a failed call, so the files a
  crash leaves are those of a failure at the same call. The contract of the two writers is the locale \<open>replacing\<close>.
\<close>

record disk_file =
  content :: string
  mode :: nat

text \<open>\<open>Fails e\<close>: the call does nothing and reports \<open>e\<close>; \<open>Stops n e\<close>: a write stops after \<open>n\<close> bytes.\<close>

datatype fault = Works | Fails string | Stops nat string

record disk =
  files :: "string \<Rightarrow> disk_file option"
  folders :: "string \<Rightarrow> nat option"
  faults :: "fault list"
  new_mode :: nat

datatype os_error = Missing | OsError string

definition NO_SUCH_FILE :: string where
  "NO_SUCH_FILE = ''No such file or directory (os error 2)''"

fun os_text :: "os_error \<Rightarrow> string" where
  "os_text Missing = NO_SUCH_FILE"
| "os_text (OsError e) = e"

text \<open>An error with its context, as \<open>{e:#}\<close> prints it.\<close>

definition because :: "string \<Rightarrow> string \<Rightarrow> string" where
  "because what e = what @ '': '' @ e"

definition os_because :: "string \<Rightarrow> os_error \<Rightarrow> string" where
  "os_because what e = because what (os_text e)"

section \<open>System calls\<close>

definition next_fault :: "(disk, 'e, fault) io" where
  "next_fault d = (case faults d of [] \<Rightarrow> (Inr Works, d) | f # fs \<Rightarrow> (Inr f, d\<lparr>faults := fs\<rparr>))"

definition fault_error :: "fault \<Rightarrow> os_error" where
  "fault_error f = (case f of Works \<Rightarrow> OsError [] | Fails e \<Rightarrow> OsError e | Stops n e \<Rightarrow> OsError e)"

text \<open>A call with its effect, or its fault and no effect.\<close>

definition syscall :: "(disk, os_error, 'a) io \<Rightarrow> (disk, os_error, 'a) io" where
  "syscall m = bnd next_fault (\<lambda>f. case f of Works \<Rightarrow> m | _ \<Rightarrow> fail (fault_error f))"

definition set_file :: "string \<Rightarrow> disk_file option \<Rightarrow> (disk, 'e, unit) io" where
  "set_file path f d = (Inr (), d\<lparr>files := (files d)(path := f)\<rparr>)"

text \<open>
  \<open>open\<close> with create and truncate: the permission bits count only when the file is made. \<open>None\<close> stands for the bits of
  \<open>File::create\<close>, which the umask decides.
\<close>

definition open_new :: "nat option \<Rightarrow> string \<Rightarrow> (disk, os_error, unit) io" where
  "open_new bits path = syscall (\<lambda>d. set_file path (Some (case files d path of
       Some f \<Rightarrow> f\<lparr>content := []\<rparr>
     | None \<Rightarrow> \<lparr>content = [], mode = (case bits of Some b \<Rightarrow> b | None \<Rightarrow> new_mode d)\<rparr>)) d)"

definition append_file :: "string \<Rightarrow> string \<Rightarrow> (disk, 'e, unit) io" where
  "append_file path text d =
     (Inr (), d\<lparr>files := (files d)(path := map_option (\<lambda>f. f\<lparr>content := content f @ text\<rparr>) (files d path))\<rparr>)"

definition write_all :: "string \<Rightarrow> string \<Rightarrow> (disk, os_error, unit) io" where
  "write_all path text = bnd next_fault (\<lambda>f. case f of
       Works \<Rightarrow> append_file path text
     | Fails e \<Rightarrow> fail (OsError e)
     | Stops n e \<Rightarrow> bnd (append_file path (take n text)) (\<lambda>_. fail (OsError e)))"

definition sync_all :: "(disk, os_error, unit) io" where
  "sync_all = syscall (ret ())"

definition rename_file :: "string \<Rightarrow> string \<Rightarrow> (disk, os_error, unit) io" where
  "rename_file from to = syscall (\<lambda>d. case files d from of
       None \<Rightarrow> (Inl Missing, d)
     | Some f \<Rightarrow> (Inr (), d\<lparr>files := (files d)(from := None, to := Some f)\<rparr>))"

definition read_to_string :: "string \<Rightarrow> (disk, os_error, string) io" where
  "read_to_string path = syscall (\<lambda>d. case files d path of None \<Rightarrow> (Inl Missing, d) | Some f \<Rightarrow> (Inr (content f), d))"

definition remove_file :: "string \<Rightarrow> (disk, os_error, unit) io" where
  "remove_file path = syscall (\<lambda>d. case files d path of None \<Rightarrow> (Inl Missing, d) | Some _ \<Rightarrow> set_file path None d)"

text \<open>\<open>Path::exists\<close> has no error: a \<open>stat\<close> that fails reads as an absent file.\<close>

definition path_exists :: "string \<Rightarrow> (disk, 'e, bool) io" where
  "path_exists path = bnd next_fault (\<lambda>f d. (Inr (f = Works \<and> files d path \<noteq> None), d))"

text \<open>\<open>create_dir_all\<close>: the missing folders on the way are made too.\<close>

definition ancestors :: "string \<Rightarrow> string list" where
  "ancestors dir = map (\<lambda>i. take i dir) (filter (\<lambda>i. dir ! i = CHR ''/'') [1..<length dir]) @ [dir]"

definition create_dir_all :: "string \<Rightarrow> (disk, os_error, unit) io" where
  "create_dir_all dir = syscall (\<lambda>d. (Inr (), d\<lparr>folders := foldl (\<lambda>fs a. if fs a = None then fs(a \<mapsto> 493) else fs) (folders d) (ancestors dir)\<rparr>))"

definition set_permissions :: "string \<Rightarrow> nat \<Rightarrow> (disk, os_error, unit) io" where
  "set_permissions dir bits = syscall (\<lambda>d. case folders d dir of
       None \<Rightarrow> (Inl Missing, d)
     | Some _ \<Rightarrow> (Inr (), d\<lparr>folders := (folders d)(dir \<mapsto> bits)\<rparr>))"

section \<open>Replacing a file\<close>

text \<open>\<open>Path::with_extension\<close>: the last component loses what follows its last dot, unless the dot opens it.\<close>

definition with_extension :: "string \<Rightarrow> string \<Rightarrow> string" where
  "with_extension ext path =
     (let (dir, name) = (case rsplit_once CHR ''/'' path of Some (d, n) \<Rightarrow> (d @ ''/'', n) | None \<Rightarrow> ([], path));
          stem = (case rsplit_once CHR ''.'' name of Some (s, _) \<Rightarrow> if s = [] then name else s | None \<Rightarrow> name)
      in dir @ stem @ ''.'' @ ext)"

definition replace_file :: "nat option \<Rightarrow> string \<Rightarrow> string \<Rightarrow> (disk, string, unit) io" where
  "replace_file bits path text =
     (let tmp = with_extension ''tmp'' path in
      bnd (map_err (os_because (''create '' @ tmp)) (open_new bits tmp)) (\<lambda>_.
      bnd (map_err os_text (write_all tmp text)) (\<lambda>_.
      bnd (map_err os_text sync_all) (\<lambda>_.
      map_err (os_because (''rename into '' @ path)) (rename_file tmp path)))))"

definition atomic_write :: "string \<Rightarrow> string \<Rightarrow> (disk, string, unit) io" where
  "atomic_write = replace_file None"

text \<open>0600.\<close>

definition write_private :: "string \<Rightarrow> string \<Rightarrow> (disk, string, unit) io" where
  "write_private = replace_file (Some 384)"

section \<open>Laws\<close>

lemmas disk_run [run] = next_fault_def fault_error_def syscall_def set_file_def open_new_def append_file_def write_all_def
  sync_all_def rename_file_def read_to_string_def remove_file_def path_exists_def create_dir_all_def set_permissions_def
  replace_file_def atomic_write_def write_private_def

definition tick :: "disk \<Rightarrow> disk" where
  "tick d = d\<lparr>faults := drop 1 (faults d)\<rparr>"

lemma tick_simps [simp]: "files (tick d) = files d" "folders (tick d) = folders d" "new_mode (tick d) = new_mode d"
  "faults (tick d) = drop 1 (faults d)"
  by (simp_all add: tick_def)

lemma wp_next_fault: "(\<And>f. (f = Works \<or> faults d \<noteq> []) \<Longrightarrow> Q f (tick d)) \<Longrightarrow> wp next_fault Q E d"
  by (cases d; cases "faults d") (simp_all add: wp_def next_fault_def tick_def)

lemma wp_syscall [wp_intro]:
  assumes "wp m Q E (tick d)" "\<And>e. E (OsError e) (tick d)"
  shows "wp (syscall m) Q E d"
  unfolding syscall_def
  by (rule wp_bnd, rule wp_next_fault) (auto simp: assms fault_error_def split: fault.split intro: wp_intro)

lemma wp_path_exists:
  fixes E :: "'e \<Rightarrow> disk \<Rightarrow> bool"
  assumes "\<And>b. (b \<Longrightarrow> files d p \<noteq> None) \<Longrightarrow> (\<not> b \<Longrightarrow> files d p = None \<or> faults d \<noteq> [] \<and> hd (faults d) \<noteq> Works) \<Longrightarrow> Q b (tick d)"
  shows "wp (path_exists p) Q E d"
proof -
  define b where "b \<longleftrightarrow> (faults d = [] \<or> hd (faults d) = Works) \<and> files d p \<noteq> None"
  have "path_exists p d = (Inr b :: 'e + bool, tick d)"
    by (cases d; cases "faults d") (simp_all add: path_exists_def bnd_def next_fault_def tick_def b_def)
  moreover have "Q b (tick d)" by (rule assms) (auto simp: b_def)
  ultimately show ?thesis by (simp add: wp_def)
qed

lemma wp_set_file: "Q () (d\<lparr>files := (files d)(p := f)\<rparr>) \<Longrightarrow> wp (set_file p f) Q E d"
  by (simp add: wp_def set_file_def)

definition tmp_of :: "string \<Rightarrow> string" where
  "tmp_of = with_extension ''tmp''"

definition tmp_opened :: "nat option \<Rightarrow> string \<Rightarrow> disk \<Rightarrow> disk_file" where
  "tmp_opened bits path d = (case files d path of Some f \<Rightarrow> f\<lparr>content := []\<rparr>
     | None \<Rightarrow> \<lparr>content = [], mode = (case bits of Some b \<Rightarrow> b | None \<Rightarrow> new_mode d)\<rparr>)"

lemma wp_open_new:
  assumes "Q () ((tick d)\<lparr>files := (files d)(p \<mapsto> tmp_opened bits p d)\<rparr>)" "\<And>e. E (OsError e) (tick d)"
  shows "wp (open_new bits p) Q E d"
  unfolding open_new_def
  by (rule wp_syscall, cases "files d p"; cases bits) (use assms in \<open>simp_all add: wp_def set_file_def tmp_opened_def\<close>)

lemma wp_write_all:
  assumes "files d p = Some f"
    and "Q () ((tick d)\<lparr>files := (files d)(p \<mapsto> f\<lparr>content := content f @ t\<rparr>)\<rparr>)"
    and "\<And>e. E (OsError e) (tick d)"
    and "\<And>e n. E (OsError e) ((tick d)\<lparr>files := (files d)(p \<mapsto> f\<lparr>content := content f @ take n t\<rparr>)\<rparr>)"
  shows "wp (write_all p t) Q E d"
  unfolding write_all_def
  by (rule wp_bnd, rule wp_next_fault)
    (use assms in \<open>auto simp: wp_def bnd_def fail_def append_file_def split: fault.split\<close>)

lemma wp_sync_all: "Q () (tick d) \<Longrightarrow> (\<And>e. E (OsError e) (tick d)) \<Longrightarrow> wp sync_all Q E d"
  unfolding sync_all_def by (rule wp_syscall) (auto intro: wp_intro)

lemma wp_rename_file:
  assumes "files d a = Some f" "Q () ((tick d)\<lparr>files := (files d)(a := None, b \<mapsto> f)\<rparr>)" "\<And>e. E (OsError e) (tick d)"
  shows "wp (rename_file a b) Q E d"
  unfolding rename_file_def by (rule wp_syscall) (use assms in \<open>simp_all add: wp_def\<close>)

text \<open>The states a replacement passes through, the schedule of faults apart: untouched; the temporary file with a part of the text;
  replaced. The mode is that of the temporary file.\<close>

definition stage :: "nat option \<Rightarrow> string \<Rightarrow> string \<Rightarrow> disk \<Rightarrow> disk \<Rightarrow> bool" where
  "stage bits p t d d' \<longleftrightarrow> (\<exists>n. faults d' = drop n (faults d)) \<and> folders d' = folders d \<and> new_mode d' = new_mode d \<and>
     (files d' = files d \<or> (\<exists>k. files d' = (files d)(tmp_of p \<mapsto> (tmp_opened bits (tmp_of p) d)\<lparr>content := take k t\<rparr>)))"

definition replaced :: "nat option \<Rightarrow> string \<Rightarrow> string \<Rightarrow> disk \<Rightarrow> disk \<Rightarrow> bool" where
  "replaced bits p t d d' \<longleftrightarrow> (\<exists>n. faults d' = drop n (faults d)) \<and> folders d' = folders d \<and> new_mode d' = new_mode d \<and>
     files d' = (files d)(tmp_of p := None, p \<mapsto> (tmp_opened bits (tmp_of p) d)\<lparr>content := t\<rparr>)"

lemma content_tmp_opened [simp]: "content (tmp_opened bits p d) = []"
  by (simp add: tmp_opened_def split: option.split)

lemma wp_replace_file: "wp (replace_file bits p t) (\<lambda>_. replaced bits p t d) (\<lambda>_. stage bits p t d) d"
  unfolding replace_file_def Let_def tmp_of_def [symmetric]
  apply (rule wp_bnd, rule wp_map_err, rule wp_open_new)
   apply (rule wp_bnd, rule wp_map_err, rule wp_write_all, simp)
     apply (rule wp_bnd, rule wp_map_err, rule wp_sync_all)
      apply (rule wp_map_err, rule wp_rename_file, simp)
       apply (auto simp: stage_def replaced_def fun_eq_iff intro: exI [of _ "length t"] exI [of _ 0])
  done


section \<open>The contract of the writers\<close>

locale replacing =
  fixes put :: "string \<Rightarrow> string \<Rightarrow> (disk, string, unit) io"
    and bits :: "nat option"
  assumes wp_put: "wp (put p t) (\<lambda>_. replaced bits p t d) (\<lambda>_. stage bits p t d) d"
begin

text \<open>Whatever fails, the path holds the old file or the whole new text, and an error means the old one.\<close>

lemma whole_or_old:
  assumes "put p t d = (r, d')" "tmp_of p \<noteq> p"
  shows "r = Inr () \<and> map_option content (files d' p) = Some t \<and> files d' (tmp_of p) = None
    \<or> (\<exists>e. r = Inl e) \<and> files d' p = files d p"
  using wp_result [OF wp_put assms(1)] assms(2) by (cases r) (auto simp: replaced_def stage_def)

lemma others_kept:
  assumes "put p t d = (r, d')" "q \<noteq> p" "q \<noteq> tmp_of p"
  shows "files d' q = files d q"
  using wp_result [OF wp_put assms(1)] assms(2,3) by (cases r) (auto simp: replaced_def stage_def)

lemma mode_of_new:
  assumes "put p t d = (Inr (), d')" "files d (tmp_of p) = None"
  shows "\<exists>f. files d' p = Some f \<and> mode f = (case bits of Some b \<Rightarrow> b | None \<Rightarrow> new_mode d)"
  using wp_result [OF wp_put assms(1)] assms(2) by (auto simp: replaced_def tmp_opened_def)

text \<open>A temporary file left behind lends its mode to the next file made from it.\<close>

lemma mode_of_old_tmp:
  assumes "put p t d = (Inr (), d')" "files d (tmp_of p) = Some f"
  shows "map_option mode (files d' p) = Some (mode f)"
  using wp_result [OF wp_put assms(1)] assms(2) by (auto simp: replaced_def tmp_opened_def)

lemma no_faults:
  assumes "put p t d = (r, d')" "faults d = []"
  shows "faults d' = []"
  using wp_result [OF wp_put assms(1)] assms(2) by (cases r) (auto simp: replaced_def stage_def)

end

interpretation plain_put: replacing atomic_write None
  by unfold_locales (simp add: atomic_write_def wp_replace_file)

interpretation private_put: replacing write_private "Some 384"
  by unfold_locales (simp add: write_private_def wp_replace_file)

text \<open>Without faults the writers succeed.\<close>

lemma replace_file_clean:
  assumes "faults d = []"
  shows "replace_file bits p t d =
    (Inr (), d\<lparr>files := (files d)(tmp_of p := None, p \<mapsto> (tmp_opened bits (tmp_of p) d)\<lparr>content := t\<rparr>)\<rparr>)"
  using assms by (simp add: disk_run io_run tmp_opened_def tmp_of_def fun_upd_twist cong: option.case_cong split: option.split)

text \<open>Runs on a given schedule.\<close>

lemma replace_file_works:
  assumes "faults d = Works # Works # Works # Works # fs"
  shows "replace_file bits p t d =
    (Inr (), d\<lparr>files := (files d)(tmp_of p := None, p \<mapsto> (tmp_opened bits (tmp_of p) d)\<lparr>content := t\<rparr>), faults := fs\<rparr>)"
  using assms by (simp add: disk_run io_run tmp_opened_def tmp_of_def fun_upd_twist cong: option.case_cong split: option.split)

lemma replace_file_rename_fails:
  assumes "faults d = Works # Works # Works # Fails e # fs"
  shows "replace_file bits p t d =
    (Inl (because (''rename into '' @ p) e), d\<lparr>files := (files d)(tmp_of p \<mapsto> (tmp_opened bits (tmp_of p) d)\<lparr>content := t\<rparr>), faults := fs\<rparr>)"
  using assms by (simp add: disk_run io_run tmp_opened_def tmp_of_def os_because_def cong: option.case_cong split: option.split)

section \<open>Paths\<close>

definition join_path :: "string \<Rightarrow> string \<Rightarrow> string" where
  "join_path dir name = dir @ ''/'' @ name"

lemma join_path_inject [simp]: "join_path d a = join_path d b \<longleftrightarrow> a = b"
  by (simp add: join_path_def)

lemma tmp_of_join:
  assumes "CHR ''/'' \<notin> set (stem @ ext)" "CHR ''.'' \<notin> set ext" "stem \<noteq> []"
  shows "tmp_of (join_path dir (stem @ ''.'' @ ext)) = join_path dir (stem @ ''.tmp'')"
proof -
  have "rsplit_once CHR ''/'' (join_path dir (stem @ ''.'' @ ext)) = Some (dir, stem @ ''.'' @ ext)"
    using assms by (auto simp: rsplit_once_Some join_path_def)
  moreover have "rsplit_once CHR ''.'' (stem @ ''.'' @ ext) = Some (stem, ext)" using assms by (auto simp: rsplit_once_Some)
  ultimately show ?thesis using assms(3) by (simp add: tmp_of_def with_extension_def join_path_def)
qed

end
