(* ===== verification/DeviceId.thy ===== *)
theory DeviceId
  imports "RustStd" "HOL-Library.Word"
begin

unbundle bit_operations_syntax

text \<open>
  The device id (\<open>src/identity/deviceid.rs\<close>): Crockford base 32 of the SHA-256 digest of the public key, computed with a
  32-bit accumulator that wraps, against the plain definition by division. SHA-256 is a parameter.
\<close>

definition CROCKFORD :: string where
  "CROCKFORD = ''0123456789ABCDEFGHJKMNPQRSTVWXYZ''"

text \<open>The \<open>while bits >= 5\<close> loop: \<open>Inl\<close> is the early return of the finished text.\<close>

function emit :: "nat \<Rightarrow> 32 word \<Rightarrow> nat \<Rightarrow> string \<Rightarrow> string + nat \<times> string" where
  "emit n acc bits out =
     (if 5 \<le> bits then
        (let bits = bits - 5; out = out @ [CROCKFORD ! unat (drop_bit bits acc AND 0x1f)]
         in if length out = n then Inl out else emit n acc bits out)
      else Inr (bits, out))"
  by pat_completeness auto
termination by (relation "measure (\<lambda>(n, acc, bits, out). bits)") auto

declare emit.simps [simp del]

text \<open>The loop over the bytes.\<close>

fun encode :: "nat \<Rightarrow> 32 word \<Rightarrow> nat \<Rightarrow> string \<Rightarrow> 8 word list \<Rightarrow> string + 32 word \<times> nat \<times> string" where
  "encode n acc bits out [] = Inr (acc, bits, out)"
| "encode n acc bits out (b # bs) =
     (let acc = push_bit 8 acc OR ucast b in
      case emit n acc (bits + 8) out of
        Inl text \<Rightarrow> Inl text
      | Inr (bits, out) \<Rightarrow> encode n acc bits out bs)"

definition crockford_prefix :: "8 word list \<Rightarrow> nat \<Rightarrow> string" where
  "crockford_prefix data n =
     (case encode n 0 0 [] data of
        Inl text \<Rightarrow> text
      | Inr (acc, bits, out) \<Rightarrow>
          if 0 < bits \<and> length out < n then out @ [CROCKFORD ! unat (push_bit (5 - bits) acc AND 0x1f)] else out)"

text \<open>\<open>chunks(k)\<close>.\<close>

function chunks :: "nat \<Rightarrow> 'a list \<Rightarrow> 'a list list" where
  "chunks k xs = (if xs = [] \<or> k = 0 then [] else take k xs # chunks k (drop k xs))"
  by pat_completeness auto
termination by (relation "measure (\<lambda>(k, xs). length xs)") auto

declare chunks.simps [simp del]

definition derive_device_id :: "(8 word list \<Rightarrow> 8 word list) \<Rightarrow> 8 word list \<Rightarrow> string" where
  "derive_device_id sha256 pubkey_raw = ''QS-'' @ join ''-'' (chunks 4 (crockford_prefix (sha256 pubkey_raw) 16))"

section \<open>The plain definition\<close>

text \<open>The number a byte string spells, and its group \<open>i\<close> of five bits from the top when it has \<open>t\<close> bits.\<close>

definition val :: "8 word list \<Rightarrow> nat" where
  "val bs = foldl (\<lambda>v b. 256 * v + unat b) 0 bs"

definition group :: "nat \<Rightarrow> nat \<Rightarrow> nat \<Rightarrow> nat" where
  "group v t i = v div 2 ^ (t - 5 * Suc i) mod 32"

definition base32 :: "nat \<Rightarrow> nat \<Rightarrow> nat \<Rightarrow> string" where
  "base32 v t m = map (\<lambda>i. CROCKFORD ! group v t i) [0..<m]"

lemma val_simps [simp]: "val [] = 0" "val (bs @ [b]) = 256 * val bs + unat b"
  by (simp_all add: val_def)

lemma val_append: "val (xs @ ys) = 256 ^ length ys * val xs + val ys"
  by (induction ys rule: rev_induct) (simp_all flip: append_assoc)

lemma val_lt: "val bs < 256 ^ length bs"
proof (induction bs rule: rev_induct)
  case (snoc b bs)
  have "unat b < 256" using unsigned_less [of b, where ?'a = nat] by simp
  with snoc show ?case by simp
qed simp

lemma group_append: "5 * Suc i \<le> 8 * length xs \<Longrightarrow> group (val (xs @ ys)) (8 * length (xs @ ys)) i = group (val xs) (8 * length xs) i"
proof -
  assume i: "5 * Suc i \<le> 8 * length xs"
  let ?e = "8 * length xs - 5 * Suc i"
  have p: "(256 :: nat) ^ length ys = 2 ^ (8 * length ys)" by (simp add: power_mult)
  have e: "8 * length (xs @ ys) - 5 * Suc i = 8 * length ys + ?e" using i by simp
  have "val (xs @ ys) div 2 ^ (8 * length (xs @ ys) - 5 * Suc i) = (val (xs @ ys) div 256 ^ length ys) div 2 ^ ?e"
    by (simp only: e power_add div_mult2_eq p)
  also have "val (xs @ ys) div 256 ^ length ys = val xs" using val_lt [of ys] by (simp add: val_append)
  finally show ?thesis by (simp add: group_def)
qed

lemma base32_append: "5 * m \<le> 8 * length xs \<Longrightarrow> base32 (val (xs @ ys)) (8 * length (xs @ ys)) m = base32 (val xs) (8 * length xs) m"
  unfolding base32_def by (rule map_cong) (simp_all only: refl set_upt atLeastLessThan_iff, subst group_append, simp_all)

lemma base32_Suc: "base32 v t (Suc m) = base32 v t m @ [CROCKFORD ! group v t m]"
  by (simp add: base32_def)

lemma length_base32 [simp]: "length (base32 v t m) = m"
  by (simp add: base32_def)

section \<open>The loops compute it\<close>

lemma mask5: "w AND (0x1f :: 32 word) = take_bit 5 w"
  by (simp add: take_bit_eq_mask mask_eq_exp_minus_1)

lemma five_bits: "e + 5 \<le> 32 \<Longrightarrow> unat (drop_bit e (word_of_nat v :: 32 word) AND 0x1f) = v div 2 ^ e mod 32"
proof -
  assume e: "e + 5 \<le> 32"
  have "unat (drop_bit e (word_of_nat v :: 32 word) AND 0x1f) = take_bit 5 (drop_bit e (take_bit 32 v))"
    by (simp add: mask5 unsigned_take_bit_eq unsigned_drop_bit_eq unsigned_of_nat)
  also have "\<dots> = take_bit 5 (drop_bit e v)" using e by (simp add: drop_bit_take_bit)
  finally show ?thesis by (simp add: take_bit_eq_mod drop_bit_eq_div)
qed

lemma acc_step: "push_bit 8 (word_of_nat v) OR ucast b = (word_of_nat (256 * v + unat b) :: 32 word)" for b :: "8 word"
proof -
  have high: "\<not> bit b m" if "8 \<le> m" for m using bit_imp_le_length [of b m] that by auto
  have "push_bit 8 (word_of_nat v :: 32 word) AND ucast b = 0"
    by (rule bit_word_eqI) (auto simp: bit_simps high)
  hence "push_bit 8 (word_of_nat v) OR ucast b = push_bit 8 (word_of_nat v) + (ucast b :: 32 word)"
    by (simp add: disjunctive_add_eq_or)
  also have "\<dots> = word_of_nat (256 * v + unat b)" by (simp add: push_bit_eq_mult mult.commute)
  finally show ?thesis .
qed


lemma emit_spec:
  assumes "bits \<le> 27" "length out < n" "t = bits + 5 * length out" "out = base32 v t (length out)"
  shows "emit n (word_of_nat v) bits out = (if 5 * n \<le> t then Inl (base32 v t n) else Inr (t mod 5, base32 v t (t div 5)))"
  using assms
proof (induction bits arbitrary: out rule: less_induct)
  case (less bits)
  show ?case
  proof (cases "5 \<le> bits")
    case False
    hence "t mod 5 = bits" "t div 5 = length out" using less.prems(3) by simp_all
    moreover have "\<not> 5 * n \<le> t" using False less.prems(2,3) by simp
    ultimately show ?thesis using False less.prems(4) by (subst emit.simps) simp
  next
    case True
    let ?c = "CROCKFORD ! unat (drop_bit (bits - 5) (word_of_nat v :: 32 word) AND 0x1f)"
    have "group v t (length out) = v div 2 ^ (bits - 5) mod 32" using less.prems(3) True by (simp add: group_def)
    hence "?c = CROCKFORD ! group v t (length out)" using less.prems(1) True by (subst five_bits) simp_all
    hence out: "out @ [?c] = base32 v t (Suc (length out))"
      using less.prems(4) by (simp add: base32_Suc)
    show ?thesis
    proof (cases "Suc (length out) = n")
      case True
      moreover have "5 * n \<le> t" using True \<open>5 \<le> bits\<close> less.prems(3) by simp
      ultimately show ?thesis using \<open>5 \<le> bits\<close> out by (subst emit.simps) (simp add: Let_def)
    next
      case False
      have "emit n (word_of_nat v) (bits - 5) (out @ [?c]) =
        (if 5 * n \<le> t then Inl (base32 v t n) else Inr (t mod 5, base32 v t (t div 5)))"
        by (rule less.IH) (use less.prems True False out in auto)
      thus ?thesis using True False by (subst emit.simps) (simp add: Let_def)
    qed
  qed
qed

lemma encode_spec:
  assumes "8 * length ds < 5 * n"
  shows "encode n (word_of_nat (val ds)) (8 * length ds mod 5) (base32 (val ds) (8 * length ds) (8 * length ds div 5)) bs =
    (let v = val (ds @ bs); t = 8 * length (ds @ bs)
     in if 5 * n \<le> t then Inl (base32 v t n) else Inr (word_of_nat v, t mod 5, base32 v t (t div 5)))"
  using assms
proof (induction bs arbitrary: ds)
  case (Cons b bs)
  let ?t = "8 * length ds" and ?v = "256 * val ds + unat b"
  have "base32 (val (ds @ [b])) (8 * length (ds @ [b])) (?t div 5) = base32 (val ds) ?t (?t div 5)"
    by (rule base32_append) simp
  hence b: "base32 ?v (8 + ?t) (?t div 5) = base32 (val ds) ?t (?t div 5)" by simp
  have e: "emit n (word_of_nat ?v) (?t mod 5 + 8) (base32 (val ds) ?t (?t div 5)) =
    (if 5 * n \<le> 8 + ?t then Inl (base32 ?v (8 + ?t) n) else Inr ((8 + ?t) mod 5, base32 ?v (8 + ?t) ((8 + ?t) div 5)))"
    by (rule emit_spec) (use Cons.prems b in auto)
  show ?case
  proof (cases "5 * n \<le> 8 + ?t")
    case True
    have "base32 (val ((ds @ [b]) @ bs)) (8 * length ((ds @ [b]) @ bs)) n = base32 (val (ds @ [b])) (8 * length (ds @ [b])) n"
      by (rule base32_append) (use True in simp)
    thus ?thesis using True e by (simp add: acc_step Let_def)
  next
    case False
    thus ?thesis using e Cons.IH [of "ds @ [b]"] by (simp add: acc_step Let_def)
  qed
qed (simp add: Let_def)

lemma pad_count: "t mod 5 \<noteq> 0 \<Longrightarrow> (t + 4) div 5 = Suc (t div 5)" for t :: nat
  by presburger

lemma exact_count: "t mod 5 = 0 \<Longrightarrow> (t + 4) div 5 = t div 5" for t :: nat
  by presburger

text \<open>The padding: what is left over is the group of the string with a zero byte after it.\<close>

lemma pad_group:
  assumes "t mod 5 \<noteq> 0"
  shows "unat (push_bit (5 - t mod 5) (word_of_nat v :: 32 word) AND 0x1f) = group (256 * v) (8 + t) (t div 5)"
proof -
  let ?p = "5 - t mod 5"
  have "push_bit ?p (word_of_nat v :: 32 word) = word_of_nat (2 ^ ?p * v)" by (simp add: push_bit_eq_mult mult.commute)
  hence "unat (push_bit ?p (word_of_nat v :: 32 word) AND 0x1f) = 2 ^ ?p * v mod 32"
    using five_bits [of 0 "2 ^ ?p * v"] by simp
  moreover have e: "8 + t - 5 * Suc (t div 5) = 3 + t mod 5" by presburger
  have "(256 :: nat) = 2 ^ (3 + t mod 5) * 2 ^ ?p" using assms by (simp flip: power_add)
  hence "256 * v = 2 ^ (3 + t mod 5) * (2 ^ ?p * v)" by (metis mult.assoc)
  hence "256 * v div 2 ^ (3 + t mod 5) = 2 ^ ?p * v" by (simp only: nonzero_mult_div_cancel_left power_not_zero zero_neq_numeral [symmetric] not_False_eq_True)
  ultimately show ?thesis by (simp only: group_def e)
qed

text \<open>The characters are the groups of five bits of the digest, read from the top, the last one padded with zero bits; the
  32-bit accumulator that the code shifts and lets overflow does not lose any of them.\<close>

lemma crockford_spec:
  assumes "0 < n"
  shows "crockford_prefix data n = base32 (val (data @ [0])) (8 * length (data @ [0])) (min n ((8 * length data + 4) div 5))"
proof -
  let ?t = "8 * length data" and ?v = "val data"
  have e: "encode n 0 0 [] data =
    (if 5 * n \<le> ?t then Inl (base32 ?v ?t n) else Inr (word_of_nat ?v, ?t mod 5, base32 ?v ?t (?t div 5)))"
    using encode_spec [of "[]" n data] assms by (simp add: base32_def Let_def)
  have app: "base32 (val (data @ [0])) (8 * length (data @ [0])) m = base32 ?v ?t m" if "5 * m \<le> ?t" for m
    by (rule base32_append) (use that in simp)
  consider (early) "5 * n \<le> ?t" | (exact) "\<not> 5 * n \<le> ?t" "?t mod 5 = 0" | (pad) "\<not> 5 * n \<le> ?t" "?t mod 5 \<noteq> 0" by blast
  thus ?thesis
  proof cases
    case early
    hence "min n ((?t + 4) div 5) = n" by simp
    with early app [of n] e show ?thesis by (simp add: crockford_prefix_def)
  next
    case exact
    have "?t div 5 < n" using exact(1) by (simp add: not_le less_mult_imp_div_less mult.commute)
    hence "min n ((?t + 4) div 5) = ?t div 5" using exact_count [OF exact(2)] by simp
    with exact app [of "?t div 5"] e show ?thesis by (simp add: crockford_prefix_def)
  next
    case pad
    have "?t div 5 < n" using pad(1) by (simp add: not_le less_mult_imp_div_less mult.commute)
    hence m: "min n ((?t + 4) div 5) = Suc (?t div 5)" "?t div 5 < n" using pad_count [OF pad(2)] by simp_all
    have "CROCKFORD ! unat (push_bit (5 - ?t mod 5) (word_of_nat ?v :: 32 word) AND 0x1f) =
      CROCKFORD ! group (val (data @ [0])) (8 * length (data @ [0])) (?t div 5)" using pad(2) by (simp add: pad_group)
    with pad m app [of "?t div 5"] e show ?thesis by (simp add: crockford_prefix_def base32_Suc)
  qed
qed


section \<open>The device id\<close>

lemma CROCKFORD_inj: "a < 32 \<Longrightarrow> b < 32 \<Longrightarrow> CROCKFORD ! a = CROCKFORD ! b \<longleftrightarrow> a = b"
proof -
  have "distinct CROCKFORD" "length CROCKFORD = 32" by (simp_all add: CROCKFORD_def)
  thus "a < 32 \<Longrightarrow> b < 32 \<Longrightarrow> CROCKFORD ! a = CROCKFORD ! b \<longleftrightarrow> a = b" by (simp add: nth_eq_iff_index_eq)
qed

text \<open>Groups of five bits determine the number.\<close>

lemma base32_snoc:
  assumes "t = 5 * m"
  shows "base32 v (t + 5) (Suc m) = base32 (v div 32) t m @ [CROCKFORD ! (v mod 32)]"
proof -
  have "group v (t + 5) i = group (v div 32) t i" if "i < m" for i
  proof -
    have "t + 5 - 5 * Suc i = 5 + (t - 5 * Suc i)" using that assms by simp
    hence "v div 2 ^ (t + 5 - 5 * Suc i) = v div 2 ^ 5 div 2 ^ (t - 5 * Suc i)" by (simp only: power_add div_mult2_eq)
    thus ?thesis unfolding group_def by simp
  qed
  hence "base32 v (t + 5) m = base32 (v div 32) t m" by (auto simp: base32_def)
  moreover have "group v (t + 5) m = v mod 32" using assms by (simp add: group_def)
  ultimately show ?thesis by (simp add: base32_Suc)
qed

lemma base32_inject:
  "v < 32 ^ m \<Longrightarrow> w < 32 ^ m \<Longrightarrow> base32 v (5 * m) m = base32 w (5 * m) m \<longleftrightarrow> v = w"
proof (induction m arbitrary: v w)
  case (Suc m)
  have "v div 32 < 32 ^ m" "w div 32 < 32 ^ m" using Suc.prems by (simp_all add: less_mult_imp_div_less mult.commute)
  note ih = Suc.IH [OF this]
  have "base32 v (5 * Suc m) (Suc m) = base32 w (5 * Suc m) (Suc m) \<longleftrightarrow>
      base32 (v div 32) (5 * m) m = base32 (w div 32) (5 * m) m \<and> v mod 32 = w mod 32"
    using base32_snoc [of "5 * m" m v] base32_snoc [of "5 * m" m w] by (simp add: add.commute CROCKFORD_inj)
  also have "\<dots> \<longleftrightarrow> v = w" using ih by (metis div_mult_mod_eq)
  finally show ?case .
qed simp

lemma digit_inject:
  fixes a b x y :: nat
  assumes "x < 256" "y < 256"
  shows "256 * a + x = 256 * b + y \<longleftrightarrow> a = b \<and> x = y"
proof
  assume e: "256 * a + x = 256 * b + y"
  have "(256 * a + x) div 256 = a" "(256 * b + y) div 256 = b" using assms by simp_all
  hence "a = b" unfolding e by simp
  with e show "a = b \<and> x = y" by simp
qed simp

lemma val_inject: "length xs = length ys \<Longrightarrow> val xs = val ys \<longleftrightarrow> xs = ys"
proof (induction xs arbitrary: ys rule: rev_induct)
  case (snoc x xs)
  then obtain ys' y where ys: "ys = ys' @ [y]" by (metis length_0_conv rev_exhaust snoc_eq_iff_butlast)
  have lt: "unat x < 256" "unat y < 256" using unsigned_less [of x, where ?'a = nat] unsigned_less [of y, where ?'a = nat] by simp_all
  have "256 * val xs + unat x = 256 * val ys' + unat y \<longleftrightarrow> val xs = val ys' \<and> unat x = unat y"
    using lt by (rule digit_inject)
  moreover have "unat x = unat y \<longleftrightarrow> x = y" by (auto intro: unsigned_word_eqI)
  moreover have "val xs = val ys' \<longleftrightarrow> xs = ys'" using snoc ys by simp
  ultimately show ?case using ys by simp
qed simp

lemma chunks_16:
  assumes "length s = 16"
  shows "chunks 4 s = [take 4 s, take 4 (drop 4 s), take 4 (drop 8 s), drop 12 s]"
proof -
  have "s \<noteq> []" "drop 4 s \<noteq> []" "drop 8 s \<noteq> []" "drop 12 s \<noteq> []" using assms by auto
  thus ?thesis using assms by (simp add: chunks.simps [of 4])
qed

definition dashed :: "string \<Rightarrow> string" where
  "dashed s = ''QS-'' @ take 4 s @ ''-'' @ take 4 (drop 4 s) @ ''-'' @ take 4 (drop 8 s) @ ''-'' @ drop 12 s"

lemma dashed_inject: "length s = 16 \<Longrightarrow> length s' = 16 \<Longrightarrow> dashed s = dashed s' \<longleftrightarrow> s = s'"
proof
  assume l: "length s = 16" "length s' = 16" and d: "dashed s = dashed s'"
  have "take 4 s = take 4 s'" "take 4 (drop 4 s) = take 4 (drop 4 s')" "take 4 (drop 8 s) = take 4 (drop 8 s')" "drop 12 s = drop 12 s'"
    using d l by (simp_all add: dashed_def append_eq_append_conv)
  moreover have "u = take 4 u @ take 4 (drop 4 u) @ take 4 (drop 8 u) @ drop 12 u" for u :: string
    using append_take_drop_id [of 4 u] append_take_drop_id [of 4 "drop 4 u"] append_take_drop_id [of 4 "drop 8 u"] by simp
  ultimately show "s = s'" by metis
qed simp

lemma derive_eq:
  assumes "10 \<le> length (sha256 p)"
  shows "derive_device_id sha256 p = dashed (base32 (val (take 10 (sha256 p))) 80 16)"
proof -
  let ?d = "sha256 p"
  have "crockford_prefix ?d 16 = base32 (val (?d @ [0])) (8 * length (?d @ [0])) 16"
  proof -
    have "min 16 ((8 * length ?d + 4) div 5) = 16" using assms by simp
    thus ?thesis using crockford_spec [of 16 ?d] by (simp only:)
  qed
  also have "?d @ [0] = take 10 ?d @ (drop 10 ?d @ [0])" by (simp flip: append_assoc)
  also have "base32 (val (take 10 ?d @ (drop 10 ?d @ [0]))) (8 * length (take 10 ?d @ (drop 10 ?d @ [0]))) 16
      = base32 (val (take 10 ?d)) (8 * length (take 10 ?d)) 16" by (rule base32_append) (use assms in simp)
  finally have "crockford_prefix ?d 16 = base32 (val (take 10 ?d)) 80 16" using assms by simp
  thus ?thesis by (simp add: derive_device_id_def chunks_16 dashed_def)
qed

text \<open>C38. The device id is the first 80 bits of the digest of the public key, in dashed groups: two keys have the same id
  exactly if the first ten bytes of their digests agree.\<close>

theorem device_id_spec:
  assumes "\<And>m. length (sha256 m) = 32"
  shows "derive_device_id sha256 p = dashed (base32 (val (take 10 (sha256 p))) 80 16) \<and>
    (derive_device_id sha256 p = derive_device_id sha256 q \<longleftrightarrow> take 10 (sha256 p) = take 10 (sha256 q))"
proof -
  let ?v = "\<lambda>p. val (take 10 (sha256 p))"
  have d: "derive_device_id sha256 p = dashed (base32 (?v p) 80 16)" for p by (rule derive_eq) (simp add: assms)
  have lt: "?v p < 32 ^ 16" for p using val_lt [of "take 10 (sha256 p)"] by (simp add: assms)
  have "derive_device_id sha256 p = derive_device_id sha256 q \<longleftrightarrow> base32 (?v p) 80 16 = base32 (?v q) 80 16"
    by (simp add: d dashed_inject)
  also have "\<dots> \<longleftrightarrow> ?v p = ?v q" using base32_inject [OF lt lt] by simp
  also have "\<dots> \<longleftrightarrow> take 10 (sha256 p) = take 10 (sha256 q)" by (rule val_inject) (simp add: assms)
  finally show ?thesis using d by simp
qed


definition demo_digest :: "8 word list \<Rightarrow> 8 word list" where
  "demo_digest m = take 32 (m @ replicate 32 0)"

theorem device_id_spec_witness:
  "derive_device_id demo_digest [1] = ''QS-0400-0000-0000-0000'' \<and> derive_device_id demo_digest [1] \<noteq> derive_device_id demo_digest [2]"
proof -
  have len: "length (demo_digest m) = 32" for m by (simp add: demo_digest_def)
  have t: "take 10 (demo_digest [b]) = [b, 0, 0, 0, 0, 0, 0, 0, 0, 0]" for b
    by (simp add: demo_digest_def numeral_eq_Suc)
  have "dashed (base32 (val [1, 0, 0, 0, 0, 0, 0, 0, 0, 0]) 80 16) = ''QS-0400-0000-0000-0000''"
    by (simp add: val_def base32_def group_def CROCKFORD_def upt_conv_Cons dashed_def)
  thus ?thesis using device_id_spec [of demo_digest "[1]" "[2]", OF len] by (auto simp: t)
qed

end
