(* ===== verification/Identity.thy ===== *)
theory Identity
  imports Disk DeviceId
begin

text \<open>
  The device identity on disk (\<open>src/identity/mod.rs\<close>). The Ed25519 and PEM libraries are the record \<open>crypto\<close>; the key that
  the random generator draws is an argument. The theorem says that a key, once made, is the key of every later start.
\<close>

record 'k crypto =
  private_pem :: "'k \<Rightarrow> string + string"
  public_pem :: "'k \<Rightarrow> string + string"
  parse_pem :: "string \<Rightarrow> string + 'k"
  verifying_key :: "'k \<Rightarrow> bytes"
  sign_with :: "'k \<Rightarrow> bytes \<Rightarrow> bytes"
  encode_pkcs8 :: "'k \<Rightarrow> string + bytes"
  pem_text :: "string \<Rightarrow> bytes \<Rightarrow> string"
  sha256 :: "bytes \<Rightarrow> bytes"

section \<open>The key backend\<close>

definition public_key_raw :: "'k crypto \<Rightarrow> 'k \<Rightarrow> bytes" where
  "public_key_raw c key = verifying_key c key"

definition sign :: "'k crypto \<Rightarrow> 'k \<Rightarrow> bytes \<Rightarrow> bytes" where
  "sign c key msg = sign_with c key msg"

definition pkcs8_der :: "'k crypto \<Rightarrow> 'k \<Rightarrow> string + bytes" where
  "pkcs8_der c key = smap_err (because ''encode private key'') (encode_pkcs8 c key)"

definition device_id_of :: "'k crypto \<Rightarrow> 'k \<Rightarrow> string" where
  "device_id_of c key = derive_device_id (sha256 c) (public_key_raw c key)"

section \<open>The store\<close>

definition key_path :: "string \<Rightarrow> string" where "key_path dir = join_path dir ''device.key''"
definition pub_path :: "string \<Rightarrow> string" where "pub_path dir = join_path dir ''device.pub''"
definition client_cert_path :: "string \<Rightarrow> string" where "client_cert_path dir = join_path dir ''client.crt''"
definition ca_chain_path :: "string \<Rightarrow> string" where "ca_chain_path dir = join_path dir ''ca-chain.crt''"
definition pinned_ca_path :: "string \<Rightarrow> string" where "pinned_ca_path dir = join_path dir ''pinned-ca.crt''"

lemmas path_defs = key_path_def pub_path_def client_cert_path_def ca_chain_path_def pinned_ca_path_def

definition identity_exists :: "string \<Rightarrow> (disk, string, bool) io" where
  "identity_exists dir = path_exists (key_path dir)"

text \<open>0700, and its failure is ignored.\<close>

definition restrict_dir :: "string \<Rightarrow> (disk, string, unit) io" where
  "restrict_dir dir = or_default () (set_permissions dir 448)"

definition load :: "'k crypto \<Rightarrow> string \<Rightarrow> (disk, string, 'k) io" where
  "load c dir =
     bnd (map_err (os_because (''read '' @ key_path dir)) (read_to_string (key_path dir))) (\<lambda>pem.
     lift (smap_err (because ''parse device.key (PKCS#8 PEM)'') (parse_pem c pem)))"

definition load_or_generate :: "'k crypto \<Rightarrow> string \<Rightarrow> 'k \<Rightarrow> (disk, string, 'k) io" where
  "load_or_generate c dir fresh =
     bnd (identity_exists dir) (\<lambda>there.
     if there then load c dir else
     bnd (map_err (os_because (''create identity dir '' @ dir)) (create_dir_all dir)) (\<lambda>_.
     bnd (restrict_dir dir) (\<lambda>_.
     bnd (lift (smap_err (because ''encode private key PEM'') (private_pem c fresh))) (\<lambda>key_pem.
     bnd (write_private (key_path dir) key_pem) (\<lambda>_.
     bnd (lift (smap_err (because ''encode public key PEM'') (public_pem c fresh))) (\<lambda>pub_pem.
     bnd (atomic_write (pub_path dir) pub_pem) (\<lambda>_.
     ret fresh)))))))"

definition pem_encode :: "'k crypto \<Rightarrow> string \<Rightarrow> bytes \<Rightarrow> string" where
  "pem_encode c tag der = pem_text c tag der"

definition save_certificates :: "'k crypto \<Rightarrow> string \<Rightarrow> bytes \<Rightarrow> bytes list \<Rightarrow> bytes option \<Rightarrow> (disk, string, unit) io" where
  "save_certificates c dir client_cert_der ca_chain_der pinned_ca_der =
     bnd (atomic_write (client_cert_path dir) (pem_encode c ''CERTIFICATE'' client_cert_der)) (\<lambda>_.
     bnd (atomic_write (ca_chain_path dir) (concat (map (pem_encode c ''CERTIFICATE'') ca_chain_der))) (\<lambda>_.
     case pinned_ca_der of
       Some der \<Rightarrow> atomic_write (pinned_ca_path dir) (pem_encode c ''CERTIFICATE'' der)
     | None \<Rightarrow> ret ()))"

section \<open>Paths\<close>

lemma tmp_paths [simp]:
  "tmp_of (key_path dir) = join_path dir ''device.tmp''"
  "tmp_of (pub_path dir) = join_path dir ''device.tmp''"
  "tmp_of (client_cert_path dir) = join_path dir ''client.tmp''"
  "tmp_of (ca_chain_path dir) = join_path dir ''ca-chain.tmp''"
  "tmp_of (pinned_ca_path dir) = join_path dir ''pinned-ca.tmp''"
  using tmp_of_join [of "''device''" "''key''" dir] tmp_of_join [of "''device''" "''pub''" dir]
    tmp_of_join [of "''client''" "''crt''" dir] tmp_of_join [of "''ca-chain''" "''crt''" dir]
    tmp_of_join [of "''pinned-ca''" "''crt''" dir]
  by (simp_all add: path_defs)

section \<open>The key is made once\<close>

lemma load_clean:
  assumes "faults d = []"
  shows "load c dir d = (case files d (key_path dir) of
      None \<Rightarrow> Inl (because (''read '' @ key_path dir) NO_SUCH_FILE)
    | Some f \<Rightarrow> smap_err (because ''parse device.key (PKCS#8 PEM)'') (parse_pem c (content f)), d)"
  using assms by (simp add: load_def read_to_string_def syscall_def next_fault_def io_run os_because_def split: option.split)

lemma wp_create_dir_all: "(\<And>d'. files d' = files d \<Longrightarrow> Q () d') \<Longrightarrow> (\<And>e d'. files d' = files d \<Longrightarrow> E e d') \<Longrightarrow> wp (create_dir_all p) Q E d"
  unfolding create_dir_all_def by (rule wp_syscall) (simp_all add: wp_def)

lemma wp_restrict_dir: "(\<And>d'. files d' = files d \<Longrightarrow> Q () d') \<Longrightarrow> wp (restrict_dir p) Q E d"
  unfolding restrict_dir_def set_permissions_def
  by (rule wp_or_default, rule wp_syscall) (auto simp: wp_def split: option.split)

text \<open>The key file of a first start: absent, or the whole key, with the mode of a private file unless a temporary file was there.\<close>

definition key_made :: "'k crypto \<Rightarrow> string \<Rightarrow> 'k \<Rightarrow> disk \<Rightarrow> disk \<Rightarrow> bool" where
  "key_made c dir k d d' \<longleftrightarrow> (\<exists>f. files d' (key_path dir) = Some f \<and> private_pem c k = Inr (content f)
     \<and> mode f = (case files d (join_path dir ''device.tmp'') of Some g \<Rightarrow> mode g | None \<Rightarrow> 384))"

lemma key_pub_paths: "key_path dir \<noteq> pub_path dir" "key_path dir \<noteq> join_path dir ''device.tmp''"
  by (simp_all add: path_defs)

lemma wp_generate:
  assumes "files d (key_path dir) = None"
  shows "wp (load_or_generate c dir k) (\<lambda>x d'. x = k \<and> key_made c dir k d d')
    (\<lambda>e d'. files d' (key_path dir) = None \<or> key_made c dir k d d') d"
proof -
  have pub: "wp (atomic_write (pub_path dir) t) (\<lambda>_. key_made c dir k d) (\<lambda>_. key_made c dir k d) d1" if "key_made c dir k d d1" for t d1
  proof (rule wpI)
    fix r d2 assume "atomic_write (pub_path dir) t d1 = (r, d2)"
    hence "files d2 (key_path dir) = files d1 (key_path dir)" by (rule plain_put.others_kept) (simp_all add: key_pub_paths)
    thus "key_made c dir k d d2" "key_made c dir k d d2" using that by (simp_all add: key_made_def)
  qed
  have key: "wp (write_private (key_path dir) t) (\<lambda>_. key_made c dir k d) (\<lambda>_ d'. files d' (key_path dir) = None) d1"
    if "files d1 = files d" "private_pem c k = Inr t" for t d1
    using private_put.wp_put [of "key_path dir" t d1]
    by (rule wp_conseq) (use assms that key_pub_paths [of dir] in
        \<open>auto simp: replaced_def stage_def key_made_def tmp_opened_def split: option.split\<close>)
  show ?thesis
    unfolding load_or_generate_def identity_exists_def
    apply (rule wp_bnd, rule wp_path_exists, rule wp_if)
     apply (simp add: assms)
    apply (rule wp_bnd, rule wp_map_err, rule wp_create_dir_all)
     apply (rule wp_bnd, rule wp_restrict_dir)
     apply (rule wp_bnd, rule wp_lift)
      apply (rule wp_bnd, rule wp_conseq, rule key)
         apply (simp, simp)
       apply (rule wp_bnd, rule wp_lift)
        apply (rule wp_bnd, rule wp_conseq, erule pub)
         apply (auto simp: assms intro: wp_ret)
    done
qed

definition checked :: "disk \<Rightarrow> bool" where
  "checked d \<longleftrightarrow> faults d = [] \<or> hd (faults d) = Works"

text \<open>A start that sees the key file loads it and changes no file, whatever fails after that.\<close>

lemma wp_load_there:
  assumes "files d (key_path dir) = Some f" "checked d" "parse_pem c (content f) = Inr k"
  shows "wp (load_or_generate c dir k') (\<lambda>x d'. x = k \<and> files d' = files d) (\<lambda>_ d'. files d' = files d \<and> faults d \<noteq> []) d"
  using assms
  by (auto simp: wp_def load_or_generate_def identity_exists_def path_exists_def load_def read_to_string_def syscall_def next_fault_def io_run
      checked_def fault_error_def smap_err_def split: list.splits fault.splits)

text \<open>C10. Once the key file exists, a later start whose check for the file works returns that key or an error, whatever else
  fails in it, and changes no file; without a fault it returns the key. This holds whatever went wrong in the start that made it, and
  the key file of a fresh directory is private from its first byte. The check is the gap: \<open>Path::exists\<close> takes an error of
  \<open>stat\<close> for an absent file (\<open>stat_error_new_key\<close>).\<close>

theorem identity_made_once:
  assumes trip: "\<And>k t. private_pem c k = Inr t \<Longrightarrow> parse_pem c t = Inr k"
    and first: "load_or_generate c dir k d = (r, d1)"
    and fresh: "files d (key_path dir) = None" "files d (join_path dir ''device.tmp'') = None"
    and there: "files d1 (key_path dir) = Some f"
    and later: "files d2 (key_path dir) = Some f" "checked d2" "load_or_generate c dir k' d2 = (r', d3)"
  shows "(r' = Inr k \<or> faults d2 \<noteq> [] \<and> (\<exists>e. r' = Inl e)) \<and> files d3 = files d2 \<and> mode f = 384 \<and> (r = Inr k \<or> (\<exists>e. r = Inl e))"
proof -
  have made: "key_made c dir k d d1" "r = Inr k \<or> (\<exists>e. r = Inl e)"
    using wp_result [OF wp_generate [OF fresh(1)] first] there by (cases r; auto)+
  hence f: "private_pem c k = Inr (content f)" "mode f = 384" using there fresh(2) by (auto simp: key_made_def)
  from wp_result [OF wp_load_there [OF later(1,2) trip [OF f(1)]] later(3)]
  show ?thesis using f(2) made(2) by (cases r') auto
qed

text \<open>A start whose check fails makes a new key and replaces the old one.\<close>

lemma stat_error_new_key:
  assumes "faults d = [Fails e]" "private_pem c k = Inr t" "public_pem c k = Inr u"
  shows "\<exists>d'. load_or_generate c dir k d = (Inr k, d') \<and> map_option content (files d' (key_path dir)) = Some t"
proof -
  obtain d1 where d1: "create_dir_all dir (tick d) = (Inr (), d1)" "faults d1 = []"
    using assms(1) by (simp add: create_dir_all_def syscall_def next_fault_def io_run)
  obtain d2 where d2: "restrict_dir dir d1 = (Inr (), d2)" "faults d2 = []"
    using d1(2) by (cases "folders d1 dir") (simp_all add: restrict_dir_def set_permissions_def syscall_def next_fault_def io_run)
  obtain d3 where d3: "write_private (key_path dir) t d2 = (Inr (), d3)" "faults d3 = []"
    using replace_file_clean [OF d2(2), of "Some 384" "key_path dir" t] d2(2) by (auto simp: write_private_def)
  obtain d4 where d4: "atomic_write (pub_path dir) u d3 = (Inr (), d4)"
    using replace_file_clean [OF d3(2), of None "pub_path dir" u] by (auto simp: atomic_write_def)
  have there: "identity_exists dir d = (Inr False, tick d)"
    using assms(1) by (simp add: identity_exists_def path_exists_def next_fault_def bnd_def tick_def)
  have "map_option content (files d3 (key_path dir)) = Some t"
    using private_put.whole_or_old [OF d3(1)] key_pub_paths [of dir] by auto
  moreover have "files d4 (key_path dir) = files d3 (key_path dir)"
    by (rule plain_put.others_kept [OF d4]) (simp_all add: key_pub_paths)
  moreover have "load_or_generate c dir k d = (Inr k, d4)"
    using there d1 d2 d3 d4 assms(2,3)
    by (simp add: load_or_generate_def bnd_def map_err_def lift_def ret_def)
  ultimately show ?thesis by simp
qed


section \<open>A start that fails after the key is written\<close>

definition demo_crypto :: "string crypto" where
  "demo_crypto = \<lparr>private_pem = Inr, public_pem = Inr, parse_pem = Inr, verifying_key = str_bytes,
     sign_with = (\<lambda>k m. str_bytes k @ m), encode_pkcs8 = (\<lambda>k. Inr (str_bytes k)), pem_text = (\<lambda>tag der. tag @ hex der),
     sha256 = demo_digest\<rparr>"

text \<open>The eleventh system call, the renaming of the public key, fails.\<close>

definition demo_disk :: disk where
  "demo_disk = \<lparr>files = Map.empty, folders = Map.empty, faults = [Works, Works, Works, Works, Works, Works, Works, Works, Works, Works, Fails ''EIO''], new_mode = 420\<rparr>"

definition after_failed_start :: disk where
  "after_failed_start = demo_disk\<lparr>files := [''/s/device.key'' \<mapsto> \<lparr>content = ''k'', mode = 384\<rparr>,
       ''/s/device.tmp'' \<mapsto> \<lparr>content = ''k'', mode = 420\<rparr>],
     folders := [''/s'' \<mapsto> 448], faults := []\<rparr>"

lemma demo_paths: "key_path ''/s'' = ''/s/device.key''" "pub_path ''/s'' = ''/s/device.pub''" "tmp_of ''/s/device.key'' = ''/s/device.tmp''"
  "tmp_of ''/s/device.pub'' = ''/s/device.tmp''" "ancestors ''/s'' = [''/s'']"
  using tmp_paths(1,2) [of "''/s''"] by (simp_all add: path_defs join_path_def ancestors_def)

lemma failed_start:
  "load_or_generate demo_crypto ''/s'' ''k'' demo_disk = (Inl ''rename into /s/device.pub: EIO'', after_failed_start)"
proof -
  define D0 where "D0 = demo_disk\<lparr>folders := [''/s'' \<mapsto> 493], faults := [Works, Works, Works, Works, Works, Works, Works, Works, Fails ''EIO'']\<rparr>"
  define D1 where "D1 = demo_disk\<lparr>folders := [''/s'' \<mapsto> 448], faults := [Works, Works, Works, Works, Works, Works, Works, Fails ''EIO'']\<rparr>"
  define D2 where "D2 = D1\<lparr>files := [''/s/device.key'' \<mapsto> \<lparr>content = ''k'', mode = 384\<rparr>], faults := [Works, Works, Works, Fails ''EIO'']\<rparr>"
  have mk: "create_dir_all ''/s'' (tick demo_disk) = (Inr (), D0)"
    by (simp add: D0_def create_dir_all_def syscall_def next_fault_def io_run demo_disk_def demo_paths tick_def)
  have ch: "restrict_dir ''/s'' D0 = (Inr (), D1)"
    by (simp add: D0_def D1_def restrict_dir_def set_permissions_def syscall_def next_fault_def io_run demo_disk_def)
  have key: "write_private ''/s/device.key'' ''k'' D1 = (Inr (), D2)"
    unfolding write_private_def
    by (subst replace_file_works [of _ "[Works, Works, Works, Fails ''EIO'']"])
      (auto simp: D1_def D2_def demo_disk_def demo_paths tmp_opened_def fun_eq_iff)
  have pub: "atomic_write ''/s/device.pub'' ''k'' D2 = (Inl ''rename into /s/device.pub: EIO'', after_failed_start)"
    unfolding atomic_write_def
    by (subst replace_file_rename_fails [of _ "''EIO''" "[]"])
      (auto simp: D2_def D1_def demo_disk_def after_failed_start_def demo_paths tmp_opened_def because_def fun_eq_iff)
  have there: "identity_exists ''/s'' demo_disk = (Inr False, tick demo_disk)"
    by (simp add: identity_exists_def path_exists_def next_fault_def bnd_def tick_def demo_disk_def)
  show ?thesis
    using there mk ch key pub
    by (simp add: load_or_generate_def demo_paths bnd_def map_err_def lift_def demo_crypto_def)
qed

text \<open>The next start checks, then cannot read; the one after it loads the key.\<close>

theorem identity_made_once_witness:
  "(\<exists>e. fst (load_or_generate demo_crypto ''/s'' ''other'' (after_failed_start\<lparr>faults := [Works, Fails ''EIO'']\<rparr>)) \<in> {Inl e, Inr ''k''})
   \<and> fst (load_or_generate demo_crypto ''/s'' ''other'' after_failed_start) = Inr ''k''"
proof -
  have hyp: "files demo_disk (key_path ''/s'') = None" "files demo_disk (join_path ''/s'' ''device.tmp'') = None"
    "files after_failed_start (key_path ''/s'') = Some \<lparr>content = ''k'', mode = 384\<rparr>" "faults after_failed_start = []"
    by (simp_all add: demo_disk_def after_failed_start_def demo_paths join_path_def)
  have trip: "private_pem demo_crypto k = Inr t \<Longrightarrow> parse_pem demo_crypto t = Inr k" for k t by (simp add: demo_crypto_def)
  note use = identity_made_once [OF trip failed_start hyp(1-3) _ _ surjective_pairing]
  from use [of "after_failed_start\<lparr>faults := [Works, Fails ''EIO'']\<rparr>" "''other''"] use [of after_failed_start "''other''"]
  show ?thesis using hyp by (auto simp: checked_def)
qed

end
