(* ===== verification/Enroll.thy ===== *)
theory Enroll
  imports TlsPin Identity "HOL-Library.Signed_Division"
begin

text \<open>
  Enrollment (\<open>src/enrollment/mod.rs\<close>): the exchange with the enrollment service over the pinned channel. The service is a
  pair of functions on a state of its own; the run keeps a record of every message that leaves the device, with the connection it
  goes over. Certificate requests and
  the validity of a certificate come from the library record \<open>x509\<close>.
\<close>

record begin_request =
  br_token_id :: string
  br_device_pubkey :: bytes

record begin_response =
  nonce :: bytes
  session_id :: string

record complete_request =
  cr_session_id :: string
  cr_token_secret :: string
  cr_device_id :: string
  cr_nonce_signature :: bytes
  cr_csr_der :: bytes
  cr_hostname :: string
  cr_qf_version :: string

record complete_response =
  client_cert_der :: bytes
  ca_chain_der :: "bytes list"
  org :: string
  assigned_gateway :: string

datatype message = Begin begin_request | Complete complete_request

datatype code = NotFound | PermissionDenied | Unauthenticated | InvalidArgument | DeadlineExceeded | Unavailable | OtherCode string

record status =
  status_code :: code
  status_message :: string

record ('c, 'w) service =
  begin_enrollment :: "'c \<Rightarrow> begin_request \<Rightarrow> 'w \<Rightarrow> (status + begin_response) \<times> 'w"
  complete_enrollment :: "'c \<Rightarrow> complete_request \<Rightarrow> 'w \<Rightarrow> (status + complete_response) \<times> 'w"

record x509 =
  make_csr :: "bytes \<Rightarrow> string \<Rightarrow> string + bytes"
  validity :: "bytes \<Rightarrow> string + int \<times> int"

record ('c, 'w) exchange =
  peer :: 'w
  sent :: "('c \<times> message) list"

record enroll_outcome =
  eo_device_id :: string
  eo_org_id :: string
  eo_client_cert_der :: bytes
  eo_ca_chain_der :: "bytes list"
  eo_assigned_gateway :: "string option"
  eo_pinned_ca_der :: "bytes option"
  eo_not_before :: int
  eo_not_after :: int
  eo_renew_after :: int

definition build_csr :: "'k crypto \<Rightarrow> x509 \<Rightarrow> 'k \<Rightarrow> string \<Rightarrow> string + bytes" where
  "build_csr c x key device_id =
     sbind (pkcs8_der c key) (\<lambda>pkcs8. make_csr x pkcs8 device_id)"

text \<open>The division truncates, as \<open>/\<close> on \<open>i64\<close>.\<close>

definition renew_after :: "int \<Rightarrow> int \<Rightarrow> int" where
  "renew_after not_before not_after = not_before + (not_after - not_before) * 2 sdiv 3"

definition cert_validity :: "x509 \<Rightarrow> bytes \<Rightarrow> string + int \<times> int" where
  "cert_validity x der = smap_err (\<lambda>e. ''issued certificate does not parse: '' @ e) (validity x der)"

definition chain_matches_fingerprint :: "('e, 'h) pki \<Rightarrow> bytes list \<Rightarrow> bytes \<Rightarrow> bool" where
  "chain_matches_fingerprint k chain_der fingerprint = list_ex (\<lambda>der. digest k der = fingerprint) chain_der"

section \<open>Messages for the operator\<close>

definition map_connect_error :: "enroll_token \<Rightarrow> string \<Rightarrow> string" where
  "map_connect_error tok t =
     (if contains t MISMATCH then
        ''cannot trust '' @ gateway tok @ '': '' @ t @ ''. If the controller'' @ quote_char
        @ ''s certificate was rotated, issue a fresh enrollment token.''
      else if contains t ''Expired'' \<or> contains t ''NotValidYet'' \<or> contains t ''InvalidCertificate'' then
        ''TLS to '' @ gateway tok @ '' failed: '' @ t @ ''. If this mentions certificate validity, check the switch clock (see ''
        @ quoted ''date'' @ '') '' @ em_dash @ '' a wrong clock makes valid certificates look expired or not yet valid.''
      else if contains t ''dns error'' \<or> contains t ''failed to lookup'' \<or> contains t ''resolving gateway host'' then
        ''cannot resolve gateway host '' @ quoted (gateway_host tok) @ '' ('' @ t @ '') '' @ em_dash @ '' check DNS and the token''
        @ quote_char @ ''s gateway segment''
      else if contains t ''refused'' \<or> contains t ''timed out'' \<or> contains t ''unreachable'' then
        ''cannot reach QuartzCommand gateway '' @ gateway tok @ '': '' @ t
        @ ''. Check network/firewall egress from this switch (management VRF routing included).''
      else ''connecting to QuartzCommand gateway '' @ gateway tok @ '' failed: '' @ t)"

fun code_debug :: "code \<Rightarrow> string" where
  "code_debug NotFound = ''NotFound''"
| "code_debug PermissionDenied = ''PermissionDenied''"
| "code_debug Unauthenticated = ''Unauthenticated''"
| "code_debug InvalidArgument = ''InvalidArgument''"
| "code_debug DeadlineExceeded = ''DeadlineExceeded''"
| "code_debug Unavailable = ''Unavailable''"
| "code_debug (OtherCode c) = c"

definition map_grpc_error :: "string \<Rightarrow> status \<Rightarrow> string" where
  "map_grpc_error rpc s =
     (let what = rpc @ '': '' @ status_message s in
      case status_code s of
        InvalidArgument \<Rightarrow> ''the controller rejected the enrollment request ('' @ what @ '')''
      | OtherCode c \<Rightarrow> ''enrollment failed ('' @ rpc @ '': '' @ c @ '': '' @ status_message s @ '')''
      | cd \<Rightarrow>
          if cd = DeadlineExceeded \<or> cd = Unavailable then
            ''the controller is unreachable mid-enrollment ('' @ what @ '') '' @ em_dash
            @ '' try again; if this persists, check the gateway address and network path''
          else ''enrollment failed '' @ em_dash @ '' check the token ('' @ what
            @ ''). The token may be mistyped, expired, revoked, or already used, or this device may already be adopted ''
            @ ''(revoke it in the QuartzCommand console first). Issue a fresh token and try again '' @ em_dash
            @ '' the endpoint is rate-limited, so wait a moment between attempts.'')"

section \<open>The exchange\<close>

definition call_begin :: "('c, 'w) service \<Rightarrow> 'c \<Rightarrow> begin_request \<Rightarrow> (('c, 'w) exchange, status, begin_response) io" where
  "call_begin sv ch req s = (case begin_enrollment sv ch req (peer s) of (r, w) \<Rightarrow> (r, s\<lparr>peer := w, sent := sent s @ [(ch, Begin req)]\<rparr>))"

definition call_complete :: "('c, 'w) service \<Rightarrow> 'c \<Rightarrow> complete_request \<Rightarrow> (('c, 'w) exchange, status, complete_response) io" where
  "call_complete sv ch req s =
     (case complete_enrollment sv ch req (peer s) of (r, w) \<Rightarrow> (r, s\<lparr>peer := w, sent := sent s @ [(ch, Complete req)]\<rparr>))"

text \<open>The bootstrap channel: no roots, the pin of the token, no client certificate; with the trust path it recorded.\<close>

definition bootstrap :: "('e, 'h) pki \<Rightarrow> ('n, 'a, 'c, 'h, unit) net \<Rightarrow> enroll_token \<Rightarrow> string + 'c \<times> verified_via" where
  "bootstrap k n tok =
     sbind (client_config k Inr [] (Some (ca_fingerprint tok)) None) (\<lambda>tls.
     case grpc_channel k n (gateway_host tok) (gateway_port tok) tls None of (r, outcome) \<Rightarrow>
     sbind (smap_err (map_connect_error tok) r) (\<lambda>ch.
     sbind (ok_or outcome ''TLS handshake completed without recording a trust path (bug)'') (\<lambda>via.
     Inr (ch, via))))"

definition enroll :: "'k crypto \<Rightarrow> x509 \<Rightarrow> ('e, 'h) pki \<Rightarrow> ('n, 'a, 'c, 'h, unit) net \<Rightarrow> ('c, 'w) service \<Rightarrow>
    'k \<Rightarrow> enroll_token \<Rightarrow> string \<Rightarrow> string \<Rightarrow> (('c, 'w) exchange, string, enroll_outcome) io" where
  "enroll c x k n sv key tok hostname agent_version =
     (let device_id = device_id_of c key in
      bnd (lift (bootstrap k n tok)) (\<lambda>(ch, via).
      let pinned_ca_der = (case via of Pinned der \<Rightarrow> Some der | Roots \<Rightarrow> None) in
      bnd (map_err (map_grpc_error ''BeginEnrollment'')
        (call_begin sv ch \<lparr>br_token_id = token_id tok, br_device_pubkey = public_key_raw c key\<rparr>)) (\<lambda>begun.
      bnd (guard (nonce begun \<noteq> []) (''controller returned an empty enrollment nonce '' @ em_dash @ '' controller bug or protocol mismatch'')) (\<lambda>_.
      let nonce_signature = sign c key (nonce begun) in
      bnd (lift (build_csr c x key device_id)) (\<lambda>csr_der.
      bnd (map_err (map_grpc_error ''CompleteEnrollment'')
        (call_complete sv ch \<lparr>cr_session_id = session_id begun, cr_token_secret = secret tok, cr_device_id = device_id,
           cr_nonce_signature = nonce_signature, cr_csr_der = csr_der, cr_hostname = hostname, cr_qf_version = agent_version\<rparr>)) (\<lambda>reply.
      bnd (guard (client_cert_der reply \<noteq> []) (''controller returned no client certificate '' @ em_dash @ '' controller bug or protocol mismatch'')) (\<lambda>_.
      bnd (guard (chain_matches_fingerprint k (ca_chain_der reply) (ca_fingerprint tok))
        (''the CA chain returned by the controller does not match the enrollment token'' @ quote_char @ ''s CA fingerprint '' @ em_dash
         @ '' refusing to trust it (possible controller misconfiguration or man-in-the-middle)'')) (\<lambda>_.
      bnd (lift (cert_validity x (client_cert_der reply))) (\<lambda>(not_before, not_after).
      ret \<lparr>eo_device_id = device_id, eo_org_id = org reply, eo_client_cert_der = client_cert_der reply,
           eo_ca_chain_der = ca_chain_der reply,
           eo_assigned_gateway = (if assigned_gateway reply = [] then None else Some (assigned_gateway reply)),
           eo_pinned_ca_der = pinned_ca_der, eo_not_before = not_before, eo_not_after = not_after,
           eo_renew_after = renew_after not_before not_after\<rparr>)))))))))"


section \<open>Trust\<close>

text \<open>The gateway showed, on the connection the messages go over, a certificate that the fingerprint of the token vouches for.\<close>

definition gateway_proved :: "('e, 'h) pki \<Rightarrow> ('n, 'a, 'c, 'h, unit) net \<Rightarrow> enroll_token \<Rightarrow> 'c \<Rightarrow> bytes \<Rightarrow> bool" where
  "gateway_proved k n tok ch cand \<longleftrightarrow> (\<exists>name ee ims h. server_name n (gateway_host tok) = Some name \<and>
     presented n ch name = (ee, ims, h) \<and> vouches k (ca_fingerprint tok) ee ims h cand)"

lemma bootstrap_proved:
  assumes "bootstrap k n tok = Inr (ch, via)"
  shows "\<exists>cand. via = Pinned cand \<and> gateway_proved k n tok ch cand"
proof -
  let ?v = "\<lparr>v_roots = None, v_pin = Some (ca_fingerprint tok)\<rparr>"
  let ?tls = "\<lparr>cc_verifier = ?v, cc_identity = None, cc_alpn = [''h2'']\<rparr> :: unit tls_config"
  have cfg: "client_config k Inr [] (Some (ca_fingerprint tok)) None = Inr ?tls"
    by (simp add: client_config_def new_verifier_def)
  then obtain r outcome where g: "grpc_channel k n (gateway_host tok) (gateway_port tok) ?tls None = (Inr ch, Some via)"
    using assms by (auto simp: bootstrap_def split: prod.splits)
  then obtain name where name: "server_name n (gateway_host tok) = Some name"
    and hs: "handshake k n ?tls name ch None = (Inr (), Some via)"
    by (auto simp: grpc_channel_def connector_def bnd_def lift_def map_err_def guard_def ret_def fail_def Let_def ok_or_def
        split: prod.splits sum.splits option.splits if_splits)
  obtain ee ims h where p: "presented n ch name = (ee, ims, h)" by (metis prod_cases3)
  have "verify_server_cert k ?v ee ims h None = (Inr (), Some via)"
    using hs p by (auto simp: handshake_def bnd_def lift_def map_err_def split: prod.splits sum.splits)
  from verify_pin_only [OF this] obtain cand where "via = Pinned cand" "vouches k (ca_fingerprint tok) ee ims h cand" by auto
  thus ?thesis using name p by (auto simp: gateway_proved_def)
qed

lemma sdiv_3: "0 \<le> a \<Longrightarrow> a sdiv 3 = a div 3" for a :: int
  by (auto simp: signed_divide_int_def sgn_if)

lemma renew_after_bounds:
  assumes "nb \<le> na"
  shows "nb \<le> renew_after nb na" "renew_after nb na \<le> na" "3 * (renew_after nb na - nb) \<le> 2 * (na - nb)"
    "2 * (na - nb) < 3 * (renew_after nb na - nb) + 3"
  using assms by (simp_all add: renew_after_def sdiv_3)

text \<open>What an accepted reply amounts to.\<close>

definition outcome_ok :: "'k crypto \<Rightarrow> x509 \<Rightarrow> ('e, 'h) pki \<Rightarrow> 'k \<Rightarrow> enroll_token \<Rightarrow> bytes \<Rightarrow> enroll_outcome \<Rightarrow> bool" where
  "outcome_ok c x k key tok cand out \<longleftrightarrow>
     eo_device_id out = device_id_of c key \<and> eo_pinned_ca_der out = Some cand \<and> eo_client_cert_der out \<noteq> [] \<and>
     list_ex (\<lambda>der. digest k der = ca_fingerprint tok) (eo_ca_chain_der out) \<and> eo_assigned_gateway out \<noteq> Some [] \<and>
     validity x (eo_client_cert_der out) = Inr (eo_not_before out, eo_not_after out) \<and>
     eo_renew_after out = renew_after (eo_not_before out) (eo_not_after out)"

lemma wp_call_begin: "(\<And>r w. Q r (s\<lparr>peer := w, sent := sent s @ [(ch, Begin req)]\<rparr>)) \<Longrightarrow> (\<And>e w. E e (s\<lparr>peer := w, sent := sent s @ [(ch, Begin req)]\<rparr>))
   \<Longrightarrow> wp (call_begin sv ch req) Q E s"
  by (auto simp: wp_def call_begin_def split: prod.split sum.split)

lemma wp_call_complete: "(\<And>r w. Q r (s\<lparr>peer := w, sent := sent s @ [(ch, Complete req)]\<rparr>)) \<Longrightarrow>
   (\<And>e w. E e (s\<lparr>peer := w, sent := sent s @ [(ch, Complete req)]\<rparr>)) \<Longrightarrow> wp (call_complete sv ch req) Q E s"
  by (auto simp: wp_def call_complete_def split: prod.split sum.split)

lemma wp_case_prod: "(\<And>a b. x = (a, b) \<Longrightarrow> wp (f a b) Q E s) \<Longrightarrow> wp (case x of (a, b) \<Rightarrow> f a b) Q E s"
  by (cases x) simp

lemma wp_enroll:
  "wp (enroll c x k n sv key tok hostname ver)
     (\<lambda>out s'. \<exists>ch cand b cr. bootstrap k n tok = Inr (ch, Pinned cand) \<and> sent s' = sent s @ [(ch, Begin b), (ch, Complete cr)] \<and> outcome_ok c x k key tok cand out)
     (\<lambda>e s'. \<exists>ms. sent s' = sent s @ ms \<and> length ms \<le> 2 \<and> (ms = [] \<or> (\<exists>ch via. bootstrap k n tok = Inr (ch, via) \<and> map fst ms = replicate (length ms) ch))) s"
  unfolding enroll_def Let_def
  apply (rule wp_bnd, rule wp_lift)
   apply (rule wp_case_prod)
   apply (rule wp_bnd, rule wp_map_err, rule wp_call_begin)
    apply (rule wp_bnd, rule wp_guard)
     apply (rule wp_bnd, rule wp_lift)
      apply (rule wp_bnd, rule wp_map_err, rule wp_call_complete)
       apply (rule wp_bnd, rule wp_guard)
        apply (rule wp_bnd, rule wp_guard)
         apply (rule wp_bnd, rule wp_lift)
          apply (rule wp_case_prod)
          apply (rule wp_ret)
  subgoal
    by (clarify, frule bootstrap_proved) (auto simp: outcome_ok_def cert_validity_def chain_matches_fingerprint_def)
  by auto

text \<open>C4. The messages of an enrollment, the one with the token's secret among them, are at most two, and all go over one
  connection, on which the gateway showed a certificate that the token's fingerprint vouches for. An accepted enrollment is for this
  device's id, its client certificate parses, its chain contains the pinned authority, and its renewal point is two thirds into the
  validity.\<close>

theorem enroll_trust:
  assumes "enroll c x k n sv key tok hostname ver s = (r, s')"
  shows "(\<exists>ms. sent s' = sent s @ ms \<and> length ms \<le> 2 \<and>
      (\<forall>(ch, m)\<in>set ms. \<exists>cand. gateway_proved k n tok ch cand) \<and> (\<forall>(ch, m)\<in>set ms. \<forall>(ch', m')\<in>set ms. ch' = ch)) \<and>
    (case r of Inl e \<Rightarrow> True
     | Inr out \<Rightarrow> (\<exists>ch cand b cr. sent s' = sent s @ [(ch, Begin b), (ch, Complete cr)] \<and> gateway_proved k n tok ch cand \<and>
           outcome_ok c x k key tok cand out) \<and>
         (eo_not_before out \<le> eo_not_after out \<longrightarrow>
            eo_renew_after out \<in> {eo_not_before out..eo_not_after out} \<and>
            3 * (eo_renew_after out - eo_not_before out) \<le> 2 * (eo_not_after out - eo_not_before out)))"
proof (cases r)
  case (Inl e)
  with wp_result [OF wp_enroll assms] obtain ms where ms: "sent s' = sent s @ ms" "length ms \<le> 2"
    "ms = [] \<or> (\<exists>ch via. bootstrap k n tok = Inr (ch, via) \<and> map fst ms = replicate (length ms) ch)" by auto
  have "(\<forall>(ch, m)\<in>set ms. \<exists>cand. gateway_proved k n tok ch cand) \<and> (\<forall>(ch, m)\<in>set ms. \<forall>(ch', m')\<in>set ms. ch' = ch)"
  proof (cases "ms = []")
    case False
    with ms(3) obtain ch via where b: "bootstrap k n tok = Inr (ch, via)" "map fst ms = replicate (length ms) ch" by auto
    have one: "a = ch" if "(a, m) \<in> set ms" for a m
      using arg_cong [OF b(2), of set] imageI [OF that, of fst] by (auto split: if_splits)
    show ?thesis using bootstrap_proved [OF b(1)] by (auto dest!: one)
  qed simp
  thus ?thesis using Inl ms(1,2) by auto
next
  case (Inr out)
  with wp_result [OF wp_enroll assms] obtain ch cand b cr where out: "bootstrap k n tok = Inr (ch, Pinned cand)"
    "sent s' = sent s @ [(ch, Begin b), (ch, Complete cr)]" "outcome_ok c x k key tok cand out" by auto
  hence "gateway_proved k n tok ch cand" using bootstrap_proved [OF out(1)] by auto
  moreover have "eo_renew_after out = renew_after (eo_not_before out) (eo_not_after out)" using out(3) by (simp add: outcome_ok_def)
  ultimately show ?thesis using out renew_after_bounds [of "eo_not_before out" "eo_not_after out"] Inr by auto
qed


section \<open>A run\<close>

definition demo_net :: "(unit, unit, unit, unit, 'i) net" where
  "demo_net = \<lparr>server_name = (\<lambda>h. Some ()), parse_uri = (\<lambda>u. Inr ()), lookup_host = (\<lambda>a. Inr [()]), tcp_connect = (\<lambda>as. Inr ()),
     show_addrs = (\<lambda>as. []), presented = (\<lambda>c n. ([7, 1], [[8]], ())), finish = (\<lambda>c n i. Inr ()), wrap = (\<lambda>e. ''transport error: '' @ e)\<rparr>"

definition demo_service :: "(unit, nat) service" where
  "demo_service = \<lparr>begin_enrollment = (\<lambda>c q w. (Inr \<lparr>nonce = [1], session_id = ''s1''\<rparr>, w + 1)),
     complete_enrollment = (\<lambda>c q w. (Inr \<lparr>client_cert_der = [9], ca_chain_der = [[7, 2]], org = ''o1'', assigned_gateway = []\<rparr>, w + 1))\<rparr>"

definition demo_x509 :: x509 where
  "demo_x509 = \<lparr>make_csr = (\<lambda>der cn. Inr der), validity = (\<lambda>der. Inr (1000, 1300))\<rparr>"

definition demo_token :: enroll_token where
  "demo_token = \<lparr>gateway_host = ''gw'', gateway_port = 443, org_id = ''o1'', token_id = ''t'', secret = ''x'', ca_fingerprint = [7], sha256_hex = []\<rparr>"

lemma demo_enroll:
  "\<exists>s'. enroll demo_crypto demo_x509 demo_pki demo_net demo_service ''k'' demo_token ''sw1'' ''1.0'' \<lparr>peer = 0, sent = []\<rparr> =
     (Inr \<lparr>eo_device_id = device_id_of demo_crypto ''k'', eo_org_id = ''o1'', eo_client_cert_der = [9], eo_ca_chain_der = [[7, 2]],
        eo_assigned_gateway = None, eo_pinned_ca_der = Some [7, 1], eo_not_before = 1000, eo_not_after = 1300, eo_renew_after = 1200\<rparr>, s')"
proof -
  have b: "bootstrap demo_pki demo_net demo_token = Inr ((), Pinned [7, 1])"
    by (simp add: bootstrap_def client_config_def new_verifier_def grpc_channel_def connector_def handshake_def io_run verify_server_cert_def
        demo_pki_def demo_net_def demo_token_def)
  have sel: "token_id demo_token = ''t''" "secret demo_token = ''x''" "ca_fingerprint demo_token = [7]" "digest demo_pki = take 1"
    "encode_pkcs8 demo_crypto = (\<lambda>k. Inr (str_bytes k))" by (simp_all add: demo_token_def demo_pki_def demo_crypto_def)
  have r: "renew_after 1000 1300 = 1200" by (simp add: renew_after_def sdiv_3)
  show ?thesis
    by (simp add: enroll_def b io_run call_begin_def call_complete_def demo_service_def build_csr_def pkcs8_der_def
        demo_x509_def chain_matches_fingerprint_def cert_validity_def r sel)
qed

theorem enroll_trust_witness:
  "\<exists>s' b cr. enroll demo_crypto demo_x509 demo_pki demo_net demo_service ''k'' demo_token ''sw1'' ''1.0'' \<lparr>peer = 0, sent = []\<rparr> =
      (Inr \<lparr>eo_device_id = device_id_of demo_crypto ''k'', eo_org_id = ''o1'', eo_client_cert_der = [9], eo_ca_chain_der = [[7, 2]],
        eo_assigned_gateway = None, eo_pinned_ca_der = Some [7, 1], eo_not_before = 1000, eo_not_after = 1300, eo_renew_after = 1200\<rparr>, s') \<and>
     sent s' = [((), Begin b), ((), Complete cr)] \<and> gateway_proved demo_pki demo_net demo_token () [7, 1]"
proof -
  obtain s' where run: "enroll demo_crypto demo_x509 demo_pki demo_net demo_service ''k'' demo_token ''sw1'' ''1.0'' \<lparr>peer = 0, sent = []\<rparr> =
      (Inr \<lparr>eo_device_id = device_id_of demo_crypto ''k'', eo_org_id = ''o1'', eo_client_cert_der = [9], eo_ca_chain_der = [[7, 2]],
        eo_assigned_gateway = None, eo_pinned_ca_der = Some [7, 1], eo_not_before = 1000, eo_not_after = 1300, eo_renew_after = 1200\<rparr>, s')"
    using demo_enroll by blast
  from enroll_trust [OF run] obtain cand b cr where "sent s' = [((), Begin b), ((), Complete cr)]"
    "gateway_proved demo_pki demo_net demo_token () cand" "cand = [7, 1]" by (auto simp: outcome_ok_def)
  with run show ?thesis by blast
qed

end
