(* ===== verification/AgentState.thy ===== *)
theory AgentState
  imports Identity
begin

text \<open>
  The durable enrollment state and the live status document (\<open>src/state.rs\<close>). The JSON library is the record \<open>codec\<close>.
  Times are Unix seconds as integers.
\<close>

definition STATE_ROOT :: string where "STATE_ROOT = ''/var/lib/quartz-sonic''"
definition RUN_DIR :: string where "RUN_DIR = ''/run/quartz-sonic''"
definition state_file :: string where "state_file = join_path STATE_ROOT ''state.json''"
definition identity_dir :: string where "identity_dir = STATE_ROOT"
definition status_file :: string where "status_file = join_path RUN_DIR ''status.json''"

record enrollment_state =
  st_enrolled :: bool
  st_device_id :: "string option"
  st_org_id :: "string option"
  st_token_gateway :: "string option"
  st_assigned_gateway :: "string option"
  st_last_token_sha256 :: "string option"
  st_enrolled_at_unix :: "int option"
  st_cert_not_before_unix :: "int option"
  st_cert_not_after_unix :: "int option"
  st_renew_after_unix :: "int option"

text \<open>\<open>Default\<close>.\<close>

definition no_enrollment :: enrollment_state where
  "no_enrollment = \<lparr>st_enrolled = False, st_device_id = None, st_org_id = None, st_token_gateway = None, st_assigned_gateway = None,
     st_last_token_sha256 = None, st_enrolled_at_unix = None, st_cert_not_before_unix = None, st_cert_not_after_unix = None,
     st_renew_after_unix = None\<rparr>"

datatype control_state = Unenrolled | Connecting | Connected | Backoff

record status_doc =
  sd_time_unix :: int
  sd_enrolled :: bool
  sd_device_id :: "string option"
  sd_org_id :: "string option"
  sd_gateway :: "string option"
  sd_cert_not_after_unix :: "int option"
  sd_renew_after_unix :: "int option"
  sd_cert_renewal_alarm :: bool
  sd_control :: control_state
  sd_control_since_unix :: "int option"
  sd_last_error :: "string option"

record codec =
  state_text :: "enrollment_state \<Rightarrow> string + string"
  parse_state :: "string \<Rightarrow> string + enrollment_state"
  status_text :: "status_doc \<Rightarrow> string + string"
  parse_status :: "string \<Rightarrow> string + status_doc"

definition control_gateway :: "enrollment_state \<Rightarrow> string option" where
  "control_gateway st = (case st_assigned_gateway st of
       Some g \<Rightarrow> if g \<noteq> [] then Some g else st_token_gateway st
     | None \<Rightarrow> st_token_gateway st)"

text \<open>\<open>Path::parent\<close>.\<close>

definition parent :: "string \<Rightarrow> string option" where
  "parent path = map_option fst (rsplit_once CHR ''/'' path)"

definition load_state :: "codec \<Rightarrow> string \<Rightarrow> (disk, string, enrollment_state) io" where
  "load_state cd path d = (case read_to_string path d of
       (Inr text, d') \<Rightarrow> (smap_err (because (''parse '' @ path)) (parse_state cd text), d')
     | (Inl Missing, d') \<Rightarrow> (Inr no_enrollment, d')
     | (Inl e, d') \<Rightarrow> (Inl (os_because (''read '' @ path) e), d'))"

definition make_parent :: "string \<Rightarrow> (disk, string, unit) io" where
  "make_parent path = (case parent path of
       Some dir \<Rightarrow> map_err os_text (create_dir_all dir)
     | None \<Rightarrow> ret ())"

definition save_state :: "codec \<Rightarrow> enrollment_state \<Rightarrow> string \<Rightarrow> (disk, string, unit) io" where
  "save_state cd st path =
     bnd (make_parent path) (\<lambda>_.
     bnd (lift (state_text cd st)) (\<lambda>text.
     atomic_write path text))"

definition write_status :: "codec \<Rightarrow> status_doc \<Rightarrow> string \<Rightarrow> (disk, string, unit) io" where
  "write_status cd doc path =
     bnd (make_parent path) (\<lambda>_.
     bnd (lift (status_text cd doc)) (\<lambda>text.
     atomic_write path text))"

section \<open>Laws\<close>

lemma control_gateway_assigned: "st_assigned_gateway st = Some g \<Longrightarrow> g \<noteq> [] \<Longrightarrow> control_gateway st = Some g"
  by (simp add: control_gateway_def)

lemma load_state_clean:
  assumes "faults d = []"
  shows "load_state cd p d = (case files d p of
      None \<Rightarrow> Inr no_enrollment
    | Some f \<Rightarrow> smap_err (because (''parse '' @ p)) (parse_state cd (content f)), d)"
  using assms by (simp add: load_state_def read_to_string_def syscall_def next_fault_def io_run split: option.split)

lemma wp_make_parent: "(\<And>d'. files d' = files d \<Longrightarrow> Q () d') \<Longrightarrow> (\<And>e d'. files d' = files d \<Longrightarrow> E e d') \<Longrightarrow> wp (make_parent p) Q E d"
  unfolding make_parent_def by (auto split: option.split intro!: wp_ret wp_map_err wp_create_dir_all)

text \<open>The state file is replaced as a whole or kept, and no other file but its temporary one is touched.\<close>

lemma wp_save_state:
  assumes "tmp_of p \<noteq> p"
  shows "wp (save_state cd st p)
    (\<lambda>_ d'. (\<exists>f. files d' p = Some f \<and> state_text cd st = Inr (content f)) \<and> (\<forall>q. q \<noteq> p \<longrightarrow> q \<noteq> tmp_of p \<longrightarrow> files d' q = files d q))
    (\<lambda>_ d'. files d' p = files d p \<and> (\<forall>q. q \<noteq> p \<longrightarrow> q \<noteq> tmp_of p \<longrightarrow> files d' q = files d q)) d"
  unfolding save_state_def
  apply (rule wp_bnd, rule wp_make_parent)
   apply (rule wp_bnd, rule wp_lift)
    apply (rule wp_conseq, rule plain_put.wp_put)
     apply (use assms in \<open>auto simp: replaced_def stage_def\<close>)
  done

end
