(* ===== verification/Cli.thy ===== *)
theory Cli
  imports Enroll AgentState "Json" "Maintenance"
begin

text \<open>
  The commands (\<open>src/cli/mod.rs\<close>): \<open>enroll\<close>, \<open>unenroll\<close> and \<open>status\<close>, over the disk, the enrollment
  service and the lines they print. What they take from outside the agent is the record \<open>env\<close>. The theorem is the invariant of
  the state directory: whatever fails and wherever a command stops, a state that says enrolled has its key and certificates.
\<close>

record ('c, 'w) agent =
  ag_disk :: disk
  ag_wire :: "('c, 'w) exchange"
  ag_log :: "string list"

record ('k, 'e, 'h, 'n, 'a, 'c, 'w) env =
  en_crypto :: "'k crypto"
  en_x509 :: x509
  en_pki :: "('e, 'h) pki"
  en_net :: "('n, 'a, 'c, 'h, unit) net"
  en_service :: "('c, 'w) service"
  en_codec :: codec
  en_fresh :: 'k
  en_hostname :: string
  en_version :: string
  en_now :: int
  en_restart :: bool

definition on_disk :: "(disk, 'e, 'b) io \<Rightarrow> (('c, 'w) agent, 'e, 'b) io" where
  "on_disk m s = (case m (ag_disk s) of (r, d) \<Rightarrow> (r, s\<lparr>ag_disk := d\<rparr>))"

definition on_wire :: "(('c, 'w) exchange, 'e, 'b) io \<Rightarrow> (('c, 'w) agent, 'e, 'b) io" where
  "on_wire m s = (case m (ag_wire s) of (r, w) \<Rightarrow> (r, s\<lparr>ag_wire := w\<rparr>))"

definition log_line :: "string \<Rightarrow> (('c, 'w) agent, 'e, unit) io" where
  "log_line msg s = (Inr (), s\<lparr>ag_log := ag_log s @ [''quartz-sonic: '' @ msg]\<rparr>)"

section \<open>enroll\<close>

definition already_enrolled :: "enrollment_state \<Rightarrow> string \<Rightarrow> string" where
  "already_enrolled st device_id =
     ''this switch is already enrolled as '' @ opt_or (st_device_id st) device_id @ '' (org '' @ opt_or (st_org_id st) ''?''
     @ ''). An adopted device cannot re-enroll until it is revoked in the QuartzCommand console; after revoking, re-run with --force.''"

definition new_state :: "enroll_token \<Rightarrow> enroll_outcome \<Rightarrow> int \<Rightarrow> enrollment_state" where
  "new_state tok out now = \<lparr>st_enrolled = True, st_device_id = Some (eo_device_id out), st_org_id = Some (eo_org_id out),
     st_token_gateway = Some (gateway tok), st_assigned_gateway = eo_assigned_gateway out,
     st_last_token_sha256 = Some (sha256_hex tok), st_enrolled_at_unix = Some now,
     st_cert_not_before_unix = Some (eo_not_before out), st_cert_not_after_unix = Some (eo_not_after out),
     st_renew_after_unix = Some (eo_renew_after out)\<rparr>"

text \<open>What follows the exchange: certificates first, the state last.\<close>

definition persist :: "'k crypto \<Rightarrow> codec \<Rightarrow> enroll_outcome \<Rightarrow> enrollment_state \<Rightarrow> (disk, string, unit) io" where
  "persist c cd out st =
     bnd (save_certificates c identity_dir (eo_client_cert_der out) (eo_ca_chain_der out) (eo_pinned_ca_der out)) (\<lambda>_.
     save_state cd st state_file)"

definition enroll_inner :: "('k, 'e, 'h, 'n, 'a, 'c, 'w) env \<Rightarrow> string \<Rightarrow> bool \<Rightarrow> (('c, 'w) agent, string, unit) io" where
  "enroll_inner v raw_token force =
     bnd (lift (smap_err token_error_text (parse (sha256 (en_crypto v)) (trim raw_token)))) (\<lambda>tok.
     bnd (on_disk (map_err (because ''create/load the device identity (are you running as root?)'')
       (load_or_generate (en_crypto v) identity_dir (en_fresh v)))) (\<lambda>key.
     let device_id = device_id_of (en_crypto v) key in
     bnd (on_disk (load_state (en_codec v) state_file)) (\<lambda>st.
     bnd (guard (\<not> (st_enrolled st \<and> \<not> force)) (already_enrolled st device_id)) (\<lambda>_.
     bnd (log_line (''device ID '' @ device_id)) (\<lambda>_.
     bnd (log_line (''enrolling against '' @ gateway tok @ '' '' @ map char_of [226, 128, 166 :: nat])) (\<lambda>_.
     bnd (on_wire (enroll (en_crypto v) (en_x509 v) (en_pki v) (en_net v) (en_service v) key tok (en_hostname v) (en_version v))) (\<lambda>out.
     let st' = new_state tok out (en_now v) in
     bnd (on_disk (persist (en_crypto v) (en_codec v) out st')) (\<lambda>_.
     bnd (log_line (''enrolled as '' @ eo_device_id out @ '' in org '' @ eo_org_id out @ '' (gateway '' @ opt_or (control_gateway st') ''?'' @ '')'')) (\<lambda>_.
     if en_restart v then log_line (''quartz-sonic.service restarted '' @ em_dash @ '' the control channel is connecting'')
     else log_line ''start the daemon to connect: systemctl restart quartz-sonic.service'')))))))))"

definition exit_code :: "(('c, 'w) agent, string, unit) io \<Rightarrow> ('c, 'w) agent \<Rightarrow> nat \<times> ('c, 'w) agent" where
  "exit_code m s = (case m s of (Inr _, s') \<Rightarrow> (0, s') | (Inl e, s') \<Rightarrow> (1, snd (log_line e s' :: (string + unit) \<times> ('c, 'w) agent)))"

definition enroll_cmd :: "('k, 'e, 'h, 'n, 'a, 'c, 'w) env \<Rightarrow> string \<Rightarrow> bool \<Rightarrow> ('c, 'w) agent \<Rightarrow> nat \<times> ('c, 'w) agent" where
  "enroll_cmd v raw_token force = exit_code (enroll_inner v raw_token force)"

section \<open>unenroll\<close>

definition remove_path :: "string \<Rightarrow> (disk, string, unit) io" where
  "remove_path path d = (case remove_file path d of
       (Inr _, d') \<Rightarrow> (Inr (), d')
     | (Inl Missing, d') \<Rightarrow> (Inr (), d')
     | (Inl e, d') \<Rightarrow> (Inl (os_because (''remove '' @ path @ '' (are you running as root?)'') e), d'))"

definition remove_enrollment_files :: "string \<Rightarrow> string \<Rightarrow> bool \<Rightarrow> (disk, string, unit) io" where
  "remove_enrollment_files dir statef wipe_identity =
     bnd (remove_path statef) (\<lambda>_.
     bnd (remove_path (client_cert_path dir)) (\<lambda>_.
     bnd (remove_path (ca_chain_path dir)) (\<lambda>_.
     bnd (remove_path (pinned_ca_path dir)) (\<lambda>_.
     if wipe_identity then bnd (remove_path (key_path dir)) (\<lambda>_. remove_path (pub_path dir)) else ret ()))))"

definition unenroll_inner :: "('k, 'e, 'h, 'n, 'a, 'c, 'w) env \<Rightarrow> bool \<Rightarrow> (('c, 'w) agent, string, unit) io" where
  "unenroll_inner v wipe_identity =
     bnd (on_disk (load_state (en_codec v) state_file)) (\<lambda>st.
     if \<not> st_enrolled st \<and> \<not> wipe_identity then log_line (''not enrolled '' @ em_dash @ '' nothing to do'')
     else
       bnd (if st_enrolled st then log_line (''unenrolling '' @ opt_or (st_device_id st) ''?'' @ '' (org '' @ opt_or (st_org_id st) ''?'' @ '')'')
            else ret ()) (\<lambda>_.
       bnd (on_disk (remove_enrollment_files identity_dir state_file wipe_identity)) (\<lambda>_.
       bnd (if wipe_identity then log_line (''device identity wiped '' @ em_dash @ '' the next enrollment gets a new device ID'') else ret ()) (\<lambda>_.
       bnd (if en_restart v then log_line (''quartz-sonic.service restarted '' @ em_dash @ '' the switch is disconnected'') else ret ()) (\<lambda>_.
       log_line (''local enrollment cleared. The controller was NOT notified: also revoke/remove this device in the QuartzCommand console, ''
         @ ''or it stays listed (offline) with a still-valid certificate.''))))))"

definition unenroll_cmd :: "('k, 'e, 'h, 'n, 'a, 'c, 'w) env \<Rightarrow> bool \<Rightarrow> ('c, 'w) agent \<Rightarrow> nat \<times> ('c, 'w) agent" where
  "unenroll_cmd v wipe_identity = exit_code (unenroll_inner v wipe_identity)"


section \<open>status\<close>

definition format_unix :: "int \<Rightarrow> string" where
  "format_unix unix =
     (let days = unix div 86400; secs = unix mod 86400; (y, m, d) = civil_of_days days in
      show_padded 4 y @ ''-'' @ show_padded 2 m @ ''-'' @ show_padded 2 d @ '' '' @ show_padded 2 (secs div 3600) @ '':''
      @ show_padded 2 (secs mod 3600 div 60) @ '':'' @ show_padded 2 (secs mod 60) @ '' UTC'')"

text \<open>The document of \<open>--json\<close>.\<close>

record status_report =
  sr_agent_version :: string
  sr_device_id :: "string option"
  sr_enrolled :: bool
  sr_org_id :: "string option"
  sr_gateway :: "string option"
  sr_cert_not_after_unix :: "int option"
  sr_renew_after_unix :: "int option"
  sr_live :: "status_doc option"

definition make_report :: "string \<Rightarrow> string option \<Rightarrow> enrollment_state \<Rightarrow> status_doc option \<Rightarrow> status_report" where
  "make_report version device_id st live = \<lparr>sr_agent_version = version, sr_device_id = device_id, sr_enrolled = st_enrolled st,
     sr_org_id = st_org_id st, sr_gateway = control_gateway st, sr_cert_not_after_unix = st_cert_not_after_unix st,
     sr_renew_after_unix = st_renew_after_unix st, sr_live = live\<rparr>"

definition control_line :: "status_doc \<Rightarrow> string" where
  "control_line doc = (case sd_control doc of
       Unenrolled \<Rightarrow> ''unenrolled''
     | Connecting \<Rightarrow> ''connecting''
     | Connected \<Rightarrow> (case sd_control_since_unix doc of Some since \<Rightarrow> ''connected (since '' @ format_unix since @ '')'' | None \<Rightarrow> ''connected'')
     | Backoff \<Rightarrow> ''reconnecting (backoff)'')"

definition status_lines :: "string \<Rightarrow> int \<Rightarrow> string option \<Rightarrow> enrollment_state \<Rightarrow> status_doc option \<Rightarrow> string list" where
  "status_lines version now device_id st live =
     [''quartz-sonic '' @ version,
      ''  device ID:   '' @ opt_or device_id (''(no identity yet '' @ em_dash @ '' starts with the daemon)'')]
     @ (if st_enrolled st then
          [''  enrollment:  enrolled (org '' @ opt_or (st_org_id st) ''?'' @ '')'',
           ''  gateway:     '' @ opt_or (control_gateway st) ''?'',
           (case st_cert_not_after_unix st of
              Some exp \<Rightarrow> ''  cert expiry: '' @ format_unix exp @ '' ('' @ show_int ((exp - now) sdiv 86400) @ '' days)''
            | None \<Rightarrow> ''  cert expiry: unknown'')]
          @ (case st_renew_after_unix st of Some renew \<Rightarrow> [''  renews:      at/after '' @ format_unix renew] | None \<Rightarrow> [])
        else [''  enrollment:  not enrolled '' @ em_dash @ '' run: sudo quartz-sonic enroll '' @ quoted ''<TOKEN>''])
     @ (case live of
          Some doc \<Rightarrow> [''  stream:      '' @ control_line doc]
            @ (if sd_cert_renewal_alarm doc then [''  ALARM:       certificate expires soon and renewal has not succeeded''] else [])
            @ (case sd_last_error doc of Some e \<Rightarrow> [''  last error:  '' @ e] | None \<Rightarrow> [])
        | None \<Rightarrow> [''  stream:      daemon not running (no status file)''])"

text \<open>What both forms show is read from the three files, each with its own fallback; reading cannot fail.\<close>

definition status_sources :: "'k crypto \<Rightarrow> codec \<Rightarrow> (disk, string, string option \<times> enrollment_state \<times> status_doc option) io" where
  "status_sources c cd =
     bnd (or_default no_enrollment (load_state cd state_file)) (\<lambda>st.
     bnd (or_default None (bnd (load c identity_dir) (\<lambda>k. ret (Some (device_id_of c k))))) (\<lambda>own.
     bnd (or_default None (bnd (map_err os_text (read_to_string status_file)) (\<lambda>t. lift (case parse_status cd t of Inr doc \<Rightarrow> Inr (Some doc) | Inl e \<Rightarrow> Inl e)))) (\<lambda>live.
     ret (case own of Some i \<Rightarrow> Some i | None \<Rightarrow> st_device_id st, st, live))))"

definition status_cmd :: "'k crypto \<Rightarrow> codec \<Rightarrow> (status_report \<Rightarrow> string) \<Rightarrow> string \<Rightarrow> int \<Rightarrow> bool \<Rightarrow> (disk, string, nat \<times> string list) io" where
  "status_cmd c cd show_report version now json =
     bnd (status_sources c cd) (\<lambda>(device_id, st, live).
     ret (0, if json then [show_report (make_report version device_id st live)] else status_lines version now device_id st live))"

section \<open>Laws of the steps\<close>

lemma wp_on_disk: "wp m (\<lambda>x d. Q x (s\<lparr>ag_disk := d\<rparr>)) (\<lambda>e d. E e (s\<lparr>ag_disk := d\<rparr>)) (ag_disk s) \<Longrightarrow> wp (on_disk m) Q E s"
  by (auto simp: wp_def on_disk_def split: prod.splits sum.splits)

lemma wp_on_wire: "wp m (\<lambda>x d. Q x (s\<lparr>ag_wire := d\<rparr>)) (\<lambda>e d. E e (s\<lparr>ag_wire := d\<rparr>)) (ag_wire s) \<Longrightarrow> wp (on_wire m) Q E s"
  by (auto simp: wp_def on_wire_def split: prod.splits sum.splits)

lemma wp_log_line: "(\<And>t. Q () (s\<lparr>ag_log := t\<rparr>)) \<Longrightarrow> wp (log_line msg) Q E s"
  by (simp add: wp_def log_line_def)

lemma wp_load_state: "(\<And>x d'. files d' = files d \<Longrightarrow> Q x d') \<Longrightarrow> (\<And>e d'. files d' = files d \<Longrightarrow> E e d') \<Longrightarrow> wp (load_state cd p) Q E d"
  by (auto simp: wp_def load_state_def read_to_string_def syscall_def next_fault_def io_run fault_error_def
      split: list.splits fault.splits option.splits sum.splits os_error.splits)

lemma wp_load: "(\<And>x d'. files d' = files d \<Longrightarrow> Q x d') \<Longrightarrow> (\<And>e d'. files d' = files d \<Longrightarrow> E e d') \<Longrightarrow> wp (load c p) Q E d"
  unfolding load_def read_to_string_def
  by (rule wp_bnd, rule wp_map_err, rule wp_syscall) (auto simp: wp_def lift_def split: option.splits sum.splits)

lemma wp_remove_path:
  assumes "\<And>d'. files d' = (files d)(p := None) \<Longrightarrow> Q () d'" "\<And>e d'. files d' = files d \<Longrightarrow> E e d'"
  shows "wp (remove_path p) Q E d"
proof (rule wpI)
  have "wp (remove_file p) (\<lambda>_ d'. files d' = (files d)(p := None)) (\<lambda>e d'. files d' = files d \<and> (e = Missing \<longrightarrow> files d p = None)) d"
    unfolding remove_file_def by (rule wp_syscall) (auto simp: wp_def set_file_def split: option.split)
  note r = this
  fix x d' assume "remove_path p d = (Inr x, d')"
  with r show "Q x d'" by (auto simp: remove_path_def wp_def fun_upd_idem split: prod.splits sum.splits os_error.splits intro!: assms(1))
next
  have "wp (remove_file p) (\<lambda>_ d'. True) (\<lambda>e d'. files d' = files d) d"
    unfolding remove_file_def by (rule wp_syscall) (auto simp: wp_def set_file_def split: option.split)
  note r = this
  fix e d' assume "remove_path p d = (Inl e, d')"
  with r show "E e d'" by (auto simp: remove_path_def wp_def split: prod.splits sum.splits os_error.splits intro!: assms(2))
qed


section \<open>The invariant of the state directory\<close>

definition enrolled_state :: "codec \<Rightarrow> disk \<Rightarrow> bool" where
  "enrolled_state cd d \<longleftrightarrow> (case files d state_file of None \<Rightarrow> False
     | Some f \<Rightarrow> (case parse_state cd (content f) of Inl _ \<Rightarrow> False | Inr st \<Rightarrow> st_enrolled st))"

definition core_files :: "string list" where
  "core_files = [key_path identity_dir, client_cert_path identity_dir, ca_chain_path identity_dir]"

definition dir_ok :: "codec \<Rightarrow> disk \<Rightarrow> bool" where
  "dir_ok cd d \<longleftrightarrow> enrolled_state cd d \<longrightarrow> list_all (\<lambda>p. files d p \<noteq> None) core_files"

lemma state_file_join: "state_file = join_path identity_dir ''state.json''"
  by (simp add: state_file_def identity_dir_def)

lemma tmp_state [simp]: "tmp_of state_file = join_path identity_dir ''state.tmp''"
  using tmp_of_join [of "''state''" "''json''" identity_dir] by (simp add: state_file_join)

text \<open>A step that keeps the state file and removes none of the core files.\<close>

definition grows :: "disk \<Rightarrow> disk \<Rightarrow> bool" where
  "grows d d' \<longleftrightarrow> files d' state_file = files d state_file \<and> list_all (\<lambda>p. files d p \<noteq> None \<longrightarrow> files d' p \<noteq> None) core_files"

lemma grows_same: "files d' = files d \<Longrightarrow> grows d d'"
  by (simp add: grows_def list_all_iff)

lemma grows_trans: "grows d d' \<Longrightarrow> grows d' d'' \<Longrightarrow> grows d d''"
  by (auto simp: grows_def list_all_iff)

lemma grows_dir_ok: "grows d d' \<Longrightarrow> dir_ok cd d \<Longrightarrow> dir_ok cd d'"
  by (auto simp: grows_def dir_ok_def enrolled_state_def list_all_iff)

lemma grows_present: "grows d d' \<Longrightarrow> p \<in> set core_files \<Longrightarrow> files d p \<noteq> None \<Longrightarrow> files d' p \<noteq> None"
  by (auto simp: grows_def list_all_iff)

context replacing
begin

lemma wp_put_grows:
  assumes "p \<noteq> state_file" "tmp_of p \<noteq> state_file" "tmp_of p \<notin> set core_files" "tmp_of p \<noteq> p"
  shows "wp (put p t) (\<lambda>_ d'. grows d d' \<and> files d' p \<noteq> None) (\<lambda>_. grows d) d"
  by (rule wp_conseq, rule wp_put) (use assms in \<open>auto simp: replaced_def stage_def grows_def list_all_iff\<close>)

end

lemmas dir_paths = path_defs state_file_join core_files_def

lemma agent_paths:
  assumes "p \<in> {key_path identity_dir, pub_path identity_dir, client_cert_path identity_dir, ca_chain_path identity_dir, pinned_ca_path identity_dir}"
  shows "p \<noteq> state_file" "tmp_of p \<noteq> state_file" "tmp_of p \<notin> set core_files" "tmp_of p \<noteq> p"
proof -
  have "tmp_of p \<in> (\<lambda>n. join_path identity_dir n) ` {''device.tmp'', ''client.tmp'', ''ca-chain.tmp'', ''pinned-ca.tmp''}"
    using assms by (elim insertE emptyE) simp_all
  thus "p \<noteq> state_file" "tmp_of p \<noteq> state_file" "tmp_of p \<notin> set core_files" "tmp_of p \<noteq> p"
    using assms by (auto simp: dir_paths)
qed

lemma wp_generate_grows: "wp (load_or_generate c identity_dir k) (\<lambda>_ d'. grows d d' \<and> files d' (key_path identity_dir) \<noteq> None) (\<lambda>_. grows d) d"
proof -
  have key: "wp (write_private (key_path identity_dir) t) (\<lambda>_ d'. grows d d' \<and> files d' (key_path identity_dir) \<noteq> None) (\<lambda>_. grows d) d1"
    if "grows d d1" for t d1
    by (rule wp_conseq, rule private_put.wp_put_grows [OF agent_paths])
      (use that in \<open>auto intro: grows_trans\<close>)
  have k: "key_path identity_dir \<in> set core_files" by (simp add: core_files_def)
  have pub: "wp (atomic_write (pub_path identity_dir) t) (\<lambda>_ d'. grows d d' \<and> files d' (key_path identity_dir) \<noteq> None) (\<lambda>_. grows d) d1"
    if "grows d d1" "files d1 (key_path identity_dir) \<noteq> None" for t d1
    by (rule wp_conseq, rule plain_put.wp_put_grows [OF agent_paths])
      (use that grows_present [OF _ k] in \<open>auto intro: grows_trans\<close>)
  show ?thesis
    unfolding load_or_generate_def identity_exists_def
    apply (rule wp_bnd, rule wp_path_exists, rule wp_if)
     apply (rule wp_load; simp add: grows_same)
    apply (rule wp_bnd, rule wp_map_err, rule wp_create_dir_all)
     apply (rule wp_bnd, rule wp_restrict_dir)
     apply (rule wp_bnd, rule wp_lift)
      apply (rule wp_bnd, rule wp_conseq, rule key)
        apply (simp add: grows_same)
       apply (rule wp_bnd, rule wp_lift)
        apply (rule wp_bnd, rule wp_conseq, rule pub)
           apply (auto intro: wp_ret grows_same)
    done
qed

lemma wp_save_certificates_grows:
  "wp (save_certificates c identity_dir cert chain pin)
     (\<lambda>_ d'. grows d d' \<and> files d' (client_cert_path identity_dir) \<noteq> None \<and> files d' (ca_chain_path identity_dir) \<noteq> None) (\<lambda>_. grows d) d"
proof -
  let ?c = "client_cert_path identity_dir" and ?a = "ca_chain_path identity_dir"
  have put: "wp (atomic_write p t) (\<lambda>_ d'. grows d d' \<and> files d' p \<noteq> None \<and> (files d1 ?c \<noteq> None \<longrightarrow> files d' ?c \<noteq> None)
      \<and> (files d1 ?a \<noteq> None \<longrightarrow> files d' ?a \<noteq> None)) (\<lambda>_. grows d) d1"
    if "grows d d1" "p \<in> {?c, ?a, pinned_ca_path identity_dir}" for p t d1
    by (rule wp_conseq, rule plain_put.wp_put_grows [OF agent_paths])
      (use that in \<open>auto simp: core_files_def intro: grows_trans dest: grows_present\<close>)
  show ?thesis
    unfolding save_certificates_def
    apply (rule wp_bnd, rule wp_conseq, rule put [OF grows_same], simp, simp)
     apply (rule wp_bnd, rule wp_conseq, rule put, simp, simp)
      apply (cases pin; simp)
       apply (rule wp_ret, simp)
      apply (rule wp_conseq, rule put, simp_all)
    done
qed


lemma wp_save_state_dir:
  "wp (save_state cd st state_file)
     (\<lambda>_ d'. (\<exists>f. files d' state_file = Some f \<and> state_text cd st = Inr (content f)) \<and> (\<forall>q\<in>set core_files. files d' q = files d q))
     (\<lambda>_ d'. files d' state_file = files d state_file \<and> (\<forall>q\<in>set core_files. files d' q = files d q)) d"
proof -
  have t: "tmp_of state_file \<noteq> state_file" unfolding tmp_state by (simp add: dir_paths)
  have "tmp_of state_file \<notin> set core_files" unfolding tmp_state by (simp add: dir_paths)
  moreover have "state_file \<notin> set core_files" by (simp add: dir_paths)
  ultimately have q: "q \<noteq> state_file \<and> q \<noteq> tmp_of state_file" if "q \<in> set core_files" for q using that by blast
  show ?thesis by (rule wp_conseq [OF wp_save_state [OF t]]) (use q in blast)+
qed

text \<open>The certificates are saved before the state: any failure leaves the old state, and success both.\<close>

lemma wp_persist:
  assumes "files d (key_path identity_dir) \<noteq> None"
  shows "wp (persist c cd out st)
    (\<lambda>_ d'. (\<exists>f. files d' state_file = Some f \<and> state_text cd st = Inr (content f)) \<and> list_all (\<lambda>p. files d' p \<noteq> None) core_files)
    (\<lambda>_. grows d) d"
  unfolding persist_def
proof (rule wp_bnd, rule wp_conseq, rule wp_save_certificates_grows)
  fix d1 :: disk assume d1: "grows d d1 \<and> files d1 (client_cert_path identity_dir) \<noteq> None \<and> files d1 (ca_chain_path identity_dir) \<noteq> None"
  hence "files d1 (key_path identity_dir) \<noteq> None" using grows_present [of d d1 "key_path identity_dir"] assms by (simp add: core_files_def)
  with d1 have core: "\<forall>p\<in>set core_files. files d1 p \<noteq> None" by (simp add: core_files_def)
  show "wp (save_state cd st state_file)
    (\<lambda>_ d'. (\<exists>f. files d' state_file = Some f \<and> state_text cd st = Inr (content f)) \<and> list_all (\<lambda>p. files d' p \<noteq> None) core_files)
    (\<lambda>_. grows d) d1"
  proof (rule wp_conseq, rule wp_save_state_dir)
    fix d2 :: disk assume "files d2 state_file = files d1 state_file \<and> (\<forall>q\<in>set core_files. files d2 q = files d1 q)"
    thus "grows d d2" using d1 by (auto simp: grows_def list_all_iff)
  qed (use core in \<open>auto simp: list_all_iff\<close>)
qed simp

lemma wp_remove_files:
  assumes "dir_ok cd d"
  shows "wp (remove_enrollment_files identity_dir state_file wipe) (\<lambda>_ d'. files d' state_file = None \<and> files d' (client_cert_path identity_dir) = None \<and>
       files d' (ca_chain_path identity_dir) = None \<and> files d' (pinned_ca_path identity_dir) = None
       \<and> files d' (key_path identity_dir) = (if wipe then None else files d (key_path identity_dir)))
    (\<lambda>_. dir_ok cd) d"
proof -
  let ?gone = "\<lambda>d'. files d' state_file = None"
  have ok: "dir_ok cd d'" if "?gone d' \<or> files d' = files d" for d'
    using that assms by (auto simp: dir_ok_def enrolled_state_def)
  have "distinct [state_file, client_cert_path identity_dir, ca_chain_path identity_dir, pinned_ca_path identity_dir,
      key_path identity_dir, pub_path identity_dir]" by (simp add: dir_paths)
  note ne = this [simplified]
  show ?thesis
    unfolding remove_enrollment_files_def
    apply (rule wp_bnd, rule wp_remove_path)
     apply (rule wp_bnd, rule wp_remove_path)
      apply (rule wp_bnd, rule wp_remove_path)
       apply (rule wp_bnd, rule wp_remove_path)
        apply (rule wp_if)
         apply (rule wp_bnd, rule wp_remove_path)
          apply (rule wp_remove_path)
           apply (use ne in simp)
    by (use ne in \<open>auto intro!: ok wp_ret\<close>)
qed


lemma wp_load_state_value:
  assumes "\<And>x d'. files d' = files d \<Longrightarrow> (case files d p of None \<Rightarrow> x = no_enrollment | Some f \<Rightarrow> parse_state cd (content f) = Inr x) \<Longrightarrow> Q x d'"
    and "\<And>e d'. files d' = files d \<Longrightarrow> E e d'"
  shows "wp (load_state cd p) Q E d"
  using assms by (auto simp: wp_def load_state_def read_to_string_def syscall_def next_fault_def io_run fault_error_def smap_err_def
      split: list.splits fault.splits option.splits sum.splits os_error.splits)

text \<open>What a run of \<open>enroll\<close> can do, on success and on failure.\<close>

definition enroll_done :: "('k, 'e, 'h, 'n, 'a, 'c, 'w) env \<Rightarrow> string \<Rightarrow> disk \<Rightarrow> bool" where
  "enroll_done v raw d \<longleftrightarrow> (\<exists>tok out f key ch cand. parse (sha256 (en_crypto v)) (trim raw) = Inr tok \<and>
     gateway_proved (en_pki v) (en_net v) tok ch cand \<and> outcome_ok (en_crypto v) (en_x509 v) (en_pki v) key tok cand out \<and>
     files d state_file = Some f \<and> state_text (en_codec v) (new_state tok out (en_now v)) = Inr (content f) \<and>
     list_all (\<lambda>p. files d p \<noteq> None) core_files)"

lemma enroll_doneI:
  assumes "parse (sha256 (en_crypto v)) (trim raw) = Inr tok" "gateway_proved (en_pki v) (en_net v) tok ch cand"
    "outcome_ok (en_crypto v) (en_x509 v) (en_pki v) key tok cand out" "files d state_file = Some f"
    "state_text (en_codec v) (new_state tok out (en_now v)) = Inr (content f)" "list_all (\<lambda>p. files d p \<noteq> None) core_files"
  shows "enroll_done v raw d"
  unfolding enroll_done_def using assms by blast

lemma wp_enroll_inner:
  "wp (enroll_inner v raw force)
    (\<lambda>_ s'. enroll_done v raw (ag_disk s') \<and> (enrolled_state (en_codec v) (ag_disk s) \<longrightarrow> force))
    (\<lambda>_ s'. grows (ag_disk s) (ag_disk s') \<and> (enrolled_state (en_codec v) (ag_disk s) \<and> \<not> force \<longrightarrow> ag_wire s' = ag_wire s)) s"
proof -
  let ?c = "en_crypto v" and ?cd = "en_codec v"
  have st: "enrolled_state ?cd (ag_disk s) = st_enrolled x"
    if "grows (ag_disk s) d1" "case files d1 state_file of None \<Rightarrow> x = no_enrollment | Some f \<Rightarrow> parse_state ?cd (content f) = Inr x" for d1 x
    using that by (auto simp: grows_def enrolled_state_def no_enrollment_def split: option.splits)
  have tail: "wp (bnd (on_disk (persist ?c ?cd out (new_state tok out (en_now v)))) (\<lambda>_. bnd (log_line msg) (\<lambda>_. if b then log_line m1 else log_line m2)))
      (\<lambda>_ s'. enroll_done v raw (ag_disk s')) (\<lambda>_ s'. grows d (ag_disk s')) s1"
    if "parse (sha256 ?c) (trim raw) = Inr tok" "bootstrap (en_pki v) (en_net v) tok = Inr (ch, Pinned cand)"
      "outcome_ok ?c (en_x509 v) (en_pki v) key tok cand out"
      "grows d (ag_disk s1)" "files (ag_disk s1) (key_path identity_dir) \<noteq> None" for tok out ch cand key s1 d msg b m1 m2
  proof -
    have g: "gateway_proved (en_pki v) (en_net v) tok ch cand" using bootstrap_proved [OF that(2)] by auto
    show ?thesis
      apply (rule wp_bnd, rule wp_on_disk, rule wp_conseq, rule wp_persist [OF that(5)])
       apply (rule wp_bnd, rule wp_log_line, rule wp_if; rule wp_log_line)
        apply (auto intro: enroll_doneI [OF that(1) g that(3)] grows_trans [OF that(4)])
      done
  qed
  have exchange: "wp (on_wire (enroll ?c (en_x509 v) (en_pki v) (en_net v) (en_service v) key tok (en_hostname v) (en_version v)))
      (\<lambda>out s'. ag_disk s' = ag_disk s1 \<and> (\<exists>ch cand. bootstrap (en_pki v) (en_net v) tok = Inr (ch, Pinned cand)
          \<and> outcome_ok ?c (en_x509 v) (en_pki v) key tok cand out)) (\<lambda>_ s'. ag_disk s' = ag_disk s1) s1" for key tok s1
    by (rule wp_on_wire, rule wp_conseq, rule wp_enroll) auto
  have main: "wp (bnd (log_line l1) (\<lambda>_. bnd (log_line l2) (\<lambda>_.
      bnd (on_wire (enroll ?c (en_x509 v) (en_pki v) (en_net v) (en_service v) key tok (en_hostname v) (en_version v))) (\<lambda>out.
      bnd (on_disk (persist ?c ?cd out (new_state tok out (en_now v)))) (\<lambda>_. bnd (log_line (msg out)) (\<lambda>_. if b then log_line m1 else log_line m2))))))
      (\<lambda>_ s'. enroll_done v raw (ag_disk s')) (\<lambda>_ s'. grows d (ag_disk s')) s1"
    if "parse (sha256 ?c) (trim raw) = Inr tok" "grows d (ag_disk s1)" "files (ag_disk s1) (key_path identity_dir) \<noteq> None"
    for tok key s1 d l1 l2 msg b m1 m2
    apply (rule wp_bnd, rule wp_log_line, rule wp_bnd, rule wp_log_line)
    apply (rule wp_bnd, rule wp_conseq, rule exchange)
     apply (elim conjE exE)
     apply (rule tail [OF that(1)], assumption, assumption)
    by (use that in simp_all)
  show ?thesis
    unfolding enroll_inner_def Let_def
    apply (rule wp_bnd, rule wp_lift)
     apply (rule wp_bnd, rule wp_on_disk, rule wp_map_err, rule wp_conseq, rule wp_generate_grows)
      apply (rule wp_bnd, rule wp_on_disk, rule wp_load_state_value)
       apply (rule wp_bnd, rule wp_guard)
        apply (rule wp_conseq, rule main [of _ "ag_disk s"])
            apply simp
    subgoal by (auto intro: grows_trans [OF _ grows_same])
    subgoal by simp
    subgoal for _ _ d1 st1 d2 using st [of d1 st1] by auto
    subgoal for _ _ d1 st1 d2 using st [of d1 st1] by auto
    subgoal by (auto intro: grows_trans [OF _ grows_same])
    by (auto simp: grows_same intro: grows_trans [OF _ grows_same])
qed


text \<open>C9. \<open>enroll\<close> is all or nothing: it exits with 0 and the disk holds the key, both certificate files and the state of an
  enrollment with a proved gateway, or with 1 and the state file is as it was, whatever call failed; and without \<open>--force\<close> an
  enrolled switch sends no message.\<close>

theorem enroll_cmd_spec:
  assumes "enroll_cmd v raw force s = (exit, s')"
  shows "(exit = 0 \<and> enroll_done v raw (ag_disk s') \<and> \<not> (enrolled_state (en_codec v) (ag_disk s) \<and> \<not> force)) \<or>
    (exit = 1 \<and> files (ag_disk s') state_file = files (ag_disk s) state_file \<and>
      (ag_wire s' = ag_wire s \<or> \<not> (enrolled_state (en_codec v) (ag_disk s) \<and> \<not> force)))"
proof -
  obtain r s1 where run: "enroll_inner v raw force s = (r, s1)" by (cases "enroll_inner v raw force s")
  note w = wp_result [OF wp_enroll_inner run]
  show ?thesis
  proof (cases r)
    case (Inl e)
    thus ?thesis using w run assms by (auto simp: enroll_cmd_def exit_code_def log_line_def grows_def)
  next
    case (Inr u)
    thus ?thesis using w run assms by (auto simp: enroll_cmd_def exit_code_def)
  qed
qed

definition demo_codec :: codec where
  "demo_codec = \<lparr>state_text = (\<lambda>st. Inr (if st_enrolled st then ''enrolled'' else ''no'')),
     parse_state = (\<lambda>t. Inr (no_enrollment\<lparr>st_enrolled := t = ''enrolled''\<rparr>)),
     status_text = (\<lambda>d. Inr ''{}''), parse_status = (\<lambda>t. Inl ''no'')\<rparr>"

definition demo_env :: "(string, string, unit, unit, unit, unit, nat) env" where
  "demo_env = \<lparr>en_crypto = demo_crypto, en_x509 = demo_x509, en_pki = demo_pki, en_net = demo_net, en_service = demo_service,
     en_codec = demo_codec, en_fresh = ''k'', en_hostname = ''sw1'', en_version = ''1.0'', en_now = 1000, en_restart = True\<rparr>"

text \<open>A switch that is enrolled.\<close>

definition demo_agent :: "(unit, nat) agent" where
  "demo_agent = \<lparr>ag_disk = \<lparr>files = [state_file \<mapsto> \<lparr>content = ''enrolled'', mode = 420\<rparr>], folders = Map.empty, faults = [], new_mode = 420\<rparr>,
     ag_wire = \<lparr>peer = 0, sent = []\<rparr>, ag_log = []\<rparr>"

theorem enroll_cmd_spec_witness:
  "fst (enroll_cmd demo_env (token_wire ''gw'' ''443'' ''o1'' ''t'' ''x'' (replicate 64 CHR ''0'')) False demo_agent) = 1 \<and>
   sent (ag_wire (snd (enroll_cmd demo_env (token_wire ''gw'' ''443'' ''o1'' ''t'' ''x'' (replicate 64 CHR ''0'')) False demo_agent))) = []"
proof -
  let ?raw = "token_wire ''gw'' ''443'' ''o1'' ''t'' ''x'' (replicate 64 CHR ''0'')"
  obtain exit s' where run: "enroll_cmd demo_env ?raw False demo_agent = (exit, s')" by (cases "enroll_cmd demo_env ?raw False demo_agent")
  have "enrolled_state (en_codec demo_env) (ag_disk demo_agent)" by (simp add: enrolled_state_def demo_env_def demo_codec_def demo_agent_def)
  with enroll_cmd_spec [OF run] run show ?thesis by (auto simp: demo_agent_def)
qed

section \<open>A wiped identity and the temporary file\<close>

lemma remove_path_clean: "faults d = [] \<Longrightarrow> remove_path p d = (Inr (), d\<lparr>files := (files d)(p := None)\<rparr>)"
  by (cases d) (auto simp: remove_path_def disk_run io_run fun_upd_idem split: option.split)

text \<open>
  \<open>device.key\<close> and \<open>device.pub\<close> share \<open>device.tmp\<close>. Where the public key could not be renamed, the
  temporary file stays behind with the mode of a public file; \<open>unenroll --wipe-identity\<close> does not know it, and the private key
  that the next start writes through it is readable for everyone.
\<close>

lemma wiped_key_readable:
  "\<exists>d1 d2. remove_enrollment_files ''/s'' ''/s/state.json'' True after_failed_start = (Inr (), d1) \<and>
     load_or_generate demo_crypto ''/s'' ''k2'' d1 = (Inr ''k2'', d2) \<and> map_option mode (files d2 ''/s/device.key'') = Some 420"
proof -
  define d1 where "d1 = after_failed_start\<lparr>files := [''/s/device.tmp'' \<mapsto> \<lparr>content = ''k'', mode = 420\<rparr>]\<rparr>"
  have rm: "remove_enrollment_files ''/s'' ''/s/state.json'' True after_failed_start = (Inr (), d1)"
    by (simp add: remove_enrollment_files_def bnd_def remove_path_clean after_failed_start_def d1_def demo_paths
        client_cert_path_def ca_chain_path_def pinned_ca_path_def join_path_def fun_eq_iff)
  have f: "faults d1 = []" by (simp add: d1_def after_failed_start_def)
  have mk: "create_dir_all ''/s'' d1 = (Inr (), d1)"
    by (simp add: create_dir_all_def syscall_def next_fault_def io_run demo_paths d1_def after_failed_start_def)
  have ch: "restrict_dir ''/s'' d1 = (Inr (), d1)"
    by (simp add: restrict_dir_def set_permissions_def syscall_def next_fault_def io_run d1_def after_failed_start_def fun_upd_idem)
  obtain d2 where key: "write_private ''/s/device.key'' ''k2'' d1 = (Inr (), d2)" and f2: "faults d2 = []"
    using replace_file_clean [OF f, of "Some 384" "''/s/device.key''" "''k2''"] f by (auto simp: write_private_def)
  have m: "map_option mode (files d2 ''/s/device.key'') = Some 420"
    using private_put.mode_of_old_tmp [OF key, of "\<lparr>content = ''k'', mode = 420\<rparr>"] by (simp add: demo_paths d1_def)
  obtain d3 where pub: "atomic_write ''/s/device.pub'' ''k2'' d2 = (Inr (), d3)"
    using replace_file_clean [OF f2, of None "''/s/device.pub''" "''k2''"] by (auto simp: atomic_write_def)
  hence "files d3 ''/s/device.key'' = files d2 ''/s/device.key''" by (rule plain_put.others_kept) (simp_all add: demo_paths)
  moreover have "identity_exists ''/s'' d1 = (Inr False, d1)"
    by (simp add: identity_exists_def path_exists_def next_fault_def bnd_def demo_paths d1_def after_failed_start_def)
  hence "load_or_generate demo_crypto ''/s'' ''k2'' d1 = (Inr ''k2'', d3)"
    using mk ch key pub by (simp add: load_or_generate_def demo_paths bnd_def map_err_def lift_def ret_def demo_crypto_def)
  ultimately show ?thesis using rm m by auto
qed

end
