(* ===== verification/Control.thy ===== *)
theory Control
  imports Cli
begin

text \<open>
  The control channel (\<open>src/control/mod.rs\<close>, \<open>src/control/daemon.rs\<close>): the status cell, the connection with the
  stored identity, the session that serves the stream and renews the certificate, and the loop that reconnects with a growing wait.
  The clock is a list of readings, and what the controller and the timers do in a session is a list of events; the lists are
  arguments, so a theorem over all of them is one over all environments. Waits are in milliseconds.
\<close>

section \<open>Data\<close>

record renew_response =
  rr_client_cert_der :: bytes
  rr_ca_chain_der :: "bytes list"
  rr_not_after_unix :: int
  rr_renew_after_unix :: int

record proxy_request =
  pr_request_id :: string
  pr_method :: string
  pr_path :: string
  pr_content_type :: string
  pr_body :: string

datatype inbound = ProxyRequest proxy_request | OtherMessage | StreamClosed | StreamFailed status

datatype event = WaitOver | StatsTick | TelemetryTick | Arrives inbound

text \<open>What a session leaves to tasks of their own.\<close>

datatype task = SendHello string string | SendStats | SendTelemetry | Answer proxy_request

record ('c, 'w) device_service =
  renew_certificate :: "'c \<Rightarrow> bytes \<Rightarrow> 'w \<Rightarrow> (status + renew_response) \<times> 'w"
  control_stream :: "'c \<Rightarrow> 'w \<Rightarrow> (status + unit) \<times> 'w"

record 'w ctl =
  ct_disk :: disk
  ct_clock :: "int list"
  ct_doc :: status_doc
  ct_state :: enrollment_state
  ct_peer :: 'w
  ct_tasks :: "task list"
  ct_slept :: "nat list"

text \<open>What stays the same over the life of the daemon.\<close>

record ('k, 'e, 'h, 'c, 'w) daemon =
  da_crypto :: "'k crypto"
  da_x509 :: x509
  da_pki :: "('e, 'h) pki"
  da_codec :: codec
  da_service :: "('c, 'w) device_service"
  da_key :: 'k
  da_pem_key :: "string \<Rightarrow> string + string option"
  da_identity :: "bytes list \<times> string \<Rightarrow> string + unit"
  da_hostname :: string
  da_version :: string

text \<open>\<open>now_unix\<close>: the next reading of the clock.\<close>

definition now_unix :: "('w ctl, 'x, int) io" where
  "now_unix s = (Inr (case ct_clock s of [] \<Rightarrow> 0 | t # _ \<Rightarrow> t), s\<lparr>ct_clock := drop 1 (ct_clock s)\<rparr>)"

definition on_files :: "(disk, 'x, 'b) io \<Rightarrow> ('w ctl, 'x, 'b) io" where
  "on_files m s = (case m (ct_disk s) of (r, d) \<Rightarrow> (r, s\<lparr>ct_disk := d\<rparr>))"

definition get_state :: "('w ctl, 'x, enrollment_state) io" where
  "get_state s = (Inr (ct_state s), s)"

definition set_state :: "enrollment_state \<Rightarrow> ('w ctl, 'x, unit) io" where
  "set_state st s = (Inr (), s\<lparr>ct_state := st\<rparr>)"

definition spawn_task :: "task \<Rightarrow> ('w ctl, 'x, unit) io" where
  "spawn_task t s = (Inr (), s\<lparr>ct_tasks := ct_tasks s @ [t]\<rparr>)"

definition sleep_ms :: "nat \<Rightarrow> ('w ctl, 'x, unit) io" where
  "sleep_ms w s = (Inr (), s\<lparr>ct_slept := ct_slept s @ [w]\<rparr>)"

section \<open>The status cell\<close>

definition set_doc :: "status_doc \<Rightarrow> ('w ctl, 'x, unit) io" where
  "set_doc doc s = (Inr (), s\<lparr>ct_doc := doc\<rparr>)"

text \<open>The document is changed, dated and written; a failure to write is only logged.\<close>

definition update_status :: "codec \<Rightarrow> (status_doc \<Rightarrow> status_doc) \<Rightarrow> ('w ctl, string, unit) io" where
  "update_status cd f =
     bnd (\<lambda>s. (Inr (f (ct_doc s)), s)) (\<lambda>doc.
     bnd now_unix (\<lambda>t.
     let doc = doc\<lparr>sd_time_unix := t\<rparr> in
     bnd (set_doc doc) (\<lambda>_.
     or_default () (on_files (write_status cd doc status_file)))))"

section \<open>The gateway\<close>

text \<open>The texts of \<open>ParseIntError\<close> for an unsigned width.\<close>

fun int_error :: "nat \<Rightarrow> nat \<Rightarrow> string \<Rightarrow> string" where
  "int_error b acc [] = []"
| "int_error b acc (c # cs) =
     (if \<not> is_digit c then ''invalid digit found in string''
      else if 2 ^ b \<le> 10 * acc + digit_val c then ''number too large to fit in target type''
      else int_error b (10 * acc + digit_val c) cs)"

definition parse_uint_error :: "nat \<Rightarrow> string \<Rightarrow> string" where
  "parse_uint_error b s =
     (if s = [] then ''cannot parse integer from empty string''
      else if s = ''+'' then ''invalid digit found in string''
      else int_error b 0 (if hd s = CHR ''+'' then tl s else s))"

definition split_gateway :: "string \<Rightarrow> string + string \<times> 16 word" where
  "split_gateway g =
     sbind (ok_or (rsplit_once CHR '':'' g) (''gateway '' @ quoted g @ '' is not host:port'')) (\<lambda>(host_raw, port).
     sbind (ok_or (parse_uint 16 port) (because (''bad port in '' @ quoted g) (parse_uint_error 16 port))) (\<lambda>p.
     Inr (unbracket host_raw, word_of_nat p)))"

definition jitter :: "nat \<Rightarrow> nat \<Rightarrow> nat" where
  "jitter nanos max_ms = nanos mod max max_ms 1"

text \<open>A token's gateway is read back as it was.\<close>

lemma gateway_roundtrip:
  assumes "\<And>h. gateway_host t \<noteq> ''['' @ h @ '']''"
  shows "split_gateway (gateway t) = Inr (gateway_host t, gateway_port t)"
proof -
  have "unat (gateway_port t) < 2 ^ 16" using unsigned_less [of "gateway_port t", where ?'a = nat] by simp
  hence "parse_uint 16 (show_nat (unat (gateway_port t))) = Some (unat (gateway_port t))" by simp
  moreover have "rsplit_once CHR '':'' (gateway t) = Some (gateway_host t, show_nat (unat (gateway_port t)))"
    by (auto simp: rsplit_once_Some gateway_def show_nat_no_char is_digit_def byte_def)
  ultimately show ?thesis using unbracket_plain [of "gateway_host t"] assms by (simp add: split_gateway_def)
qed

section \<open>Connecting\<close>

fun collect_certs :: "(string + bytes) list \<Rightarrow> string + bytes list" where
  "collect_certs [] = Inr []"
| "collect_certs (c # cs) = sbind c (\<lambda>der. sbind (collect_certs cs) (\<lambda>ders. Inr (der # ders)))"

definition read_or_empty :: "string \<Rightarrow> (disk, string, string) io" where
  "read_or_empty path = or_default [] (read_to_string path)"

definition connect_gateway :: "('k, 'e, 'h, 'c, 'w) daemon \<Rightarrow> ('n, 'a, 'c, 'h, bytes list \<times> string) net \<Rightarrow> string \<Rightarrow> string \<Rightarrow> 16 word \<Rightarrow> (disk, string, 'c) io" where
  "connect_gateway v n dir host port =
     bnd (map_err (os_because (''read client.crt '' @ em_dash @ '' the device may not be enrolled (run '' @ quoted ''quartz-sonic enroll'' @ '')''))
       (read_to_string (client_cert_path dir))) (\<lambda>client_cert.
     bnd (map_err (os_because ''read device.key'') (read_to_string (key_path dir))) (\<lambda>key_pem.
     bnd (lift (smap_err (because ''parse client.crt'') (collect_certs (pem_certs (da_pki v) client_cert)))) (\<lambda>chain.
     bnd (lift (sbind (smap_err (because ''parse device.key'') (da_pem_key v key_pem)) (\<lambda>key. ok_or key ''device.key holds no key''))) (\<lambda>key.
     bnd (read_or_empty (ca_chain_path dir)) (\<lambda>ca_chain.
     bnd (read_or_empty (pinned_ca_path dir)) (\<lambda>pinned.
     let pems = (if pinned \<noteq> [] then [pinned] else []) @ [ca_chain] in
     bnd (lift (pinned_roots (da_pki v) pems)) (\<lambda>roots.
     bnd (lift (client_config (da_pki v) (da_identity v) roots None (Some (chain, key)))) (\<lambda>tls.
     lift (fst (grpc_channel (da_pki v) n host port tls None))))))))))"

section \<open>A session\<close>

definition call_renew :: "('c, 'w) device_service \<Rightarrow> 'c \<Rightarrow> bytes \<Rightarrow> ('w ctl, status, renew_response) io" where
  "call_renew sv ch csr s = (case renew_certificate sv ch csr (ct_peer s) of (r, w) \<Rightarrow> (r, s\<lparr>ct_peer := w\<rparr>))"

definition call_stream :: "('c, 'w) device_service \<Rightarrow> 'c \<Rightarrow> ('w ctl, status, unit) io" where
  "call_stream sv ch s = (case control_stream sv ch (ct_peer s) of (r, w) \<Rightarrow> (r, s\<lparr>ct_peer := w\<rparr>))"

definition rpc_failed :: "string \<Rightarrow> status \<Rightarrow> string" where
  "rpc_failed what st = what @ '' ('' @ code_debug (status_code st) @ ''): '' @ status_message st"

definition renewed_state :: "enrollment_state \<Rightarrow> renew_response \<Rightarrow> int \<Rightarrow> int \<Rightarrow> enrollment_state" where
  "renewed_state st resp not_before not_after = st\<lparr>st_cert_not_before_unix := Some not_before,
     st_cert_not_after_unix := Some (if 0 < rr_not_after_unix resp then rr_not_after_unix resp else not_after),
     st_renew_after_unix := Some (if 0 < rr_renew_after_unix resp then rr_renew_after_unix resp else renew_after not_before not_after)\<rparr>"

text \<open>The durable half of a renewal: the certificate files, then the state.\<close>

definition store_renewal :: "('k, 'e, 'h, 'c, 'w) daemon \<Rightarrow> renew_response \<Rightarrow> ('w ctl, string, unit) io" where
  "store_renewal v resp =
     bnd (on_files (save_certificates (da_crypto v) identity_dir (rr_client_cert_der resp) (rr_ca_chain_der resp) None)) (\<lambda>_.
     bnd (lift (cert_validity (da_x509 v) (rr_client_cert_der resp))) (\<lambda>(not_before, not_after).
     bnd get_state (\<lambda>st.
     let st = renewed_state st resp not_before not_after in
     bnd (set_state st) (\<lambda>_.
     on_files (save_state (da_codec v) st state_file)))))"

definition renew :: "('k, 'e, 'h, 'c, 'w) daemon \<Rightarrow> 'c \<Rightarrow> ('w ctl, string, unit) io" where
  "renew v ch =
     bnd get_state (\<lambda>st.
     bnd (lift (ok_or (st_device_id st) ''no device id in state'')) (\<lambda>device_id.
     bnd (lift (build_csr (da_crypto v) (da_x509 v) (da_key v) device_id)) (\<lambda>csr_der.
     bnd (map_err (rpc_failed ''RenewCertificate failed'') (call_renew (da_service v) ch csr_der)) (\<lambda>resp.
     bnd (guard (rr_client_cert_der resp \<noteq> []) ''controller returned an empty renewed certificate'') (\<lambda>_.
     bnd (store_renewal v resp) (\<lambda>_.
     bnd get_state (\<lambda>st.
     update_status (da_codec v) (\<lambda>d. d\<lparr>sd_cert_not_after_unix := st_cert_not_after_unix st,
       sd_renew_after_unix := st_renew_after_unix st, sd_cert_renewal_alarm := False\<rparr>))))))))"

text \<open>The head of the loop: whether the renewal is due, or for how many seconds to serve.\<close>

definition next_check :: "('k, 'e, 'h, 'c, 'w) daemon \<Rightarrow> ('w ctl, string, nat option) io" where
  "next_check v =
     bnd now_unix (\<lambda>now.
     bnd get_state (\<lambda>st.
     let renew_at = (case st_renew_after_unix st of Some t \<Rightarrow> t | None \<Rightarrow> now);
         alarm = (case st_cert_not_after_unix st of Some exp \<Rightarrow> exp - now < 7 * 86400 | None \<Rightarrow> False) in
     bnd (update_status (da_codec v) (\<lambda>d. d\<lparr>sd_cert_renewal_alarm := alarm \<and> renew_at \<le> now\<rparr>)) (\<lambda>_.
     ret (if now < renew_at then Some (nat (max (min (renew_at - now) 3600) 1)) else None))))"

definition on_event :: "event \<Rightarrow> ('w ctl, string, unit) io" where
  "on_event e = (case e of
       WaitOver \<Rightarrow> ret ()
     | StatsTick \<Rightarrow> spawn_task SendStats
     | TelemetryTick \<Rightarrow> spawn_task SendTelemetry
     | Arrives m \<Rightarrow> (case m of
         ProxyRequest req \<Rightarrow> spawn_task (Answer req)
       | OtherMessage \<Rightarrow> ret ()
       | StreamClosed \<Rightarrow> fail ''control stream closed by the controller''
       | StreamFailed st \<Rightarrow> fail (rpc_failed ''control stream error'' st)))"

text \<open>The loop of a session over its events: \<open>None\<close> while it lasts, else how it ended.\<close>

fun serve :: "('k, 'e, 'h, 'c, 'w) daemon \<Rightarrow> 'c \<Rightarrow> event list \<Rightarrow> ('w ctl, string, unit option) io" where
  "serve v ch [] = bnd (next_check v) (\<lambda>due. case due of
       Some wait \<Rightarrow> ret None
     | None \<Rightarrow> bnd (renew v ch) (\<lambda>_. ret (Some ())))"
| "serve v ch (e # es) = bnd (next_check v) (\<lambda>due. case due of
       Some wait \<Rightarrow> bnd (on_event e) (\<lambda>_. serve v ch es)
     | None \<Rightarrow> bnd (renew v ch) (\<lambda>_. ret (Some ())))"

definition connected_wait :: "('k, 'e, 'h, 'c, 'w) daemon \<Rightarrow> 'c \<Rightarrow> event list \<Rightarrow> ('w ctl, string, unit option) io" where
  "connected_wait v ch events =
     bnd (spawn_task (SendHello (da_hostname v) (da_version v))) (\<lambda>_.
     bnd (map_err (rpc_failed ''ControlStream failed'') (call_stream (da_service v) ch)) (\<lambda>_.
     serve v ch events))"


section \<open>The loop\<close>

text \<open>A round of the loop: the network it meets, what happens in its session, the sub-second clock at its end.\<close>

record ('n, 'a, 'c, 'h) round =
  rd_net :: "('n, 'a, 'c, 'h, bytes list \<times> string) net"
  rd_events :: "event list"
  rd_nanos :: nat

datatype round_end = InSession | Again nat

definition attempted :: "('s, 'e, 'b) io \<Rightarrow> ('s, 'x, 'e + 'b) io" where
  "attempted m s = (case m s of (r, s') \<Rightarrow> (Inr r, s'))"

definition wait_and_retry :: "nat \<Rightarrow> nat \<Rightarrow> ('w ctl, string, round_end) io" where
  "wait_and_retry nanos backoff =
     bnd (sleep_ms (1000 * backoff + jitter nanos (1000 * backoff))) (\<lambda>_.
     ret (Again (min (backoff * 2) 300)))"

text \<open>The branch with a channel.\<close>

definition announce :: "('k, 'e, 'h, 'c, 'w) daemon \<Rightarrow> ('w ctl, string, unit) io" where
  "announce v =
     bnd now_unix (\<lambda>t.
     update_status (da_codec v) (\<lambda>d. d\<lparr>sd_control := Connected, sd_control_since_unix := Some t, sd_last_error := None\<rparr>))"

definition session_round :: "('k, 'e, 'h, 'c, 'w) daemon \<Rightarrow> ('n, 'a, 'c, 'h) round \<Rightarrow> 'c \<Rightarrow> ('w ctl, string, round_end) io" where
  "session_round v r ch =
     bnd (announce v) (\<lambda>_.
     bnd (attempted (connected_wait v ch (rd_events r))) (\<lambda>e.
     case e of
       Inl err \<Rightarrow>
         bnd (update_status (da_codec v) (\<lambda>d. d\<lparr>sd_control := Backoff, sd_control_since_unix := None, sd_last_error := Some err\<rparr>)) (\<lambda>_.
         wait_and_retry (rd_nanos r) 1)
     | Inr ended \<Rightarrow> ret (case ended of None \<Rightarrow> InSession | Some _ \<Rightarrow> Again 1)))"

text \<open>The head of a round, up to the connection: its result is the channel or why there is none.\<close>

definition dial :: "('k, 'e, 'h, 'c, 'w) daemon \<Rightarrow> ('n, 'a, 'c, 'h) round \<Rightarrow> ('w ctl, string, string + 'c) io" where
  "dial v r =
     bnd get_state (\<lambda>st.
     bnd (lift (ok_or (control_gateway st) (''enrolled but no gateway recorded '' @ em_dash @ '' re-enroll''))) (\<lambda>g.
     bnd (lift (split_gateway g)) (\<lambda>(host, port).
     bnd (update_status (da_codec v) (\<lambda>d. d\<lparr>sd_control := Connecting, sd_gateway := Some g\<rparr>)) (\<lambda>_.
     attempted (on_files (connect_gateway v (rd_net r) identity_dir host port))))))"

definition attempt :: "('k, 'e, 'h, 'c, 'w) daemon \<Rightarrow> ('n, 'a, 'c, 'h) round \<Rightarrow> nat \<Rightarrow> ('w ctl, string, round_end) io" where
  "attempt v r backoff =
     bnd (dial v r) (\<lambda>c. case c of
       Inl err \<Rightarrow>
         bnd (update_status (da_codec v) (\<lambda>d. d\<lparr>sd_control := Backoff, sd_last_error := Some err\<rparr>)) (\<lambda>_.
         wait_and_retry (rd_nanos r) backoff)
     | Inr ch \<Rightarrow> session_round v r ch)"

fun run_loop :: "('k, 'e, 'h, 'c, 'w) daemon \<Rightarrow> ('n, 'a, 'c, 'h) round list \<Rightarrow> nat \<Rightarrow> ('w ctl, string, unit) io" where
  "run_loop v [] backoff = ret ()"
| "run_loop v (r # rs) backoff = bnd (attempt v r backoff) (\<lambda>a. case a of
       InSession \<Rightarrow> ret ()
     | Again b \<Rightarrow> run_loop v rs b)"

section \<open>The daemon\<close>

definition initial_doc :: "int \<Rightarrow> enrollment_state \<Rightarrow> string \<Rightarrow> status_doc" where
  "initial_doc t st device_id = \<lparr>sd_time_unix = t, sd_enrolled = st_enrolled st, sd_device_id = Some device_id, sd_org_id = st_org_id st,
     sd_gateway = control_gateway st, sd_cert_not_after_unix = st_cert_not_after_unix st, sd_renew_after_unix = st_renew_after_unix st,
     sd_cert_renewal_alarm = False, sd_control = (if st_enrolled st then Connecting else Unenrolled), sd_control_since_unix = None,
     sd_last_error = None\<rparr>"

text \<open>\<open>ticks\<close> half minutes pass before the daemon is stopped.\<close>

primrec park :: "codec \<Rightarrow> nat \<Rightarrow> ('w ctl, string, unit) io" where
  "park cd 0 = ret ()"
| "park cd (Suc ticks) = bnd (update_status cd (\<lambda>d. d)) (\<lambda>_. park cd ticks)"

definition run_async :: "('k, 'e, 'h, 'c, 'w) daemon \<Rightarrow> ('n, 'a, 'c, 'h) round list \<Rightarrow> nat \<Rightarrow> ('w ctl, string, unit) io" where
  "run_async v rounds ticks =
     bnd (on_files (load_or_generate (da_crypto v) identity_dir (da_key v))) (\<lambda>key.
     bnd (on_files (load_state (da_codec v) state_file)) (\<lambda>st.
     bnd now_unix (\<lambda>t.
     bnd (set_doc (initial_doc t st (device_id_of (da_crypto v) key))) (\<lambda>_.
     bnd (set_state st) (\<lambda>_.
     bnd (update_status (da_codec v) (\<lambda>d. d)) (\<lambda>_.
     if \<not> st_enrolled st then park (da_codec v) ticks
     else bnd (attempted (run_loop (v\<lparr>da_key := key\<rparr>) rounds 1)) (\<lambda>r. case r of
         Inr _ \<Rightarrow> ret ()
       | Inl e \<Rightarrow>
           bnd (update_status (da_codec v) (\<lambda>d. d\<lparr>sd_control := Backoff, sd_last_error := Some e\<rparr>)) (\<lambda>_.
           park (da_codec v) ticks))))))))"

section \<open>Laws of the steps\<close>

lemma wp_attempted: "wp m (\<lambda>x s'. Q (Inr x) s') (\<lambda>e s'. Q (Inl e) s') s \<Longrightarrow> wp (attempted m) Q E s"
  by (auto simp: wp_def attempted_def split: prod.splits sum.splits)

lemma wp_on_files: "wp m (\<lambda>x d. Q x (s\<lparr>ct_disk := d\<rparr>)) (\<lambda>e d. E e (s\<lparr>ct_disk := d\<rparr>)) (ct_disk s) \<Longrightarrow> wp (on_files m) Q E s"
  by (auto simp: wp_def on_files_def split: prod.splits sum.splits)

lemma wp_now_unix: "(\<And>t c. Q t (s\<lparr>ct_clock := c\<rparr>)) \<Longrightarrow> wp now_unix Q E s"
  by (simp add: wp_def now_unix_def)

lemma wp_get_state: "Q (ct_state s) s \<Longrightarrow> wp get_state Q E s"
  by (simp add: wp_def get_state_def)

lemma wp_set_state: "Q () (s\<lparr>ct_state := st\<rparr>) \<Longrightarrow> wp (set_state st) Q E s"
  by (simp add: wp_def set_state_def)

lemma wp_set_doc: "Q () (s\<lparr>ct_doc := d\<rparr>) \<Longrightarrow> wp (set_doc d) Q E s"
  by (simp add: wp_def set_doc_def)

lemma wp_spawn_task: "Q () (s\<lparr>ct_tasks := ct_tasks s @ [t]\<rparr>) \<Longrightarrow> wp (spawn_task t) Q E s"
  by (simp add: wp_def spawn_task_def)

lemma wp_sleep_ms: "Q () (s\<lparr>ct_slept := ct_slept s @ [w]\<rparr>) \<Longrightarrow> wp (sleep_ms w) Q E s"
  by (simp add: wp_def sleep_ms_def)

lemma wp_call_renew: "(\<And>r w. Q r (s\<lparr>ct_peer := w\<rparr>)) \<Longrightarrow> (\<And>e w. E e (s\<lparr>ct_peer := w\<rparr>)) \<Longrightarrow> wp (call_renew sv ch csr) Q E s"
  by (auto simp: wp_def call_renew_def split: prod.split sum.split)

lemma wp_call_stream: "(\<And>r w. Q r (s\<lparr>ct_peer := w\<rparr>)) \<Longrightarrow> (\<And>e w. E e (s\<lparr>ct_peer := w\<rparr>)) \<Longrightarrow> wp (call_stream sv ch) Q E s"
  by (auto simp: wp_def call_stream_def split: prod.split sum.split)

text \<open>An update of the status touches the document, the clock and the two status files.\<close>

lemma tmp_status [simp]: "tmp_of status_file = join_path RUN_DIR ''status.tmp''"
  using tmp_of_join [of "''status''" "''json''" RUN_DIR] by (simp add: status_file_def)

lemma run_dir_apart: "join_path RUN_DIR n \<noteq> join_path identity_dir m"
  by (simp add: join_path_def RUN_DIR_def identity_dir_def STATE_ROOT_def)

lemma wp_write_status: "wp (write_status cd doc status_file) (\<lambda>_. grows d) (\<lambda>_. grows d) d"
proof -
  have p: "status_file \<noteq> state_file" "tmp_of status_file \<noteq> state_file" "tmp_of status_file \<notin> set core_files" "tmp_of status_file \<noteq> status_file"
    unfolding tmp_status using run_dir_apart by (auto simp: dir_paths status_file_def)
  have w: "wp (atomic_write status_file t) (\<lambda>_. grows d) (\<lambda>_. grows d) d1" if "grows d d1" for t d1
    by (rule wp_conseq, rule plain_put.wp_put_grows [OF p]) (use that in \<open>auto intro: grows_trans\<close>)
  show ?thesis
    unfolding write_status_def
    apply (rule wp_bnd, rule wp_make_parent)
     apply (rule wp_bnd, rule wp_lift)
      apply (rule w)
      apply (simp_all add: grows_same)
    done
qed

lemma wp_update_status:
  assumes "\<And>s'. ct_doc s' = (f (ct_doc s))\<lparr>sd_time_unix := sd_time_unix (ct_doc s')\<rparr> \<Longrightarrow> ct_state s' = ct_state s \<Longrightarrow>
    ct_tasks s' = ct_tasks s \<Longrightarrow> ct_slept s' = ct_slept s \<Longrightarrow> ct_peer s' = ct_peer s \<Longrightarrow> grows (ct_disk s) (ct_disk s') \<Longrightarrow> Q () s'"
  shows "wp (update_status cd f) Q E s"
proof -
  have read: "wp (\<lambda>s. (Inr (f (ct_doc s)), s)) (\<lambda>x s'. x = f (ct_doc s) \<and> s' = s) E s" by (simp add: wp_def)
  show ?thesis
    unfolding update_status_def Let_def
    apply (rule wp_bnd, rule wp_conseq, rule read)
     apply (clarify)
     apply (rule wp_bnd, rule wp_now_unix, rule wp_bnd, rule wp_set_doc)
     apply (rule wp_or_default, rule wp_on_files, rule wp_conseq, rule wp_write_status)
      apply (auto intro: assms)
    done
qed

section \<open>The waits\<close>

definition backoff_at :: "nat \<Rightarrow> nat" where
  "backoff_at k = min (2 ^ k) 300"

text \<open>What a round came to: no gateway to dial, no connection, a session that was lost, one that ended with a renewal or lasts.\<close>

datatype outcome = Undialled | Unreachable | SessionLost | Renewed | Lasting

fun series_ok :: "nat \<Rightarrow> (outcome \<times> nat list) list \<Rightarrow> bool" where
  "series_ok k [] = True"
| "series_ok k ((x, ws) # t) = (case x of
       Unreachable \<Rightarrow> (\<exists>w. ws = [w] \<and> 1000 * backoff_at k \<le> w \<and> w < 2000 * backoff_at k) \<and> series_ok (Suc k) t
     | SessionLost \<Rightarrow> (\<exists>w. ws = [w] \<and> 1000 \<le> w \<and> w < 2000) \<and> series_ok 1 t
     | Renewed \<Rightarrow> ws = [] \<and> series_ok 0 t
     | _ \<Rightarrow> ws = [] \<and> t = [])"

text \<open>The outcome of a round is read off the connection and the session themselves, not off the waits.\<close>

definition session_end :: "('k, 'e, 'h, 'c, 'w) daemon \<Rightarrow> ('n, 'a, 'c, 'h) round \<Rightarrow> 'c \<Rightarrow> 'w ctl \<Rightarrow> string + unit option" where
  "session_end v r ch s = (case announce v s of (_, s1) \<Rightarrow> fst (connected_wait v ch (rd_events r) s1))"

definition outcome_of :: "('k, 'e, 'h, 'c, 'w) daemon \<Rightarrow> ('n, 'a, 'c, 'h) round \<Rightarrow> 'w ctl \<Rightarrow> outcome" where
  "outcome_of v r s = (case dial v r s of
       (Inl _, _) \<Rightarrow> Undialled
     | (Inr (Inl _), _) \<Rightarrow> Unreachable
     | (Inr (Inr ch), s1) \<Rightarrow> (case session_end v r ch s1 of Inl _ \<Rightarrow> SessionLost | Inr (Some _) \<Rightarrow> Renewed | Inr None \<Rightarrow> Lasting))"

text \<open>The rounds of a run, each with its outcome and the waits it added.\<close>

fun rounds_of :: "('k, 'e, 'h, 'c, 'w) daemon \<Rightarrow> ('n, 'a, 'c, 'h) round list \<Rightarrow> nat \<Rightarrow> 'w ctl \<Rightarrow> (outcome \<times> nat list) list" where
  "rounds_of v [] b s = []"
| "rounds_of v (r # rs) b s = (case attempt v r b s of (e, s1) \<Rightarrow>
     (outcome_of v r s, drop (length (ct_slept s)) (ct_slept s1)) #
     (case e of Inr (Again b') \<Rightarrow> rounds_of v rs b' s1 | _ \<Rightarrow> []))"

lemma backoff_at_pos: "1 \<le> backoff_at k" "backoff_at k \<le> 300"
  by (simp_all add: backoff_at_def)

lemma backoff_at_Suc: "min (backoff_at k * 2) 300 = backoff_at (Suc k)"
  by (simp add: backoff_at_def min_def)

lemma backoff_at_0: "backoff_at 0 = 1"
  by (simp add: backoff_at_def)

lemma series_ok_bounds: "series_ok k t \<Longrightarrow> list_all (\<lambda>w. 1000 \<le> w \<and> w < 600000) (concat (map snd t))"
proof (induction k t rule: series_ok.induct)
  case (2 k x ws t)
  have "1000 * backoff_at k \<le> w \<Longrightarrow> w < 2000 * backoff_at k \<Longrightarrow> 1000 \<le> w \<and> w < 600000" for w
    using backoff_at_pos [of k] by linarith
  with 2 show ?case by (cases x) auto
qed simp

lemma jitter_less: "0 < m \<Longrightarrow> jitter nanos m < m"
  by (simp add: jitter_def)

section \<open>What a step of a session keeps\<close>

definition daemon_ok :: "codec \<Rightarrow> 'w ctl \<Rightarrow> bool" where
  "daemon_ok cd s \<longleftrightarrow> dir_ok cd (ct_disk s) \<and> files (ct_disk s) (key_path identity_dir) \<noteq> None"

definition keeps :: "codec \<Rightarrow> 'w ctl \<Rightarrow> 'w ctl \<Rightarrow> bool" where
  "keeps cd s s' \<longleftrightarrow> ct_slept s' = ct_slept s \<and> (daemon_ok cd s \<longrightarrow> daemon_ok cd s')"

definition keeping :: "codec \<Rightarrow> ('w ctl, 'x, 'b) io \<Rightarrow> bool" where
  "keeping cd m \<longleftrightarrow> (\<forall>s. wp m (\<lambda>_. keeps cd s) (\<lambda>_. keeps cd s) s)"

named_theorems keeping_intro \<open>steps that keep the directory and the waits\<close>

lemma keeps_refl: "keeps cd s s"
  by (simp add: keeps_def)

lemma keeps_trans: "keeps cd s s' \<Longrightarrow> keeps cd s' s'' \<Longrightarrow> keeps cd s s''"
  by (simp add: keeps_def)

lemma key_core: "key_path identity_dir \<in> set core_files"
  by (simp add: core_files_def)

lemma keeps_grows: "ct_slept s' = ct_slept s \<Longrightarrow> grows (ct_disk s) (ct_disk s') \<Longrightarrow> keeps cd s s'"
  using grows_present [OF _ key_core] by (auto simp: keeps_def daemon_ok_def intro: grows_dir_ok)

lemma keeping_wp: "keeping cd m \<Longrightarrow> wp m (\<lambda>_. keeps cd s) (\<lambda>_. keeps cd s) s"
  by (simp add: keeping_def)

lemma keeping_bnd [keeping_intro]:
  assumes "keeping cd m" "\<And>x. keeping cd (f x)"
  shows "keeping cd (bnd m f)"
  unfolding keeping_def
proof
  fix s :: "'a ctl"
  have "wp (f x) (\<lambda>_. keeps cd s) (\<lambda>_. keeps cd s) s1" if "keeps cd s s1" for x s1
    by (rule wp_conseq, rule keeping_wp [OF assms(2)]) (use that keeps_trans in blast)+
  thus "wp (bnd m f) (\<lambda>_. keeps cd s) (\<lambda>_. keeps cd s) s"
    by (intro wp_bnd wp_conseq [OF keeping_wp [OF assms(1)]])
qed

lemma keeping_simple [keeping_intro]:
  "keeping cd (ret x)" "keeping cd (fail e)" "keeping cd (lift r)" "keeping cd (guard b e)"
  "keeping cd get_state" "keeping cd now_unix" "keeping cd (spawn_task t)" "keeping cd (set_state st)" "keeping cd (set_doc doc)"
  "keeping cd (call_renew sv ch csr)" "keeping cd (call_stream sv ch)" "keeping cd (update_status cd' f)"
  by (auto simp: keeping_def keeps_refl grows_same
      intro!: wp_ret wp_fail wp_lift wp_guard wp_get_state wp_now_unix wp_spawn_task wp_set_state wp_set_doc wp_call_renew wp_call_stream
        wp_update_status keeps_grows)

lemma keeping_map_err [keeping_intro]: "keeping cd m \<Longrightarrow> keeping cd (map_err g m)"
  by (auto simp: keeping_def intro!: wp_map_err)

lemma keeping_attempted [keeping_intro]: "keeping cd m \<Longrightarrow> keeping cd (attempted m)"
  by (auto simp: keeping_def intro!: wp_attempted)

lemma keeping_if [keeping_intro]: "(b \<Longrightarrow> keeping cd m) \<Longrightarrow> (\<not> b \<Longrightarrow> keeping cd n) \<Longrightarrow> keeping cd (if b then m else n)"
  by simp

lemma keeping_cases [keeping_intro]:
  "keeping cd m \<Longrightarrow> (\<And>y. keeping cd (f y)) \<Longrightarrow> keeping cd (case x of None \<Rightarrow> m | Some y \<Rightarrow> f y)"
  "(\<And>e. keeping cd (g e)) \<Longrightarrow> (\<And>y. keeping cd (f y)) \<Longrightarrow> keeping cd (case r of Inl e \<Rightarrow> g e | Inr y \<Rightarrow> f y)"
  "(\<And>a b. keeping cd (h a b)) \<Longrightarrow> keeping cd (case z of (a, b) \<Rightarrow> h a b)"
  by (simp_all split: option.split sum.split prod.split)

lemma keeping_on_files: "(\<And>d. wp m (\<lambda>_. grows d) (\<lambda>_. grows d) d) \<Longrightarrow> keeping cd (on_files m)"
  unfolding keeping_def by (intro allI wp_on_files, rule wp_conseq, assumption) (auto intro: keeps_grows)

section \<open>Sessions\<close>

lemma wp_read_to_string: "(\<And>x d'. files d' = files d \<Longrightarrow> Q x d') \<Longrightarrow> (\<And>e d'. files d' = files d \<Longrightarrow> E e d') \<Longrightarrow> wp (read_to_string p) Q E d"
  unfolding read_to_string_def by (rule wp_syscall) (auto simp: wp_def split: option.split)

lemma wp_connect_gateway: "wp (connect_gateway v n dir host port) (\<lambda>_. grows d) (\<lambda>_. grows d) d"
  unfolding connect_gateway_def read_or_empty_def Let_def
  by (intro wp_bnd wp_map_err wp_or_default wp_read_to_string wp_lift) (simp_all add: grows_same)

lemma keeping_connect [keeping_intro]: "keeping cd (on_files (connect_gateway v n dir host port))"
  by (rule keeping_on_files, rule wp_connect_gateway)

lemma keeping_store_renewal [keeping_intro]:
  fixes v :: "('k, 'e, 'h, 'c, 'w) daemon"
  assumes "cd = da_codec v"
  shows "keeping cd (store_renewal v resp)"
  unfolding keeping_def
proof
  fix s :: "'w ctl"
  have save: "wp (on_files (save_state (da_codec v) st state_file)) (\<lambda>_. keeps cd s) (\<lambda>_. keeps cd s) s1"
    if "ct_slept s1 = ct_slept s" "grows (ct_disk s) (ct_disk s1)" "files (ct_disk s1) (client_cert_path identity_dir) \<noteq> None"
      "files (ct_disk s1) (ca_chain_path identity_dir) \<noteq> None" for s1 st
  proof (rule wp_on_files, rule wp_conseq, rule wp_save_state_dir)
    fix d2 :: disk
    assume "(\<exists>f. files d2 state_file = Some f \<and> state_text (da_codec v) st = Inr (content f)) \<and> (\<forall>q\<in>set core_files. files d2 q = files (ct_disk s1) q)"
    thus "keeps cd s (s1\<lparr>ct_disk := d2\<rparr>)" using that grows_present [OF that(2) key_core]
      by (auto simp: keeps_def daemon_ok_def dir_ok_def core_files_def)
  next
    fix d2 :: disk
    assume "files d2 state_file = files (ct_disk s1) state_file \<and> (\<forall>q\<in>set core_files. files d2 q = files (ct_disk s1) q)"
    hence "grows (ct_disk s1) d2" by (simp add: grows_def list_all_iff)
    thus "keeps cd s (s1\<lparr>ct_disk := d2\<rparr>)" using that by (intro keeps_grows) (auto intro: grows_trans)
  qed
  show "wp (store_renewal v resp) (\<lambda>_. keeps cd s) (\<lambda>_. keeps cd s) s"
    unfolding store_renewal_def Let_def
    apply (rule wp_bnd, rule wp_on_files, rule wp_conseq, rule wp_save_certificates_grows)
     apply (rule wp_bnd, rule wp_lift)
      apply (rule wp_case_prod)
      apply (rule wp_bnd, rule wp_get_state, rule wp_bnd, rule wp_set_state)
      apply (rule save)
         apply (auto intro: keeps_grows)
    done
qed

lemma keeping_session:
  "keeping (da_codec v) (renew v ch)" "keeping (da_codec v) (next_check v)" "keeping cd (on_event e)"
  unfolding renew_def next_check_def Let_def
    apply (intro keeping_intro, rule refl)
   apply (intro keeping_intro)
  apply (auto simp: on_event_def intro!: keeping_intro split: event.split inbound.split)
  done

lemma keeping_serve: "keeping (da_codec v) (serve v ch es)"
  by (induction es) (auto intro!: keeping_intro keeping_session)

lemma keeping_connected_wait [keeping_intro]: "keeping (da_codec v) (connected_wait v ch es)"
  unfolding connected_wait_def by (intro keeping_intro keeping_serve)


section \<open>The loop keeps to the series\<close>

definition attempt_ends :: "nat \<Rightarrow> outcome \<Rightarrow> round_end \<Rightarrow> nat list \<Rightarrow> bool" where
  "attempt_ends k x a ws \<longleftrightarrow> (case x of
       Undialled \<Rightarrow> False
     | Unreachable \<Rightarrow> (\<exists>w. ws = [w] \<and> 1000 * backoff_at k \<le> w \<and> w < 2000 * backoff_at k) \<and> a = Again (backoff_at (Suc k))
     | SessionLost \<Rightarrow> (\<exists>w. ws = [w] \<and> 1000 \<le> w \<and> w < 2000) \<and> a = Again (backoff_at 1)
     | Renewed \<Rightarrow> ws = [] \<and> a = Again (backoff_at 0)
     | Lasting \<Rightarrow> ws = [] \<and> a = InSession)"

text \<open>From \<open>s\<close> to \<open>s'\<close> the waits \<open>ws\<close> were added, and the directory stayed good.\<close>

definition waited :: "codec \<Rightarrow> nat list \<Rightarrow> 'w ctl \<Rightarrow> 'w ctl \<Rightarrow> bool" where
  "waited cd ws s s' \<longleftrightarrow> ct_slept s' = ct_slept s @ ws \<and> (daemon_ok cd s \<longrightarrow> daemon_ok cd s')"

lemma waited_keeps: "keeps cd s s1 \<Longrightarrow> waited cd ws s1 s2 \<Longrightarrow> waited cd ws s s2"
  by (simp add: keeps_def waited_def)

lemma keeps_waited: "keeps cd s s' \<longleftrightarrow> waited cd [] s s'"
  by (simp add: keeps_def waited_def)

lemma wp_keeping_bnd:
  assumes "keeping cd m" "keeps cd s s1" "\<And>x s2. keeps cd s s2 \<Longrightarrow> wp (f x) Q E s2" "\<And>e s2. keeps cd s s2 \<Longrightarrow> E e s2"
  shows "wp (bnd m f) Q E s1"
  by (intro wp_bnd wp_conseq [OF keeping_wp [OF assms(1)]]) (use assms(2-4) keeps_trans in blast)+

lemma keeping_dial: "keeping (da_codec v) (dial v r)"
  unfolding dial_def by (intro keeping_intro)

lemma wp_wait_and_retry:
  assumes "keeps cd s s1"
  shows "wp (wait_and_retry nanos (backoff_at k)) (\<lambda>a s'. \<exists>w. waited cd [w] s s' \<and> 1000 * backoff_at k \<le> w \<and> w < 2000 * backoff_at k
      \<and> a = Again (backoff_at (Suc k))) E s1"
proof -
  let ?b = "backoff_at k"
  let ?w = "1000 * ?b + jitter nanos (1000 * ?b)"
  have "jitter nanos (1000 * ?b) < 1000 * ?b" using backoff_at_pos(1) [of k] by (intro jitter_less) simp
  moreover have "waited cd [?w] s (s1\<lparr>ct_slept := ct_slept s1 @ [?w]\<rparr>)"
    using assms by (simp add: keeps_def waited_def daemon_ok_def)
  ultimately show ?thesis unfolding wait_and_retry_def
    by (intro wp_bnd wp_sleep_ms wp_ret exI [of _ ?w]) (simp_all add: backoff_at_Suc)
qed

lemma bnd_step: "m s = (Inr x, s1) \<Longrightarrow> bnd m f s = f x s1"
  by (simp add: bnd_def)

lemma attempted_step: "m s = (r, s1) \<Longrightarrow> attempted m s = (Inr r, s1)"
  by (simp add: attempted_def)

lemma wp_same: "m s = m' s' \<Longrightarrow> wp m' Q E s' \<Longrightarrow> wp m Q E s"
  by (simp add: wp_def)

lemma wp_announce: "wp (announce v) (\<lambda>_. keeps cd s) (\<lambda>_ _. False) s"
  unfolding announce_def by (intro wp_bnd wp_now_unix wp_update_status keeps_grows) simp_all

lemma wp_status_then_wait:
  assumes "keeps cd s s1"
  shows "wp (bnd (update_status cd' f) (\<lambda>_. wait_and_retry nanos (backoff_at k)))
     (\<lambda>a s'. \<exists>w. waited cd [w] s s' \<and> 1000 * backoff_at k \<le> w \<and> w < 2000 * backoff_at k \<and> a = Again (backoff_at (Suc k))) (\<lambda>_ _. False) s1"
  by (intro wp_bnd wp_update_status wp_wait_and_retry) (rule keeps_trans [OF assms keeps_grows])

lemma wp_session_round:
  assumes "keeps (da_codec v) s s1"
  shows "wp (session_round v r ch) (\<lambda>a s'. \<exists>ws. waited (da_codec v) ws s s' \<and>
     attempt_ends k (case session_end v r ch s1 of Inl _ \<Rightarrow> SessionLost | Inr (Some _) \<Rightarrow> Renewed | Inr None \<Rightarrow> Lasting) a ws) (\<lambda>_ _. False) s1"
proof -
  obtain ra s2 where a: "announce v s1 = (ra, s2)" by fastforce
  obtain e s3 where c: "connected_wait v ch (rd_events r) s2 = (e, s3)" by fastforce
  have ra: "ra = Inr ()" and k2: "keeps (da_codec v) s1 s2" using wp_result [OF wp_announce [of v "da_codec v" s1] a] by (cases ra; simp)+
  have k3: "keeps (da_codec v) s2 s3" using wp_result [OF keeping_wp [OF keeping_connected_wait] c] by (cases e) simp_all
  have k: "keeps (da_codec v) s s3" using assms k2 k3 by (blast intro: keeps_trans)
  have of: "session_end v r ch s1 = e" using a c by (simp add: session_end_def)
  note step = bnd_step [where m = "announce v", OF a [unfolded ra]] bnd_step [where m = "attempted (connected_wait v ch (rd_events r))", OF attempted_step [where m = "connected_wait v ch (rd_events r)", OF c]]
  show ?thesis
  proof (cases e)
    case (Inl err)
    hence "session_round v r ch s1 = bnd (update_status (da_codec v) (\<lambda>d. d\<lparr>sd_control := Backoff, sd_control_since_unix := None,
        sd_last_error := Some err\<rparr>)) (\<lambda>_. wait_and_retry (rd_nanos r) (backoff_at 0)) s3"
      by (simp add: session_round_def step backoff_at_0)
    thus ?thesis
      by (rule wp_same, intro wp_conseq [OF wp_status_then_wait [OF k]]) (auto simp: of Inl attempt_ends_def backoff_at_0)
  next
    case (Inr x)
    hence "session_round v r ch s1 = ret (case x of None \<Rightarrow> InSession | Some _ \<Rightarrow> Again 1) s3"
      by (simp add: session_round_def step)
    thus ?thesis
      by (rule wp_same, intro wp_ret) (use k in \<open>auto simp: of Inr attempt_ends_def backoff_at_0 keeps_waited split: option.split\<close>)
  qed
qed

lemma wp_attempt:
  "wp (attempt v r (backoff_at k)) (\<lambda>a s'. \<exists>ws. waited (da_codec v) ws s s' \<and> attempt_ends k (outcome_of v r s) a ws)
     (\<lambda>_ s'. waited (da_codec v) [] s s' \<and> outcome_of v r s = Undialled) s"
proof -
  obtain c s1 where c: "dial v r s = (c, s1)" by fastforce
  have k: "keeps (da_codec v) s s1" using wp_result [OF keeping_wp [OF keeping_dial] c] by (cases c) simp_all
  show ?thesis
  proof (cases c)
    case (Inl e)
    thus ?thesis using k c by (simp add: attempt_def bnd_def wp_def outcome_of_def keeps_waited)
  next
    case (Inr d)
    show ?thesis
    proof (cases d)
      case (Inl e)
      hence "attempt v r (backoff_at k) s = bnd (update_status (da_codec v) (\<lambda>d. d\<lparr>sd_control := Backoff, sd_last_error := Some e\<rparr>))
          (\<lambda>_. wait_and_retry (rd_nanos r) (backoff_at k)) s1"
        using c Inr by (simp add: attempt_def bnd_step)
      moreover have "outcome_of v r s = Unreachable" using c Inr Inl by (simp add: outcome_of_def)
      ultimately show ?thesis
        by (elim wp_same, intro wp_conseq [OF wp_status_then_wait [OF k]]) (auto simp: attempt_ends_def)
    next
      case (Inr ch)
      hence "attempt v r (backoff_at k) s = session_round v r ch s1" using c \<open>c = Inr d\<close> by (simp add: attempt_def bnd_step)
      moreover have "outcome_of v r s = (case session_end v r ch s1 of Inl _ \<Rightarrow> SessionLost | Inr (Some _) \<Rightarrow> Renewed | Inr None \<Rightarrow> Lasting)"
        using c Inr \<open>c = Inr d\<close> by (simp add: outcome_of_def)
      ultimately show ?thesis
        by (elim wp_same, intro wp_conseq [OF wp_session_round [OF k]]) auto
    qed
  qed
qed

lemma wp_run_loop:
  "wp (run_loop v rs (backoff_at k))
     (\<lambda>_ s'. waited (da_codec v) (concat (map snd (rounds_of v rs (backoff_at k) s))) s s' \<and> series_ok k (rounds_of v rs (backoff_at k) s))
     (\<lambda>_ s'. waited (da_codec v) (concat (map snd (rounds_of v rs (backoff_at k) s))) s s' \<and> series_ok k (rounds_of v rs (backoff_at k) s)) s"
proof (induction rs arbitrary: k s)
  case Nil
  thus ?case by (auto simp: waited_def intro!: wp_ret)
next
  case (Cons r rs)
  obtain a s1 where a: "attempt v r (backoff_at k) s = (a, s1)" by fastforce
  note w = wp_result [OF wp_attempt a]
  have new: "drop (length (ct_slept s)) (ct_slept s1) = ws" if "waited (da_codec v) ws s s1" for ws using that by (simp add: waited_def)
  have trans: "waited (da_codec v) (ws @ us) s s2" if "waited (da_codec v) ws s s1" "waited (da_codec v) us s1 s2" for ws us s2
    using that by (simp add: waited_def)
  show ?case
  proof (cases a)
    case (Inl e)
    thus ?thesis using w a by (auto simp: bnd_def wp_def waited_def)
  next
    case (Inr x)
    with w obtain ws where ws: "waited (da_codec v) ws s s1" "attempt_ends k (outcome_of v r s) x ws" by auto
    note head = new [OF ws(1)]
    show ?thesis
    proof (cases x)
      case InSession
      hence "run_loop v (r # rs) (backoff_at k) s = ret () s1" using a Inr by (simp add: bnd_step)
      thus ?thesis by (rule wp_same, intro wp_ret)
        (use ws a Inr InSession head in \<open>auto simp: attempt_ends_def split: outcome.splits\<close>)
    next
      case (Again b)
      obtain j where j: "b = backoff_at j" "series_ok j t \<Longrightarrow> series_ok k ((outcome_of v r s, ws) # t)" for t
        using ws(2) Again by (auto simp: attempt_ends_def split: outcome.splits)
      have "run_loop v (r # rs) (backoff_at k) s = run_loop v rs (backoff_at j) s1" using a Inr Again j(1) by (simp add: bnd_step)
      thus ?thesis
        by (rule wp_same, intro wp_conseq [OF Cons.IH]) (use a Inr Again head j trans [OF ws(1)] in auto)
    qed
  qed
qed

text \<open>C39. Whatever the network, the controller and the clock do, a round that reaches no gateway adds one wait at the next place of
  the series 1, 2, 4, ..., 256, 300 seconds, at least the value of its place and less than twice that; the series starts again only
  after a connection: a session that is lost is followed by a wait in the first place, one that ends with a renewal by none. No wait is
  under a second or reaches ten minutes.\<close>

theorem reconnect_waits:
  assumes "run_loop v rounds 1 s = (r, s')"
  shows "ct_slept s' = ct_slept s @ concat (map snd (rounds_of v rounds 1 s)) \<and> series_ok 0 (rounds_of v rounds 1 s) \<and>
    list_all (\<lambda>w. 1000 \<le> w \<and> w < 600000) (concat (map snd (rounds_of v rounds 1 s)))"
proof -
  have "waited (da_codec v) (concat (map snd (rounds_of v rounds 1 s))) s s' \<and> series_ok 0 (rounds_of v rounds 1 s)"
    using wp_result [OF wp_run_loop [of v rounds 0], unfolded backoff_at_0, OF assms] by (cases r) auto
  thus ?thesis using series_ok_bounds by (auto simp: waited_def)
qed

text \<open>While the network is down the series goes on, round by round.\<close>

lemma wp_no_connection:
  assumes "\<And>as. \<exists>e. tcp_connect n as = Inl e"
  shows "wp (connect_gateway v n dir host port) (\<lambda>_ _. False) (\<lambda>_ _. True) d"
proof -
  have last: "wp (lift (fst (grpc_channel k n host port tls None))) (\<lambda>_ _. False) (\<lambda>_ _. True) d" for k tls and d :: disk
  proof -
    have "fst (grpc_channel k n host port tls None) \<noteq> Inr ch" for ch
      by (auto simp: grpc_channel_def connector_def io_run split: option.split sum.split prod.split) (metis assms Inl_Inr_False)
    thus ?thesis by (intro wp_lift) auto
  qed
  show ?thesis
    unfolding connect_gateway_def read_or_empty_def Let_def
    by (intro wp_bnd wp_map_err wp_or_default wp_read_to_string wp_lift last) simp_all
qed

lemma outage_round:
  assumes "\<And>as. \<exists>e. tcp_connect (rd_net r) as = Inl e" "control_gateway (ct_state s) = Some g" "split_gateway g = Inr hp"
  shows "outcome_of v r s = Unreachable" "ct_state (snd (attempt v r b s)) = ct_state s"
proof -
  have dial: "wp (dial v r) (\<lambda>c s'. isl c \<and> ct_state s' = ct_state s) (\<lambda>_ _. False) s"
    unfolding dial_def
    apply (rule wp_bnd, rule wp_get_state, rule wp_bnd, rule wp_lift)
      apply (rule wp_bnd, rule wp_lift)
        apply (rule wp_case_prod, rule wp_bnd, rule wp_update_status)
        apply (rule wp_attempted, rule wp_on_files, rule wp_conseq, rule wp_no_connection [OF assms(1)])
    using assms by (auto simp: ok_or_def)
  thus "outcome_of v r s = Unreachable"
    by (auto simp: wp_def outcome_of_def isl_def split: prod.splits sum.splits)
  have wait: "wp (wait_and_retry nanos b) (\<lambda>_ s'. ct_state s' = ct_state s) (\<lambda>_ _. False) s1" if "ct_state s1 = ct_state s" for nanos s1
    unfolding wait_and_retry_def using that by (intro wp_bnd wp_sleep_ms wp_ret) simp
  have "wp (attempt v r b) (\<lambda>_ s'. ct_state s' = ct_state s) (\<lambda>_ _. False) s"
    unfolding attempt_def
    by (rule wp_bnd, rule wp_conseq [OF dial]) (auto simp: isl_def intro!: wp_bnd wp_update_status wait)
  thus "ct_state (snd (attempt v r b s)) = ct_state s" by (auto simp: wp_def split: prod.splits sum.splits)
qed

lemma outage_rounds:
  assumes "\<forall>r\<in>set rs. \<forall>as. \<exists>e. tcp_connect (rd_net r) as = Inl e" "control_gateway (ct_state s) = Some g" "split_gateway g = Inr hp"
  shows "map fst (rounds_of v rs (backoff_at k) s) = replicate (length rs) Unreachable"
  using assms
proof (induction rs arbitrary: k s)
  case (Cons r rs)
  obtain a s1 where a: "attempt v r (backoff_at k) s = (a, s1)" by fastforce
  have out: "outcome_of v r s = Unreachable" and st: "ct_state s1 = ct_state s"
    using outage_round [of r s g hp v] outage_round(2) [of r s g hp v "backoff_at k"] Cons.prems a by auto
  have "a = Inr (Again (backoff_at (Suc k)))"
    using wp_result [OF wp_attempt a] out by (cases a) (auto simp: attempt_ends_def)
  thus ?case using a out st Cons by simp
qed simp

text \<open>A gateway that refuses every connection.\<close>

definition demo_daemon :: "(string, string, unit, unit, nat) daemon" where
  "demo_daemon = \<lparr>da_crypto = demo_crypto, da_x509 = demo_x509, da_pki = demo_pki, da_codec = demo_codec,
     da_service = \<lparr>renew_certificate = (\<lambda>c q w. (Inl \<lparr>status_code = code.Unavailable, status_message = []\<rparr>, w)),
       control_stream = (\<lambda>c w. (Inl \<lparr>status_code = code.Unavailable, status_message = []\<rparr>, w))\<rparr>,
     da_key = ''k'', da_pem_key = (\<lambda>t. Inr (Some t)), da_identity = (\<lambda>i. Inr ()), da_hostname = ''sw1'', da_version = ''1.0''\<rparr>"

definition demo_ctl :: "nat ctl" where
  "demo_ctl = \<lparr>ct_disk = \<lparr>files = Map.empty, folders = Map.empty, faults = [], new_mode = 420\<rparr>, ct_clock = [],
     ct_doc = initial_doc 0 no_enrollment [], ct_state = no_enrollment\<lparr>st_enrolled := True, st_token_gateway := Some ''gw:443''\<rparr>,
     ct_peer = 0, ct_tasks = [], ct_slept = []\<rparr>"

definition down_net :: "(unit, unit, unit, unit, bytes list \<times> string) net" where
  "down_net = demo_net\<lparr>tcp_connect := (\<lambda>as. Inl ''connection refused'')\<rparr>"

definition demo_rounds :: "(unit, unit, unit, unit) round list" where
  "demo_rounds = [\<lparr>rd_net = down_net, rd_events = [], rd_nanos = 999999999\<rparr>, \<lparr>rd_net = down_net, rd_events = [], rd_nanos = 0\<rparr>]"

theorem reconnect_waits_witness:
  "\<exists>w1 w2. ct_slept (snd (run_loop demo_daemon demo_rounds 1 demo_ctl)) = [w1, w2] \<and> w1 \<in> {1000..<2000} \<and> w2 \<in> {2000..<4000}"
proof -
  let ?t = "rounds_of demo_daemon demo_rounds 1 demo_ctl"
  have gw: "control_gateway (ct_state demo_ctl) = Some ''gw:443''" by (simp add: demo_ctl_def control_gateway_def no_enrollment_def)
  have "gateway demo_token = ''gw:443''" by code_simp
  hence sp: "split_gateway ''gw:443'' = Inr (''gw'', 443)" using gateway_roundtrip [of demo_token] by (simp add: demo_token_def)
  have "map fst ?t = [Unreachable, Unreachable]"
    using outage_rounds [OF _ gw sp, of demo_rounds demo_daemon 0] by (simp add: demo_rounds_def down_net_def backoff_at_0 numeral_2_eq_2)
  then obtain u1 u2 where t: "?t = [(Unreachable, u1), (Unreachable, u2)]" by (auto simp: map_eq_Cons_conv)
  show ?thesis using reconnect_waits [OF surjective_pairing, of demo_daemon demo_rounds demo_ctl] unfolding t
    by (auto simp: demo_ctl_def backoff_at_def)
qed

section \<open>The directory over the life of the agent\<close>

lemma wp_run_async_dir:
  assumes "dir_ok (da_codec v) (ct_disk s)"
  shows "wp (run_async v rounds ticks) (\<lambda>_ s'. dir_ok (da_codec v) (ct_disk s')) (\<lambda>_ s'. dir_ok (da_codec v) (ct_disk s')) s"
proof -
  let ?ok = "\<lambda>s'. dir_ok (da_codec v) (ct_disk s')"
  have park: "wp (park cd n) (\<lambda>_. ?ok) (\<lambda>_. ?ok) s1" if "?ok s1" for cd n s1
    using that by (induction n arbitrary: s1) (auto intro!: wp_ret wp_bnd wp_update_status dest: grows_dir_ok)
  have main: "wp (if \<not> e then park (da_codec v) ticks
      else bnd (attempted (run_loop (v\<lparr>da_key := key\<rparr>) rounds 1)) (\<lambda>r. case r of
         Inr _ \<Rightarrow> ret ()
       | Inl e \<Rightarrow> bnd (update_status (da_codec v) (f e)) (\<lambda>_. park (da_codec v) ticks))) (\<lambda>_. ?ok) (\<lambda>_. ?ok) s1"
    if "daemon_ok (da_codec v) s1" for e key f s1
  proof -
    have run: "wp (run_loop (v\<lparr>da_key := key\<rparr>) rounds 1) (\<lambda>_. ?ok) (\<lambda>_. ?ok) s1"
      by (rule wp_conseq, rule wp_run_loop [of _ _ 0, unfolded backoff_at_0]) (use that in \<open>auto simp: waited_def daemon_ok_def\<close>)
    have "?ok s1" using that by (simp add: daemon_ok_def)
    thus ?thesis
      apply (intro wp_if park, assumption)
      apply (rule wp_bnd, rule wp_attempted, rule wp_conseq, rule run)
       apply (auto intro!: wp_ret wp_bnd wp_update_status park dest: grows_dir_ok)
      done
  qed
  have start: "daemon_ok (da_codec v) s'" if "grows d1 (ct_disk s')" "dir_ok (da_codec v) d1" "files d1 (key_path identity_dir) \<noteq> None" for s' d1
    using that grows_present [OF _ key_core] by (auto simp: daemon_ok_def intro: grows_dir_ok)
  show ?thesis
    unfolding run_async_def
    apply (rule wp_bnd, rule wp_on_files, rule wp_conseq, rule wp_generate_grows)
     apply (rule wp_bnd, rule wp_on_files, rule wp_load_state)
      apply (rule wp_bnd, rule wp_now_unix, rule wp_bnd, rule wp_set_doc, rule wp_bnd, rule wp_set_state)
      apply (rule wp_bnd, rule wp_update_status)
      apply (rule main)
    subgoal for key d1 st d2 t c s' using assms
      by (intro start [of d1]) (auto intro: grows_trans [OF grows_same] grows_dir_ok)
    using assms by (auto intro: grows_dir_ok grows_trans [OF _ grows_same])
qed


lemma wp_unenroll_inner:
  assumes "dir_ok (en_codec v) (ag_disk s)"
  shows "wp (unenroll_inner v wipe) (\<lambda>_ s'. dir_ok (en_codec v) (ag_disk s')) (\<lambda>_ s'. dir_ok (en_codec v) (ag_disk s')) s"
proof -
  have gone: "dir_ok (en_codec v) d" if "files d state_file = None" for d using that by (simp add: dir_ok_def enrolled_state_def)
  have rm: "wp (remove_enrollment_files identity_dir state_file wipe) (\<lambda>_. dir_ok (en_codec v)) (\<lambda>_. dir_ok (en_codec v)) d"
    if "dir_ok (en_codec v) d" for d
    by (rule wp_conseq, rule wp_remove_files [OF that]) (auto intro: gone)
  show ?thesis
    unfolding unenroll_inner_def
    apply (rule wp_bnd, rule wp_on_disk, rule wp_load_state)
     apply (rule wp_if)
      apply (rule wp_log_line, simp, rule grows_dir_ok [OF grows_same], assumption, rule assms)
     apply (rule wp_bnd, rule wp_if)
       apply (rule wp_log_line, rule wp_bnd, rule wp_on_disk, rule wp_conseq, rule rm)
         apply (simp, rule grows_dir_ok [OF grows_same], assumption, rule assms)
        apply (auto intro!: wp_bnd wp_if wp_log_line wp_ret)[2]
      apply (rule wp_ret, rule wp_bnd, rule wp_on_disk, rule wp_conseq, rule rm)
        apply (simp, rule grows_dir_ok [OF grows_same], assumption, rule assms)
       apply (auto intro!: wp_bnd wp_if wp_log_line wp_ret intro: grows_dir_ok [OF grows_same] assms)
    done
qed

text \<open>The life of the state directory: commands with any arguments and environments, runs of the daemon stopped after any number of
  rounds, and any schedule of faults between them.\<close>

inductive agent_step :: "('k, 'e, 'h, 'n, 'a, 'c, 'w) env \<Rightarrow> disk \<Rightarrow> disk \<Rightarrow> bool" for v0 :: "('k, 'e, 'h, 'n, 'a, 'c, 'w) env" where
  enrolls: "en_codec (v :: ('k, 'e, 'h, 'n, 'a, 'c, 'w) env) = en_codec v0 \<Longrightarrow>
    agent_step v0 (ag_disk s) (ag_disk (snd (enroll_cmd v raw force s)))"
| unenrolls: "en_codec (v :: ('k, 'e, 'h, 'n, 'a, 'c, 'w) env) = en_codec v0 \<Longrightarrow>
    agent_step v0 (ag_disk (s :: ('c, 'w) agent)) (ag_disk (snd (unenroll_cmd v wipe s)))"
| runs: "da_codec (d :: ('k, 'e, 'h, 'c, 'w) daemon) = en_codec v0 \<Longrightarrow>
    agent_step v0 (ct_disk s) (ct_disk (snd (run_async d (rounds :: ('n, 'a, 'c, 'h) round list) ticks s)))"
| breaks: "agent_step v0 d (d\<lparr>faults := fs\<rparr>)"

lemma exit_code_disk: "wp m (\<lambda>_ s'. P (ag_disk s')) (\<lambda>_ s'. P (ag_disk s')) s \<Longrightarrow> P (ag_disk (snd (exit_code m s)))"
  by (auto simp: wp_def exit_code_def log_line_def split: prod.splits sum.splits)

lemma snd_disk: "wp m (\<lambda>_ s'. P (ct_disk s')) (\<lambda>_ s'. P (ct_disk s')) s \<Longrightarrow> P (ct_disk (snd (m s)))"
  by (auto simp: wp_def split: prod.splits sum.splits)

lemma enroll_done_dir_ok: "enroll_done v raw d \<Longrightarrow> dir_ok cd d"
  by (auto simp: enroll_done_def dir_ok_def)

lemma agent_step_dir_ok:
  assumes "agent_step v0 d d'" "dir_ok (en_codec v0) d"
  shows "dir_ok (en_codec v0) d'"
  using assms
proof (induction rule: agent_step.induct)
  case (enrolls v s raw force)
  thus ?case unfolding enroll_cmd_def
    by - (rule exit_code_disk [where P = "dir_ok (en_codec v0)"], rule wp_conseq [OF wp_enroll_inner],
        auto intro: enroll_done_dir_ok grows_dir_ok)
next
  case (unenrolls v s wipe)
  hence "wp (unenroll_inner v wipe) (\<lambda>_ s'. dir_ok (en_codec v0) (ag_disk s')) (\<lambda>_ s'. dir_ok (en_codec v0) (ag_disk s')) s"
    using wp_unenroll_inner [of v s wipe] by simp
  thus ?case unfolding unenroll_cmd_def by (rule exit_code_disk)
next
  case (runs d s rounds ticks)
  hence "wp (run_async d rounds ticks) (\<lambda>_ s'. dir_ok (en_codec v0) (ct_disk s')) (\<lambda>_ s'. dir_ok (en_codec v0) (ct_disk s')) s"
    using wp_run_async_dir [of d s rounds ticks] by simp
  thus ?case by (rule snd_disk)
next
  case (breaks d fs)
  have "grows d (d\<lparr>faults := fs\<rparr>)" by (rule grows_same) simp
  thus ?case using breaks by (rule grows_dir_ok)
qed

text \<open>C5. From a directory without a state file, through any sequence of enrollments, unenrollments and runs of the daemon with
  its renewals, stopped or failing at any system call: a state file that says enrolled is never there without the device key, the
  client certificate and the authority chain.\<close>

theorem enrolled_has_identity:
  assumes "rtranclp (agent_step v0) d d'" "files d state_file = None"
  shows "enrolled_state (en_codec v0) d' \<longrightarrow> list_all (\<lambda>p. files d' p \<noteq> None) core_files"
proof -
  have "dir_ok (en_codec v0) d" using assms(2) by (simp add: dir_ok_def enrolled_state_def)
  with assms(1) have "dir_ok (en_codec v0) d'"
    by (induction rule: rtranclp_induct) (auto intro: agent_step_dir_ok)
  thus ?thesis by (simp add: dir_ok_def)
qed


theorem enrolled_has_identity_witness:
  "dir_ok demo_codec (ag_disk (snd (enroll_cmd demo_env ''QC1'' True (demo_agent\<lparr>ag_disk := (ag_disk demo_agent)\<lparr>files := Map.empty\<rparr>\<rparr>))))"
proof -
  let ?s = "demo_agent\<lparr>ag_disk := (ag_disk demo_agent)\<lparr>files := Map.empty\<rparr>\<rparr>"
  have "agent_step demo_env (ag_disk ?s) (ag_disk (snd (enroll_cmd demo_env ''QC1'' True ?s)))" by (rule agent_step.enrolls) simp
  hence "rtranclp (agent_step demo_env) (ag_disk ?s) (ag_disk (snd (enroll_cmd demo_env ''QC1'' True ?s)))" by (rule r_into_rtranclp)
  from enrolled_has_identity [OF this] show ?thesis by (simp add: dir_ok_def demo_env_def)
qed

section \<open>Renewals that go wrong\<close>

text \<open>A renewed certificate that does not parse is on the disk by the time that is found out.\<close>

lemma bad_renewal_saved:
  assumes "validity (da_x509 v) (rr_client_cert_der resp) = Inl e" "faults (ct_disk s) = []"
  shows "fst (store_renewal v resp s) = Inl (''issued certificate does not parse: '' @ e) \<and>
    map_option content (files (ct_disk (snd (store_renewal v resp s))) (client_cert_path identity_dir))
      = Some (pem_encode (da_crypto v) ''CERTIFICATE'' (rr_client_cert_der resp))"
proof -
  let ?p = "client_cert_path identity_dir" and ?q = "ca_chain_path identity_dir"
  let ?t = "pem_encode (da_crypto v) ''CERTIFICATE'' (rr_client_cert_der resp)"
    and ?u = "concat (map (pem_encode (da_crypto v) ''CERTIFICATE'') (rr_ca_chain_der resp))"
  obtain d1 where d1: "atomic_write ?p ?t (ct_disk s) = (Inr (), d1)" "faults d1 = []"
    using replace_file_clean [OF assms(2), of None ?p ?t] assms(2) by (auto simp: atomic_write_def)
  obtain d2 where d2: "atomic_write ?q ?u d1 = (Inr (), d2)"
    using replace_file_clean [OF d1(2), of None ?q ?u] by (auto simp: atomic_write_def)
  have "map_option content (files d1 ?p) = Some ?t" using plain_put.whole_or_old [OF d1(1) agent_paths(4)] by simp
  moreover have "files d2 ?p = files d1 ?p"
    by (rule plain_put.others_kept [OF d2]) (simp add: path_defs, simp only: tmp_paths, simp add: path_defs)
  ultimately show ?thesis
    using d1 d2 assms(1) by (simp add: store_renewal_def save_certificates_def bnd_def on_files_def ret_def lift_def cert_validity_def)
qed

text \<open>A renewal the controller dates in the past is due again at once, and no wait lies between the two sessions.\<close>

lemma renewal_due_again:
  assumes "0 < rr_renew_after_unix resp" "ct_clock s = now # ts" "rr_renew_after_unix resp \<le> now"
    "ct_state s = renewed_state st resp not_before not_after"
  shows "wp (next_check v) (\<lambda>due s'. due = None \<and> ct_slept s' = ct_slept s) (\<lambda>_ _. False) s"
proof -
  have now: "now_unix s = (Inr now, s\<lparr>ct_clock := ts\<rparr>)" using assms(2) by (simp add: now_unix_def)
  have "wp now_unix (\<lambda>t s'. t = now \<and> s' = s\<lparr>ct_clock := ts\<rparr>) (\<lambda>_ _. False) s" by (simp add: wp_def now)
  thus ?thesis
    unfolding next_check_def Let_def
    apply (intro wp_bnd)
    apply (erule wp_conseq)
     apply (auto intro!: wp_bnd wp_get_state wp_update_status wp_ret simp: assms(3,4) renewed_state_def assms(1))
    using assms by (auto simp: renewed_state_def)
qed

text \<open>A renewal that ends after \<open>unenroll\<close> removed the files writes the state file again.\<close>

lemma renewal_after_unenroll:
  assumes "files (ct_disk s) state_file = None"
  shows "wp (store_renewal v resp) (\<lambda>_ s'. \<exists>f. files (ct_disk s') state_file = Some f \<and> state_text (da_codec v) (ct_state s') = Inr (content f)) (\<lambda>_ _. True) s"
  unfolding store_renewal_def Let_def
  apply (rule wp_bnd, rule wp_on_files, rule wp_conseq [OF wpI], rule TrueI, rule TrueI)
   apply (rule wp_bnd, rule wp_lift, rule wp_case_prod, rule wp_bnd, rule wp_get_state, rule wp_bnd, rule wp_set_state)
    apply (rule wp_on_files, rule wp_conseq, rule wp_save_state_dir)
     apply auto
  done

end
