(* ===== verification/Channel.thy ===== *)
theory Channel
  imports Control Api "HOL-Library.Multiset"
begin

text \<open>
  The messages of the control stream: the tasks a session starts (\<open>connected_wait\<close>, \<open>src/control/mod.rs\<close>) against the
  management API they call, and the telemetry snapshot (\<open>src/sonic/telemetry.rs\<close>). The tasks run at the same time as the
  session and each other: what they find on the platform, the order in which they end and which of their messages still get out are
  left open.
\<close>

section \<open>Telemetry\<close>

record ips_counters =
  ips_enabled :: bool
  ips_prevented :: nat
  ips_detected :: nat
  ips_scans :: nat
  ips_scans_available :: bool

record app_control_counters =
  app_enabled :: bool
  app_blocked :: nat
  app_detected :: nat
  app_total_requests :: nat

record geo_counters =
  geo_enabled :: bool
  geo_blocked :: nat
  geo_connections :: nat
  geo_countries_blocked :: nat

record content_filter_counters =
  cf_enabled :: bool
  cf_blocked :: nat
  cf_allowed :: nat
  cf_total_requests :: nat

record security_telemetry =
  te_time_unix :: int
  te_interval_secs :: nat
  te_ips :: "ips_counters option"
  te_app_control :: "app_control_counters option"
  te_geolocation :: "geo_counters option"
  te_content_filtering :: "content_filter_counters option"

text \<open>A switch has none of the services: every block is there, off and zero.\<close>

definition collect_telemetry :: "int \<Rightarrow> security_telemetry" where
  "collect_telemetry now = \<lparr>te_time_unix = now, te_interval_secs = 60,
     te_ips = Some \<lparr>ips_enabled = False, ips_prevented = 0, ips_detected = 0, ips_scans = 0, ips_scans_available = False\<rparr>,
     te_app_control = Some \<lparr>app_enabled = False, app_blocked = 0, app_detected = 0, app_total_requests = 0\<rparr>,
     te_geolocation = Some \<lparr>geo_enabled = False, geo_blocked = 0, geo_connections = 0, geo_countries_blocked = 0\<rparr>,
     te_content_filtering = Some \<lparr>cf_enabled = False, cf_blocked = 0, cf_allowed = 0, cf_total_requests = 0\<rparr>\<rparr>"

section \<open>Messages\<close>

record proxy_response =
  px_request_id :: string
  px_http_status :: nat
  px_content_type :: string
  px_body :: api_body
  px_error :: string

datatype 'd device_message =
    Hello string string
  | ProxyResponse proxy_response
  | SecurityTelemetry security_telemetry
  | DeviceStats 'd

text \<open>\<open>stats\<close> and \<open>now\<close> are what a snapshot collects and the clock when it does.\<close>

definition answer_request :: "externals \<Rightarrow> 's redis \<Rightarrow> proxy_request \<Rightarrow> 's \<Rightarrow> proxy_response \<times> 's" where
  "answer_request x R req s = (case call x R (pr_method req) (pr_path req) (pr_body req) s of (res, s') \<Rightarrow>
     (\<lparr>px_request_id = pr_request_id req, px_http_status = cr_status res, px_content_type = cr_type res, px_body = cr_body res,
       px_error = cr_error res\<rparr>, s'))"

fun perform :: "externals \<Rightarrow> 's redis \<Rightarrow> ('s \<Rightarrow> 'd \<times> 's) \<Rightarrow> int \<Rightarrow> task \<Rightarrow> 's \<Rightarrow> 'd device_message \<times> 's" where
  "perform x R stats now (SendHello h v) s = (Hello h v, s)"
| "perform x R stats now SendStats s = (case stats s of (d, s') \<Rightarrow> (DeviceStats d, s'))"
| "perform x R stats now SendTelemetry s = (SecurityTelemetry (collect_telemetry now), s)"
| "perform x R stats now (Answer req) s = (case answer_request x R req s of (resp, s') \<Rightarrow> (ProxyResponse resp, s'))"

text \<open>
  What one task can send. The platform it meets, its state and the clock are any: other tasks change the state between its commands.
\<close>

definition can_send :: "'s itself \<Rightarrow> task \<Rightarrow> 'd device_message \<Rightarrow> bool" where
  "can_send S t m \<longleftrightarrow> (\<exists>x (R :: 's redis) stats now s. m = fst (perform x R stats now t s))"

text \<open>
  What the tasks of a session send: some of them end while the channel is open, in any order; a message that cannot be sent any more
  is dropped (\<open>let _ = tx.send(..)\<close>), as is a task that panics.
\<close>

definition deliveries :: "'s itself \<Rightarrow> task list \<Rightarrow> 'd device_message list \<Rightarrow> bool" where
  "deliveries S ts ms \<longleftrightarrow> (\<exists>us. mset us \<subseteq># mset ts \<and> list_all2 (can_send S) us ms)"

section \<open>Every request is answered under its id\<close>

definition request_ids :: "event list \<Rightarrow> string list" where
  "request_ids es = List.map_filter (\<lambda>e. case e of Arrives (ProxyRequest req) \<Rightarrow> Some (pr_request_id req) | _ \<Rightarrow> None) es"

definition task_ids :: "task list \<Rightarrow> string list" where
  "task_ids ts = List.map_filter (\<lambda>t. case t of Answer req \<Rightarrow> Some (pr_request_id req) | _ \<Rightarrow> None) ts"

definition response_ids :: "'d device_message list \<Rightarrow> string list" where
  "response_ids ms = List.map_filter (\<lambda>m. case m of ProxyResponse p \<Rightarrow> Some (px_request_id p) | _ \<Rightarrow> None) ms"

text \<open>The task of a request and nothing else sends a response, with the id of the request.\<close>

lemma can_send_ids:
  fixes S :: "'s itself"
  assumes "can_send S t m"
  shows "response_ids [m] = task_ids [t]"
proof -
  from assms obtain x and R :: "'s redis" and stats now s where "m = fst (perform x R stats now t s)" by (auto simp: can_send_def)
  then obtain s1 where "perform x R stats now t s = (m, s1)" by (cases "perform x R stats now t s") simp
  thus ?thesis by (cases t) (auto simp: response_ids_def task_ids_def answer_request_def map_filter_simps split: prod.splits)
qed

lemma ids_Cons: "response_ids (m # ms) = response_ids [m] @ response_ids ms" "task_ids (t # ts) = task_ids [t] @ task_ids ts"
  by (auto simp: response_ids_def task_ids_def List.map_filter_def)

lemma sent_ids: "list_all2 (can_send S) us ms \<Longrightarrow> response_ids ms = task_ids us"
proof (induction rule: list_all2_induct)
  case (Cons t ts m ms)
  thus ?case using can_send_ids [OF Cons(1)] ids_Cons(1) [of m ms] ids_Cons(2) [of t ts] by simp
qed (simp add: response_ids_def task_ids_def map_filter_simps)

lemma task_ids_mset: "mset (task_ids ts) = image_mset (\<lambda>t. case t of Answer req \<Rightarrow> pr_request_id req | _ \<Rightarrow> [])
    (filter_mset (\<lambda>t. \<exists>req. t = Answer req) (mset ts))"
proof (induction ts)
  case (Cons t ts)
  thus ?case using ids_Cons(2) [of t ts] by (cases t) (auto simp: task_ids_def map_filter_simps)
qed (simp add: task_ids_def map_filter_simps)

lemma task_ids_mono: "mset us \<subseteq># mset ts \<Longrightarrow> mset (task_ids us) \<subseteq># mset (task_ids ts)"
  unfolding task_ids_mset by (intro image_mset_subseteq_mono multiset_filter_mono)

lemma task_ids_cong: "mset us = mset ts \<Longrightarrow> mset (task_ids us) = mset (task_ids ts)"
  by (simp add: task_ids_mset)

lemma deliveries_ids:
  assumes "deliveries S ts ms"
  shows "mset (response_ids ms) \<subseteq># mset (task_ids ts)" "length ms = length ts \<Longrightarrow> mset (response_ids ms) = mset (task_ids ts)"
proof -
  obtain us where us: "mset us \<subseteq># mset ts" "list_all2 (can_send S) us ms" using assms by (auto simp: deliveries_def)
  show "mset (response_ids ms) \<subseteq># mset (task_ids ts)" using task_ids_mono [OF us(1)] sent_ids [OF us(2)] by simp
  assume "length ms = length ts"
  hence "size (mset us) = size (mset ts)" using list_all2_lengthD [OF us(2)] by simp
  hence "mset us = mset ts" using us(1) by (metis mset_subset_size subset_mset.le_neq_trans nat_neq_iff)
  thus "mset (response_ids ms) = mset (task_ids ts)" using task_ids_cong [of us ts] sent_ids [OF us(2)] by simp
qed

definition tasks_grow :: "event list \<Rightarrow> 'w ctl \<Rightarrow> 'w ctl \<Rightarrow> bool" where
  "tasks_grow es s s' \<longleftrightarrow> (\<exists>ts. ct_tasks s' = ct_tasks s @ ts \<and> task_ids ts = request_ids es)"

lemma wp_on_event: "wp (on_event e) (\<lambda>_ s'. tasks_grow [e] s s') (\<lambda>_ s'. ct_tasks s' = ct_tasks s) s"
  by (auto simp: on_event_def tasks_grow_def task_ids_def request_ids_def map_filter_simps
      intro!: wp_ret wp_fail wp_spawn_task split: event.split inbound.split)

lemma wp_next_check_tasks: "wp (next_check v) (\<lambda>_ s'. ct_tasks s' = ct_tasks s) (\<lambda>_ s'. ct_tasks s' = ct_tasks s) s"
  unfolding next_check_def Let_def
  by (auto intro!: wp_bnd wp_now_unix wp_get_state wp_update_status wp_ret)


lemma wp_on_files_tasks: "wp (on_files m) (\<lambda>_ s'. ct_tasks s' = ct_tasks s) (\<lambda>_ s'. ct_tasks s' = ct_tasks s) s"
  by (auto simp: wp_def on_files_def split: prod.split sum.split)

lemma wp_renew_tasks: "wp (renew v ch) (\<lambda>_ s'. ct_tasks s' = ct_tasks s) (\<lambda>_ s'. ct_tasks s' = ct_tasks s) s"
proof -
  have files: "wp (on_files m) (\<lambda>_ s'. ct_tasks s' = ct_tasks s) (\<lambda>_ s'. ct_tasks s' = ct_tasks s) s1" if "ct_tasks s1 = ct_tasks s" for m s1
    by (rule wp_conseq, rule wp_on_files_tasks) (simp_all add: that)
  have store: "wp (store_renewal v resp) (\<lambda>_ s'. ct_tasks s' = ct_tasks s) (\<lambda>_ s'. ct_tasks s' = ct_tasks s) s1" if "ct_tasks s1 = ct_tasks s" for resp s1
    unfolding store_renewal_def Let_def
    by (rule wp_bnd, rule wp_conseq, rule files [OF that])
      (auto intro!: wp_bnd wp_lift wp_case_prod wp_get_state wp_set_state files)
  show ?thesis
    unfolding renew_def
    apply (intro wp_bnd wp_get_state wp_lift wp_map_err wp_call_renew wp_guard)
           apply (rule wp_conseq, rule store)
      apply (auto intro!: wp_bnd wp_get_state wp_update_status)
    done
qed

lemma tasks_grow_Cons: "tasks_grow [e] s s1 \<Longrightarrow> tasks_grow es s1 s2 \<Longrightarrow> tasks_grow (e # es) s s2"
  by (force simp: tasks_grow_def task_ids_def request_ids_def List.map_filter_def)

lemma tasks_grow_same: "ct_tasks s' = ct_tasks s \<Longrightarrow> tasks_grow [] s s'"
  by (simp add: tasks_grow_def task_ids_def request_ids_def map_filter_simps)

lemma tasks_grow_from: "ct_tasks s1 = ct_tasks s \<Longrightarrow> tasks_grow es s1 s2 \<longleftrightarrow> tasks_grow es s s2"
  by (simp add: tasks_grow_def)

definition served_to :: "event list \<Rightarrow> 'w ctl \<Rightarrow> bool \<Rightarrow> 'w ctl \<Rightarrow> bool" where
  "served_to es s lasts s' \<longleftrightarrow> (\<exists>n. tasks_grow (take n es) s s' \<and> (lasts \<longrightarrow> n = length es))"

lemma served_to_same: "ct_tasks s' = ct_tasks s \<Longrightarrow> \<not> lasts \<Longrightarrow> served_to es s lasts s'"
  unfolding served_to_def by (rule exI [of _ 0]) (simp add: tasks_grow_same)

lemma wp_serve: "wp (serve v ch es) (\<lambda>r. served_to es s (r = None)) (\<lambda>_. served_to es s False) s"
proof (induction es arbitrary: s)
  case Nil
  show ?case
    unfolding serve.simps
    apply (rule wp_bnd, rule wp_conseq, rule wp_next_check_tasks)
     apply (rule wp_case_option)
      apply (rule wp_bnd, rule wp_conseq, rule wp_renew_tasks)
       apply (auto intro!: wp_ret served_to_same simp: served_to_def tasks_grow_same)
    done
next
  case (Cons e es)
  have later: "served_to (e # es) s lasts s2" if g: "tasks_grow [e] s s1" and sv: "served_to es s1 lasts s2" for lasts s1 s2
  proof -
    obtain n where n: "tasks_grow (take n es) s1 s2" "lasts \<longrightarrow> n = length es" using sv by (auto simp: served_to_def)
    show ?thesis unfolding served_to_def
      by (rule exI [of _ "Suc n"]) (use n tasks_grow_Cons [OF g n(1)] in auto)
  qed
  have event: "wp (bnd (on_event e) (\<lambda>_. serve v ch es)) (\<lambda>r. served_to (e # es) s (r = None)) (\<lambda>_. served_to (e # es) s False) s1"
    if "ct_tasks s1 = ct_tasks s" for s1
  proof (rule wp_bnd, rule wp_conseq, rule wp_on_event)
    fix s2 :: "'a ctl" assume "tasks_grow [e] s1 s2"
    hence g: "tasks_grow [e] s s2" using tasks_grow_from [OF that] by simp
    show "wp (serve v ch es) (\<lambda>r. served_to (e # es) s (r = None)) (\<lambda>_. served_to (e # es) s False) s2"
      by (rule wp_conseq, rule Cons.IH) (rule later [OF g], assumption)+
  next
    fix s2 :: "'a ctl" assume "ct_tasks s2 = ct_tasks s1"
    thus "served_to (e # es) s False s2" using that by (intro served_to_same) simp_all
  qed
  show ?case
    unfolding serve.simps
    apply (rule wp_bnd, rule wp_conseq, rule wp_next_check_tasks)
     apply (rule wp_case_option)
      apply (rule wp_bnd, rule wp_conseq, rule wp_renew_tasks)
       apply (auto intro!: wp_ret served_to_same event)
    done
qed

text \<open>C40. In a session no proxy request is answered twice, under another id, or without having come; and every request whose event
  the session served has a task of its own, so where no task is lost each is answered exactly once: all of them while the session
  lasts, those before its end otherwise. The order of the answers is open.\<close>

theorem session_answers:
  assumes "serve v ch es s = (r, s')"
  shows "\<exists>n ts. ct_tasks s' = ct_tasks s @ ts \<and> (r = Inr None \<longrightarrow> n = length es) \<and>
    (\<forall>ms. deliveries S ts ms \<longrightarrow> mset (response_ids ms) \<subseteq># mset (request_ids (take n es)) \<and>
       (length ms = length ts \<longrightarrow> mset (response_ids ms) = mset (request_ids (take n es))))"
proof -
  have "served_to es s (r = Inr None) s'" using wp_result [OF wp_serve assms] by (cases r) auto
  then obtain n ts where "ct_tasks s' = ct_tasks s @ ts" "task_ids ts = request_ids (take n es)" "r = Inr None \<longrightarrow> n = length es"
    by (auto simp: served_to_def tasks_grow_def)
  thus ?thesis using deliveries_ids [of S ts] by metis
qed

text \<open>A session with a renewal in a month and two requests.\<close>

definition demo_request :: "string \<Rightarrow> event" where
  "demo_request i = Arrives (ProxyRequest \<lparr>pr_request_id = i, pr_method = ''GET'', pr_path = ''/api/vlans'', pr_content_type = [], pr_body = []\<rparr>)"

definition demo_served :: "nat ctl" where
  "demo_served = demo_ctl\<lparr>ct_state := (ct_state demo_ctl)\<lparr>st_renew_after_unix := Some 2592000\<rparr>\<rparr>"

lemma demo_serve: "fst (serve demo_daemon () [demo_request ''r1'', StatsTick, demo_request ''r2''] demo_served) = Inr None"
  by (simp add: demo_served_def demo_ctl_def demo_daemon_def demo_request_def next_check_def on_event_def io_run now_unix_def get_state_def update_status_def
    set_doc_def on_files_def spawn_task_def no_enrollment_def Let_def split: prod.split sum.split)

theorem session_answers_witness:
  "\<exists>ts. ct_tasks (snd (serve demo_daemon () [demo_request ''r1'', StatsTick, demo_request ''r2''] demo_served)) = ts \<and>
     (\<forall>ms :: nat device_message list. deliveries TYPE('s) ts ms \<and> length ms = length ts \<longrightarrow> mset (response_ids ms) = {#''r1'', ''r2''#})"
proof -
  let ?es = "[demo_request ''r1'', StatsTick, demo_request ''r2'']"
  obtain n ts where n: "ct_tasks (snd (serve demo_daemon () ?es demo_served)) = ts" "n = length ?es"
    "\<forall>ms :: nat device_message list. deliveries TYPE('s) ts ms \<longrightarrow> mset (response_ids ms) \<subseteq># mset (request_ids (take n ?es)) \<and>
       (length ms = length ts \<longrightarrow> mset (response_ids ms) = mset (request_ids (take n ?es)))"
    using session_answers [OF surjective_pairing, of demo_daemon "()" ?es demo_served "TYPE('s)"] demo_serve
    by (auto simp: demo_served_def demo_ctl_def)
  have "mset (request_ids ?es) = {#''r1'', ''r2''#}" by (simp add: request_ids_def demo_request_def map_filter_simps)
  with n show ?thesis by auto
qed

end
