(* ===== verification/Spec2Isabelle.thy ===== *)
theory Spec2Isabelle
  imports AclProps L3Props StaticRouteProps RouterProps SwitchingProps Locks Counters PolicyProps QosProps VrrpProps VxlanProps
    ApiProps MaintenanceProps SysPlatform BfdProps BgpProps StpProps FdbProps MclagProps AaaProps UsersProps Channel
begin

text \<open>
  A development of quartz-sonic, the agent that runs on a SONiC switch and lets a controller read and write the
  configuration of the switch. The controller's calls arrive as HTTP-like requests (\<^verbatim>\<open>src/src/sonic/mgmtapi.rs\<close>);
  the router picks an operation of a feature module, and the operation reads and writes the redis databases of SONiC
  (CONFIG_DB and its siblings), runs \<open>vtysh\<close>, \<open>config\<close> and \<open>docker\<close> commands and reads files, all through the trait
  \<open>Platform\<close> (\<^verbatim>\<open>src/src/sonic/store.rs\<close>).

  Around this core lies the agent itself: \<^verbatim>\<open>src/src/cli\<close> and \<^verbatim>\<open>src/src/enrollment\<close> enroll the switch with a token of the
  controller, \<^verbatim>\<open>src/src/identity\<close> and \<^verbatim>\<open>src/src/state.rs\<close> keep its key, certificates and state on disk, and
  \<^verbatim>\<open>src/src/control\<close> holds the connection over which the calls arrive, renews the certificate and reconnects.

  \<^bold>\<open>How the code is modelled.\<close> An operation is a function from the state of the platform to a result and the next state
  (\<open>io\<close>, in \<open>Store\<close>), written with \<open>bnd\<close>, \<open>ret\<close>, \<open>fail\<close>, \<open>guard\<close> and \<open>for_each\<close> in the order of the source, so that every
  early return is a \<open>fail\<close> with the constructor of \<open>WriteError\<close> and its message. The trait is the record \<open>platform\<close> over
  an arbitrary state type. Texts are byte strings; machine integers are naturals with their bound checked by the
  parser (\<open>parse_uint\<close>) and saturating or wrapping arithmetic written out. What redis documents is the locale
  \<open>redis_store\<close> and its extensions (\<open>StoreLaws\<close>, \<open>Probe\<close>): a view of the databases, what each command does to it, and that
  a failed command changes nothing; \<open>query_store\<close> adds that reads only fail while the server is down, and
  \<open>readable_store\<close> and \<open>full_store\<close> that they do not fail. The in-memory platform of \<^verbatim>\<open>store.rs\<close> (module \<open>mem\<close>) is defined in
  \<open>MemPlatform\<close>, which interprets every one of these locales on it; the witnesses evaluate on it.

  \<^bold>\<open>The theories.\<close>

  \<^item> \<open>Prelude\<close>, \<open>RustStd\<close>, \<open>TextLaws\<close>: lists and maps; the functions of Rust's standard library that the source calls
    (\<open>split\<close>, \<open>trim\<close>, \<open>lines\<close>, \<open>parse\<close>, \<open>strip_prefix\<close>), and their laws.
  \<^item> \<open>Store\<close>, \<open>StoreLaws\<close>, \<open>MemPlatform\<close>: \<^verbatim>\<open>store.rs\<close> with the rollback batch, its laws, the in-memory platform.
    \<open>Locks\<close>: the mutexes of \<open>feature_lock\<close>.
  \<^item> \<open>Probe\<close>: \<^verbatim>\<open>probe.rs\<close>. \<open>Ip\<close>, \<open>Json\<close>: the address parsers of the standard library and the JSON documents.
  \<^item> \<open>Acl\<close>, \<open>L3\<close>, \<open>StaticRoutes\<close>, \<open>Policy\<close>, \<open>Qos\<close>, \<open>Vrrp\<close>, \<open>Vxlan\<close>: the feature modules of the same names, each with a
    theory of its properties (\<open>AclProps\<close> and so on).
  \<^item> \<open>SwitchBase\<close>, \<open>SwitchingRead\<close>, \<open>SwitchingWrite\<close>: \<^verbatim>\<open>switching.rs\<close>, whose operations hold a redis connection of their own
    (\<open>redis\<close>); \<open>SwitchingLaws\<close>, \<open>MemRedis\<close>, \<open>SwitchingProps\<close>.
  \<^item> \<open>Feature\<close>: the idioms of the smaller feature modules (CONFIG_DB commands of a handler, range checks, patches of
    fields), and the modules themselves, one theory each: \<open>Stp\<close>, \<open>Lldp\<close>, \<open>Igmp\<close>, \<open>Mirror\<close>, \<open>StormControl\<close>, \<open>Fdb\<close>, \<open>Sflow\<close>,
    \<open>DhcpRelay\<close>, \<open>Mclag\<close>, \<open>Aaa\<close>, \<open>Ospf\<close>, \<open>Isis\<close>, \<open>Bfd\<close>, \<open>Bgp\<close>; \<open>SysConf\<close>, \<open>Users\<close> and \<open>Maintenance\<close> share \<^verbatim>\<open>system.rs\<close>.
    \<open>MaintenanceProps\<close> holds the calendar behind \<open>rfc3339\<close>.
  \<^item> \<open>Router\<close>, \<open>RouterProps\<close>: the routing functions of \<^verbatim>\<open>mgmtapi.rs\<close>. \<open>Api\<close>: \<open>Api::call\<close>, which hands every route to its handler
    and maps outcomes to answers. \<open>Readers\<close> and \<open>Refusals\<close> classify the handlers (reading; changing nothing when they
    refuse), \<open>ApiProps\<close> draws the conclusions for every call.
  \<^item> \<open>SysPlatform\<close>: the live platform of \<^verbatim>\<open>store.rs\<close> with its connection cache and the SCAN loop of \<^verbatim>\<open>mod.rs\<close>, over a redis
    server and an operating system that are parameters.
  \<^item> \<open>BfdProps\<close>, \<open>BgpProps\<close>, \<open>StpProps\<close>, \<open>FdbProps\<close>, \<open>MclagProps\<close>, \<open>AaaProps\<close>, \<open>UsersProps\<close>: what the modules of these names
    promise.
  \<^item> \<open>Token\<close>: \<^verbatim>\<open>token.rs\<close>. \<open>DeviceId\<close>: \<^verbatim>\<open>deviceid.rs\<close>. \<open>Disk\<close>: the files with their modes and a schedule of faults, and the
    two writers of \<^verbatim>\<open>identity/mod.rs\<close>, whose contract is the locale \<open>replacing\<close>; \<open>Identity\<close>: the rest of that file;
    \<open>AgentState\<close>: \<^verbatim>\<open>state.rs\<close>.
  \<^item> \<open>TlsPin\<close>: \<^verbatim>\<open>tls.rs\<close>. \<open>Enroll\<close>: \<^verbatim>\<open>enrollment/mod.rs\<close>. \<open>Cli\<close>: \<^verbatim>\<open>cli/mod.rs\<close>. \<open>Control\<close>: \<^verbatim>\<open>control/mod.rs\<close> and
    \<^verbatim>\<open>daemon.rs\<close>; a session is a function of the list of its events, the reconnect loop of the list of its rounds. \<open>Channel\<close>:
    the messages a session sends, with the calls of \<open>Api\<close> and the snapshot of \<^verbatim>\<open>telemetry.rs\<close>.
  \<^item> \<open>Counters\<close>, \<open>HostFacts\<close>: the interface counters and the system facts of \<^verbatim>\<open>mod.rs\<close>, two parsers of \<^verbatim>\<open>stats.rs\<close>.

  \<^bold>\<open>What the lemmas show.\<close> The writes: a successful operation takes the view of the databases to the state its request
  describes and touches nothing else, and one that fails says what is left unchanged; these are proved with the
  weakest-precondition rules \<open>wp\<close> of \<open>StoreLaws\<close>. The codecs (rows, vtysh lines, URLs): writing and reading back is the
  identity on validated input. The guards: nothing that is still referenced is deleted. The agent: a token is parsed to its
  parts, the messages of an enrollment with the secret among them go over one connection, to a gateway with the pinned
  certificate, a key on disk is kept, a state that says enrolled has its key and certificates after any
  sequence of commands, daemon runs and failed system calls (\<open>agent_step\<close>), the waits of the reconnect loop follow the
  outcomes of its rounds (\<open>series_ok\<close>), and no request of a session is answered twice or under another id. There is no fuel: every loop of the modelled code is
  structural or has a termination proof; the loops that run for ever (reconnecting, serving, parking) are taken for any
  number of rounds, events or ticks.

  \<^bold>\<open>Conditions on redis.\<close> Two conditions are about a run, not promises of the server. The rollback of a failed batch is
  best-effort (\<^verbatim>\<open>store.rs\<close>): that a failed write leaves nothing behind is claimed only where every command after the failed one
  succeeds (\<open>one_fault_store\<close>), and the properties of writers say so, next to what they claim on every \<open>redis_store\<close>. The readers
  \<open>row_of\<close> and \<open>keys_of\<close> take a failed read for an empty row or no key: what rests on them is claimed only where no read
  fails (\<open>live_store\<close>, \<open>readable_store\<close>, \<open>full_store\<close>), and for some of them a lemma shows what a failed read does
  (\<open>l3_delete_vrf_read_failure\<close>, \<open>qos_delete_scan_failure\<close>, \<open>vxlan_put_scan_failure\<close>, \<open>vrrp_own_scan_failure\<close>).

  \<^bold>\<open>Assumptions.\<close> The order of a Rust \<open>HashMap\<close> is a parameter of a run; the models iterate in the order in which the
  keys were inserted, and where the order shows in a result the property does not depend on it. Where the source calls
  code that is not part of the repository (the parser of JSON texts), that code is an argument of the definitions.

  What a disk can do is any schedule of faults: each system call works, fails, or, for a write, stops after some bytes. The
  code never cleans up after a failure, so a crash at a call leaves the files of a failure at it. The check for a file is a system
  call too, and reads its own failure as an absent file (\<open>stat_error_new_key\<close>). The tasks a session starts run at the same time:
  what each finds on the platform, the order in which they end and which of their messages still get out are left open
  (\<open>deliveries\<close>). A worker task of \<open>run_blocking\<close> may be cancelled before it starts. What the network, the
  controller, the clock and the libraries for TLS, X.509, PEM, Ed25519 and JSON do are parameters; a theorem holds for all of
  them, under the hypotheses it names (SHA-256 gives 32 bytes, a written key is read back).

  \<^bold>\<open>Not modelled.\<close> The gauges of \<^verbatim>\<open>stats.rs\<close> in floating point, its sockets and clocks: HOL's reals are not IEEE
  doubles, and the library has no model of them. A panic inside a handler, threads that wait for a feature lock, the tokio runtime,
  the signals that end the daemon, and the tracing lines. The interleaving of a command with a running daemon is modelled only at the points
  where one of them has finished. The argument parser and \<open>main\<close>, the build script and the tests.
\<close>

end
